(* ===== verification/Prelude.thy ===== *)
theory Prelude
  imports Main "HOL-Library.List_Lexorder" "HOL-Library.Char_ord" "HOL-Library.AList"
    "HOL-Library.Multiset"
begin

text \<open>
  The prelude of the zen-brain1 development: the Go notions every component uses.

  \<^item> A Go string is a byte sequence, so it is a \<open>string\<close> of HOL (a list of 8-bit characters);
    \<open>len\<close> is \<open>length\<close>, \<open><\<close> on strings is the lexicographic order of the bytes.
  \<^item> \<open>strings.TrimSpace\<close>, \<open>strings.HasPrefix\<close>, \<open>strings.TrimPrefix\<close>, \<open>strings.Contains\<close>
    and \<open>strings.ToLower\<close> are the functions \<open>trim_space\<close>, \<open>has_prefix\<close>, \<open>trim_prefix\<close>,
    \<open>contains_str\<close> and \<open>to_lower\<close>.
  \<^item> \<open>time.Time\<close> is an \<open>int\<close>, the nanoseconds since Go's zero time, so the zero time is 0;
    \<open>time.Duration\<close> is an \<open>int\<close> of nanoseconds, and \<open>Time.Sub\<close> saturates at the range of
    a 64-bit duration, as the library does.
  \<^item> \<open>strconv.Itoa\<close> (the verb \<open>%d\<close>) is \<open>itoa\<close>.
\<close>

named_theorems go_string \<open>simplification rules of the string functions\<close>
named_theorems go_time \<open>definitions of the time operations\<close>

subsection \<open>Generic lemmas\<close>

lemma find_Some_set: "find P xs = Some x \<Longrightarrow> x \<in> set xs \<and> P x"
  by (induction xs) (auto split: if_splits)

lemma find_None_all: "find P xs = None \<longleftrightarrow> (\<forall>x \<in> set xs. \<not> P x)"
  by (induction xs) auto

text \<open>A chain of checks that stops at the first error: when no check fails.\<close>

lemma if_Some_None_iff: "(if b then Some x else y) = None \<longleftrightarrow> \<not> b \<and> y = None"
  by simp

lemma case_option_None_iff:
  "(case x of None \<Rightarrow> y | Some e \<Rightarrow> Some (f e)) = None \<longleftrightarrow> x = None \<and> y = None"
  by (simp split: option.split)

lemma fold_invariant:
  assumes "P s" and "\<And>x s. x \<in> set xs \<Longrightarrow> P s \<Longrightarrow> P (f x s)"
  shows "P (fold f xs s)"
  using assms by (induction xs arbitrary: s) auto

subsection \<open>Go maps that are iterated\<close>

text \<open>
  A Go map that the code only reads by key is a HOL map. One that it ranges over is an association
  list with distinct keys, because \<open>range\<close> visits the entries in an order the runtime chooses
  anew each time. The choice is a parameter \<open>r\<close>, a ranking of the keys: \<open>go_range r m\<close> is the
  visit by ascending rank. Any ranking is a legal choice and every order of visit has a ranking
  (\<open>go_range_any_order\<close>), so a statement for all \<open>r\<close> holds for every order of iteration.
\<close>

type_synonym ('k, 'v) gomap = "('k \<times> 'v) list"

definition go_range :: "('k \<Rightarrow> nat) \<Rightarrow> ('k, 'v) gomap \<Rightarrow> ('k \<times> 'v) list" where
  "go_range r m = sort_key (\<lambda>(k, v). r k) m"

definition gomap_ok :: "('k, 'v) gomap \<Rightarrow> bool" where
  "gomap_ok m \<longleftrightarrow> distinct (map fst m)"

lemma mset_go_range [simp]: "mset (go_range r m) = mset m"
  by (simp add: go_range_def)

lemma set_go_range [simp]: "set (go_range r m) = set m"
  by (simp add: go_range_def)

lemma length_go_range [simp]: "length (go_range r m) = length m"
  by (simp add: go_range_def)

lemma go_range_Nil [simp]: "go_range r [] = []"
  by (simp add: go_range_def)

lemma gomap_ok_Nil [simp]: "gomap_ok []"
  by (simp add: gomap_ok_def)

lemma gomap_ok_update [simp]: "gomap_ok m \<Longrightarrow> gomap_ok (AList.update k v m)"
  by (simp add: gomap_ok_def distinct_update)

lemma gomap_ok_delete [simp]: "gomap_ok m \<Longrightarrow> gomap_ok (AList.delete k m)"
  by (simp add: gomap_ok_def distinct_delete)

lemma gomap_in_set: "gomap_ok m \<Longrightarrow> (k, v) \<in> set m \<longleftrightarrow> map_of m k = Some v"
  by (simp add: gomap_ok_def)

lemma distinct_go_range: "gomap_ok m \<Longrightarrow> distinct (map fst (go_range r m))"
  unfolding gomap_ok_def by (metis mset_go_range mset_map mset_eq_imp_distinct_iff)

lemma go_range_any_order:
  assumes "gomap_ok m" and "mset xs = mset m"
  shows "\<exists>r. go_range r m = xs"
proof -
  have d: "distinct (map fst xs)"
    using assms unfolding gomap_ok_def by (metis mset_eq_imp_distinct_iff mset_map)
  define r where "r k = length (takeWhile (\<lambda>x. fst x \<noteq> k) xs)" for k
  have rank: "r (fst (xs ! i)) = i" if "i < length xs" for i
  proof -
    have "takeWhile (\<lambda>x. fst x \<noteq> fst (xs ! i)) xs = take i xs"
    proof (rule takeWhile_eq_take_P_nth)
      fix j assume "j < i" "j < length xs"
      then show "fst (xs ! j) \<noteq> fst (xs ! i)"
        using d that by (metis length_map less_irrefl nth_eq_iff_index_eq nth_map)
    qed simp
    then show ?thesis using that by (simp add: r_def)
  qed
  have "sorted (map (\<lambda>(k, v). r k) xs)"
    unfolding sorted_iff_nth_mono by (auto simp: rank case_prod_beta)
  moreover have "inj_on (\<lambda>(k, v). r k) (set xs)"
  proof (rule inj_onI)
    fix p q
    assume "p \<in> set xs" "q \<in> set xs" and eq: "(case p of (k, v) \<Rightarrow> r k) = (case q of (k, v) \<Rightarrow> r k)"
    then obtain i j where "i < length xs" "p = xs ! i" "j < length xs" "q = xs ! j"
      by (auto simp: in_set_conv_nth)
    with eq show "p = q" using rank [of i] rank [of j] by (simp add: case_prod_beta)
  qed
  ultimately have "go_range r m = xs"
    unfolding go_range_def using assms(2)
    by (intro sort_key_inj_key_eq) (metis mset_eq_setD)+
  then show ?thesis by blast
qed

subsection \<open>Panics\<close>

text \<open>The outcome of a call that may dereference nil.\<close>

datatype 'a go_result = Returns 'a | Panic

subsection \<open>Prefixes and substrings\<close>

fun has_prefix :: "string \<Rightarrow> string \<Rightarrow> bool" where
  "has_prefix s [] = True"
| "has_prefix [] (p # ps) = False"
| "has_prefix (c # s) (p # ps) = (c = p \<and> has_prefix s ps)"

lemma has_prefix_iff: "has_prefix s p \<longleftrightarrow> (\<exists>t. s = p @ t)"
  by (induction s p rule: has_prefix.induct) auto

lemma has_prefix_append [simp, go_string]: "has_prefix (p @ s) p"
  by (auto simp: has_prefix_iff)

lemma has_prefix_mono: "has_prefix s p \<Longrightarrow> has_prefix (s @ t) p"
  by (auto simp: has_prefix_iff)

definition trim_prefix :: "string \<Rightarrow> string \<Rightarrow> string" where
  "trim_prefix s p = (if has_prefix s p then drop (length p) s else s)"

lemma trim_prefix_append [simp, go_string]: "trim_prefix (p @ s) p = s"
  by (simp add: trim_prefix_def)

fun contains_str :: "string \<Rightarrow> string \<Rightarrow> bool" where
  "contains_str [] p = (p = [])"
| "contains_str (c # s) p = (has_prefix (c # s) p \<or> contains_str s p)"

lemma has_prefix_Nil_iff [simp]: "has_prefix [] p \<longleftrightarrow> p = []"
  by (cases p) auto

lemma contains_str_iff: "contains_str s p \<longleftrightarrow> (\<exists>a b. s = a @ p @ b)"
proof (induction s)
  case Nil
  then show ?case by auto
next
  case (Cons c s)
  have "(\<exists>a b. c # s = a @ p @ b) \<longleftrightarrow> (\<exists>b. c # s = p @ b) \<or> (\<exists>a b. s = a @ p @ b)"
    by (metis append_Cons append_Nil list.exhaust list.inject)
  then show ?case using Cons by (simp add: has_prefix_iff)
qed

subsection \<open>White space\<close>

text \<open>
  \<open>unicode.IsSpace\<close> on UTF-8 text: the encodings of the runes it accepts (tab, LF, VT, FF, CR,
  space, U+0085, U+00A0, U+1680, U+2000 to U+200A, U+2028, U+2029, U+202F, U+205F, U+3000).
  No encoding is a proper prefix or suffix of another, so dropping one at a time is what
  \<open>TrimSpace\<close> does from either end.
\<close>

definition space_runes :: "string list" where
  "space_runes =
     [[CHR 0x09], [CHR 0x0A], [CHR 0x0B], [CHR 0x0C], [CHR 0x0D], [CHR 0x20],
      [CHR 0xC2, CHR 0x85], [CHR 0xC2, CHR 0xA0], [CHR 0xE1, CHR 0x9A, CHR 0x80],
      [CHR 0xE2, CHR 0x80, CHR 0x80], [CHR 0xE2, CHR 0x80, CHR 0x81],
      [CHR 0xE2, CHR 0x80, CHR 0x82], [CHR 0xE2, CHR 0x80, CHR 0x83],
      [CHR 0xE2, CHR 0x80, CHR 0x84], [CHR 0xE2, CHR 0x80, CHR 0x85],
      [CHR 0xE2, CHR 0x80, CHR 0x86], [CHR 0xE2, CHR 0x80, CHR 0x87],
      [CHR 0xE2, CHR 0x80, CHR 0x88], [CHR 0xE2, CHR 0x80, CHR 0x89],
      [CHR 0xE2, CHR 0x80, CHR 0x8A], [CHR 0xE2, CHR 0x80, CHR 0xA8],
      [CHR 0xE2, CHR 0x80, CHR 0xA9], [CHR 0xE2, CHR 0x80, CHR 0xAF],
      [CHR 0xE2, CHR 0x81, CHR 0x9F], [CHR 0xE3, CHR 0x80, CHR 0x80]]"

definition rune_at :: "string list \<Rightarrow> string \<Rightarrow> string option" where
  "rune_at rs s = find (\<lambda>r. r \<noteq> [] \<and> has_prefix s r) rs"

lemma rune_at_Some:
  "rune_at rs s = Some r \<Longrightarrow> r \<in> set rs \<and> r \<noteq> [] \<and> has_prefix s r"
  unfolding rune_at_def by (drule find_Some_set) blast

lemma rune_at_length: "rune_at rs s = Some r \<Longrightarrow> length (drop (length r) s) < length s"
  by (drule rune_at_Some) (auto simp: has_prefix_iff)

function drop_runes :: "string list \<Rightarrow> string \<Rightarrow> string" where
  "drop_runes rs s =
     (case rune_at rs s of None \<Rightarrow> s | Some r \<Rightarrow> drop_runes rs (drop (length r) s))"
  by pat_completeness auto
termination
  by (relation "measure (\<lambda>(rs, s). length s)") (auto dest: rune_at_length)

declare drop_runes.simps [simp del]

definition trim_space :: "string \<Rightarrow> string" where
  "trim_space s =
     rev (drop_runes (map rev space_runes) (rev (drop_runes space_runes s)))"

lemma rune_at_None_iff:
  "rune_at rs s = None \<longleftrightarrow> (\<forall>r \<in> set rs. r = [] \<or> \<not> has_prefix s r)"
  unfolding rune_at_def find_None_all by blast

lemma drop_runes_done: "rune_at rs (drop_runes rs s) = None"
proof (induction rs s rule: drop_runes.induct)
  case (1 rs s)
  then show ?case
    by (cases "rune_at rs s") (simp_all add: drop_runes.simps [of rs s])
qed

lemma drop_runes_stop: "rune_at rs s = None \<Longrightarrow> drop_runes rs s = s"
  by (simp add: drop_runes.simps [of rs s])

lemma drop_runes_suffix: "\<exists>p. s = p @ drop_runes rs s"
proof (induction rs s rule: drop_runes.induct)
  case (1 rs s)
  show ?case
  proof (cases "rune_at rs s")
    case None
    then show ?thesis by (simp add: drop_runes_stop)
  next
    case (Some r)
    then obtain t where s: "s = r @ t" using rune_at_Some has_prefix_iff by blast
    from "1.IH" [OF Some] obtain p where "t = p @ drop_runes rs t" by (auto simp: s)
    moreover have "drop_runes rs s = drop_runes rs t"
      using Some by (simp add: drop_runes.simps [of rs "r @ t"] s)
    ultimately show ?thesis by (auto simp: s intro: exI [of _ "r @ p"])
  qed
qed

lemma rune_at_prefix_None: "rune_at rs (s @ t) = None \<Longrightarrow> rune_at rs s = None"
  unfolding rune_at_None_iff using has_prefix_mono by blast

lemma trim_space_ends:
  "rune_at space_runes (trim_space s) = None"
  "rune_at (map rev space_runes) (rev (trim_space s)) = None"
proof -
  let ?l = "drop_runes space_runes s"
  let ?r = "drop_runes (map rev space_runes) (rev ?l)"
  obtain p where "rev ?l = p @ ?r" using drop_runes_suffix by blast
  then have "?l = rev ?r @ rev p" by (metis rev_append rev_rev_ident)
  then have "rune_at space_runes (rev ?r @ rev p) = None"
    using drop_runes_done [of space_runes s] by simp
  then show "rune_at space_runes (trim_space s) = None"
    unfolding trim_space_def by (rule rune_at_prefix_None)
  show "rune_at (map rev space_runes) (rev (trim_space s)) = None"
    unfolding trim_space_def by (simp add: drop_runes_done)
qed

lemma trim_space_idem [simp, go_string]: "trim_space (trim_space s) = trim_space s"
proof -
  have "trim_space (trim_space s)
      = rev (drop_runes (map rev space_runes) (rev (drop_runes space_runes (trim_space s))))"
    by (simp add: trim_space_def [of "trim_space s"])
  also have "drop_runes space_runes (trim_space s) = trim_space s"
    by (rule drop_runes_stop) (rule trim_space_ends)
  also have "drop_runes (map rev space_runes) (rev (trim_space s)) = rev (trim_space s)"
    by (rule drop_runes_stop) (rule trim_space_ends)
  finally show ?thesis by simp
qed

lemma drop_runes_Nil [simp]: "drop_runes rs [] = []"
  by (metis append_is_Nil_conv drop_runes_suffix)

lemma trim_space_Nil [simp, go_string]: "trim_space [] = []"
  by (simp add: trim_space_def)

subsection \<open>Lower case\<close>

text \<open>
  \<open>strings.ToLower\<close>: exact on ASCII, and on the two runes outside ASCII whose lower case is an
  ASCII letter (U+0130 gives i, U+212A gives k). Any other rune outside ASCII is left as it is:
  its lower case lies outside ASCII too, and every use in the code compares the result with, or
  searches it for, ASCII text, so the answers agree.
\<close>

definition lower_char :: "char \<Rightarrow> char" where
  "lower_char c =
     (if 65 \<le> (of_char c :: nat) \<and> (of_char c :: nat) \<le> 90
      then char_of ((of_char c :: nat) + 32) else c)"

fun to_lower :: "string \<Rightarrow> string" where
  "to_lower [] = []"
| "to_lower (c # s) =
     (if c = CHR 0xC4 \<and> has_prefix s [CHR 0xB0] then CHR ''i'' # to_lower (drop 1 s)
      else if c = CHR 0xE2 \<and> has_prefix s [CHR 0x84, CHR 0xAA] then CHR ''k'' # to_lower (drop 2 s)
      else lower_char c # to_lower s)"

subsection \<open>Decimal numbers\<close>

fun digits_of :: "nat \<Rightarrow> string" where
  "digits_of n =
     (if n < 10 then [char_of (48 + n)] else digits_of (n div 10) @ [char_of (48 + n mod 10)])"

declare digits_of.simps [simp del]

definition itoa :: "int \<Rightarrow> string" where
  "itoa i = (if i < 0 then CHR ''-'' # digits_of (nat (- i)) else digits_of (nat i))"

definition is_digit_char :: "char \<Rightarrow> bool" where
  "is_digit_char c \<longleftrightarrow> 48 \<le> (of_char c :: nat) \<and> (of_char c :: nat) \<le> 57"

fun parse_digits :: "nat \<Rightarrow> string \<Rightarrow> nat" where
  "parse_digits acc [] = acc"
| "parse_digits acc (c # s) = parse_digits (10 * acc + (of_char c - 48)) s"

lemma parse_digits_append:
  "parse_digits acc (s @ t) = parse_digits (parse_digits acc s) t"
  by (induction s arbitrary: acc) auto

lemma digits_of_chars: "c \<in> set (digits_of n) \<Longrightarrow> is_digit_char c"
proof (induction n rule: digits_of.induct)
  case (1 n)
  then show ?case
    by (cases "n < 10") (auto simp: digits_of.simps [of n] is_digit_char_def)
qed

lemma parse_digits_of: "parse_digits 0 (digits_of n) = n"
proof (induction n rule: digits_of.induct)
  case (1 n)
  then show ?case
    by (cases "n < 10") (simp_all add: digits_of.simps [of n] parse_digits_append)
qed

lemma digits_of_inject [simp]: "digits_of m = digits_of n \<longleftrightarrow> m = n"
  by (metis parse_digits_of)

lemma minus_not_in_digits: "CHR ''-'' \<notin> set (digits_of n)"
  using digits_of_chars [of "CHR ''-''" n] by (auto simp: is_digit_char_def)

subsection \<open>Time\<close>

type_synonym time = int
type_synonym duration = int

definition zero_time :: time where
  "zero_time = 0"

definition is_zero_time :: "time \<Rightarrow> bool" where
  "is_zero_time t \<longleftrightarrow> t = 0"

definition time_sub :: "time \<Rightarrow> time \<Rightarrow> duration" where
  "time_sub a b = max (- (2 ^ 63)) (min (2 ^ 63 - 1) (a - b))"

definition time_add :: "time \<Rightarrow> duration \<Rightarrow> time" where
  "time_add t d = t + d"

definition time_before :: "time \<Rightarrow> time \<Rightarrow> bool" where
  "time_before a b \<longleftrightarrow> a < b"

definition time_after :: "time \<Rightarrow> time \<Rightarrow> bool" where
  "time_after a b \<longleftrightarrow> a > b"

definition second :: duration where
  "second = 1000000000"

definition minute :: duration where
  "minute = 60 * second"

definition hour :: duration where
  "hour = 60 * minute"

declare zero_time_def [go_time] is_zero_time_def [go_time] time_sub_def [go_time]
  time_add_def [go_time] time_before_def [go_time] time_after_def [go_time]
  second_def [go_time] minute_def [go_time] hour_def [go_time]

text \<open>
  A handler reads the clock several times. Its model takes the readings as a function:
  \<open>clk i\<close> is what the \<open>i\<close>-th call of \<open>time.Now\<close> in the handler's body returned.
\<close>

type_synonym clock = "nat \<Rightarrow> time"

definition monotone_clock :: "clock \<Rightarrow> bool" where
  "monotone_clock clk \<longleftrightarrow> (\<forall>i. clk i \<le> clk (Suc i))"

end
