(* ===== verification/GoFloat.thy ===== *)
theory GoFloat
  imports Complex_Main Prelude
begin

text \<open>
  Go's \<open>float64\<close>: IEEE 754 binary64 values, with the results of \<open>+ - * /\<close> rounded to nearest,
  ties to even, and the comparisons of Go, which are false on a NaN. A finite value is the exact
  rational it stands for; the two zeros are one value, since no component divides by a zero or
  reads a sign bit. \<open>float_to_int\<close> is the conversion \<open>int(x)\<close>: it truncates towards zero, and
  out of range (where Go leaves the result to the implementation) gives the value of amd64.
\<close>

datatype float64 = Fin rat | PosInf | NegInf | NaN

subsection \<open>Rounding\<close>

definition pow2 :: "int \<Rightarrow> rat" where
  "pow2 e = (if 0 \<le> e then 2 ^ nat e else 1 / 2 ^ nat (- e))"

text \<open>The position of the leading bit: \<open>log2_up n k\<close> is the least \<open>j \<ge> k\<close> with \<open>n < 2 ^ j\<close>.\<close>

function log2_up :: "int \<Rightarrow> nat \<Rightarrow> nat" where
  "log2_up n k = (if n < 2 ^ k then k else log2_up n (Suc k))"
  by pat_completeness auto
termination
proof (relation "measure (\<lambda>(n, k). nat n - k)")
  fix n :: int and k :: nat
  assume "\<not> n < 2 ^ k"
  moreover have "int k < 2 ^ k" using of_nat_less_two_power [of k, where 'a = int] by simp
  ultimately have "k < nat n" by linarith
  then show "((n, Suc k), n, k) \<in> measure (\<lambda>(n, k). nat n - k)" by simp
qed simp

declare log2_up.simps [simp del]

definition floor_log2 :: "rat \<Rightarrow> int" where
  "floor_log2 x =
     (case quotient_of x of (n, d) \<Rightarrow>
        let e = int (log2_up n 0) - int (log2_up d 0)
        in if pow2 e \<le> x then e else e - 1)"

definition round_half_even :: "rat \<Rightarrow> int" where
  "round_half_even y =
     (let f = \<lfloor>y\<rfloor>; r = y - of_int f
      in if r < 1/2 then f else if r > 1/2 then f + 1 else if even f then f else f + 1)"

definition round64 :: "rat \<Rightarrow> float64" where
  "round64 x =
     (if x = 0 then Fin 0
      else
        let e = max (floor_log2 \<bar>x\<bar> - 52) (- 1074);
            v = of_int (round_half_even (\<bar>x\<bar> / pow2 e)) * pow2 e
        in if v \<ge> pow2 1024 then (if x < 0 then NegInf else PosInf)
           else Fin (if x < 0 then - v else v))"

subsection \<open>Arithmetic\<close>

fun fneg :: "float64 \<Rightarrow> float64" where
  "fneg (Fin x) = Fin (- x)"
| "fneg PosInf = NegInf"
| "fneg NegInf = PosInf"
| "fneg NaN = NaN"

fun fadd :: "float64 \<Rightarrow> float64 \<Rightarrow> float64" where
  "fadd NaN _ = NaN"
| "fadd _ NaN = NaN"
| "fadd (Fin x) (Fin y) = round64 (x + y)"
| "fadd PosInf NegInf = NaN"
| "fadd NegInf PosInf = NaN"
| "fadd PosInf _ = PosInf"
| "fadd NegInf _ = NegInf"
| "fadd (Fin x) y = y"

definition fsub :: "float64 \<Rightarrow> float64 \<Rightarrow> float64" where
  "fsub x y = fadd x (fneg y)"

definition inf_of_sign :: "rat \<Rightarrow> float64" where
  "inf_of_sign s = (if s = 0 then NaN else if s < 0 then NegInf else PosInf)"

fun fsgn :: "float64 \<Rightarrow> rat" where
  "fsgn (Fin x) = sgn x"
| "fsgn PosInf = 1"
| "fsgn NegInf = - 1"
| "fsgn NaN = 0"

fun fmul :: "float64 \<Rightarrow> float64 \<Rightarrow> float64" where
  "fmul NaN _ = NaN"
| "fmul _ NaN = NaN"
| "fmul (Fin x) (Fin y) = round64 (x * y)"
| "fmul x y = inf_of_sign (fsgn x * fsgn y)"

fun fdiv :: "float64 \<Rightarrow> float64 \<Rightarrow> float64" where
  "fdiv NaN _ = NaN"
| "fdiv _ NaN = NaN"
| "fdiv (Fin x) (Fin y) = (if y = 0 then inf_of_sign (sgn x) else round64 (x / y))"
| "fdiv (Fin x) _ = Fin 0"
| "fdiv x (Fin y) = inf_of_sign (fsgn x * (if y < 0 then - 1 else 1))"
| "fdiv _ _ = NaN"

definition float_of_int :: "int \<Rightarrow> float64" where
  "float_of_int i = round64 (of_int i)"

definition float_to_int :: "float64 \<Rightarrow> int" where
  "float_to_int x =
     (case x of
        Fin q \<Rightarrow>
          let t = (if q < 0 then - \<lfloor>- q\<rfloor> else \<lfloor>q\<rfloor>)
          in if - (2 ^ 63) \<le> t \<and> t < 2 ^ 63 then t else - (2 ^ 63)
      | _ \<Rightarrow> - (2 ^ 63))"

subsection \<open>Comparison\<close>

fun flt :: "float64 \<Rightarrow> float64 \<Rightarrow> bool" where
  "flt NaN _ = False"
| "flt _ NaN = False"
| "flt (Fin x) (Fin y) = (x < y)"
| "flt NegInf NegInf = False"
| "flt NegInf _ = True"
| "flt _ NegInf = False"
| "flt PosInf _ = False"
| "flt (Fin _) PosInf = True"

definition feq :: "float64 \<Rightarrow> float64 \<Rightarrow> bool" where
  "feq x y \<longleftrightarrow> x \<noteq> NaN \<and> x = y"

definition fle :: "float64 \<Rightarrow> float64 \<Rightarrow> bool" where
  "fle x y \<longleftrightarrow> flt x y \<or> feq x y"

definition fgt :: "float64 \<Rightarrow> float64 \<Rightarrow> bool" where
  "fgt x y \<longleftrightarrow> flt y x"

definition fge :: "float64 \<Rightarrow> float64 \<Rightarrow> bool" where
  "fge x y \<longleftrightarrow> fle y x"

lemma fle_iff_not_lt: "x \<noteq> NaN \<Longrightarrow> y \<noteq> NaN \<Longrightarrow> fle x y \<longleftrightarrow> \<not> flt y x"
  by (cases x; cases y) (auto simp: fle_def feq_def)

lemma flt_irrefl [simp]: "\<not> flt x x"
  by (cases x) auto

lemma flt_NaN [simp]: "\<not> flt x NaN" "\<not> flt NaN x"
  by (cases x, auto)+

lemma fle_NaN [simp]: "\<not> fle x NaN" "\<not> fle NaN x"
  by (auto simp: fle_def feq_def)

lemma flt_trans: "flt x y \<Longrightarrow> flt y z \<Longrightarrow> flt x z"
  by (cases x; cases y; cases z) auto

lemma round64_zero [simp]: "round64 0 = Fin 0"
  by (simp add: round64_def)

end
