(* ===== verification/Contracts.thy ===== *)
theory Contracts
  imports GoFloat
begin

text \<open>
  Package \<open>pkg/contracts\<close>: the canonical data types (\<open>contracts.go\<close>), their validation
  (\<open>validate.go\<close>, \<open>errors.go\<close>) and their normalisation (\<open>normalize.go\<close>).

  An enumeration of the source (\<open>type WorkType string\<close>) is a string type whose constants do not
  exhaust it, so it is \<open>string\<close> here, with one abbreviation per constant. A pointer that may be
  nil is an \<open>option\<close>; nil and empty slices are one value (no function here tells them apart
  but to return the argument itself). A \<open>ValidationError\<close> keeps its field and a structured
  message: the constructor is the format string, its arguments the values formatted into it.
\<close>

subsection \<open>Enumerations\<close>

abbreviation "WorkTypeResearch \<equiv> ''research''"
abbreviation "WorkTypeDesign \<equiv> ''design''"
abbreviation "WorkTypeImplementation \<equiv> ''implementation''"
abbreviation "WorkTypeDebug \<equiv> ''debug''"
abbreviation "WorkTypeRefactor \<equiv> ''refactor''"
abbreviation "WorkTypeDocumentation \<equiv> ''documentation''"
abbreviation "WorkTypeAnalysis \<equiv> ''analysis''"
abbreviation "WorkTypeOperations \<equiv> ''operations''"
abbreviation "WorkTypeSecurity \<equiv> ''security''"
abbreviation "WorkTypeTesting \<equiv> ''testing''"

abbreviation "DomainOffice \<equiv> ''office''"
abbreviation "DomainFactory \<equiv> ''factory''"
abbreviation "DomainSDK \<equiv> ''sdk''"
abbreviation "DomainPolicy \<equiv> ''policy''"
abbreviation "DomainMemory \<equiv> ''memory''"
abbreviation "DomainObservability \<equiv> ''observability''"
abbreviation "DomainInfrastructure \<equiv> ''infrastructure''"
abbreviation "DomainIntegration \<equiv> ''integration''"
abbreviation "DomainCore \<equiv> ''core''"

abbreviation "PriorityCritical \<equiv> ''critical''"
abbreviation "PriorityHigh \<equiv> ''high''"
abbreviation "PriorityMedium \<equiv> ''medium''"
abbreviation "PriorityLow \<equiv> ''low''"
abbreviation "PriorityBackground \<equiv> ''background''"

abbreviation "ModeAutonomous \<equiv> ''autonomous''"
abbreviation "ModeApprovalRequired \<equiv> ''approval_required''"
abbreviation "ModeReadOnly \<equiv> ''read_only''"
abbreviation "ModeSimulationOnly \<equiv> ''simulation_only''"
abbreviation "ModeSupervised \<equiv> ''supervised''"

abbreviation "StatusRequested \<equiv> ''requested''"
abbreviation "StatusAnalyzing \<equiv> ''analyzing''"
abbreviation "StatusAnalyzed \<equiv> ''analyzed''"
abbreviation "StatusPlanning \<equiv> ''planning''"
abbreviation "StatusPlanned \<equiv> ''planned''"
abbreviation "StatusPendingApproval \<equiv> ''pending_approval''"
abbreviation "StatusApproved \<equiv> ''approved''"
abbreviation "StatusQueued \<equiv> ''queued''"
abbreviation "StatusRunning \<equiv> ''running''"
abbreviation "StatusBlocked \<equiv> ''blocked''"
abbreviation "StatusCompleted \<equiv> ''completed''"
abbreviation "StatusFailed \<equiv> ''failed''"
abbreviation "StatusCanceled \<equiv> ''canceled''"

abbreviation "EvidenceNone \<equiv> ''none''"
abbreviation "EvidenceSummary \<equiv> ''summary''"
abbreviation "EvidenceLogs \<equiv> ''logs''"
abbreviation "EvidenceDiff \<equiv> ''diff''"
abbreviation "EvidenceTestResults \<equiv> ''test_results''"
abbreviation "EvidenceFullArtifact \<equiv> ''full_artifact''"

abbreviation "SREDU1DynamicProvisioning \<equiv> ''u1_dynamic_provisioning''"
abbreviation "SREDU2SecurityGates \<equiv> ''u2_security_gates''"
abbreviation "SREDU3DeterministicDelivery \<equiv> ''u3_deterministic_delivery''"
abbreviation "SREDU4Backpressure \<equiv> ''u4_backpressure''"
abbreviation "SREDExperimentalGeneral \<equiv> ''experimental_general''"

abbreviation "ApprovalPending \<equiv> ''pending''"
abbreviation "ApprovalApproved \<equiv> ''approved''"
abbreviation "ApprovalRejected \<equiv> ''rejected''"
abbreviation "ApprovalNotRequired \<equiv> ''not_required''"

text \<open>The declared constants of each enumeration, in the order of its \<open>const\<close> block.\<close>

definition WorkType_consts :: "string list" where
  "WorkType_consts =
     [WorkTypeResearch, WorkTypeDesign, WorkTypeImplementation, WorkTypeDebug, WorkTypeRefactor,
      WorkTypeDocumentation, WorkTypeAnalysis, WorkTypeOperations, WorkTypeSecurity, WorkTypeTesting]"

definition WorkDomain_consts :: "string list" where
  "WorkDomain_consts =
     [DomainOffice, DomainFactory, DomainSDK, DomainPolicy, DomainMemory, DomainObservability,
      DomainInfrastructure, DomainIntegration, DomainCore]"

definition Priority_consts :: "string list" where
  "Priority_consts =
     [PriorityCritical, PriorityHigh, PriorityMedium, PriorityLow, PriorityBackground]"

definition ExecutionMode_consts :: "string list" where
  "ExecutionMode_consts =
     [ModeAutonomous, ModeApprovalRequired, ModeReadOnly, ModeSimulationOnly, ModeSupervised]"

definition WorkStatus_consts :: "string list" where
  "WorkStatus_consts =
     [StatusRequested, StatusAnalyzing, StatusAnalyzed, StatusPlanning, StatusPlanned,
      StatusPendingApproval, StatusApproved, StatusQueued, StatusRunning, StatusBlocked,
      StatusCompleted, StatusFailed, StatusCanceled]"

definition EvidenceRequirement_consts :: "string list" where
  "EvidenceRequirement_consts =
     [EvidenceNone, EvidenceSummary, EvidenceLogs, EvidenceDiff, EvidenceTestResults,
      EvidenceFullArtifact]"

definition SREDTag_consts :: "string list" where
  "SREDTag_consts =
     [SREDU1DynamicProvisioning, SREDU2SecurityGates, SREDU3DeterministicDelivery,
      SREDU4Backpressure, SREDExperimentalGeneral]"

definition ApprovalState_consts :: "string list" where
  "ApprovalState_consts = [ApprovalPending, ApprovalApproved, ApprovalRejected, ApprovalNotRequired]"

subsection \<open>Data types\<close>

record AIAttribution =
  attr_AgentRole :: string
  attr_ModelUsed :: string
  attr_SessionID :: string
  attr_TaskID :: string
  attr_Timestamp :: time

record SourceMetadata =
  src_System :: string
  src_IssueKey :: string
  src_Project :: string
  src_IssueType :: string
  src_ParentKey :: string
  src_EpicKey :: string
  src_Reporter :: string
  src_Assignee :: string
  src_Sprint :: string
  src_CreatedAt :: time
  src_UpdatedAt :: time

record ExecutionConstraints =
  ec_MaxCostUSD :: float64
  ec_TimeoutSeconds :: int
  ec_AllowedClusters :: "string list"
  ec_RequiredApproval :: bool

record WorkTags =
  tags_HumanOrg :: "string list"
  tags_Routing :: "string list"
  tags_Policy :: "string list"
  tags_Analytics :: "string list"
  tags_SRED :: "string list"

record WorkItem =
  wi_ID :: string
  wi_Title :: string
  wi_Summary :: string
  wi_Body :: string
  wi_WorkType :: string
  wi_WorkDomain :: string
  wi_Priority :: string
  wi_ExecutionMode :: string
  wi_Status :: string
  wi_CreatedAt :: time
  wi_UpdatedAt :: time
  wi_ClusterID :: string
  wi_ProjectID :: string
  wi_WorkingDir :: string
  wi_Tags :: WorkTags
  wi_EvidenceRequirement :: string
  wi_SREDDisabled :: bool
  wi_Source :: SourceMetadata
  wi_Attribution :: "AIAttribution option"
  wi_ParentID :: string
  wi_DependsOn :: "string list"
  wi_RequestedBy :: string
  wi_ApprovalState :: string
  wi_PolicyClass :: string
  wi_EvidenceRefs :: "string list"
  wi_SourceRefs :: "string list"
  wi_ExecutionConstraints :: ExecutionConstraints
  wi_KBScopes :: "string list"

record BrainTaskSpec =
  bs_ID :: string
  bs_Title :: string
  bs_Description :: string
  bs_WorkItemID :: string
  bs_SourceKey :: string
  bs_WorkType :: string
  bs_WorkDomain :: string
  bs_Priority :: string
  bs_Objective :: string
  bs_AcceptanceCriteria :: "string list"
  bs_Constraints :: "string list"
  bs_EvidenceRequirement :: string
  bs_SREDTags :: "string list"
  bs_Hypothesis :: string
  bs_EstimatedCostUSD :: float64
  bs_TimeoutSeconds :: int
  bs_MaxRetries :: int
  bs_DependsOn :: "string list"
  bs_KBScopes :: "string list"
  bs_CreatedAt :: time
  bs_UpdatedAt :: time

record WorkItemSnapshot =
  snap_ID :: string
  snap_SourceKey :: string
  snap_Title :: string
  snap_WorkType :: string
  snap_WorkDomain :: string

record AnalysisResult =
  ar_WorkItem :: "WorkItem option"
  ar_BrainTaskSpecs :: "BrainTaskSpec list"
  ar_Confidence :: float64
  ar_AnalysisNotes :: string
  ar_RequiresApproval :: bool
  ar_RecommendedModel :: string
  ar_EstimatedTotalCostUSD :: float64
  ar_AnalyzedAt :: time
  ar_AnalyzedBy :: string
  ar_AnalyzerVersion :: string
  ar_WorkItemSnapshot :: "WorkItemSnapshot option"

subsection \<open>Validity of enumeration values\<close>

definition IsValidWorkType :: "string \<Rightarrow> bool" where
  "IsValidWorkType w \<longleftrightarrow>
     w \<in> {WorkTypeResearch, WorkTypeDesign, WorkTypeImplementation, WorkTypeDebug,
          WorkTypeRefactor, WorkTypeDocumentation, WorkTypeAnalysis, WorkTypeOperations,
          WorkTypeSecurity, WorkTypeTesting}"

definition IsValidWorkDomain :: "string \<Rightarrow> bool" where
  "IsValidWorkDomain d \<longleftrightarrow>
     d \<in> {DomainOffice, DomainFactory, DomainSDK, DomainPolicy, DomainMemory,
          DomainObservability, DomainInfrastructure, DomainIntegration, DomainCore}"

definition IsValidPriority :: "string \<Rightarrow> bool" where
  "IsValidPriority p \<longleftrightarrow>
     p \<in> {PriorityCritical, PriorityHigh, PriorityMedium, PriorityLow, PriorityBackground}"

definition IsValidExecutionMode :: "string \<Rightarrow> bool" where
  "IsValidExecutionMode m \<longleftrightarrow>
     m \<in> {ModeAutonomous, ModeApprovalRequired, ModeReadOnly, ModeSimulationOnly, ModeSupervised}"

definition IsValidWorkStatus :: "string \<Rightarrow> bool" where
  "IsValidWorkStatus s \<longleftrightarrow>
     s \<in> {StatusRequested, StatusAnalyzing, StatusAnalyzed, StatusPlanning, StatusPlanned,
          StatusPendingApproval, StatusApproved, StatusQueued, StatusRunning, StatusBlocked,
          StatusCompleted, StatusFailed, StatusCanceled}"

definition IsValidEvidenceRequirement :: "string \<Rightarrow> bool" where
  "IsValidEvidenceRequirement e \<longleftrightarrow>
     e \<in> {EvidenceNone, EvidenceSummary, EvidenceLogs, EvidenceDiff, EvidenceTestResults,
          EvidenceFullArtifact}"

definition IsValidApprovalState :: "string \<Rightarrow> bool" where
  "IsValidApprovalState a \<longleftrightarrow>
     a \<in> {ApprovalPending, ApprovalApproved, ApprovalRejected, ApprovalNotRequired}"

definition IsValidSREDTag :: "string \<Rightarrow> bool" where
  "IsValidSREDTag t \<longleftrightarrow>
     t \<in> {SREDU1DynamicProvisioning, SREDU2SecurityGates, SREDU3DeterministicDelivery,
          SREDU4Backpressure, SREDExperimentalGeneral}"

lemmas is_valid_defs =
  IsValidWorkType_def IsValidWorkDomain_def IsValidPriority_def IsValidExecutionMode_def
  IsValidWorkStatus_def IsValidEvidenceRequirement_def IsValidApprovalState_def IsValidSREDTag_def

end
