(* ===== verification/Contracts_Validate.thy ===== *)
theory Contracts_Validate
  imports Contracts
begin

text \<open>
  \<open>pkg/contracts/validate.go\<close> and \<open>errors.go\<close>: every validation function, with the errors it
  returns (\<open>None\<close> is Go's nil error), and for each the declarative predicate it decides.
\<close>

subsection \<open>Errors\<close>

datatype vmessage =
    MsgNil string
  | MsgRequired
  | MsgInvalid string string
  | MsgDuplicateTag string string
  | MsgDuplicateSRED string
  | MsgNonNegative
  | MsgSystemRequired
  | MsgEmptyIn string
  | MsgUnitInterval

record ValidationError =
  ve_Field :: string
  ve_Message :: vmessage

abbreviation verr :: "string \<Rightarrow> vmessage \<Rightarrow> ValidationError" where
  "verr f m \<equiv> \<lparr>ve_Field = f, ve_Message = m\<rparr>"

subsection \<open>Parsing\<close>

definition ParseWorkType :: "string \<Rightarrow> ValidationError + string" where
  "ParseWorkType s =
     (let w = trim_space (to_lower s)
      in if IsValidWorkType w then Inr w
         else Inl (verr ''work_type'' (MsgInvalid ''work type'' s)))"

definition ParseWorkDomain :: "string \<Rightarrow> ValidationError + string" where
  "ParseWorkDomain s =
     (let d = trim_space (to_lower s)
      in if IsValidWorkDomain d then Inr d
         else Inl (verr ''work_domain'' (MsgInvalid ''work domain'' s)))"

definition ParsePriority :: "string \<Rightarrow> ValidationError + string" where
  "ParsePriority s =
     (let p = trim_space (to_lower s)
      in if IsValidPriority p then Inr p
         else Inl (verr ''priority'' (MsgInvalid ''priority'' s)))"

definition ParseExecutionMode :: "string \<Rightarrow> ValidationError + string" where
  "ParseExecutionMode s =
     (let m = trim_space (to_lower s)
      in if IsValidExecutionMode m then Inr m
         else Inl (verr ''execution_mode'' (MsgInvalid ''execution mode'' s)))"

definition ParseEvidenceRequirement :: "string \<Rightarrow> ValidationError + string" where
  "ParseEvidenceRequirement s =
     (let e = trim_space (to_lower s)
      in if IsValidEvidenceRequirement e then Inr e
         else Inl (verr ''evidence_requirement'' (MsgInvalid ''evidence requirement'' s)))"

definition ParseApprovalState :: "string \<Rightarrow> ValidationError + string" where
  "ParseApprovalState s =
     (let a = trim_space (to_lower s)
      in if IsValidApprovalState a then Inr a
         else Inl (verr ''approval_state'' (MsgInvalid ''approval state'' s)))"

subsection \<open>Tags\<close>

fun check_string_category :: "string \<Rightarrow> string set \<Rightarrow> string list \<Rightarrow> ValidationError option" where
  "check_string_category category seen [] = None"
| "check_string_category category seen (item # items) =
     (let tag = trim_space item
      in if tag = '''' then check_string_category category seen items
         else if tag \<in> seen then Some (verr (''tags.'' @ category) (MsgDuplicateTag tag category))
         else check_string_category category (insert tag seen) items)"

fun check_sred :: "string set \<Rightarrow> string list \<Rightarrow> ValidationError option" where
  "check_sred seen [] = None"
| "check_sred seen (t # ts) =
     (if \<not> IsValidSREDTag t then Some (verr ''tags.sred'' (MsgInvalid ''SRED tag'' t))
      else if t \<in> seen then Some (verr ''tags.sred'' (MsgDuplicateSRED t))
      else check_sred (insert t seen) ts)"

definition ValidateWorkTags :: "WorkTags \<Rightarrow> ValidationError option" where
  "ValidateWorkTags tags =
     (case check_string_category ''human_org'' {} (tags_HumanOrg tags) of
        Some e \<Rightarrow> Some e
      | None \<Rightarrow>
     (case check_string_category ''routing'' {} (tags_Routing tags) of
        Some e \<Rightarrow> Some e
      | None \<Rightarrow>
     (case check_string_category ''policy'' {} (tags_Policy tags) of
        Some e \<Rightarrow> Some e
      | None \<Rightarrow>
     (case check_string_category ''analytics'' {} (tags_Analytics tags) of
        Some e \<Rightarrow> Some e
      | None \<Rightarrow> check_sred {} (tags_SRED tags)))))"

subsection \<open>Work items\<close>

definition ValidateExecutionConstraints :: "ExecutionConstraints \<Rightarrow> ValidationError option" where
  "ValidateExecutionConstraints c =
     (if flt (ec_MaxCostUSD c) (Fin 0)
      then Some (verr ''execution_constraints.max_cost_usd'' MsgNonNegative)
      else if ec_TimeoutSeconds c < 0
      then Some (verr ''execution_constraints.timeout_seconds'' MsgNonNegative)
      else None)"

definition ValidateWorkItem :: "WorkItem option \<Rightarrow> ValidationError option" where
  "ValidateWorkItem p =
     (case p of
        None \<Rightarrow> Some (verr '''' (MsgNil ''work item''))
      | Some item \<Rightarrow>
        if trim_space (wi_ID item) = '''' then Some (verr ''id'' MsgRequired)
        else if trim_space (wi_Title item) = '''' then Some (verr ''title'' MsgRequired)
        else if wi_WorkType item \<noteq> '''' \<and> \<not> IsValidWorkType (wi_WorkType item)
        then Some (verr ''work_type'' (MsgInvalid ''work type'' (wi_WorkType item)))
        else if wi_WorkDomain item \<noteq> '''' \<and> \<not> IsValidWorkDomain (wi_WorkDomain item)
        then Some (verr ''work_domain'' (MsgInvalid ''work domain'' (wi_WorkDomain item)))
        else if wi_Priority item \<noteq> '''' \<and> \<not> IsValidPriority (wi_Priority item)
        then Some (verr ''priority'' (MsgInvalid ''priority'' (wi_Priority item)))
        else if wi_Status item \<noteq> '''' \<and> \<not> IsValidWorkStatus (wi_Status item)
        then Some (verr ''status'' (MsgInvalid ''status'' (wi_Status item)))
        else if wi_EvidenceRequirement item \<noteq> ''''
                \<and> \<not> IsValidEvidenceRequirement (wi_EvidenceRequirement item)
        then Some (verr ''evidence_requirement''
               (MsgInvalid ''evidence requirement'' (wi_EvidenceRequirement item)))
        else if wi_ApprovalState item \<noteq> '''' \<and> \<not> IsValidApprovalState (wi_ApprovalState item)
        then Some (verr ''approval_state'' (MsgInvalid ''approval state'' (wi_ApprovalState item)))
        else if (src_IssueKey (wi_Source item) \<noteq> '''' \<or> src_Project (wi_Source item) \<noteq> '''')
                \<and> trim_space (src_System (wi_Source item)) = ''''
        then Some (verr ''source.system'' MsgSystemRequired)
        else case ValidateExecutionConstraints (wi_ExecutionConstraints item) of
               Some e \<Rightarrow> Some e
             | None \<Rightarrow> ValidateWorkTags (wi_Tags item))"

subsection \<open>Task specifications and analysis results\<close>

definition ValidateBrainTaskSpec :: "BrainTaskSpec option \<Rightarrow> ValidationError option" where
  "ValidateBrainTaskSpec p =
     (case p of
        None \<Rightarrow> Some (verr '''' (MsgNil ''brain task spec''))
      | Some spec \<Rightarrow>
        if trim_space (bs_ID spec) = '''' then Some (verr ''id'' MsgRequired)
        else if trim_space (bs_Title spec) = '''' then Some (verr ''title'' MsgRequired)
        else if trim_space (bs_WorkItemID spec) = '''' then Some (verr ''work_item_id'' MsgRequired)
        else if trim_space (bs_Objective spec) = '''' then Some (verr ''objective'' MsgRequired)
        else if \<not> IsValidWorkType (bs_WorkType spec)
        then Some (verr ''work_type'' (MsgInvalid ''work type'' (bs_WorkType spec)))
        else if \<not> IsValidWorkDomain (bs_WorkDomain spec)
        then Some (verr ''work_domain'' (MsgInvalid ''work domain'' (bs_WorkDomain spec)))
        else if bs_Priority spec \<noteq> '''' \<and> \<not> IsValidPriority (bs_Priority spec)
        then Some (verr ''priority'' (MsgInvalid ''priority'' (bs_Priority spec)))
        else if bs_EvidenceRequirement spec \<noteq> ''''
                \<and> \<not> IsValidEvidenceRequirement (bs_EvidenceRequirement spec)
        then Some (verr ''evidence_requirement''
               (MsgInvalid ''evidence requirement'' (bs_EvidenceRequirement spec)))
        else if bs_TimeoutSeconds spec < 0 then Some (verr ''timeout_seconds'' MsgNonNegative)
        else if bs_MaxRetries spec < 0 then Some (verr ''max_retries'' MsgNonNegative)
        else if flt (bs_EstimatedCostUSD spec) (Fin 0)
        then Some (verr ''estimated_cost_usd'' MsgNonNegative)
        else if list_ex (\<lambda>i. trim_space i = '''') (bs_DependsOn spec)
        then Some (verr ''depends_on'' (MsgEmptyIn ''depends_on''))
        else if list_ex (\<lambda>i. trim_space i = '''') (bs_KBScopes spec)
        then Some (verr ''kb_scopes'' (MsgEmptyIn ''kb_scopes''))
        else case find (\<lambda>t. \<not> IsValidSREDTag t) (bs_SREDTags spec) of
               Some t \<Rightarrow> Some (verr ''sred_tags'' (MsgInvalid ''SRED tag'' t))
             | None \<Rightarrow> None)"

datatype analysis_error = AEValidation ValidationError | AESpec nat ValidationError

fun validate_specs :: "nat \<Rightarrow> BrainTaskSpec list \<Rightarrow> analysis_error option" where
  "validate_specs i [] = None"
| "validate_specs i (s # ss) =
     (case ValidateBrainTaskSpec (Some s) of
        Some e \<Rightarrow> Some (AESpec i e)
      | None \<Rightarrow> validate_specs (Suc i) ss)"

definition ValidateAnalysisResult :: "AnalysisResult option \<Rightarrow> analysis_error option" where
  "ValidateAnalysisResult p =
     (case p of
        None \<Rightarrow> Some (AEValidation (verr '''' (MsgNil ''analysis result'')))
      | Some result \<Rightarrow>
        (case (case ar_WorkItem result of
                 None \<Rightarrow> None
               | Some item \<Rightarrow> ValidateWorkItem (Some item)) of
           Some e \<Rightarrow> Some (AEValidation e)
         | None \<Rightarrow>
           (case validate_specs 0 (ar_BrainTaskSpecs result) of
              Some e \<Rightarrow> Some e
            | None \<Rightarrow>
              if flt (ar_Confidence result) (Fin 0) \<or> fgt (ar_Confidence result) (Fin 1)
              then Some (AEValidation (verr ''confidence'' MsgUnitInterval))
              else if flt (ar_EstimatedTotalCostUSD result) (Fin 0)
              then Some (AEValidation (verr ''estimated_total_cost_usd'' MsgNonNegative))
              else None)))"

subsection \<open>What the checks decide\<close>

definition tags_of :: "string list \<Rightarrow> string list" where
  "tags_of items = filter (\<lambda>t. t \<noteq> '''') (map trim_space items)"

lemma tags_of_simps [simp]:
  "tags_of [] = []"
  "tags_of (x # xs) = (if trim_space x = '''' then tags_of xs else trim_space x # tags_of xs)"
  by (simp_all add: tags_of_def)

lemma check_string_category_None_iff:
  "check_string_category c seen items = None \<longleftrightarrow>
     distinct (tags_of items) \<and> set (tags_of items) \<inter> seen = {}"
  by (induction items arbitrary: seen) (auto simp: Let_def)

lemma check_sred_None_iff:
  "check_sred seen ts = None \<longleftrightarrow>
     (\<forall>t \<in> set ts. IsValidSREDTag t) \<and> distinct ts \<and> set ts \<inter> seen = {}"
  by (induction ts arbitrary: seen) auto

definition work_tags_ok :: "WorkTags \<Rightarrow> bool" where
  "work_tags_ok tags \<longleftrightarrow>
     distinct (tags_of (tags_HumanOrg tags)) \<and> distinct (tags_of (tags_Routing tags))
     \<and> distinct (tags_of (tags_Policy tags)) \<and> distinct (tags_of (tags_Analytics tags))
     \<and> distinct (tags_SRED tags) \<and> set (tags_SRED tags) \<subseteq> set SREDTag_consts"

lemma IsValidSREDTag_iff: "IsValidSREDTag t \<longleftrightarrow> t \<in> set SREDTag_consts"
  by (simp add: IsValidSREDTag_def SREDTag_consts_def)

lemma ValidateWorkTags_None_iff: "ValidateWorkTags tags = None \<longleftrightarrow> work_tags_ok tags"
  unfolding ValidateWorkTags_def work_tags_ok_def case_option_None_iff
    check_string_category_None_iff check_sred_None_iff IsValidSREDTag_iff by auto

definition enum_ok :: "string list \<Rightarrow> string \<Rightarrow> bool" where
  "enum_ok consts v \<longleftrightarrow> v = '''' \<or> v \<in> set consts"

definition work_item_ok :: "WorkItem \<Rightarrow> bool" where
  "work_item_ok item \<longleftrightarrow>
     trim_space (wi_ID item) \<noteq> '''' \<and> trim_space (wi_Title item) \<noteq> ''''
     \<and> enum_ok WorkType_consts (wi_WorkType item) \<and> enum_ok WorkDomain_consts (wi_WorkDomain item)
     \<and> enum_ok Priority_consts (wi_Priority item) \<and> enum_ok WorkStatus_consts (wi_Status item)
     \<and> enum_ok EvidenceRequirement_consts (wi_EvidenceRequirement item)
     \<and> enum_ok ApprovalState_consts (wi_ApprovalState item)
     \<and> (src_IssueKey (wi_Source item) = '''' \<and> src_Project (wi_Source item) = ''''
        \<or> trim_space (src_System (wi_Source item)) \<noteq> '''')
     \<and> \<not> flt (ec_MaxCostUSD (wi_ExecutionConstraints item)) (Fin 0)
     \<and> 0 \<le> ec_TimeoutSeconds (wi_ExecutionConstraints item)
     \<and> work_tags_ok (wi_Tags item)"

lemma is_valid_consts:
  "IsValidWorkType v \<longleftrightarrow> v \<in> set WorkType_consts"
  "IsValidWorkDomain v \<longleftrightarrow> v \<in> set WorkDomain_consts"
  "IsValidPriority v \<longleftrightarrow> v \<in> set Priority_consts"
  "IsValidExecutionMode v \<longleftrightarrow> v \<in> set ExecutionMode_consts"
  "IsValidWorkStatus v \<longleftrightarrow> v \<in> set WorkStatus_consts"
  "IsValidEvidenceRequirement v \<longleftrightarrow> v \<in> set EvidenceRequirement_consts"
  "IsValidApprovalState v \<longleftrightarrow> v \<in> set ApprovalState_consts"
  unfolding is_valid_defs WorkType_consts_def WorkDomain_consts_def Priority_consts_def
    ExecutionMode_consts_def WorkStatus_consts_def EvidenceRequirement_consts_def
    ApprovalState_consts_def
  by (simp_all only: list.set)

lemma ValidateWorkItem_Some_None_iff: "ValidateWorkItem (Some item) = None \<longleftrightarrow> work_item_ok item"
  unfolding ValidateWorkItem_def work_item_ok_def option.case if_Some_None_iff
    case_option_None_iff is_valid_consts ValidateExecutionConstraints_def
    ValidateWorkTags_None_iff enum_ok_def
  by (auto simp: not_less)

text \<open>
  \<open>ValidateWorkItem\<close> accepts exactly the well-formed work items: a nil item is refused, and
  an item is accepted iff its id and title are not blank, every enumeration field is empty or one
  of the declared constants, the source system is named whenever an issue key or a project is,
  the cost bound and timeout are not negative, and every tag category is free of duplicates
  (after trimming, blank tags ignored) with only declared SR&ED tags.
\<close>

theorem ValidateWorkItem_decides:
  "ValidateWorkItem p = None \<longleftrightarrow> (case p of None \<Rightarrow> False | Some item \<Rightarrow> work_item_ok item)"
  by (cases p) (simp_all add: ValidateWorkItem_Some_None_iff, simp add: ValidateWorkItem_def)

definition spec_ok :: "BrainTaskSpec \<Rightarrow> bool" where
  "spec_ok s \<longleftrightarrow>
     trim_space (bs_ID s) \<noteq> '''' \<and> trim_space (bs_Title s) \<noteq> ''''
     \<and> trim_space (bs_WorkItemID s) \<noteq> '''' \<and> trim_space (bs_Objective s) \<noteq> ''''
     \<and> bs_WorkType s \<in> set WorkType_consts \<and> bs_WorkDomain s \<in> set WorkDomain_consts
     \<and> enum_ok Priority_consts (bs_Priority s)
     \<and> enum_ok EvidenceRequirement_consts (bs_EvidenceRequirement s)
     \<and> 0 \<le> bs_TimeoutSeconds s \<and> 0 \<le> bs_MaxRetries s
     \<and> \<not> flt (bs_EstimatedCostUSD s) (Fin 0)
     \<and> (\<forall>i \<in> set (bs_DependsOn s) \<union> set (bs_KBScopes s). trim_space i \<noteq> '''')
     \<and> set (bs_SREDTags s) \<subseteq> set SREDTag_consts"

lemma ValidateBrainTaskSpec_None_iff: "ValidateBrainTaskSpec (Some s) = None \<longleftrightarrow> spec_ok s"
proof -
  show ?thesis
    unfolding ValidateBrainTaskSpec_def spec_ok_def option.case if_Some_None_iff
      case_option_None_iff find_None_all
      is_valid_consts IsValidSREDTag_iff enum_ok_def list_ex_iff
    by (auto simp: not_less)
qed

lemma validate_specs_None_iff: "validate_specs i ss = None \<longleftrightarrow> (\<forall>s \<in> set ss. spec_ok s)"
  by (induction ss arbitrary: i)
    (simp_all add: case_option_None_iff ValidateBrainTaskSpec_None_iff)

lemma validate_specs_first:
  "validate_specs i ss = Some e \<Longrightarrow>
     \<exists>k v. k < length ss \<and> e = AESpec (i + k) v \<and> ValidateBrainTaskSpec (Some (ss ! k)) = Some v
       \<and> (\<forall>j < k. spec_ok (ss ! j))"
proof (induction ss arbitrary: i)
  case Nil
  then show ?case by simp
next
  case (Cons s ss)
  show ?case
  proof (cases "ValidateBrainTaskSpec (Some s)")
    case None
    then obtain k v where k: "k < length ss" "e = AESpec (Suc i + k) v"
      "ValidateBrainTaskSpec (Some (ss ! k)) = Some v" "\<forall>j < k. spec_ok (ss ! j)"
      using Cons.IH [of "Suc i"] Cons.prems by auto
    have "\<forall>j < Suc k. spec_ok ((s # ss) ! j)"
      using None k(4) by (auto simp: ValidateBrainTaskSpec_None_iff less_Suc_eq_0_disj)
    then show ?thesis using k by (intro exI [of _ "Suc k"] exI [of _ v]) simp
  next
    case (Some v)
    then show ?thesis using Cons.prems by (intro exI [of _ 0] exI [of _ v]) simp
  qed
qed

text \<open>
  \<open>ValidateAnalysisResult\<close> accepts a result iff its work item (when it has one) and all its
  task specifications are well-formed, its estimated cost is not negative and its confidence lies
  in the unit interval or is a NaN: the code refuses a confidence below 0 or above 1, and a NaN
  is neither, so the error text \<open>must be in [0, 1]\<close> does not describe what is accepted.
\<close>

theorem ValidateAnalysisResult_decides:
  "ValidateAnalysisResult (Some r) = None \<longleftrightarrow>
     (\<forall>item. ar_WorkItem r = Some item \<longrightarrow> work_item_ok item)
     \<and> (\<forall>s \<in> set (ar_BrainTaskSpecs r). spec_ok s)
     \<and> (ar_Confidence r = NaN \<or> fle (Fin 0) (ar_Confidence r) \<and> fle (ar_Confidence r) (Fin 1))
     \<and> \<not> flt (ar_EstimatedTotalCostUSD r) (Fin 0)"
proof -
  have conf: "\<not> (flt c (Fin 0) \<or> fgt c (Fin 1)) \<longleftrightarrow> c = NaN \<or> fle (Fin 0) c \<and> fle c (Fin 1)" for c
    by (cases c) (auto simp: fgt_def fle_def feq_def)
  show ?thesis
    unfolding ValidateAnalysisResult_def conf [symmetric] option.case case_option_None_iff
      if_Some_None_iff validate_specs_None_iff
    by (cases "ar_WorkItem r") (auto simp: ValidateWorkItem_Some_None_iff)
qed

text \<open>The confidence NaN is accepted, on an otherwise empty result.\<close>

theorem ValidateAnalysisResult_decides_witness:
  "ValidateAnalysisResult (Some
     \<lparr>ar_WorkItem = None, ar_BrainTaskSpecs = [], ar_Confidence = NaN, ar_AnalysisNotes = '''',
      ar_RequiresApproval = False, ar_RecommendedModel = '''', ar_EstimatedTotalCostUSD = Fin 0,
      ar_AnalyzedAt = 0, ar_AnalyzedBy = '''', ar_AnalyzerVersion = '''',
      ar_WorkItemSnapshot = None\<rparr>) = None"
  unfolding ValidateAnalysisResult_decides by simp

text \<open>
  The parsers accept exactly the declared constants, up to case and surrounding white space, and
  what they return is valid.
\<close>

lemma parse_returns_valid:
  "ParseWorkType s = Inr w \<Longrightarrow> IsValidWorkType w"
  "ParseWorkDomain s = Inr d \<Longrightarrow> IsValidWorkDomain d"
  "ParsePriority s = Inr p \<Longrightarrow> IsValidPriority p"
  "ParseExecutionMode s = Inr m \<Longrightarrow> IsValidExecutionMode m"
  "ParseEvidenceRequirement s = Inr e \<Longrightarrow> IsValidEvidenceRequirement e"
  "ParseApprovalState s = Inr a \<Longrightarrow> IsValidApprovalState a"
  by (simp_all add: ParseWorkType_def ParseWorkDomain_def ParsePriority_def ParseExecutionMode_def
      ParseEvidenceRequirement_def ParseApprovalState_def Let_def split: if_splits)

end
