(* ===== verification/Contracts_Normalize.thy ===== *)
theory Contracts_Normalize
  imports Contracts_Validate
begin

text \<open>
  \<open>pkg/contracts/normalize.go\<close>: trimming, sorting and deduplication of work items and task
  specifications. A function that mutates the struct behind its pointer returns the new struct;
  on a nil pointer (\<open>None\<close>) it does nothing.
\<close>

subsection \<open>Sort and dedupe\<close>

fun dedupe_strings :: "string set \<Rightarrow> string list \<Rightarrow> string list" where
  "dedupe_strings seen [] = []"
| "dedupe_strings seen (v0 # vs) =
     (let v = trim_space v0
      in if v = '''' \<or> v \<in> seen then dedupe_strings seen vs
         else v # dedupe_strings (insert v seen) vs)"

definition sortDedupeStrings :: "string list \<Rightarrow> string list" where
  "sortDedupeStrings s = (if length s = 0 then s else sort (dedupe_strings {} s))"

fun dedupe_tags :: "string set \<Rightarrow> string list \<Rightarrow> string list" where
  "dedupe_tags seen [] = []"
| "dedupe_tags seen (v # vs) =
     (if v \<in> seen then dedupe_tags seen vs else v # dedupe_tags (insert v seen) vs)"

definition sortDedupeSREDTags :: "string list \<Rightarrow> string list" where
  "sortDedupeSREDTags s = (if length s = 0 then s else sort (dedupe_tags {} s))"

subsection \<open>Normalisation\<close>

definition normalizeWorkTags :: "WorkTags \<Rightarrow> WorkTags" where
  "normalizeWorkTags tags = tags
     \<lparr>tags_HumanOrg := sortDedupeStrings (tags_HumanOrg tags),
      tags_Routing := sortDedupeStrings (tags_Routing tags),
      tags_Policy := sortDedupeStrings (tags_Policy tags),
      tags_Analytics := sortDedupeStrings (tags_Analytics tags),
      tags_SRED := sortDedupeSREDTags (tags_SRED tags)\<rparr>"

definition normalizeExecutionConstraints :: "ExecutionConstraints \<Rightarrow> ExecutionConstraints" where
  "normalizeExecutionConstraints c =
     c\<lparr>ec_AllowedClusters := sortDedupeStrings (ec_AllowedClusters c)\<rparr>"

definition normalize_work_item :: "WorkItem \<Rightarrow> WorkItem" where
  "normalize_work_item item = item
     \<lparr>wi_ID := trim_space (wi_ID item),
      wi_Title := trim_space (wi_Title item),
      wi_Summary := trim_space (wi_Summary item),
      wi_Body := trim_space (wi_Body item),
      wi_ClusterID := trim_space (wi_ClusterID item),
      wi_ProjectID := trim_space (wi_ProjectID item),
      wi_WorkingDir := trim_space (wi_WorkingDir item),
      wi_ParentID := trim_space (wi_ParentID item),
      wi_RequestedBy := trim_space (wi_RequestedBy item),
      wi_PolicyClass := trim_space (wi_PolicyClass item),
      wi_Tags := normalizeWorkTags (wi_Tags item),
      wi_DependsOn := sortDedupeStrings (wi_DependsOn item),
      wi_EvidenceRefs := sortDedupeStrings (wi_EvidenceRefs item),
      wi_SourceRefs := sortDedupeStrings (wi_SourceRefs item),
      wi_KBScopes := sortDedupeStrings (wi_KBScopes item),
      wi_ExecutionConstraints := normalizeExecutionConstraints (wi_ExecutionConstraints item)\<rparr>"

definition NormalizeWorkItem :: "WorkItem option \<Rightarrow> WorkItem option" where
  "NormalizeWorkItem p = (case p of None \<Rightarrow> None | Some item \<Rightarrow> Some (normalize_work_item item))"

definition normalize_spec :: "BrainTaskSpec \<Rightarrow> BrainTaskSpec" where
  "normalize_spec spec = spec
     \<lparr>bs_ID := trim_space (bs_ID spec),
      bs_Title := trim_space (bs_Title spec),
      bs_Description := trim_space (bs_Description spec),
      bs_WorkItemID := trim_space (bs_WorkItemID spec),
      bs_SourceKey := trim_space (bs_SourceKey spec),
      bs_Objective := trim_space (bs_Objective spec),
      bs_Hypothesis := trim_space (bs_Hypothesis spec),
      bs_DependsOn := sortDedupeStrings (bs_DependsOn spec),
      bs_KBScopes := sortDedupeStrings (bs_KBScopes spec),
      bs_SREDTags := sortDedupeSREDTags (bs_SREDTags spec),
      bs_AcceptanceCriteria := map trim_space (bs_AcceptanceCriteria spec),
      bs_Constraints := map trim_space (bs_Constraints spec)\<rparr>"

definition NormalizeBrainTaskSpec :: "BrainTaskSpec option \<Rightarrow> BrainTaskSpec option" where
  "NormalizeBrainTaskSpec p = (case p of None \<Rightarrow> None | Some spec \<Rightarrow> Some (normalize_spec spec))"

subsection \<open>Sort and dedupe: what the routine computes\<close>

lemma dedupe_strings_eq: "dedupe_strings seen vs = dedupe_tags seen (tags_of vs)"
  by (induction vs arbitrary: seen) (auto simp: Let_def)

lemma set_dedupe_tags: "set (dedupe_tags seen vs) = set vs - seen"
  by (induction vs arbitrary: seen) auto

lemma distinct_dedupe_tags: "distinct (dedupe_tags seen vs)"
  by (induction vs arbitrary: seen) (auto simp: set_dedupe_tags)

lemma dedupe_tags_distinct: "distinct vs \<Longrightarrow> set vs \<inter> seen = {} \<Longrightarrow> dedupe_tags seen vs = vs"
  by (induction vs arbitrary: seen) auto

lemma sort_dedupe_tags: "sort (dedupe_tags {} vs) = sorted_list_of_set (set vs)"
  by (metis Diff_empty distinct_dedupe_tags set_dedupe_tags sort_upt sorted_list_of_set_sort_remdups
      distinct_remdups_id)

lemma set_tags_of: "set (tags_of vs) = trim_space ` set vs - {''''}"
  by (auto simp: tags_of_def)

text \<open>
  \<open>sortDedupeStrings\<close> computes the canonical list of a set: the ascending (byte order), duplicate-free
  list of the trimmed elements that are not blank. It depends on the input only through that set,
  so it is independent of order and repetition.
\<close>

theorem sortDedupeStrings_canonical:
  "sortDedupeStrings s = sorted_list_of_set (trim_space ` set s - {''''})"
proof (cases "s = []")
  case False
  then have "sortDedupeStrings s = sort (dedupe_tags {} (tags_of s))"
    by (simp add: sortDedupeStrings_def dedupe_strings_eq)
  then show ?thesis by (simp only: sort_dedupe_tags set_tags_of)
qed (simp add: sortDedupeStrings_def)

lemma sortDedupeSREDTags_canonical: "sortDedupeSREDTags s = sorted_list_of_set (set s)"
proof (cases "s = []")
  case False
  then have "sortDedupeSREDTags s = sort (dedupe_tags {} s)" by (simp add: sortDedupeSREDTags_def)
  then show ?thesis by (simp only: sort_dedupe_tags)
qed (simp add: sortDedupeSREDTags_def)

lemma set_sortDedupeStrings [simp]: "set (sortDedupeStrings s) = trim_space ` set s - {''''}"
  by (simp add: sortDedupeStrings_canonical)

lemma set_sortDedupeSREDTags [simp]: "set (sortDedupeSREDTags s) = set s"
  by (simp add: sortDedupeSREDTags_canonical)

lemma trim_image_idem: "trim_space ` (trim_space ` A - {''''}) - {''''} = trim_space ` A - {''''}"
proof -
  have "trim_space ` (trim_space ` A - {''''}) = trim_space ` A - {''''}"
  proof (intro set_eqI iffI)
    fix x
    assume "x \<in> trim_space ` A - {''''}"
    moreover from this have "trim_space x = x" by auto
    ultimately show "x \<in> trim_space ` (trim_space ` A - {''''})" by (metis image_eqI)
  qed auto
  then show ?thesis by auto
qed

lemma sortDedupeStrings_idem [simp]: "sortDedupeStrings (sortDedupeStrings s) = sortDedupeStrings s"
  by (simp add: sortDedupeStrings_canonical trim_image_idem)

lemma sortDedupeSREDTags_idem [simp]: "sortDedupeSREDTags (sortDedupeSREDTags s) = sortDedupeSREDTags s"
  by (simp add: sortDedupeSREDTags_canonical)

subsection \<open>Normalisation is a closure that validation respects\<close>

lemma normalizeWorkTags_idem: "normalizeWorkTags (normalizeWorkTags t) = normalizeWorkTags t"
  by (simp add: normalizeWorkTags_def)

lemma normalizeExecutionConstraints_idem:
  "normalizeExecutionConstraints (normalizeExecutionConstraints c) = normalizeExecutionConstraints c"
  by (simp add: normalizeExecutionConstraints_def)

text \<open>
  Normalising a work item twice is normalising it once (and so for a nil pointer).\<close>

theorem NormalizeWorkItem_idem: "NormalizeWorkItem (NormalizeWorkItem p) = NormalizeWorkItem p"
  by (cases p)
    (simp_all add: NormalizeWorkItem_def normalize_work_item_def normalizeWorkTags_idem
      normalizeExecutionConstraints_idem)

lemma NormalizeBrainTaskSpec_idem:
  "NormalizeBrainTaskSpec (NormalizeBrainTaskSpec p) = NormalizeBrainTaskSpec p"
  by (cases p) (simp_all add: NormalizeBrainTaskSpec_def normalize_spec_def o_def)

lemma tags_of_id: "\<forall>x \<in> set vs. trim_space x = x \<and> x \<noteq> '''' \<Longrightarrow> tags_of vs = vs"
  by (induction vs) auto

lemma tags_of_sortDedupe: "tags_of (sortDedupeStrings s) = sortDedupeStrings s"
  by (rule tags_of_id) auto

lemma distinct_sortDedupeStrings [simp]: "distinct (sortDedupeStrings s)"
  by (simp add: sortDedupeStrings_canonical)

lemma distinct_sortDedupeSREDTags [simp]: "distinct (sortDedupeSREDTags s)"
  by (simp add: sortDedupeSREDTags_canonical)

lemma work_tags_ok_normalize:
  "work_tags_ok (normalizeWorkTags t) \<longleftrightarrow> set (tags_SRED t) \<subseteq> set SREDTag_consts"
  by (simp add: work_tags_ok_def normalizeWorkTags_def tags_of_sortDedupe)

definition no_tags :: WorkTags where
  "no_tags = \<lparr>tags_HumanOrg = [], tags_Routing = [], tags_Policy = [], tags_Analytics = [],
     tags_SRED = []\<rparr>"

lemma work_item_ok_split:
  "work_item_ok item \<longleftrightarrow> work_item_ok (item\<lparr>wi_Tags := no_tags\<rparr>) \<and> work_tags_ok (wi_Tags item)"
proof -
  have "work_tags_ok no_tags" by (simp add: work_tags_ok_def no_tags_def)
  then show ?thesis by (simp add: work_item_ok_def conj_ac)
qed

lemma work_item_ok_normalize_rest:
  "work_item_ok ((normalize_work_item item)\<lparr>wi_Tags := no_tags\<rparr>)
     \<longleftrightarrow> work_item_ok (item\<lparr>wi_Tags := no_tags\<rparr>)"
  by (simp add: work_item_ok_def normalize_work_item_def normalizeExecutionConstraints_def)

text \<open>
  Validation after normalisation: duplicate tags are the one defect that normalising repairs.
  A normalised item is accepted iff the item, its tags aside, was already acceptable and its
  SR&ED tags are declared ones. So every valid item stays valid, and no invalid id, title,
  enumeration value, source or constraint becomes acceptable.
\<close>

theorem validate_after_normalize:
  "ValidateWorkItem (NormalizeWorkItem (Some item)) = None \<longleftrightarrow>
     ValidateWorkItem (Some (item\<lparr>wi_Tags := no_tags\<rparr>)) = None
     \<and> set (tags_SRED (wi_Tags item)) \<subseteq> set SREDTag_consts"
proof -
  have "work_item_ok (normalize_work_item item) \<longleftrightarrow>
      work_item_ok (item\<lparr>wi_Tags := no_tags\<rparr>) \<and> work_tags_ok (normalizeWorkTags (wi_Tags item))"
    using work_item_ok_split [of "normalize_work_item item"]
    by (simp add: work_item_ok_normalize_rest) (simp add: normalize_work_item_def)
  then show ?thesis
    by (simp add: NormalizeWorkItem_def ValidateWorkItem_Some_None_iff work_tags_ok_normalize)
qed

end
