(* ===== verification/Session_Store.thy ===== *)
theory Session_Store
  imports Contracts_Normalize
begin

text \<open>
  Work sessions (\<open>pkg/contracts/contracts.go\<close>, from \<open>SessionState\<close> on), the store interface of
  the session manager (\<open>internal/session/interface.go\<close>) and its in-memory implementation
  (\<open>internal/session/memory_store.go\<close>).

  A Go interface value is a record of functions on the state behind it: \<open>store_ops\<close> is \<open>Store\<close>.
  The store hands out copies (\<open>copySession\<close>), so sessions are values here. The contract the
  manager relies on is the locale \<open>session_store\<close>; the memory store is its interpretation.
\<close>

subsection \<open>Sessions\<close>

definition SessionStateCreated :: string where
  "SessionStateCreated = ''created''"

definition SessionStateAnalyzed :: string where
  "SessionStateAnalyzed = ''analyzed''"

definition SessionStateScheduled :: string where
  "SessionStateScheduled = ''scheduled''"

definition SessionStateInProgress :: string where
  "SessionStateInProgress = ''in_progress''"

definition SessionStateCompleted :: string where
  "SessionStateCompleted = ''completed''"

definition SessionStateFailed :: string where
  "SessionStateFailed = ''failed''"

definition SessionStateBlocked :: string where
  "SessionStateBlocked = ''blocked''"

definition SessionStateCanceled :: string where
  "SessionStateCanceled = ''canceled''"

definition SessionState_consts :: "string list" where
  "SessionState_consts =
     [SessionStateCreated, SessionStateAnalyzed, SessionStateScheduled, SessionStateInProgress,
      SessionStateCompleted, SessionStateFailed, SessionStateBlocked, SessionStateCanceled]"

lemmas session_state_defs =
  SessionStateCreated_def SessionStateAnalyzed_def SessionStateScheduled_def
  SessionStateInProgress_def SessionStateCompleted_def SessionStateFailed_def
  SessionStateBlocked_def SessionStateCanceled_def

lemma session_states_distinct: "distinct SessionState_consts"
  by (simp add: SessionState_consts_def session_state_defs)

lemma session_states_neq [simp]:
  "SessionStateCreated \<noteq> SessionStateAnalyzed"
  "SessionStateCreated \<noteq> SessionStateScheduled"
  "SessionStateCreated \<noteq> SessionStateInProgress"
  "SessionStateCreated \<noteq> SessionStateCompleted"
  "SessionStateCreated \<noteq> SessionStateFailed"
  "SessionStateCreated \<noteq> SessionStateBlocked"
  "SessionStateCreated \<noteq> SessionStateCanceled"
  "SessionStateAnalyzed \<noteq> SessionStateCreated"
  "SessionStateAnalyzed \<noteq> SessionStateScheduled"
  "SessionStateAnalyzed \<noteq> SessionStateInProgress"
  "SessionStateAnalyzed \<noteq> SessionStateCompleted"
  "SessionStateAnalyzed \<noteq> SessionStateFailed"
  "SessionStateAnalyzed \<noteq> SessionStateBlocked"
  "SessionStateAnalyzed \<noteq> SessionStateCanceled"
  "SessionStateScheduled \<noteq> SessionStateCreated"
  "SessionStateScheduled \<noteq> SessionStateAnalyzed"
  "SessionStateScheduled \<noteq> SessionStateInProgress"
  "SessionStateScheduled \<noteq> SessionStateCompleted"
  "SessionStateScheduled \<noteq> SessionStateFailed"
  "SessionStateScheduled \<noteq> SessionStateBlocked"
  "SessionStateScheduled \<noteq> SessionStateCanceled"
  "SessionStateInProgress \<noteq> SessionStateCreated"
  "SessionStateInProgress \<noteq> SessionStateAnalyzed"
  "SessionStateInProgress \<noteq> SessionStateScheduled"
  "SessionStateInProgress \<noteq> SessionStateCompleted"
  "SessionStateInProgress \<noteq> SessionStateFailed"
  "SessionStateInProgress \<noteq> SessionStateBlocked"
  "SessionStateInProgress \<noteq> SessionStateCanceled"
  "SessionStateCompleted \<noteq> SessionStateCreated"
  "SessionStateCompleted \<noteq> SessionStateAnalyzed"
  "SessionStateCompleted \<noteq> SessionStateScheduled"
  "SessionStateCompleted \<noteq> SessionStateInProgress"
  "SessionStateCompleted \<noteq> SessionStateFailed"
  "SessionStateCompleted \<noteq> SessionStateBlocked"
  "SessionStateCompleted \<noteq> SessionStateCanceled"
  "SessionStateFailed \<noteq> SessionStateCreated"
  "SessionStateFailed \<noteq> SessionStateAnalyzed"
  "SessionStateFailed \<noteq> SessionStateScheduled"
  "SessionStateFailed \<noteq> SessionStateInProgress"
  "SessionStateFailed \<noteq> SessionStateCompleted"
  "SessionStateFailed \<noteq> SessionStateBlocked"
  "SessionStateFailed \<noteq> SessionStateCanceled"
  "SessionStateBlocked \<noteq> SessionStateCreated"
  "SessionStateBlocked \<noteq> SessionStateAnalyzed"
  "SessionStateBlocked \<noteq> SessionStateScheduled"
  "SessionStateBlocked \<noteq> SessionStateInProgress"
  "SessionStateBlocked \<noteq> SessionStateCompleted"
  "SessionStateBlocked \<noteq> SessionStateFailed"
  "SessionStateBlocked \<noteq> SessionStateCanceled"
  "SessionStateCanceled \<noteq> SessionStateCreated"
  "SessionStateCanceled \<noteq> SessionStateAnalyzed"
  "SessionStateCanceled \<noteq> SessionStateScheduled"
  "SessionStateCanceled \<noteq> SessionStateInProgress"
  "SessionStateCanceled \<noteq> SessionStateCompleted"
  "SessionStateCanceled \<noteq> SessionStateFailed"
  "SessionStateCanceled \<noteq> SessionStateBlocked"
  by (simp_all add: session_state_defs)

record StateTransition =
  st_FromState :: string
  st_ToState :: string
  st_Timestamp :: time
  st_Reason :: string
  st_Agent :: string

record EvidenceItem =
  evi_ID :: string
  evi_SessionID :: string
  evi_Type :: string
  evi_Content :: string
  evi_Metadata :: "string \<rightharpoonup> string"
  evi_CollectedAt :: time
  evi_CollectedBy :: string

record Session =
  se_ID :: string
  se_WorkItemID :: string
  se_SourceKey :: string
  se_State :: string
  se_StateHistory :: "StateTransition list"
  se_WorkItem :: "WorkItem option"
  se_AnalysisResult :: "AnalysisResult option"
  se_BrainTaskSpecs :: "BrainTaskSpec list"
  se_EvidenceItems :: "EvidenceItem list"
  se_AssignedAgent :: string
  se_AssignedModel :: string
  se_StartedAt :: "time option"
  se_CompletedAt :: "time option"
  se_Error :: string
  se_CreatedAt :: time
  se_UpdatedAt :: time

subsection \<open>The store interface\<close>

record SessionFilter =
  sf_State :: "string option"
  sf_WorkItemID :: "string option"
  sf_SourceKey :: "string option"
  sf_AssignedAgent :: "string option"
  sf_CreatedAfter :: "time option"
  sf_CreatedBefore :: "time option"
  sf_UpdatedAfter :: "time option"
  sf_UpdatedBefore :: "time option"
  sf_Limit :: int
  sf_Offset :: int

datatype store_error = ErrSessionNotFound | ErrSessionExists | ErrActiveSessionExists

record 's store_ops =
  so_Create :: "'s \<Rightarrow> Session \<Rightarrow> 's \<times> store_error option"
  so_Get :: "'s \<Rightarrow> string \<Rightarrow> 's \<times> (store_error + Session)"
  so_GetByWorkItem :: "'s \<Rightarrow> string \<Rightarrow> 's \<times> (store_error + Session)"
  so_Update :: "'s \<Rightarrow> Session \<Rightarrow> 's \<times> store_error option"
  so_List :: "'s \<Rightarrow> SessionFilter \<Rightarrow> 's \<times> (store_error + Session list)"
  so_Delete :: "'s \<Rightarrow> string \<Rightarrow> 's \<times> store_error option"

subsection \<open>The memory store\<close>

record MemoryStore =
  ms_sessions :: "(string, Session) gomap"
  ms_workItemIndex :: "string \<rightharpoonup> string"

definition NewMemoryStore :: MemoryStore where
  "NewMemoryStore = \<lparr>ms_sessions = [], ms_workItemIndex = Map.empty\<rparr>"

abbreviation ms_lookup :: "MemoryStore \<Rightarrow> string \<rightharpoonup> Session" where
  "ms_lookup s \<equiv> map_of (ms_sessions s)"

definition active_state :: "string \<Rightarrow> bool" where
  "active_state st \<longleftrightarrow>
     st \<noteq> SessionStateCompleted \<and> st \<noteq> SessionStateFailed \<and> st \<noteq> SessionStateCanceled"

definition mem_put :: "MemoryStore \<Rightarrow> Session \<Rightarrow> MemoryStore" where
  "mem_put s session = s
     \<lparr>ms_sessions := AList.update (se_ID session) session (ms_sessions s),
      ms_workItemIndex := (ms_workItemIndex s)(se_WorkItemID session \<mapsto> se_ID session)\<rparr>"

definition mem_Create :: "MemoryStore \<Rightarrow> Session \<Rightarrow> MemoryStore \<times> store_error option" where
  "mem_Create s session =
     (if ms_lookup s (se_ID session) \<noteq> None then (s, Some ErrSessionExists)
      else case ms_workItemIndex s (se_WorkItemID session) of
             None \<Rightarrow> (mem_put s session, None)
           | Some existingID \<Rightarrow>
               (case ms_lookup s existingID of
                  None \<Rightarrow> (mem_put s session, None)
                | Some existingSession \<Rightarrow>
                    if active_state (se_State existingSession) then (s, Some ErrActiveSessionExists)
                    else (mem_put s session, None)))"

definition mem_Get :: "MemoryStore \<Rightarrow> string \<Rightarrow> MemoryStore \<times> (store_error + Session)" where
  "mem_Get s sessionID =
     (s, case ms_lookup s sessionID of None \<Rightarrow> Inl ErrSessionNotFound | Some x \<Rightarrow> Inr x)"

definition mem_GetByWorkItem :: "MemoryStore \<Rightarrow> string \<Rightarrow> MemoryStore \<times> (store_error + Session)" where
  "mem_GetByWorkItem s workItemID =
     (case ms_workItemIndex s workItemID of
        None \<Rightarrow> (s, Inl ErrSessionNotFound)
      | Some sessionID \<Rightarrow>
          (case ms_lookup s sessionID of
             None \<Rightarrow> (s\<lparr>ms_workItemIndex := (ms_workItemIndex s)(workItemID := None)\<rparr>,
                      Inl ErrSessionNotFound)
           | Some session \<Rightarrow> (s, Inr session)))"

definition mem_Update :: "MemoryStore \<Rightarrow> Session \<Rightarrow> MemoryStore \<times> store_error option" where
  "mem_Update s session =
     (if ms_lookup s (se_ID session) = None then (s, Some ErrSessionNotFound)
      else (mem_put s session, None))"

definition opt_matches :: "'a option \<Rightarrow> ('a \<Rightarrow> bool) \<Rightarrow> bool" where
  "opt_matches f P \<longleftrightarrow> (case f of None \<Rightarrow> True | Some v \<Rightarrow> P v)"

definition matchesFilter :: "Session \<Rightarrow> SessionFilter \<Rightarrow> bool" where
  "matchesFilter session f \<longleftrightarrow>
     opt_matches (sf_State f) (\<lambda>v. se_State session = v)
     \<and> opt_matches (sf_WorkItemID f) (\<lambda>v. se_WorkItemID session = v)
     \<and> opt_matches (sf_SourceKey f) (\<lambda>v. se_SourceKey session = v)
     \<and> opt_matches (sf_AssignedAgent f) (\<lambda>v. se_AssignedAgent session = v)
     \<and> opt_matches (sf_CreatedAfter f) (\<lambda>t. \<not> time_before (se_CreatedAt session) t)
     \<and> opt_matches (sf_CreatedBefore f) (\<lambda>t. \<not> time_after (se_CreatedAt session) t)
     \<and> opt_matches (sf_UpdatedAfter f) (\<lambda>t. \<not> time_before (se_UpdatedAt session) t)
     \<and> opt_matches (sf_UpdatedBefore f) (\<lambda>t. \<not> time_after (se_UpdatedAt session) t)"

fun mem_list_loop :: "SessionFilter \<Rightarrow> Session list \<Rightarrow> (string \<times> Session) list \<Rightarrow> Session list" where
  "mem_list_loop f result [] = result"
| "mem_list_loop f result ((k, session) # rest) =
     (if \<not> matchesFilter session f then mem_list_loop f result rest
      else let result' = result @ [session]
           in if sf_Limit f > 0 \<and> int (length result') \<ge> sf_Limit f then result'
              else mem_list_loop f result' rest)"

definition mem_List ::
    "(string \<Rightarrow> nat) \<Rightarrow> MemoryStore \<Rightarrow> SessionFilter \<Rightarrow> MemoryStore \<times> (store_error + Session list)"
  where
  "mem_List r s f = (s, Inr (mem_list_loop f [] (go_range r (ms_sessions s))))"

definition mem_Delete :: "MemoryStore \<Rightarrow> string \<Rightarrow> MemoryStore \<times> store_error option" where
  "mem_Delete s sessionID =
     (case ms_lookup s sessionID of
        None \<Rightarrow> (s, Some ErrSessionNotFound)
      | Some session \<Rightarrow>
          (s\<lparr>ms_workItemIndex :=
               (if ms_workItemIndex s (se_WorkItemID session) = Some sessionID
                then (ms_workItemIndex s)(se_WorkItemID session := None)
                else ms_workItemIndex s),
             ms_sessions := AList.delete sessionID (ms_sessions s)\<rparr>, None))"

definition mem_store_ops :: "(string \<Rightarrow> nat) \<Rightarrow> MemoryStore store_ops" where
  "mem_store_ops r =
     \<lparr>so_Create = mem_Create, so_Get = mem_Get, so_GetByWorkItem = mem_GetByWorkItem,
      so_Update = mem_Update, so_List = mem_List r, so_Delete = mem_Delete\<rparr>"

lemma mem_store_ops_sel [simp]:
  "so_Create (mem_store_ops r) = mem_Create" "so_Get (mem_store_ops r) = mem_Get"
  "so_GetByWorkItem (mem_store_ops r) = mem_GetByWorkItem"
  "so_Update (mem_store_ops r) = mem_Update" "so_List (mem_store_ops r) = mem_List r"
  "so_Delete (mem_store_ops r) = mem_Delete"
  by (simp_all add: mem_store_ops_def)

subsection \<open>The contract of a store\<close>

text \<open>
  \<open>abs\<close> reads a store as the map from session ids to sessions, \<open>inv\<close> is its invariant. A lookup
  does not change the map and returns what is in it; creation adds an absent id or changes
  nothing; an update succeeds exactly on a present id; a listing returns stored sessions that
  match the filter.
\<close>

locale session_store =
  fixes ops :: "'s store_ops"
    and abs :: "'s \<Rightarrow> (string \<rightharpoonup> Session)"
    and inv :: "'s \<Rightarrow> bool"
  assumes get_spec: "inv s \<Longrightarrow> so_Get ops s k = (s', r) \<Longrightarrow>
      inv s' \<and> abs s' = abs s
      \<and> r = (case abs s k of None \<Rightarrow> Inl ErrSessionNotFound | Some x \<Rightarrow> Inr x)"
    and get_by_spec: "inv s \<Longrightarrow> so_GetByWorkItem ops s w = (s', r) \<Longrightarrow>
      inv s' \<and> abs s' = abs s \<and> (\<forall>x. r = Inr x \<longrightarrow> abs s (se_ID x) = Some x)"
    and create_spec: "inv s \<Longrightarrow> so_Create ops s x = (s', e) \<Longrightarrow>
      inv s' \<and> (e = None \<longrightarrow> abs s (se_ID x) = None \<and> abs s' = (abs s)(se_ID x \<mapsto> x))
      \<and> (e \<noteq> None \<longrightarrow> abs s' = abs s)"
    and update_spec: "inv s \<Longrightarrow> so_Update ops s x = (s', e) \<Longrightarrow>
      inv s' \<and> (if abs s (se_ID x) = None then e = Some ErrSessionNotFound \<and> abs s' = abs s
                else e = None \<and> abs s' = (abs s)(se_ID x \<mapsto> x))"
    and list_spec: "inv s \<Longrightarrow> so_List ops s f = (s', l) \<Longrightarrow>
      inv s' \<and> abs s' = abs s
      \<and> (\<forall>xs x. l = Inr xs \<longrightarrow> x \<in> set xs \<longrightarrow> abs s (se_ID x) = Some x \<and> matchesFilter x f)"
    and abs_id: "inv s \<Longrightarrow> abs s k = Some x \<Longrightarrow> se_ID x = k"

subsection \<open>The memory store keeps the contract\<close>

definition mem_inv :: "MemoryStore \<Rightarrow> bool" where
  "mem_inv s \<longleftrightarrow> gomap_ok (ms_sessions s) \<and> (\<forall>k x. ms_lookup s k = Some x \<longrightarrow> se_ID x = k)"

lemma mem_inv_new: "mem_inv NewMemoryStore"
  by (simp add: mem_inv_def NewMemoryStore_def)

lemma ms_lookup_put [simp]: "ms_lookup (mem_put s x) = (ms_lookup s)(se_ID x \<mapsto> x)"
  by (simp add: mem_put_def update_conv')

lemma mem_inv_put: "mem_inv s \<Longrightarrow> mem_inv (mem_put s x)"
  by (simp add: mem_inv_def) (simp add: mem_put_def)

lemma mem_list_loop_set:
  "x \<in> set (mem_list_loop f result xs) \<Longrightarrow>
     x \<in> set result \<or> (\<exists>k. (k, x) \<in> set xs \<and> matchesFilter x f)"
proof (induction f result xs rule: mem_list_loop.induct)
  case (2 f result k session rest)
  then show ?case by (auto simp: Let_def split: if_splits)
qed simp

lemma mem_list_loop_complete:
  "sf_Limit f \<le> 0 \<Longrightarrow>
     mem_list_loop f result xs = result @ filter (\<lambda>x. matchesFilter x f) (map snd xs)"
proof (induction f result xs rule: mem_list_loop.induct)
  case (2 f result k session rest)
  then show ?case by (auto simp: Let_def)
qed simp

lemma mem_list_loop_limit:
  "sf_Limit f > 0 \<Longrightarrow> int (length result) < sf_Limit f \<Longrightarrow>
     int (length (mem_list_loop f result xs)) \<le> sf_Limit f"
proof (induction f result xs rule: mem_list_loop.induct)
  case (2 f result k session rest)
  then show ?case by (auto simp: Let_def)
qed simp

lemma mem_Create_cases:
  "mem_Create s x = (s, Some ErrSessionExists) \<and> ms_lookup s (se_ID x) \<noteq> None
   \<or> mem_Create s x = (s, Some ErrActiveSessionExists) \<and> ms_lookup s (se_ID x) = None
   \<or> mem_Create s x = (mem_put s x, None) \<and> ms_lookup s (se_ID x) = None"
  by (auto simp: mem_Create_def split: option.split)

interpretation mem: session_store "mem_store_ops r" ms_lookup mem_inv for r
proof unfold_locales
  fix s s' k res
  assume i: "mem_inv s"
  show "so_Get (mem_store_ops r) s k = (s', res) \<Longrightarrow> mem_inv s' \<and> ms_lookup s' = ms_lookup s
      \<and> res = (case ms_lookup s k of None \<Rightarrow> Inl ErrSessionNotFound | Some x \<Rightarrow> Inr x)"
    using i by (auto simp: mem_Get_def)
next
  fix s s' w res
  assume i: "mem_inv s"
  show "so_GetByWorkItem (mem_store_ops r) s w = (s', res) \<Longrightarrow> mem_inv s' \<and> ms_lookup s' = ms_lookup s
      \<and> (\<forall>x. res = Inr x \<longrightarrow> ms_lookup s (se_ID x) = Some x)"
    using i by (auto simp: mem_GetByWorkItem_def mem_inv_def split: option.splits)
next
  fix s x s' res
  assume i: "mem_inv s" and c: "so_Create (mem_store_ops r) s x = (s', res)"
  show "mem_inv s' \<and> (res = None \<longrightarrow> ms_lookup s (se_ID x) = None \<and> ms_lookup s' = (ms_lookup s)(se_ID x \<mapsto> x))
      \<and> (res \<noteq> None \<longrightarrow> ms_lookup s' = ms_lookup s)"
    using mem_Create_cases [of s x] i c mem_inv_put by auto
next
  fix s x s' res
  assume "mem_inv s" and "so_Update (mem_store_ops r) s x = (s', res)"
  then show "mem_inv s' \<and> (if ms_lookup s (se_ID x) = None
      then res = Some ErrSessionNotFound \<and> ms_lookup s' = ms_lookup s
      else res = None \<and> ms_lookup s' = (ms_lookup s)(se_ID x \<mapsto> x))"
    by (auto simp: mem_Update_def mem_inv_put split: if_splits)
next
  fix s f s' res
  assume i: "mem_inv s" and l: "so_List (mem_store_ops r) s f = (s', res)"
  have "x \<in> set (mem_list_loop f [] (go_range r (ms_sessions s))) \<Longrightarrow>
      ms_lookup s (se_ID x) = Some x \<and> matchesFilter x f" for x
    using i by (auto dest!: mem_list_loop_set simp: mem_inv_def gomap_in_set)
  then show "mem_inv s' \<and> ms_lookup s' = ms_lookup s
      \<and> (\<forall>xs x. res = Inr xs \<longrightarrow> x \<in> set xs \<longrightarrow> ms_lookup s (se_ID x) = Some x \<and> matchesFilter x f)"
    using i l by (auto simp: mem_List_def)
next
  fix s k x
  show "mem_inv s \<Longrightarrow> ms_lookup s k = Some x \<Longrightarrow> se_ID x = k"
    by (simp add: mem_inv_def)
qed

text \<open>
  Listing: on a store that keeps its invariant, a listing without a limit returns exactly the
  stored sessions that match the filter, each once, whatever order the runtime iterates the map in;
  a limit caps the number of results; and the offset of the filter is ignored.
\<close>

theorem mem_List_exact:
  assumes "mem_inv s"
  shows "(sf_Limit f \<le> 0 \<longrightarrow>
        distinct (projr (snd (mem_List r s f)))
        \<and> set (projr (snd (mem_List r s f))) = {x \<in> ran (ms_lookup s). matchesFilter x f})
    \<and> (sf_Limit f > 0 \<longrightarrow> int (length (projr (snd (mem_List r s f)))) \<le> sf_Limit f)
    \<and> mem_List r s (f\<lparr>sf_Offset := k\<rparr>) = mem_List r s f"
proof -
  let ?xs = "go_range r (ms_sessions s)"
  have m: "mset (map snd ?xs) = mset (map snd (ms_sessions s))" by (simp only: mset_map mset_go_range)
  have ok: "gomap_ok (ms_sessions s)" using assms by (simp add: mem_inv_def)
  have "inj_on snd (set (ms_sessions s))"
    using assms unfolding mem_inv_def inj_on_def by (metis gomap_in_set prod.collapse)
  then have "distinct (map snd (ms_sessions s))"
    using ok by (simp add: gomap_ok_def distinct_map)
  then have d: "distinct (map snd ?xs)" using m by (metis mset_eq_imp_distinct_iff)
  have r: "set (map snd ?xs) = ran (ms_lookup s)"
    using ok by (auto simp: gomap_in_set [OF ok, symmetric] ran_def image_iff) force
  have res: "projr (snd (mem_List r s f)) = mem_list_loop f [] ?xs" by (simp add: mem_List_def)
  have "distinct (projr (snd (mem_List r s f)))
      \<and> set (projr (snd (mem_List r s f))) = {x \<in> ran (ms_lookup s). matchesFilter x f}"
    if "sf_Limit f \<le> 0"
    unfolding res mem_list_loop_complete [OF that] using d r by auto
  moreover have "sf_Limit f > 0 \<Longrightarrow> int (length (projr (snd (mem_List r s f)))) \<le> sf_Limit f"
    by (simp add: res mem_list_loop_limit)
  moreover have "mem_List r s (f\<lparr>sf_Offset := k\<rparr>) = mem_List r s f"
  proof -
    have "matchesFilter x (f\<lparr>sf_Offset := k\<rparr>) = matchesFilter x f" for x
      by (simp add: matchesFilter_def)
    then have "mem_list_loop (f\<lparr>sf_Offset := k\<rparr>) res ys = mem_list_loop f res ys" for res ys
      by (induction f res ys rule: mem_list_loop.induct) (simp_all add: Let_def)
    then show ?thesis by (simp add: mem_List_def)
  qed
  ultimately show ?thesis by blast
qed

end
