(* ===== verification/Journal_Types.thy ===== *)
theory Journal_Types
  imports Contracts_Normalize
begin

text \<open>
  Values of Go's \<open>interface{}\<close> as this code builds and reads them (\<open>gval\<close>), and the data of
  \<open>pkg/journal/interface.go\<close>: journal entries, receipts and query options.

  \<open>GFormatted t\<close> is the string \<open>t.Format(time.RFC3339)\<close>: the payloads carry such strings and no
  modelled code reads them back.
\<close>

datatype gval =
    GNil
  | GString string
  | GInt int
  | GInt64 int
  | GFloat float64
  | GBool bool
  | GStrings "string list"
  | GMap "(string \<times> gval) list"
  | GFormatted time

subsection \<open>Journal data\<close>

abbreviation "EventSessionCreated \<equiv> ''session.created''"
abbreviation "EventSessionTransitioned \<equiv> ''session.transitioned''"
abbreviation "EventSessionEvidenceAdded \<equiv> ''session.evidence_added''"
abbreviation "EventSessionCheckpointUpdated \<equiv> ''session.checkpoint_updated''"

definition session_event_consts :: "string list" where
  "session_event_consts =
     [EventSessionCreated, EventSessionTransitioned, EventSessionEvidenceAdded,
      EventSessionCheckpointUpdated]"

record Entry =
  en_EventType :: string
  en_Actor :: string
  en_CorrelationID :: string
  en_TaskID :: string
  en_SessionID :: string
  en_ClusterID :: string
  en_ProjectID :: string
  en_Payload :: gval
  en_SREDTags :: "string list"
  en_Timestamp :: time

record Receipt =
  re_Entry :: Entry
  re_Sequence :: nat
  re_Hash :: string
  re_PrevHash :: string
  re_RecordedAt :: time

record QueryOptions =
  qo_EventType :: string
  qo_CorrelationID :: string
  qo_TaskID :: string
  qo_SessionID :: string
  qo_ClusterID :: string
  qo_ProjectID :: string
  qo_SREDTag :: string
  qo_Start :: time
  qo_End :: time
  qo_Limit :: int
  qo_OrderBy :: string

end
