(* ===== verification/Session_Manager.thy ===== *)
theory Session_Manager
  imports Session_Store Journal_Types "HOL-Library.Word"
begin

text \<open>
  The session manager (\<open>internal/session/manager.go\<close>) with its lifecycle events (\<open>events.go\<close>)
  and execution checkpoints (\<open>checkpoint.go\<close>).

  The manager is polymorphic in its two interface values: a store (\<open>'s store_ops\<close>, the locale
  \<open>session_store\<close> is its contract) and ZenContext (\<open>'z zen_ops\<close>, about which nothing is assumed).
  Its state holds both, the counter and the calls it made to the journal and to the message bus,
  whose results the code only logs. \<open>clk i\<close> is the \<open>i\<close>-th reading of the clock in a handler.
\<close>

subsection \<open>ZenContext\<close>

record KnowledgeChunk =
  kc_ID :: string
  kc_Scope :: string
  kc_Content :: string
  kc_SourcePath :: string
  kc_HeadingPath :: "string list"
  kc_SimilarityScore :: float64
  kc_RetrievedAt :: time

record SessionContext =
  sc_SessionID :: string
  sc_TaskID :: string
  sc_ClusterID :: string
  sc_ProjectID :: string
  sc_CreatedAt :: time
  sc_LastAccessedAt :: time
  sc_State :: string
  sc_RelevantKnowledge :: "KnowledgeChunk list"
  sc_Scratchpad :: string

text \<open>
  \<open>zc_get\<close> is \<open>GetSessionContext\<close>, \<open>None\<close> standing for an error or a nil pointer (the manager
  never tells them apart); \<open>zc_store\<close> is \<open>StoreSessionContext\<close>, with \<open>True\<close> for a nil error.
\<close>

record 'z zen_ops =
  zc_get :: "'z \<Rightarrow> string \<Rightarrow> string \<Rightarrow> 'z \<times> SessionContext option"
  zc_store :: "'z \<Rightarrow> string \<Rightarrow> SessionContext \<Rightarrow> 'z \<times> bool"

subsection \<open>Configuration and state\<close>

record ManagerConfig =
  cf_StoreType :: string
  cf_DataDir :: string
  cf_DefaultTimeout :: duration
  cf_MaxSessionAge :: duration
  cf_CleanupInterval :: duration
  cf_StaleThreshold :: duration
  cf_ZenContext :: bool
  cf_ClusterID :: string
  cf_Journal :: bool
  cf_EventBus :: bool
  cf_EventStream :: string

definition DefaultConfig :: ManagerConfig where
  "DefaultConfig =
     \<lparr>cf_StoreType = ''sqlite'', cf_DataDir = '''', cf_DefaultTimeout = 24 * hour,
      cf_MaxSessionAge = 7 * 24 * hour, cf_CleanupInterval = 1 * hour,
      cf_StaleThreshold = 2 * hour, cf_ZenContext = False, cf_ClusterID = ''default'',
      cf_Journal = False, cf_EventBus = False, cf_EventStream = ''zen-brain.events''\<rparr>"

record BusEvent =
  be_Type :: string
  be_Source :: string
  be_Correlation :: string
  be_Payload :: gval
  be_Timestamp :: time

record ('s, 'z) mgr =
  mg_store :: 's
  mg_zen :: 'z
  mg_counter :: "64 word"
  mg_journal :: "Entry list"
  mg_bus :: "(string \<times> BusEvent) list"

datatype mgr_error =
    MEActiveExists string string
  | MECreate store_error
  | MENotFound store_error
  | MEStore store_error
  | MEInvalidTransition string string
  | MEUpdate store_error
  | MEList store_error
  | MENoZenContext
  | MENilCheckpoint
  | MENoSessionContext string
  | MEMarshal
  | MEStoreContext
  | MEUnmarshal

definition clusterID :: "ManagerConfig \<Rightarrow> string" where
  "clusterID cfg = (if cf_ClusterID cfg \<noteq> '''' then cf_ClusterID cfg else ''default'')"

subsection \<open>Lifecycle events\<close>

definition eventStream :: "ManagerConfig \<Rightarrow> string" where
  "eventStream cfg = (if cf_EventStream cfg \<noteq> '''' then cf_EventStream cfg else ''zen-brain.events'')"

definition emit ::
    "ManagerConfig \<Rightarrow> Entry \<Rightarrow> BusEvent \<Rightarrow> ('s, 'z) mgr \<Rightarrow> ('s, 'z) mgr" where
  "emit cfg entry ev m = m
     \<lparr>mg_journal := mg_journal m @ (if cf_Journal cfg then [entry] else []),
      mg_bus := mg_bus m @ (if cf_EventBus cfg then [(eventStream cfg, ev)] else [])\<rparr>"

definition session_entry :: "string \<Rightarrow> string \<Rightarrow> string \<Rightarrow> string \<Rightarrow> gval \<Rightarrow> time \<Rightarrow> Entry" where
  "session_entry etype actor sessionID workItemID payload now =
     \<lparr>en_EventType = etype, en_Actor = actor, en_CorrelationID = sessionID, en_TaskID = workItemID,
      en_SessionID = sessionID, en_ClusterID = ''default'', en_ProjectID = '''',
      en_Payload = payload, en_SREDTags = [], en_Timestamp = now\<rparr>"

definition session_bus_event :: "string \<Rightarrow> string \<Rightarrow> gval \<Rightarrow> time \<Rightarrow> BusEvent" where
  "session_bus_event etype sessionID payload now =
     \<lparr>be_Type = etype, be_Source = ''session-manager'', be_Correlation = sessionID,
      be_Payload = payload, be_Timestamp = now\<rparr>"

definition EmitSessionCreated ::
    "ManagerConfig \<Rightarrow> time \<Rightarrow> Session \<Rightarrow> string \<Rightarrow> ('s, 'z) mgr \<Rightarrow> ('s, 'z) mgr" where
  "EmitSessionCreated cfg now session workItemID =
     (let payload = GMap
        [(''session_id'', GString (se_ID session)), (''work_item_id'', GString workItemID),
         (''state'', GString (se_State session)), (''actor'', GString ''session-manager''),
         (''timestamp'', GFormatted now)]
      in emit cfg
           (session_entry EventSessionCreated ''session-manager'' (se_ID session) workItemID payload now)
           (session_bus_event ''session.created'' (se_ID session) payload now))"

definition EmitSessionTransitioned ::
    "ManagerConfig \<Rightarrow> time \<Rightarrow> string \<Rightarrow> string \<Rightarrow> string \<Rightarrow> string \<Rightarrow> string \<Rightarrow> string
     \<Rightarrow> ('s, 'z) mgr \<Rightarrow> ('s, 'z) mgr" where
  "EmitSessionTransitioned cfg now sessionID workItemID fromState toState reason agent =
     (let payload = GMap
        [(''session_id'', GString sessionID), (''work_item_id'', GString workItemID),
         (''from_state'', GString fromState), (''to_state'', GString toState),
         (''reason'', GString reason), (''actor'', GString agent), (''timestamp'', GFormatted now)]
      in emit cfg
           (session_entry EventSessionTransitioned agent sessionID workItemID payload now)
           (session_bus_event ''session.transitioned'' sessionID payload now))"

definition EmitSessionEvidenceAdded ::
    "ManagerConfig \<Rightarrow> time \<Rightarrow> string \<Rightarrow> string \<Rightarrow> EvidenceItem \<Rightarrow> ('s, 'z) mgr \<Rightarrow> ('s, 'z) mgr" where
  "EmitSessionEvidenceAdded cfg now sessionID workItemID evidence =
     (let payload = GMap
        [(''session_id'', GString sessionID), (''work_item_id'', GString workItemID),
         (''evidence_id'', GString (evi_ID evidence)), (''evidence_type'', GString (evi_Type evidence)),
         (''actor'', GString (evi_CollectedBy evidence)), (''timestamp'', GFormatted now)]
      in emit cfg
           (session_entry EventSessionEvidenceAdded (evi_CollectedBy evidence) sessionID workItemID payload now)
           (session_bus_event ''session.evidence_added'' sessionID payload now))"

definition EmitSessionCheckpointUpdated ::
    "ManagerConfig \<Rightarrow> time \<Rightarrow> string \<Rightarrow> string \<Rightarrow> string \<Rightarrow> ('s, 'z) mgr \<Rightarrow> ('s, 'z) mgr" where
  "EmitSessionCheckpointUpdated cfg now sessionID workItemID stage =
     (let payload = GMap
        [(''session_id'', GString sessionID), (''work_item_id'', GString workItemID),
         (''checkpoint_stage'', GString stage), (''actor'', GString ''session-manager''),
         (''timestamp'', GFormatted now)]
      in emit cfg
           (session_entry EventSessionCheckpointUpdated ''session-manager'' sessionID workItemID payload now)
           (session_bus_event ''session.checkpoint_updated'' sessionID payload now))"

subsection \<open>State transitions\<close>

definition validTransitions :: "string \<rightharpoonup> string list" where
  "validTransitions = map_of
     [(SessionStateCreated, [SessionStateAnalyzed, SessionStateBlocked, SessionStateCanceled]),
      (SessionStateAnalyzed, [SessionStateScheduled, SessionStateBlocked, SessionStateCanceled]),
      (SessionStateScheduled, [SessionStateInProgress, SessionStateBlocked, SessionStateCanceled]),
      (SessionStateInProgress,
        [SessionStateCompleted, SessionStateFailed, SessionStateBlocked, SessionStateCanceled]),
      (SessionStateBlocked, [SessionStateInProgress, SessionStateCanceled]),
      (SessionStateCompleted, []),
      (SessionStateFailed, []),
      (SessionStateCanceled, [])]"

definition isValidTransition :: "string \<Rightarrow> string \<Rightarrow> bool" where
  "isValidTransition from_state to_state \<longleftrightarrow>
     (case validTransitions from_state of
        None \<Rightarrow> False
      | Some allowed \<Rightarrow> list_ex (\<lambda>st. st = to_state) allowed)"

definition updateZenContextLastAccessed ::
    "'z zen_ops \<Rightarrow> ManagerConfig \<Rightarrow> time \<Rightarrow> string \<Rightarrow> ('s, 'z) mgr \<Rightarrow> ('s, 'z) mgr" where
  "updateZenContextLastAccessed zops cfg now sessionID m =
     (if \<not> cf_ZenContext cfg then m
      else case zc_get zops (mg_zen m) (clusterID cfg) sessionID of
             (z, None) \<Rightarrow> m\<lparr>mg_zen := z\<rparr>
           | (z, Some sc) \<Rightarrow>
               m\<lparr>mg_zen := fst (zc_store zops z (clusterID cfg) (sc\<lparr>sc_LastAccessedAt := now\<rparr>))\<rparr>)"

definition transition_session :: "clock \<Rightarrow> string \<Rightarrow> string \<Rightarrow> string \<Rightarrow> Session \<Rightarrow> Session" where
  "transition_session clk newState reason agent session = session
     \<lparr>se_State := newState,
      se_StateHistory := se_StateHistory session @
        [\<lparr>st_FromState = se_State session, st_ToState = newState, st_Timestamp = clk 0,
          st_Reason = reason, st_Agent = agent\<rparr>],
      se_UpdatedAt := clk 1,
      se_StartedAt :=
        (if newState = SessionStateInProgress \<and> se_StartedAt session = None then Some (clk 2)
         else se_StartedAt session),
      se_CompletedAt :=
        (if newState \<in> {SessionStateCompleted, SessionStateFailed, SessionStateCanceled}
            \<and> se_CompletedAt session = None then Some (clk 2)
         else se_CompletedAt session)\<rparr>"

definition TransitionState ::
    "'s store_ops \<Rightarrow> 'z zen_ops \<Rightarrow> ManagerConfig \<Rightarrow> clock \<Rightarrow> string \<Rightarrow> string \<Rightarrow> string \<Rightarrow> string
     \<Rightarrow> ('s, 'z) mgr \<Rightarrow> ('s, 'z) mgr \<times> mgr_error option" where
  "TransitionState sops zops cfg clk sessionID newState reason agent m =
     (case so_Get sops (mg_store m) sessionID of
        (st, Inl e) \<Rightarrow> (m\<lparr>mg_store := st\<rparr>, Some (MENotFound e))
      | (st, Inr session) \<Rightarrow>
          if \<not> isValidTransition (se_State session) newState
          then (m\<lparr>mg_store := st\<rparr>, Some (MEInvalidTransition (se_State session) newState))
          else
            (case so_Update sops st (transition_session clk newState reason agent session) of
               (st', Some e) \<Rightarrow> (m\<lparr>mg_store := st'\<rparr>, Some (MEUpdate e))
             | (st', None) \<Rightarrow>
                 (EmitSessionTransitioned cfg (clk 4) sessionID (se_WorkItemID session)
                    (se_State session) newState reason agent
                    (updateZenContextLastAccessed zops cfg (clk 3) sessionID (m\<lparr>mg_store := st'\<rparr>)),
                  None)))"

subsection \<open>Creation, evidence, content\<close>

text \<open>\<open>time.Time.Unix\<close>: seconds since 1970, from nanoseconds since year 1.\<close>

definition go_unix :: "time \<Rightarrow> int" where
  "go_unix t = t div second - 62135596800"

definition session_id :: "time \<Rightarrow> 64 word \<Rightarrow> string" where
  "session_id now counter = ''session-'' @ itoa (go_unix now) @ ''-'' @ itoa (uint counter)"

definition new_session :: "string \<Rightarrow> time \<Rightarrow> WorkItem \<Rightarrow> Session" where
  "new_session sid now workItem =
     \<lparr>se_ID = sid, se_WorkItemID = wi_ID workItem, se_SourceKey = src_IssueKey (wi_Source workItem),
      se_State = SessionStateCreated,
      se_StateHistory =
        [\<lparr>st_FromState = '''', st_ToState = SessionStateCreated, st_Timestamp = now,
          st_Reason = ''Session created'', st_Agent = ''session-manager''\<rparr>],
      se_WorkItem = Some workItem, se_AnalysisResult = None, se_BrainTaskSpecs = [],
      se_EvidenceItems = [], se_AssignedAgent = '''', se_AssignedModel = '''',
      se_StartedAt = None, se_CompletedAt = None, se_Error = '''',
      se_CreatedAt = now, se_UpdatedAt = now\<rparr>"

definition create_zen_context ::
    "'z zen_ops \<Rightarrow> ManagerConfig \<Rightarrow> time \<Rightarrow> Session \<Rightarrow> WorkItem \<Rightarrow> ('s, 'z) mgr \<Rightarrow> ('s, 'z) mgr" where
  "create_zen_context zops cfg now session workItem m =
     (if \<not> cf_ZenContext cfg then m
      else m\<lparr>mg_zen := fst (zc_store zops (mg_zen m) (clusterID cfg)
        \<lparr>sc_SessionID = se_ID session, sc_TaskID = wi_ID workItem, sc_ClusterID = clusterID cfg,
         sc_ProjectID = src_Project (wi_Source workItem), sc_CreatedAt = now,
         sc_LastAccessedAt = now, sc_State = '''', sc_RelevantKnowledge = [],
         sc_Scratchpad = ''''\<rparr>)\<rparr>)"

definition CreateSession ::
    "'s store_ops \<Rightarrow> 'z zen_ops \<Rightarrow> ManagerConfig \<Rightarrow> clock \<Rightarrow> WorkItem
     \<Rightarrow> ('s, 'z) mgr \<Rightarrow> ('s, 'z) mgr \<times> (mgr_error + Session)" where
  "CreateSession sops zops cfg clk workItem m =
     (case so_GetByWorkItem sops (mg_store m) (wi_ID workItem) of
        (st, r) \<Rightarrow>
          (case (case r of Inl e \<Rightarrow> None
                 | Inr existing \<Rightarrow> if active_state (se_State existing) then Some existing else None) of
             Some existing \<Rightarrow>
               (m\<lparr>mg_store := st\<rparr>, Inl (MEActiveExists (se_ID existing) (wi_ID workItem)))
           | None \<Rightarrow>
               let session = new_session (session_id (clk 0) (mg_counter m)) (clk 1) workItem;
                   m1 = m\<lparr>mg_store := st, mg_counter := mg_counter m + 1\<rparr>
               in (case so_Create sops st session of
                     (st', Some e) \<Rightarrow> (m1\<lparr>mg_store := st'\<rparr>, Inl (MECreate e))
                   | (st', None) \<Rightarrow>
                       (create_zen_context zops cfg (clk 1) session workItem
                          (EmitSessionCreated cfg (clk 2) session (wi_ID workItem)
                             (m1\<lparr>mg_store := st'\<rparr>)),
                        Inr session))))"

definition evidence_id :: "nat \<Rightarrow> string" where
  "evidence_id n = ''evidence-'' @ itoa (int n)"

definition stamp_evidence :: "clock \<Rightarrow> string \<Rightarrow> Session \<Rightarrow> EvidenceItem \<Rightarrow> EvidenceItem" where
  "stamp_evidence clk sessionID session evidence = evidence
     \<lparr>evi_ID := evidence_id (length (se_EvidenceItems session) + 1),
      evi_SessionID := sessionID,
      evi_CollectedAt := (if is_zero_time (evi_CollectedAt evidence) then clk 0
                          else evi_CollectedAt evidence)\<rparr>"

definition AddEvidence ::
    "'s store_ops \<Rightarrow> 'z zen_ops \<Rightarrow> ManagerConfig \<Rightarrow> clock \<Rightarrow> string \<Rightarrow> EvidenceItem
     \<Rightarrow> ('s, 'z) mgr \<Rightarrow> ('s, 'z) mgr \<times> mgr_error option" where
  "AddEvidence sops zops cfg clk sessionID evidence0 m =
     (case so_Get sops (mg_store m) sessionID of
        (st, Inl e) \<Rightarrow> (m\<lparr>mg_store := st\<rparr>, Some (MENotFound e))
      | (st, Inr session) \<Rightarrow>
          let evidence = stamp_evidence clk sessionID session evidence0;
              session' = session\<lparr>se_EvidenceItems := se_EvidenceItems session @ [evidence],
                                 se_UpdatedAt := clk 1\<rparr>
          in (case so_Update sops st session' of
                (st', Some e) \<Rightarrow> (m\<lparr>mg_store := st'\<rparr>, Some (MEUpdate e))
              | (st', None) \<Rightarrow>
                  (EmitSessionEvidenceAdded cfg (clk 3) sessionID (se_WorkItemID session) evidence
                     (updateZenContextLastAccessed zops cfg (clk 2) sessionID (m\<lparr>mg_store := st'\<rparr>)),
                   None)))"

definition GetSession ::
    "'s store_ops \<Rightarrow> 'z zen_ops \<Rightarrow> ManagerConfig \<Rightarrow> clock \<Rightarrow> string
     \<Rightarrow> ('s, 'z) mgr \<Rightarrow> ('s, 'z) mgr \<times> (mgr_error + Session)" where
  "GetSession sops zops cfg clk sessionID m =
     (case so_Get sops (mg_store m) sessionID of
        (st, Inl e) \<Rightarrow> (m\<lparr>mg_store := st\<rparr>, Inl (MEStore e))
      | (st, Inr session) \<Rightarrow>
          (updateZenContextLastAccessed zops cfg (clk 0) sessionID (m\<lparr>mg_store := st\<rparr>), Inr session))"

definition GetSessionByWorkItem ::
    "'s store_ops \<Rightarrow> 'z zen_ops \<Rightarrow> ManagerConfig \<Rightarrow> clock \<Rightarrow> string
     \<Rightarrow> ('s, 'z) mgr \<Rightarrow> ('s, 'z) mgr \<times> (mgr_error + Session)" where
  "GetSessionByWorkItem sops zops cfg clk workItemID m =
     (case so_GetByWorkItem sops (mg_store m) workItemID of
        (st, Inl e) \<Rightarrow> (m\<lparr>mg_store := st\<rparr>, Inl (MEStore e))
      | (st, Inr session) \<Rightarrow>
          (updateZenContextLastAccessed zops cfg (clk 0) (se_ID session) (m\<lparr>mg_store := st\<rparr>),
           Inr session))"

definition UpdateSession ::
    "'s store_ops \<Rightarrow> 'z zen_ops \<Rightarrow> ManagerConfig \<Rightarrow> clock \<Rightarrow> Session
     \<Rightarrow> ('s, 'z) mgr \<Rightarrow> ('s, 'z) mgr \<times> mgr_error option" where
  "UpdateSession sops zops cfg clk session m =
     (case so_Update sops (mg_store m) (session\<lparr>se_UpdatedAt := clk 0\<rparr>) of
        (st, Some e) \<Rightarrow> (m\<lparr>mg_store := st\<rparr>, Some (MEStore e))
      | (st, None) \<Rightarrow>
          (updateZenContextLastAccessed zops cfg (clk 1) (se_ID session) (m\<lparr>mg_store := st\<rparr>), None))"

definition ListSessions ::
    "'s store_ops \<Rightarrow> SessionFilter \<Rightarrow> ('s, 'z) mgr \<Rightarrow> ('s, 'z) mgr \<times> (mgr_error + Session list)" where
  "ListSessions sops f m =
     (case so_List sops (mg_store m) f of
        (st, Inl e) \<Rightarrow> (m\<lparr>mg_store := st\<rparr>, Inl (MEStore e))
      | (st, Inr xs) \<Rightarrow> (m\<lparr>mg_store := st\<rparr>, Inr xs))"

subsection \<open>Cleanup\<close>

definition stale_filter :: "time \<Rightarrow> SessionFilter" where
  "stale_filter cutoff =
     \<lparr>sf_State = Some ([SessionStateCreated, SessionStateAnalyzed, SessionStateScheduled,
                        SessionStateInProgress] ! 0),
      sf_WorkItemID = None, sf_SourceKey = None, sf_AssignedAgent = None, sf_CreatedAfter = None,
      sf_CreatedBefore = None, sf_UpdatedAfter = None, sf_UpdatedBefore = Some cutoff,
      sf_Limit = 100, sf_Offset = 0\<rparr>"

fun cleanup_loop ::
    "'s store_ops \<Rightarrow> 'z zen_ops \<Rightarrow> ManagerConfig \<Rightarrow> (nat \<Rightarrow> clock) \<Rightarrow> string \<Rightarrow> nat \<Rightarrow> int
     \<Rightarrow> Session list \<Rightarrow> ('s, 'z) mgr \<Rightarrow> ('s, 'z) mgr \<times> int" where
  "cleanup_loop sops zops cfg clks reason i cleaned [] m = (m, cleaned)"
| "cleanup_loop sops zops cfg clks reason i cleaned (session # sessions) m =
     (case TransitionState sops zops cfg (clks i) (se_ID session) SessionStateFailed reason ''cleanup'' m of
        (m', Some e) \<Rightarrow> cleanup_loop sops zops cfg clks reason (Suc i) cleaned sessions m'
      | (m', None) \<Rightarrow> cleanup_loop sops zops cfg clks reason (Suc i) (cleaned + 1) sessions m')"

text \<open>
  \<open>clks 0 0\<close> is the reading of \<open>CleanupStaleSessions\<close> itself, \<open>clks (i + 1)\<close> the clock of the \<open>i\<close>-th
  transition; \<open>fmt_dur\<close> is \<open>time.Duration.String\<close> (the verb \<open>%v\<close>).
\<close>

definition CleanupStaleSessions ::
    "'s store_ops \<Rightarrow> 'z zen_ops \<Rightarrow> ManagerConfig \<Rightarrow> (nat \<Rightarrow> clock) \<Rightarrow> (duration \<Rightarrow> string) \<Rightarrow> duration
     \<Rightarrow> ('s, 'z) mgr \<Rightarrow> ('s, 'z) mgr \<times> (mgr_error + int)" where
  "CleanupStaleSessions sops zops cfg clks fmt_dur maxAge0 m =
     (let maxAge = (if maxAge0 \<le> 0 then cf_StaleThreshold cfg else maxAge0);
          cutoff = time_add (clks 0 0) (- maxAge)
      in case so_List sops (mg_store m) (stale_filter cutoff) of
           (st, Inl e) \<Rightarrow> (m\<lparr>mg_store := st\<rparr>, Inl (MEList e))
         | (st, Inr sessions) \<Rightarrow>
             (case cleanup_loop sops zops cfg clks
                     (''Session stale (no update for '' @ fmt_dur maxAge @ '')'') 1 0 sessions
                     (m\<lparr>mg_store := st\<rparr>) of
                (m', cleaned) \<Rightarrow> (m', Inr cleaned)))"

subsection \<open>Execution checkpoints\<close>

record ExecutionCheckpoint =
  cp_Stage :: string
  cp_SessionID :: string
  cp_WorkItemID :: string
  cp_BrainTaskIDs :: "string list"
  cp_ProofPaths :: "string list"
  cp_LastRecommendation :: string
  cp_SelectedModel :: string
  cp_AnalysisSummary :: string
  cp_KnowledgeChunkIDs :: "string list"
  cp_KnowledgeSourcePaths :: "string list"
  cp_UpdatedAt :: time

text \<open>
  \<open>json.Marshal\<close> and \<open>json.Unmarshal\<close> at this type are the arguments \<open>enc\<close> and \<open>dec\<close>, \<open>None\<close>
  standing for their errors.
\<close>

definition UpdateExecutionCheckpoint ::
    "'z zen_ops \<Rightarrow> ManagerConfig \<Rightarrow> (ExecutionCheckpoint \<Rightarrow> string option) \<Rightarrow> clock \<Rightarrow> string
     \<Rightarrow> ExecutionCheckpoint option \<Rightarrow> ('s, 'z) mgr \<Rightarrow> ('s, 'z) mgr \<times> mgr_error option" where
  "UpdateExecutionCheckpoint zops cfg enc clk sessionID p m =
     (if \<not> cf_ZenContext cfg then (m, Some MENoZenContext)
      else case p of
             None \<Rightarrow> (m, Some MENilCheckpoint)
           | Some checkpoint0 \<Rightarrow>
               (case zc_get zops (mg_zen m) (clusterID cfg) sessionID of
                  (z, None) \<Rightarrow> (m\<lparr>mg_zen := z\<rparr>, Some (MENoSessionContext sessionID))
                | (z, Some sc) \<Rightarrow>
                    let checkpoint = checkpoint0\<lparr>cp_UpdatedAt := clk 0\<rparr>
                    in (case enc checkpoint of
                          None \<Rightarrow> (m\<lparr>mg_zen := z\<rparr>, Some MEMarshal)
                        | Some stateBytes \<Rightarrow>
                            (case zc_store zops z (sc_ClusterID sc)
                                    (sc\<lparr>sc_State := stateBytes, sc_LastAccessedAt := clk 1\<rparr>) of
                               (z', False) \<Rightarrow> (m\<lparr>mg_zen := z'\<rparr>, Some MEStoreContext)
                             | (z', True) \<Rightarrow>
                                 (EmitSessionCheckpointUpdated cfg (clk 2) sessionID
                                    (cp_WorkItemID checkpoint) (cp_Stage checkpoint)
                                    (m\<lparr>mg_zen := z'\<rparr>), None)))))"

definition GetExecutionCheckpoint ::
    "'z zen_ops \<Rightarrow> ManagerConfig \<Rightarrow> (string \<Rightarrow> ExecutionCheckpoint option) \<Rightarrow> string
     \<Rightarrow> ('s, 'z) mgr \<Rightarrow> ('s, 'z) mgr \<times> (mgr_error + ExecutionCheckpoint option)" where
  "GetExecutionCheckpoint zops cfg dec sessionID m =
     (if \<not> cf_ZenContext cfg then (m, Inl MENoZenContext)
      else case zc_get zops (mg_zen m) (clusterID cfg) sessionID of
             (z, None) \<Rightarrow> (m\<lparr>mg_zen := z\<rparr>, Inl (MENoSessionContext sessionID))
           | (z, Some sc) \<Rightarrow>
               if length (sc_State sc) = 0 then (m\<lparr>mg_zen := z\<rparr>, Inr None)
               else case dec (sc_State sc) of
                      None \<Rightarrow> (m\<lparr>mg_zen := z\<rparr>, Inl MEUnmarshal)
                    | Some cp \<Rightarrow> (m\<lparr>mg_zen := z\<rparr>, Inr (Some cp)))"

text \<open>
  \<open>sortAndDedupe\<close> collects the strings in a map and ranges over it: \<open>r\<close> ranks the visit.
\<close>

definition seen_map :: "string list \<Rightarrow> (string, unit) gomap" where
  "seen_map s = fold (\<lambda>v seen. AList.update v () seen) s []"

definition sortAndDedupe :: "(string \<Rightarrow> nat) \<Rightarrow> string list \<Rightarrow> string list" where
  "sortAndDedupe r s = (if length s = 0 then s else sort (map fst (go_range r (seen_map s))))"

definition checkpoint_Normalize :: "(string \<Rightarrow> nat) \<Rightarrow> ExecutionCheckpoint \<Rightarrow> ExecutionCheckpoint" where
  "checkpoint_Normalize r c = c
     \<lparr>cp_BrainTaskIDs := sortAndDedupe r (cp_BrainTaskIDs c),
      cp_ProofPaths := sortAndDedupe r (cp_ProofPaths c),
      cp_KnowledgeChunkIDs := sortAndDedupe r (cp_KnowledgeChunkIDs c),
      cp_KnowledgeSourcePaths := sortAndDedupe r (cp_KnowledgeSourcePaths c)\<rparr>"

definition ShouldSkipReplayForResume :: "ExecutionCheckpoint option \<Rightarrow> bool" where
  "ShouldSkipReplayForResume p =
     (case p of
        None \<Rightarrow> False
      | Some cp \<Rightarrow> length (cp_ProofPaths cp) \<noteq> 0
                   \<and> (cp_Stage cp = ''proof_attached'' \<or> cp_Stage cp = ''execution_complete''))"

end
