(* ===== verification/Planner.thy ===== *)
theory Planner
  imports Session_Manager
begin

text \<open>
  The planner (\<open>internal/planner/planner.go\<close>, \<open>interface.go\<close>): from a work item to a session that is
  analysed, blocked for approval or scheduled and executed, and the operations on such sessions.

  The planner drives the session manager. Its other components are interfaces and parameters: the
  analyzer, the ledger client, the model recommender, the factory and the formatting of floats
  (\<open>pc_fmtf n\<close> is the verb \<open>%.nf\<close>, \<open>pc_fmt_dur\<close> the text of a duration). \<open>pc_agent k\<close> is what the \<open>k\<close>-th
  bookkeeping of the agent state does to ZenContext (nothing when ZenContext is not configured); no
  decision of the planner reads it back. The calls on the evidence vault and on the ledger whose results are ignored
  are kept as lists. \<open>clks k\<close> is the clock of the \<open>k\<close>-th numbered step. A session that the planner holds
  is a value: the manager changes copies of it, and the one change the planner's own copy sees, the
  time stamp of \<open>UpdateSession\<close>, is written out. \<open>analyzeAndPlan\<close> runs in a goroutine; it is modelled as a
  whole, one run after another. Sessions have a work item, as every created session has.
\<close>

subsection \<open>Data\<close>

record ModelEfficiency =
  me_ModelID :: string
  me_AvgCostPerTask :: float64
  me_AvgTokensPerTask :: int
  me_SuccessRate :: float64
  me_AvgCorrections :: float64
  me_AvgLatencyMs :: int
  me_SampleSize :: int

record BudgetStatus =
  bst_ProjectID :: string
  bst_PeriodStart :: time
  bst_PeriodEnd :: time
  bst_SpentUSD :: float64
  bst_BudgetLimitUSD :: float64
  bst_RemainingUSD :: float64
  bst_PercentUsed :: float64

record ModelSelection =
  sel_ModelID :: string
  sel_Reason :: string
  sel_EstimatedCostUSD :: float64
  sel_Confidence :: float64
  sel_Source :: string
  sel_SampleSize :: int
  sel_Alternatives :: "string list"

record FactoryTaskSpec =
  fts_ID :: string
  fts_SessionID :: string
  fts_WorkItemID :: string
  fts_Title :: string
  fts_Objective :: string
  fts_Description :: string
  fts_Constraints :: "string list"
  fts_AcceptanceCriteria :: "string list"
  fts_WorkType :: string
  fts_WorkDomain :: string
  fts_Priority :: string
  fts_TimeoutSeconds :: int
  fts_MaxRetries :: int
  fts_KBScopes :: "string list"
  fts_ExecutionConstraints :: ExecutionConstraints
  fts_WorkspacePath :: string
  fts_TargetFiles :: "string list"
  fts_TemplateKey :: string
  fts_CreatedAt :: time
  fts_UpdatedAt :: time
  fts_SelectedTemplate :: string
  fts_SelectionSource :: string
  fts_SelectionConfidence :: float64
  fts_SelectionReasoning :: string

text \<open>
  The components and the configuration; an optional component is \<open>None\<close> when it is nil. The session
  manager is \<open>pc_store\<close>, \<open>pc_zen\<close> and \<open>pc_mgr\<close>.
\<close>

record ('s, 'z, 'f) planner_config =
  pc_store :: "'s store_ops"
  pc_zen :: "'z zen_ops"
  pc_mgr :: ManagerConfig
  pc_DefaultModel :: string
  pc_RequireApproval :: bool
  pc_AutoApproveCost :: float64
  pc_ExecutionTimeout :: int
  pc_analyze :: "WorkItem \<Rightarrow> string + AnalysisResult"
  pc_budget :: "string \<Rightarrow> BudgetStatus option"
  pc_efficiency :: "string \<Rightarrow> string \<Rightarrow> string + ModelEfficiency list"
  pc_recommend :: "(string \<Rightarrow> string \<Rightarrow> (string \<times> string \<times> float64) option) option"
  pc_factory :: "(FactoryTaskSpec \<Rightarrow> 'f \<Rightarrow> 'f \<times> string option) option"
  pc_vault :: bool
  pc_agent :: "nat \<Rightarrow> 'z \<Rightarrow> 'z"
  pc_fmtf :: "nat \<Rightarrow> float64 \<Rightarrow> string"
  pc_fmt_dur :: "duration \<Rightarrow> string"

record ('s, 'z, 'f) planner =
  pl_mgr :: "('s, 'z) mgr"
  pl_activeSessions :: "string \<rightharpoonup> Session"
  pl_approvalQueue :: "Session list"
  pl_vault :: "EvidenceItem list"
  pl_selections :: "(string \<times> string \<times> string \<times> string) list"
  pl_factory :: 'f

datatype planner_error =
    PECreate mgr_error
  | PEGet mgr_error
  | PENotBlocked string
  | PESchedule mgr_error
  | PEStart mgr_error
  | PEFactory string
  | PEComplete mgr_error
  | PECancel mgr_error
  | PENotCancelable string

subsection \<open>Model selection\<close>

definition default_selection :: "('s, 'z, 'f) planner_config \<Rightarrow> AnalysisResult \<Rightarrow> string \<Rightarrow> string \<Rightarrow> ModelSelection" where
  "default_selection pc analysis reason source =
     \<lparr>sel_ModelID = pc_DefaultModel pc, sel_Reason = reason,
      sel_EstimatedCostUSD = ar_EstimatedTotalCostUSD analysis, sel_Confidence = Fin (1/2),
      sel_Source = source, sel_SampleSize = 0, sel_Alternatives = []\<rparr>"

definition model_score :: "ModelEfficiency \<Rightarrow> float64" where
  "model_score eff =
     (let costScore = (if fgt (me_AvgCostPerTask eff) (Fin 0) then fdiv (Fin 1) (me_AvgCostPerTask eff) else Fin 1)
      in fmul (me_SuccessRate eff) costScore)"

text \<open>The loop over the efficiencies; no best model yet is \<open>None\<close>, with best score 0.\<close>

fun best_model :: "float64 \<Rightarrow> ModelEfficiency option \<Rightarrow> ModelEfficiency list \<Rightarrow> float64 \<times> ModelEfficiency option" where
  "best_model bestScore bestModel [] = (bestScore, bestModel)"
| "best_model bestScore bestModel (eff # effs) =
     (if me_SampleSize eff < 10 then best_model bestScore bestModel effs
      else if fgt (model_score eff) bestScore \<or> feq bestScore (Fin 0)
      then best_model (model_score eff) (Some eff) effs
      else best_model bestScore bestModel effs)"

definition alternative_models :: "ModelEfficiency \<Rightarrow> ModelEfficiency list \<Rightarrow> string list" where
  "alternative_models best effs =
     map me_ModelID (filter (\<lambda>eff. me_ModelID eff \<noteq> me_ModelID best \<and> me_SampleSize eff \<ge> 5
                               \<and> fge (me_SuccessRate eff) (round64 (7/10))) effs)"

definition ledger_selection ::
    "('s, 'z, 'f) planner_config \<Rightarrow> AnalysisResult \<Rightarrow> ModelEfficiency list \<Rightarrow> ModelSelection" where
  "ledger_selection pc analysis effs =
     (if length effs = 0
      then default_selection pc analysis ''No efficiency data available, using default'' ''default''
      else case best_model (Fin 0) None effs of
             (bestScore, bestModel) \<Rightarrow>
               (case bestModel of
                  Some best \<Rightarrow>
                    if feq bestScore (Fin 0)
                    then default_selection pc analysis ''No suitable model found in efficiency data'' ''default''
                    else \<lparr>sel_ModelID = me_ModelID best,
                          sel_Reason = ''Best efficiency: '' @ pc_fmtf pc 1 (fmul (me_SuccessRate best) (Fin 100))
                            @ ''% success rate, $'' @ pc_fmtf pc 3 (me_AvgCostPerTask best) @ '' avg cost'',
                          sel_EstimatedCostUSD = ar_EstimatedTotalCostUSD analysis,
                          sel_Confidence = me_SuccessRate best, sel_Source = ''ledger'',
                          sel_SampleSize = me_SampleSize best,
                          sel_Alternatives = alternative_models best effs\<rparr>
                | None \<Rightarrow>
                    default_selection pc analysis ''No suitable model found in efficiency data'' ''default''))"

definition recommended :: "('s, 'z, 'f) planner_config \<Rightarrow> string \<Rightarrow> (string \<times> string \<times> float64) option" where
  "recommended pc taskType =
     (case pc_recommend pc of
        None \<Rightarrow> None
      | Some recommend \<Rightarrow>
          (case recommend ''default'' taskType of
             None \<Rightarrow> None
           | Some (modelID, reason, confidence) \<Rightarrow>
               if modelID \<noteq> [] then Some (modelID, reason, confidence) else None))"

definition selectOptimalModel ::
    "('s, 'z, 'f) planner_config \<Rightarrow> string \<Rightarrow> AnalysisResult \<Rightarrow> string + ModelSelection" where
  "selectOptimalModel pc taskType analysis =
     (case recommended pc taskType of
        Some (modelID, reason, confidence) \<Rightarrow>
          Inr \<lparr>sel_ModelID = modelID, sel_Reason = reason,
               sel_EstimatedCostUSD = ar_EstimatedTotalCostUSD analysis, sel_Confidence = confidence,
               sel_Source = ''recommender'', sel_SampleSize = 0, sel_Alternatives = []\<rparr>
      | None \<Rightarrow>
          (case pc_efficiency pc ''default'' taskType of
             Inl e \<Rightarrow> Inl (''failed to get model efficiency: '' @ e)
           | Inr effs \<Rightarrow> Inr (ledger_selection pc analysis effs)))"

subsection \<open>Calls on the session manager\<close>

definition with_mgr ::
    "(('s, 'z) mgr \<Rightarrow> ('s, 'z) mgr \<times> 'a) \<Rightarrow> ('s, 'z, 'f) planner \<Rightarrow> ('s, 'z, 'f) planner \<times> 'a" where
  "with_mgr f p = (case f (pl_mgr p) of (m, r) \<Rightarrow> (p\<lparr>pl_mgr := m\<rparr>, r))"

abbreviation transition ::
    "('s, 'z, 'f) planner_config \<Rightarrow> clock \<Rightarrow> string \<Rightarrow> string \<Rightarrow> string \<Rightarrow> string
     \<Rightarrow> ('s, 'z, 'f) planner \<Rightarrow> ('s, 'z, 'f) planner \<times> mgr_error option" where
  "transition pc clk sid newState reason agent \<equiv>
     with_mgr (TransitionState (pc_store pc) (pc_zen pc) (pc_mgr pc) clk sid newState reason agent)"

abbreviation get_session ::
    "('s, 'z, 'f) planner_config \<Rightarrow> clock \<Rightarrow> string
     \<Rightarrow> ('s, 'z, 'f) planner \<Rightarrow> ('s, 'z, 'f) planner \<times> (mgr_error + Session)" where
  "get_session pc clk sid \<equiv> with_mgr (GetSession (pc_store pc) (pc_zen pc) (pc_mgr pc) clk sid)"

definition agent_note ::
    "('s, 'z, 'f) planner_config \<Rightarrow> nat \<Rightarrow> ('s, 'z, 'f) planner \<Rightarrow> ('s, 'z, 'f) planner" where
  "agent_note pc k p = p\<lparr>pl_mgr := (pl_mgr p)\<lparr>mg_zen := pc_agent pc k (mg_zen (pl_mgr p))\<rparr>\<rparr>"

subsection \<open>Execution by the factory\<close>

definition zero_constraints :: ExecutionConstraints where
  "zero_constraints =
     \<lparr>ec_MaxCostUSD = Fin 0, ec_TimeoutSeconds = 0, ec_AllowedClusters = [], ec_RequiredApproval = False\<rparr>"

definition convertBrainTaskSpecToFactoryTaskSpec :: "Session \<Rightarrow> BrainTaskSpec \<Rightarrow> FactoryTaskSpec" where
  "convertBrainTaskSpecToFactoryTaskSpec session b =
     \<lparr>fts_ID = bs_ID b, fts_SessionID = se_ID session, fts_WorkItemID = se_WorkItemID session,
      fts_Title = bs_Title b, fts_Objective = bs_Objective b, fts_Description = [],
      fts_Constraints = bs_Constraints b, fts_AcceptanceCriteria = [],
      fts_WorkType = bs_WorkType b, fts_WorkDomain = bs_WorkDomain b, fts_Priority = bs_Priority b,
      fts_TimeoutSeconds = bs_TimeoutSeconds b, fts_MaxRetries = bs_MaxRetries b,
      fts_KBScopes = bs_KBScopes b, fts_ExecutionConstraints = zero_constraints, fts_WorkspacePath = [],
      fts_TargetFiles = [], fts_TemplateKey = [], fts_CreatedAt = bs_CreatedAt b,
      fts_UpdatedAt = bs_UpdatedAt b, fts_SelectedTemplate = [], fts_SelectionSource = [],
      fts_SelectionConfidence = Fin 0, fts_SelectionReasoning = []\<rparr>"

fun execute_specs ::
    "(FactoryTaskSpec \<Rightarrow> 'f \<Rightarrow> 'f \<times> string option) \<Rightarrow> Session \<Rightarrow> BrainTaskSpec list \<Rightarrow> 'f \<Rightarrow> 'f \<times> string option" where
  "execute_specs exec session [] f = (f, None)"
| "execute_specs exec session (b # bs) f =
     (case exec (convertBrainTaskSpecToFactoryTaskSpec session b) f of
        (f', Some e) \<Rightarrow> (f', Some e)
      | (f', None) \<Rightarrow> execute_specs exec session bs f')"

definition autoApproveAndSchedule ::
    "('s, 'z, 'f) planner_config \<Rightarrow> (nat \<Rightarrow> clock) \<Rightarrow> string \<Rightarrow> ModelSelection
     \<Rightarrow> ('s, 'z, 'f) planner \<Rightarrow> ('s, 'z, 'f) planner \<times> planner_error option" where
  "autoApproveAndSchedule pc clks sid sel p0 =
     (case transition pc (clks 0) sid SessionStateScheduled
             (''Auto-approved (model: '' @ sel_ModelID sel @ '', cost: $''
              @ pc_fmtf pc 2 (sel_EstimatedCostUSD sel) @ '')'') ''planner'' p0 of
        (p1, Some e) \<Rightarrow> (p1, Some (PESchedule e))
      | (p1, None) \<Rightarrow>
          (case get_session pc (clks 1) sid p1 of
             (p2, Inl e) \<Rightarrow> (p2, Some (PEGet e))
           | (p2, Inr session) \<Rightarrow>
               (case pc_factory pc of
                  None \<Rightarrow>
                    (case transition pc (clks 2) sid SessionStateInProgress
                            ''Scheduled for execution (no factory)'' ''planner'' p2 of
                       (p3, Some e) \<Rightarrow> (p3, Some (PEStart e))
                     | (p3, None) \<Rightarrow> (p3, None))
                | Some exec \<Rightarrow>
                    (case execute_specs exec session (se_BrainTaskSpecs session) (pl_factory p2) of
                       (f, Some e) \<Rightarrow>
                         (fst (transition pc (clks 2) sid SessionStateFailed
                                 (''Factory execution failed: '' @ e) ''factory'' (p2\<lparr>pl_factory := f\<rparr>)),
                          Some (PEFactory e))
                     | (f, None) \<Rightarrow>
                         (case transition pc (clks 2) sid SessionStateCompleted
                                 ''All factory tasks completed successfully'' ''factory''
                                 (p2\<lparr>pl_factory := f\<rparr>) of
                            (p3, Some e) \<Rightarrow> (p3, Some (PEComplete e))
                          | (p3, None) \<Rightarrow> (p3, None))))))"

subsection \<open>Analysis and planning\<close>

text \<open>\<open>analyzeAndPlan\<close> yields \<open>None\<close> where it dereferences the nil work item of a session.\<close>

definition project_of :: "WorkItem \<Rightarrow> string" where
  "project_of workItem = (if wi_ProjectID workItem = '''' then ''default'' else wi_ProjectID workItem)"

definition over_budget :: "('s, 'z, 'f) planner_config \<Rightarrow> WorkItem \<Rightarrow> BudgetStatus option" where
  "over_budget pc workItem =
     (case pc_budget pc (project_of workItem) of
        None \<Rightarrow> None
      | Some st \<Rightarrow>
          if fgt (bst_BudgetLimitUSD st) (Fin 0) \<and> fle (bst_RemainingUSD st) (Fin 0) then Some st else None)"

definition requires_approval :: "('s, 'z, 'f) planner_config \<Rightarrow> AnalysisResult \<Rightarrow> bool" where
  "requires_approval pc analysis \<longleftrightarrow>
     pc_RequireApproval pc
     \<and> (ar_RequiresApproval analysis \<or> fgt (ar_EstimatedTotalCostUSD analysis) (pc_AutoApproveCost pc))"

definition hypothesis_item ::
    "('s, 'z, 'f) planner_config \<Rightarrow> time \<Rightarrow> string \<Rightarrow> Session \<Rightarrow> AnalysisResult \<Rightarrow> EvidenceItem" where
  "hypothesis_item pc now sid session analysis =
     \<lparr>evi_ID = ''hypothesis-'' @ sid, evi_SessionID = sid, evi_Type = ''hypothesis'',
      evi_Content = ''Plan: '' @ itoa (int (length (se_BrainTaskSpecs session))) @ '' task(s) for work item ''
        @ se_WorkItemID session @ '' (confidence '' @ pc_fmtf pc 2 (ar_Confidence analysis) @ '')'',
      evi_Metadata = [''work_item_id'' \<mapsto> se_WorkItemID session,
                      ''task_count'' \<mapsto> itoa (int (length (se_BrainTaskSpecs session)))],
      evi_CollectedAt = now, evi_CollectedBy = ''planner''\<rparr>"

definition store_hypothesis ::
    "('s, 'z, 'f) planner_config \<Rightarrow> time \<Rightarrow> string \<Rightarrow> Session \<Rightarrow> AnalysisResult
     \<Rightarrow> ('s, 'z, 'f) planner \<Rightarrow> ('s, 'z, 'f) planner" where
  "store_hypothesis pc now sid session analysis p =
     (if pc_vault pc \<and> length (se_BrainTaskSpecs session) > 0
      then p\<lparr>pl_vault := pl_vault p @ [hypothesis_item pc now sid session analysis]\<rparr> else p)"

definition selection_item ::
    "('s, 'z, 'f) planner_config \<Rightarrow> time \<Rightarrow> string \<Rightarrow> Session \<Rightarrow> ModelSelection \<Rightarrow> EvidenceItem" where
  "selection_item pc now sid session sel =
     \<lparr>evi_ID = ''model-selection-'' @ sid, evi_SessionID = sid, evi_Type = ''hypothesis'',
      evi_Content = ''model='' @ sel_ModelID sel @ '' source='' @ sel_Source sel @ '' confidence=''
        @ pc_fmtf pc 2 (sel_Confidence sel) @ '' cost=$'' @ pc_fmtf pc 2 (sel_EstimatedCostUSD sel)
        @ (if sel_SampleSize sel > 0 then '' sample_size='' @ itoa (sel_SampleSize sel) else []),
      evi_Metadata = [''work_item_id'' \<mapsto> se_WorkItemID session, ''model_id'' \<mapsto> sel_ModelID sel],
      evi_CollectedAt = now, evi_CollectedBy = ''planner''\<rparr>"

definition chosen_selection ::
    "('s, 'z, 'f) planner_config \<Rightarrow> WorkItem \<Rightarrow> AnalysisResult \<Rightarrow> ModelSelection" where
  "chosen_selection pc workItem analysis =
     (case selectOptimalModel pc (wi_WorkType workItem) analysis of
        Inl e \<Rightarrow> default_selection pc analysis ''Fallback due to selection error'' ''fallback''
      | Inr sel \<Rightarrow> sel)"

text \<open>The part of \<open>analyzeAndPlan\<close> after the session is analysed (steps 4 to 6).\<close>

definition plan_analyzed ::
    "('s, 'z, 'f) planner_config \<Rightarrow> (nat \<Rightarrow> clock) \<Rightarrow> string \<Rightarrow> Session \<Rightarrow> AnalysisResult
     \<Rightarrow> ('s, 'z, 'f) planner \<Rightarrow> ('s, 'z, 'f) planner option" where
  "plan_analyzed pc clks sid session analysis p0 =
     (case se_WorkItem session of
        None \<Rightarrow> None
      | Some workItem \<Rightarrow>
          let sel = chosen_selection pc workItem analysis;
              p1 = p0\<lparr>pl_selections := pl_selections p0
                        @ [(sid, se_WorkItemID session, sel_ModelID sel, sel_Reason sel)]\<rparr>;
              p2 = fst (with_mgr (AddEvidence (pc_store pc) (pc_zen pc) (pc_mgr pc) (clks 5) sid
                                    (selection_item pc (clks 4 1) sid session sel)) p1)
          in if requires_approval pc analysis
             then (case transition pc (clks 6) sid SessionStateBlocked ''Awaiting human approval'' ''planner'' p2 of
                     (p3, Some e) \<Rightarrow> Some p3
                   | (p3, None) \<Rightarrow> Some (p3\<lparr>pl_approvalQueue := pl_approvalQueue p3 @ [session]\<rparr>))
             else Some (fst (autoApproveAndSchedule pc (\<lambda>k. clks (6 + k)) sid sel p2)))"

definition analyzeAndPlan ::
    "('s, 'z, 'f) planner_config \<Rightarrow> (nat \<Rightarrow> clock) \<Rightarrow> string \<Rightarrow> WorkItem
     \<Rightarrow> ('s, 'z, 'f) planner \<Rightarrow> ('s, 'z, 'f) planner option" where
  "analyzeAndPlan pc clks sid workItem p0 =
     (case over_budget pc workItem of
        Some st \<Rightarrow>
          Some (fst (transition pc (clks 0) sid SessionStateFailed
                       (''Project over budget ('' @ pc_fmtf pc 2 (bst_BudgetLimitUSD st) @ '' USD limit)'')
                       ''planner'' p0))
      | None \<Rightarrow>
          let p1 = agent_note pc 0 p0
          in (case pc_analyze pc workItem of
                Inl e \<Rightarrow>
                  Some (fst (transition pc (clks 0) sid SessionStateFailed
                               (''Intent analysis failed: '' @ e) ''planner'' (agent_note pc 1 p1)))
              | Inr analysis \<Rightarrow>
                  (case get_session pc (clks 1) sid p1 of
                     (p2, Inl e) \<Rightarrow> Some p2
                   | (p2, Inr session0) \<Rightarrow>
                       let session1 = session0\<lparr>se_AnalysisResult := Some analysis,
                                               se_BrainTaskSpecs := ar_BrainTaskSpecs analysis\<rparr>
                       in (case with_mgr (UpdateSession (pc_store pc) (pc_zen pc) (pc_mgr pc) (clks 2) session1) p2 of
                             (p3, Some e) \<Rightarrow> Some p3
                           | (p3, None) \<Rightarrow>
                               let session = session1\<lparr>se_UpdatedAt := clks 2 0\<rparr>
                               in (case transition pc (clks 3) sid SessionStateAnalyzed ''Intent analysis complete''
                                          ''analyzer'' (store_hypothesis pc (clks 4 0) sid session analysis p3) of
                                     (p4, Some e) \<Rightarrow> Some p4
                                   | (p4, None) \<Rightarrow> plan_analyzed pc clks sid session analysis p4)))))"

subsection \<open>Operations\<close>

text \<open>
  \<open>ProcessWorkItem\<close> returns the goroutine it starts as the arguments of its \<open>analyzeAndPlan\<close>.
\<close>

definition ProcessWorkItem ::
    "('s, 'z, 'f) planner_config \<Rightarrow> clock \<Rightarrow> WorkItem
     \<Rightarrow> ('s, 'z, 'f) planner \<Rightarrow> ('s, 'z, 'f) planner \<times> (planner_error + string \<times> WorkItem)" where
  "ProcessWorkItem pc clk workItem p0 =
     (case with_mgr (CreateSession (pc_store pc) (pc_zen pc) (pc_mgr pc) clk workItem) p0 of
        (p1, Inl e) \<Rightarrow> (p1, Inl (PECreate e))
      | (p1, Inr session) \<Rightarrow>
          (p1\<lparr>pl_activeSessions := (pl_activeSessions p1)(se_ID session \<mapsto> session)\<rparr>,
           Inr (se_ID session, workItem)))"

fun ProcessBatch ::
    "('s, 'z, 'f) planner_config \<Rightarrow> (nat \<Rightarrow> clock) \<Rightarrow> nat \<Rightarrow> WorkItem list
     \<Rightarrow> ('s, 'z, 'f) planner \<Rightarrow> ('s, 'z, 'f) planner \<times> (string \<times> WorkItem) list" where
  "ProcessBatch pc clks i [] p = (p, [])"
| "ProcessBatch pc clks i (workItem # workItems) p =
     (case ProcessWorkItem pc (clks i) workItem p of
        (p1, Inl e) \<Rightarrow> ProcessBatch pc clks (Suc i) workItems p1
      | (p1, Inr g) \<Rightarrow>
          (case ProcessBatch pc clks (Suc i) workItems p1 of (p2, gs) \<Rightarrow> (p2, g # gs)))"

text \<open>The loop of \<open>ApproveSession\<close> and \<open>RejectSession\<close> that drops the first entry of the session.\<close>

fun remove_queued :: "string \<Rightarrow> Session list \<Rightarrow> Session list" where
  "remove_queued sid [] = []"
| "remove_queued sid (s # q) = (if se_ID s = sid then q else s # remove_queued sid q)"

definition ApproveSession ::
    "('s, 'z, 'f) planner_config \<Rightarrow> (nat \<Rightarrow> clock) \<Rightarrow> string \<Rightarrow> string \<Rightarrow> string
     \<Rightarrow> ('s, 'z, 'f) planner \<Rightarrow> ('s, 'z, 'f) planner \<times> planner_error option" where
  "ApproveSession pc clks sid approver remark p0 =
     (case get_session pc (clks 0) sid p0 of
        (p1, Inl e) \<Rightarrow> (p1, Some (PEGet e))
      | (p1, Inr session) \<Rightarrow>
          if se_State session \<noteq> SessionStateBlocked then (p1, Some (PENotBlocked (se_State session)))
          else
            (case transition pc (clks 1) sid SessionStateScheduled
                    (''Approved by '' @ approver @ '': '' @ remark) approver p1 of
               (p2, Some e) \<Rightarrow> (p2, Some (PESchedule e))
             | (p2, None) \<Rightarrow>
                 (case transition pc (clks 2) sid SessionStateInProgress
                         ''Starting execution after approval'' ''planner''
                         (p2\<lparr>pl_approvalQueue := remove_queued sid (pl_approvalQueue p2)\<rparr>) of
                    (p3, Some e) \<Rightarrow> (p3, Some (PEStart e))
                  | (p3, None) \<Rightarrow> (p3, None))))"

definition RejectSession ::
    "('s, 'z, 'f) planner_config \<Rightarrow> (nat \<Rightarrow> clock) \<Rightarrow> string \<Rightarrow> string \<Rightarrow> string
     \<Rightarrow> ('s, 'z, 'f) planner \<Rightarrow> ('s, 'z, 'f) planner \<times> planner_error option" where
  "RejectSession pc clks sid rejector reason p0 =
     (case get_session pc (clks 0) sid p0 of
        (p1, Inl e) \<Rightarrow> (p1, Some (PEGet e))
      | (p1, Inr session) \<Rightarrow>
          if se_State session \<noteq> SessionStateBlocked then (p1, Some (PENotBlocked (se_State session)))
          else
            (case transition pc (clks 1) sid SessionStateCanceled
                    (''Rejected by '' @ rejector @ '': '' @ reason) rejector p1 of
               (p2, Some e) \<Rightarrow> (p2, Some (PECancel e))
             | (p2, None) \<Rightarrow>
                 (p2\<lparr>pl_approvalQueue := remove_queued sid (pl_approvalQueue p2)\<rparr>, None)))"

definition cancelable :: "string \<Rightarrow> bool" where
  "cancelable st \<longleftrightarrow>
     st \<in> {SessionStateCreated, SessionStateAnalyzed, SessionStateScheduled, SessionStateInProgress,
           SessionStateBlocked}"

definition CancelSession ::
    "('s, 'z, 'f) planner_config \<Rightarrow> (nat \<Rightarrow> clock) \<Rightarrow> string \<Rightarrow> string \<Rightarrow> string
     \<Rightarrow> ('s, 'z, 'f) planner \<Rightarrow> ('s, 'z, 'f) planner \<times> planner_error option" where
  "CancelSession pc clks sid canceller reason p0 =
     (case get_session pc (clks 0) sid p0 of
        (p1, Inl e) \<Rightarrow> (p1, Some (PEGet e))
      | (p1, Inr session) \<Rightarrow>
          if \<not> cancelable (se_State session) then (p1, Some (PENotCancelable (se_State session)))
          else
            (case transition pc (clks 1) sid SessionStateCanceled
                    (''Canceled by '' @ canceller @ '': '' @ reason) canceller p1 of
               (p2, Some e) \<Rightarrow> (p2, Some (PECancel e))
             | (p2, None) \<Rightarrow> (p2, None)))"

definition GetPendingApprovals :: "('s, 'z, 'f) planner \<Rightarrow> Session list" where
  "GetPendingApprovals p = filter (\<lambda>s. se_State s = SessionStateBlocked) (pl_approvalQueue p)"

subsection \<open>Status\<close>

record SessionStatus =
  ss_Session :: Session
  ss_WorkItem :: "WorkItem option"
  ss_Analysis :: "AnalysisResult option"
  ss_BrainTaskSpecs :: "BrainTaskSpec list"
  ss_Evidence :: "EvidenceItem list"
  ss_EstimatedCostUSD :: float64
  ss_ActualCostUSD :: float64
  ss_TimeElapsed :: string
  ss_ProgressPercent :: float64

definition progress_of :: "string \<Rightarrow> float64" where
  "progress_of st =
     (if st = SessionStateCreated then Fin 0
      else if st = SessionStateAnalyzed then Fin 25
      else if st = SessionStateScheduled then Fin 50
      else if st = SessionStateInProgress then Fin 75
      else if st = SessionStateCompleted then Fin 100
      else Fin 0)"

text \<open>\<open>Duration.Round(time.Second)\<close>: halves away from zero, saturating at the bounds of \<open>int64\<close>.\<close>

definition round_second :: "duration \<Rightarrow> duration" where
  "round_second d =
     (let r = \<bar>d\<bar> mod second;
          n = (if 2 * r < second then \<bar>d\<bar> - r else \<bar>d\<bar> + second - r)
      in if d < 0 then max (- (2 ^ 63)) (- n) else min (2 ^ 63 - 1) n)"

definition GetSessionStatus ::
    "('s, 'z, 'f) planner_config \<Rightarrow> (nat \<Rightarrow> clock) \<Rightarrow> string
     \<Rightarrow> ('s, 'z, 'f) planner \<Rightarrow> ('s, 'z, 'f) planner \<times> (planner_error + SessionStatus)" where
  "GetSessionStatus pc clks sid p0 =
     (case get_session pc (clks 0) sid p0 of
        (p1, Inl e) \<Rightarrow> (p1, Inl (PEGet e))
      | (p1, Inr session) \<Rightarrow>
          (p1, Inr \<lparr>ss_Session = session, ss_WorkItem = se_WorkItem session,
                    ss_Analysis = se_AnalysisResult session,
                    ss_BrainTaskSpecs = se_BrainTaskSpecs session, ss_Evidence = se_EvidenceItems session,
                    ss_EstimatedCostUSD =
                      (case se_AnalysisResult session of
                         None \<Rightarrow> Fin 0 | Some ar \<Rightarrow> ar_EstimatedTotalCostUSD ar),
                    ss_ActualCostUSD = Fin 0,
                    ss_TimeElapsed =
                      (case se_StartedAt session of
                         None \<Rightarrow> []
                       | Some t \<Rightarrow> pc_fmt_dur pc (round_second (time_sub (clks 1 0) t))),
                    ss_ProgressPercent = progress_of (se_State session)\<rparr>))"

subsection \<open>Stuck sessions\<close>

definition in_progress_filter :: SessionFilter where
  "in_progress_filter =
     \<lparr>sf_State = Some SessionStateInProgress, sf_WorkItemID = None, sf_SourceKey = None,
      sf_AssignedAgent = None, sf_CreatedAfter = None, sf_CreatedBefore = None, sf_UpdatedAfter = None,
      sf_UpdatedBefore = None, sf_Limit = 0, sf_Offset = 0\<rparr>"

text \<open>
  \<open>timeout\<close> is the \<open>int64\<close> product of the configured seconds and a second; \<open>clks i 0\<close> is the reading
  of \<open>time.Since\<close> for the \<open>i\<close>-th session and \<open>clks' i\<close> the clock of its transition.
\<close>

definition execution_timeout :: "('s, 'z, 'f) planner_config \<Rightarrow> duration" where
  "execution_timeout pc = sint (of_int (pc_ExecutionTimeout pc) * of_int second :: 64 word)"

fun stuck_loop ::
    "('s, 'z, 'f) planner_config \<Rightarrow> (nat \<Rightarrow> clock) \<Rightarrow> (nat \<Rightarrow> clock) \<Rightarrow> nat \<Rightarrow> Session list
     \<Rightarrow> ('s, 'z, 'f) planner \<Rightarrow> ('s, 'z, 'f) planner" where
  "stuck_loop pc clks clks' i [] p = p"
| "stuck_loop pc clks clks' i (s # ss) p =
     (case se_StartedAt s of
        None \<Rightarrow> stuck_loop pc clks clks' (Suc i) ss p
      | Some t \<Rightarrow>
          let elapsed = time_sub (clks i 0) t
          in if elapsed > execution_timeout pc
             then stuck_loop pc clks clks' (Suc i) ss
                    (fst (transition pc (clks' i) (se_ID s) SessionStateFailed
                            (''Execution timeout after '' @ pc_fmt_dur pc elapsed) ''planner-monitor'' p))
             else stuck_loop pc clks clks' (Suc i) ss p)"

definition checkStuckSessions ::
    "('s, 'z, 'f) planner_config \<Rightarrow> (nat \<Rightarrow> clock) \<Rightarrow> (nat \<Rightarrow> clock)
     \<Rightarrow> ('s, 'z, 'f) planner \<Rightarrow> ('s, 'z, 'f) planner" where
  "checkStuckSessions pc clks clks' p0 =
     (case with_mgr (ListSessions (pc_store pc) in_progress_filter) p0 of
        (p1, Inl e) \<Rightarrow> p1
      | (p1, Inr sessions) \<Rightarrow> stuck_loop pc clks clks' 0 sessions p1)"

end
