(* ===== verification/Gatekeeper.thy ===== *)
theory Gatekeeper
  imports Planner
begin

text \<open>
  The human gatekeeper (\<open>internal/gatekeeper/gatekeeper.go\<close>, \<open>interface.go\<close>): approval requests
  for the sessions the planner holds for approval, the decisions on them, delegation, escalation,
  reminders and the audit log.

  The planner is an interface value \<open>'p\<close> with operations \<open>planner_ops\<close>; its contract is the locale
  \<open>approval_planner\<close> of \<open>Gatekeeper_Properties\<close>. The requests and the notifiers are maps the code ranges over.
  The calls on the notifiers, whose errors are only logged, are the list \<open>gk_sent\<close>; the audit log is
  the list of its entries, written when its file is open. A handler that dereferences a nil work
  item ends in \<open>Panicked\<close>, with the state it has reached. \<open>clk i\<close> is the \<open>i\<close>-th reading of the clock.
\<close>

subsection \<open>Data\<close>

definition ApprovalStatusPending :: string where "ApprovalStatusPending = ''pending''"
definition ApprovalStatusApproved :: string where "ApprovalStatusApproved = ''approved''"
definition ApprovalStatusRejected :: string where "ApprovalStatusRejected = ''rejected''"
definition ApprovalStatusDelegated :: string where "ApprovalStatusDelegated = ''delegated''"
definition ApprovalStatusEscalated :: string where "ApprovalStatusEscalated = ''escalated''"

lemmas approval_status_defs =
  ApprovalStatusPending_def ApprovalStatusApproved_def ApprovalStatusRejected_def
  ApprovalStatusDelegated_def ApprovalStatusEscalated_def

record ApprovalRequest =
  aq_ID :: string
  aq_SessionID :: string
  aq_WorkItem :: "WorkItem option"
  aq_Analysis :: "AnalysisResult option"
  aq_EstimatedCostUSD :: float64
  aq_Requester :: string
  aq_RequestedAt :: time
  aq_Deadline :: "time option"
  aq_Priority :: string
  aq_ApprovalLevel :: string
  aq_Notes :: string
  aq_AssignedTo :: "string list"
  aq_Status :: string

record ApprovalDecision =
  dc_Decision :: string
  dc_DecidedBy :: string
  dc_DecidedAt :: time
  dc_Reason :: string
  dc_Attachments :: "string list"

record ApprovalEvent =
  ae_ID :: string
  ae_ApprovalID :: string
  ae_SessionID :: string
  ae_EventType :: string
  ae_Actor :: string
  ae_Timestamp :: time
  ae_Details :: "string \<rightharpoonup> string"

record ApprovalFilter =
  af_Status :: "string option"
  af_AssignedTo :: "string option"
  af_Priority :: "string option"
  af_ApprovalLevel :: "string option"
  af_SessionID :: "string option"
  af_WorkItemID :: "string option"
  af_RequestedAfter :: "time option"
  af_RequestedBefore :: "time option"
  af_Limit :: int
  af_Offset :: int

text \<open>The part of the \<open>Planner\<close> interface that the gatekeeper calls.\<close>

record ('p, 'e) planner_ops =
  po_GetPendingApprovals :: "'p \<Rightarrow> 'p \<times> ('e + Session list)"
  po_ApproveSession :: "'p \<Rightarrow> string \<Rightarrow> string \<Rightarrow> string \<Rightarrow> 'p \<times> 'e option"
  po_RejectSession :: "'p \<Rightarrow> string \<Rightarrow> string \<Rightarrow> string \<Rightarrow> 'p \<times> 'e option"

record gk_config =
  gc_DefaultApprovalLevel :: string
  gc_DefaultDeadlineHours :: int

datatype notification =
    NRequest ApprovalRequest
  | NDecision ApprovalRequest ApprovalDecision
  | NReminder ApprovalRequest

record AuditEntry =
  au_Timestamp :: time
  au_ApprovalID :: string
  au_SessionID :: string
  au_WorkItemID :: string
  au_Decision :: string
  au_DecidedBy :: string
  au_Reason :: string
  au_EstimatedCost :: float64

record 'p gatekeeper =
  gk_planner :: 'p
  gk_requests :: "(string, ApprovalRequest) gomap"
  gk_events :: "string \<rightharpoonup> ApprovalEvent list"
  gk_notifiers :: "(string, unit) gomap"
  gk_sent :: "(string \<times> notification) list"
  gk_audit_open :: bool
  gk_audit :: "AuditEntry list"

datatype 'e gk_error =
    GENotFound string
  | GENotPending string string
  | GEInvalidDecision string
  | GENoDecider
  | GEApprove 'e
  | GEReject 'e
  | GEHighestLevel
  | GEPending 'e
  | GENoRequest string
  | GENotifierExists string

datatype 'e gk_result = Done | Refused "'e gk_error" | Panicked

abbreviation gk_lookup :: "'p gatekeeper \<Rightarrow> string \<rightharpoonup> ApprovalRequest" where
  "gk_lookup g \<equiv> map_of (gk_requests g)"

definition gk_put :: "string \<Rightarrow> ApprovalRequest \<Rightarrow> 'p gatekeeper \<Rightarrow> 'p gatekeeper" where
  "gk_put k req g = g\<lparr>gk_requests := AList.update k req (gk_requests g)\<rparr>"

subsection \<open>Helpers\<close>

definition approval_id :: "string \<Rightarrow> string" where
  "approval_id sid = ''approval-'' @ sid"

definition getEstimatedCost :: "Session \<Rightarrow> float64" where
  "getEstimatedCost session =
     (case se_AnalysisResult session of None \<Rightarrow> Fin 0 | Some ar \<Rightarrow> ar_EstimatedTotalCostUSD ar)"

definition getApprovalNotes :: "Session \<Rightarrow> string" where
  "getApprovalNotes session =
     (case se_AnalysisResult session of
        Some ar \<Rightarrow> ar_AnalysisNotes ar
      | None \<Rightarrow>
          (case se_WorkItem session of
             Some w \<Rightarrow> ''Work item: '' @ wi_Title w @ [CHR 0x0A] @ wi_Body w
           | None \<Rightarrow> ''No analysis available''))"

definition getDefaultApprovalLevel :: "gk_config \<Rightarrow> string" where
  "getDefaultApprovalLevel gc =
     (if gc_DefaultApprovalLevel gc \<noteq> [] then gc_DefaultApprovalLevel gc else ''team_lead'')"

definition approval_levels :: "string \<rightharpoonup> string" where
  "approval_levels =
     [''team_lead'' \<mapsto> ''manager'', ''manager'' \<mapsto> ''director'', ''director'' \<mapsto> ''executive'', ''executive'' \<mapsto> []]"

definition getNextApprovalLevel :: "string \<Rightarrow> string" where
  "getNextApprovalLevel currentLevel =
     (if currentLevel = [] then ''team_lead''
      else case approval_levels currentLevel of None \<Rightarrow> [] | Some l \<Rightarrow> l)"

definition request_priority :: "Session \<Rightarrow> string" where
  "request_priority session =
     (case se_AnalysisResult session of
        None \<Rightarrow> ''medium''
      | Some ar \<Rightarrow>
          let cost = ar_EstimatedTotalCostUSD ar
          in if flt cost (Fin 1) then ''low''
             else if fgt cost (Fin 5) then ''high''
             else if fgt cost (Fin 10) then ''critical''
             else ''medium'')"

definition createApprovalRequest :: "gk_config \<Rightarrow> time \<Rightarrow> Session \<Rightarrow> ApprovalRequest" where
  "createApprovalRequest gc now session =
     \<lparr>aq_ID = approval_id (se_ID session), aq_SessionID = se_ID session, aq_WorkItem = se_WorkItem session,
      aq_Analysis = se_AnalysisResult session, aq_EstimatedCostUSD = getEstimatedCost session,
      aq_Requester = ''planner'', aq_RequestedAt = now,
      aq_Deadline = Some (time_add now
        (sint (of_int (gc_DefaultDeadlineHours gc) * of_int hour :: 64 word))),
      aq_Priority = request_priority session, aq_ApprovalLevel = getDefaultApprovalLevel gc,
      aq_Notes = getApprovalNotes session, aq_AssignedTo = [''team-lead''],
      aq_Status = ApprovalStatusPending\<rparr>"

definition matchesFilter_approval :: "ApprovalRequest \<Rightarrow> ApprovalFilter \<Rightarrow> bool" where
  "matchesFilter_approval req f \<longleftrightarrow>
     opt_matches (af_Status f) (\<lambda>v. v = aq_Status req)
     \<and> opt_matches (af_AssignedTo f) (\<lambda>v. list_ex (\<lambda>assigned. assigned = v) (aq_AssignedTo req))
     \<and> opt_matches (af_Priority f) (\<lambda>v. v = aq_Priority req)
     \<and> opt_matches (af_ApprovalLevel f) (\<lambda>v. v = aq_ApprovalLevel req)
     \<and> opt_matches (af_SessionID f) (\<lambda>v. v = aq_SessionID req)
     \<and> opt_matches (af_WorkItemID f)
          (\<lambda>v. case aq_WorkItem req of None \<Rightarrow> True | Some w \<Rightarrow> v = wi_ID w)
     \<and> opt_matches (af_RequestedAfter f) (\<lambda>t. \<not> time_before (aq_RequestedAt req) t)
     \<and> opt_matches (af_RequestedBefore f) (\<lambda>t. \<not> time_after (aq_RequestedAt req) t)"

definition go_unix_nano :: "time \<Rightarrow> int" where
  "go_unix_nano t = t - 62135596800 * second"

definition recordApprovalEvent ::
    "clock \<Rightarrow> string \<Rightarrow> string \<Rightarrow> string \<Rightarrow> string \<Rightarrow> (string \<rightharpoonup> string) \<Rightarrow> 'p gatekeeper \<Rightarrow> 'p gatekeeper" where
  "recordApprovalEvent clk approvalID sessionID eventType actor details g =
     g\<lparr>gk_events := (gk_events g)(approvalID \<mapsto>
         (case gk_events g approvalID of None \<Rightarrow> [] | Some es \<Rightarrow> es)
         @ [\<lparr>ae_ID = ''event-'' @ itoa (go_unix_nano (clk 0)), ae_ApprovalID = approvalID,
             ae_SessionID = sessionID, ae_EventType = eventType, ae_Actor = actor,
             ae_Timestamp = clk 1, ae_Details = details\<rparr>])\<rparr>"

definition send_all :: "(string \<Rightarrow> nat) \<Rightarrow> notification \<Rightarrow> 'p gatekeeper \<Rightarrow> 'p gatekeeper" where
  "send_all r n g = g\<lparr>gk_sent := gk_sent g @ map (\<lambda>(name, _). (name, n)) (go_range r (gk_notifiers g))\<rparr>"

definition audit_entry :: "time \<Rightarrow> ApprovalRequest \<Rightarrow> WorkItem \<Rightarrow> ApprovalDecision \<Rightarrow> AuditEntry" where
  "audit_entry now req w decision =
     \<lparr>au_Timestamp = now, au_ApprovalID = aq_ID req, au_SessionID = aq_SessionID req,
      au_WorkItemID = wi_ID w, au_Decision = dc_Decision decision, au_DecidedBy = dc_DecidedBy decision,
      au_Reason = dc_Reason decision, au_EstimatedCost = aq_EstimatedCostUSD req\<rparr>"

definition auditLogDecision ::
    "time \<Rightarrow> ApprovalRequest \<Rightarrow> ApprovalDecision \<Rightarrow> 'p gatekeeper \<Rightarrow> 'p gatekeeper \<times> 'e gk_result" where
  "auditLogDecision now req decision g =
     (if \<not> gk_audit_open g then (g, Done)
      else case aq_WorkItem req of
             None \<Rightarrow> (g, Panicked)
           | Some w \<Rightarrow> (g\<lparr>gk_audit := gk_audit g @ [audit_entry now req w decision]\<rparr>, Done))"

subsection \<open>Listing\<close>

definition ensure_request ::
    "gk_config \<Rightarrow> (string \<Rightarrow> nat) \<Rightarrow> clock \<Rightarrow> Session \<Rightarrow> 'p gatekeeper \<Rightarrow> 'p gatekeeper \<times> ApprovalRequest" where
  "ensure_request gc r clk session g =
     (case gk_lookup g (approval_id (se_ID session)) of
        Some req \<Rightarrow> (g, req)
      | None \<Rightarrow>
          let req = createApprovalRequest gc (clk 0) session
          in (send_all r (NRequest req)
                (recordApprovalEvent (\<lambda>i. clk (Suc i)) (aq_ID req) (se_ID session) ''requested'' ''system'' Map.empty
                   (gk_put (approval_id (se_ID session)) req g)), req))"

fun pending_loop ::
    "gk_config \<Rightarrow> (string \<Rightarrow> nat) \<Rightarrow> (nat \<Rightarrow> clock) \<Rightarrow> ApprovalFilter \<Rightarrow> nat \<Rightarrow> ApprovalRequest list
     \<Rightarrow> Session list \<Rightarrow> 'p gatekeeper \<Rightarrow> 'p gatekeeper \<times> ApprovalRequest list" where
  "pending_loop gc r clks f i result [] g = (g, result)"
| "pending_loop gc r clks f i result (session # sessions) g =
     (case ensure_request gc r (clks i) session g of
        (g', req) \<Rightarrow>
          let result' = (if matchesFilter_approval req f then result @ [req] else result)
          in if af_Limit f > 0 \<and> int (length result') \<ge> af_Limit f then (g', result')
             else pending_loop gc r clks f (Suc i) result' sessions g')"

definition gk_GetPendingApprovals ::
    "('p, 'e) planner_ops \<Rightarrow> gk_config \<Rightarrow> (string \<Rightarrow> nat) \<Rightarrow> (nat \<Rightarrow> clock) \<Rightarrow> ApprovalFilter
     \<Rightarrow> 'p gatekeeper \<Rightarrow> 'p gatekeeper \<times> ('e gk_error + ApprovalRequest list)" where
  "gk_GetPendingApprovals pops gc r clks f g =
     (case po_GetPendingApprovals pops (gk_planner g) of
        (p, Inl e) \<Rightarrow> (g\<lparr>gk_planner := p\<rparr>, Inl (GEPending e))
      | (p, Inr sessions) \<Rightarrow>
          (case pending_loop gc r clks f 0 [] sessions (g\<lparr>gk_planner := p\<rparr>) of (g', result) \<Rightarrow> (g', Inr result)))"

definition GetApproval :: "string \<Rightarrow> 'p gatekeeper \<Rightarrow> 'e gk_error + ApprovalRequest" where
  "GetApproval approvalID g =
     (case gk_lookup g approvalID of None \<Rightarrow> Inl (GENotFound approvalID) | Some req \<Rightarrow> Inr req)"

subsection \<open>Decisions\<close>

definition decide ::
    "('p, 'e) planner_ops \<Rightarrow> ApprovalRequest \<Rightarrow> ApprovalDecision \<Rightarrow> 'p \<Rightarrow> 'p \<times> 'e gk_error option" where
  "decide pops req decision p =
     (if dc_Decision decision = ''approved''
      then (case po_ApproveSession pops p (aq_SessionID req) (dc_DecidedBy decision) (dc_Reason decision) of
              (p', e) \<Rightarrow> (p', map_option GEApprove e))
      else (case po_RejectSession pops p (aq_SessionID req) (dc_DecidedBy decision) (dc_Reason decision) of
              (p', e) \<Rightarrow> (p', map_option GEReject e)))"

definition decided_status :: "ApprovalDecision \<Rightarrow> string" where
  "decided_status decision =
     (if dc_Decision decision = ''rejected'' then ApprovalStatusRejected else ApprovalStatusApproved)"

definition Approve ::
    "('p, 'e) planner_ops \<Rightarrow> (string \<Rightarrow> nat) \<Rightarrow> clock \<Rightarrow> string \<Rightarrow> ApprovalDecision
     \<Rightarrow> 'p gatekeeper \<Rightarrow> 'p gatekeeper \<times> 'e gk_result" where
  "Approve pops r clk approvalID decision0 g =
     (case gk_lookup g approvalID of
        None \<Rightarrow> (g, Refused (GENotFound approvalID))
      | Some req \<Rightarrow>
          if aq_Status req \<noteq> ApprovalStatusPending then (g, Refused (GENotPending approvalID (aq_Status req)))
          else if dc_Decision decision0 \<noteq> ''approved'' \<and> dc_Decision decision0 \<noteq> ''rejected''
          then (g, Refused (GEInvalidDecision (dc_Decision decision0)))
          else if dc_DecidedBy decision0 = [] then (g, Refused GENoDecider)
          else
            let decision = (if is_zero_time (dc_DecidedAt decision0)
                            then decision0\<lparr>dc_DecidedAt := clk 0\<rparr> else decision0)
            in (case decide pops req decision (gk_planner g) of
                  (p, Some e) \<Rightarrow> (g\<lparr>gk_planner := p\<rparr>, Refused e)
                | (p, None) \<Rightarrow>
                    let req' = req\<lparr>aq_Status := decided_status decision\<rparr>;
                        g1 = gk_put approvalID req' (g\<lparr>gk_planner := p\<rparr>);
                        g2 = recordApprovalEvent (\<lambda>i. clk (1 + i)) (aq_ID req') (aq_SessionID req')
                               (dc_Decision decision) (dc_DecidedBy decision)
                               [''decision'' \<mapsto> dc_Decision decision, ''reason'' \<mapsto> dc_Reason decision] g1
                    in auditLogDecision (clk 3) req' decision (send_all r (NDecision req' decision) g2)))"

definition Reject ::
    "('p, 'e) planner_ops \<Rightarrow> (string \<Rightarrow> nat) \<Rightarrow> clock \<Rightarrow> string \<Rightarrow> ApprovalDecision
     \<Rightarrow> 'p gatekeeper \<Rightarrow> 'p gatekeeper \<times> 'e gk_result" where
  "Reject pops r clk approvalID decision g =
     Approve pops r clk approvalID (decision\<lparr>dc_Decision := ''rejected''\<rparr>) g"

definition DelegateApproval ::
    "clock \<Rightarrow> string \<Rightarrow> string \<Rightarrow> string \<Rightarrow> 'p gatekeeper \<Rightarrow> 'p gatekeeper \<times> 'e gk_result" where
  "DelegateApproval clk approvalID delegateTo reason g =
     (case gk_lookup g approvalID of
        None \<Rightarrow> (g, Refused (GENotFound approvalID))
      | Some req \<Rightarrow>
          if aq_Status req \<noteq> ApprovalStatusPending then (g, Refused (GENotPending approvalID (aq_Status req)))
          else (recordApprovalEvent clk (aq_ID req) (aq_SessionID req) ''delegated'' ''system''
                  [''delegate_to'' \<mapsto> delegateTo, ''reason'' \<mapsto> reason]
                  (gk_put approvalID
                     (req\<lparr>aq_AssignedTo := [delegateTo], aq_Status := ApprovalStatusDelegated\<rparr>) g), Done))"

definition EscalateApproval ::
    "clock \<Rightarrow> string \<Rightarrow> string \<Rightarrow> 'p gatekeeper \<Rightarrow> 'p gatekeeper \<times> 'e gk_result" where
  "EscalateApproval clk approvalID reason g =
     (case gk_lookup g approvalID of
        None \<Rightarrow> (g, Refused (GENotFound approvalID))
      | Some req \<Rightarrow>
          if aq_Status req \<noteq> ApprovalStatusPending then (g, Refused (GENotPending approvalID (aq_Status req)))
          else
            let nextLevel = getNextApprovalLevel (aq_ApprovalLevel req)
            in if nextLevel = [] then (g, Refused GEHighestLevel)
               else
                 let req' = req\<lparr>aq_ApprovalLevel := nextLevel, aq_Status := ApprovalStatusEscalated\<rparr>
                 in (recordApprovalEvent clk (aq_ID req') (aq_SessionID req') ''escalated'' ''system''
                       [''from_level'' \<mapsto> aq_ApprovalLevel req', ''to_level'' \<mapsto> nextLevel, ''reason'' \<mapsto> reason]
                       (gk_put approvalID req' g), Done))"

definition GetApprovalHistory ::
    "(string \<Rightarrow> nat) \<Rightarrow> string \<Rightarrow> 'p gatekeeper \<Rightarrow> 'e gk_error + ApprovalEvent list" where
  "GetApprovalHistory r sessionID g =
     (case find (\<lambda>(k, req). aq_SessionID req = sessionID) (go_range r (gk_requests g)) of
        None \<Rightarrow> Inl (GENoRequest sessionID)
      | Some (approvalID, req) \<Rightarrow>
          if approvalID = [] then Inl (GENoRequest sessionID)
          else Inr (case gk_events g approvalID of None \<Rightarrow> [] | Some es \<Rightarrow> es))"

definition RegisterNotifier :: "string \<Rightarrow> 'p gatekeeper \<Rightarrow> 'p gatekeeper \<times> 'e gk_result" where
  "RegisterNotifier name g =
     (case map_of (gk_notifiers g) name of
        Some _ \<Rightarrow> (g, Refused (GENotifierExists name))
      | None \<Rightarrow> (g\<lparr>gk_notifiers := AList.update name () (gk_notifiers g)\<rparr>, Done))"

subsection \<open>Background tasks\<close>

text \<open>The quotient by 2 of \<open>int64\<close> values truncates towards zero.\<close>

definition half_duration :: "duration \<Rightarrow> duration" where
  "half_duration d = (if d < 0 then - ((- d) div 2) else d div 2)"

text \<open>\<open>clks i\<close> are the readings for the \<open>i\<close>-th request visited: \<open>Until\<close>, \<open>Now\<close> and the event's two.\<close>

definition remind ::
    "(string \<Rightarrow> nat) \<Rightarrow> clock \<Rightarrow> ApprovalRequest \<Rightarrow> 'p gatekeeper \<Rightarrow> 'p gatekeeper" where
  "remind r clk req g =
     (case aq_Deadline req of
        None \<Rightarrow> g
      | Some deadline \<Rightarrow>
          if aq_Status req = ApprovalStatusPending
             \<and> time_after (clk 1) (time_add (aq_RequestedAt req) (half_duration (time_sub deadline (clk 0))))
          then recordApprovalEvent (\<lambda>i. clk (2 + i)) (aq_ID req) (aq_SessionID req) ''reminded'' ''system'' Map.empty
                 (send_all r (NReminder req) g)
          else g)"

fun remind_loop ::
    "(string \<Rightarrow> nat) \<Rightarrow> (nat \<Rightarrow> clock) \<Rightarrow> nat \<Rightarrow> (string \<times> ApprovalRequest) list \<Rightarrow> 'p gatekeeper \<Rightarrow> 'p gatekeeper"
  where
  "remind_loop r clks i [] g = g"
| "remind_loop r clks i ((k, req) # rest) g = remind_loop r clks (Suc i) rest (remind r (clks i) req g)"

definition sendReminders ::
    "(string \<Rightarrow> nat) \<Rightarrow> (nat \<Rightarrow> clock) \<Rightarrow> 'p gatekeeper \<Rightarrow> 'p gatekeeper" where
  "sendReminders r clks g = remind_loop r clks 0 (go_range r (gk_requests g)) g"

definition auto_escalate ::
    "clock \<Rightarrow> string \<Rightarrow> ApprovalRequest \<Rightarrow> 'p gatekeeper \<Rightarrow> 'p gatekeeper" where
  "auto_escalate clk k req g =
     (case aq_Deadline req of
        None \<Rightarrow> g
      | Some deadline \<Rightarrow>
          if aq_Status req = ApprovalStatusPending \<and> time_after (clk 0) deadline
             \<and> getNextApprovalLevel (aq_ApprovalLevel req) \<noteq> []
          then recordApprovalEvent (\<lambda>i. clk (1 + i)) (aq_ID req) (aq_SessionID req) ''auto_escalated'' ''system''
                 [''reason'' \<mapsto> ''deadline passed'']
                 (gk_put k (req\<lparr>aq_ApprovalLevel := getNextApprovalLevel (aq_ApprovalLevel req)\<rparr>) g)
          else g)"

fun escalate_loop ::
    "(nat \<Rightarrow> clock) \<Rightarrow> nat \<Rightarrow> (string \<times> ApprovalRequest) list \<Rightarrow> 'p gatekeeper \<Rightarrow> 'p gatekeeper" where
  "escalate_loop clks i [] g = g"
| "escalate_loop clks i ((k, req) # rest) g = escalate_loop clks (Suc i) rest (auto_escalate (clks i) k req g)"

definition checkEscalations ::
    "(string \<Rightarrow> nat) \<Rightarrow> (nat \<Rightarrow> clock) \<Rightarrow> 'p gatekeeper \<Rightarrow> 'p gatekeeper" where
  "checkEscalations r clks g = escalate_loop clks 0 (go_range r (gk_requests g)) g"

end
