(* ===== verification/Session_Guarantees.thy ===== *)
theory Session_Guarantees
  imports Session_Lifecycle
begin

text \<open>
  The handlers of the session manager over any store with the contract \<open>session_store\<close> (the
  lemmas of the context block), and the resulting guarantees for the memory store.
\<close>

subsection \<open>Later values of a session\<close>

definition extends :: "Session \<Rightarrow> Session \<Rightarrow> bool" where
  "extends y x \<longleftrightarrow>
     (\<exists>ts. se_StateHistory y = se_StateHistory x @ ts)
     \<and> (\<exists>es. se_EvidenceItems y = se_EvidenceItems x @ es)
     \<and> (\<not> active_state (se_State x) \<longrightarrow>
          se_State y = se_State x \<and> se_StateHistory y = se_StateHistory x
          \<and> se_CompletedAt y = se_CompletedAt x)"

lemma extends_refl [simp]: "extends x x"
  by (simp add: extends_def)

lemma extends_trans: "extends z y \<Longrightarrow> extends y x \<Longrightarrow> extends z x"
  by (fastforce simp: extends_def)

lemma extends_transition:
  "isValidTransition (se_State x) n \<Longrightarrow> extends (transition_session clk n reason agent x) x"
  using terminal_no_transition [of "se_State x" n] by (auto simp: extends_def transition_session_def)

lemma extends_evidence:
  "extends (x\<lparr>se_EvidenceItems := se_EvidenceItems x @ es, se_UpdatedAt := t\<rparr>) x"
  by (simp add: extends_def)

lemma extends_update: "same_lifecycle y x \<Longrightarrow> extends (y\<lparr>se_UpdatedAt := t\<rparr>) x"
  by (simp add: extends_def same_lifecycle_def)

subsection \<open>Handlers over the contract\<close>

context session_store
begin

lemma get_cases:
  assumes "inv s"
  obtains (absent) s' where "so_Get ops s k = (s', Inl ErrSessionNotFound)" "inv s'" "abs s' = abs s"
      "abs s k = None"
  | (there) s' x where "so_Get ops s k = (s', Inr x)" "inv s'" "abs s' = abs s" "abs s k = Some x"
proof -
  obtain s' r where g: "so_Get ops s k = (s', r)" by fastforce
  from get_spec [OF assms g] show thesis
    using g absent there by (cases "abs s k") auto
qed

lemma update_present:
  assumes "inv s" and "abs s (se_ID x) \<noteq> None"
  obtains s' where "so_Update ops s x = (s', None)" "inv s'" "abs s' = (abs s)(se_ID x \<mapsto> x)"
proof -
  obtain s' r where "so_Update ops s x = (s', r)" by fastforce
  with update_spec [OF assms(1) this] assms(2) that show thesis by auto
qed

lemma TransitionState_spec:
  assumes "inv (mg_store m)"
    and "TransitionState ops zops cfg clk sid n reason agent m = (m', e)"
  shows "inv (mg_store m') \<and> mg_counter m' = mg_counter m \<and>
    (case abs (mg_store m) sid of
       None \<Rightarrow> e = Some (MENotFound ErrSessionNotFound) \<and> abs (mg_store m') = abs (mg_store m)
               \<and> mg_journal m' = mg_journal m
     | Some x \<Rightarrow>
         if isValidTransition (se_State x) n
         then e = None
              \<and> abs (mg_store m') = (abs (mg_store m))(sid \<mapsto> transition_session clk n reason agent x)
              \<and> (\<forall>k. journal_log (mg_journal m') k =
                    journal_log (mg_journal m) k
                    @ (if cf_Journal cfg \<and> sid = k then [(se_State x, n)] else []))
         else e = Some (MEInvalidTransition (se_State x) n) \<and> abs (mg_store m') = abs (mg_store m)
              \<and> mg_journal m' = mg_journal m)"
proof (cases rule: get_cases [OF assms(1), of sid])
  case (1 s')
  then show ?thesis using assms by (auto simp: TransitionState_def)
next
  case (2 s' x)
  show ?thesis
  proof (cases "isValidTransition (se_State x) n")
    case False
    then show ?thesis using 2 assms by (auto simp: TransitionState_def)
  next
    case True
    have id: "se_ID x = sid" using abs_id [OF assms(1) 2(4)] .
    obtain s'' where "so_Update ops s' (transition_session clk n reason agent x) = (s'', None)"
      "inv s''" "abs s'' = (abs s')(sid \<mapsto> transition_session clk n reason agent x)"
      by (rule update_present [OF 2(2), of "transition_session clk n reason agent x"]) (use 2 id in auto)
    then show ?thesis using True 2 assms by (auto simp: TransitionState_def)
  qed
qed

lemma TransitionState_invalid:
  assumes "inv (mg_store m)" and "abs (mg_store m) sid = Some x" and "\<not> isValidTransition (se_State x) n"
    and "TransitionState ops zops cfg clk sid n reason agent m = (m', e)"
  shows "inv (mg_store m') \<and> e = Some (MEInvalidTransition (se_State x) n)
    \<and> abs (mg_store m') = abs (mg_store m) \<and> mg_journal m' = mg_journal m \<and> mg_bus m' = mg_bus m
    \<and> mg_zen m' = mg_zen m"
  using assms(2-) by (cases rule: get_cases [OF assms(1), of sid]) (auto simp: TransitionState_def)

lemma AddEvidence_spec:
  assumes "inv (mg_store m)" and "AddEvidence ops zops cfg clk sid ev m = (m', e)"
  shows "inv (mg_store m') \<and> (\<forall>k. journal_log (mg_journal m') k = journal_log (mg_journal m) k) \<and>
    (case abs (mg_store m) sid of
       None \<Rightarrow> e = Some (MENotFound ErrSessionNotFound) \<and> abs (mg_store m') = abs (mg_store m)
     | Some x \<Rightarrow> e = None \<and> abs (mg_store m') = (abs (mg_store m))
         (sid \<mapsto> x\<lparr>se_EvidenceItems := se_EvidenceItems x @ [stamp_evidence clk sid x ev],
                    se_UpdatedAt := clk 1\<rparr>))"
proof (cases rule: get_cases [OF assms(1), of sid])
  case (1 s')
  then show ?thesis using assms by (auto simp: AddEvidence_def)
next
  case (2 s' x)
  let ?x = "x\<lparr>se_EvidenceItems := se_EvidenceItems x @ [stamp_evidence clk sid x ev], se_UpdatedAt := clk 1\<rparr>"
  have id: "se_ID x = sid" using abs_id [OF assms(1) 2(4)] .
  obtain s'' where "so_Update ops s' ?x = (s'', None)" "inv s''" "abs s'' = (abs s')(sid \<mapsto> ?x)"
    by (rule update_present [OF 2(2), of ?x]) (use 2 id in auto)
  then show ?thesis using 2 assms by (auto simp: AddEvidence_def Let_def)
qed

lemma UpdateSession_spec:
  assumes "inv (mg_store m)" and "UpdateSession ops zops cfg clk x m = (m', e)"
  shows "inv (mg_store m') \<and> mg_journal m' = mg_journal m \<and>
    (if abs (mg_store m) (se_ID x) = None
     then e = Some (MEStore ErrSessionNotFound) \<and> abs (mg_store m') = abs (mg_store m)
     else e = None \<and> abs (mg_store m') = (abs (mg_store m))(se_ID x \<mapsto> x\<lparr>se_UpdatedAt := clk 0\<rparr>))"
proof -
  obtain s' r where u: "so_Update ops (mg_store m) (x\<lparr>se_UpdatedAt := clk 0\<rparr>) = (s', r)" by fastforce
  from update_spec [OF assms(1) u] assms(2) u show ?thesis
    by (auto simp: UpdateSession_def split: if_splits)
qed

lemma CreateSession_spec:
  assumes "inv (mg_store m)" and "CreateSession ops zops cfg clk w m = (m', r)"
  shows "inv (mg_store m') \<and> (\<forall>k. journal_log (mg_journal m') k = journal_log (mg_journal m) k) \<and>
    (case r of
       Inl e \<Rightarrow> abs (mg_store m') = abs (mg_store m)
     | Inr x \<Rightarrow> x = new_session (session_id (clk 0) (mg_counter m)) (clk 1) w
         \<and> abs (mg_store m) (se_ID x) = None \<and> abs (mg_store m') = (abs (mg_store m))(se_ID x \<mapsto> x)
         \<and> mg_counter m' = mg_counter m + 1)"
proof -
  obtain s1 r1 where g: "so_GetByWorkItem ops (mg_store m) (wi_ID w) = (s1, r1)" by fastforce
  from get_by_spec [OF assms(1) g] have s1: "inv s1" "abs s1 = abs (mg_store m)" by auto
  let ?x = "new_session (session_id (clk 0) (mg_counter m)) (clk 1) w"
  obtain s2 r2 where c: "so_Create ops s1 ?x = (s2, r2)" by fastforce
  note cs = create_spec [OF s1(1) c]
  show ?thesis
    using assms(2) cs s1 c g
    by (cases r1; cases r2) (auto simp: CreateSession_def Let_def split: if_splits option.splits)
qed

lemma read_frames:
  assumes "inv (mg_store m)"
  shows "GetSession ops zops cfg clk sid m = (m', r) \<Longrightarrow>
      inv (mg_store m') \<and> abs (mg_store m') = abs (mg_store m) \<and> mg_journal m' = mg_journal m"
    and "GetSessionByWorkItem ops zops cfg clk wid m = (m', r) \<Longrightarrow>
      inv (mg_store m') \<and> abs (mg_store m') = abs (mg_store m) \<and> mg_journal m' = mg_journal m"
    and "ListSessions ops f m = (m', l) \<Longrightarrow>
      inv (mg_store m') \<and> abs (mg_store m') = abs (mg_store m) \<and> mg_journal m' = mg_journal m"
proof -
  show "GetSession ops zops cfg clk sid m = (m', r) \<Longrightarrow>
      inv (mg_store m') \<and> abs (mg_store m') = abs (mg_store m) \<and> mg_journal m' = mg_journal m"
    by (cases rule: get_cases [OF assms, of sid]) (auto simp: GetSession_def)
  show "GetSessionByWorkItem ops zops cfg clk wid m = (m', r) \<Longrightarrow>
      inv (mg_store m') \<and> abs (mg_store m') = abs (mg_store m) \<and> mg_journal m' = mg_journal m"
    using get_by_spec [OF assms]
    by (fastforce simp: GetSessionByWorkItem_def split: prod.splits sum.splits)
  show "ListSessions ops f m = (m', l) \<Longrightarrow>
      inv (mg_store m') \<and> abs (mg_store m') = abs (mg_store m) \<and> mg_journal m' = mg_journal m"
    using list_spec [OF assms] by (fastforce simp: ListSessions_def split: prod.splits sum.splits)
qed

subsection \<open>Cleanup\<close>

lemma cleanup_loop_created:
  assumes "inv (mg_store m)"
    and "\<forall>x \<in> set xs. abs (mg_store m) (se_ID x) = Some x \<and> se_State x = SessionStateCreated"
    and "cleanup_loop ops zops cfg clks reason i c xs m = (m', c')"
  shows "c' = c \<and> inv (mg_store m') \<and> abs (mg_store m') = abs (mg_store m)
    \<and> mg_journal m' = mg_journal m \<and> mg_bus m' = mg_bus m \<and> mg_zen m' = mg_zen m"
  using assms
proof (induction xs arbitrary: i m)
  case Nil
  then show ?case by simp
next
  case (Cons x xs)
  obtain m1 e where t: "TransitionState ops zops cfg (clks i) (se_ID x) SessionStateFailed reason
      ''cleanup'' m = (m1, e)" by fastforce
  have "\<not> isValidTransition (se_State x) SessionStateFailed"
    using Cons.prems(2) created_not_to_failed by simp
  then have m1: "inv (mg_store m1)" "e \<noteq> None" "abs (mg_store m1) = abs (mg_store m)"
    "mg_journal m1 = mg_journal m" "mg_bus m1 = mg_bus m" "mg_zen m1 = mg_zen m"
    using TransitionState_invalid [OF Cons.prems(1) _ _ t, of x] Cons.prems(2) by auto
  have "cleanup_loop ops zops cfg clks reason (Suc i) c xs m1 = (m', c')"
    using Cons.prems(3) t m1(2) by auto
  from Cons.IH [OF m1(1) _ this] m1 Cons.prems(2) show ?case by auto
qed

lemma cleanup_does_nothing:
  assumes "inv (mg_store m)"
    and "CleanupStaleSessions ops zops cfg clks fmt_dur age m = (m', r)"
  shows "(r = Inr 0 \<or> (\<exists>e. r = Inl (MEList e))) \<and> inv (mg_store m')
    \<and> abs (mg_store m') = abs (mg_store m)
    \<and> mg_journal m' = mg_journal m \<and> mg_bus m' = mg_bus m \<and> mg_zen m' = mg_zen m"
proof -
  define age' where "age' = (if age \<le> 0 then cf_StaleThreshold cfg else age)"
  define f where "f = stale_filter (time_add (clks 0 0) (- age'))"
  obtain s l where ls: "so_List ops (mg_store m) f = (s, l)" by fastforce
  note spec = list_spec [OF assms(1) ls]
  show ?thesis
  proof (cases l)
    case (Inl e)
    then show ?thesis
      using assms(2) ls spec by (auto simp: CleanupStaleSessions_def age'_def [symmetric] f_def [symmetric])
  next
    case (Inr xs)
    let ?m = "m\<lparr>mg_store := s\<rparr>"
    have st: "sf_State f = Some SessionStateCreated" by (simp add: f_def stale_filter_def)
    have "\<forall>x \<in> set xs. abs (mg_store ?m) (se_ID x) = Some x \<and> se_State x = SessionStateCreated"
      using spec Inr by (auto simp: matchesFilter_def opt_matches_def st)
    moreover obtain c where "cleanup_loop ops zops cfg clks
        (''Session stale (no update for '' @ fmt_dur age' @ '')'') 1 0 xs ?m = (m', c)" "r = Inr c"
      using assms(2) ls Inr
      by (auto simp: CleanupStaleSessions_def Let_def age'_def [symmetric] f_def [symmetric]
          split: prod.splits)
    ultimately show ?thesis using cleanup_loop_created [of ?m xs] spec by fastforce
  qed
qed

subsection \<open>The invariant of the reachable states\<close>

lemma checkpoint_frames:
  "UpdateExecutionCheckpoint zops cfg enc clk sid p m = (m', e) \<Longrightarrow>
     mg_store m' = mg_store m \<and> (\<forall>k. journal_log (mg_journal m') k = journal_log (mg_journal m) k)"
  "GetExecutionCheckpoint zops cfg dec sid m = (m', r) \<Longrightarrow>
     mg_store m' = mg_store m \<and> mg_journal m' = mg_journal m"
proof -
  assume a: "UpdateExecutionCheckpoint zops cfg enc clk sid p m = (m', e)"
  obtain z sc where g: "zc_get zops (mg_zen m) (clusterID cfg) sid = (z, sc)" by fastforce
  show "mg_store m' = mg_store m \<and> (\<forall>k. journal_log (mg_journal m') k = journal_log (mg_journal m) k)"
    using a unfolding UpdateExecutionCheckpoint_def g Let_def
    by (cases "cf_ZenContext cfg"; cases p; cases sc) (auto split: option.splits prod.splits bool.splits)
next
  assume a: "GetExecutionCheckpoint zops cfg dec sid m = (m', r)"
  obtain z sc where g: "zc_get zops (mg_zen m) (clusterID cfg) sid = (z, sc)" by fastforce
  show "mg_store m' = mg_store m \<and> mg_journal m' = mg_journal m"
    using a unfolding GetExecutionCheckpoint_def g
    by (cases sc) (auto split: if_splits option.splits)
qed

lemma step_lifecycle:
  assumes "mgr_step ops zops cfg m m'" and "inv (mg_store m)" and "all_lifecycles_ok (abs (mg_store m))"
  shows "inv (mg_store m') \<and> all_lifecycles_ok (abs (mg_store m'))"
  using assms
proof (induction rule: mgr_step.induct)
  case (create clk w m m' r)
  then show ?case
    using CreateSession_spec [OF create(2) create(1)] all_lifecycles_upd lifecycle_ok_new
    by (auto split: sum.splits)
next
  case (transition clk sid n reason agent m m' e)
  note spec = TransitionState_spec [OF transition(2) transition(1)]
  show ?case
  proof (cases "\<exists>x. abs (mg_store m) sid = Some x \<and> isValidTransition (se_State x) n")
    case True
    then obtain x where x: "abs (mg_store m) sid = Some x" "isValidTransition (se_State x) n" by blast
    have "lifecycle_ok (transition_session clk n reason agent x)"
      using x transition(3) by (intro lifecycle_ok_transition) (auto simp: all_lifecycles_ok_def)
    then show ?thesis using spec x transition(3) by (simp add: all_lifecycles_ok_def)
  next
    case False
    then show ?thesis using spec transition(3) by (cases "abs (mg_store m) sid") auto
  qed
next
  case (evidence clk sid ev m m' e)
  note spec = AddEvidence_spec [OF evidence(2) evidence(1)]
  show ?case
  proof (cases "abs (mg_store m) sid")
    case None
    then show ?thesis using spec evidence(3) by simp
  next
    case (Some x)
    then have "lifecycle_ok x" using evidence(3) by (simp add: all_lifecycles_ok_def)
    from lifecycle_ok_evidence [OF this] show ?thesis
      using spec Some evidence(3) by (simp add: all_lifecycles_ok_def)
  qed
next
  case (get clk sid m m' r)
  then show ?case using read_frames(1) [OF get(2) get(1)] by simp
next
  case (get_by clk wid m m' r)
  then show ?case using read_frames(2) [OF get_by(2) get_by(1)] by simp
next
  case (update clk x m m' e)
  show ?case
  proof (cases rule: get_cases [OF update(3), of "se_ID x"])
    case (2 s' y)
    then have "lifecycle_ok x"
      using update(2) update(4) lifecycle_ok_same by (auto simp: all_lifecycles_ok_def)
    then show ?thesis
      using UpdateSession_spec [OF update(3) update(1)] 2(4) update(4)
      by (auto simp: all_lifecycles_ok_def)
  next
    case (1 s')
    then show ?thesis using UpdateSession_spec [OF update(3) update(1)] update(4) by simp
  qed
next
  case (listing f m m' l)
  then show ?case using read_frames(3) [OF listing(2) listing(1)] by simp
next
  case (cleanup clks fmt_dur age m m' c)
  then show ?case using cleanup_does_nothing [OF cleanup(2) cleanup(1)] by simp
next
  case (checkpoint enc clk sid p m m' e)
  then show ?case using checkpoint_frames(1) [OF checkpoint(1)] by simp
next
  case (read_checkpoint dec sid m m' cp)
  then show ?case using checkpoint_frames(2) [OF read_checkpoint(1)] by simp
qed

lemma step_journal:
  assumes "mgr_step ops zops cfg m m'" and "inv (mg_store m)"
    and "all_lifecycles_ok (abs (mg_store m))" and "cf_Journal cfg"
    and "journal_agrees (mg_journal m) (abs (mg_store m))"
  shows "journal_agrees (mg_journal m') (abs (mg_store m'))"
  using assms
proof (induction rule: mgr_step.induct)
  case (create clk w m m' r)
  then show ?case
    using CreateSession_spec [OF create(2) create(1)]
    by (auto simp: journal_agrees_def history_log_def new_session_def split: sum.splits option.splits)
next
  case (transition clk sid n reason agent m m' e)
  then show ?case
    using TransitionState_spec [OF transition(2) transition(1)]
    by (cases "abs (mg_store m) sid")
      (auto simp: journal_agrees_def all_lifecycles_ok_def history_log_transition split: if_splits)
next
  case (evidence clk sid ev m m' e)
  then show ?case
    using AddEvidence_spec [OF evidence(2) evidence(1)]
    by (cases "abs (mg_store m) sid") (auto simp: journal_agrees_def history_log_def)
next
  case (get clk sid m m' r)
  then show ?case using read_frames(1) [OF get(2) get(1)] by simp
next
  case (get_by clk wid m m' r)
  then show ?case using read_frames(2) [OF get_by(2) get_by(1)] by simp
next
  case (update clk x m m' e)
  show ?case
  proof (cases rule: get_cases [OF update(3), of "se_ID x"])
    case (2 s' y)
    then have "se_StateHistory x = se_StateHistory y"
      using update(2) by (simp add: same_lifecycle_def)
    then show ?thesis
      using UpdateSession_spec [OF update(3) update(1)] 2(4) update(6)
      by (auto simp: journal_agrees_def history_log_def)
  next
    case (1 s')
    then show ?thesis using UpdateSession_spec [OF update(3) update(1)] update(6) by simp
  qed
next
  case (listing f m m' l)
  then show ?case using read_frames(3) [OF listing(2) listing(1)] by simp
next
  case (cleanup clks fmt_dur age m m' c)
  then show ?case using cleanup_does_nothing [OF cleanup(2) cleanup(1)] by simp
next
  case (checkpoint enc clk sid p m m' e)
  then show ?case using checkpoint_frames(1) [OF checkpoint(1)] by (simp add: journal_agrees_def)
next
  case (read_checkpoint dec sid m m' cp)
  then show ?case using checkpoint_frames(2) [OF read_checkpoint(1)] by simp
qed

lemma reachable_invariant:
  assumes "mgr_reachable ops zops cfg m0 m" and "inv (mg_store m0)"
    and "abs (mg_store m0) = Map.empty" and "mg_journal m0 = []"
  shows "inv (mg_store m) \<and> all_lifecycles_ok (abs (mg_store m))
    \<and> (cf_Journal cfg \<longrightarrow> journal_agrees (mg_journal m) (abs (mg_store m)))"
  using assms
proof (induction rule: mgr_reachable.induct)
  case start
  then show ?case by (simp add: all_lifecycles_ok_def journal_agrees_def)
next
  case (step m m')
  then show ?case using step_lifecycle step_journal by metis
qed

subsection \<open>Sessions only grow\<close>

text \<open>
  \<open>extends y x\<close>: \<open>y\<close> is a later value of the session \<open>x\<close>. History and evidence are append-only, and
  a session in a terminal state keeps state, history and completion time.
\<close>

lemma step_extends:
  assumes "mgr_step ops zops cfg m m'" and "inv (mg_store m)" and "abs (mg_store m) k = Some x"
  shows "\<exists>y. abs (mg_store m') k = Some y \<and> extends y x"
  using assms
proof (induction rule: mgr_step.induct)
  case (create clk w m m' r)
  then show ?case using CreateSession_spec [OF create(2) create(1)] by (cases r) auto
next
  case (transition clk sid n reason agent m m' e)
  note spec = TransitionState_spec [OF transition(2) transition(1)]
  show ?case
  proof (cases "k = sid \<and> isValidTransition (se_State x) n")
    case True
    then show ?thesis using spec transition(3) extends_transition by simp
  next
    case False
    then show ?thesis using spec transition(3) by (cases "abs (mg_store m) sid") (auto split: if_splits)
  qed
next
  case (evidence clk sid ev m m' e)
  then show ?case
    using AddEvidence_spec [OF evidence(2) evidence(1)]
    by (cases "abs (mg_store m) sid"; cases "k = sid") (simp_all add: extends_evidence)
next
  case (get clk sid m m' r)
  then show ?case using read_frames(1) [OF get(2) get(1)] by simp
next
  case (get_by clk wid m m' r)
  then show ?case using read_frames(2) [OF get_by(2) get_by(1)] by simp
next
  case (update clk x' m m' e)
  note spec = UpdateSession_spec [OF update(3) update(1)]
  show ?case
  proof (cases "k = se_ID x'")
    case True
    then have "same_lifecycle x' x"
      using update(2) update(4) by (cases rule: get_cases [OF update(3), of k]) auto
    then show ?thesis using spec update(4) True by (simp add: extends_update)
  next
    case False
    then show ?thesis using spec update(4) by (cases "abs (mg_store m) (se_ID x')") auto
  qed
next
  case (listing f m m' l)
  then show ?case using read_frames(3) [OF listing(2) listing(1)] by simp
next
  case (cleanup clks fmt_dur age m m' c)
  then show ?case using cleanup_does_nothing [OF cleanup(2) cleanup(1)] by simp
next
  case (checkpoint enc clk sid p m m' e)
  then show ?case using checkpoint_frames(1) [OF checkpoint(1)] by simp
next
  case (read_checkpoint dec sid m m' cp)
  then show ?case using checkpoint_frames(2) [OF read_checkpoint(1)] by simp
qed

lemma reachable_inv: "mgr_reachable ops zops cfg m0 m \<Longrightarrow> inv (mg_store m0) \<Longrightarrow> inv (mg_store m)"
proof (induction rule: mgr_reachable.induct)
  case (step m m')
  from step(2) step(3) [OF step(4)] show ?case
  proof (induction rule: mgr_step.induct)
    case (create clk w m m' r)
    then show ?case using CreateSession_spec by blast
  next
    case (transition clk sid n reason agent m m' e)
    then show ?case using TransitionState_spec by blast
  next
    case (evidence clk sid ev m m' e)
    then show ?case using AddEvidence_spec by blast
  next
    case (update clk x m m' e)
    then show ?case using UpdateSession_spec by blast
  next
    case (cleanup clks fmt_dur age m m' c)
    then show ?case using cleanup_does_nothing by blast
  next
    case (checkpoint enc clk sid p m m' e)
    then show ?case using checkpoint_frames(1) by metis
  next
    case (read_checkpoint dec sid m m' cp)
    then show ?case using checkpoint_frames(2) by metis
  qed (use read_frames in blast)+
qed

lemma reachable_extends:
  assumes "mgr_reachable ops zops cfg m0 m" and "inv (mg_store m0)" and "abs (mg_store m0) k = Some x"
  shows "\<exists>y. abs (mg_store m) k = Some y \<and> extends y x"
  using assms
proof (induction rule: mgr_reachable.induct)
  case start
  then show ?case by simp
next
  case (step m m')
  then obtain y where "abs (mg_store m) k = Some y" "extends y x" by blast
  then show ?case
    using step_extends [OF step(2) reachable_inv [OF step(1) step(4)]] extends_trans by blast
qed

end

end
