(* ===== verification/Session_Properties.thy ===== *)
theory Session_Properties
  imports Session_Guarantees
begin

text \<open>
  What the session manager guarantees over the in-memory store: the lemmas of the store contract,
  read off at its interpretation \<open>mem\<close>, with the effect of creation in full and the run on which
  one work item gets two active sessions. The first section holds the values of the witnesses.
\<close>

subsection \<open>Example values\<close>

definition ex_work_item :: WorkItem where
  "ex_work_item =
     \<lparr>wi_ID = ''W1'', wi_Title = ''t'', wi_Summary = '''', wi_Body = '''', wi_WorkType = ''debug'',
      wi_WorkDomain = ''core'', wi_Priority = ''low'', wi_ExecutionMode = ''autonomous'',
      wi_Status = ''requested'', wi_CreatedAt = 1, wi_UpdatedAt = 1, wi_ClusterID = '''',
      wi_ProjectID = '''', wi_WorkingDir = '''',
      wi_Tags = \<lparr>tags_HumanOrg = [], tags_Routing = [], tags_Policy = [], tags_Analytics = [],
                 tags_SRED = []\<rparr>,
      wi_EvidenceRequirement = ''none'', wi_SREDDisabled = False,
      wi_Source = \<lparr>src_System = ''jira'', src_IssueKey = ''K-1'', src_Project = '''', src_IssueType = '''',
                   src_ParentKey = '''', src_EpicKey = '''', src_Reporter = '''', src_Assignee = '''',
                   src_Sprint = '''', src_CreatedAt = 1, src_UpdatedAt = 1\<rparr>,
      wi_Attribution = None, wi_ParentID = '''', wi_DependsOn = [], wi_RequestedBy = '''',
      wi_ApprovalState = ''pending'', wi_PolicyClass = '''', wi_EvidenceRefs = [], wi_SourceRefs = [],
      wi_ExecutionConstraints = \<lparr>ec_MaxCostUSD = Fin 0, ec_TimeoutSeconds = 0,
                                 ec_AllowedClusters = [], ec_RequiredApproval = False\<rparr>,
      wi_KBScopes = []\<rparr>"

definition ex_zen :: "unit zen_ops" where
  "ex_zen = \<lparr>zc_get = (\<lambda>z c i. (z, None)), zc_store = (\<lambda>z c s. (z, True))\<rparr>"

definition ex_config :: ManagerConfig where
  "ex_config = DefaultConfig\<lparr>cf_Journal := True\<rparr>"

definition ex_clock :: clock where
  "ex_clock i = 1000 + int i"

definition ex_session :: Session where
  "ex_session = new_session ''s1'' 1000 ex_work_item"

definition ex_mgr0 :: "(MemoryStore, unit) mgr" where
  "ex_mgr0 = \<lparr>mg_store = NewMemoryStore, mg_zen = (), mg_counter = 0, mg_journal = [], mg_bus = []\<rparr>"

definition ex_mgr :: "(MemoryStore, unit) mgr" where
  "ex_mgr = ex_mgr0\<lparr>mg_store := mem_put NewMemoryStore ex_session\<rparr>"

definition ex_mgr_done :: "(MemoryStore, unit) mgr" where
  "ex_mgr_done = ex_mgr0
     \<lparr>mg_store := mem_put NewMemoryStore
        (transition_session ex_clock SessionStateCanceled ''r'' ''a'' ex_session)\<rparr>"

lemma ex_mgr_inv [simp]: "mem_inv (mg_store ex_mgr0)" "mem_inv (mg_store ex_mgr)"
    "mem_inv (mg_store ex_mgr_done)"
  by (simp_all add: ex_mgr0_def ex_mgr_def ex_mgr_done_def mem_inv_new mem_inv_put)

lemma ex_session_sel [simp]:
  "se_ID ex_session = ''s1''" "se_State ex_session = SessionStateCreated"
  "se_WorkItemID ex_session = ''W1''"
  by (simp_all add: ex_session_def new_session_def ex_work_item_def)

lemma ex_mgr_lookup [simp]:
  "ms_lookup (mg_store ex_mgr0) k = None"
  "ms_lookup (mg_store ex_mgr) k = (if k = ''s1'' then Some ex_session else None)"
  "ms_lookup (mg_store ex_mgr_done) k =
     (if k = ''s1'' then Some (transition_session ex_clock SessionStateCanceled ''r'' ''a'' ex_session)
      else None)"
  by (simp_all add: ex_mgr0_def ex_mgr_def ex_mgr_done_def NewMemoryStore_def)

lemmas run_simps =
  CreateSession_def TransitionState_def AddEvidence_def mem_GetByWorkItem_def mem_Create_def mem_Get_def
  mem_Update_def mem_put_def ex_mgr0_def NewMemoryStore_def update_conv'

theorem mem_List_exact_witness:
  "set (projr (snd (mem_List (\<lambda>_. 0) (mg_store ex_mgr)
     \<lparr>sf_State = Some SessionStateCreated, sf_WorkItemID = Some ''W1'', sf_SourceKey = None,
      sf_AssignedAgent = None, sf_CreatedAfter = None, sf_CreatedBefore = None,
      sf_UpdatedAfter = None, sf_UpdatedBefore = None, sf_Limit = 0, sf_Offset = 0\<rparr>))) = {ex_session}"
proof -
  have "ran (ms_lookup (mg_store ex_mgr)) = {ex_session}" by (auto simp: ran_def)
  then show ?thesis
    using mem_List_exact [OF ex_mgr_inv(2), of _ "\<lambda>_. 0"]
    by (auto simp: matchesFilter_def opt_matches_def)
qed

subsection \<open>Transitions\<close>

text \<open>
  C2. Transition: on the memory store a transition of an absent session fails with not-found, a
  transition outside the table fails with invalid-transition, and neither touches the sessions or
  the journal; an allowed one replaces exactly this session by its updated copy and appends exactly
  one (from, to) record to the journal when there is one.
\<close>

theorem TransitionState_exact:
  assumes "mem_inv (mg_store m)"
    and "TransitionState (mem_store_ops r) zops cfg clk sid n reason agent m = (m', e)"
  shows "mem_inv (mg_store m') \<and> mg_counter m' = mg_counter m \<and>
    (case ms_lookup (mg_store m) sid of
       None \<Rightarrow> e = Some (MENotFound ErrSessionNotFound)
               \<and> ms_lookup (mg_store m') = ms_lookup (mg_store m) \<and> mg_journal m' = mg_journal m
     | Some x \<Rightarrow>
         if isValidTransition (se_State x) n
         then e = None
              \<and> ms_lookup (mg_store m') =
                  (ms_lookup (mg_store m))(sid \<mapsto> transition_session clk n reason agent x)
              \<and> (\<forall>k. journal_log (mg_journal m') k =
                    journal_log (mg_journal m) k
                    @ (if cf_Journal cfg \<and> sid = k then [(se_State x, n)] else []))
         else e = Some (MEInvalidTransition (se_State x) n)
              \<and> ms_lookup (mg_store m') = ms_lookup (mg_store m) \<and> mg_journal m' = mg_journal m)"
  by (rule mem.TransitionState_spec [OF assms])

theorem TransitionState_exact_witness:
  "snd (TransitionState (mem_store_ops (\<lambda>_. 0)) ex_zen ex_config ex_clock ''s1'' SessionStateFailed
          ''r'' ''a'' ex_mgr) = Some (MEInvalidTransition SessionStateCreated SessionStateFailed)
   \<and> snd (TransitionState (mem_store_ops (\<lambda>_. 0)) ex_zen ex_config ex_clock ''s1''
          SessionStateAnalyzed ''r'' ''a'' ex_mgr) = None"
  using TransitionState_exact [of ex_mgr "\<lambda>_. 0" ex_zen ex_config ex_clock "''s1''" SessionStateFailed
      "''r''" "''a''", OF _ surjective_pairing]
    TransitionState_exact [of ex_mgr "\<lambda>_. 0" ex_zen ex_config ex_clock "''s1''" SessionStateAnalyzed
      "''r''" "''a''", OF _ surjective_pairing]
  by (simp add: isValidTransition_iff)

subsection \<open>Reachable sessions\<close>





subsection \<open>Cleanup\<close>

text \<open>
  Stale-session cleanup never cleans: the listing asks for sessions in state created only, and
  the table does not allow created to failed, so every transition of the loop is refused; the
  handler reports 0 and no session, journal entry or message changes.
\<close>

theorem CleanupStaleSessions_noop:
  assumes "mem_inv (mg_store m)"
  shows "\<exists>m'. CleanupStaleSessions (mem_store_ops r) zops cfg clks fmt_dur age m = (m', Inr 0)
    \<and> ms_lookup (mg_store m') = ms_lookup (mg_store m)
    \<and> mg_journal m' = mg_journal m \<and> mg_bus m' = mg_bus m \<and> mg_zen m' = mg_zen m"
proof -
  obtain m' e where c: "CleanupStaleSessions (mem_store_ops r) zops cfg clks fmt_dur age m = (m', e)"
    by fastforce
  have "\<exists>k. e = Inr k"
    using c by (auto simp: CleanupStaleSessions_def mem_List_def Let_def split: prod.splits)
  then show ?thesis using mem.cleanup_does_nothing [OF assms c] c by auto
qed

theorem CleanupStaleSessions_noop_witness:
  "snd (CleanupStaleSessions (mem_store_ops (\<lambda>_. 0)) ex_zen ex_config (\<lambda>i. ex_clock) (\<lambda>d. itoa d) 1
      (ex_mgr :: (MemoryStore, unit) mgr)) = Inr 0"
  using CleanupStaleSessions_noop [of ex_mgr "\<lambda>_. 0" ex_zen ex_config "\<lambda>i. ex_clock" "\<lambda>d. itoa d" 1]
  by auto

subsection \<open>Creation\<close>

lemma itoa_nonneg_chars: "0 \<le> i \<Longrightarrow> CHR ''-'' \<notin> set (itoa i)"
  by (simp add: itoa_def minus_not_in_digits)

lemma itoa_inject [simp]: "itoa i = itoa j \<longleftrightarrow> i = j"
proof -
  have ne: "CHR ''-'' # xs \<noteq> digits_of n" for xs n
    using minus_not_in_digits [of n] by (metis list.set_intros(1))
  then show ?thesis
    by (cases "i < 0"; cases "j < 0") (auto simp: itoa_def dest: sym)
qed

lemma split_at_last:
  "c \<notin> set ys \<Longrightarrow> c \<notin> set zs \<Longrightarrow> xs @ c # ys = us @ c # zs \<longleftrightarrow> xs = us \<and> ys = zs"
  by (auto simp: append_eq_append_conv2 Cons_eq_append_conv append_eq_Cons_conv)

text \<open>
  Session identifiers: two identifiers agree exactly when both the second of their creation and
  the value of the 64-bit counter agree; so a manager cannot reuse an identifier before its counter
  has wrapped around within one second.
\<close>

theorem session_id_unique:
  "session_id t c = session_id t' c' \<longleftrightarrow> go_unix t = go_unix t' \<and> c = c'"
proof -
  have "session_id t c = session_id t' c' \<longleftrightarrow> itoa (go_unix t) = itoa (go_unix t') \<and> itoa (uint c) = itoa (uint c')"
    using split_at_last [of "CHR ''-''" "itoa (uint c)" "itoa (uint c')" "itoa (go_unix t)" "itoa (go_unix t')"]
    by (simp add: session_id_def itoa_nonneg_chars)
  then show ?thesis by (simp add: word_uint_eq_iff)
qed

definition indexed_session :: "MemoryStore \<Rightarrow> string \<Rightarrow> Session option" where
  "indexed_session s w = (case ms_workItemIndex s w of None \<Rightarrow> None | Some k \<Rightarrow> ms_lookup s k)"

lemma mem_GetByWorkItem_eq:
  "\<exists>s'. mem_GetByWorkItem s w =
     (s', case indexed_session s w of None \<Rightarrow> Inl ErrSessionNotFound | Some x \<Rightarrow> Inr x)
   \<and> ms_sessions s' = ms_sessions s \<and> indexed_session s' w = indexed_session s w"
  by (auto simp: mem_GetByWorkItem_def indexed_session_def split: option.splits)

lemma mem_Create_eq:
  "mem_Create s x =
     (if ms_lookup s (se_ID x) \<noteq> None then (s, Some ErrSessionExists)
      else case indexed_session s (se_WorkItemID x) of
             None \<Rightarrow> (mem_put s x, None)
           | Some y \<Rightarrow> if active_state (se_State y) then (s, Some ErrActiveSessionExists)
                       else (mem_put s x, None))"
  by (simp add: mem_Create_def indexed_session_def split: option.splits)

lemma indexed_session_put [simp]: "indexed_session (mem_put s x) (se_WorkItemID x) = Some x"
  by (simp add: indexed_session_def) (simp add: mem_put_def update_conv')

lemma new_session_sel [simp]:
  "se_ID (new_session i t w) = i" "se_WorkItemID (new_session i t w) = wi_ID w"
  "se_State (new_session i t w) = SessionStateCreated"
  by (simp_all add: new_session_def)

text \<open>
  C4. Creation: on the memory store \<open>CreateSession\<close> is refused with the active-session error exactly
  when the session the index holds for the work item is in a non-terminal state, fails with a store
  error exactly when the generated identifier is taken, and otherwise returns the fresh session; the
  store's own check for an active session never fires. On success the index points to the new session.
\<close>

theorem CreateSession_exact:
  "snd (CreateSession (mem_store_ops r) zops cfg clk w m) =
     (let s = mg_store m; i = session_id (clk 0) (mg_counter m);
          fresh = (if ms_lookup s i \<noteq> None then Inl (MECreate ErrSessionExists)
                   else Inr (new_session i (clk 1) w))
      in case indexed_session s (wi_ID w) of
           None \<Rightarrow> fresh
         | Some x \<Rightarrow> if active_state (se_State x) then Inl (MEActiveExists (se_ID x) (wi_ID w)) else fresh)
   \<and> (case snd (CreateSession (mem_store_ops r) zops cfg clk w m) of
        Inl e \<Rightarrow> ms_sessions (mg_store (fst (CreateSession (mem_store_ops r) zops cfg clk w m)))
                   = ms_sessions (mg_store m)
      | Inr x \<Rightarrow> indexed_session (mg_store (fst (CreateSession (mem_store_ops r) zops cfg clk w m))) (wi_ID w)
                   = Some x)"
proof -
  obtain s' where g: "mem_GetByWorkItem (mg_store m) (wi_ID w) =
      (s', case indexed_session (mg_store m) (wi_ID w) of None \<Rightarrow> Inl ErrSessionNotFound | Some x \<Rightarrow> Inr x)"
    and s': "ms_sessions s' = ms_sessions (mg_store m)"
      "indexed_session s' (wi_ID w) = indexed_session (mg_store m) (wi_ID w)"
    using mem_GetByWorkItem_eq by blast
  have put: "indexed_session (mem_put s' (new_session i t w)) (wi_ID w) = Some (new_session i t w)" for i t
    using indexed_session_put [of s' "new_session i t w"] by simp
  show ?thesis
    by (cases "indexed_session (mg_store m) (wi_ID w)")
      (simp_all add: CreateSession_def g s' mem_Create_eq Let_def put)
qed

text \<open>
  The full run that breaks the promise of one active session per work item: \<open>Update\<close> of a finished
  session points the index back to it, and the next creation looks only there.
\<close>

definition reindex_run :: "clock \<Rightarrow> EvidenceItem \<Rightarrow> (MemoryStore, unit) mgr \<Rightarrow> (MemoryStore, unit) mgr" where
  "reindex_run clk ev m0 =
     (let ops = mem_store_ops (\<lambda>_. 0); cfg = DefaultConfig;
          m1 = fst (CreateSession ops ex_zen cfg clk ex_work_item m0);
          m2 = fst (TransitionState ops ex_zen cfg clk (session_id (clk 0) 0) SessionStateCanceled ''r'' ''a'' m1);
          m3 = fst (CreateSession ops ex_zen cfg clk ex_work_item m2);
          m4 = fst (AddEvidence ops ex_zen cfg clk (session_id (clk 0) 0) ev m3)
      in fst (CreateSession ops ex_zen cfg clk ex_work_item m4))"

lemma ids_neq [simp]: "session_id t a = session_id t b \<longleftrightarrow> a = b"
  by (simp add: session_id_def word_uint_eq_iff)

lemma active_created [simp]: "active_state SessionStateCreated" "\<not> active_state SessionStateCanceled"
  by (simp_all add: active_state_def)

lemma created_to_canceled [simp]: "isValidTransition SessionStateCreated SessionStateCanceled"
  by (simp add: isValidTransition_iff)

text \<open>
  The run that breaks the promise of one active session per work item, on a fresh store: create
  A, cancel A, create B, attach evidence to A, create C. The evidence update points the index back to
  A, so the third creation does not see B: B and C are then both stored, active and of one work item.
\<close>

theorem two_active_sessions:
  "let i = session_id (clk 0); s = mg_store (reindex_run clk ev ex_mgr0)
   in i 1 \<noteq> i 2
      \<and> (\<exists>x y. ms_lookup s (i 1) = Some x \<and> ms_lookup s (i 2) = Some y
            \<and> active_state (se_State x) \<and> active_state (se_State y)
            \<and> se_WorkItemID x = wi_ID ex_work_item \<and> se_WorkItemID y = wi_ID ex_work_item)"
  by (simp add: reindex_run_def Let_def run_simps)

subsection \<open>Checkpoints\<close>

lemma seen_map_keys: "set (map fst (seen_map s)) = set s \<and> distinct (map fst (seen_map s))"
proof -
  have "set (map fst (fold (\<lambda>v seen. AList.update v () seen) s m)) = set (map fst m) \<union> set s
      \<and> distinct (map fst (fold (\<lambda>v seen. AList.update v () seen) s m))"
    if "distinct (map fst m)" for m :: "(string, unit) gomap"
    using that by (induction s arbitrary: m) (auto simp: update_keys distinct_update dom_update)
  from this [of "[]"] show ?thesis by (simp add: seen_map_def)
qed

text \<open>
  Normalising a checkpoint: \<open>sortAndDedupe\<close> ranges over a Go map, yet its result is the strictly
  increasing list of the strings it was given, whatever order the runtime visits the map in.
\<close>

theorem sortAndDedupe_exact: "sortAndDedupe r xs = sorted_list_of_set (set xs)"
proof (cases "xs = []")
  case False
  let ?ks = "map fst (go_range r (seen_map xs))"
  have m: "mset ?ks = mset (map fst (seen_map xs))" by (simp only: mset_map mset_go_range)
  have "distinct ?ks" "set ?ks = set xs"
    using m seen_map_keys [of xs] by (metis mset_eq_imp_distinct_iff, metis mset_eq_setD)
  then have "sorted_list_of_set (set xs) = sort ?ks"
    by (metis distinct_remdups_id sorted_list_of_set_sort_remdups)
  then show ?thesis using False by (simp add: sortAndDedupe_def)
qed (simp add: sortAndDedupe_def)

end
