(* ===== verification/Planner_Properties.thy ===== *)
theory Planner_Properties
  imports Planner Session_Properties
begin

text \<open>
  What becomes of a session that the planner drives. The lemmas of the context block compose the
  handlers of the session manager, over any store with the contract \<open>session_store\<close>; the theorems
  after it are read off for the memory store.
\<close>

subsection \<open>Calls on the manager\<close>

lemma with_mgr_eq: "with_mgr f p = (p\<lparr>pl_mgr := fst (f (pl_mgr p))\<rparr>, snd (f (pl_mgr p)))"
  by (simp add: with_mgr_def split: prod.split)

lemma agent_note_sel [simp]:
  "mg_store (pl_mgr (agent_note pc k p)) = mg_store (pl_mgr p)"
  "mg_counter (pl_mgr (agent_note pc k p)) = mg_counter (pl_mgr p)"
  "mg_journal (pl_mgr (agent_note pc k p)) = mg_journal (pl_mgr p)"
  "pl_approvalQueue (agent_note pc k p) = pl_approvalQueue p"
  "pl_factory (agent_note pc k p) = pl_factory p"
  by (simp_all add: agent_note_def)

lemma store_hypothesis_sel [simp]:
  "pl_mgr (store_hypothesis pc t sid s a p) = pl_mgr p"
  "pl_approvalQueue (store_hypothesis pc t sid s a p) = pl_approvalQueue p"
  "pl_factory (store_hypothesis pc t sid s a p) = pl_factory p"
  by (simp_all add: store_hypothesis_def)

lemma transition_session_WorkItem [simp]:
  "se_WorkItem (transition_session clk n reason agent x) = se_WorkItem x"
  by (simp add: transition_session_def)

abbreviation sessions_in :: "('s \<Rightarrow> string \<rightharpoonup> Session) \<Rightarrow> ('s, 'z, 'f) planner \<Rightarrow> string \<rightharpoonup> Session" where
  "sessions_in view p \<equiv> view (mg_store (pl_mgr p))"

text \<open>Where the planner takes a session that is in state created.\<close>

definition planned_state :: "('s, 'z, 'f) planner_config \<Rightarrow> WorkItem \<Rightarrow> string" where
  "planned_state pc w =
     (if over_budget pc w \<noteq> None then SessionStateCreated
      else case pc_analyze pc w of
             Inl e \<Rightarrow> SessionStateCreated
           | Inr analysis \<Rightarrow>
               if requires_approval pc analysis then SessionStateBlocked
               else if pc_factory pc = None then SessionStateInProgress
               else SessionStateScheduled)"

subsection \<open>Runs of the planner\<close>

text \<open>
  Any sequence of operations, each under some configuration that satisfies \<open>C\<close>: the analyzer, the
  budget, the ledger and the order in which maps are visited may differ from one to the next.
\<close>

inductive planner_step ::
    "(('s, 'z, 'f) planner_config \<Rightarrow> bool) \<Rightarrow> ('s, 'z, 'f) planner \<Rightarrow> ('s, 'z, 'f) planner \<Rightarrow> bool"
  for C where
  process: "C pc \<Longrightarrow> ProcessWorkItem pc clk w p = (p', r) \<Longrightarrow> planner_step C p p'"
| analyze: "C pc \<Longrightarrow> analyzeAndPlan pc clks sid w p = Some p' \<Longrightarrow> planner_step C p p'"
| approve: "C pc \<Longrightarrow> ApproveSession pc clks sid approver remark p = (p', e) \<Longrightarrow> planner_step C p p'"
| reject: "C pc \<Longrightarrow> RejectSession pc clks sid rejector reason p = (p', e) \<Longrightarrow> planner_step C p p'"
| cancel: "C pc \<Longrightarrow> CancelSession pc clks sid canceller reason p = (p', e) \<Longrightarrow> planner_step C p p'"
| status: "C pc \<Longrightarrow> GetSessionStatus pc clks sid p = (p', st) \<Longrightarrow> planner_step C p p'"
| stuck: "C pc \<Longrightarrow> checkStuckSessions pc clks clks' p = p' \<Longrightarrow> planner_step C p p'"

inductive planner_reachable ::
    "(('s, 'z, 'f) planner_config \<Rightarrow> bool) \<Rightarrow> ('s, 'z, 'f) planner \<Rightarrow> ('s, 'z, 'f) planner \<Rightarrow> bool"
  for C p0 where
  start: "planner_reachable C p0 p0"
| step: "planner_reachable C p0 p \<Longrightarrow> planner_step C p p' \<Longrightarrow> planner_reachable C p0 p'"

text \<open>The states in which the planner leaves sessions, with and without a factory.\<close>

definition settled :: "bool \<Rightarrow> string set" where
  "settled factory =
     {SessionStateCreated, SessionStateBlocked, SessionStateCanceled}
     \<union> (if factory then {SessionStateScheduled} else {SessionStateInProgress, SessionStateFailed})"

definition sessions_settled :: "bool \<Rightarrow> (string \<rightharpoonup> Session) \<Rightarrow> bool" where
  "sessions_settled factory M \<longleftrightarrow>
     (\<forall>k x. M k = Some x \<longrightarrow> se_WorkItem x \<noteq> None \<and> se_State x \<in> settled factory)"

definition queue_created :: "Session list \<Rightarrow> bool" where
  "queue_created q \<longleftrightarrow> (\<forall>z \<in> set q. se_State z = SessionStateCreated)"

lemma settled_upd:
  "sessions_settled factory M \<Longrightarrow> se_WorkItem y \<noteq> None \<Longrightarrow> se_State y \<in> settled factory
   \<Longrightarrow> sessions_settled factory (M(k \<mapsto> y))"
  by (simp add: sessions_settled_def)

lemma settled_at:
  "sessions_settled factory M \<Longrightarrow> M k = Some x \<Longrightarrow> se_WorkItem x \<noteq> None \<and> se_State x \<in> settled factory"
  by (simp add: sessions_settled_def)

lemma settled_change:
  assumes "sessions_settled factory M"
    and "M' = M \<or> (\<exists>x y. M k = Some x \<and> M' = M(k \<mapsto> y) \<and> se_WorkItem y = se_WorkItem x
      \<and> (se_State y = se_State x \<or> se_State x = SessionStateInProgress \<and> se_State y = SessionStateFailed))"
  shows "sessions_settled factory M'"
  using assms(2)
proof
  assume "\<exists>x y. M k = Some x \<and> M' = M(k \<mapsto> y) \<and> se_WorkItem y = se_WorkItem x
      \<and> (se_State y = se_State x \<or> se_State x = SessionStateInProgress \<and> se_State y = SessionStateFailed)"
  then obtain x y where xy: "M k = Some x" "M' = M(k \<mapsto> y)" "se_WorkItem y = se_WorkItem x"
    "se_State y = se_State x \<or> se_State x = SessionStateInProgress \<and> se_State y = SessionStateFailed" by blast
  have s: "se_WorkItem x \<noteq> None" "se_State x \<in> settled factory" using settled_at [OF assms(1) xy(1)] by auto
  then have "se_State y \<in> settled factory" using xy(4) by (cases factory) (auto simp: settled_def)
  then show ?thesis unfolding xy(2) using s xy(3) by (intro settled_upd [OF assms(1)]) simp_all
qed (use assms(1) in simp)

lemma planned_settled: "planned_state pc w \<in> settled (pc_factory pc \<noteq> None)"
  by (cases "pc_factory pc") (simp_all add: planned_state_def settled_def split: sum.split)

lemma queue_created_remove: "queue_created q \<Longrightarrow> queue_created (remove_queued sid q)"
proof -
  have "set (remove_queued sid q) \<subseteq> set q" by (induction q) auto
  then show "queue_created q \<Longrightarrow> queue_created (remove_queued sid q)" by (auto simp: queue_created_def)
qed

lemma pending_none: "queue_created (pl_approvalQueue p) \<Longrightarrow> GetPendingApprovals p = []"
  by (auto simp: GetPendingApprovals_def queue_created_def filter_empty_conv)

subsection \<open>Operations over the contract\<close>

context session_store
begin

lemma transition_valid:
  assumes "inv (mg_store (pl_mgr p))" and "sessions_in abs p sid = Some x"
    and "isValidTransition (se_State x) n" and "pc_store pc = ops"
  obtains m where "transition pc clk sid n reason agent p = (p\<lparr>pl_mgr := m\<rparr>, None)"
    "inv (mg_store m)" "abs (mg_store m) = (sessions_in abs p)(sid \<mapsto> transition_session clk n reason agent x)"
proof -
  obtain m e where t: "TransitionState ops (pc_zen pc) (pc_mgr pc) clk sid n reason agent (pl_mgr p) = (m, e)"
    by fastforce
  from TransitionState_spec [OF assms(1) t] show thesis
    using assms t by (intro that [of m]) (simp_all add: with_mgr_eq)
qed

lemma transition_refused:
  assumes "inv (mg_store (pl_mgr p))"
    and "\<And>x. sessions_in abs p sid = Some x \<Longrightarrow> \<not> isValidTransition (se_State x) n"
    and "pc_store pc = ops"
  obtains m e where "transition pc clk sid n reason agent p = (p\<lparr>pl_mgr := m\<rparr>, Some e)"
    "inv (mg_store m)" "abs (mg_store m) = sessions_in abs p" "mg_journal m = mg_journal (pl_mgr p)"
    "\<And>x. sessions_in abs p sid = Some x \<Longrightarrow> e = MEInvalidTransition (se_State x) n"
    "sessions_in abs p sid = None \<Longrightarrow> e = MENotFound ErrSessionNotFound"
proof -
  obtain m e where t: "TransitionState ops (pc_zen pc) (pc_mgr pc) clk sid n reason agent (pl_mgr p) = (m, e)"
    by fastforce
  note spec = TransitionState_spec [OF assms(1) t]
  then obtain e' where "e = Some e'" using assms(2) by (cases "sessions_in abs p sid") auto
  with spec show thesis
    using assms t by (intro that [of m e']) (auto simp: with_mgr_eq split: option.splits)
qed

lemma transition_refused_present:
  assumes "inv (mg_store (pl_mgr p))" and "sessions_in abs p sid = Some x"
    and "\<not> isValidTransition (se_State x) n" and "pc_store pc = ops"
  obtains m where "transition pc clk sid n reason agent p =
      (p\<lparr>pl_mgr := m\<rparr>, Some (MEInvalidTransition (se_State x) n))"
    "inv (mg_store m)" "abs (mg_store m) = sessions_in abs p" "mg_journal m = mg_journal (pl_mgr p)"
proof -
  obtain m e where t: "TransitionState ops (pc_zen pc) (pc_mgr pc) clk sid n reason agent (pl_mgr p) = (m, e)"
    by fastforce
  from TransitionState_invalid [OF assms(1-3) t] show thesis
    using assms t by (intro that [of m]) (simp_all add: with_mgr_eq)
qed

lemma get_session_present:
  assumes "inv (mg_store (pl_mgr p))" and "sessions_in abs p sid = Some x" and "pc_store pc = ops"
  obtains m where "get_session pc clk sid p = (p\<lparr>pl_mgr := m\<rparr>, Inr x)"
    "inv (mg_store m)" "abs (mg_store m) = sessions_in abs p" "mg_journal m = mg_journal (pl_mgr p)"
proof -
  obtain m r where g: "GetSession ops (pc_zen pc) (pc_mgr pc) clk sid (pl_mgr p) = (m, r)" by fastforce
  have "r = Inr x"
    using g assms by (cases rule: get_cases [OF assms(1), of sid]) (auto simp: GetSession_def)
  with read_frames(1) [OF assms(1) g] show thesis
    using assms g by (intro that [of m]) (simp_all add: with_mgr_eq)
qed

lemma get_session_absent:
  assumes "inv (mg_store (pl_mgr p))" and "sessions_in abs p sid = None" and "pc_store pc = ops"
  obtains m where "get_session pc clk sid p = (p\<lparr>pl_mgr := m\<rparr>, Inl (MEStore ErrSessionNotFound))"
    "inv (mg_store m)" "abs (mg_store m) = sessions_in abs p" "mg_journal m = mg_journal (pl_mgr p)"
proof -
  obtain m r where g: "GetSession ops (pc_zen pc) (pc_mgr pc) clk sid (pl_mgr p) = (m, r)" by fastforce
  have "r = Inl (MEStore ErrSessionNotFound)"
    using g assms by (cases rule: get_cases [OF assms(1), of sid]) (auto simp: GetSession_def)
  with read_frames(1) [OF assms(1) g] show thesis
    using assms g by (intro that [of m]) (simp_all add: with_mgr_eq)
qed

lemma update_session_present:
  assumes "inv (mg_store (pl_mgr p))" and "sessions_in abs p (se_ID y) = Some x" and "pc_store pc = ops"
  obtains m where "with_mgr (UpdateSession (pc_store pc) (pc_zen pc) (pc_mgr pc) clk y) p = (p\<lparr>pl_mgr := m\<rparr>, None)"
    "inv (mg_store m)" "abs (mg_store m) = (sessions_in abs p)(se_ID y \<mapsto> y\<lparr>se_UpdatedAt := clk 0\<rparr>)"
proof -
  obtain m e where t: "UpdateSession ops (pc_zen pc) (pc_mgr pc) clk y (pl_mgr p) = (m, e)" by fastforce
  from UpdateSession_spec [OF assms(1) t] show thesis
    using assms t by (intro that [of m]) (simp_all add: with_mgr_eq)
qed

lemma add_evidence_present:
  assumes "inv (mg_store (pl_mgr p))" and "sessions_in abs p sid = Some x" and "pc_store pc = ops"
  obtains m y where
    "fst (with_mgr (AddEvidence (pc_store pc) (pc_zen pc) (pc_mgr pc) clk sid ev) p) = p\<lparr>pl_mgr := m\<rparr>"
    "inv (mg_store m)" "abs (mg_store m) = (sessions_in abs p)(sid \<mapsto> y)"
    "se_State y = se_State x" "se_WorkItem y = se_WorkItem x"
proof -
  obtain m e where t: "AddEvidence ops (pc_zen pc) (pc_mgr pc) clk sid ev (pl_mgr p) = (m, e)" by fastforce
  from AddEvidence_spec [OF assms(1) t] show thesis
    using assms t
    by (intro that [of m "x\<lparr>se_EvidenceItems := se_EvidenceItems x @ [stamp_evidence clk sid x ev],
          se_UpdatedAt := clk 1\<rparr>"]) (simp_all add: with_mgr_eq)
qed

lemma autoApprove_outcome:
  assumes "inv (mg_store (pl_mgr p))" and "sessions_in abs p sid = Some x" and "pc_store pc = ops"
    and "se_State x = SessionStateAnalyzed"
  obtains m f e y where
    "autoApproveAndSchedule pc clks sid sel p = (p\<lparr>pl_mgr := m, pl_factory := f\<rparr>, e)"
    "inv (mg_store m)" "abs (mg_store m) = (sessions_in abs p)(sid \<mapsto> y)"
    "se_State y = (if pc_factory pc = None then SessionStateInProgress else SessionStateScheduled)"
    "se_WorkItem y = se_WorkItem x" "(e = None) = (pc_factory pc = None)"
proof -
  have v: "isValidTransition (se_State x) SessionStateScheduled"
    by (simp add: assms(4) isValidTransition_iff)
  obtain m1 where 1: "transition pc (clks 0) sid SessionStateScheduled
      (''Auto-approved (model: '' @ sel_ModelID sel @ '', cost: $''
        @ pc_fmtf pc 2 (sel_EstimatedCostUSD sel) @ '')'') ''planner'' p = (p\<lparr>pl_mgr := m1\<rparr>, None)"
    "inv (mg_store m1)" "abs (mg_store m1) = (sessions_in abs p)(sid \<mapsto> transition_session (clks 0)
        SessionStateScheduled (''Auto-approved (model: '' @ sel_ModelID sel @ '', cost: $''
        @ pc_fmtf pc 2 (sel_EstimatedCostUSD sel) @ '')'') ''planner'' x)"
    by (rule transition_valid [OF assms(1,2) v assms(3)])
  let ?x1 = "transition_session (clks 0) SessionStateScheduled (''Auto-approved (model: ''
      @ sel_ModelID sel @ '', cost: $'' @ pc_fmtf pc 2 (sel_EstimatedCostUSD sel) @ '')'') ''planner'' x"
  let ?p1 = "p\<lparr>pl_mgr := m1\<rparr>"
  have i1: "inv (mg_store (pl_mgr ?p1))" and x1: "sessions_in abs ?p1 sid = Some ?x1" using 1 by simp_all
  obtain m2 where 2: "get_session pc (clks 1) sid ?p1 = (?p1\<lparr>pl_mgr := m2\<rparr>, Inr ?x1)"
    "inv (mg_store m2)" "abs (mg_store m2) = sessions_in abs ?p1"
    by (rule get_session_present [OF i1 x1 assms(3)])
  show thesis
  proof (cases "pc_factory pc")
    case None
    let ?p2 = "p\<lparr>pl_mgr := m2\<rparr>"
    have i2: "inv (mg_store (pl_mgr ?p2))" and x2: "sessions_in abs ?p2 sid = Some ?x1" using 1 2 by simp_all
    have v2: "isValidTransition (se_State ?x1) SessionStateInProgress" by (simp add: isValidTransition_iff)
    obtain m3 where 3: "transition pc (clks 2) sid SessionStateInProgress
        ''Scheduled for execution (no factory)'' ''planner'' ?p2 = (?p2\<lparr>pl_mgr := m3\<rparr>, None)"
      "inv (mg_store m3)" "abs (mg_store m3) = (sessions_in abs ?p2)(sid \<mapsto> transition_session (clks 2)
        SessionStateInProgress ''Scheduled for execution (no factory)'' ''planner'' ?x1)"
      by (rule transition_valid [OF i2 x2 v2 assms(3)])
    show thesis
      by (rule that [of "pl_factory p" m3 None "transition_session (clks 2)
        SessionStateInProgress ''Scheduled for execution (no factory)'' ''planner'' ?x1"])
        (use 1 2 3 None in \<open>simp_all add: autoApproveAndSchedule_def\<close>)
  next
    case (Some exec)
    obtain f r where ex: "execute_specs exec ?x1 (se_BrainTaskSpecs ?x1) (pl_factory p) = (f, r)" by fastforce
    let ?p2 = "p\<lparr>pl_mgr := m2, pl_factory := f\<rparr>"
    have i2: "inv (mg_store (pl_mgr ?p2))" using 2 by simp
    have refuse: "\<not> isValidTransition (se_State z) SessionStateFailed"
        "\<not> isValidTransition (se_State z) SessionStateCompleted"
      if "sessions_in abs ?p2 sid = Some z" for z
      using that 1 2 by (auto simp: isValidTransition_iff)
    have out: "\<exists>m e. autoApproveAndSchedule pc clks sid sel p = (?p2\<lparr>pl_mgr := m\<rparr>, Some e)
        \<and> inv (mg_store m) \<and> abs (mg_store m) = sessions_in abs ?p2"
    proof (cases r)
      case None
      obtain m3 e3 where 3: "transition pc (clks 2) sid SessionStateCompleted
          ''All factory tasks completed successfully'' ''factory'' ?p2 = (?p2\<lparr>pl_mgr := m3\<rparr>, Some e3)"
        "inv (mg_store m3)" "abs (mg_store m3) = sessions_in abs ?p2"
        by (rule transition_refused [OF i2 refuse(2) assms(3)])
      then show ?thesis
        using 1 2 Some None ex by (intro exI [of _ m3] exI [of _ e3]) (simp add: autoApproveAndSchedule_def)
    next
      case (Some e)
      obtain m3 e3 where 3: "transition pc (clks 2) sid SessionStateFailed
          (''Factory execution failed: '' @ e) ''factory'' ?p2 = (?p2\<lparr>pl_mgr := m3\<rparr>, Some e3)"
        "inv (mg_store m3)" "abs (mg_store m3) = sessions_in abs ?p2"
        by (rule transition_refused [OF i2 refuse(1) assms(3)])
      then show ?thesis
        using 1 2 \<open>pc_factory pc = Some exec\<close> Some ex
        by (intro exI [of _ m3] exI [of _ e3]) (simp add: autoApproveAndSchedule_def)
    qed
    then obtain m e where "autoApproveAndSchedule pc clks sid sel p = (?p2\<lparr>pl_mgr := m\<rparr>, Some e)"
      "inv (mg_store m)" "abs (mg_store m) = sessions_in abs ?p2" by blast
    then show thesis using 1 2 Some by (intro that [of f m "Some e" ?x1]) simp_all
  qed
qed

lemma plan_analyzed_outcome:
  assumes "inv (mg_store (pl_mgr p))" and "sessions_in abs p sid = Some x" and "pc_store pc = ops"
    and "se_State x = SessionStateAnalyzed" and "se_WorkItem session = Some w"
  obtains p' y where "plan_analyzed pc clks sid session analysis p = Some p'"
    "inv (mg_store (pl_mgr p'))" "sessions_in abs p' = (sessions_in abs p)(sid \<mapsto> y)"
    "se_State y = (if requires_approval pc analysis then SessionStateBlocked
       else if pc_factory pc = None then SessionStateInProgress else SessionStateScheduled)"
    "se_WorkItem y = se_WorkItem x"
    "pl_approvalQueue p' = pl_approvalQueue p @ (if requires_approval pc analysis then [session] else [])"
proof -
  define sel where "sel = chosen_selection pc w analysis"
  define p1 where "p1 = p\<lparr>pl_selections := pl_selections p
      @ [(sid, se_WorkItemID session, sel_ModelID sel, sel_Reason sel)]\<rparr>"
  have i1: "inv (mg_store (pl_mgr p1))" and x1: "sessions_in abs p1 sid = Some x"
    using assms by (simp_all add: p1_def)
  obtain m2 y2 where 2: "fst (with_mgr (AddEvidence (pc_store pc) (pc_zen pc) (pc_mgr pc) (clks 5) sid
        (selection_item pc (clks 4 1) sid session sel)) p1) = p1\<lparr>pl_mgr := m2\<rparr>"
    "inv (mg_store m2)" "abs (mg_store m2) = (sessions_in abs p1)(sid \<mapsto> y2)"
    "se_State y2 = se_State x" "se_WorkItem y2 = se_WorkItem x"
    by (rule add_evidence_present [OF i1 x1 assms(3)])
  let ?p2 = "p1\<lparr>pl_mgr := m2\<rparr>"
  have i2: "inv (mg_store (pl_mgr ?p2))" and x2: "sessions_in abs ?p2 sid = Some y2"
    and s2: "se_State y2 = SessionStateAnalyzed" and w2: "se_WorkItem y2 = se_WorkItem x"
    using 2 assms by simp_all
  have base: "sessions_in abs ?p2 = (sessions_in abs p)(sid \<mapsto> y2)" "pl_approvalQueue ?p2 = pl_approvalQueue p"
    using 2 by (simp_all add: p1_def)
  have unf: "plan_analyzed pc clks sid session analysis p =
      (if requires_approval pc analysis
       then (case transition pc (clks 6) sid SessionStateBlocked ''Awaiting human approval'' ''planner'' ?p2 of
               (p3, Some e) \<Rightarrow> Some p3
             | (p3, None) \<Rightarrow> Some (p3\<lparr>pl_approvalQueue := pl_approvalQueue p3 @ [session]\<rparr>))
       else Some (fst (autoApproveAndSchedule pc (\<lambda>k. clks (6 + k)) sid sel ?p2)))"
    by (simp only: plan_analyzed_def assms(5) option.case Let_def sel_def [symmetric] p1_def [symmetric] 2(1))
  show thesis
  proof (cases "requires_approval pc analysis")
    case True
    have "isValidTransition (se_State y2) SessionStateBlocked" by (simp add: s2 isValidTransition_iff)
    then obtain m3 where 3: "transition pc (clks 6) sid SessionStateBlocked ''Awaiting human approval''
        ''planner'' ?p2 = (?p2\<lparr>pl_mgr := m3\<rparr>, None)"
      "inv (mg_store m3)" "abs (mg_store m3) = (sessions_in abs ?p2)
        (sid \<mapsto> transition_session (clks 6) SessionStateBlocked ''Awaiting human approval'' ''planner'' y2)"
      by (rule transition_valid [OF i2 x2 _ assms(3)])
    show thesis
      by (rule that [of "?p2\<lparr>pl_mgr := m3, pl_approvalQueue := pl_approvalQueue p @ [session]\<rparr>"
            "transition_session (clks 6) SessionStateBlocked ''Awaiting human approval'' ''planner'' y2"])
        (use 3 base True w2 in \<open>simp_all add: unf\<close>)
  next
    case False
    obtain m3 f e y where 3: "autoApproveAndSchedule pc (\<lambda>k. clks (6 + k)) sid sel ?p2 =
        (?p2\<lparr>pl_mgr := m3, pl_factory := f\<rparr>, e)" "inv (mg_store m3)"
      "abs (mg_store m3) = (sessions_in abs ?p2)(sid \<mapsto> y)"
      "se_State y = (if pc_factory pc = None then SessionStateInProgress else SessionStateScheduled)"
      "se_WorkItem y = se_WorkItem y2" "(e = None) = (pc_factory pc = None)"
      by (rule autoApprove_outcome [OF i2 x2 assms(3) s2])
    show thesis
      by (rule that [of "?p2\<lparr>pl_mgr := m3, pl_factory := f\<rparr>" y])
        (use 3 base False w2 in \<open>simp_all add: unf\<close>)
  qed
qed

lemma analyze_outcome:
  assumes "inv (mg_store (pl_mgr p))" and "sessions_in abs p sid = Some x" and "pc_store pc = ops"
    and "se_WorkItem x \<noteq> None" and "se_State x = SessionStateCreated"
  obtains p' y where "analyzeAndPlan pc clks sid w p = Some p'"
    "inv (mg_store (pl_mgr p'))" "sessions_in abs p' = (sessions_in abs p)(sid \<mapsto> y)"
    "se_State y = planned_state pc w" "se_WorkItem y = se_WorkItem x"
    "\<exists>z. se_ID z = sid \<and> se_State z = SessionStateCreated
      \<and> pl_approvalQueue p' = pl_approvalQueue p @ (if planned_state pc w = SessionStateBlocked then [z] else [])"
proof -
  have same: "sessions_in abs p = (sessions_in abs p)(sid \<mapsto> x)" using assms(2) by auto
  have id: "se_ID x = sid" using abs_id [OF assms(1,2)] .
  have no: "\<not> isValidTransition (se_State z) SessionStateFailed" if "sessions_in abs p sid = Some z" for z
    using that assms by (simp add: isValidTransition_iff)
  show thesis
  proof (cases "over_budget pc w")
    case (Some st)
    obtain m e where "transition pc (clks 0) sid SessionStateFailed
        (''Project over budget ('' @ pc_fmtf pc 2 (bst_BudgetLimitUSD st) @ '' USD limit)'') ''planner'' p =
        (p\<lparr>pl_mgr := m\<rparr>, Some e)" "inv (mg_store m)" "abs (mg_store m) = sessions_in abs p"
      by (rule transition_refused [OF assms(1) no assms(3)])
    then show thesis
      using Some same assms id
      by (intro that [of "p\<lparr>pl_mgr := m\<rparr>" x]) (auto simp: analyzeAndPlan_def planned_state_def)
  next
    case None
    show thesis
    proof (cases "pc_analyze pc w")
      case (Inl e)
      let ?q = "agent_note pc 1 (agent_note pc 0 p)"
      have iq: "inv (mg_store (pl_mgr ?q))" using assms by simp
      have nq: "\<not> isValidTransition (se_State z) SessionStateFailed" if "sessions_in abs ?q sid = Some z" for z
        using that assms by (simp add: isValidTransition_iff)
      obtain m e' where "transition pc (clks 0) sid SessionStateFailed
          (''Intent analysis failed: '' @ e) ''planner'' ?q = (?q\<lparr>pl_mgr := m\<rparr>, Some e')"
        "inv (mg_store m)" "abs (mg_store m) = sessions_in abs ?q"
        by (rule transition_refused [OF iq nq assms(3)])
      then show thesis
        using Inl None same assms id
        by (intro that [of "?q\<lparr>pl_mgr := m\<rparr>" x]) (auto simp: analyzeAndPlan_def planned_state_def Let_def)
    next
      case (Inr analysis)
      let ?p1 = "agent_note pc 0 p"
      have i1: "inv (mg_store (pl_mgr ?p1))" and x1: "sessions_in abs ?p1 sid = Some x" using assms by simp_all
      obtain m2 where 2: "get_session pc (clks 1) sid ?p1 = (?p1\<lparr>pl_mgr := m2\<rparr>, Inr x)"
        "inv (mg_store m2)" "abs (mg_store m2) = sessions_in abs ?p1"
        by (rule get_session_present [OF i1 x1 assms(3)])
      define x2 where "x2 = x\<lparr>se_AnalysisResult := Some analysis, se_BrainTaskSpecs := ar_BrainTaskSpecs analysis\<rparr>"
      let ?p2 = "?p1\<lparr>pl_mgr := m2\<rparr>"
      have i2: "inv (mg_store (pl_mgr ?p2))" and y2: "sessions_in abs ?p2 (se_ID x2) = Some x"
        using 2 assms id by (simp_all add: x2_def)
      obtain m3 where 3: "with_mgr (UpdateSession (pc_store pc) (pc_zen pc) (pc_mgr pc) (clks 2) x2) ?p2 =
          (?p2\<lparr>pl_mgr := m3\<rparr>, None)" "inv (mg_store m3)"
        "abs (mg_store m3) = (sessions_in abs ?p2)(se_ID x2 \<mapsto> x2\<lparr>se_UpdatedAt := clks 2 0\<rparr>)"
        by (rule update_session_present [OF i2 y2 assms(3)])
      define x3 where "x3 = x2\<lparr>se_UpdatedAt := clks 2 0\<rparr>"
      define p3 where "p3 = store_hypothesis pc (clks 4 0) sid x3 analysis (?p1\<lparr>pl_mgr := m3\<rparr>)"
      have f3: "se_ID x3 = sid" "se_State x3 = SessionStateCreated" "se_WorkItem x3 = se_WorkItem x"
        using assms id by (simp_all add: x3_def x2_def)
      have i3: "inv (mg_store (pl_mgr p3))" and y3: "sessions_in abs p3 sid = Some x3"
        and s3: "sessions_in abs p3 = (sessions_in abs p)(sid \<mapsto> x3)"
        and v3: "isValidTransition (se_State x3) SessionStateAnalyzed"
        using 2 3 id f3 by (simp_all add: p3_def x3_def x2_def isValidTransition_iff)
      obtain m4 where 4: "transition pc (clks 3) sid SessionStateAnalyzed ''Intent analysis complete'' ''analyzer''
          p3 = (p3\<lparr>pl_mgr := m4\<rparr>, None)" "inv (mg_store m4)" "abs (mg_store m4) = (sessions_in abs p3)
            (sid \<mapsto> transition_session (clks 3) SessionStateAnalyzed ''Intent analysis complete'' ''analyzer'' x3)"
        by (rule transition_valid [OF i3 y3 v3 assms(3)])
      let ?x4 = "transition_session (clks 3) SessionStateAnalyzed ''Intent analysis complete'' ''analyzer'' x3"
      let ?p4 = "p3\<lparr>pl_mgr := m4\<rparr>"
      obtain w' where w': "se_WorkItem x3 = Some w'" using assms(4) f3 by auto
      have i4: "inv (mg_store (pl_mgr ?p4))" and y4: "sessions_in abs ?p4 sid = Some ?x4"
        and s4: "se_State ?x4 = SessionStateAnalyzed" using 4 by simp_all
      obtain p5 y where 5: "plan_analyzed pc clks sid x3 analysis ?p4 = Some p5" "inv (mg_store (pl_mgr p5))"
        "sessions_in abs p5 = (sessions_in abs ?p4)(sid \<mapsto> y)"
        "se_State y = (if requires_approval pc analysis then SessionStateBlocked
           else if pc_factory pc = None then SessionStateInProgress else SessionStateScheduled)"
        "se_WorkItem y = se_WorkItem ?x4"
        "pl_approvalQueue p5 = pl_approvalQueue ?p4 @ (if requires_approval pc analysis then [x3] else [])"
        by (rule plan_analyzed_outcome [OF i4 y4 assms(3) s4 w'])
      have "analyzeAndPlan pc clks sid w p = Some p5"
        using None Inr 2(1) 3(1) 4(1) 5(1)
        by (simp add: analyzeAndPlan_def Let_def x2_def [symmetric] x3_def [symmetric] p3_def [symmetric])
      moreover have "sessions_in abs p5 = (sessions_in abs p)(sid \<mapsto> y)" using 4 5 s3 by simp
      moreover have "planned_state pc w = se_State y" using None Inr 5(4) by (simp add: planned_state_def)
      moreover have "se_WorkItem y = se_WorkItem x" using 5(5) f3 by simp
      moreover have "pl_approvalQueue p3 = pl_approvalQueue p" by (simp add: p3_def)
      ultimately show thesis
        using 5 f3 by (intro that [of p5 y]) (auto intro: exI [of _ x3])
    qed
  qed
qed

text \<open>A transition to failed takes effect on a session in progress only.\<close>

lemma transition_failed:
  assumes "inv (mg_store (pl_mgr p))" and "pc_store pc = ops"
  obtains m e where "transition pc clk sid SessionStateFailed reason agent p = (p\<lparr>pl_mgr := m\<rparr>, e)"
    "inv (mg_store m)"
    "abs (mg_store m) = sessions_in abs p
     \<or> (\<exists>x y. sessions_in abs p sid = Some x \<and> abs (mg_store m) = (sessions_in abs p)(sid \<mapsto> y)
          \<and> se_WorkItem y = se_WorkItem x
          \<and> se_State x = SessionStateInProgress \<and> se_State y = SessionStateFailed)"
proof (cases "\<exists>x. sessions_in abs p sid = Some x \<and> se_State x = SessionStateInProgress")
  case True
  then obtain x where x: "sessions_in abs p sid = Some x" "se_State x = SessionStateInProgress" by blast
  then have v: "isValidTransition (se_State x) SessionStateFailed" by (simp add: isValidTransition_iff)
  let ?y = "transition_session clk SessionStateFailed reason agent x"
  obtain m where 1: "transition pc clk sid SessionStateFailed reason agent p = (p\<lparr>pl_mgr := m\<rparr>, None)"
    "inv (mg_store m)" "abs (mg_store m) = (sessions_in abs p)(sid \<mapsto> ?y)"
    by (rule transition_valid [OF assms(1) x(1) v assms(2)])
  show thesis
    by (rule that [OF 1(1,2)]) (rule disjI2, rule exI [of _ x], rule exI [of _ ?y], simp add: 1 x)
next
  case False
  then have "\<not> isValidTransition (se_State z) SessionStateFailed" if "sessions_in abs p sid = Some z" for z
    using that by (auto simp: isValidTransition_iff)
  from transition_refused [OF assms(1) this assms(2)] that show thesis by metis
qed

lemma analyze_other:
  assumes "inv (mg_store (pl_mgr p))" and "pc_store pc = ops"
    and "\<And>x. sessions_in abs p sid = Some x \<Longrightarrow> se_State x \<noteq> SessionStateCreated"
  obtains p' where "analyzeAndPlan pc clks sid w p = Some p'"
    "inv (mg_store (pl_mgr p'))" "pl_approvalQueue p' = pl_approvalQueue p"
    "sessions_in abs p' = sessions_in abs p
     \<or> (\<exists>x y. sessions_in abs p sid = Some x \<and> sessions_in abs p' = (sessions_in abs p)(sid \<mapsto> y)
          \<and> se_WorkItem y = se_WorkItem x
          \<and> (se_State y = se_State x
             \<or> se_State x = SessionStateInProgress \<and> se_State y = SessionStateFailed))"
proof (cases "over_budget pc w")
  case (Some st)
  obtain m e where 1: "transition pc (clks 0) sid SessionStateFailed
      (''Project over budget ('' @ pc_fmtf pc 2 (bst_BudgetLimitUSD st) @ '' USD limit)'') ''planner'' p =
      (p\<lparr>pl_mgr := m\<rparr>, e)" "inv (mg_store m)"
    "abs (mg_store m) = sessions_in abs p
     \<or> (\<exists>x y. sessions_in abs p sid = Some x \<and> abs (mg_store m) = (sessions_in abs p)(sid \<mapsto> y)
          \<and> se_WorkItem y = se_WorkItem x
          \<and> se_State x = SessionStateInProgress \<and> se_State y = SessionStateFailed)"
    by (rule transition_failed [OF assms(1,2)])
  have "analyzeAndPlan pc clks sid w p = Some (p\<lparr>pl_mgr := m\<rparr>)"
    using 1(1) Some by (simp add: analyzeAndPlan_def)
  from that [OF this] show thesis using 1(2,3) by auto
next
  case None
  show thesis
  proof (cases "pc_analyze pc w")
    case (Inl e)
    let ?q = "agent_note pc 1 (agent_note pc 0 p)"
    have iq: "inv (mg_store (pl_mgr ?q))" using assms by simp
    obtain m e' where 1: "transition pc (clks 0) sid SessionStateFailed (''Intent analysis failed: '' @ e)
        ''planner'' ?q = (?q\<lparr>pl_mgr := m\<rparr>, e')" "inv (mg_store m)"
      "abs (mg_store m) = sessions_in abs ?q
       \<or> (\<exists>x y. sessions_in abs ?q sid = Some x \<and> abs (mg_store m) = (sessions_in abs ?q)(sid \<mapsto> y)
            \<and> se_WorkItem y = se_WorkItem x
            \<and> se_State x = SessionStateInProgress \<and> se_State y = SessionStateFailed)"
      by (rule transition_failed [OF iq assms(2)])
    have "analyzeAndPlan pc clks sid w p = Some (?q\<lparr>pl_mgr := m\<rparr>)"
      using 1(1) Inl None by (simp add: analyzeAndPlan_def Let_def)
    from that [OF this] show thesis using 1(2,3) by auto
  next
    case (Inr analysis)
    let ?p1 = "agent_note pc 0 p"
    have i1: "inv (mg_store (pl_mgr ?p1))" using assms by simp
    show thesis
    proof (cases "sessions_in abs ?p1 sid")
      case n: None
      obtain m where 1: "get_session pc (clks 1) sid ?p1 = (?p1\<lparr>pl_mgr := m\<rparr>, Inl (MEStore ErrSessionNotFound))"
        "inv (mg_store m)" "abs (mg_store m) = sessions_in abs ?p1"
        by (rule get_session_absent [OF i1 n assms(2)])
      have "analyzeAndPlan pc clks sid w p = Some (?p1\<lparr>pl_mgr := m\<rparr>)"
        using None Inr 1(1) by (simp add: analyzeAndPlan_def Let_def)
      from that [OF this] show thesis using 1(2,3) by simp
    next
      case (Some x)
      have id: "se_ID x = sid" using abs_id [OF i1 Some] .
      obtain m2 where 2: "get_session pc (clks 1) sid ?p1 = (?p1\<lparr>pl_mgr := m2\<rparr>, Inr x)"
        "inv (mg_store m2)" "abs (mg_store m2) = sessions_in abs ?p1"
        by (rule get_session_present [OF i1 Some assms(2)])
      define x2 where "x2 = x\<lparr>se_AnalysisResult := Some analysis, se_BrainTaskSpecs := ar_BrainTaskSpecs analysis\<rparr>"
      let ?p2 = "?p1\<lparr>pl_mgr := m2\<rparr>"
      have i2: "inv (mg_store (pl_mgr ?p2))" and y2: "sessions_in abs ?p2 (se_ID x2) = Some x"
        using 2 Some id by (simp_all add: x2_def)
      obtain m3 where 3: "with_mgr (UpdateSession (pc_store pc) (pc_zen pc) (pc_mgr pc) (clks 2) x2) ?p2 =
          (?p2\<lparr>pl_mgr := m3\<rparr>, None)" "inv (mg_store m3)"
        "abs (mg_store m3) = (sessions_in abs ?p2)(se_ID x2 \<mapsto> x2\<lparr>se_UpdatedAt := clks 2 0\<rparr>)"
        by (rule update_session_present [OF i2 y2 assms(2)])
      define x3 where "x3 = x2\<lparr>se_UpdatedAt := clks 2 0\<rparr>"
      define p3 where "p3 = store_hypothesis pc (clks 4 0) sid x3 analysis (?p1\<lparr>pl_mgr := m3\<rparr>)"
      have f3: "se_State x3 = se_State x" "se_WorkItem x3 = se_WorkItem x"
        by (simp_all add: x3_def x2_def)
      have i3: "inv (mg_store (pl_mgr p3))" and s3: "sessions_in abs p3 = (sessions_in abs p)(sid \<mapsto> x3)"
        using 2 3 id by (simp_all add: p3_def x3_def x2_def)
      have "se_State x \<noteq> SessionStateCreated" using assms(3) Some by simp
      then have no: "\<not> isValidTransition (se_State z) SessionStateAnalyzed"
        if "sessions_in abs p3 sid = Some z" for z
        using that s3 f3 by (auto simp: isValidTransition_iff)
      obtain m4 e4 where 4: "transition pc (clks 3) sid SessionStateAnalyzed ''Intent analysis complete''
          ''analyzer'' p3 = (p3\<lparr>pl_mgr := m4\<rparr>, Some e4)" "inv (mg_store m4)"
        "abs (mg_store m4) = sessions_in abs p3"
        by (rule transition_refused [OF i3 no assms(2)])
      have "analyzeAndPlan pc clks sid w p = Some (p3\<lparr>pl_mgr := m4\<rparr>)"
        using None Inr 2(1) 3(1) 4(1)
        by (simp add: analyzeAndPlan_def Let_def x2_def [symmetric] x3_def [symmetric] p3_def [symmetric])
      from that [OF this] show thesis using 4(2,3) s3 f3 Some by (auto simp: p3_def)
    qed
  qed
qed

lemma approve_refused:
  assumes "inv (mg_store (pl_mgr p))" and "pc_store pc = ops"
  obtains m e where "ApproveSession pc clks sid approver remark p = (p\<lparr>pl_mgr := m\<rparr>, Some e)"
    "inv (mg_store m)" "abs (mg_store m) = sessions_in abs p" "mg_journal m = mg_journal (pl_mgr p)"
    "e = (case sessions_in abs p sid of
            None \<Rightarrow> PEGet (MEStore ErrSessionNotFound)
          | Some x \<Rightarrow> if se_State x = SessionStateBlocked
              then PESchedule (MEInvalidTransition SessionStateBlocked SessionStateScheduled)
              else PENotBlocked (se_State x))"
proof (cases "sessions_in abs p sid")
  case None
  obtain m where 1: "get_session pc (clks 0) sid p = (p\<lparr>pl_mgr := m\<rparr>, Inl (MEStore ErrSessionNotFound))"
    "inv (mg_store m)" "abs (mg_store m) = sessions_in abs p" "mg_journal m = mg_journal (pl_mgr p)"
    by (rule get_session_absent [OF assms(1) None assms(2)])
  show thesis
    by (rule that [of m]) (use 1 None in \<open>simp_all add: ApproveSession_def\<close>)
next
  case (Some x)
  obtain m where 1: "get_session pc (clks 0) sid p = (p\<lparr>pl_mgr := m\<rparr>, Inr x)"
    "inv (mg_store m)" "abs (mg_store m) = sessions_in abs p" "mg_journal m = mg_journal (pl_mgr p)"
    by (rule get_session_present [OF assms(1) Some assms(2)])
  show thesis
  proof (cases "se_State x = SessionStateBlocked")
    case False
    then show thesis using that [of m] 1 Some by (simp add: ApproveSession_def)
  next
    case True
    let ?q = "p\<lparr>pl_mgr := m\<rparr>"
    have iq: "inv (mg_store (pl_mgr ?q))" and xq: "sessions_in abs ?q sid = Some x" using 1 Some by simp_all
    have no: "\<not> isValidTransition (se_State x) SessionStateScheduled"
      using True by (simp add: isValidTransition_iff)
    obtain m2 where 2: "transition pc (clks 1) sid SessionStateScheduled
        (''Approved by '' @ approver @ '': '' @ remark) approver ?q =
        (?q\<lparr>pl_mgr := m2\<rparr>, Some (MEInvalidTransition (se_State x) SessionStateScheduled))"
      "inv (mg_store m2)" "abs (mg_store m2) = sessions_in abs ?q" "mg_journal m2 = mg_journal (pl_mgr ?q)"
      by (rule transition_refused_present [OF iq xq no assms(2)])
    show thesis
      by (rule that [of m2]) (use 1 2 Some True in \<open>simp_all add: ApproveSession_def\<close>)
  qed
qed

text \<open>A transition to canceled, of the handlers that first read the session.\<close>

lemma transition_canceled:
  assumes "inv (mg_store (pl_mgr p))" and "pc_store pc = ops" and "sessions_in abs p sid = Some x"
    and "cancelable (se_State x)"
  obtains m where "transition pc clk sid SessionStateCanceled reason agent p = (p\<lparr>pl_mgr := m\<rparr>, None)"
    "inv (mg_store m)" "abs (mg_store m) =
       (sessions_in abs p)(sid \<mapsto> transition_session clk SessionStateCanceled reason agent x)"
proof -
  have "isValidTransition (se_State x) SessionStateCanceled"
    using assms(4) by (auto simp: cancelable_def isValidTransition_iff)
  from transition_valid [OF assms(1,3) this assms(2)] that show thesis by metis
qed

lemma cancel_outcome:
  assumes "inv (mg_store (pl_mgr p))" and "pc_store pc = ops"
  obtains m e where "CancelSession pc clks sid canceller reason p = (p\<lparr>pl_mgr := m\<rparr>, e)"
    "inv (mg_store m)"
    "case sessions_in abs p sid of
       None \<Rightarrow> e = Some (PEGet (MEStore ErrSessionNotFound)) \<and> abs (mg_store m) = sessions_in abs p
     | Some x \<Rightarrow>
         if cancelable (se_State x)
         then e = None \<and> abs (mg_store m) = (sessions_in abs p)(sid \<mapsto>
                transition_session (clks 1) SessionStateCanceled (''Canceled by '' @ canceller @ '': '' @ reason) canceller x)
         else e = Some (PENotCancelable (se_State x)) \<and> abs (mg_store m) = sessions_in abs p"
proof (cases "sessions_in abs p sid")
  case None
  obtain m where 1: "get_session pc (clks 0) sid p = (p\<lparr>pl_mgr := m\<rparr>, Inl (MEStore ErrSessionNotFound))"
    "inv (mg_store m)" "abs (mg_store m) = sessions_in abs p" "mg_journal m = mg_journal (pl_mgr p)"
    by (rule get_session_absent [OF assms(1) None assms(2)])
  show thesis
    by (rule that [of m]) (use 1 None in \<open>simp_all add: CancelSession_def\<close>)
next
  case (Some x)
  obtain m where 1: "get_session pc (clks 0) sid p = (p\<lparr>pl_mgr := m\<rparr>, Inr x)"
    "inv (mg_store m)" "abs (mg_store m) = sessions_in abs p"
    by (rule get_session_present [OF assms(1) Some assms(2)])
  show thesis
  proof (cases "cancelable (se_State x)")
    case False
    then show thesis using that [of m] 1 Some by (simp add: CancelSession_def)
  next
    case True
    let ?q = "p\<lparr>pl_mgr := m\<rparr>"
    have iq: "inv (mg_store (pl_mgr ?q))" and xq: "sessions_in abs ?q sid = Some x" using 1 Some by simp_all
    obtain m2 where 2: "transition pc (clks 1) sid SessionStateCanceled
        (''Canceled by '' @ canceller @ '': '' @ reason) canceller ?q = (?q\<lparr>pl_mgr := m2\<rparr>, None)"
      "inv (mg_store m2)" "abs (mg_store m2) = (sessions_in abs ?q)(sid \<mapsto>
        transition_session (clks 1) SessionStateCanceled (''Canceled by '' @ canceller @ '': '' @ reason) canceller x)"
      by (rule transition_canceled [OF iq assms(2) xq True])
    show thesis
      by (rule that [of m2]) (use 1 2 Some True in \<open>simp_all add: CancelSession_def\<close>)
  qed
qed

lemma reject_outcome:
  assumes "inv (mg_store (pl_mgr p))" and "pc_store pc = ops"
  obtains m q e where
    "RejectSession pc clks sid rejector reason p = (p\<lparr>pl_mgr := m, pl_approvalQueue := q\<rparr>, e)"
    "inv (mg_store m)"
    "case sessions_in abs p sid of
       None \<Rightarrow> e = Some (PEGet (MEStore ErrSessionNotFound)) \<and> abs (mg_store m) = sessions_in abs p
               \<and> q = pl_approvalQueue p
     | Some x \<Rightarrow>
         if se_State x = SessionStateBlocked
         then e = None \<and> q = remove_queued sid (pl_approvalQueue p)
              \<and> abs (mg_store m) = (sessions_in abs p)(sid \<mapsto>
                transition_session (clks 1) SessionStateCanceled (''Rejected by '' @ rejector @ '': '' @ reason) rejector x)
         else e = Some (PENotBlocked (se_State x)) \<and> abs (mg_store m) = sessions_in abs p
              \<and> q = pl_approvalQueue p"
proof (cases "sessions_in abs p sid")
  case None
  obtain m where 1: "get_session pc (clks 0) sid p = (p\<lparr>pl_mgr := m\<rparr>, Inl (MEStore ErrSessionNotFound))"
    "inv (mg_store m)" "abs (mg_store m) = sessions_in abs p"
    by (rule get_session_absent [OF assms(1) None assms(2)])
  show thesis
    by (rule that [of "pl_approvalQueue p" m]) (use 1 None in \<open>simp_all add: RejectSession_def\<close>)
next
  case (Some x)
  obtain m where 1: "get_session pc (clks 0) sid p = (p\<lparr>pl_mgr := m\<rparr>, Inr x)"
    "inv (mg_store m)" "abs (mg_store m) = sessions_in abs p"
    by (rule get_session_present [OF assms(1) Some assms(2)])
  show thesis
  proof (cases "se_State x = SessionStateBlocked")
    case False
    then show thesis using that [of "pl_approvalQueue p" m] 1 Some by (simp add: RejectSession_def)
  next
    case True
    then have c: "cancelable (se_State x)" by (simp add: cancelable_def)
    let ?q = "p\<lparr>pl_mgr := m\<rparr>"
    have iq: "inv (mg_store (pl_mgr ?q))" and xq: "sessions_in abs ?q sid = Some x" using 1 Some by simp_all
    obtain m2 where 2: "transition pc (clks 1) sid SessionStateCanceled
        (''Rejected by '' @ rejector @ '': '' @ reason) rejector ?q = (?q\<lparr>pl_mgr := m2\<rparr>, None)"
      "inv (mg_store m2)" "abs (mg_store m2) = (sessions_in abs ?q)(sid \<mapsto>
        transition_session (clks 1) SessionStateCanceled (''Rejected by '' @ rejector @ '': '' @ reason) rejector x)"
      by (rule transition_canceled [OF iq assms(2) xq c])
    show thesis
      by (rule that [of "remove_queued sid (pl_approvalQueue p)" m2 None])
        (use 1 2 Some True in \<open>simp_all add: RejectSession_def\<close>)
  qed
qed

lemma process_outcome:
  assumes "inv (mg_store (pl_mgr p))" and "pc_store pc = ops"
    and "ProcessWorkItem pc clk w p = (p', r)"
  shows "inv (mg_store (pl_mgr p')) \<and> pl_approvalQueue p' = pl_approvalQueue p
    \<and> (case r of
         Inl e \<Rightarrow> sessions_in abs p' = sessions_in abs p
       | Inr (sid, w') \<Rightarrow> w' = w \<and> sessions_in abs p sid = None
           \<and> (\<exists>x. sessions_in abs p' = (sessions_in abs p)(sid \<mapsto> x)
                \<and> se_WorkItem x = Some w \<and> se_State x = SessionStateCreated))"
proof -
  obtain m r' where c: "CreateSession ops (pc_zen pc) (pc_mgr pc) clk w (pl_mgr p) = (m, r')" by fastforce
  have w: "se_WorkItem (new_session i t w) = Some w" "se_State (new_session i t w) = SessionStateCreated" for i t
    by (simp_all add: new_session_def)
  from CreateSession_spec [OF assms(1) c] show ?thesis
    using assms(2,3) c
    by (auto simp: ProcessWorkItem_def with_mgr_eq w split: sum.splits)
qed

lemma stuck_loop_settled:
  assumes "inv (mg_store (pl_mgr p))" and "pc_store pc = ops"
    and "sessions_settled (pc_factory pc \<noteq> None) (sessions_in abs p)"
  shows "inv (mg_store (pl_mgr (stuck_loop pc clks clks' i xs p)))
    \<and> sessions_settled (pc_factory pc \<noteq> None) (sessions_in abs (stuck_loop pc clks clks' i xs p))
    \<and> pl_approvalQueue (stuck_loop pc clks clks' i xs p) = pl_approvalQueue p"
  using assms
proof (induction xs arbitrary: i p)
  case Nil
  then show ?case by simp
next
  case (Cons s xs)
  show ?case
  proof (cases "se_StartedAt s")
    case None
    then show ?thesis using Cons by simp
  next
    case (Some t)
    show ?thesis
    proof (cases "time_sub (clks i 0) t > execution_timeout pc")
      case False
      then show ?thesis using Cons Some by (simp add: Let_def)
    next
      case True
      let ?reason = "''Execution timeout after '' @ pc_fmt_dur pc (time_sub (clks i 0) t)"
      obtain m e where 1: "transition pc (clks' i) (se_ID s) SessionStateFailed ?reason ''planner-monitor'' p =
          (p\<lparr>pl_mgr := m\<rparr>, e)" "inv (mg_store m)"
        "abs (mg_store m) = sessions_in abs p
         \<or> (\<exists>x y. sessions_in abs p (se_ID s) = Some x \<and> abs (mg_store m) = (sessions_in abs p)(se_ID s \<mapsto> y)
              \<and> se_WorkItem y = se_WorkItem x
              \<and> se_State x = SessionStateInProgress \<and> se_State y = SessionStateFailed)"
        by (rule transition_failed [OF Cons.prems(1,2)])
      have st: "sessions_settled (pc_factory pc \<noteq> None) (abs (mg_store m))"
        by (rule settled_change [OF Cons.prems(3)]) (use 1(3) in blast)
      from Cons.IH [of "p\<lparr>pl_mgr := m\<rparr>" "Suc i"] show ?thesis
        using 1(1,2) st Some True Cons.prems(2) by (simp add: Let_def)
    qed
  qed
qed

lemma step_settled:
  assumes "planner_step C p p'"
    and C: "\<And>pc. C pc \<Longrightarrow> pc_store pc = ops \<and> (pc_factory pc \<noteq> None) = fac"
    and "inv (mg_store (pl_mgr p))" and "sessions_settled fac (sessions_in abs p)"
    and "queue_created (pl_approvalQueue p)"
  shows "inv (mg_store (pl_mgr p')) \<and> sessions_settled fac (sessions_in abs p')
    \<and> queue_created (pl_approvalQueue p')"
  using assms(1,3-)
proof (induction rule: planner_step.induct)
  case (process pc clk w p p' r)
  from C [OF process(1)] have "pc_store pc = ops" by simp
  from process_outcome [OF process(3) this process(2)] process(4,5) show ?case
    by (auto simp: settled_def intro!: settled_upd split: sum.splits)
next
  case (analyze pc clks sid w p p')
  from C [OF analyze(1)] have pc: "pc_store pc = ops" "(pc_factory pc \<noteq> None) = fac" by simp_all
  show ?case
  proof (cases "\<exists>x. sessions_in abs p sid = Some x \<and> se_State x = SessionStateCreated")
    case True
    then obtain x where x: "sessions_in abs p sid = Some x" "se_State x = SessionStateCreated" by blast
    have w: "se_WorkItem x \<noteq> None" using settled_at [OF analyze(4) x(1)] by simp
    obtain q y where q: "analyzeAndPlan pc clks sid w p = Some q" "inv (mg_store (pl_mgr q))"
      "sessions_in abs q = (sessions_in abs p)(sid \<mapsto> y)" "se_State y = planned_state pc w"
      "se_WorkItem y = se_WorkItem x"
      "\<exists>z. se_ID z = sid \<and> se_State z = SessionStateCreated
        \<and> pl_approvalQueue q = pl_approvalQueue p @ (if planned_state pc w = SessionStateBlocked then [z] else [])"
      by (rule analyze_outcome [OF analyze(3) x(1) pc(1) w x(2)])
    have "se_State y \<in> settled fac" using planned_settled [of pc w] pc q by simp
    then have "sessions_settled fac (sessions_in abs q)"
      unfolding q(3) using w q(5) by (intro settled_upd [OF analyze(4)]) simp_all
    moreover have "queue_created (pl_approvalQueue q)" using q(6) analyze(5) by (auto simp: queue_created_def)
    moreover have "p' = q" using q(1) analyze(2) by simp
    ultimately show ?thesis using q(2) by simp
  next
    case False
    then have no: "\<And>x. sessions_in abs p sid = Some x \<Longrightarrow> se_State x \<noteq> SessionStateCreated" by blast
    obtain q where q: "analyzeAndPlan pc clks sid w p = Some q" "inv (mg_store (pl_mgr q))"
      "pl_approvalQueue q = pl_approvalQueue p"
      "sessions_in abs q = sessions_in abs p
       \<or> (\<exists>x y. sessions_in abs p sid = Some x \<and> sessions_in abs q = (sessions_in abs p)(sid \<mapsto> y)
            \<and> se_WorkItem y = se_WorkItem x
            \<and> (se_State y = se_State x
               \<or> se_State x = SessionStateInProgress \<and> se_State y = SessionStateFailed))"
      by (rule analyze_other [OF analyze(3) pc(1) no])
    have "sessions_settled fac (sessions_in abs q)"
      by (rule settled_change [OF analyze(4) q(4)])
    then show ?thesis using q analyze(2,5) by simp
  qed
next
  case (approve pc clks sid approver msg p p' e)
  from C [OF approve(1)] have pc: "pc_store pc = ops" by simp
  show ?case
    by (rule approve_refused [OF approve(3) pc, of clks sid approver msg]) (use approve(2,4,5) in simp)
next
  case (reject pc clks sid rejector reason p p' e)
  from C [OF reject(1)] have pc: "pc_store pc = ops" by simp
  obtain m q e' where 1: "RejectSession pc clks sid rejector reason p = (p\<lparr>pl_mgr := m, pl_approvalQueue := q\<rparr>, e')"
    "inv (mg_store m)"
    "case sessions_in abs p sid of
       None \<Rightarrow> e' = Some (PEGet (MEStore ErrSessionNotFound)) \<and> abs (mg_store m) = sessions_in abs p
               \<and> q = pl_approvalQueue p
     | Some x \<Rightarrow>
         if se_State x = SessionStateBlocked
         then e' = None \<and> q = remove_queued sid (pl_approvalQueue p)
              \<and> abs (mg_store m) = (sessions_in abs p)(sid \<mapsto>
                transition_session (clks 1) SessionStateCanceled (''Rejected by '' @ rejector @ '': '' @ reason) rejector x)
         else e' = Some (PENotBlocked (se_State x)) \<and> abs (mg_store m) = sessions_in abs p
              \<and> q = pl_approvalQueue p"
    by (rule reject_outcome [OF reject(3) pc])
  have "sessions_settled fac (abs (mg_store m)) \<and> queue_created q"
    using 1(3) reject(4,5) settled_at [OF reject(4)] queue_created_remove [OF reject(5)]
    by (auto simp: settled_def intro!: settled_upd split: option.splits if_splits)
  then show ?case using 1(1,2) reject(2) by simp
next
  case (cancel pc clks sid canceller reason p p' e)
  from C [OF cancel(1)] have pc: "pc_store pc = ops" by simp
  obtain m e' where 1: "CancelSession pc clks sid canceller reason p = (p\<lparr>pl_mgr := m\<rparr>, e')"
    "inv (mg_store m)"
    "case sessions_in abs p sid of
       None \<Rightarrow> e' = Some (PEGet (MEStore ErrSessionNotFound)) \<and> abs (mg_store m) = sessions_in abs p
     | Some x \<Rightarrow>
         if cancelable (se_State x)
         then e' = None \<and> abs (mg_store m) = (sessions_in abs p)(sid \<mapsto>
                transition_session (clks 1) SessionStateCanceled (''Canceled by '' @ canceller @ '': '' @ reason) canceller x)
         else e' = Some (PENotCancelable (se_State x)) \<and> abs (mg_store m) = sessions_in abs p"
    by (rule cancel_outcome [OF cancel(3) pc])
  have "sessions_settled fac (abs (mg_store m))"
    using 1(3) cancel(4) settled_at [OF cancel(4)]
    by (auto simp: settled_def intro!: settled_upd split: option.splits if_splits)
  then show ?case using 1(1,2) cancel(2,5) by simp
next
  case (status pc clks sid p p' st)
  from C [OF status(1)] have pc: "pc_store pc = ops" by simp
  show ?case
  proof (cases "sessions_in abs p sid")
    case None
    show ?thesis
      by (rule get_session_absent [OF status(3) None pc, of "clks 0"])
        (use status in \<open>auto simp: GetSessionStatus_def\<close>)
  next
    case (Some x)
    show ?thesis
      by (rule get_session_present [OF status(3) Some pc, of "clks 0"])
        (use status in \<open>auto simp: GetSessionStatus_def\<close>)
  qed
next
  case (stuck pc clks clks' p p')
  from C [OF stuck(1)] have pc: "pc_store pc = ops" "(pc_factory pc \<noteq> None) = fac" by simp_all
  obtain m l where l: "ListSessions ops in_progress_filter (pl_mgr p) = (m, l)" by fastforce
  note fr = read_frames(3) [OF stuck(3) l]
  show ?case
  proof (cases l)
    case (Inl e)
    then show ?thesis using stuck l fr pc by (auto simp: checkStuckSessions_def with_mgr_eq)
  next
    case (Inr xs)
    then have "p' = stuck_loop pc clks clks' 0 xs (p\<lparr>pl_mgr := m\<rparr>)"
      using stuck(2) l pc by (simp add: checkStuckSessions_def with_mgr_eq)
    then show ?thesis using stuck_loop_settled [of "p\<lparr>pl_mgr := m\<rparr>" pc clks clks' 0 xs] fr pc stuck by simp
  qed
qed

lemma reachable_settled:
  assumes "planner_reachable C p0 p"
    and "\<And>pc. C pc \<Longrightarrow> pc_store pc = ops \<and> (pc_factory pc \<noteq> None) = fac"
    and "inv (mg_store (pl_mgr p0))" and "sessions_in abs p0 = Map.empty" and "pl_approvalQueue p0 = []"
  shows "inv (mg_store (pl_mgr p)) \<and> sessions_settled fac (sessions_in abs p)
    \<and> queue_created (pl_approvalQueue p)"
  using assms(1)
proof (induction rule: planner_reachable.induct)
  case start
  then show ?case using assms(3-) by (simp add: sessions_settled_def queue_created_def)
next
  case (step p p')
  then show ?case using step_settled [OF step(2) assms(2)] by blast
qed

end

subsection \<open>The planner over the memory store\<close>

text \<open>The values of the witnesses: one work item whose analysis costs 5 dollars.\<close>

definition ex_analysis :: AnalysisResult where
  "ex_analysis =
     \<lparr>ar_WorkItem = None, ar_BrainTaskSpecs = [], ar_Confidence = Fin 1, ar_AnalysisNotes = [],
      ar_RequiresApproval = False, ar_RecommendedModel = [], ar_EstimatedTotalCostUSD = Fin 5,
      ar_AnalyzedAt = 1, ar_AnalyzedBy = [], ar_AnalyzerVersion = [], ar_WorkItemSnapshot = None\<rparr>"

definition ex_planner_config :: "bool \<Rightarrow> (MemoryStore, unit, unit) planner_config" where
  "ex_planner_config approval =
     \<lparr>pc_store = mem_store_ops (\<lambda>_. 0), pc_zen = ex_zen, pc_mgr = ex_config, pc_DefaultModel = ''m'',
      pc_RequireApproval = approval, pc_AutoApproveCost = Fin 2, pc_ExecutionTimeout = 3600,
      pc_analyze = (\<lambda>w. Inr ex_analysis), pc_budget = (\<lambda>_. None), pc_efficiency = (\<lambda>_ _. Inr []),
      pc_recommend = None, pc_factory = Some (\<lambda>t f. (f, None)), pc_vault = False,
      pc_agent = (\<lambda>_ z. z), pc_fmtf = (\<lambda>_ _. []), pc_fmt_dur = (\<lambda>_. [])\<rparr>"

definition ex_planner :: "(MemoryStore, unit) mgr \<Rightarrow> (MemoryStore, unit, unit) planner" where
  "ex_planner m =
     \<lparr>pl_mgr = m, pl_activeSessions = Map.empty, pl_approvalQueue = [], pl_vault = [],
      pl_selections = [], pl_factory = ()\<rparr>"

lemma ex_planner_sel [simp]:
  "pl_mgr (ex_planner m) = m" "pl_approvalQueue (ex_planner m) = []"
  "pc_store (ex_planner_config b) = mem_store_ops (\<lambda>_. 0)"
  "pc_factory (ex_planner_config b) = Some (\<lambda>t f. (f, None))"
  by (simp_all add: ex_planner_def ex_planner_config_def)

lemma ex_planned_state [simp]:
  "planned_state (ex_planner_config b) w = (if b then SessionStateBlocked else SessionStateScheduled)"
  by (simp add: planned_state_def ex_planner_config_def over_budget_def requires_approval_def
      ex_analysis_def fgt_def)

text \<open>
  C5. Planning: on the memory store, \<open>analyzeAndPlan\<close> of a created session that has its work item
  leaves it created when the project is over budget or the analysis fails, blocked when approval is
  required, in progress when there is no factory, and scheduled when there is one, however the
  factory fares; no other session changes. A blocked session is queued for approval, as the copy
  taken while it was in state created.
\<close>

theorem planning_outcome:
  assumes "mem_inv (mg_store (pl_mgr p))" and "ms_lookup (mg_store (pl_mgr p)) sid = Some x"
    and "pc_store pc = mem_store_ops r" and "se_WorkItem x \<noteq> None" and "se_State x = SessionStateCreated"
  shows "\<exists>p' y z. analyzeAndPlan pc clks sid w p = Some p'
    \<and> ms_lookup (mg_store (pl_mgr p')) = (ms_lookup (mg_store (pl_mgr p)))(sid \<mapsto> y)
    \<and> se_State y = planned_state pc w
    \<and> pl_approvalQueue p' = pl_approvalQueue p @ (if planned_state pc w = SessionStateBlocked then [z] else [])
    \<and> se_ID z = sid \<and> se_State z = SessionStateCreated"
  by (rule mem.analyze_outcome [OF assms, where clks = clks and w = w]) blast

theorem planning_outcome_witness:
  "\<exists>p'. analyzeAndPlan (ex_planner_config True) (\<lambda>_. ex_clock) ''s1'' ex_work_item (ex_planner ex_mgr) = Some p'
    \<and> map_option se_State (ms_lookup (mg_store (pl_mgr p')) ''s1'') = Some SessionStateBlocked
    \<and> length (pl_approvalQueue p') = 1 \<and> GetPendingApprovals p' = []"
proof -
  have "\<exists>p' y z. analyzeAndPlan (ex_planner_config True) (\<lambda>_. ex_clock) ''s1'' ex_work_item (ex_planner ex_mgr) = Some p'
    \<and> ms_lookup (mg_store (pl_mgr p')) = (ms_lookup (mg_store (pl_mgr (ex_planner ex_mgr))))(''s1'' \<mapsto> y)
    \<and> se_State y = planned_state (ex_planner_config True) ex_work_item
    \<and> pl_approvalQueue p' = pl_approvalQueue (ex_planner ex_mgr)
        @ (if planned_state (ex_planner_config True) ex_work_item = SessionStateBlocked then [z] else [])
    \<and> se_ID z = ''s1'' \<and> se_State z = SessionStateCreated"
    by (rule planning_outcome [of _ _ ex_session "ex_planner_config True" "\<lambda>_. 0"])
      (simp_all add: ex_session_def new_session_def)
  then show ?thesis by (auto simp: GetPendingApprovals_def)
qed

text \<open>
  C7. Approval never succeeds: on the memory store \<open>ApproveSession\<close> returns an error for every session
  in every state and changes no session, queue entry or journal entry. A session that waits for
  approval is blocked, and the transition from blocked to scheduled is not in the manager's table.
\<close>

theorem approval_refused:
  assumes "mem_inv (mg_store (pl_mgr p))" and "pc_store pc = mem_store_ops r"
  shows "\<exists>p' e. ApproveSession pc clks sid approver msg p = (p', Some e)
    \<and> ms_lookup (mg_store (pl_mgr p')) = ms_lookup (mg_store (pl_mgr p))
    \<and> mg_journal (pl_mgr p') = mg_journal (pl_mgr p)
    \<and> pl_approvalQueue p' = pl_approvalQueue p
    \<and> e = (case ms_lookup (mg_store (pl_mgr p)) sid of
             None \<Rightarrow> PEGet (MEStore ErrSessionNotFound)
           | Some x \<Rightarrow> if se_State x = SessionStateBlocked
               then PESchedule (MEInvalidTransition SessionStateBlocked SessionStateScheduled)
               else PENotBlocked (se_State x))"
  by (rule mem.approve_refused [OF assms, where clks = clks and sid = sid and approver = approver and remark = msg]) simp

theorem approval_refused_witness:
  "\<exists>e. snd (ApproveSession (ex_planner_config True) (\<lambda>_. ex_clock) ''s1'' ''boss'' ''ok'' (ex_planner ex_mgr)) = Some e
     \<and> e = PENotBlocked SessionStateCreated"
  using approval_refused [of "ex_planner ex_mgr" "ex_planner_config True" "\<lambda>_. 0" "\<lambda>_. ex_clock" "''s1''" "''boss''" "''ok''"]
  by auto

text \<open>
  C6. The states the planner can bring about: in every run over an initially empty memory store, no
  session is ever analysed, or completed, between two operations; with a factory the sessions are
  created, blocked, scheduled or canceled, without one created, blocked, in progress, failed or
  canceled. The list of pending approvals is always empty, and planning never dereferences a nil
  work item.
\<close>

theorem planner_states:
  assumes "planner_reachable C p0 p"
    and "\<And>pc. C pc \<Longrightarrow> pc_store pc = mem_store_ops r \<and> (pc_factory pc \<noteq> None) = factory"
    and "mg_store (pl_mgr p0) = NewMemoryStore" and "pl_approvalQueue p0 = []"
  shows "(\<forall>k x. ms_lookup (mg_store (pl_mgr p)) k = Some x \<longrightarrow>
       se_State x \<in> {SessionStateCreated, SessionStateBlocked, SessionStateCanceled}
         \<union> (if factory then {SessionStateScheduled} else {SessionStateInProgress, SessionStateFailed}))
    \<and> GetPendingApprovals p = []
    \<and> (\<forall>pc clks sid w. C pc \<longrightarrow> analyzeAndPlan pc clks sid w p \<noteq> None)"
proof -
  have "mem_inv (mg_store (pl_mgr p)) \<and> sessions_settled factory (ms_lookup (mg_store (pl_mgr p)))
      \<and> queue_created (pl_approvalQueue p)"
    by (rule mem.reachable_settled [OF assms(1,2)])
      (simp_all add: assms(3,4) mem_inv_new, simp add: NewMemoryStore_def)
  then have inv: "mem_inv (mg_store (pl_mgr p))" and st: "sessions_settled factory (ms_lookup (mg_store (pl_mgr p)))"
    and q: "queue_created (pl_approvalQueue p)" by blast+
  have "analyzeAndPlan pc clks sid w p \<noteq> None" if "C pc" for pc clks sid w
  proof (cases "\<exists>x. ms_lookup (mg_store (pl_mgr p)) sid = Some x \<and> se_State x = SessionStateCreated")
    case True
    then obtain x where x: "ms_lookup (mg_store (pl_mgr p)) sid = Some x" "se_State x = SessionStateCreated" by blast
    have "se_WorkItem x \<noteq> None" using settled_at [OF st x(1)] by simp
    from mem.analyze_outcome [OF inv x(1) conjunct1 [OF assms(2) [OF that]] this x(2), where clks = clks and w = w]
    show ?thesis by (metis option.distinct(1))
  next
    case False
    then have "\<And>x. ms_lookup (mg_store (pl_mgr p)) sid = Some x \<Longrightarrow> se_State x \<noteq> SessionStateCreated" by blast
    from mem.analyze_other [OF inv conjunct1 [OF assms(2) [OF that]] this, where clks = clks and w = w]
    show ?thesis by (metis option.distinct(1))
  qed
  then show ?thesis using st pending_none [OF q] by (simp add: sessions_settled_def settled_def)
qed

theorem planner_states_witness:
  "GetPendingApprovals (fst (ProcessWorkItem (ex_planner_config True) ex_clock ex_work_item (ex_planner ex_mgr0))) = []"
proof -
  let ?C = "\<lambda>pc. pc = ex_planner_config True"
  let ?p = "fst (ProcessWorkItem (ex_planner_config True) ex_clock ex_work_item (ex_planner ex_mgr0))"
  have "planner_reachable ?C (ex_planner ex_mgr0) ?p"
    by (rule planner_reachable.step [OF planner_reachable.start planner_step.process [OF refl surjective_pairing]])
  from planner_states [OF this, of "\<lambda>_. 0" True] show ?thesis by (simp add: ex_mgr0_def)
qed

text \<open>
  C8. Cancellation is always possible: on the memory store \<open>CancelSession\<close> succeeds on every stored
  session that is not completed, failed or canceled, leaves exactly this session canceled and
  stamped as completed, and is refused, without any effect on the sessions, in the other cases.
\<close>

theorem cancellation_possible:
  assumes "mem_inv (mg_store (pl_mgr p))" and "pc_store pc = mem_store_ops r"
    and "ms_lookup (mg_store (pl_mgr p)) sid = Some x" and "se_State x \<in> set SessionState_consts"
  shows "\<exists>p' e. CancelSession pc clks sid canceller reason p = (p', e)
    \<and> (e = None \<longleftrightarrow> active_state (se_State x))
    \<and> (if active_state (se_State x)
       then \<exists>y. ms_lookup (mg_store (pl_mgr p')) = (ms_lookup (mg_store (pl_mgr p)))(sid \<mapsto> y)
              \<and> se_State y = SessionStateCanceled \<and> se_CompletedAt y \<noteq> None
       else ms_lookup (mg_store (pl_mgr p')) = ms_lookup (mg_store (pl_mgr p)))"
proof -
  have c: "cancelable (se_State x) \<longleftrightarrow> active_state (se_State x)"
    using assms(4) by (auto simp: SessionState_consts_def cancelable_def active_state_def)
  have stamp: "se_CompletedAt (transition_session clk SessionStateCanceled rs ag x) \<noteq> None" for clk rs ag
    by (simp add: transition_session_def)
  show ?thesis
    by (rule mem.cancel_outcome [OF assms(1,2), where clks = clks and sid = sid and canceller = canceller and reason = reason])
      (use stamp in \<open>auto simp: c assms(3) split: if_splits\<close>)
qed

theorem cancellation_possible_witness:
  "snd (CancelSession (ex_planner_config True) (\<lambda>_. ex_clock) ''s1'' ''a'' ''r'' (ex_planner ex_mgr)) = None"
  using cancellation_possible [of "ex_planner ex_mgr" "ex_planner_config True" "\<lambda>_. 0" "''s1''" ex_session
      "\<lambda>_. ex_clock" "''a''" "''r''"]
  by (auto simp: SessionState_consts_def active_state_def)

end
