(* ===== verification/Gatekeeper_Properties.thy ===== *)
theory Gatekeeper_Properties
  imports Gatekeeper Planner_Properties
begin

text \<open>
  The life of an approval request. \<open>req_step\<close> is the abstract specification: a request is made,
  noted on while it is pending, and decided once; each step adds one event to its history. Every
  operation of the gatekeeper is a sequence of such steps (\<open>gk_step_simulation\<close>). The locale
  \<open>approval_planner\<close> is what the gatekeeper needs of a planner; \<open>refusing_planner\<close> adds what the
  default planner does, and its interpretation composes the two components.
\<close>

subsection \<open>The abstract specification\<close>

type_synonym req_view = "(string \<rightharpoonup> ApprovalRequest) \<times> (string \<rightharpoonup> ApprovalEvent list)"

abbreviation gk_view :: "'p gatekeeper \<Rightarrow> req_view" where
  "gk_view g \<equiv> (gk_lookup g, gk_events g)"

definition decision_statuses :: "string set" where
  "decision_statuses =
     {ApprovalStatusApproved, ApprovalStatusRejected, ApprovalStatusDelegated, ApprovalStatusEscalated}"

definition evs :: "(string \<rightharpoonup> ApprovalEvent list) \<Rightarrow> string \<Rightarrow> ApprovalEvent list" where
  "evs E k = (case E k of None \<Rightarrow> [] | Some es \<Rightarrow> es)"

inductive req_step :: "req_view \<Rightarrow> req_view \<Rightarrow> bool" where
  requested: "L k = None \<Longrightarrow> k = approval_id (aq_SessionID req) \<Longrightarrow> aq_ID req = k
    \<Longrightarrow> aq_Status req = ApprovalStatusPending \<Longrightarrow> ae_EventType ev = ''requested''
    \<Longrightarrow> req_step (L, E) (L(k \<mapsto> req), E(k \<mapsto> evs E k @ [ev]))"
| noted: "L k = Some req \<Longrightarrow> aq_Status req = ApprovalStatusPending
    \<Longrightarrow> level = aq_ApprovalLevel req \<or> level = getNextApprovalLevel (aq_ApprovalLevel req)
    \<Longrightarrow> ae_EventType ev \<in> {''reminded'', ''auto_escalated''}
    \<Longrightarrow> req_step (L, E) (L(k \<mapsto> req\<lparr>aq_ApprovalLevel := level\<rparr>), E(k \<mapsto> evs E k @ [ev]))"
| decided: "L k = Some req \<Longrightarrow> aq_Status req = ApprovalStatusPending
    \<Longrightarrow> aq_Status req' = ae_EventType ev \<Longrightarrow> ae_EventType ev \<in> decision_statuses
    \<Longrightarrow> aq_ID req' = aq_ID req \<Longrightarrow> aq_SessionID req' = aq_SessionID req
    \<Longrightarrow> req_step (L, E) (L(k \<mapsto> req'), E(k \<mapsto> evs E k @ [ev]))"

abbreviation req_steps :: "req_view \<Rightarrow> req_view \<Rightarrow> bool" where
  "req_steps \<equiv> req_step\<^sup>*\<^sup>*"

text \<open>The status that a history of events leads to.\<close>

definition event_status :: "string \<Rightarrow> ApprovalEvent \<Rightarrow> string" where
  "event_status st ev =
     (if ae_EventType ev \<in> {''approved'', ''rejected'', ''delegated'', ''escalated''} then ae_EventType ev else st)"

definition history_status :: "ApprovalEvent list \<Rightarrow> string" where
  "history_status es = foldl event_status ApprovalStatusPending es"

lemma history_status_snoc [simp]: "history_status (es @ [ev]) = event_status (history_status es) ev"
  by (simp add: history_status_def)

lemma history_status_one [simp]: "history_status [ev] = event_status ApprovalStatusPending ev"
  by (simp add: history_status_def)

lemma history_status_Nil [simp]: "history_status [] = ApprovalStatusPending"
  by (simp add: history_status_def)

fun view_ok :: "req_view \<Rightarrow> bool" where
  "view_ok (L, E) \<longleftrightarrow>
     (\<forall>k. case L k of
            None \<Rightarrow> evs E k = []
          | Some req \<Rightarrow> k = approval_id (aq_SessionID req) \<and> aq_ID req = k
              \<and> evs E k \<noteq> [] \<and> ae_EventType (hd (evs E k)) = ''requested''
              \<and> history_status (evs E k) = aq_Status req)"

lemma evs_upd [simp]: "evs (E(k \<mapsto> es)) j = (if j = k then es else evs E j)"
  by (simp add: evs_def)

lemma view_ok_at:
  "view_ok (L, E) \<Longrightarrow> L k = Some req \<Longrightarrow>
     k = approval_id (aq_SessionID req) \<and> aq_ID req = k \<and> evs E k \<noteq> []
     \<and> ae_EventType (hd (evs E k)) = ''requested'' \<and> history_status (evs E k) = aq_Status req"
  by (auto split: option.splits dest: spec [of _ k])

lemma view_ok_none: "view_ok (L, E) \<Longrightarrow> L k = None \<Longrightarrow> evs E k = []"
  by (auto split: option.splits dest: spec [of _ k])

lemma view_ok_upd:
  assumes "view_ok (L, E)" and "k = approval_id (aq_SessionID req)" and "aq_ID req = k"
    and "es \<noteq> []" and "ae_EventType (hd es) = ''requested''" and "history_status es = aq_Status req"
  shows "view_ok (L(k \<mapsto> req), E(k \<mapsto> es))"
  unfolding view_ok.simps
proof
  fix j
  show "case (L(k \<mapsto> req)) j of
      None \<Rightarrow> evs (E(k \<mapsto> es)) j = []
    | Some req \<Rightarrow> j = approval_id (aq_SessionID req) \<and> aq_ID req = j
        \<and> evs (E(k \<mapsto> es)) j \<noteq> [] \<and> ae_EventType (hd (evs (E(k \<mapsto> es)) j)) = ''requested''
        \<and> history_status (evs (E(k \<mapsto> es)) j) = aq_Status req"
  proof (cases "j = k")
    case True
    then show ?thesis using assms by simp
  next
    case False
    then show ?thesis
      using view_ok_none [OF assms(1), of j] view_ok_at [OF assms(1), of j]
      by (cases "L j") (auto simp del: view_ok.simps)
  qed
qed

lemma req_step_ok: "req_step v v' \<Longrightarrow> view_ok v \<Longrightarrow> view_ok v'"
proof (induction rule: req_step.induct)
  case (requested L k req ev E)
  then show ?case
    by (intro view_ok_upd)
      (simp_all add: view_ok_none event_status_def del: view_ok.simps)
next
  case (noted L k req level ev E)
  note at = view_ok_at [OF noted(5,1)]
  show ?case
    by (rule view_ok_upd [OF noted(5)])
      (use noted at in \<open>auto simp: event_status_def simp del: view_ok.simps\<close>)
next
  case (decided L k req req' ev E)
  note at = view_ok_at [OF decided(7,1)]
  show ?case
    by (rule view_ok_upd [OF decided(7)])
      (use decided at in \<open>auto simp: event_status_def decision_statuses_def approval_status_defs
        simp del: view_ok.simps\<close>)
qed

lemma req_steps_ok: "req_steps v v' \<Longrightarrow> view_ok v \<Longrightarrow> view_ok v'"
  by (induction rule: rtranclp_induct) (auto intro: req_step_ok simp del: view_ok.simps)

text \<open>A request that is no longer pending, and its history, never change again.\<close>

lemma req_step_final:
  "req_step v v' \<Longrightarrow> fst v k = Some req \<Longrightarrow> aq_Status req \<noteq> ApprovalStatusPending
   \<Longrightarrow> fst v' k = Some req \<and> snd v' k = snd v k"
  by (induction rule: req_step.induct) auto

lemma req_steps_final:
  "req_steps v v' \<Longrightarrow> fst v k = Some req \<Longrightarrow> aq_Status req \<noteq> ApprovalStatusPending
   \<Longrightarrow> fst v' k = Some req \<and> snd v' k = snd v k"
proof (induction rule: rtranclp_induct)
  case (step v' v'')
  then show ?case using req_step_final [of v' v'' k req] by simp
qed simp

subsection \<open>Effects of the helpers\<close>

lemma view_put [simp]: "gk_lookup (gk_put k req g) = (gk_lookup g)(k \<mapsto> req)"
  by (simp add: gk_put_def update_conv')

lemma put_sel [simp]:
  "gk_events (gk_put k req g) = gk_events g" "gk_planner (gk_put k req g) = gk_planner g"
  "gk_notifiers (gk_put k req g) = gk_notifiers g"
  by (simp_all add: gk_put_def)

lemma record_sel [simp]:
  "gk_requests (recordApprovalEvent clk k sid et actor d g) = gk_requests g"
  "gk_planner (recordApprovalEvent clk k sid et actor d g) = gk_planner g"
  "gk_notifiers (recordApprovalEvent clk k sid et actor d g) = gk_notifiers g"
  by (simp_all add: recordApprovalEvent_def)

lemma record_events:
  "\<exists>ev. ae_EventType ev = et
     \<and> gk_events (recordApprovalEvent clk k sid et actor d g) = (gk_events g)(k \<mapsto> evs (gk_events g) k @ [ev])"
  unfolding recordApprovalEvent_def evs_def
  by (rule exI [of _ "\<lparr>ae_ID = ''event-'' @ itoa (go_unix_nano (clk 0)), ae_ApprovalID = k,
        ae_SessionID = sid, ae_EventType = et, ae_Actor = actor, ae_Timestamp = clk 1, ae_Details = d\<rparr>"])
    simp

lemma send_all_sel [simp]:
  "gk_requests (send_all r n g) = gk_requests g" "gk_events (send_all r n g) = gk_events g"
  "gk_planner (send_all r n g) = gk_planner g" "gk_notifiers (send_all r n g) = gk_notifiers g"
  by (simp_all add: send_all_def)

lemma audit_sel [simp]:
  "gk_requests (fst (auditLogDecision now req decision g)) = gk_requests g"
  "gk_events (fst (auditLogDecision now req decision g)) = gk_events g"
  "gk_planner (fst (auditLogDecision now req decision g)) = gk_planner g"
  by (simp_all add: auditLogDecision_def split: option.split)

lemma noted_view:
  assumes "gk_lookup g k = Some req" and "aq_Status req = ApprovalStatusPending"
    and "level = aq_ApprovalLevel req \<or> level = getNextApprovalLevel (aq_ApprovalLevel req)"
    and "et = ''reminded'' \<or> et = ''auto_escalated''"
    and "gk_lookup g' = (gk_lookup g)(k \<mapsto> req\<lparr>aq_ApprovalLevel := level\<rparr>)" and "gk_events g' = gk_events g"
  shows "req_step (gk_view g) (gk_view (recordApprovalEvent clk k sid et actor d g'))"
proof -
  obtain ev where "ae_EventType ev = et"
    "gk_events (recordApprovalEvent clk k sid et actor d g') = (gk_events g')(k \<mapsto> evs (gk_events g') k @ [ev])"
    using record_events [of et clk k sid actor d g'] by blast
  then show ?thesis
    using req_step.noted [of "gk_lookup g" k req level ev "gk_events g"] assms by auto
qed

lemma decided_view:
  assumes "gk_lookup g k = Some req" and "aq_Status req = ApprovalStatusPending"
    and "aq_Status req' = et" and "et \<in> decision_statuses"
    and "aq_ID req' = aq_ID req" and "aq_SessionID req' = aq_SessionID req"
    and "gk_lookup g' = (gk_lookup g)(k \<mapsto> req')" and "gk_events g' = gk_events g"
  shows "req_step (gk_view g) (gk_view (recordApprovalEvent clk k sid et actor d g'))"
proof -
  obtain ev where "ae_EventType ev = et"
    "gk_events (recordApprovalEvent clk k sid et actor d g') = (gk_events g')(k \<mapsto> evs (gk_events g') k @ [ev])"
    using record_events [of et clk k sid actor d g'] by blast
  then show ?thesis
    using req_step.decided [of "gk_lookup g" k req req' ev "gk_events g"] assms by auto
qed

lemma ensure_request_view:
  "req_steps (gk_view g) (gk_view (fst (ensure_request gc r clk session g)))"
proof (cases "gk_lookup g (approval_id (se_ID session))")
  case None
  let ?req = "createApprovalRequest gc (clk 0) session"
  let ?k = "approval_id (se_ID session)"
  let ?g = "recordApprovalEvent (\<lambda>i. clk (Suc i)) ?k (se_ID session) ''requested'' ''system'' Map.empty (gk_put ?k ?req g)"
  obtain ev where ev: "ae_EventType ev = ''requested''" "gk_events ?g = (gk_events g)(?k \<mapsto> evs (gk_events g) ?k @ [ev])"
    using record_events [of "''requested''" _ ?k _ _ _ "gk_put ?k ?req g"] by fastforce
  have "req_step (gk_view g) ((gk_lookup g)(?k \<mapsto> ?req), (gk_events g)(?k \<mapsto> evs (gk_events g) ?k @ [ev]))"
    by (rule req_step.requested) (use None ev in \<open>simp_all add: createApprovalRequest_def\<close>)
  moreover have "aq_ID ?req = ?k" by (simp add: createApprovalRequest_def)
  ultimately have "req_step (gk_view g) (gk_view (fst (ensure_request gc r clk session g)))"
    using None ev by (simp add: ensure_request_def Let_def)
  then show ?thesis by blast
next
  case (Some req)
  then show ?thesis by (simp add: ensure_request_def)
qed

lemma pending_loop_view:
  "req_steps (gk_view g) (gk_view (fst (pending_loop gc r clks f i result sessions g)))"
proof (induction gc r clks f i result sessions g rule: pending_loop.induct)
  case (2 gc r clks f i result session sessions g)
  obtain g' req where e: "ensure_request gc r (clks i) session g = (g', req)" by fastforce
  have "req_steps (gk_view g) (gk_view g')" using ensure_request_view [of g gc r "clks i" session] e by simp
  then show ?case using 2 [OF e [symmetric] refl] e by (auto simp: Let_def)
qed simp

subsection \<open>Every operation is a sequence of abstract steps\<close>

inductive gk_step ::
    "('p, 'e) planner_ops \<Rightarrow> gk_config \<Rightarrow> ('p \<Rightarrow> 'p \<Rightarrow> bool) \<Rightarrow> 'p gatekeeper \<Rightarrow> 'p gatekeeper \<Rightarrow> bool"
  for pops gc env where
  planner: "env (gk_planner g) p \<Longrightarrow> gk_step pops gc env g (g\<lparr>gk_planner := p\<rparr>)"
| pending: "gk_GetPendingApprovals pops gc r clks f g = (g', res) \<Longrightarrow> gk_step pops gc env g g'"
| approve: "Approve pops r clk k decision g = (g', res) \<Longrightarrow> gk_step pops gc env g g'"
| reject: "Reject pops r clk k decision g = (g', res) \<Longrightarrow> gk_step pops gc env g g'"
| delegate: "DelegateApproval clk k to_user reason g = (g', res :: 'e gk_result) \<Longrightarrow> gk_step pops gc env g g'"
| escalate: "EscalateApproval clk k reason g = (g', res :: 'e gk_result) \<Longrightarrow> gk_step pops gc env g g'"
| register: "RegisterNotifier name g = (g', res :: 'e gk_result) \<Longrightarrow> gk_step pops gc env g g'"
| reminders: "sendReminders r clks g = g' \<Longrightarrow> gk_step pops gc env g g'"
| escalations: "checkEscalations r clks g = g' \<Longrightarrow> gk_step pops gc env g g'"

inductive gk_reachable ::
    "('p, 'e) planner_ops \<Rightarrow> gk_config \<Rightarrow> ('p \<Rightarrow> 'p \<Rightarrow> bool) \<Rightarrow> 'p gatekeeper \<Rightarrow> 'p gatekeeper \<Rightarrow> bool"
  for pops gc env g0 where
  start: "gk_reachable pops gc env g0 g0"
| step: "gk_reachable pops gc env g0 g \<Longrightarrow> gk_step pops gc env g g' \<Longrightarrow> gk_reachable pops gc env g0 g'"

lemma gomap_put: "gomap_ok (gk_requests g) \<Longrightarrow> gomap_ok (gk_requests (gk_put k req g))"
  by (simp add: gk_put_def)

lemma pending_loop_gomap:
  "gomap_ok (gk_requests g) \<Longrightarrow> gomap_ok (gk_requests (fst (pending_loop gc r clks f i result sessions g)))"
proof (induction gc r clks f i result sessions g rule: pending_loop.induct)
  case (2 gc r clks f i result session sessions g)
  obtain g' req where e: "ensure_request gc r (clks i) session g = (g', req)" by fastforce
  then have "gomap_ok (gk_requests g')"
    using 2(2) gomap_put by (auto simp: ensure_request_def Let_def split: option.splits)
  then show ?case using 2(1) [OF e [symmetric] refl] e by (auto simp: Let_def)
qed simp

lemma Approve_view:
  fixes g :: "'p gatekeeper" and pops :: "('p, 'e) planner_ops"
  assumes "view_ok (gk_view g)" and "gomap_ok (gk_requests g)" and "Approve pops r clk k decision g = (g', res)"
  shows "req_steps (gk_view g) (gk_view g') \<and> gomap_ok (gk_requests g')"
proof (cases "\<exists>req p d. gk_lookup g k = Some req \<and> aq_Status req = ApprovalStatusPending
    \<and> dc_Decision decision \<in> {''approved'', ''rejected''} \<and> dc_DecidedBy decision \<noteq> []
    \<and> d = (if is_zero_time (dc_DecidedAt decision) then decision\<lparr>dc_DecidedAt := clk 0\<rparr> else decision)
    \<and> decide pops req d (gk_planner g) = (p, None)")
  case False
  then have "gk_requests g' = gk_requests g \<and> gk_events g' = gk_events g"
    using assms(3) by (auto simp: Approve_def Let_def split: option.splits if_splits prod.splits)
  then show ?thesis using assms(2) by simp
next
  case True
  then obtain req p d where c: "gk_lookup g k = Some req" "aq_Status req = ApprovalStatusPending"
    "dc_Decision decision \<in> {''approved'', ''rejected''}" "dc_DecidedBy decision \<noteq> []"
    "d = (if is_zero_time (dc_DecidedAt decision) then decision\<lparr>dc_DecidedAt := clk 0\<rparr> else decision)"
    "decide pops req d (gk_planner g) = (p, None)" by blast
  have dd: "dc_Decision d \<in> {''approved'', ''rejected''}" using c(3,5) by simp
  define req' where "req' = req\<lparr>aq_Status := decided_status d\<rparr>"
  define g1 where "g1 = gk_put k req' (g\<lparr>gk_planner := p\<rparr>)"
  define g2 where "g2 = recordApprovalEvent (\<lambda>i. clk (1 + i)) (aq_ID req') (aq_SessionID req')
      (dc_Decision d) (dc_DecidedBy d)
      [''decision'' \<mapsto> dc_Decision d, ''reason'' \<mapsto> dc_Reason d] g1"
  have id: "aq_ID req' = k" using view_ok_at [OF assms(1) c(1)] by (simp add: req'_def)
  have res: "g' = fst (auditLogDecision (clk 3) req' d (send_all r (NDecision req' d) g2) :: 'p gatekeeper \<times> 'e gk_result)"
    using assms(3) c by (auto simp: Approve_def Let_def req'_def g1_def g2_def)
  have "req_step (gk_view g) (gk_view g2)"
    unfolding g2_def id
    by (rule decided_view [OF c(1,2)])
      (use dd in \<open>auto simp: req'_def g1_def decided_status_def decision_statuses_def approval_status_defs\<close>)
  moreover have "gk_requests g' = gk_requests g1" "gk_view g' = gk_view g2"
    unfolding res by (simp_all add: g2_def)
  moreover have "gomap_ok (gk_requests g1)" unfolding g1_def by (rule gomap_put) (simp add: assms(2))
  ultimately show ?thesis by auto
qed

lemma Delegate_view:
  assumes "view_ok (gk_view g)" and "gomap_ok (gk_requests g)"
    and "DelegateApproval clk k to_user reason g = (g', res :: 'e gk_result)"
  shows "req_steps (gk_view g) (gk_view g') \<and> gomap_ok (gk_requests g')"
proof (cases "\<exists>req. gk_lookup g k = Some req \<and> aq_Status req = ApprovalStatusPending")
  case False
  then have "g' = g" using assms(3) by (auto simp: DelegateApproval_def split: option.splits if_splits)
  then show ?thesis using assms(2) by simp
next
  case True
  then obtain req where c: "gk_lookup g k = Some req" "aq_Status req = ApprovalStatusPending" by blast
  let ?g = "gk_put k (req\<lparr>aq_AssignedTo := [to_user], aq_Status := ApprovalStatusDelegated\<rparr>) g"
  have id: "aq_ID req = k" using view_ok_at [OF assms(1) c(1)] by simp
  have g': "g' = recordApprovalEvent clk k (aq_SessionID req) ''delegated'' ''system''
      [''delegate_to'' \<mapsto> to_user, ''reason'' \<mapsto> reason] ?g"
    using assms(3) c id by (simp add: DelegateApproval_def)
  have "req_step (gk_view g) (gk_view g')"
    unfolding g' by (rule decided_view [OF c]) (simp_all add: decision_statuses_def approval_status_defs)
  then show ?thesis using gomap_put [OF assms(2)] g' by auto
qed

lemma Escalate_view:
  assumes "view_ok (gk_view g)" and "gomap_ok (gk_requests g)"
    and "EscalateApproval clk k reason g = (g', res :: 'e gk_result)"
  shows "req_steps (gk_view g) (gk_view g') \<and> gomap_ok (gk_requests g')"
proof (cases "\<exists>req. gk_lookup g k = Some req \<and> aq_Status req = ApprovalStatusPending
    \<and> getNextApprovalLevel (aq_ApprovalLevel req) \<noteq> []")
  case False
  then have "g' = g" using assms(3) by (auto simp: EscalateApproval_def Let_def split: option.splits if_splits)
  then show ?thesis using assms(2) by simp
next
  case True
  then obtain req where c: "gk_lookup g k = Some req" "aq_Status req = ApprovalStatusPending"
    "getNextApprovalLevel (aq_ApprovalLevel req) \<noteq> []" by blast
  let ?l = "getNextApprovalLevel (aq_ApprovalLevel req)"
  let ?g = "gk_put k (req\<lparr>aq_ApprovalLevel := ?l, aq_Status := ApprovalStatusEscalated\<rparr>) g"
  have id: "aq_ID req = k" using view_ok_at [OF assms(1) c(1)] by simp
  have g': "g' = recordApprovalEvent clk k (aq_SessionID req) ''escalated'' ''system''
      [''from_level'' \<mapsto> ?l, ''to_level'' \<mapsto> ?l, ''reason'' \<mapsto> reason] ?g"
    using assms(3) c id by (simp add: EscalateApproval_def Let_def)
  have "req_step (gk_view g) (gk_view g')"
    unfolding g' by (rule decided_view [OF c(1,2)]) (simp_all add: decision_statuses_def approval_status_defs)
  then show ?thesis using gomap_put [OF assms(2)] g' by auto
qed

lemma remind_loop_view:
  assumes "view_ok (gk_view g)" and "\<forall>x \<in> set xs. gk_lookup g (fst x) = Some (snd x)"
  shows "req_steps (gk_view g) (gk_view (remind_loop r clks i xs g))
    \<and> gk_requests (remind_loop r clks i xs g) = gk_requests g"
  using assms
proof (induction xs arbitrary: i g)
  case Nil
  then show ?case by simp
next
  case (Cons x xs)
  obtain k req where x: "x = (k, req)" by fastforce
  let ?g = "remind r (clks i) req g"
  have l: "gk_lookup g k = Some req" using Cons.prems x by simp
  have id: "aq_ID req = k" using view_ok_at [OF Cons.prems(1) l] by simp
  have rq: "gk_requests ?g = gk_requests g" by (simp add: remind_def split: option.split)
  have "req_steps (gk_view g) (gk_view ?g)"
  proof (cases "?g = g")
    case False
    then have "aq_Status req = ApprovalStatusPending" by (auto simp: remind_def split: option.splits if_splits)
    moreover have "?g = recordApprovalEvent (\<lambda>j. clks i (2 + j)) k (aq_SessionID req) ''reminded'' ''system''
        Map.empty (send_all r (NReminder req) g)"
      using False id by (auto simp: remind_def split: option.splits if_splits)
    moreover have "(gk_lookup g)(k \<mapsto> req) = gk_lookup g" using l by auto
    ultimately have "req_step (gk_view g) (gk_view ?g)"
      using noted_view [OF l, of "aq_ApprovalLevel req" "''reminded''" "send_all r (NReminder req) g"] by simp
    then show ?thesis by blast
  qed simp
  moreover from this have "view_ok (gk_view ?g)" using req_steps_ok Cons.prems(1) by blast
  moreover have "\<forall>x \<in> set xs. gk_lookup ?g (fst x) = Some (snd x)" using Cons.prems(2) rq by simp
  ultimately show ?case using Cons.IH [of ?g "Suc i"] rq x by (auto simp del: view_ok.simps)
qed

lemma escalate_loop_view:
  assumes "view_ok (gk_view g)" and "\<forall>x \<in> set xs. gk_lookup g (fst x) = Some (snd x)"
    and "distinct (map fst xs)" and "gomap_ok (gk_requests g)"
  shows "req_steps (gk_view g) (gk_view (escalate_loop clks i xs g))
    \<and> gomap_ok (gk_requests (escalate_loop clks i xs g))"
  using assms
proof (induction xs arbitrary: i g)
  case Nil
  then show ?case by simp
next
  case (Cons x xs)
  obtain k req where x: "x = (k, req)" by fastforce
  let ?g = "auto_escalate (clks i) k req g"
  let ?l = "getNextApprovalLevel (aq_ApprovalLevel req)"
  have l: "gk_lookup g k = Some req" using Cons.prems x by simp
  have id: "aq_ID req = k" using view_ok_at [OF Cons.prems(1) l] by simp
  have step: "req_steps (gk_view g) (gk_view ?g) \<and> gomap_ok (gk_requests ?g)
      \<and> (\<forall>j. j \<noteq> k \<longrightarrow> gk_lookup ?g j = gk_lookup g j)"
  proof (cases "?g = g")
    case True
    then show ?thesis using Cons.prems(4) by simp
  next
    case False
    then have p: "aq_Status req = ApprovalStatusPending" by (auto simp: auto_escalate_def split: option.splits if_splits)
    have g: "?g = recordApprovalEvent (\<lambda>j. clks i (1 + j)) k (aq_SessionID req) ''auto_escalated'' ''system''
        [''reason'' \<mapsto> ''deadline passed''] (gk_put k (req\<lparr>aq_ApprovalLevel := ?l\<rparr>) g)"
      using False id by (auto simp: auto_escalate_def split: option.splits if_splits)
    have "req_step (gk_view g) (gk_view ?g)"
      unfolding g by (rule noted_view [OF l p, of ?l]) simp_all
    then show ?thesis using gomap_put [OF Cons.prems(4)] g by auto
  qed
  then have ok: "view_ok (gk_view ?g)" using req_steps_ok Cons.prems(1) by blast
  have rest: "\<forall>y \<in> set xs. gk_lookup ?g (fst y) = Some (snd y)"
  proof
    fix y assume y: "y \<in> set xs"
    then have "fst y \<noteq> k" using Cons.prems(3) x by (metis fst_conv distinct.simps(2) image_eqI list.set_map list.simps(9))
    then show "gk_lookup ?g (fst y) = Some (snd y)" using step Cons.prems(2) y by simp
  qed
  have "distinct (map fst xs)" using Cons.prems(3) by simp
  from Cons.IH [OF ok rest this, of "Suc i"] show ?case
    using step x by (auto simp del: view_ok.simps)
qed

text \<open>The simulation.\<close>

lemma gk_step_simulation:
  assumes "gk_step pops gc env g g'" and "view_ok (gk_view g)" and "gomap_ok (gk_requests g)"
  shows "req_steps (gk_view g) (gk_view g') \<and> gomap_ok (gk_requests g')"
  using assms
proof (induction rule: gk_step.induct)
  case (planner g p)
  then show ?case by simp
next
  case (pending r clks f g g' res)
  obtain p s where p: "po_GetPendingApprovals pops (gk_planner g) = (p, s)" by fastforce
  show ?case
  proof (cases s)
    case (Inl e)
    then show ?thesis using pending p by (auto simp: gk_GetPendingApprovals_def)
  next
    case (Inr sessions)
    then have "g' = fst (pending_loop gc r clks f 0 [] sessions (g\<lparr>gk_planner := p\<rparr>))"
      using pending(1) p by (auto simp: gk_GetPendingApprovals_def split: prod.splits)
    then show ?thesis
      using pending_loop_view [of "g\<lparr>gk_planner := p\<rparr>"] pending_loop_gomap [of "g\<lparr>gk_planner := p\<rparr>"] pending(3)
      by simp
  qed
next
  case (approve r clk k decision g g' res)
  then show ?case using Approve_view by blast
next
  case (reject r clk k decision g g' res)
  then show ?case unfolding Reject_def using Approve_view by blast
next
  case (delegate clk k to_user reason g g' res)
  then show ?case using Delegate_view by blast
next
  case (escalate clk k reason g g' res)
  then show ?case using Escalate_view by blast
next
  case (register name g g' res)
  then show ?case by (auto simp: RegisterNotifier_def split: option.splits)
next
  case (reminders r clks g g')
  have "\<forall>x \<in> set (go_range r (gk_requests g)). gk_lookup g (fst x) = Some (snd x)"
    using reminders(3) by (auto simp: gomap_in_set)
  then have "req_steps (gk_view g) (gk_view g')" "gk_requests g' = gk_requests g"
    unfolding reminders(1) [symmetric] sendReminders_def using remind_loop_view [OF reminders(2)] by blast+
  then show ?case using reminders(3) by metis
next
  case (escalations r clks g g')
  have "\<forall>x \<in> set (go_range r (gk_requests g)). gk_lookup g (fst x) = Some (snd x)"
    using escalations(3) by (auto simp: gomap_in_set)
  then show ?case
    unfolding escalations(1) [symmetric] checkEscalations_def
    using escalate_loop_view [OF escalations(2) _ distinct_go_range [OF escalations(3)] escalations(3)] by blast
qed

lemma reachable_view:
  assumes "gk_reachable pops gc env g0 g" and "gk_requests g0 = []" and "gk_events g0 = Map.empty"
  shows "view_ok (gk_view g) \<and> gomap_ok (gk_requests g)"
  using assms(1)
proof (induction rule: gk_reachable.induct)
  case start
  then show ?case using assms by (simp add: evs_def)
next
  case (step g g')
  then show ?case using gk_step_simulation [OF step(2)] req_steps_ok by blast
qed

lemma reachable_final:
  assumes "gk_reachable pops gc env g g'" and "view_ok (gk_view g)" and "gomap_ok (gk_requests g)"
    and "gk_lookup g k = Some req" and "aq_Status req \<noteq> ApprovalStatusPending"
  shows "gk_lookup g' k = Some req \<and> gk_events g' k = gk_events g k
    \<and> view_ok (gk_view g') \<and> gomap_ok (gk_requests g')"
  using assms(1)
proof (induction rule: gk_reachable.induct)
  case start
  then show ?case using assms by blast
next
  case (step g1 g2)
  then have s: "req_steps (gk_view g1) (gk_view g2) \<and> gomap_ok (gk_requests g2)"
    using gk_step_simulation [OF step(2)] by blast
  then have "view_ok (gk_view g2)" using step(3) req_steps_ok by blast
  then show ?case using s step(3) req_steps_final [of "gk_view g1" "gk_view g2" k req] assms(5) by simp
qed

lemma history_of_request:
  assumes "view_ok (gk_view g)" and "gomap_ok (gk_requests g)" and "gk_lookup g k = Some req"
  shows "GetApprovalHistory r (aq_SessionID req) g = (Inr (evs (gk_events g) k) :: 'e gk_error + _)"
proof -
  let ?P = "\<lambda>(k', req'). aq_SessionID req' = aq_SessionID req"
  have at: "k' = approval_id (aq_SessionID req')" if "(k', req') \<in> set (go_range r (gk_requests g))" for k' req'
    using view_ok_at [OF assms(1), of k' req'] that assms(2) by (simp add: gomap_in_set del: view_ok.simps)
  have mem: "(k, req) \<in> set (go_range r (gk_requests g))" using assms(2,3) by (simp add: gomap_in_set)
  obtain k' req' where f: "find ?P (go_range r (gk_requests g)) = Some (k', req')"
    using mem find_None_all [of ?P "go_range r (gk_requests g)"] by (cases "find ?P (go_range r (gk_requests g))") auto
  have "(k', req') \<in> set (go_range r (gk_requests g)) \<and> aq_SessionID req' = aq_SessionID req"
    using find_Some_set [OF f] by simp
  then have k: "k' = k" using at [of k' req'] at [OF mem] by simp
  have "k \<noteq> []" using at [OF mem] by (simp add: approval_id_def)
  then show ?thesis by (simp add: GetApprovalHistory_def f k evs_def)
qed

subsection \<open>The planner behind the gatekeeper\<close>

locale approval_planner =
  fixes pops :: "('p, 'e) planner_ops"
    and pinv :: "'p \<Rightarrow> bool"
    and env :: "'p \<Rightarrow> 'p \<Rightarrow> bool"
  assumes pending_keeps: "pinv p \<Longrightarrow> pinv (fst (po_GetPendingApprovals pops p))"
    and approve_keeps: "pinv p \<Longrightarrow> pinv (fst (po_ApproveSession pops p sid who why))"
    and reject_keeps: "pinv p \<Longrightarrow> pinv (fst (po_RejectSession pops p sid who why))"
    and env_keeps: "pinv p \<Longrightarrow> env p p' \<Longrightarrow> pinv p'"
begin

lemma pending_loop_planner [simp]:
  "gk_planner (fst (pending_loop gc r clks f i result sessions g)) = gk_planner g"
proof (induction gc r clks f i result sessions g rule: pending_loop.induct)
  case (2 gc r clks f i result session sessions g)
  obtain g' req where e: "ensure_request gc r (clks i) session g = (g', req)" by fastforce
  then have "gk_planner g' = gk_planner g"
    by (auto simp: ensure_request_def Let_def split: option.splits)
  then show ?case using 2 [OF e [symmetric] refl] e by (auto simp: Let_def)
qed simp

lemma pending_loop_planner':
  "pending_loop gc r clks f i result sessions g = (g', res) \<Longrightarrow> gk_planner g' = gk_planner g"
  using pending_loop_planner [of gc r clks f i result sessions g] by simp

lemma decide_keeps: "pinv p \<Longrightarrow> decide pops req d p = (p', e) \<Longrightarrow> pinv p'"
  using approve_keeps [of p "aq_SessionID req" "dc_DecidedBy d" "dc_Reason d"]
    reject_keeps [of p "aq_SessionID req" "dc_DecidedBy d" "dc_Reason d"]
  by (auto simp: decide_def split: if_splits prod.splits)

lemma Approve_keeps:
  assumes "pinv (gk_planner g)" and "Approve pops r clk k decision g = (g', res)"
  shows "pinv (gk_planner g')"
proof -
  have "gk_planner g' = gk_planner g
      \<or> (\<exists>req d e. gk_planner g' = fst (decide pops req d (gk_planner g)))"
    using assms(2)
    by (auto simp: Approve_def Let_def auditLogDecision_def split: option.splits if_splits prod.splits)
      (metis fst_conv)+
  then show ?thesis using assms(1) decide_keeps by (metis prod.collapse)
qed

lemma remind_loop_planner [simp]: "gk_planner (remind_loop r clks i xs g) = gk_planner g"
  by (induction r clks i xs g rule: remind_loop.induct) (simp_all add: remind_def split: option.split)

lemma escalate_loop_planner [simp]: "gk_planner (escalate_loop clks i xs g) = gk_planner g"
  by (induction clks i xs g rule: escalate_loop.induct) (simp_all add: auto_escalate_def split: option.split)

lemma step_planner:
  assumes "gk_step pops gc env g g'" and "pinv (gk_planner g)"
  shows "pinv (gk_planner g')"
  using assms
proof (induction rule: gk_step.induct)
  case (planner g p)
  then show ?case using env_keeps by simp
next
  case (pending r clks f g g' res)
  obtain p s where p: "po_GetPendingApprovals pops (gk_planner g) = (p, s)" by fastforce
  then have "gk_planner g' = p"
    using pending(1)
    by (cases s) (auto simp: gk_GetPendingApprovals_def split: prod.splits dest: pending_loop_planner')
  then show ?case using pending_keeps [OF pending(2)] p by simp
next
  case (approve r clk k decision g g' res)
  then show ?case using Approve_keeps by blast
next
  case (reject r clk k decision g g' res)
  then show ?case unfolding Reject_def using Approve_keeps by blast
qed (auto simp: DelegateApproval_def EscalateApproval_def RegisterNotifier_def sendReminders_def
    checkEscalations_def Let_def split: option.splits if_splits)

lemma reachable_planner:
  "gk_reachable pops gc env g0 g \<Longrightarrow> pinv (gk_planner g0) \<Longrightarrow> pinv (gk_planner g)"
  by (induction rule: gk_reachable.induct) (auto intro: step_planner)

end

text \<open>A planner that shows nothing for approval and refuses every approval.\<close>

locale refusing_planner = approval_planner +
  assumes none_pending: "pinv p \<Longrightarrow> snd (po_GetPendingApprovals pops p) = Inr []"
    and approve_refused: "pinv p \<Longrightarrow> snd (po_ApproveSession pops p sid who why) \<noteq> None"
begin

lemma step_no_requests:
  assumes "gk_step pops gc env g g'" and "pinv (gk_planner g)" and "gk_requests g = []"
  shows "gk_requests g' = []"
  using assms
proof (induction rule: gk_step.induct)
  case (pending r clks f g g' res)
  then show ?case
    using none_pending [of "gk_planner g"]
    by (cases "po_GetPendingApprovals pops (gk_planner g)") (auto simp: gk_GetPendingApprovals_def)
next
  case (register name g g' res)
  then show ?case by (auto simp: RegisterNotifier_def split: option.splits)
next
  case (reject r clk k decision g g' res)
  then show ?case by (auto simp: Reject_def Approve_def)
qed (simp_all add: Approve_def DelegateApproval_def EscalateApproval_def sendReminders_def checkEscalations_def)

lemma reachable_no_requests:
  assumes "gk_reachable pops gc env g0 g" and "pinv (gk_planner g0)" and "gk_requests g0 = []"
  shows "gk_requests g = [] \<and> pinv (gk_planner g)"
  using assms(1)
proof (induction rule: gk_reachable.induct)
  case start
  then show ?case using assms by simp
next
  case (step g g')
  then show ?case using step_no_requests step_planner by blast
qed

lemma pending_empty:
  assumes "pinv (gk_planner g)"
  shows "snd (gk_GetPendingApprovals pops gc r clks f g) = Inr []"
  using none_pending [OF assms]
  by (cases "po_GetPendingApprovals pops (gk_planner g)") (simp add: gk_GetPendingApprovals_def)

lemma no_approval:
  assumes "pinv (gk_planner g)" and "dc_Decision d = ''approved''"
  shows "snd (Approve pops r clk k d g) \<noteq> Done"
proof -
  have "snd (decide pops req d' p) \<noteq> None" if "dc_Decision d' = ''approved''" "pinv p" for req d' p
    using approve_refused [OF that(2), of "aq_SessionID req" "dc_DecidedBy d'" "dc_Reason d'"] that(1)
    by (auto simp: decide_def split: prod.splits)
  note refuse = this
  define d' where "d' = (if is_zero_time (dc_DecidedAt d) then d\<lparr>dc_DecidedAt := clk 0\<rparr> else d)"
  have d': "dc_Decision d' = ''approved''" using assms(2) by (simp add: d'_def)
  show ?thesis
  proof (cases "gk_lookup g k")
    case None
    then show ?thesis by (simp add: Approve_def)
  next
    case (Some req)
    obtain p e where "decide pops req d' (gk_planner g) = (p, Some e)"
      using refuse [OF d' assms(1), of req] by (cases "decide pops req d' (gk_planner g)") auto
    then show ?thesis using Some assms(2) by (simp add: Approve_def Let_def d'_def)
  qed
qed

end

subsection \<open>The default planner behind the gatekeeper\<close>

definition default_planner_ops ::
    "(string \<Rightarrow> nat) \<Rightarrow> (nat \<Rightarrow> clock) \<Rightarrow> (MemoryStore, 'z, 'f) planner_config
     \<Rightarrow> ((MemoryStore, 'z, 'f) planner, planner_error) planner_ops" where
  "default_planner_ops r clks pc0 =
     (let pc = pc0\<lparr>pc_store := mem_store_ops r\<rparr>
      in \<lparr>po_GetPendingApprovals = (\<lambda>p. (p, Inr (GetPendingApprovals p))),
          po_ApproveSession = (\<lambda>p sid who why. ApproveSession pc clks sid who why p),
          po_RejectSession = (\<lambda>p sid who why. RejectSession pc clks sid who why p)\<rparr>)"

definition planner_over :: "bool \<Rightarrow> (MemoryStore, 'z, 'f) planner_config \<Rightarrow> bool" where
  "planner_over factory pc \<longleftrightarrow> (\<exists>r. pc_store pc = mem_store_ops r) \<and> (pc_factory pc \<noteq> None) = factory"

definition planner_inv :: "bool \<Rightarrow> (MemoryStore, 'z, 'f) planner \<Rightarrow> bool" where
  "planner_inv factory p \<longleftrightarrow>
     mem_inv (mg_store (pl_mgr p)) \<and> sessions_settled factory (ms_lookup (mg_store (pl_mgr p)))
     \<and> queue_created (pl_approvalQueue p)"

lemma planner_inv_step:
  assumes "planner_step (planner_over factory) p p'" and "planner_inv factory p"
  shows "planner_inv factory p'"
proof -
  have "\<exists>r. planner_step (\<lambda>pc. pc_store pc = mem_store_ops r \<and> (pc_factory pc \<noteq> None) = factory) p p'"
    using assms(1)
  proof (cases rule: planner_step.cases)
    case (process pc clk w res)
    then show ?thesis unfolding planner_over_def by (blast intro: planner_step.process)
  next
    case (analyze pc clks sid w)
    then show ?thesis unfolding planner_over_def by (blast intro: planner_step.analyze)
  next
    case (approve pc clks sid approver remark e)
    then show ?thesis unfolding planner_over_def by (blast intro: planner_step.approve)
  next
    case (reject pc clks sid rejector reason e)
    then show ?thesis unfolding planner_over_def by (blast intro: planner_step.reject)
  next
    case (cancel pc clks sid canceller reason e)
    then show ?thesis unfolding planner_over_def by (blast intro: planner_step.cancel)
  next
    case (status pc clks sid st)
    then show ?thesis unfolding planner_over_def by (blast intro: planner_step.status)
  next
    case (stuck pc clks clks')
    then show ?thesis unfolding planner_over_def by (blast intro: planner_step.stuck)
  qed
  then obtain r where r: "planner_step (\<lambda>pc. pc_store pc = mem_store_ops r \<and> (pc_factory pc \<noteq> None) = factory) p p'"
    by blast
  from mem.step_settled [OF r, where fac = factory] show ?thesis using assms(2) by (simp add: planner_inv_def)
qed

interpretation dp: refusing_planner "default_planner_ops r clks pc" "planner_inv (pc_factory pc \<noteq> None)"
    "planner_step (planner_over (pc_factory pc \<noteq> None))" for r clks pc
proof unfold_locales
  fix p :: "(MemoryStore, 'a, 'b) planner"
  let ?pc = "pc\<lparr>pc_store := mem_store_ops r\<rparr>"
  let ?f = "pc_factory pc \<noteq> None"
  have C: "planner_over ?f ?pc" by (auto simp: planner_over_def)
  assume i: "planner_inv ?f p"
  then have mi: "mem_inv (mg_store (pl_mgr p))" by (simp add: planner_inv_def)
  show "planner_inv ?f (fst (po_GetPendingApprovals (default_planner_ops r clks pc) p))"
    using i by (simp add: default_planner_ops_def Let_def)
  show "snd (po_GetPendingApprovals (default_planner_ops r clks pc) p) = Inr []"
    using i pending_none [of p] by (simp add: default_planner_ops_def planner_inv_def Let_def)
  fix sid who why
  show "planner_inv ?f (fst (po_ApproveSession (default_planner_ops r clks pc) p sid who why))"
    using planner_inv_step
      [OF planner_step.approve [where C = "planner_over ?f" and pc = ?pc and p = p and clks = clks and sid = sid and approver = who and remark = why,
        OF C surjective_pairing] i]
    by (simp add: default_planner_ops_def Let_def)
  show "planner_inv ?f (fst (po_RejectSession (default_planner_ops r clks pc) p sid who why))"
    using planner_inv_step
      [OF planner_step.reject [where C = "planner_over ?f" and pc = ?pc and p = p and clks = clks and sid = sid and rejector = who and reason = why,
        OF C surjective_pairing] i]
    by (simp add: default_planner_ops_def Let_def)
  show "snd (po_ApproveSession (default_planner_ops r clks pc) p sid who why) \<noteq> None"
    by (rule mem.approve_refused [OF mi, where pc = ?pc and r = r and clks = clks and sid = sid and approver = who and remark = why])
      (simp_all add: default_planner_ops_def Let_def)
next
  fix p p' :: "(MemoryStore, 'a, 'b) planner"
  assume "planner_inv (pc_factory pc \<noteq> None) p" "planner_step (planner_over (pc_factory pc \<noteq> None)) p p'"
  then show "planner_inv (pc_factory pc \<noteq> None) p'" using planner_inv_step by blast
qed

subsection \<open>Properties\<close>

text \<open>The values of the witnesses: a planner that holds one blocked session and accepts every decision.\<close>

definition ex_pops :: "(unit, unit) planner_ops" where
  "ex_pops =
     \<lparr>po_GetPendingApprovals = (\<lambda>p. (p, Inr [transition_session ex_clock SessionStateBlocked ''r'' ''a'' ex_session])),
      po_ApproveSession = (\<lambda>p sid who why. (p, None)), po_RejectSession = (\<lambda>p sid who why. (p, None))\<rparr>"

definition ex_gc :: gk_config where
  "ex_gc = \<lparr>gc_DefaultApprovalLevel = ''team_lead'', gc_DefaultDeadlineHours = 24\<rparr>"

definition no_filter :: ApprovalFilter where
  "no_filter =
     \<lparr>af_Status = None, af_AssignedTo = None, af_Priority = None, af_ApprovalLevel = None,
      af_SessionID = None, af_WorkItemID = None, af_RequestedAfter = None, af_RequestedBefore = None,
      af_Limit = 0, af_Offset = 0\<rparr>"

definition ex_gk :: "'p \<Rightarrow> 'p gatekeeper" where
  "ex_gk p =
     \<lparr>gk_planner = p, gk_requests = [], gk_events = Map.empty, gk_notifiers = [], gk_sent = [],
      gk_audit_open = True, gk_audit = []\<rparr>"

definition ex_gk1 :: "unit gatekeeper" where
  "ex_gk1 = fst (gk_GetPendingApprovals ex_pops ex_gc (\<lambda>_. 0) (\<lambda>_. ex_clock) no_filter (ex_gk ()))"

definition ex_request :: ApprovalRequest where
  "ex_request = createApprovalRequest ex_gc (ex_clock 0)
     (transition_session ex_clock SessionStateBlocked ''r'' ''a'' ex_session)"

lemma ex_request_sel [simp]:
  "aq_ID ex_request = ''approval-s1''" "aq_SessionID ex_request = ''s1''"
  "aq_Status ex_request = ApprovalStatusPending" "aq_WorkItem ex_request = Some ex_work_item"
  "aq_ApprovalLevel ex_request = ''team_lead''"
  by (simp_all add: ex_request_def createApprovalRequest_def approval_id_def ex_gc_def
      getDefaultApprovalLevel_def ex_session_def new_session_def)

lemma ex_gk1_sel [simp]:
  "gk_requests ex_gk1 = [(''approval-s1'', ex_request)]" "gk_notifiers ex_gk1 = []" "gk_planner ex_gk1 = ()"
  "gk_audit_open ex_gk1 = True"
  by (simp_all add: ex_gk1_def gk_GetPendingApprovals_def ex_pops_def ex_gk_def no_filter_def
      ensure_request_def gk_put_def recordApprovalEvent_def send_all_def Let_def approval_id_def
      ex_request_def createApprovalRequest_def)

lemma ex_gk1_reachable: "gk_reachable ex_pops ex_gc env (ex_gk ()) ex_gk1"
  unfolding ex_gk1_def
  by (rule gk_reachable.step [OF gk_reachable.start gk_step.pending [OF surjective_pairing]])

definition ex_decision :: ApprovalDecision where
  "ex_decision = \<lparr>dc_Decision = ''rejected'', dc_DecidedBy = ''boss'', dc_DecidedAt = 5,
                  dc_Reason = ''no'', dc_Attachments = []\<rparr>"

text \<open>
  C9. History: in every state the gatekeeper reaches from an empty one, whatever the planner does, an
  approval request is stored under the id of its session; its history, as \<open>GetApprovalHistory\<close>
  returns it, starts with the event of its creation; and the status of the request is the one its
  history leads to, so no decision, delegation or escalation goes unrecorded.
\<close>

theorem approval_history:
  assumes "gk_reachable pops gc env g0 g" and "gk_requests g0 = []" and "gk_events g0 = Map.empty"
    and "gk_lookup g k = Some req"
  shows "k = approval_id (aq_SessionID req)
    \<and> (\<exists>es. GetApprovalHistory r (aq_SessionID req) g = (Inr es :: unit gk_error + _)
         \<and> es \<noteq> [] \<and> ae_EventType (hd es) = ''requested'' \<and> history_status es = aq_Status req)"
proof -
  have ok: "view_ok (gk_view g)" "gomap_ok (gk_requests g)" using reachable_view [OF assms(1-3)] by blast+
  show ?thesis
    using view_ok_at [OF ok(1) assms(4)] history_of_request [OF ok assms(4), of r] by blast
qed

theorem approval_history_witness:
  "\<exists>es. GetApprovalHistory (\<lambda>_. 0) ''s1'' ex_gk1 = (Inr es :: unit gk_error + _)
     \<and> history_status es = ApprovalStatusPending"
proof -
  have "gk_requests (ex_gk ()) = []" "gk_events (ex_gk ()) = Map.empty" by (simp_all add: ex_gk_def)
  from approval_history [OF ex_gk1_reachable this, of "''approval-s1''" ex_request "\<lambda>_. 0"]
  show ?thesis by auto
qed

text \<open>
  C10. Decisions are final: once a request has been approved, rejected, delegated or escalated, no
  later operation, reminder or escalation changes it or its history; in particular nobody can
  decide a request that was delegated or escalated.
\<close>

theorem approval_final:
  assumes "gk_reachable pops gc env g0 g" and "gk_requests g0 = []" and "gk_events g0 = Map.empty"
    and "gk_lookup g k = Some req" and "aq_Status req \<noteq> ApprovalStatusPending"
    and "gk_reachable pops gc env g g'"
  shows "gk_lookup g' k = Some req \<and> gk_events g' k = gk_events g k
    \<and> Approve pops r clk k decision g' = (g', Refused (GENotPending k (aq_Status req)))"
proof -
  have ok: "view_ok (gk_view g)" "gomap_ok (gk_requests g)" using reachable_view [OF assms(1-3)] by blast+
  from reachable_final [OF assms(6) ok assms(4,5)] show ?thesis using assms(5) by (simp add: Approve_def)
qed

theorem approval_final_witness:
  "snd (Approve ex_pops (\<lambda>_. 0) ex_clock ''approval-s1'' ex_decision
      (fst (DelegateApproval ex_clock ''approval-s1'' ''u'' ''r'' ex_gk1 :: _ \<times> unit gk_result)))
   = Refused (GENotPending ''approval-s1'' ApprovalStatusDelegated)"
proof -
  let ?d = "DelegateApproval ex_clock ''approval-s1'' ''u'' ''r'' ex_gk1 :: _ \<times> unit gk_result"
  let ?req = "ex_request\<lparr>aq_AssignedTo := [''u''], aq_Status := ApprovalStatusDelegated\<rparr>"
  have e: "gk_requests (ex_gk ()) = []" "gk_events (ex_gk ()) = Map.empty" by (simp_all add: ex_gk_def)
  have r: "gk_reachable ex_pops ex_gc (=) (ex_gk ()) (fst ?d)"
    by (rule gk_reachable.step [OF ex_gk1_reachable gk_step.delegate [OF surjective_pairing]])
  have l: "gk_lookup (fst ?d) ''approval-s1'' = Some ?req" by (simp add: DelegateApproval_def)
  show ?thesis
    using approval_final [OF r e l _ gk_reachable.start, of "\<lambda>_. 0" ex_clock ex_decision]
    by (simp add: approval_status_defs)
qed



text \<open>
  C12. No request reaches a human: when the gatekeeper sits on the default planner over the memory
  store, in every run of the two from an empty start, in any interleaving of their operations, the
  list of pending approvals is empty, no approval request is ever made, and every call of \<open>Approve\<close>
  fails with not-found.
\<close>

theorem no_request_reaches_a_human:
  fixes pc :: "(MemoryStore, 'z, 'f) planner_config"
  assumes "gk_reachable (default_planner_ops r clks pc) gc
      (planner_step (planner_over (pc_factory pc \<noteq> None))) g0 g"
    and "gk_requests g0 = []" and "mg_store (pl_mgr (gk_planner g0)) = NewMemoryStore"
    and "pl_approvalQueue (gk_planner g0) = []"
  shows "gk_requests g = []
    \<and> snd (gk_GetPendingApprovals (default_planner_ops r clks pc) gc r' clks' f g) = Inr []
    \<and> Approve (default_planner_ops r clks pc) r' clk k decision g = (g, Refused (GENotFound k))"
proof -
  have "planner_inv (pc_factory pc \<noteq> None) (gk_planner g0)"
    using assms(3,4) mem_inv_new
    by (simp add: planner_inv_def sessions_settled_def queue_created_def) (simp add: NewMemoryStore_def)
  note idle = dp.reachable_no_requests [OF assms(1) this assms(2)]
  then show ?thesis
    using dp.pending_empty [of pc g r clks gc r' clks' f] by (simp add: Approve_def)
qed

theorem no_request_reaches_a_human_witness:
  "snd (gk_GetPendingApprovals (default_planner_ops (\<lambda>_. 0) (\<lambda>_. ex_clock) (ex_planner_config True)) ex_gc
      (\<lambda>_. 0) (\<lambda>_. ex_clock) no_filter
      (ex_gk (fst (ProcessWorkItem (ex_planner_config True) ex_clock ex_work_item (ex_planner ex_mgr0))))) = Inr []"
proof -
  let ?p = "fst (ProcessWorkItem (ex_planner_config True) ex_clock ex_work_item (ex_planner ex_mgr0))"
  let ?env = "planner_step (planner_over (pc_factory (ex_planner_config True) \<noteq> None))"
  have C: "planner_over (pc_factory (ex_planner_config True) \<noteq> None) (ex_planner_config True)"
    by (auto simp: planner_over_def)
  have "?env (ex_planner ex_mgr0) ?p"
    using C by (rule planner_step.process) (rule surjective_pairing)
  then have "gk_step (default_planner_ops (\<lambda>_. 0) (\<lambda>_. ex_clock) (ex_planner_config True)) ex_gc ?env
      (ex_gk (ex_planner ex_mgr0)) ((ex_gk (ex_planner ex_mgr0))\<lparr>gk_planner := ?p\<rparr>)"
    by (intro gk_step.planner) (simp add: ex_gk_def)
  moreover have "(ex_gk (ex_planner ex_mgr0))\<lparr>gk_planner := ?p\<rparr> = ex_gk ?p" by (simp add: ex_gk_def)
  ultimately have r: "gk_reachable (default_planner_ops (\<lambda>_. 0) (\<lambda>_. ex_clock) (ex_planner_config True)) ex_gc ?env
      (ex_gk (ex_planner ex_mgr0)) (ex_gk ?p)"
    using gk_reachable.step [OF gk_reachable.start] by metis
  show ?thesis
    using no_request_reaches_a_human [OF r, where r' = "\<lambda>_. 0" and clks' = "\<lambda>_. ex_clock" and f = no_filter]
    by (simp add: ex_gk_def ex_mgr0_def)
qed

subsection \<open>Priorities and levels\<close>

text \<open>The case of the most expensive requests comes after a weaker test and is never taken.\<close>

lemma priority_never_critical: "request_priority session \<noteq> ''critical''"
proof -
  have "fgt c (Fin 5)" if "fgt c (Fin 10)" for c
    using that by (cases c) (auto simp: fgt_def)
  then show ?thesis by (auto simp: request_priority_def Let_def split: option.split)
qed

text \<open>The event of an escalation names the new level twice.\<close>

lemma escalation_event_levels:
  assumes "EscalateApproval clk k reason g = (g', Done :: unit gk_result)" and "gk_lookup g k = Some req"
    and "aq_ID req = k"
  shows "ae_Details (last (evs (gk_events g') k)) ''from_level'' = Some (getNextApprovalLevel (aq_ApprovalLevel req))"
  using assms
  by (auto simp: EscalateApproval_def Let_def recordApprovalEvent_def evs_def split: if_splits)

end
