(* ===== verification/Fallback_Chain.thy ===== *)
theory Fallback_Chain
  imports Journal_Types
begin

text \<open>
  Provider fallback for LLM requests (\<open>internal/llm/routing/fallback_chain.go\<close>, with the requests and
  responses of \<open>pkg/llm/types.go\<close>): the order in which providers are tried and the loop over them.

  The interface \<open>FallbackChain\<close> is the record \<open>chain_ops\<close>; \<open>default_chain\<close> is the implementation. A
  provider is a record of functions on the state \<open>'s\<close> of the world behind all providers. Go returns
  a pointer and an error, each possibly nil: a pair of options. An error is its text. The tables of
  capabilities are read by key only.
\<close>

subsection \<open>Requests and responses\<close>

record ToolCall =
  tcl_ID :: string
  tcl_Name :: string
  tcl_Args :: gval

record Message =
  lm_Role :: string
  lm_Content :: string
  lm_ReasoningContent :: string
  lm_ToolCalls :: "ToolCall list"
  lm_ToolCallID :: string
  lm_Metadata :: gval

record Tool =
  tl_Name :: string
  tl_Description :: string
  tl_Parameters :: gval

record ChatRequest =
  rq_Messages :: "Message list"
  rq_Tools :: "Tool list"
  rq_Model :: string
  rq_Temperature :: float64
  rq_MaxTokens :: int
  rq_ContextLimit :: int
  rq_Thinking :: bool
  rq_ThinkingLevel :: string
  rq_Stream :: bool
  rq_ClusterID :: string
  rq_ProjectID :: string
  rq_SessionID :: string
  rq_TaskID :: string
  rq_SkipPrePass :: bool

record TokenUsage =
  us_InputTokens :: int
  us_OutputTokens :: int
  us_CachedTokens :: int
  us_TotalTokens :: int

record ChatResponse =
  rs_Content :: string
  rs_ReasoningContent :: string
  rs_FinishReason :: string
  rs_ToolCalls :: "ToolCall list"
  rs_Model :: string
  rs_Usage :: "TokenUsage option"
  rs_LatencyMs :: int

type_synonym chat_result = "ChatResponse option \<times> string option"

text \<open>A provider; \<open>'v\<close> is the response of its \<open>Embed\<close>, \<open>None\<close> the error of missing support.\<close>

record ('s, 'v) provider =
  pv_Name :: string
  pv_SupportsTools :: bool
  pv_Chat :: "ChatRequest \<Rightarrow> 's \<Rightarrow> 's \<times> chat_result"
  pv_ChatStream :: "ChatRequest \<Rightarrow> 's \<Rightarrow> 's \<times> chat_result"
  pv_Embed :: "string \<Rightarrow> 's \<Rightarrow> 's \<times> (string + 'v) option"

subsection \<open>Configuration\<close>

record ProviderCapability =
  cap_MaxContextTokens :: int
  cap_CostPerToken :: float64
  cap_SupportsTools :: bool

record FallbackConfig =
  fb_DefaultProvider :: string
  fb_FallbackOrder :: "string list"
  fb_ProviderCapabilities :: "string \<rightharpoonup> ProviderCapability"
  fb_EnableSmartRouting :: bool
  fb_LocalWorkerMaxTokens :: int

record DefaultFallbackChain =
  dc_ProviderChecker :: "string \<Rightarrow> bool"
  dc_Config :: FallbackConfig

definition DefaultFallbackConfig :: FallbackConfig where
  "DefaultFallbackConfig =
     \<lparr>fb_DefaultProvider = ''local-worker'', fb_FallbackOrder = [''planner'', ''fallback''],
      fb_ProviderCapabilities =
        [''local-worker'' \<mapsto> \<lparr>cap_MaxContextTokens = 4000, cap_CostPerToken = round64 (1 / 10 ^ 6), cap_SupportsTools = True\<rparr>,
         ''planner'' \<mapsto> \<lparr>cap_MaxContextTokens = 128000, cap_CostPerToken = round64 (2 / 10 ^ 5), cap_SupportsTools = True\<rparr>,
         ''fallback'' \<mapsto> \<lparr>cap_MaxContextTokens = 128000, cap_CostPerToken = round64 (2 / 10 ^ 5), cap_SupportsTools = True\<rparr>],
      fb_EnableSmartRouting = True, fb_LocalWorkerMaxTokens = 0\<rparr>"

definition NewDefaultFallbackChain :: "FallbackConfig option \<Rightarrow> (string \<Rightarrow> bool) \<Rightarrow> DefaultFallbackChain" where
  "NewDefaultFallbackChain config checker =
     \<lparr>dc_ProviderChecker = checker,
      dc_Config = (case config of None \<Rightarrow> DefaultFallbackConfig | Some c \<Rightarrow> c)\<rparr>"

subsection \<open>Provider order\<close>

definition canHandleTokens :: "DefaultFallbackChain \<Rightarrow> string \<Rightarrow> int \<Rightarrow> bool" where
  "canHandleTokens f provider estimatedTokens =
     (case fb_ProviderCapabilities (dc_Config f) provider of
        Some cap \<Rightarrow> estimatedTokens \<le> cap_MaxContextTokens cap
      | None \<Rightarrow> True)"

definition filterToAvailable :: "DefaultFallbackChain \<Rightarrow> string list \<Rightarrow> string list" where
  "filterToAvailable f providers = filter (dc_ProviderChecker f) providers"

text \<open>The loops that append to a chain what passes a test and is not in it yet.\<close>

fun append_new :: "(string \<Rightarrow> bool) \<Rightarrow> string list \<Rightarrow> string list \<Rightarrow> string list" where
  "append_new P chain [] = chain"
| "append_new P chain (p # ps) =
     (if P p \<and> p \<notin> set chain then append_new P (chain @ [p]) ps else append_new P chain ps)"

definition ProviderOrder :: "DefaultFallbackChain \<Rightarrow> string \<Rightarrow> string list" where
  "ProviderOrder f preferred =
     (let ok = dc_ProviderChecker f; d = fb_DefaultProvider (dc_Config f)
      in if preferred \<noteq> [] \<and> ok preferred then [preferred]
         else append_new ok (if d \<noteq> [] \<and> ok d then [d] else []) (fb_FallbackOrder (dc_Config f)))"

definition skip_local :: "DefaultFallbackChain \<Rightarrow> int \<Rightarrow> string \<Rightarrow> bool" where
  "skip_local f estimatedTokens p \<longleftrightarrow>
     p = ''local-worker'' \<and> fb_LocalWorkerMaxTokens (dc_Config f) > 0
     \<and> estimatedTokens > fb_LocalWorkerMaxTokens (dc_Config f)"

definition smartProviderOrder :: "DefaultFallbackChain \<Rightarrow> int \<Rightarrow> string \<Rightarrow> string list" where
  "smartProviderOrder f estimatedTokens preferred =
     (let ok = (\<lambda>p. dc_ProviderChecker f p \<and> canHandleTokens f p estimatedTokens);
          chain1 = (if preferred \<noteq> [] \<and> ok preferred
                    then if skip_local f estimatedTokens preferred then [] else [preferred] else []);
          d = fb_DefaultProvider (dc_Config f);
          chain2 = (if d \<noteq> [] \<and> ok d \<and> d \<notin> set chain1
                    then if skip_local f estimatedTokens d then chain1 else chain1 @ [d] else chain1);
          chain3 = append_new (\<lambda>p. \<not> skip_local f estimatedTokens p \<and> ok p) chain2 (fb_FallbackOrder (dc_Config f))
      in if length chain3 = 0 then ProviderOrder f [] else chain3)"

definition context_chain :: "DefaultFallbackChain \<Rightarrow> string \<Rightarrow> int \<Rightarrow> string list \<Rightarrow> string list" where
  "context_chain f preferred estimatedTokens sessionContext =
     (let availableContext = filterToAvailable f sessionContext;
          chain = (if preferred \<noteq> [] \<and> preferred \<in> set availableContext
                      \<and> canHandleTokens f preferred estimatedTokens then [preferred] else [])
      in append_new (\<lambda>p. canHandleTokens f p estimatedTokens) chain availableContext)"

text \<open>
  The chain that the code builds before smart routing is never read and left out. An empty session
  context gives an empty \<open>context_chain\<close>, like one without available providers.
\<close>

definition ProviderOrderForContext ::
    "DefaultFallbackChain \<Rightarrow> string \<Rightarrow> int \<Rightarrow> string list \<Rightarrow> bool \<Rightarrow> string list" where
  "ProviderOrderForContext f preferred estimatedTokens sessionContext strictPreferred =
     (if strictPreferred \<and> preferred \<noteq> [] \<and> dc_ProviderChecker f preferred
         \<and> canHandleTokens f preferred estimatedTokens
      then [preferred]
      else let chain = context_chain f preferred estimatedTokens sessionContext
           in if length chain > 0 then chain
              else if fb_EnableSmartRouting (dc_Config f) then smartProviderOrder f estimatedTokens preferred
              else ProviderOrder f preferred)"

definition retryable_patterns :: "string list" where
  "retryable_patterns =
     [''timeout'', ''deadline'', ''rate limit'', ''rate exceeded'', ''too many requests'', ''server error'',
      ''internal error'', ''connection refused'', ''connection reset'', ''temporary failure'',
      ''service unavailable'', ''gateway timeout'', ''bad gateway'']"

definition IsRetryable :: "string option \<Rightarrow> bool" where
  "IsRetryable err =
     (case err of
        None \<Rightarrow> False
      | Some e \<Rightarrow> list_ex (contains_str (to_lower e)) retryable_patterns)"

subsection \<open>Execution\<close>

record chain_ops =
  co_order :: "string \<Rightarrow> int \<Rightarrow> string list \<Rightarrow> bool \<Rightarrow> string list"
  co_retryable :: "string option \<Rightarrow> bool"

definition default_chain :: "DefaultFallbackChain \<Rightarrow> chain_ops" where
  "default_chain f = \<lparr>co_order = ProviderOrderForContext f, co_retryable = IsRetryable\<rparr>"

definition estimateRequestTokens :: "Message list \<Rightarrow> int" where
  "estimateRequestTokens messages =
     fold (\<lambda>m total. total + int (length (lm_Content m) div 4)
             + (if lm_ReasoningContent m \<noteq> [] then int (length (lm_ReasoningContent m) div 4) else 0))
       messages 0"

fun fallback_loop ::
    "(string option \<Rightarrow> bool) \<Rightarrow> (string \<rightharpoonup> ('s, 'v) provider) \<Rightarrow> ChatRequest \<Rightarrow> string option
     \<Rightarrow> string list \<Rightarrow> 's \<Rightarrow> 's \<times> chat_result" where
  "fallback_loop retryable providers req lastErr [] s = (s, (None, lastErr))"
| "fallback_loop retryable providers req lastErr (name # names) s =
     (case providers name of
        None \<Rightarrow> fallback_loop retryable providers req lastErr names s
      | Some provider \<Rightarrow>
          (case pv_Chat provider req s of
             (s', (resp, None)) \<Rightarrow> (s', (resp, None))
           | (s', (resp, Some err)) \<Rightarrow>
               if \<not> retryable (Some err) then (s', (None, Some err))
               else fallback_loop retryable providers req (Some err) names s'))"

definition ExecuteWithFallback ::
    "chain_ops \<Rightarrow> (string \<rightharpoonup> ('s, 'v) provider) \<Rightarrow> ChatRequest \<Rightarrow> string \<Rightarrow> string list \<Rightarrow> bool
     \<Rightarrow> 's \<Rightarrow> 's \<times> chat_result" where
  "ExecuteWithFallback chain providers req preferredProvider sessionContext strictPreferred s =
     fallback_loop (co_retryable chain) providers req None
       (co_order chain preferredProvider (estimateRequestTokens (rq_Messages req)) sessionContext strictPreferred) s"

end
