(* ===== verification/LLM_Gateway.thy ===== *)
theory LLM_Gateway
  imports Fallback_Chain
begin

text \<open>
  The LLM gateway (\<open>internal/llm/gateway.go\<close>): routing of chat requests over the registered providers,
  by the fallback chain or by the routing policies with retries, statistics and token records.

  The registry of providers is a map the code ranges over, \<open>r\<close> ranks a visit. \<open>zenretry.Do\<close> of the SDK
  is the argument \<open>retry\<close>: it is given the test for errors worth a retry and one attempt, on the state
  of the attempts. \<open>ctx_done\<close> says whether the context of the request has ended in a state of the
  world. Statistics are unbounded integers: an overflow needs \<open>2 ^ 63\<close> requests. Model and provider
  names are ASCII text.
\<close>

subsection \<open>Configuration and state\<close>

record GatewayConfig =
  gwc_LocalWorkerModel :: string
  gwc_PlannerModel :: string
  gwc_FallbackModel :: string
  gwc_LocalWorkerMaxCost :: float64
  gwc_PlannerMinCost :: float64
  gwc_LocalWorkerTimeout :: int
  gwc_PlannerTimeout :: int
  gwc_RequestTimeout :: int
  gwc_LocalWorkerKeepAlive :: string
  gwc_LocalWorkerSupportsTools :: bool
  gwc_PlannerSupportsTools :: bool
  gwc_AutoEscalateComplexTasks :: bool
  gwc_RoutingPolicy :: string
  gwc_EnableFallbackChain :: bool
  gwc_StrictPreferred :: bool
  gwc_LocalWorkerMaxTokens :: int

definition DefaultGatewayConfig :: GatewayConfig where
  "DefaultGatewayConfig =
     \<lparr>gwc_LocalWorkerModel = ''qwen3.5:0.8b'', gwc_PlannerModel = ''glm-4.7'', gwc_FallbackModel = ''glm-4.7'',
      gwc_LocalWorkerMaxCost = round64 (1/100), gwc_PlannerMinCost = round64 (1/10),
      gwc_LocalWorkerTimeout = 2700, gwc_PlannerTimeout = 2700, gwc_RequestTimeout = 2700,
      gwc_LocalWorkerKeepAlive = ''45m'', gwc_LocalWorkerSupportsTools = True,
      gwc_PlannerSupportsTools = True, gwc_AutoEscalateComplexTasks = True,
      gwc_RoutingPolicy = ''simple'', gwc_EnableFallbackChain = True, gwc_StrictPreferred = False,
      gwc_LocalWorkerMaxTokens = 0\<rparr>"

record GatewayStats =
  gs_TotalRequests :: int
  gs_LocalWorkerRequests :: int
  gs_PlannerRequests :: int
  gs_FallbackRequests :: int
  gs_TimeoutErrors :: int
  gs_RoutingErrors :: int
  gs_TotalLatencyMs :: int
  gs_LocalWorkerLatencyMs :: int
  gs_PlannerLatencyMs :: int
  gs_LocalWorkerSuccess :: int
  gs_PlannerSuccess :: int
  gs_FallbackSuccess :: int

definition zero_stats :: GatewayStats where
  "zero_stats =
     \<lparr>gs_TotalRequests = 0, gs_LocalWorkerRequests = 0, gs_PlannerRequests = 0, gs_FallbackRequests = 0,
      gs_TimeoutErrors = 0, gs_RoutingErrors = 0, gs_TotalLatencyMs = 0, gs_LocalWorkerLatencyMs = 0,
      gs_PlannerLatencyMs = 0, gs_LocalWorkerSuccess = 0, gs_PlannerSuccess = 0, gs_FallbackSuccess = 0\<rparr>"

record TokenRecord =
  tr_SessionID :: string
  tr_TaskID :: string
  tr_AgentRole :: string
  tr_ModelID :: string
  tr_InferenceType :: string
  tr_Source :: string
  tr_TokensInput :: int
  tr_TokensOutput :: int
  tr_TokensCached :: int
  tr_CostUSD :: float64
  tr_LatencyMs :: int
  tr_Outcome :: string
  tr_EvidenceClass :: string
  tr_HumanCorrections :: int
  tr_SREDEligible :: bool
  tr_Timestamp :: time
  tr_ClusterID :: string
  tr_ProjectID :: string

record ('s, 'v) gateway =
  gw_config :: GatewayConfig
  gw_providers :: "(string, ('s, 'v) provider) gomap"
  gw_chain :: "FallbackConfig option"
  gw_recorder :: bool
  gw_tokens :: "TokenRecord list"
  gw_stats :: GatewayStats
  gw_world :: 's

datatype gw_error =
    GwRouting
  | GwFailed string string
  | GwNilResponse string
  | GwStream string
  | GwNilError

abbreviation gw_lookup :: "('s, 'v) gateway \<Rightarrow> string \<rightharpoonup> ('s, 'v) provider" where
  "gw_lookup g \<equiv> map_of (gw_providers g)"

definition upd_stats :: "(GatewayStats \<Rightarrow> GatewayStats) \<Rightarrow> ('s, 'v) gateway \<Rightarrow> ('s, 'v) gateway" where
  "upd_stats f g = g\<lparr>gw_stats := f (gw_stats g)\<rparr>"

subsection \<open>Registry\<close>

definition RegisterProvider :: "string \<Rightarrow> ('s, 'v) provider \<Rightarrow> ('s, 'v) gateway \<Rightarrow> ('s, 'v) gateway \<times> bool" where
  "RegisterProvider name provider g =
     (case gw_lookup g name of
        Some _ \<Rightarrow> (g, False)
      | None \<Rightarrow> (g\<lparr>gw_providers := AList.update name provider (gw_providers g)\<rparr>, True))"

definition ListProviders :: "(string \<Rightarrow> nat) \<Rightarrow> ('s, 'v) gateway \<Rightarrow> string list" where
  "ListProviders r g = map fst (go_range r (gw_providers g))"

definition SupportsTools :: "(string \<Rightarrow> nat) \<Rightarrow> ('s, 'v) gateway \<Rightarrow> bool" where
  "SupportsTools r g = list_ex (\<lambda>(name, p). pv_SupportsTools p) (go_range r (gw_providers g))"

definition gateway_fallback_config :: "GatewayConfig \<Rightarrow> FallbackConfig" where
  "gateway_fallback_config c =
     \<lparr>fb_DefaultProvider = ''local-worker'', fb_FallbackOrder = [''planner'', ''fallback''],
      fb_ProviderCapabilities =
        [''local-worker'' \<mapsto> \<lparr>cap_MaxContextTokens = 4000, cap_CostPerToken = round64 (1 / 10 ^ 6),
                              cap_SupportsTools = gwc_LocalWorkerSupportsTools c\<rparr>,
         ''zen-glm'' \<mapsto> \<lparr>cap_MaxContextTokens = 128000, cap_CostPerToken = round64 (2 / 10 ^ 5),
                         cap_SupportsTools = True\<rparr>,
         ''planner'' \<mapsto> \<lparr>cap_MaxContextTokens = 128000, cap_CostPerToken = round64 (2 / 10 ^ 5),
                         cap_SupportsTools = gwc_PlannerSupportsTools c\<rparr>,
         ''fallback'' \<mapsto> \<lparr>cap_MaxContextTokens = 128000, cap_CostPerToken = round64 (2 / 10 ^ 5),
                          cap_SupportsTools = gwc_PlannerSupportsTools c\<rparr>],
      fb_EnableSmartRouting = True, fb_LocalWorkerMaxTokens = gwc_LocalWorkerMaxTokens c\<rparr>"

definition initializeFallbackChain :: "('s, 'v) gateway \<Rightarrow> ('s, 'v) gateway" where
  "initializeFallbackChain g = g\<lparr>gw_chain := Some (gateway_fallback_config (gw_config g))\<rparr>"

definition gateway_chain :: "('s, 'v) gateway \<Rightarrow> FallbackConfig \<Rightarrow> chain_ops" where
  "gateway_chain g fc =
     default_chain (NewDefaultFallbackChain (Some fc) (\<lambda>name. gw_lookup g name \<noteq> None))"

subsection \<open>Routing policies\<close>

text \<open>
  \<open>strings.EqualFold\<close> of the windows of a text with an ASCII keyword: a window of as many bytes that
  holds a rune outside ASCII has fewer runes than the keyword, so folding is the one of ASCII.
\<close>

definition containsCaseInsensitive :: "string \<Rightarrow> string \<Rightarrow> bool" where
  "containsCaseInsensitive s sub \<longleftrightarrow>
     length sub \<le> length s
     \<and> list_ex (\<lambda>i. map lower_char (take (length sub) (drop i s)) = map lower_char sub)
         [0..<Suc (length s - length sub)]"

definition planningKeywords :: "string list" where
  "planningKeywords = [''plan'', ''design'', ''architecture'', ''strategy'', ''analyze'', ''review'']"

definition isComplexTask :: "ChatRequest \<Rightarrow> bool" where
  "isComplexTask req \<longleftrightarrow>
     (let messages = rq_Messages req;
          totalLength = fold (\<lambda>m n. n + length (lm_Content m)) messages 0;
          lastMessage = (if length messages > 0 then lm_Content (last messages) else [])
      in totalLength > 1000 \<or> length messages > 5
         \<or> list_ex (containsCaseInsensitive lastMessage) planningKeywords
         \<or> rq_TaskID req \<noteq> [])"

definition supportsRequiredTools :: "('s, 'v) provider \<Rightarrow> ChatRequest \<Rightarrow> bool" where
  "supportsRequiredTools provider req \<longleftrightarrow> length (rq_Tools req) = 0 \<or> pv_SupportsTools provider"

definition estimateCost :: "ChatRequest \<Rightarrow> float64" where
  "estimateCost req =
     (let totalTokens = fold (\<lambda>m n. n + int (length (lm_Content m) div 4)) (rq_Messages req) 0 + 1000
      in fdiv (fmul (round64 (1/1000)) (float_of_int totalTokens)) (Fin 1000))"

text \<open>The selected provider with the reason of the choice, \<open>None\<close> for the error of no provider.\<close>

definition Route :: "('s, 'v) gateway \<Rightarrow> ChatRequest \<Rightarrow> (('s, 'v) provider \<times> string) option" where
  "Route g req =
     (let isComplex = isComplexTask req;
          c = gw_config g;
          lw = gw_lookup g ''local-worker'';
          pl = gw_lookup g ''planner'';
          fallback = map_option (\<lambda>p. (p, ''fallback: no suitable provider found'')) (gw_lookup g ''fallback'');
          policy =
            (if gwc_RoutingPolicy c = ''simple'' then
               (case lw of
                  Some p \<Rightarrow>
                    if \<not> isComplex \<and> (\<not> gwc_AutoEscalateComplexTasks c \<or> supportsRequiredTools p req)
                    then Some (p, ''simple routing: local worker for non-complex task'')
                    else map_option (\<lambda>q. (q, ''simple routing: planner for complex task or unsupported tools'')) pl
                | None \<Rightarrow> map_option (\<lambda>q. (q, ''simple routing: planner for complex task or unsupported tools'')) pl)
             else if gwc_RoutingPolicy c = ''cost_aware'' then
               (case (if flt (estimateCost req) (gwc_LocalWorkerMaxCost c) \<and> \<not> isComplex then lw else None) of
                  Some p \<Rightarrow> Some (p, ''cost-aware routing: estimated cost below threshold'')
                | None \<Rightarrow>
                    if fge (estimateCost req) (gwc_PlannerMinCost c)
                    then map_option (\<lambda>q. (q, ''cost-aware routing: estimated cost above planner threshold'')) pl
                    else None)
             else
               (case (if \<not> isComplex then lw else None) of
                  Some p \<Rightarrow> Some (p, ''default routing: local worker'')
                | None \<Rightarrow> map_option (\<lambda>q. (q, ''default routing: planner'')) pl))
      in case policy of Some x \<Rightarrow> Some x | None \<Rightarrow> fallback)"

text \<open>Which provider a model name stands for.\<close>

definition extractProviderName :: "(string \<Rightarrow> nat) \<Rightarrow> ('s, 'v) gateway \<Rightarrow> string \<Rightarrow> string" where
  "extractProviderName r g modelName0 =
     (let modelName = to_lower modelName0
      in if contains_str modelName ''qwen'' \<or> contains_str modelName ''local'' then ''local-worker''
         else if contains_str modelName ''glm'' \<or> contains_str modelName ''planner'' then ''planner''
         else case find (\<lambda>(name, p). contains_str (to_lower (pv_Name p)) (to_lower modelName))
                     (go_range r (gw_providers g)) of
                Some (name, p) \<Rightarrow> name
              | None \<Rightarrow> ''fallback'')"

subsection \<open>A provider call with retries\<close>

text \<open>The world with the last response and the last error of the attempts.\<close>

type_synonym 's attempts = "'s \<times> ChatResponse option \<times> string option"

type_synonym 's retry_library =
  "('s attempts \<Rightarrow> string option \<Rightarrow> bool) \<Rightarrow> ('s attempts \<Rightarrow> 's attempts \<times> string option) \<Rightarrow> 's attempts \<Rightarrow> 's attempts"

definition RetryableErrors :: "('s \<Rightarrow> bool) \<Rightarrow> 's attempts \<Rightarrow> string option \<Rightarrow> bool" where
  "RetryableErrors ctx_done a err =
     (case err of
        None \<Rightarrow> False
      | Some e \<Rightarrow> \<not> ctx_done (fst a)
          \<and> (contains_str e ''timeout'' \<or> contains_str e ''deadline'' \<or> contains_str e ''rate limit''
             \<or> contains_str e ''server error'' \<or> contains_str e ''connection refused''))"

definition attempt :: "('s \<Rightarrow> 's \<times> chat_result) \<Rightarrow> 's attempts \<Rightarrow> 's attempts \<times> string option" where
  "attempt fn a =
     (case a of (w, lastResponse, lastErr) \<Rightarrow>
        (case fn w of
           (w', (resp, Some err)) \<Rightarrow> ((w', lastResponse, Some err), Some err)
         | (w', (None, None)) \<Rightarrow>
             let e = Some ''provider returned nil response without error'' in ((w', lastResponse, e), e)
         | (w', (Some resp, None)) \<Rightarrow> ((w', Some resp, lastErr), None)))"

text \<open>The counters of a lane, by the name of the provider.\<close>

definition count_request :: "string \<Rightarrow> GatewayStats \<Rightarrow> GatewayStats" where
  "count_request providerName st =
     (if providerName = ''local-worker'' then st\<lparr>gs_LocalWorkerRequests := gs_LocalWorkerRequests st + 1\<rparr>
      else if providerName = ''planner'' then st\<lparr>gs_PlannerRequests := gs_PlannerRequests st + 1\<rparr>
      else if providerName = ''fallback'' then st\<lparr>gs_FallbackRequests := gs_FallbackRequests st + 1\<rparr>
      else st)"

definition count_success :: "string \<Rightarrow> int \<Rightarrow> GatewayStats \<Rightarrow> GatewayStats" where
  "count_success providerName latency st0 =
     (let st = st0\<lparr>gs_TotalLatencyMs := gs_TotalLatencyMs st0 + latency\<rparr>
      in if providerName = ''local-worker''
         then st\<lparr>gs_LocalWorkerSuccess := gs_LocalWorkerSuccess st + 1,
                 gs_LocalWorkerLatencyMs := gs_LocalWorkerLatencyMs st + latency\<rparr>
         else if providerName = ''planner''
         then st\<lparr>gs_PlannerSuccess := gs_PlannerSuccess st + 1,
                 gs_PlannerLatencyMs := gs_PlannerLatencyMs st + latency\<rparr>
         else if providerName = ''fallback'' then st\<lparr>gs_FallbackSuccess := gs_FallbackSuccess st + 1\<rparr>
         else st)"

definition retryWithRetryable ::
    "'s retry_library \<Rightarrow> ('s \<Rightarrow> bool) \<Rightarrow> string \<Rightarrow> ('s \<Rightarrow> 's \<times> chat_result)
     \<Rightarrow> ('s, 'v) gateway \<Rightarrow> ('s, 'v) gateway \<times> chat_result" where
  "retryWithRetryable retry ctx_done providerName fn g =
     (case retry (RetryableErrors ctx_done) (attempt fn) (gw_world g, None, None) of
        (w, lastResponse, lastErr) \<Rightarrow>
          let g' = g\<lparr>gw_world := w\<rparr>
          in case lastResponse of
               Some resp \<Rightarrow> (upd_stats (count_success providerName (rs_LatencyMs resp)) g', (Some resp, None))
             | None \<Rightarrow> (upd_stats (\<lambda>st. st\<lparr>gs_TimeoutErrors := gs_TimeoutErrors st + 1\<rparr>) g', (None, lastErr)))"

subsection \<open>Chat\<close>

definition recordTokenUsage ::
    "time \<Rightarrow> ChatRequest \<Rightarrow> ChatResponse \<Rightarrow> string \<Rightarrow> int \<Rightarrow> ('s, 'v) gateway \<Rightarrow> ('s, 'v) gateway" where
  "recordTokenUsage now req resp providerName latencyMs g =
     (case rs_Usage resp of
        None \<Rightarrow> g
      | Some usage \<Rightarrow>
          if \<not> gw_recorder g then g
          else g\<lparr>gw_tokens := gw_tokens g @
            [\<lparr>tr_SessionID = (if rq_SessionID req = [] then ''unknown'' else rq_SessionID req),
              tr_TaskID = (if rq_TaskID req = [] then ''unknown'' else rq_TaskID req),
              tr_AgentRole = ''worker'', tr_ModelID = rs_Model resp, tr_InferenceType = ''chat'',
              tr_Source = (if providerName = ''local-worker'' then ''local'' else ''api''),
              tr_TokensInput = us_InputTokens usage, tr_TokensOutput = us_OutputTokens usage,
              tr_TokensCached = us_CachedTokens usage, tr_CostUSD = Fin 0, tr_LatencyMs = latencyMs,
              tr_Outcome = ''completed'', tr_EvidenceClass = ''summary'', tr_HumanCorrections = 0,
              tr_SREDEligible = True, tr_Timestamp = now,
              tr_ClusterID = rq_ClusterID req, tr_ProjectID = rq_ProjectID req\<rparr>]\<rparr>)"

definition count_error :: "('s, 'v) gateway \<Rightarrow> ('s, 'v) gateway" where
  "count_error = upd_stats (\<lambda>st. st\<lparr>gs_RoutingErrors := gs_RoutingErrors st + 1\<rparr>)"

text \<open>What is done with the result of the call; \<open>elapsed\<close> is \<open>time.Since(startTime)\<close>.\<close>

definition finish_chat ::
    "int \<Rightarrow> time \<Rightarrow> ChatRequest \<Rightarrow> string \<Rightarrow> chat_result \<Rightarrow> ('s, 'v) gateway
     \<Rightarrow> ('s, 'v) gateway \<times> (gw_error + ChatResponse)" where
  "finish_chat elapsed now req providerName result g =
     (case result of
        (resp, Some err) \<Rightarrow> (count_error g, Inl (GwFailed providerName err))
      | (None, None) \<Rightarrow> (count_error g, Inl (GwNilResponse providerName))
      | (Some resp, None) \<Rightarrow>
          let latency = elapsed div 1000000;
              resp' = resp\<lparr>rs_LatencyMs := latency\<rparr>
          in (upd_stats (count_success providerName latency)
                (recordTokenUsage now req resp' providerName latency g), Inr resp'))"

text \<open>
  One request: \<open>r\<close> ranks the visit of the providers, \<open>retry\<close>, \<open>ctx_done\<close>, \<open>elapsed\<close> and \<open>now\<close> are the
  library and the clock during the request.
\<close>

record 's chat_env =
  ce_rank :: "string \<Rightarrow> nat"
  ce_retry :: "'s retry_library"
  ce_done :: "'s \<Rightarrow> bool"
  ce_elapsed :: int
  ce_now :: time

definition chain_lane :: "('s chat_env) \<Rightarrow> ('s, 'v) gateway \<Rightarrow> chat_result \<Rightarrow> string" where
  "chain_lane e g result =
     (case result of
        (Some resp, None) \<Rightarrow>
          if rs_Model resp \<noteq> [] then extractProviderName (ce_rank e) g (rs_Model resp) else ''unknown''
      | _ \<Rightarrow> ''unknown'')"

definition chatWithPreferred ::
    "'s chat_env \<Rightarrow> ChatRequest \<Rightarrow> string \<Rightarrow> bool \<Rightarrow> ('s, 'v) gateway
     \<Rightarrow> ('s, 'v) gateway \<times> (gw_error + ChatResponse)" where
  "chatWithPreferred e req preferred strictPreferred g0 =
     (let g = upd_stats (\<lambda>st. st\<lparr>gs_TotalRequests := gs_TotalRequests st + 1\<rparr>) g0
      in case (if gwc_EnableFallbackChain (gw_config g) then gw_chain g else None) of
           Some fc \<Rightarrow>
             (case ExecuteWithFallback (gateway_chain g fc) (gw_lookup g) req preferred [] strictPreferred (gw_world g) of
                (w, result) \<Rightarrow>
                  let providerName = chain_lane e g result
                  in finish_chat (ce_elapsed e) (ce_now e) req providerName result
                       (upd_stats (count_request providerName) (g\<lparr>gw_world := w\<rparr>)))
         | None \<Rightarrow>
             (case Route g req of
                None \<Rightarrow> (count_error g, Inl GwRouting)
              | Some (provider, routeReason) \<Rightarrow>
                  let providerName = pv_Name provider
                  in case retryWithRetryable (ce_retry e) (ce_done e) providerName (pv_Chat provider req)
                            (upd_stats (count_request providerName) g) of
                       (g', result) \<Rightarrow> finish_chat (ce_elapsed e) (ce_now e) req providerName result g'))"

definition Chat ::
    "'s chat_env \<Rightarrow> ChatRequest \<Rightarrow> ('s, 'v) gateway \<Rightarrow> ('s, 'v) gateway \<times> (gw_error + ChatResponse)" where
  "Chat e req g = chatWithPreferred e req [] False g"

definition ChatWithPreferred ::
    "'s chat_env \<Rightarrow> ChatRequest \<Rightarrow> string \<Rightarrow> ('s, 'v) gateway \<Rightarrow> ('s, 'v) gateway \<times> (gw_error + ChatResponse)" where
  "ChatWithPreferred e req preferred g = chatWithPreferred e req preferred (preferred \<noteq> []) g"

definition SetTokenRecorder :: "bool \<Rightarrow> ('s, 'v) gateway \<Rightarrow> ('s, 'v) gateway" where
  "SetTokenRecorder recorder g = g\<lparr>gw_recorder := recorder\<rparr>"

subsection \<open>Streaming and embeddings\<close>

definition ChatStream :: "ChatRequest \<Rightarrow> ('s, 'v) gateway \<Rightarrow> ('s, 'v) gateway \<times> (gw_error + chat_result)" where
  "ChatStream req g =
     (case Route g req of
        None \<Rightarrow> (g, Inl GwRouting)
      | Some (provider, reason) \<Rightarrow>
          (case pv_ChatStream provider req (gw_world g) of
             (w, (resp, None)) \<Rightarrow> (g\<lparr>gw_world := w\<rparr>, Inr (resp, None))
           | (w, (resp, Some err)) \<Rightarrow>
               (case pv_Chat provider req w of (w', result) \<Rightarrow> (g\<lparr>gw_world := w'\<rparr>, Inr result))))"

fun embed_loop :: "string \<Rightarrow> (string \<times> ('s, 'v) provider) list \<Rightarrow> 's \<Rightarrow> 's \<times> (string + 'v) option" where
  "embed_loop text [] w = (w, None)"
| "embed_loop text ((name, provider) # ps) w =
     (case pv_Embed provider text w of
        (w', Some _) \<Rightarrow> pv_Embed provider text w'
      | (w', None) \<Rightarrow> embed_loop text ps w')"

text \<open>\<open>None\<close> is the error that embeddings are not supported.\<close>

definition Embed :: "(string \<Rightarrow> nat) \<Rightarrow> string \<Rightarrow> ('s, 'v) gateway \<Rightarrow> ('s, 'v) gateway \<times> (string + 'v) option" where
  "Embed r text g =
     (case embed_loop text (go_range r (gw_providers g)) (gw_world g) of (w, x) \<Rightarrow> (g\<lparr>gw_world := w\<rparr>, x))"

fun route_embedding_loop ::
    "string \<Rightarrow> (string \<times> ('s, 'v) provider) list \<Rightarrow> 's \<Rightarrow> 's \<times> (('s, 'v) provider \<times> string) option" where
  "route_embedding_loop text [] w = (w, None)"
| "route_embedding_loop text ((name, provider) # ps) w =
     (case pv_Embed provider text w of
        (w', Some _) \<Rightarrow> (w', Some (provider, ''provider '' @ name @ '' supports embeddings''))
      | (w', None) \<Rightarrow> route_embedding_loop text ps w')"

definition RouteForEmbedding ::
    "(string \<Rightarrow> nat) \<Rightarrow> string \<Rightarrow> ('s, 'v) gateway \<Rightarrow> ('s, 'v) gateway \<times> (('s, 'v) provider \<times> string) option" where
  "RouteForEmbedding r text g =
     (case route_embedding_loop text (go_range r (gw_providers g)) (gw_world g) of (w, x) \<Rightarrow> (g\<lparr>gw_world := w\<rparr>, x))"

definition CreateProvider :: "string \<Rightarrow> ('s, 'v) gateway \<Rightarrow> ('s, 'v) provider option" where
  "CreateProvider name g = gw_lookup g name"

definition CreateProviderWithModel :: "string \<Rightarrow> string \<Rightarrow> ('s, 'v) gateway \<Rightarrow> ('s, 'v) provider option" where
  "CreateProviderWithModel name model g = CreateProvider name g"

definition GetStats :: "('s, 'v) gateway \<Rightarrow> GatewayStats" where
  "GetStats g = gw_stats g"

end
