(* ===== verification/LLM_Providers.thy ===== *)
theory LLM_Providers
  imports LLM_Gateway
begin

text \<open>
  The built-in providers of the gateway (\<open>internal/llm/local_worker.go\<close>, \<open>internal/llm/planner.go\<close>) and
  its construction (\<open>NewGateway\<close>, \<open>registerBuiltinProviders\<close> of \<open>internal/llm/gateway.go\<close>).

  The two lanes answer from fixed texts after a delay. Go's timers and contexts are the record
  \<open>sim_env\<close>: \<open>sim_wait\<close> is given the timeout of the provider and the delay and returns the error of
  the context when the context ends first; \<open>sim_clock\<close> is \<open>time.Now().UnixNano()\<close>. The provider
  \<open>zen-glm\<close>, which calls a remote API (\<open>internal/llm/openai_compatible_provider.go\<close>), is an optional
  argument, present when its API key is set.
\<close>

record 's sim_env =
  sim_wait :: "int \<Rightarrow> int \<Rightarrow> 's \<Rightarrow> 's \<times> string option"
  sim_clock :: "'s \<Rightarrow> int"

definition last_message :: "ChatRequest \<Rightarrow> string" where
  "last_message req = (if length (rq_Messages req) > 0 then lm_Content (last (rq_Messages req)) else [])"

definition total_chars :: "Message list \<Rightarrow> int" where
  "total_chars messages =
     fold (\<lambda>m total. total + int (length (lm_Content m))
             + (if lm_ReasoningContent m \<noteq> [] then int (length (lm_ReasoningContent m)) else 0)) messages 0"

definition estimateTokensFromContent :: "string \<Rightarrow> int" where
  "estimateTokensFromContent content = int (length content div 4)"

definition truncateString :: "string \<Rightarrow> nat \<Rightarrow> string" where
  "truncateString s maxLen = (if length s \<le> maxLen then s else take maxLen s @ ''...'')"

subsection \<open>The local worker\<close>

definition generateLocalWorkerResponse :: "ChatRequest \<Rightarrow> string" where
  "generateLocalWorkerResponse req =
     (if length (rq_Messages req) = 0 then ''I need more information to help you.''
      else let lastMessage = lm_Content (last (rq_Messages req)); lower = to_lower lastMessage
           in if contains_str lower ''hello'' \<or> contains_str lower ''hi''
              then ''Hello! I'm the local worker. How can I help you today?''
              else if contains_str lower ''help''
              then ''I can help you with simple tasks. What would you like me to do?''
              else if contains_str lower ''tool'' \<or> contains_str lower ''function''
              then ''I support tool calling. Let me know what tools you'd like me to use.''
              else ''I've processed your request about: '' @ truncateString lastMessage 100
                   @ ''...'' @ [CHR 0x0A, CHR 0x0A] @ ''As a local worker, I can handle this task efficiently.'')"

definition shouldCallTools :: "ChatRequest \<Rightarrow> bool" where
  "shouldCallTools req \<longleftrightarrow>
     length (rq_Tools req) \<noteq> 0
     \<and> list_ex (contains_str (to_lower (last_message req)))
         [''call'', ''use'', ''invoke'', ''execute'', ''run'', ''tool'', ''function'']"

definition generateToolCalls :: "int \<Rightarrow> ChatRequest \<Rightarrow> ToolCall list" where
  "generateToolCalls now req =
     (case rq_Tools req of
        [] \<Rightarrow> []
      | tool # _ \<Rightarrow> [\<lparr>tcl_ID = ''call_'' @ itoa now, tcl_Name = tl_Name tool,
                     tcl_Args = GMap [(''action'', GString ''process''), (''input'', GString ''example input'')]\<rparr>])"

definition estimateTokens_local :: "Message list \<Rightarrow> int" where
  "estimateTokens_local messages = total_chars messages div 4"

definition local_worker_chat :: "'s sim_env \<Rightarrow> string \<Rightarrow> int \<Rightarrow> ChatRequest \<Rightarrow> 's \<Rightarrow> 's \<times> chat_result" where
  "local_worker_chat e model timeout req s =
     (let startTime = sim_clock e s
      in case sim_wait e (timeout * second) 50000000 s of
           (s', Some err) \<Rightarrow> (s', (None, Some err))
         | (s', None) \<Rightarrow>
             let content = generateLocalWorkerResponse req;
                 toolCalls = (if length (rq_Tools req) > 0 \<and> shouldCallTools req
                              then generateToolCalls (sim_clock e s') req else []);
                 latency = (sim_clock e s' - startTime) div 1000000
             in (s', (Some \<lparr>rs_Content = content, rs_ReasoningContent = [], rs_FinishReason = ''stop'',
                            rs_ToolCalls = toolCalls, rs_Model = model,
                            rs_Usage = Some \<lparr>us_InputTokens = estimateTokens_local (rq_Messages req),
                                             us_OutputTokens = estimateTokensFromContent content, us_CachedTokens = 0,
                                             us_TotalTokens = estimateTokens_local (rq_Messages req)
                                                              + estimateTokensFromContent content\<rparr>,
                            rs_LatencyMs = latency\<rparr>, None)))"

definition NewLocalWorkerProvider :: "'s sim_env \<Rightarrow> string \<Rightarrow> int \<Rightarrow> ('s, 'v) provider" where
  "NewLocalWorkerProvider e model timeout =
     \<lparr>pv_Name = ''local-worker'', pv_SupportsTools = True,
      pv_Chat = local_worker_chat e model timeout,
      pv_ChatStream = local_worker_chat e model timeout,
      pv_Embed = (\<lambda>text s. (s, None))\<rparr>"

subsection \<open>The planner lane\<close>

definition planner_plan_text :: string where
  "planner_plan_text = ''Based on your request, I recommend a phased approach:

1. **Analysis Phase** (1-2 hours): Understand requirements and constraints
2. **Design Phase** (2-3 hours): Create detailed specifications  
3. **Implementation Phase** (4-8 hours): Execute with frequent validation
4. **Review Phase** (1-2 hours): Quality assurance and documentation

Key considerations:
- Risk assessment: Medium complexity, requires careful testing
- Estimated cost: $X.XX USD (varies based on model usage)
- Success probability: 85% based on similar tasks

Would you like me to proceed with this plan or adjust any aspects?''"

definition planner_analysis_text :: string where
  "planner_analysis_text = ''I've analyzed the situation and identified several key factors:

**Strengths:**
- Clear objectives stated
- Existing infrastructure available
- Modular design possible

**Risks:**
- Potential integration challenges
- Time constraints may require prioritization
- Dependencies on external systems

**Recommendations:**
1. Start with a proof-of-concept for riskiest components
2. Implement monitoring from day one
3. Schedule regular checkpoints for course correction

The analysis suggests a 75% confidence level for successful completion within estimated parameters.''"

definition planner_architecture_text :: string where
  "planner_architecture_text = ''Proposed architecture:

**High-Level Components:**
- Frontend: React with TypeScript for maintainability
- Backend: Go services with gRPC for performance
- Database: PostgreSQL with read replicas
- Cache: Redis for session management

**Key Design Decisions:**
1. Microservices over monolith for scalability
2. Event-driven architecture for loose coupling
3. Comprehensive logging and monitoring
4. Automated testing at all levels

**Implementation Timeline:**
- Week 1-2: Core infrastructure setup
- Week 3-4: Basic functionality
- Week 5-6: Advanced features
- Week 7-8: Testing and deployment

This design balances complexity with maintainability.''"

definition generatePlannerReasoning :: "ChatRequest \<Rightarrow> string" where
  "generatePlannerReasoning req = ''Reasoning process:
1. First, I analyzed the request to determine its complexity level and domain.
2. I considered the available tools and constraints mentioned in the context.
3. Based on past similar tasks, I estimated the effort and potential challenges.
4. I structured the response to provide actionable advice while acknowledging uncertainties.
5. The recommendation balances thoroughness with practicality for execution.''"

definition planner_default_text :: "string \<Rightarrow> string" where
  "planner_default_text excerpt = ''I've processed your complex request regarding: \"'' @ excerpt @ ''\"

**As the planning agent, my assessment:**
- This appears to be a medium-complexity task requiring careful planning
- Estimated effort: 3-5 hours of focused work
- Recommended approach: Iterative development with frequent validation
- Key success factor: Clear requirements and regular feedback loops

**Next steps I recommend:**
1. Formalize requirements in a structured document
2. Identify potential risks and mitigation strategies
3. Create a phased implementation plan
4. Establish success metrics and checkpoints

Would you like me to elaborate on any of these aspects or proceed with creating a detailed plan?''"

definition generatePlannerResponse :: "ChatRequest \<Rightarrow> string" where
  "generatePlannerResponse req =
     (if length (rq_Messages req) = 0
      then ''As the planning agent, I need to understand the context and requirements to provide strategic guidance.''
      else let lastMessage = lm_Content (last (rq_Messages req)); lowerMsg = to_lower lastMessage
           in if contains_str lowerMsg ''plan'' \<or> contains_str lowerMsg ''strategy'' then planner_plan_text
              else if contains_str lowerMsg ''analyze'' \<or> contains_str lowerMsg ''review'' then planner_analysis_text
              else if contains_str lowerMsg ''architecture'' \<or> contains_str lowerMsg ''design''
              then planner_architecture_text
              else if contains_str lowerMsg ''help'' \<or> contains_str lowerMsg ''assist''
              then ''As the planning agent, I specialize in complex problem-solving, architectural design, strategic planning, and risk assessment. I can help you break down complex tasks, estimate costs and timelines, identify risks, and create actionable plans. What specific challenge would you like to address?''
              else planner_default_text (truncateString lastMessage 150))"

definition shouldCallPlannerTools :: "ChatRequest \<Rightarrow> bool" where
  "shouldCallPlannerTools req \<longleftrightarrow>
     length (rq_Tools req) \<noteq> 0
     \<and> (list_ex (contains_str (to_lower (last_message req)))
          [''execute'', ''implement'', ''analyze'', ''fetch'', ''get data'', ''process'', ''calculate'']
        \<or> rq_TaskID req \<noteq> [] \<and> rq_SessionID req \<noteq> [])"

text \<open>Each call reads the clock again; \<open>nows ! i\<close> is the reading for the tool \<open>i\<close>.\<close>

definition planner_tool_call :: "ChatRequest \<Rightarrow> (nat \<times> int) \<times> Tool \<Rightarrow> ToolCall" where
  "planner_tool_call req x =
     (case x of ((i, now), tool) \<Rightarrow>
        let name = to_lower (tl_Name tool);
            more = (if contains_str name ''analyze'' then [(''depth'', GString ''detailed''), (''include_risks'', GBool True)]
                    else if contains_str name ''execute'' then [(''phase'', GString ''planning''), (''validate'', GBool True)]
                    else if contains_str name ''fetch''
                    then [(''source'', GString ''primary''), (''format'', GString ''structured'')]
                    else [(''action'', GString ''process'')])
        in \<lparr>tcl_ID = ''planner_call_'' @ itoa now @ ''_'' @ itoa (int i), tcl_Name = tl_Name tool,
            tcl_Args = GMap ([(''task_id'', GString (rq_TaskID req)), (''session_id'', GString (rq_SessionID req))] @ more)\<rparr>)"

definition generatePlannerToolCalls :: "(nat \<Rightarrow> int) \<Rightarrow> ChatRequest \<Rightarrow> ToolCall list" where
  "generatePlannerToolCalls nows req =
     map (planner_tool_call req) (zip (map (\<lambda>i. (i, nows i)) [0..<3]) (take 3 (rq_Tools req)))"

definition estimatePlannerTokens :: "Message list \<Rightarrow> int" where
  "estimatePlannerTokens messages =
     float_to_int (fdiv (fmul (float_of_int (total_chars messages)) (round64 (12/10))) (Fin 4))"

text \<open>The clock of the world does not move between the calls of one response.\<close>

definition planner_chat :: "'s sim_env \<Rightarrow> string \<Rightarrow> int \<Rightarrow> ChatRequest \<Rightarrow> 's \<Rightarrow> 's \<times> chat_result" where
  "planner_chat e model timeout req s =
     (let startTime = sim_clock e s
      in case sim_wait e (timeout * second) 200000000 s of
           (s', Some err) \<Rightarrow> (s', (None, Some err))
         | (s', None) \<Rightarrow>
             let content = generatePlannerResponse req;
                 toolCalls = (if length (rq_Tools req) > 0 \<and> shouldCallPlannerTools req
                              then generatePlannerToolCalls (\<lambda>i. sim_clock e s') req else []);
                 reasoning = generatePlannerReasoning req;
                 latency = (sim_clock e s' - startTime) div 1000000;
                 out_tokens = estimateTokensFromContent content + estimateTokensFromContent reasoning
             in (s', (Some \<lparr>rs_Content = content, rs_ReasoningContent = reasoning, rs_FinishReason = ''stop'',
                            rs_ToolCalls = toolCalls, rs_Model = model,
                            rs_Usage = Some \<lparr>us_InputTokens = estimatePlannerTokens (rq_Messages req),
                                             us_OutputTokens = out_tokens, us_CachedTokens = 0,
                                             us_TotalTokens = estimatePlannerTokens (rq_Messages req) + out_tokens\<rparr>,
                            rs_LatencyMs = latency\<rparr>, None)))"

definition NewPlannerProvider :: "'s sim_env \<Rightarrow> string \<Rightarrow> int \<Rightarrow> ('s, 'v) provider" where
  "NewPlannerProvider e model timeout =
     \<lparr>pv_Name = ''planner'', pv_SupportsTools = True,
      pv_Chat = planner_chat e model timeout,
      pv_ChatStream = planner_chat e model timeout,
      pv_Embed = (\<lambda>text s. (s, None))\<rparr>"

subsection \<open>Construction\<close>

text \<open>The registrations stop at the first one that is refused; the flag says that none was.\<close>

fun register_all :: "(string \<times> ('s, 'v) provider) list \<Rightarrow> ('s, 'v) gateway \<Rightarrow> ('s, 'v) gateway \<times> bool" where
  "register_all [] g = (g, True)"
| "register_all ((name, p) # ps) g =
     (case RegisterProvider name p g of
        (g', True) \<Rightarrow> register_all ps g'
      | (g', False) \<Rightarrow> (g', False))"

definition registerBuiltinProviders ::
    "'s sim_env \<Rightarrow> ('s, 'v) provider option \<Rightarrow> ('s, 'v) gateway \<Rightarrow> ('s, 'v) gateway \<times> bool" where
  "registerBuiltinProviders e zenGLM g =
     (let c = gw_config g
      in register_all
           ([(''local-worker'', NewLocalWorkerProvider e (gwc_LocalWorkerModel c) (gwc_LocalWorkerTimeout c))]
            @ (case zenGLM of Some p \<Rightarrow> [(''zen-glm'', p)] | None \<Rightarrow> [])
            @ [(''planner'', NewPlannerProvider e (gwc_PlannerModel c) (gwc_PlannerTimeout c)),
               (''fallback'', NewPlannerProvider e (gwc_FallbackModel c) (gwc_PlannerTimeout c))]) g)"

definition NewGateway ::
    "'s sim_env \<Rightarrow> ('s, 'v) provider option \<Rightarrow> GatewayConfig option \<Rightarrow> 's \<Rightarrow> ('s, 'v) gateway option" where
  "NewGateway e zenGLM config0 w =
     (let config = (case config0 of None \<Rightarrow> DefaultGatewayConfig | Some c \<Rightarrow> c);
          g = \<lparr>gw_config = config, gw_providers = [], gw_chain = None, gw_recorder = False,
               gw_tokens = [], gw_stats = zero_stats, gw_world = w\<rparr>
      in case registerBuiltinProviders e zenGLM g of
           (g', True) \<Rightarrow> Some (if gwc_EnableFallbackChain config then initializeFallbackChain g' else g')
         | (g', False) \<Rightarrow> None)"

end
