(* ===== verification/LLM_Properties.thy ===== *)
theory LLM_Properties
  imports LLM_Providers
begin

text \<open>
  Properties of the LLM gateway: the order of the providers against a reference, the fallback loop
  against the list of all tries, the accounting of requests, and the routes of a gateway with the
  built-in providers.

  The interface \<open>FallbackChain\<close> is the locale \<open>fallback_chain\<close>; the chain that a gateway builds over
  its own registry is its interpretation \<open>gc\<close>.
\<close>

subsection \<open>Provider order\<close>

text \<open>The list without the second and later occurrences of its elements.\<close>

definition first_occurrences :: "'a list \<Rightarrow> 'a list" where
  "first_occurrences xs = rev (remdups (rev xs))"

lemma first_occurrences_Nil [simp]: "first_occurrences [] = []"
  by (simp add: first_occurrences_def)

lemma first_occurrences_snoc:
  "first_occurrences (xs @ [x]) = (if x \<in> set xs then first_occurrences xs else first_occurrences xs @ [x])"
  by (simp add: first_occurrences_def)

lemma set_first_occurrences [simp]: "set (first_occurrences xs) = set xs"
  by (simp add: first_occurrences_def)

lemma distinct_first_occurrences [simp]: "distinct (first_occurrences xs)"
  by (simp add: first_occurrences_def)

lemma first_occurrences_eq_Nil [simp]: "first_occurrences xs = [] \<longleftrightarrow> xs = []"
  by (simp add: first_occurrences_def)

lemma filter_first_occurrences: "filter P (first_occurrences xs) = first_occurrences (filter P xs)"
  by (induction xs rule: rev_induct) (auto simp: first_occurrences_snoc)

lemma append_new_snoc:
  "append_new P chain (xs @ [x]) =
     (let c = append_new P chain xs in if P x \<and> x \<notin> set c then c @ [x] else c)"
  by (induction P chain xs rule: append_new.induct) (simp_all add: Let_def)

text \<open>A loop of \<open>append_new\<close> after a loop of \<open>append_new\<close> is one loop; from nothing it is the filter.\<close>

lemma append_new_append: "append_new P (append_new P chain xs) ys = append_new P chain (xs @ ys)"
  by (induction P chain xs rule: append_new.induct) simp_all

lemma append_new_exact: "append_new P [] xs = filter P (first_occurrences xs)"
  by (induction xs rule: rev_induct) (auto simp: append_new_snoc first_occurrences_snoc Let_def)

definition nonempty :: "string \<Rightarrow> string list" where
  "nonempty s = (if s = [] then [] else [s])"

lemma ProviderOrder_exact:
  "ProviderOrder f preferred =
     (if preferred \<noteq> [] \<and> dc_ProviderChecker f preferred then [preferred]
      else filter (dc_ProviderChecker f)
             (first_occurrences (nonempty (fb_DefaultProvider (dc_Config f)) @ fb_FallbackOrder (dc_Config f))))"
proof -
  have "append_new P (if d \<noteq> [] \<and> P d then [d] else []) xs = append_new P [] (nonempty d @ xs)" for P d xs
    by (simp add: nonempty_def)
  then show ?thesis by (simp add: ProviderOrder_def append_new_exact Let_def)
qed

definition usable :: "DefaultFallbackChain \<Rightarrow> int \<Rightarrow> string \<Rightarrow> bool" where
  "usable f tokens p \<longleftrightarrow>
     dc_ProviderChecker f p \<and> canHandleTokens f p tokens \<and> \<not> skip_local f tokens p"

lemma smartProviderOrder_exact:
  "smartProviderOrder f tokens preferred =
     (let c = dc_Config f;
          us = filter (usable f tokens)
                 (first_occurrences (nonempty preferred @ nonempty (fb_DefaultProvider c) @ fb_FallbackOrder c))
      in if us = [] then ProviderOrder f [] else us)"
proof -
  let ?d = "fb_DefaultProvider (dc_Config f)" and ?P = "usable f tokens"
  let ?ok = "\<lambda>p. dc_ProviderChecker f p \<and> canHandleTokens f p tokens"
  have eq: "(\<lambda>p. \<not> skip_local f tokens p \<and> ?ok p) = ?P"
    by (auto simp: usable_def fun_eq_iff)
  have c1: "(if preferred \<noteq> [] \<and> ?ok preferred
             then if skip_local f tokens preferred then [] else [preferred] else [])
          = append_new ?P [] (nonempty preferred)"
    by (auto simp: usable_def nonempty_def)
  have c2: "(if ?d \<noteq> [] \<and> ?ok ?d \<and> ?d \<notin> set c then if skip_local f tokens ?d then c else c @ [?d] else c)
          = append_new ?P c (nonempty ?d)" for c
    by (auto simp: usable_def nonempty_def)
  show ?thesis
    unfolding smartProviderOrder_def Let_def c1 c2 eq append_new_append
    by (simp only: append_assoc append_new_exact length_0_conv)
qed
lemma context_chain_exact:
  "context_chain f preferred tokens session =
     (let us = filter (\<lambda>p. dc_ProviderChecker f p \<and> canHandleTokens f p tokens) session
      in first_occurrences ((if preferred \<noteq> [] \<and> preferred \<in> set us then [preferred] else []) @ us))"
proof -
  let ?av = "filterToAvailable f session" and ?P = "\<lambda>p. canHandleTokens f p tokens"
  let ?pre = "if preferred \<noteq> [] \<and> preferred \<in> set ?av \<and> ?P preferred then [preferred] else []"
  have "context_chain f preferred tokens session = append_new ?P (append_new ?P [] ?pre) ?av"
    by (simp add: context_chain_def Let_def)
  also have "\<dots> = first_occurrences (filter ?P (?pre @ ?av))"
    unfolding append_new_append by (simp only: append_new_exact filter_first_occurrences)
  finally show ?thesis
    by (auto simp: filterToAvailable_def Let_def conj_commute)
qed

text \<open>The order in which providers are tried is what its description says: the preferred provider alone
  when it is required and can take the request; else the providers of the session that can, the
  preferred one first; else, with smart routing, the first occurrences of the usable ones among the
  preferred, the default and the fallbacks; and when none of those is usable, all that are registered
  of the default and the fallbacks, whatever they can take.\<close>

lemma order_exact:
  "ProviderOrderForContext f preferred tokens session strict =
     (let c = dc_Config f; ok = dc_ProviderChecker f;
          fits = (\<lambda>p. ok p \<and> canHandleTokens f p tokens);
          candidates = filter fits session;
          named = nonempty (fb_DefaultProvider c) @ fb_FallbackOrder c;
          smart = filter (usable f tokens) (first_occurrences (nonempty preferred @ named))
      in if strict \<and> preferred \<noteq> [] \<and> fits preferred then [preferred]
         else if candidates \<noteq> []
         then first_occurrences ((if preferred \<noteq> [] \<and> preferred \<in> set candidates then [preferred] else []) @ candidates)
         else if fb_EnableSmartRouting c \<and> smart \<noteq> [] then smart
         else if \<not> fb_EnableSmartRouting c \<and> preferred \<noteq> [] \<and> ok preferred then [preferred]
         else filter ok (first_occurrences named))"
proof -
  have ne: "context_chain f preferred tokens session = [] \<longleftrightarrow>
      filter (\<lambda>p. dc_ProviderChecker f p \<and> canHandleTokens f p tokens) session = []"
    unfolding context_chain_exact Let_def by (auto simp: filter_empty_conv)
  show ?thesis
    unfolding ProviderOrderForContext_def Let_def length_greater_0_conv ne smartProviderOrder_exact
      context_chain_exact ProviderOrder_exact by simp
qed

lemma order_distinct: "distinct (ProviderOrderForContext f preferred tokens session strict)"
  unfolding order_exact Let_def by simp

lemma order_registered:
  "p \<in> set (ProviderOrderForContext f preferred tokens session strict) \<Longrightarrow> dc_ProviderChecker f p"
  unfolding order_exact Let_def by (auto simp: usable_def split: if_splits)

subsection \<open>The fallback loop\<close>

text \<open>The reference: every provider of a list is called once, in order, each in the world the one before left.\<close>

fun tries :: "ChatRequest \<Rightarrow> ('s, 'v) provider list \<Rightarrow> 's \<Rightarrow> ('s \<times> chat_result) list" where
  "tries req [] s = []"
| "tries req (p # ps) s = (let x = pv_Chat p req s in x # tries req ps (fst x))"

definition conclusive :: "(string option \<Rightarrow> bool) \<Rightarrow> 's \<times> chat_result \<Rightarrow> bool" where
  "conclusive retryable x \<longleftrightarrow> snd (snd x) = None \<or> \<not> retryable (snd (snd x))"

text \<open>A response that comes with an error is dropped.\<close>

definition report :: "'s \<times> chat_result \<Rightarrow> 's \<times> chat_result" where
  "report x = (fst x, if snd (snd x) = None then fst (snd x) else None, snd (snd x))"

definition fallback_outcome ::
    "(string option \<Rightarrow> bool) \<Rightarrow> string option \<Rightarrow> 's \<Rightarrow> ('s \<times> chat_result) list \<Rightarrow> 's \<times> chat_result" where
  "fallback_outcome retryable lastErr s xs =
     (case find (conclusive retryable) xs of
        Some x \<Rightarrow> report x
      | None \<Rightarrow> if xs = [] then (s, None, lastErr) else report (last xs))"

definition present :: "(string \<rightharpoonup> ('s, 'v) provider) \<Rightarrow> string list \<Rightarrow> ('s, 'v) provider list" where
  "present providers names = List.map_filter providers names"

lemma present_simps [simp]:
  "present providers [] = []"
  "present providers (n # ns) = (case providers n of None \<Rightarrow> present providers ns | Some p \<Rightarrow> p # present providers ns)"
  by (simp_all add: present_def map_filter_simps split: option.split)

lemma fallback_loop_exact:
  "fallback_loop retryable providers req lastErr names s =
     fallback_outcome retryable lastErr s (tries req (present providers names) s)"
proof (induction retryable providers req lastErr names s rule: fallback_loop.induct)
  case (2 retryable providers req lastErr name names s)
  show ?case
  proof (cases "providers name")
    case None
    then show ?thesis using 2 by simp
  next
    case (Some p)
    obtain s' resp err where x: "pv_Chat p req s = (s', resp, err)" by (metis prod_cases3)
    show ?thesis
    proof (cases err)
      case None
      then show ?thesis using Some x
        by (simp add: fallback_outcome_def conclusive_def report_def)
    next
      case (Some e)
      then show ?thesis using 2(2) [OF \<open>providers name = Some p\<close> x [unfolded Some, symmetric] refl refl] \<open>providers name = Some p\<close> x
        by (auto simp: fallback_outcome_def conclusive_def report_def Let_def split: option.split)
    qed
  qed
qed (simp add: fallback_outcome_def)

lemma execute_exact:
  "ExecuteWithFallback chain providers req preferred session strict s =
     fallback_outcome (co_retryable chain) None s
       (tries req (present providers
          (co_order chain preferred (estimateRequestTokens (rq_Messages req)) session strict)) s)"
  unfolding ExecuteWithFallback_def fallback_loop_exact by simp

text \<open>C25. \<open>ExecuteWithFallback\<close> is the reference on the registered providers of the order: its result is the
  first try that succeeds or fails for good, with the world that try left; if there is none, the error
  of the last try; and no response and no error when no provider of the order is registered.\<close>

theorem fallback_exact:
  "ExecuteWithFallback chain providers req preferred session strict s =
     (let order = co_order chain preferred (estimateRequestTokens (rq_Messages req)) session strict;
          xs = tries req (present providers order) s
      in case find (conclusive (co_retryable chain)) xs of
           Some x \<Rightarrow> report x
         | None \<Rightarrow> if xs = [] then (s, None, None) else report (last xs))"
  unfolding execute_exact Let_def fallback_outcome_def by simp

subsection \<open>The interface of a fallback chain\<close>

locale fallback_chain =
  fixes chain :: chain_ops
    and registered :: "string \<Rightarrow> bool"
  assumes distinct_order: "distinct (co_order chain preferred tokens session strict)"
    and order_known: "p \<in> set (co_order chain preferred tokens session strict) \<Longrightarrow> registered p"
    and no_retry_without_error: "\<not> co_retryable chain None"
begin

text \<open>With the providers the chain knows, every name of the order is called.\<close>

lemma present_all:
  assumes "\<And>p. registered p \<Longrightarrow> providers p \<noteq> None"
  shows "present providers (co_order chain preferred tokens session strict)
    = map (\<lambda>p. the (providers p)) (co_order chain preferred tokens session strict)"
proof -
  have "present providers xs = map (\<lambda>p. the (providers p)) xs" if "\<forall>p \<in> set xs. providers p \<noteq> None" for xs
    using that by (induction xs) auto
  then show ?thesis using assms order_known by blast
qed

text \<open>No response and no error: the order is empty, or a provider gave that very answer.\<close>

lemma nil_result:
  assumes known: "\<And>p. registered p \<Longrightarrow> providers p \<noteq> None"
    and res: "snd (ExecuteWithFallback chain providers req preferred session strict s) = (None, None)"
  shows "co_order chain preferred (estimateRequestTokens (rq_Messages req)) session strict = []
    \<or> (\<exists>x \<in> set (tries req (present providers
          (co_order chain preferred (estimateRequestTokens (rq_Messages req)) session strict)) s). snd x = (None, None))"
proof -
  define order where "order = co_order chain preferred (estimateRequestTokens (rq_Messages req)) session strict"
  define xs where "xs = tries req (present providers order) s"
  have len: "length (tries req ps s) = length ps" for ps :: "('a, 'b) provider list" and s
    by (induction ps arbitrary: s) (simp_all add: Let_def)
  have ne: "xs \<noteq> []" if "order \<noteq> []"
    using that len [of "present providers order" s] present_all [OF known, where preferred = preferred
        and tokens = "estimateRequestTokens (rq_Messages req)" and session = session and strict = strict]
    by (auto simp: xs_def order_def simp flip: length_greater_0_conv)
  have rep: "snd x = (None, None)" if "snd (report x) = (None, None)" for x :: "'a \<times> chat_result"
    using that by (cases x) (auto simp: report_def split: if_splits)
  have out: "snd (fallback_outcome (co_retryable chain) None s xs) = (None, None)"
    using res unfolding execute_exact order_def [symmetric] xs_def [symmetric] .
  have "\<exists>x \<in> set xs. snd x = (None, None)" if ord: "order \<noteq> []"
  proof (cases "find (conclusive (co_retryable chain)) xs")
    case None
    then show ?thesis using out ne [OF ord] rep [of "last xs"]
      by (intro bexI [of _ "last xs"]) (simp_all add: fallback_outcome_def)
  next
    case (Some x)
    then show ?thesis using out rep [of x] find_Some_set [OF Some]
      by (intro bexI [of _ x]) (simp_all add: fallback_outcome_def)
  qed
  then show ?thesis unfolding order_def [symmetric] xs_def [symmetric] by blast
qed

end

interpretation gc: fallback_chain "gateway_chain g fc" "\<lambda>name. gw_lookup g name \<noteq> None" for g fc
  by unfold_locales
    (auto simp: gateway_chain_def default_chain_def NewDefaultFallbackChain_def order_distinct IsRetryable_def
      dest!: order_registered)

subsection \<open>Accounting\<close>

definition chain_mode :: "('s, 'v) gateway \<Rightarrow> bool" where
  "chain_mode g \<longleftrightarrow> gwc_EnableFallbackChain (gw_config g) \<and> gw_chain g \<noteq> None"

definition one_more :: "GatewayStats \<Rightarrow> GatewayStats" where
  "one_more st = st\<lparr>gs_TotalRequests := gs_TotalRequests st + 1\<rparr>"

definition one_error :: "GatewayStats \<Rightarrow> GatewayStats" where
  "one_error st = st\<lparr>gs_RoutingErrors := gs_RoutingErrors st + 1\<rparr>"

lemma recordTokenUsage_frame [simp]:
  "gw_stats (recordTokenUsage now req resp n l g) = gw_stats g"
  "gw_config (recordTokenUsage now req resp n l g) = gw_config g"
  "gw_chain (recordTokenUsage now req resp n l g) = gw_chain g"
  "gw_providers (recordTokenUsage now req resp n l g) = gw_providers g"
  by (simp_all add: recordTokenUsage_def split: option.split)

lemma upd_stats_frame [simp]:
  "gw_stats (upd_stats f g) = f (gw_stats g)"
  "gw_config (upd_stats f g) = gw_config g"
  "gw_chain (upd_stats f g) = gw_chain g"
  "gw_providers (upd_stats f g) = gw_providers g"
  "gw_world (upd_stats f g) = gw_world g"
  by (simp_all add: upd_stats_def)

lemma count_request_unknown [simp]: "count_request ''unknown'' st = st"
  by (simp add: count_request_def)

text \<open>The end of a request: an error is counted, a success adds to its lane.\<close>

lemma finish_chat_cases:
  assumes "finish_chat el now req lane result g = (g', res)"
  obtains (error) er where "res = Inl er" "gw_stats g' = one_error (gw_stats g)"
      "fst result = None \<or> snd result \<noteq> None"
  | (answer) resp where "res = Inr resp" "gw_stats g' = count_success lane (rs_LatencyMs resp) (gw_stats g)"
      "snd result = None" "map_option rs_Model (fst result) = Some (rs_Model resp)"
  using assms unfolding finish_chat_def count_error_def one_error_def
  by (cases result; cases "fst result"; cases "snd result") (auto simp: Let_def)

lemma finish_chat_frame:
  assumes "finish_chat el now req lane result g = (g', res)"
  shows "gw_config g' = gw_config g" "gw_chain g' = gw_chain g" "gw_providers g' = gw_providers g"
  using assms by (auto simp: finish_chat_def count_error_def Let_def split: option.splits prod.splits)

text \<open>One request by the fallback chain. A failure has no lane, so requests and successes of a lane agree.\<close>

lemma chain_chat:
  assumes mode: "chain_mode g" and chat: "chatWithPreferred e req preferred strict g = (g', res)"
  shows "chain_mode g'"
    and "gw_stats g' =
      (case res of
         Inl _ \<Rightarrow> one_error (one_more (gw_stats g))
       | Inr resp \<Rightarrow>
           let lane = (if rs_Model resp \<noteq> [] then extractProviderName (ce_rank e) g (rs_Model resp) else ''unknown'')
           in count_success lane (rs_LatencyMs resp) (count_request lane (one_more (gw_stats g))))"
proof -
  let ?g = "upd_stats one_more g"
  obtain fc where fc: "gw_chain g = Some fc" "gwc_EnableFallbackChain (gw_config g)"
    using mode by (auto simp: chain_mode_def)
  obtain w result where ex: "ExecuteWithFallback (gateway_chain ?g fc) (gw_lookup ?g) req preferred [] strict (gw_world ?g)
      = (w, result)" by (rule prod.exhaust)
  define lane where "lane = chain_lane e ?g result"
  have fin: "finish_chat (ce_elapsed e) (ce_now e) req lane result
      (upd_stats (count_request lane) (?g\<lparr>gw_world := w\<rparr>)) = (g', res)"
    using chat ex fc unfolding chatWithPreferred_def Let_def one_more_def [symmetric]
    by (simp add: lane_def one_more_def)
  show "chain_mode g'"
    using finish_chat_frame [OF fin] fc by (simp add: chain_mode_def)
  have ext: "extractProviderName r ?g m = extractProviderName r g m" for r m
    unfolding extractProviderName_def upd_stats_frame ..
  show "gw_stats g' =
      (case res of
         Inl _ \<Rightarrow> one_error (one_more (gw_stats g))
       | Inr resp \<Rightarrow>
           let lane = (if rs_Model resp \<noteq> [] then extractProviderName (ce_rank e) g (rs_Model resp) else ''unknown'')
           in count_success lane (rs_LatencyMs resp) (count_request lane (one_more (gw_stats g))))"
  proof (cases rule: finish_chat_cases [OF fin])
    case (1 er)
    then have "lane = ''unknown''"
      by (cases result) (auto simp: lane_def chain_lane_def split: option.split)
    then show ?thesis using 1 by simp
  next
    case (2 resp)
    then have "lane = (if rs_Model resp \<noteq> [] then extractProviderName (ce_rank e) g (rs_Model resp) else ''unknown'')"
      by (cases result) (auto simp: lane_def chain_lane_def ext)
    then show ?thesis using 2 by (simp add: Let_def)
  qed
qed

text \<open>A sequence of requests: for each its environment, the request and the preferred provider, or none.\<close>

fun chats :: "('s chat_env \<times> ChatRequest \<times> string) list \<Rightarrow> ('s, 'v) gateway
    \<Rightarrow> ('s, 'v) gateway \<times> (gw_error + ChatResponse) list" where
  "chats [] g = (g, [])"
| "chats ((e, req, preferred) # xs) g =
     (case ChatWithPreferred e req preferred g of
        (g', res) \<Rightarrow> (case chats xs g' of (g'', rest) \<Rightarrow> (g'', res # rest)))"

definition is_answer :: "gw_error + ChatResponse \<Rightarrow> bool" where
  "is_answer res = (case res of Inl _ \<Rightarrow> False | Inr _ \<Rightarrow> True)"

definition answer_latency :: "gw_error + ChatResponse \<Rightarrow> int" where
  "answer_latency res = (case res of Inl _ \<Rightarrow> 0 | Inr resp \<Rightarrow> rs_LatencyMs resp)"

definition lanes_agree :: "GatewayStats \<Rightarrow> bool" where
  "lanes_agree st \<longleftrightarrow>
     gs_LocalWorkerSuccess st = gs_LocalWorkerRequests st
     \<and> gs_PlannerSuccess st = gs_PlannerRequests st
     \<and> gs_FallbackSuccess st = gs_FallbackRequests st"

definition lane_requests :: "GatewayStats \<Rightarrow> int" where
  "lane_requests st = gs_LocalWorkerRequests st + gs_PlannerRequests st + gs_FallbackRequests st"

lemmas lane_stats = count_success_def count_request_def one_more_def one_error_def lanes_agree_def
  lane_requests_def Let_def

lemma chain_chats:
  assumes "chain_mode g" "chats xs g = (g', results)"
  shows "chain_mode g' \<and> length results = length xs
    \<and> gs_TotalRequests (gw_stats g') = gs_TotalRequests (gw_stats g) + int (length xs)
    \<and> gs_RoutingErrors (gw_stats g') = gs_RoutingErrors (gw_stats g) + int (length (filter (\<lambda>x. \<not> is_answer x) results))
    \<and> gs_TimeoutErrors (gw_stats g') = gs_TimeoutErrors (gw_stats g)
    \<and> gs_TotalLatencyMs (gw_stats g') = gs_TotalLatencyMs (gw_stats g) + sum_list (map answer_latency results)
    \<and> (lanes_agree (gw_stats g) \<longrightarrow> lanes_agree (gw_stats g'))
    \<and> lane_requests (gw_stats g') \<le> lane_requests (gw_stats g) + int (length (filter is_answer results))"
  using assms
proof (induction xs arbitrary: g results)
  case (Cons x xs)
  obtain e req preferred where x: "x = (e, req, preferred)" by (cases x)
  obtain h res where h: "ChatWithPreferred e req preferred g = (h, res)" by fastforce
  obtain rest where rest: "chats xs h = (g', rest)" "results = res # rest"
    using Cons.prems x h by (auto split: prod.splits)
  note one = chain_chat [OF Cons.prems(1) h [unfolded ChatWithPreferred_def]]
  note IH = Cons.IH [OF one(1) rest(1)]
  have st: "gs_TotalRequests (gw_stats h) = gs_TotalRequests (gw_stats g) + 1"
      "gs_RoutingErrors (gw_stats h) = gs_RoutingErrors (gw_stats g) + (if is_answer res then 0 else 1)"
      "gs_TimeoutErrors (gw_stats h) = gs_TimeoutErrors (gw_stats g)"
      "gs_TotalLatencyMs (gw_stats h) = gs_TotalLatencyMs (gw_stats g) + answer_latency res"
      "lanes_agree (gw_stats g) \<longrightarrow> lanes_agree (gw_stats h)"
      "lane_requests (gw_stats h) \<le> lane_requests (gw_stats g) + (if is_answer res then 1 else 0)"
    unfolding one(2) by (cases res; simp add: lane_stats is_answer_def answer_latency_def)+
  show ?case using IH st rest(2) by auto
qed simp

subsection \<open>A gateway with the built-in providers\<close>

definition builtin_gateway :: "'s sim_env \<Rightarrow> GatewayConfig \<Rightarrow> 's \<Rightarrow> ('s, 'v) gateway" where
  "builtin_gateway e c w =
     \<lparr>gw_config = c,
      gw_providers =
        [(''local-worker'', NewLocalWorkerProvider e (gwc_LocalWorkerModel c) (gwc_LocalWorkerTimeout c)),
         (''planner'', NewPlannerProvider e (gwc_PlannerModel c) (gwc_PlannerTimeout c)),
         (''fallback'', NewPlannerProvider e (gwc_FallbackModel c) (gwc_PlannerTimeout c))],
      gw_chain = (if gwc_EnableFallbackChain c then Some (gateway_fallback_config c) else None),
      gw_recorder = False, gw_tokens = [], gw_stats = zero_stats, gw_world = w\<rparr>"

lemma NewGateway_builtin: "NewGateway e None (Some c) w = Some (builtin_gateway e c w)"
  by (simp add: NewGateway_def registerBuiltinProviders_def RegisterProvider_def builtin_gateway_def
      initializeFallbackChain_def Let_def)

lemma register_all_frame:
  "register_all ps g = (g', b) \<Longrightarrow> gw_stats g' = gw_stats g \<and> gw_config g' = gw_config g"
  by (induction ps g rule: register_all.induct) (auto simp: RegisterProvider_def split: option.splits bool.splits)

lemma registerBuiltin_frame:
  "registerBuiltinProviders e zenGLM g = (g', b) \<Longrightarrow> gw_stats g' = gw_stats g \<and> gw_config g' = gw_config g"
  unfolding registerBuiltinProviders_def Let_def by (rule register_all_frame)

lemma NewGateway_start:
  assumes "NewGateway e zenGLM c w = Some g" and "gwc_EnableFallbackChain (gw_config g)"
  shows "chain_mode g" "gw_stats g = zero_stats"
  using assms
  by (auto simp: NewGateway_def chain_mode_def initializeFallbackChain_def Let_def
      dest!: registerBuiltin_frame split: prod.splits bool.splits if_splits)

text \<open>C26. The counters of a gateway that routes by its fallback chain, after any sequence of requests:
  the requests and the failures are counted exactly, the latencies of the answers add up, the requests
  of each lane are its successes, no lane takes more than the answers, and nothing counts as a timeout.\<close>

theorem chain_accounting:
  assumes "NewGateway e zenGLM c w = Some g" and "gwc_EnableFallbackChain (gw_config g)"
    and "chats xs g = (g', results)"
  shows "gs_TotalRequests (GetStats g') = int (length xs)
    \<and> gs_RoutingErrors (GetStats g') = int (length (filter (\<lambda>x. \<not> is_answer x) results))
    \<and> gs_TotalLatencyMs (GetStats g') = sum_list (map answer_latency results)
    \<and> lanes_agree (GetStats g')
    \<and> lane_requests (GetStats g') \<le> int (length (filter is_answer results))
    \<and> gs_TimeoutErrors (GetStats g') = 0"
proof -
  have "lanes_agree zero_stats" "lane_requests zero_stats = 0"
    by (simp_all add: zero_stats_def lanes_agree_def lane_requests_def)
  then show ?thesis
    using chain_chats [OF NewGateway_start(1) [OF assms(1,2)] assms(3)] NewGateway_start(2) [OF assms(1,2)]
    by (simp add: GetStats_def) (simp add: zero_stats_def)
qed

text \<open>An environment in which nothing waits and the clock is the world.\<close>

definition free_env :: "int sim_env" where
  "free_env = \<lparr>sim_wait = (\<lambda>timeout d s. (s + d, None)), sim_clock = (\<lambda>s. s)\<rparr>"

definition plain_chat_env :: "'s chat_env" where
  "plain_chat_env = \<lparr>ce_rank = (\<lambda>_. 0), ce_retry = (\<lambda>R att a. fst (att a)), ce_done = (\<lambda>_. False),
     ce_elapsed = 5000000, ce_now = 0\<rparr>"

definition text_request :: "string \<Rightarrow> ChatRequest" where
  "text_request t =
     \<lparr>rq_Messages = [\<lparr>lm_Role = ''user'', lm_Content = t, lm_ReasoningContent = [], lm_ToolCalls = [],
                     lm_ToolCallID = [], lm_Metadata = GNil\<rparr>],
      rq_Tools = [], rq_Model = [], rq_Temperature = Fin 0, rq_MaxTokens = 0, rq_ContextLimit = 0,
      rq_Thinking = False, rq_ThinkingLevel = [], rq_Stream = False, rq_ClusterID = [], rq_ProjectID = [],
      rq_SessionID = [], rq_TaskID = [], rq_SkipPrePass = False\<rparr>"

theorem chain_accounting_witness:
  "\<exists>g g' results.
     chats [(plain_chat_env, text_request ''sum'', [])] (builtin_gateway free_env DefaultGatewayConfig 0 :: (int, unit) gateway)
       = (g', results)
     \<and> gs_TotalRequests (GetStats g') = 1 \<and> lanes_agree (GetStats g')"
proof -
  let ?g = "builtin_gateway free_env DefaultGatewayConfig 0 :: (int, unit) gateway"
  let ?xs = "[(plain_chat_env, text_request ''sum'', [])]"
  obtain g' results where r: "chats ?xs ?g = (g', results)" by (rule prod.exhaust)
  have "gwc_EnableFallbackChain (gw_config ?g)" by (simp add: builtin_gateway_def DefaultGatewayConfig_def)
  from chain_accounting [OF NewGateway_builtin this r] r show ?thesis by auto
qed

subsection \<open>Preferences and lanes\<close>

lemma order_unregistered:
  assumes "\<not> dc_ProviderChecker f preferred"
  shows "ProviderOrderForContext f preferred tokens [] strict = ProviderOrderForContext f [] tokens [] False"
  using assms unfolding order_exact Let_def filter_first_occurrences
  by (simp add: nonempty_def usable_def)

text \<open>
  A preference for a provider that is not registered is dropped, although \<open>ChatWithPreferred\<close> asks for
  that provider only: the request is answered, recorded and counted as one without a preference.\<close>

theorem preference_dropped:
  assumes "gw_lookup g preferred = None"
  shows "ChatWithPreferred e req preferred g = Chat e req g"
proof -
  have "ExecuteWithFallback (gateway_chain (upd_stats f g) fc) (gw_lookup g) req preferred [] strict w
      = ExecuteWithFallback (gateway_chain (upd_stats f g) fc) (gw_lookup g) req [] [] False w" for f fc strict w
    using assms
    by (simp add: ExecuteWithFallback_def gateway_chain_def default_chain_def NewDefaultFallbackChain_def
        order_unregistered)
  then have "chatWithPreferred e req preferred strict g = chatWithPreferred e req [] False g" for strict
    unfolding chatWithPreferred_def Let_def by (simp split: option.split)
  then show ?thesis by (simp add: ChatWithPreferred_def Chat_def)
qed

theorem preference_dropped_witness:
  "ChatWithPreferred plain_chat_env (text_request ''sum'') ''zen-glm''
       (builtin_gateway free_env DefaultGatewayConfig 0 :: (int, unit) gateway)
     = Chat plain_chat_env (text_request ''sum'') (builtin_gateway free_env DefaultGatewayConfig 0)"
  by (rule preference_dropped) (simp add: builtin_gateway_def)

text \<open>Whether the built-in local worker is tried first.\<close>

definition local_first :: "GatewayConfig \<Rightarrow> int \<Rightarrow> bool" where
  "local_first c tokens \<longleftrightarrow>
     tokens \<le> 4000 \<and> (gwc_LocalWorkerMaxTokens c > 0 \<longrightarrow> tokens \<le> gwc_LocalWorkerMaxTokens c)"

lemma builtin_order:
  "co_order (gateway_chain (builtin_gateway e c w) (gateway_fallback_config c)) [] tokens [] False
    = (if tokens \<le> 128000
       then (if local_first c tokens then [''local-worker''] else []) @ [''planner'', ''fallback'']
       else [''local-worker'', ''planner'', ''fallback''])"
proof -
  have fo: "first_occurrences [''local-worker'', ''planner'', ''fallback''] = [''local-worker'', ''planner'', ''fallback'']"
    by (simp add: first_occurrences_def)
  show ?thesis
    by (simp add: gateway_chain_def default_chain_def NewDefaultFallbackChain_def order_exact Let_def
        gateway_fallback_config_def nonempty_def fo usable_def skip_local_def canHandleTokens_def
        builtin_gateway_def local_first_def) auto
qed

lemma builtin_execute:
  assumes wait: "\<And>t d s. snd (sim_wait ev t d s) = None"
  shows "\<exists>s' r. ExecuteWithFallback (gateway_chain (builtin_gateway ev c w :: ('s, 'v) gateway) (gateway_fallback_config c))
        (gw_lookup (builtin_gateway ev c w :: ('s, 'v) gateway)) req [] [] False s = (s', Some r, None)
      \<and> rs_Model r = (if local_first c (estimateRequestTokens (rq_Messages req)) \<or> estimateRequestTokens (rq_Messages req) > 128000
         then gwc_LocalWorkerModel c else gwc_PlannerModel c)"
proof -
  let ?g = "builtin_gateway ev c w :: ('s, 'v) gateway" and ?n = "estimateRequestTokens (rq_Messages req)"
  let ?lane = "if local_first c ?n \<or> ?n > 128000 then ''local-worker'' else ''planner''"
  have go: "\<exists>s'. sim_wait ev t d s = (s', None)" for t d s
    using wait [of t d s] by (cases "sim_wait ev t d s") simp
  have lw: "\<exists>s' r. local_worker_chat ev m t req s = (s', Some r, None) \<and> rs_Model r = m" for m t s
    using go [of "t * second" 50000000 s] by (auto simp: local_worker_chat_def Let_def)
  have pl: "\<exists>s' r. planner_chat ev m t req s = (s', Some r, None) \<and> rs_Model r = m" for m t s
    using go [of "t * second" 200000000 s] by (auto simp: planner_chat_def Let_def)
  obtain rest where order: "co_order (gateway_chain ?g (gateway_fallback_config c)) [] ?n [] False = ?lane # rest"
    unfolding builtin_order by (cases "?n \<le> 128000"; cases "local_first c ?n") auto
  obtain p where p: "gw_lookup ?g ?lane = Some p"
      "\<exists>s' r. pv_Chat p req s = (s', Some r, None)
        \<and> rs_Model r = (if local_first c ?n \<or> ?n > 128000 then gwc_LocalWorkerModel c else gwc_PlannerModel c)"
    using lw [of "gwc_LocalWorkerModel c" "gwc_LocalWorkerTimeout c" s]
      pl [of "gwc_PlannerModel c" "gwc_PlannerTimeout c" s]
    by (cases "local_first c ?n \<or> ?n > 128000")
      (simp_all add: builtin_gateway_def NewLocalWorkerProvider_def NewPlannerProvider_def)
  show ?thesis
    using p unfolding ExecuteWithFallback_def order by auto
qed

lemma gateway_chain_upd [simp]: "gateway_chain (upd_stats f g) fc = gateway_chain g fc"
  by (simp add: gateway_chain_def)

text \<open>
  A gateway with the built-in providers, whose lanes do not fail, answers every request, and the model that
  answers is decided by the estimated tokens: the local one up to 4000 and up to the configured limit,
  the planner's up to 128000, and beyond what any lane can take the local one again.\<close>

theorem builtin_lanes:
  assumes wait: "\<And>t d s. snd (sim_wait ev t d s) = None" and enabled: "gwc_EnableFallbackChain c"
    and new: "NewGateway ev None (Some c) w = Some (g :: ('s, 'v) gateway)"
  shows "\<exists>resp. snd (Chat e req g) = Inr resp
    \<and> rs_Model resp =
        (if local_first c (estimateRequestTokens (rq_Messages req)) \<or> estimateRequestTokens (rq_Messages req) > 128000
         then gwc_LocalWorkerModel c else gwc_PlannerModel c)"
proof -
  have g: "g = builtin_gateway ev c w" using new by (simp add: NewGateway_builtin)
  have cf: "gw_config g = c" "gw_chain g = Some (gateway_fallback_config c)"
    using enabled by (simp_all add: g builtin_gateway_def)
  obtain s' r where "ExecuteWithFallback (gateway_chain g (gateway_fallback_config c)) (gw_lookup g) req [] [] False
        (gw_world g) = (s', Some r, None)"
      and r: "rs_Model r = (if local_first c (estimateRequestTokens (rq_Messages req)) \<or> estimateRequestTokens (rq_Messages req) > 128000
         then gwc_LocalWorkerModel c else gwc_PlannerModel c)"
    using builtin_execute [OF wait, where c = c and w = w and req = req and s = "gw_world g"] unfolding g by blast
  then show ?thesis
    using enabled by (simp add: Chat_def chatWithPreferred_def Let_def finish_chat_def cf)
qed

theorem builtin_lanes_witness:
  "\<exists>resp. snd (Chat plain_chat_env (text_request ''sum'')
         (builtin_gateway free_env DefaultGatewayConfig 0 :: (int, unit) gateway)) = Inr resp
     \<and> rs_Model resp = ''qwen3.5:0.8b''"
proof -
  have "snd (sim_wait free_env t d s) = None" for t d s by (simp add: free_env_def)
  from builtin_lanes [OF this _ NewGateway_builtin, where c = DefaultGatewayConfig and w = 0 and req = "text_request ''sum''"
      and ?'v = unit and e = plain_chat_env]
  show ?thesis
    by (simp add: DefaultGatewayConfig_def local_first_def estimateRequestTokens_def text_request_def)
qed
subsection \<open>The legacy route\<close>

definition is_lane :: "string \<Rightarrow> bool" where
  "is_lane n \<longleftrightarrow> n = ''local-worker'' \<or> n = ''planner'' \<or> n = ''fallback''"

definition lane_successes :: "GatewayStats \<Rightarrow> int" where
  "lane_successes st = gs_LocalWorkerSuccess st + gs_PlannerSuccess st + gs_FallbackSuccess st"

lemma lane_counts:
  "lane_requests (count_request n st) = lane_requests st + (if is_lane n then 1 else 0)"
  "lane_successes (count_success n l st) = lane_successes st + (if is_lane n then 1 else 0)"
  "lane_successes (count_request n st) = lane_successes st"
  "lane_requests (count_success n l st) = lane_requests st"
  "gs_TotalLatencyMs (count_success n l st) = gs_TotalLatencyMs st + l"
  "gs_TotalLatencyMs (count_request n st) = gs_TotalLatencyMs st"
  "lane_successes (one_more st) = lane_successes st" "lane_requests (one_more st) = lane_requests st"
  "gs_TotalLatencyMs (one_more st) = gs_TotalLatencyMs st"
  by (auto simp: lane_stats lane_successes_def is_lane_def)

lemma retry_cases:
  assumes "retryWithRetryable retry ctx_done n fn g = (g', result)"
  obtains (ok) resp where "result = (Some resp, None)" "gw_stats g' = count_success n (rs_LatencyMs resp) (gw_stats g)"
  | (failed) "fst result = None"
      "gw_stats g' = (gw_stats g)\<lparr>gs_TimeoutErrors := gs_TimeoutErrors (gw_stats g) + 1\<rparr>"
  using assms unfolding retryWithRetryable_def by (auto simp: Let_def split: prod.splits option.splits)

lemma Route_upd [simp]: "Route (upd_stats f g) req = Route g req"
  unfolding Route_def upd_stats_frame ..

text \<open>
  Without the fallback chain an answered request is counted twice as a success: once when the retries end
  and once when the request ends. One request of a lane adds two to its successes, and to the total
  latency both the latency the provider reports and the one the gateway measures.\<close>

theorem legacy_counts_twice:
  assumes legacy: "gwc_EnableFallbackChain (gw_config g) = False"
    and route: "Route g req = Some (p, why)" and lane: "is_lane (pv_Name p)"
    and chat: "Chat e req g = (g', Inr resp)"
  shows "lane_requests (gw_stats g') = lane_requests (gw_stats g) + 1
    \<and> lane_successes (gw_stats g') = lane_successes (gw_stats g) + 2
    \<and> (\<exists>reported. gs_TotalLatencyMs (gw_stats g') = gs_TotalLatencyMs (gw_stats g) + reported + rs_LatencyMs resp)"
proof -
  let ?h = "upd_stats (count_request (pv_Name p)) (upd_stats one_more g)"
  obtain k result where k: "retryWithRetryable (ce_retry e) (ce_done e) (pv_Name p) (pv_Chat p req) ?h = (k, result)"
      and fin: "finish_chat (ce_elapsed e) (ce_now e) req (pv_Name p) result k = (g', Inr resp)"
    using legacy route chat unfolding Chat_def chatWithPreferred_def Let_def one_more_def [symmetric]
    by (auto split: prod.splits)
  show ?thesis
  proof (cases rule: finish_chat_cases [OF fin])
    case (2 r)
    then have "\<exists>l. gw_stats k = count_success (pv_Name p) l (gw_stats ?h)"
      by (cases rule: retry_cases [OF k]) auto
    then obtain l where "gw_stats k = count_success (pv_Name p) l (gw_stats ?h)" ..
    then show ?thesis using 2 lane by (auto simp: lane_counts)
  qed simp
qed

theorem legacy_counts_twice_witness:
  "\<exists>g' resp. Chat plain_chat_env (text_request ''sum'')
       (builtin_gateway free_env (DefaultGatewayConfig\<lparr>gwc_EnableFallbackChain := False\<rparr>) 0 :: (int, unit) gateway) = (g', Inr resp)
     \<and> lane_successes (gw_stats g') = 2"
proof -
  let ?c = "DefaultGatewayConfig\<lparr>gwc_EnableFallbackChain := False\<rparr>"
  let ?g = "builtin_gateway free_env ?c 0 :: (int, unit) gateway"
  let ?p = "NewLocalWorkerProvider free_env (gwc_LocalWorkerModel ?c) (gwc_LocalWorkerTimeout ?c) :: (int, unit) provider"
  have simple: "isComplexTask (text_request ''sum'') = False"
    by code_simp
  have r: "Route ?g (text_request ''sum'') = Some (?p, ''simple routing: local worker for non-complex task'')"
    unfolding Route_def simple Let_def
    by (simp add: builtin_gateway_def DefaultGatewayConfig_def supportsRequiredTools_def text_request_def)
  have "\<exists>g' resp. Chat plain_chat_env (text_request ''sum'') ?g = (g', Inr resp)"
    unfolding Chat_def chatWithPreferred_def Let_def Route_upd r
    by (simp add: builtin_gateway_def DefaultGatewayConfig_def retryWithRetryable_def
        plain_chat_env_def attempt_def NewLocalWorkerProvider_def local_worker_chat_def free_env_def
        finish_chat_def Let_def)
  then obtain g' resp where c: "Chat plain_chat_env (text_request ''sum'') ?g = (g', Inr resp)" by blast
  have "gwc_EnableFallbackChain (gw_config ?g) = False" "is_lane (pv_Name ?p)" "lane_successes (gw_stats ?g) = 0"
    by (simp_all add: builtin_gateway_def is_lane_def NewLocalWorkerProvider_def lane_successes_def zero_stats_def)
  with legacy_counts_twice [OF _ r _ c] c show ?thesis by auto
qed

end
