(* ===== verification/Query_Index.thy ===== *)
theory Query_Index
  imports Journal_Types
begin

text \<open>
  The query index of the journal (\<open>internal/journal/receiptlog/query_index.go\<close>).

  The code tells a nil slice from an empty one, so the slice a query works on is an option: \<open>None\<close> is
  nil. \<open>sort.Search\<close> is the library's binary search. Sequence numbers stay below \<open>2 ^ 64\<close>.
\<close>

record TimeRangeEntry =
  tre_Sequence :: nat
  tre_Timestamp :: time
  tre_EventType :: string

type_synonym seq_index = "(string, nat list) gomap"

record QueryIndex =
  qi_ByEventType :: seq_index
  qi_ByCorrelationID :: seq_index
  qi_ByTaskID :: seq_index
  qi_BySessionID :: seq_index
  qi_BySREDTag :: seq_index
  qi_ByTimestamp :: "TimeRangeEntry list"
  qi_ByClusterID :: seq_index
  qi_ByProjectID :: seq_index

definition NewQueryIndex :: QueryIndex where
  "NewQueryIndex =
     \<lparr>qi_ByEventType = [], qi_ByCorrelationID = [], qi_ByTaskID = [], qi_BySessionID = [],
      qi_BySREDTag = [], qi_ByTimestamp = [], qi_ByClusterID = [], qi_ByProjectID = []\<rparr>"

text \<open>The elements of \<open>m[k]\<close>, none for an absent key, and \<open>m[k] = append(m[k], s)\<close>.\<close>

definition seqs_at :: "seq_index \<Rightarrow> string \<Rightarrow> nat list" where
  "seqs_at m k = (case map_of m k of None \<Rightarrow> [] | Some xs \<Rightarrow> xs)"

definition add_seq :: "string \<Rightarrow> nat \<Rightarrow> seq_index \<Rightarrow> seq_index" where
  "add_seq k s m = AList.update k (seqs_at m k @ [s]) m"

definition add_nonempty :: "string \<Rightarrow> nat \<Rightarrow> seq_index \<Rightarrow> seq_index" where
  "add_nonempty k s m = (if k \<noteq> '''' then add_seq k s m else m)"

subsection \<open>Binary search\<close>

text \<open>\<open>sort.Search\<close> between \<open>i\<close> and \<open>j\<close>: the least index where \<open>f\<close> holds, if \<open>f\<close> is monotone.\<close>

function search_between :: "(nat \<Rightarrow> bool) \<Rightarrow> nat \<Rightarrow> nat \<Rightarrow> nat" where
  "search_between f i j =
     (if i < j
      then (let h = (i + j) div 2
            in if \<not> f h then search_between f (h + 1) j else search_between f i h)
      else i)"
  by pat_completeness auto
termination
  by (relation "measure (\<lambda>(f, i, j). j - i)") auto

declare search_between.simps [simp del]

definition sort_Search :: "nat \<Rightarrow> (nat \<Rightarrow> bool) \<Rightarrow> nat" where
  "sort_Search n f = search_between f 0 n"

subsection \<open>Adding and removing\<close>

definition insertSorted :: "TimeRangeEntry \<Rightarrow> TimeRangeEntry list \<Rightarrow> TimeRangeEntry list" where
  "insertSorted entry ts =
     (let i = sort_Search (length ts) (\<lambda>i. time_before (tre_Timestamp entry) (tre_Timestamp (ts ! i)))
      in take i ts @ entry # drop i ts)"

definition Add :: "Receipt \<Rightarrow> QueryIndex \<Rightarrow> QueryIndex" where
  "Add receipt idx =
     (let e = re_Entry receipt; s = re_Sequence receipt
      in idx\<lparr>qi_ByEventType := add_seq (en_EventType e) s (qi_ByEventType idx),
             qi_ByCorrelationID := add_nonempty (en_CorrelationID e) s (qi_ByCorrelationID idx),
             qi_ByTaskID := add_nonempty (en_TaskID e) s (qi_ByTaskID idx),
             qi_BySessionID := add_nonempty (en_SessionID e) s (qi_BySessionID idx),
             qi_ByClusterID := add_nonempty (en_ClusterID e) s (qi_ByClusterID idx),
             qi_ByProjectID := add_nonempty (en_ProjectID e) s (qi_ByProjectID idx),
             qi_BySREDTag := fold (\<lambda>tag m. add_seq tag s m) (en_SREDTags e) (qi_BySREDTag idx),
             qi_ByTimestamp :=
               insertSorted \<lparr>tre_Sequence = s, tre_Timestamp = en_Timestamp e, tre_EventType = en_EventType e\<rparr>
                 (qi_ByTimestamp idx)\<rparr>)"

fun remove_first :: "nat \<Rightarrow> TimeRangeEntry list \<Rightarrow> TimeRangeEntry list" where
  "remove_first s [] = []"
| "remove_first s (t # ts) = (if tre_Sequence t = s then ts else t # remove_first s ts)"

definition Remove :: "nat \<Rightarrow> QueryIndex \<Rightarrow> QueryIndex" where
  "Remove s idx = idx\<lparr>qi_ByTimestamp := remove_first s (qi_ByTimestamp idx)\<rparr>"

subsection \<open>Queries\<close>

definition slice_of :: "nat list option \<Rightarrow> nat list" where
  "slice_of xs = (case xs of None \<Rightarrow> [] | Some ys \<Rightarrow> ys)"

text \<open>A slice built by appending to a nil slice stays nil when nothing was appended.\<close>

definition appended :: "nat list \<Rightarrow> nat list option" where
  "appended ys = (if ys = [] then None else Some ys)"

definition filterSequences :: "nat list option \<Rightarrow> nat list \<Rightarrow> nat list option" where
  "filterSequences base keep =
     (case base of
        None \<Rightarrow> Some keep
      | Some xs \<Rightarrow> appended (filter (\<lambda>s. s \<in> set keep) xs))"

definition filter_key :: "seq_index \<Rightarrow> string \<Rightarrow> nat list option \<Rightarrow> nat list option" where
  "filter_key m k base = (if k \<noteq> '''' then filterSequences base (seqs_at m k) else base)"

definition findBySequence :: "QueryIndex \<Rightarrow> nat \<Rightarrow> TimeRangeEntry option" where
  "findBySequence idx s = find (\<lambda>t. tre_Sequence t = s) (qi_ByTimestamp idx)"

definition getTimeRangeSequences :: "QueryIndex \<Rightarrow> time \<Rightarrow> time \<Rightarrow> nat list" where
  "getTimeRangeSequences idx start end' =
     (let ts = qi_ByTimestamp idx;
          startIdx = sort_Search (length ts)
            (\<lambda>i. time_after (tre_Timestamp (ts ! i)) start \<or> tre_Timestamp (ts ! i) = start);
          endIdx = (if \<not> is_zero_time end'
                    then sort_Search (length ts) (\<lambda>i. time_after (tre_Timestamp (ts ! i)) end')
                    else length ts)
      in map (\<lambda>i. tre_Sequence (ts ! i)) [startIdx..<endIdx])"

definition in_time :: "time \<Rightarrow> time \<Rightarrow> TimeRangeEntry \<Rightarrow> bool" where
  "in_time start end' entry \<longleftrightarrow>
     (is_zero_time start \<or> time_after (tre_Timestamp entry) start \<or> tre_Timestamp entry = start)
     \<and> (is_zero_time end' \<or> time_before (tre_Timestamp entry) end')"

definition filterByTime :: "QueryIndex \<Rightarrow> nat list option \<Rightarrow> time \<Rightarrow> time \<Rightarrow> nat list option" where
  "filterByTime idx sequences start end' =
     (let xs = (if slice_of sequences = [] then getTimeRangeSequences idx start end' else slice_of sequences)
      in appended
           (filter (\<lambda>s. case findBySequence idx s of None \<Rightarrow> False | Some entry \<Rightarrow> in_time start end' entry) xs))"

definition key_filters :: "QueryIndex \<Rightarrow> QueryOptions \<Rightarrow> nat list option" where
  "key_filters idx opts =
     filter_key (qi_BySREDTag idx) (qo_SREDTag opts)
     (filter_key (qi_ByProjectID idx) (qo_ProjectID opts)
     (filter_key (qi_ByClusterID idx) (qo_ClusterID opts)
     (filter_key (qi_BySessionID idx) (qo_SessionID opts)
     (filter_key (qi_ByTaskID idx) (qo_TaskID opts)
     (filter_key (qi_ByCorrelationID idx) (qo_CorrelationID opts)
     (filter_key (qi_ByEventType idx) (qo_EventType opts) None))))))"

definition limit_and_order :: "QueryOptions \<Rightarrow> nat list \<Rightarrow> nat list" where
  "limit_and_order opts xs =
     (let limited = (if qo_Limit opts > 0 \<and> int (length xs) > qo_Limit opts
                     then take (nat (qo_Limit opts)) xs else xs)
      in if qo_OrderBy opts = ''asc'' then limited else rev (sort limited))"

definition Query :: "QueryOptions \<Rightarrow> QueryIndex \<Rightarrow> nat list" where
  "Query opts idx =
     (let sequences = key_filters idx opts;
          timed = (if \<not> is_zero_time (qo_Start opts) \<or> \<not> is_zero_time (qo_End opts)
                   then filterByTime idx sequences (qo_Start opts) (qo_End opts)
                   else sequences)
      in limit_and_order opts (slice_of timed))"

definition QueryByEventType :: "string \<Rightarrow> QueryIndex \<Rightarrow> nat list" where
  "QueryByEventType k idx = seqs_at (qi_ByEventType idx) k"

definition QueryByCorrelationID :: "string \<Rightarrow> QueryIndex \<Rightarrow> nat list" where
  "QueryByCorrelationID k idx = seqs_at (qi_ByCorrelationID idx) k"

definition QueryByTaskID :: "string \<Rightarrow> QueryIndex \<Rightarrow> nat list" where
  "QueryByTaskID k idx = seqs_at (qi_ByTaskID idx) k"

definition QueryBySREDTag :: "string \<Rightarrow> QueryIndex \<Rightarrow> nat list" where
  "QueryBySREDTag k idx = seqs_at (qi_BySREDTag idx) k"

record IndexStats =
  is_TotalEntries :: nat
  is_TotalEventTypes :: nat
  is_TotalCorrelations :: nat
  is_TotalTasks :: nat
  is_TotalSessions :: nat
  is_TotalClusters :: nat
  is_TotalProjects :: nat
  is_TotalSREDTags :: nat
  is_LastSequence :: nat
  is_OldestTimestamp :: time
  is_NewestTimestamp :: time

definition index_Stats :: "QueryIndex \<Rightarrow> IndexStats" where
  "index_Stats idx =
     (let ts = qi_ByTimestamp idx
      in \<lparr>is_TotalEntries = length ts, is_TotalEventTypes = length (qi_ByEventType idx),
          is_TotalCorrelations = length (qi_ByCorrelationID idx), is_TotalTasks = length (qi_ByTaskID idx),
          is_TotalSessions = length (qi_BySessionID idx), is_TotalClusters = length (qi_ByClusterID idx),
          is_TotalProjects = length (qi_ByProjectID idx), is_TotalSREDTags = length (qi_BySREDTag idx),
          is_LastSequence = (if ts \<noteq> [] then tre_Sequence (last ts) else 0),
          is_OldestTimestamp = (if ts \<noteq> [] then tre_Timestamp (hd ts) else zero_time),
          is_NewestTimestamp = (if ts \<noteq> [] then tre_Timestamp (last ts) else zero_time)\<rparr>)"

end
