(* ===== verification/Journal.thy ===== *)
theory Journal
  imports Query_Index
begin

text \<open>
  The journal (\<open>internal/journal/receiptlog/journal.go\<close>): recording an entry in the ledger and the index,
  and reading receipts back.

  The ledger (\<open>zen-sdk/pkg/receiptlog\<close>) is code of another module, a parameter: \<open>record_op\<close> takes an entry
  of the ledger to the new ledger state and a receipt or an error, \<open>fetch\<close> is its \<open>Get\<close> together with the
  conversion of the receipt. JSON encoding is a parameter too: \<open>codec\<close> holds the four functions used.
\<close>

record journalMeta =
  jm_ClusterID :: string
  jm_Payload :: string
  jm_ProjectID :: string
  jm_SessionID :: string
  jm_SREDTags :: string
  jm_TaskID :: string

text \<open>An entry and a receipt of the ledger; \<open>Metadata\<close> is a map with the single key \<open>_j\<close>.\<close>

record ledger_entry =
  le_EventType :: string
  le_Source :: string
  le_ExternalID :: string
  le_Payload :: string
  le_Metadata :: "string \<rightharpoonup> string"
  le_Timestamp :: time

record ledger_receipt =
  lr_Entry :: ledger_entry
  lr_Sequence :: nat
  lr_Hash :: string
  lr_PrevHash :: string
  lr_RecordedAt :: time

record json_codec =
  marshal_value :: "gval \<Rightarrow> string option"
  unmarshal_value :: "string \<Rightarrow> gval option"
  marshal_meta :: "journalMeta \<Rightarrow> string option"
  unmarshal_meta :: "string \<Rightarrow> journalMeta option"

subsection \<open>Joining and splitting tags\<close>

fun join_comma :: "string list \<Rightarrow> string" where
  "join_comma [] = ''''"
| "join_comma [x] = x"
| "join_comma (x # y # xs) = x @ '','' @ join_comma (y # xs)"

fun split_comma :: "string \<Rightarrow> string list" where
  "split_comma [] = ['''']"
| "split_comma (c # s) =
     (if c = CHR '','' then '''' # split_comma s
      else (case split_comma s of [] \<Rightarrow> [[c]] | w # ws \<Rightarrow> (c # w) # ws))"

subsection \<open>Recording\<close>

datatype journal_error =
    JEMarshal | JELedger string | JENoReceipts

definition to_ledger_entry :: "json_codec \<Rightarrow> Entry \<Rightarrow> journal_error + ledger_entry" where
  "to_ledger_entry codec entry =
     (case marshal_value codec (en_Payload entry) of
        None \<Rightarrow> Inl JEMarshal
      | Some payloadJSON \<Rightarrow>
          (case marshal_meta codec
                  \<lparr>jm_ClusterID = en_ClusterID entry, jm_Payload = payloadJSON,
                   jm_ProjectID = en_ProjectID entry, jm_SessionID = en_SessionID entry,
                   jm_SREDTags = (if en_SREDTags entry \<noteq> [] then join_comma (en_SREDTags entry) else ''''),
                   jm_TaskID = en_TaskID entry\<rparr> of
             None \<Rightarrow> Inl JEMarshal
           | Some metaJSON \<Rightarrow>
               Inr \<lparr>le_EventType = en_EventType entry, le_Source = en_Actor entry,
                    le_ExternalID = en_CorrelationID entry, le_Payload = payloadJSON,
                    le_Metadata = [''_j'' \<mapsto> metaJSON], le_Timestamp = en_Timestamp entry\<rparr>))"

definition toJournalReceipt :: "ledger_receipt \<Rightarrow> Entry \<Rightarrow> Receipt" where
  "toJournalReceipt r entry =
     \<lparr>re_Entry = entry, re_Sequence = lr_Sequence r, re_Hash = lr_Hash r,
      re_PrevHash = lr_PrevHash r, re_RecordedAt = lr_RecordedAt r\<rparr>"

type_synonym 'l ledger_record = "ledger_entry \<Rightarrow> 'l \<Rightarrow> 'l \<times> (string + ledger_receipt)"

definition journal_Record ::
    "json_codec \<Rightarrow> 'l ledger_record \<Rightarrow> Entry \<Rightarrow> 'l \<times> QueryIndex \<Rightarrow>
       ('l \<times> QueryIndex) \<times> (journal_error + Receipt)" where
  "journal_Record codec record_op entry j =
     (case j of (ledger, index) \<Rightarrow>
        (case to_ledger_entry codec entry of
           Inl err \<Rightarrow> (j, Inl err)
         | Inr le \<Rightarrow>
             (case record_op le ledger of
                (ledger1, Inl err) \<Rightarrow> ((ledger1, index), Inl (JELedger err))
              | (ledger1, Inr r) \<Rightarrow>
                  ((ledger1, Add (toJournalReceipt r entry) index), Inr (toJournalReceipt r entry)))))"

subsection \<open>Reading back\<close>

definition no_entry :: Entry where
  "no_entry =
     \<lparr>en_EventType = '''', en_Actor = '''', en_CorrelationID = '''', en_TaskID = '''', en_SessionID = '''',
      en_ClusterID = '''', en_ProjectID = '''', en_Payload = GNil, en_SREDTags = [], en_Timestamp = zero_time\<rparr>"

definition fromReceiptlogReceipt :: "json_codec \<Rightarrow> ledger_receipt \<Rightarrow> Receipt" where
  "fromReceiptlogReceipt codec r =
     (let le = lr_Entry r;
          entry0 = no_entry\<lparr>en_EventType := le_EventType le, en_Actor := le_Source le,
                            en_CorrelationID := le_ExternalID le, en_Timestamp := le_Timestamp le\<rparr>;
          entry = (case le_Metadata le ''_j'' of
                     None \<Rightarrow> entry0
                   | Some metaStr \<Rightarrow>
                       (case unmarshal_meta codec metaStr of
                          None \<Rightarrow> entry0
                        | Some meta \<Rightarrow>
                            (let entry1 = entry0\<lparr>en_TaskID := jm_TaskID meta, en_SessionID := jm_SessionID meta,
                                                 en_ClusterID := jm_ClusterID meta,
                                                 en_ProjectID := jm_ProjectID meta\<rparr>;
                                 entry2 = (if jm_SREDTags meta \<noteq> ''''
                                           then entry1\<lparr>en_SREDTags := split_comma (jm_SREDTags meta)\<rparr> else entry1)
                             in if jm_Payload meta \<noteq> ''''
                                then (case unmarshal_value codec (jm_Payload meta) of
                                        None \<Rightarrow> entry2
                                      | Some payload \<Rightarrow> entry2\<lparr>en_Payload := payload\<rparr>)
                                else entry2)))
      in \<lparr>re_Entry = entry, re_Sequence = lr_Sequence r, re_Hash = lr_Hash r,
          re_PrevHash = lr_PrevHash r, re_RecordedAt = lr_RecordedAt r\<rparr>)"

subsection \<open>Queries\<close>

text \<open>\<open>fetch s\<close> is the ledger's answer for sequence \<open>s\<close>: an error, or a receipt that may be nil.\<close>

type_synonym fetch_fn = "nat \<Rightarrow> journal_error + Receipt option"

fun fetch_all :: "fetch_fn \<Rightarrow> nat list \<Rightarrow> Receipt list" where
  "fetch_all fetch [] = []"
| "fetch_all fetch (s # ss) =
     (case fetch s of
        Inr (Some r) \<Rightarrow> r # fetch_all fetch ss
      | _ \<Rightarrow> fetch_all fetch ss)"

definition FetchReceipts :: "fetch_fn \<Rightarrow> nat list \<Rightarrow> journal_error + Receipt list" where
  "FetchReceipts fetch sequences =
     (let receipts = fetch_all fetch sequences
      in if receipts = [] then Inl JENoReceipts else Inr receipts)"

definition fetch_found :: "fetch_fn \<Rightarrow> nat list \<Rightarrow> journal_error + Receipt list" where
  "fetch_found fetch sequences = (if sequences = [] then Inr [] else FetchReceipts fetch sequences)"

definition journal_Query :: "fetch_fn \<Rightarrow> QueryOptions \<Rightarrow> QueryIndex \<Rightarrow> journal_error + Receipt list" where
  "journal_Query fetch opts idx = fetch_found fetch (Query opts idx)"

definition journal_QueryByCorrelation ::
    "fetch_fn \<Rightarrow> string \<Rightarrow> QueryIndex \<Rightarrow> journal_error + Receipt list" where
  "journal_QueryByCorrelation fetch k idx = fetch_found fetch (QueryByCorrelationID k idx)"

definition journal_QueryByTask ::
    "fetch_fn \<Rightarrow> string \<Rightarrow> QueryIndex \<Rightarrow> journal_error + Receipt list" where
  "journal_QueryByTask fetch k idx = fetch_found fetch (QueryByTaskID k idx)"

definition journal_QueryBySREDTag ::
    "fetch_fn \<Rightarrow> string \<Rightarrow> time \<Rightarrow> time \<Rightarrow> QueryIndex \<Rightarrow> journal_error + Receipt list" where
  "journal_QueryBySREDTag fetch tag start end' idx =
     (let sequences = QueryBySREDTag tag idx
      in if \<not> is_zero_time start \<or> \<not> is_zero_time end'
         then fetch_found fetch (slice_of (filterByTime idx (Some sequences) start end'))
         else fetch_found fetch sequences)"

end
