(* ===== verification/Journal_Properties.thy ===== *)
theory Journal_Properties
  imports Journal
begin

text \<open>
  Properties of the journal: the binary search and the sorted time index, what the index holds after
  receipts were added, what a query returns, and the round trip of an entry through the ledger.
\<close>

subsection \<open>Binary search\<close>

lemma search_between_spec:
  assumes "i \<le> j" and "j \<le> n" and "\<And>k. k < i \<Longrightarrow> \<not> f k" and "\<And>k. j \<le> k \<Longrightarrow> k < n \<Longrightarrow> f k"
    and mono: "\<And>k l. k \<le> l \<Longrightarrow> l < n \<Longrightarrow> f k \<Longrightarrow> f l"
  shows "search_between f i j \<le> n \<and> (\<forall>k < search_between f i j. \<not> f k)
     \<and> (\<forall>k < n. search_between f i j \<le> k \<longrightarrow> f k)"
  using assms
proof (induction f i j rule: search_between.induct)
  case (1 f i j)
  let ?h = "(i + j) div 2"
  show ?case
  proof (cases "i < j")
    case True
    then have h: "i \<le> ?h" "?h < j" by linarith+
    show ?thesis
    proof (cases "f ?h")
      case f: True
      have "search_between f i ?h \<le> n \<and> (\<forall>k < search_between f i ?h. \<not> f k)
          \<and> (\<forall>k < n. search_between f i ?h \<le> k \<longrightarrow> f k)"
        using "1.IH"(2) [OF True refl] f h "1.prems" by auto
      then show ?thesis using True f by (simp add: search_between.simps [of f i j] Let_def)
    next
      case nf: False
      have below: "\<not> f k" if "k < ?h + 1" for k
        using that nf h "1.prems"(2) "1.prems"(5) [of k ?h] by fastforce
      have "search_between f (?h + 1) j \<le> n \<and> (\<forall>k < search_between f (?h + 1) j. \<not> f k)
          \<and> (\<forall>k < n. search_between f (?h + 1) j \<le> k \<longrightarrow> f k)"
        using "1.IH"(1) [OF True refl] nf h below "1.prems" by auto
      then show ?thesis using True nf by (simp add: search_between.simps [of f i j] Let_def)
    qed
  next
    case False
    then have "search_between f i j = i" by (simp add: search_between.simps [of f i j])
    moreover have "i = j" using False "1.prems"(1) by simp
    ultimately show ?thesis using "1.prems"(2-4) by simp
  qed
qed

lemma sort_Search_spec:
  assumes "\<And>k l. k \<le> l \<Longrightarrow> l < n \<Longrightarrow> f k \<Longrightarrow> f l"
  shows "sort_Search n f \<le> n" and "k < sort_Search n f \<Longrightarrow> \<not> f k"
    and "sort_Search n f \<le> k \<Longrightarrow> k < n \<Longrightarrow> f k"
  using search_between_spec [of 0 n n f] assms unfolding sort_Search_def by auto

text \<open>On a list the search finds the end of the longest prefix without the property.\<close>

lemma sort_Search_takeWhile:
  assumes "\<And>k l. k \<le> l \<Longrightarrow> l < length xs \<Longrightarrow> P (xs ! k) \<Longrightarrow> P (xs ! l)"
  shows "take (sort_Search (length xs) (\<lambda>i. P (xs ! i))) xs = takeWhile (\<lambda>x. \<not> P x) xs"
    and "drop (sort_Search (length xs) (\<lambda>i. P (xs ! i))) xs = dropWhile (\<lambda>x. \<not> P x) xs"
proof -
  let ?r = "sort_Search (length xs) (\<lambda>i. P (xs ! i))"
  have le: "?r \<le> length xs"
    by (rule sort_Search_spec(1)) (rule assms)
  have eq: "takeWhile (\<lambda>x. \<not> P x) xs = take ?r xs"
  proof (rule takeWhile_eq_take_P_nth)
    show "\<not> P (xs ! i)" if "i < ?r" for i
      using that by (rule sort_Search_spec(2) [rotated]) (rule assms)
    show "\<not> \<not> P (xs ! ?r)" if "?r < length xs"
      using sort_Search_spec(3) [where f = "\<lambda>i. P (xs ! i)" and n = "length xs" and k = ?r] assms that by blast
  qed
  then show "take ?r xs = takeWhile (\<lambda>x. \<not> P x) xs" by simp
  have len: "length (takeWhile (\<lambda>x. \<not> P x) xs) = ?r" using eq le by simp
  show "drop ?r xs = dropWhile (\<lambda>x. \<not> P x) xs" using len by (metis dropWhile_eq_drop)
qed

subsection \<open>The time index\<close>

abbreviation "stamps ts \<equiv> map tre_Timestamp ts"

lemma sorted_times_mono:
  "sorted (stamps ts) \<Longrightarrow> k \<le> l \<Longrightarrow> l < length ts \<Longrightarrow> tre_Timestamp (ts ! k) \<le> tre_Timestamp (ts ! l)"
  using sorted_nth_mono [of "stamps ts" k l] by simp

lemma insertSorted_split:
  assumes "sorted (stamps ts)"
  shows "insertSorted e ts =
     takeWhile (\<lambda>t. tre_Timestamp t \<le> tre_Timestamp e) ts
     @ e # dropWhile (\<lambda>t. tre_Timestamp t \<le> tre_Timestamp e) ts"
proof -
  have mono: "tre_Timestamp e < tre_Timestamp (ts ! l)"
    if "k \<le> l" "l < length ts" "tre_Timestamp e < tre_Timestamp (ts ! k)" for k l
    using sorted_times_mono [OF assms that(1,2)] that(3) by simp
  show ?thesis
    unfolding insertSorted_def Let_def time_before_def
    using sort_Search_takeWhile [where P = "\<lambda>t. tre_Timestamp e < tre_Timestamp t", OF mono]
    by (simp add: not_less)
qed

lemma mset_insertSorted: "sorted (stamps ts) \<Longrightarrow> mset (insertSorted e ts) = add_mset e (mset ts)"
  by (simp add: insertSorted_split union_code [symmetric] del: union_code)
     (metis mset_append takeWhile_dropWhile_id)

lemma takeWhile_all: "x \<in> set (takeWhile P xs) \<Longrightarrow> P x"
  by (rule set_takeWhileD [THEN conjunct2])

lemma sorted_insertSorted: "sorted (stamps ts) \<Longrightarrow> sorted (stamps (insertSorted e ts))"
proof -
  assume s: "sorted (stamps ts)"
  let ?P = "\<lambda>t. tre_Timestamp t \<le> tre_Timestamp e"
  have "sorted (stamps (takeWhile ?P ts) @ stamps (dropWhile ?P ts))"
    using s by (metis map_append takeWhile_dropWhile_id)
  moreover have "tre_Timestamp e \<le> tre_Timestamp t" if "t \<in> set (dropWhile ?P ts)" for t
  proof -
    have "dropWhile ?P ts \<noteq> []" using that by (metis empty_iff list.set(1))
    then obtain u us where d: "dropWhile ?P ts = u # us" by (metis list.exhaust)
    then have "\<not> ?P u" by (metis hd_dropWhile list.sel(1) list.discI)
    moreover have "tre_Timestamp u \<le> tre_Timestamp t"
      using calculation that d \<open>sorted (stamps (takeWhile ?P ts) @ stamps (dropWhile ?P ts))\<close>
      by (auto simp: sorted_append)
    ultimately show ?thesis by simp
  qed
  ultimately show ?thesis
    by (auto simp: insertSorted_split [OF s] sorted_append dest: takeWhile_all)
qed

definition time_entry :: "Receipt \<Rightarrow> TimeRangeEntry" where
  "time_entry r =
     \<lparr>tre_Sequence = re_Sequence r, tre_Timestamp = en_Timestamp (re_Entry r),
      tre_EventType = en_EventType (re_Entry r)\<rparr>"

abbreviation "indexed rs \<equiv> fold Add rs NewQueryIndex"

lemma Add_ByTimestamp: "qi_ByTimestamp (Add r idx) = insertSorted (time_entry r) (qi_ByTimestamp idx)"
  by (simp add: Add_def Let_def time_entry_def)

lemma indexed_times:
  "sorted (stamps (qi_ByTimestamp (indexed rs))) \<and> mset (qi_ByTimestamp (indexed rs)) = mset (map time_entry rs)"
  by (induction rs rule: rev_induct)
    (simp_all add: NewQueryIndex_def Add_ByTimestamp sorted_insertSorted mset_insertSorted)

lemma find_distinct:
  "distinct (map f xs) \<Longrightarrow> x \<in> set xs \<Longrightarrow> find (\<lambda>y. f y = f x) xs = Some x"
  by (induction xs) (auto simp: image_iff)

lemma findBySequence_indexed:
  assumes "distinct (map re_Sequence rs)" and "r \<in> set rs"
  shows "findBySequence (indexed rs) (re_Sequence r) = Some (time_entry r)"
proof -
  let ?ts = "qi_ByTimestamp (indexed rs)"
  have m: "mset ?ts = mset (map time_entry rs)" using indexed_times by blast
  then have "mset (map tre_Sequence ?ts) = mset (map (tre_Sequence \<circ> time_entry) rs)"
    by (metis list.map_comp mset_map)
  moreover have "tre_Sequence \<circ> time_entry = re_Sequence" by (auto simp: time_entry_def)
  ultimately have "distinct (map tre_Sequence ?ts)" using assms(1) by (metis mset_eq_imp_distinct_iff)
  moreover have "time_entry r \<in> set ?ts" using mset_eq_setD [OF m] assms(2) by auto
  ultimately have "find (\<lambda>t. tre_Sequence t = tre_Sequence (time_entry r)) ?ts = Some (time_entry r)"
    by (rule find_distinct)
  then show ?thesis by (simp add: findBySequence_def time_entry_def)
qed

subsection \<open>The key indexes\<close>

lemma seqs_at_add [simp]: "seqs_at (add_seq k s m) k' = (if k' = k then seqs_at m k @ [s] else seqs_at m k')"
  by (simp add: seqs_at_def add_seq_def update_conv')

lemma seqs_at_add_nonempty [simp]:
  "k' \<noteq> '''' \<Longrightarrow> seqs_at (add_nonempty k s m) k' = (if k' = k then seqs_at m k @ [s] else seqs_at m k')"
  by (simp add: add_nonempty_def)

lemma seqs_at_Nil [simp]: "seqs_at [] k = []"
  by (simp add: seqs_at_def)

lemma seqs_at_tags:
  "distinct tags \<Longrightarrow> seqs_at (fold (\<lambda>tag m. add_seq tag s m) tags m) k = seqs_at m k @ (if k \<in> set tags then [s] else [])"
  by (induction tags arbitrary: m) auto

lemma Add_indexes:
  "qi_ByEventType (Add r idx) = add_seq (en_EventType (re_Entry r)) (re_Sequence r) (qi_ByEventType idx)"
  "qi_ByCorrelationID (Add r idx) = add_nonempty (en_CorrelationID (re_Entry r)) (re_Sequence r) (qi_ByCorrelationID idx)"
  "qi_ByTaskID (Add r idx) = add_nonempty (en_TaskID (re_Entry r)) (re_Sequence r) (qi_ByTaskID idx)"
  "qi_BySessionID (Add r idx) = add_nonempty (en_SessionID (re_Entry r)) (re_Sequence r) (qi_BySessionID idx)"
  "qi_ByClusterID (Add r idx) = add_nonempty (en_ClusterID (re_Entry r)) (re_Sequence r) (qi_ByClusterID idx)"
  "qi_ByProjectID (Add r idx) = add_nonempty (en_ProjectID (re_Entry r)) (re_Sequence r) (qi_ByProjectID idx)"
  "qi_BySREDTag (Add r idx) = fold (\<lambda>tag m. add_seq tag (re_Sequence r) m) (en_SREDTags (re_Entry r)) (qi_BySREDTag idx)"
  by (simp_all add: Add_def Let_def)

lemma indexed_key:
  assumes "proj NewQueryIndex = []" and "\<And>r idx. proj (Add r idx) = add_nonempty (key r) (re_Sequence r) (proj idx)"
    and "k \<noteq> []"
  shows "seqs_at (proj (indexed rs)) k = map re_Sequence (filter (\<lambda>r. key r = k) rs)"
  using assms(3) by (induction rs rule: rev_induct) (auto simp: assms(1,2))

lemma indexed_event_key:
  "seqs_at (qi_ByEventType (indexed rs)) k = map re_Sequence (filter (\<lambda>r. en_EventType (re_Entry r) = k) rs)"
  by (induction rs rule: rev_induct) (auto simp: Add_indexes NewQueryIndex_def)

lemma indexed_keys:
  "seqs_at (qi_ByEventType (indexed rs)) k = map re_Sequence (filter (\<lambda>r. en_EventType (re_Entry r) = k) rs)"
  "k \<noteq> '''' \<Longrightarrow> seqs_at (qi_ByCorrelationID (indexed rs)) k = map re_Sequence (filter (\<lambda>r. en_CorrelationID (re_Entry r) = k) rs)"
  "k \<noteq> '''' \<Longrightarrow> seqs_at (qi_ByTaskID (indexed rs)) k = map re_Sequence (filter (\<lambda>r. en_TaskID (re_Entry r) = k) rs)"
  "k \<noteq> '''' \<Longrightarrow> seqs_at (qi_BySessionID (indexed rs)) k = map re_Sequence (filter (\<lambda>r. en_SessionID (re_Entry r) = k) rs)"
  "k \<noteq> '''' \<Longrightarrow> seqs_at (qi_ByClusterID (indexed rs)) k = map re_Sequence (filter (\<lambda>r. en_ClusterID (re_Entry r) = k) rs)"
  "k \<noteq> '''' \<Longrightarrow> seqs_at (qi_ByProjectID (indexed rs)) k = map re_Sequence (filter (\<lambda>r. en_ProjectID (re_Entry r) = k) rs)"
  by (rule indexed_event_key, (rule indexed_key; simp add: Add_indexes NewQueryIndex_def)+)

lemma indexed_tags:
  "\<forall>r \<in> set rs. distinct (en_SREDTags (re_Entry r)) \<Longrightarrow>
     seqs_at (qi_BySREDTag (indexed rs)) k = map re_Sequence (filter (\<lambda>r. k \<in> set (en_SREDTags (re_Entry r))) rs)"
  by (induction rs rule: rev_induct) (auto simp: NewQueryIndex_def Add_indexes seqs_at_tags)

subsection \<open>Queries\<close>

text \<open>What the options ask for: every key that is set, and the time range with an exclusive end.\<close>

definition key_matches :: "QueryOptions \<Rightarrow> Receipt \<Rightarrow> bool" where
  "key_matches opts r \<longleftrightarrow>
     (qo_EventType opts = [] \<or> en_EventType (re_Entry r) = qo_EventType opts)
     \<and> (qo_CorrelationID opts = [] \<or> en_CorrelationID (re_Entry r) = qo_CorrelationID opts)
     \<and> (qo_TaskID opts = [] \<or> en_TaskID (re_Entry r) = qo_TaskID opts)
     \<and> (qo_SessionID opts = [] \<or> en_SessionID (re_Entry r) = qo_SessionID opts)
     \<and> (qo_ClusterID opts = [] \<or> en_ClusterID (re_Entry r) = qo_ClusterID opts)
     \<and> (qo_ProjectID opts = [] \<or> en_ProjectID (re_Entry r) = qo_ProjectID opts)
     \<and> (qo_SREDTag opts = '''' \<or> qo_SREDTag opts \<in> set (en_SREDTags (re_Entry r)))"

definition has_key :: "QueryOptions \<Rightarrow> bool" where
  "has_key opts \<longleftrightarrow>
     qo_EventType opts \<noteq> '''' \<or> qo_CorrelationID opts \<noteq> '''' \<or> qo_TaskID opts \<noteq> ''''
     \<or> qo_SessionID opts \<noteq> '''' \<or> qo_ClusterID opts \<noteq> '''' \<or> qo_ProjectID opts \<noteq> ''''
     \<or> qo_SREDTag opts \<noteq> ''''"

definition time_matches :: "QueryOptions \<Rightarrow> Receipt \<Rightarrow> bool" where
  "time_matches opts r \<longleftrightarrow>
     (qo_Start opts = 0 \<or> qo_Start opts \<le> en_Timestamp (re_Entry r))
     \<and> (qo_End opts = 0 \<or> en_Timestamp (re_Entry r) < qo_End opts)"

text \<open>The slice after some stages stands for a predicate on the receipts; nil before any stage.\<close>

definition stands_for :: "Receipt list \<Rightarrow> bool \<Rightarrow> (Receipt \<Rightarrow> bool) \<Rightarrow> nat list option \<Rightarrow> bool" where
  "stands_for rs b P base \<longleftrightarrow>
     base = (if b then Some (map re_Sequence (filter P rs)) else None) \<and> (\<not> b \<longrightarrow> P = (\<lambda>_. True))"

lemma filter_seq_inter:
  assumes "distinct (map re_Sequence rs)"
  shows "filter (\<lambda>s. s \<in> re_Sequence ` {r \<in> set rs. Q r}) (map re_Sequence (filter P rs)) =
     map re_Sequence (filter (\<lambda>r. P r \<and> Q r) rs)"
proof -
  have eq: "\<exists>x \<in> set rs. Q x \<and> re_Sequence r = re_Sequence x \<Longrightarrow> r \<in> set rs \<Longrightarrow> Q r" for r
    using assms by (auto simp: distinct_map dest: inj_onD)
  have "(re_Sequence r \<in> re_Sequence ` {r \<in> set rs. Q r}) = Q r" if "r \<in> set rs" for r
    using eq [OF _ that] that by blast
  then have "filter (\<lambda>r. P r \<and> re_Sequence r \<in> re_Sequence ` {r \<in> set rs. Q r}) rs = filter (\<lambda>r. P r \<and> Q r) rs"
    by (intro filter_cong) auto
  then show ?thesis by (simp add: filter_map comp_def conj_commute)
qed

lemma stage:
  assumes d: "distinct (map re_Sequence rs)" and rep: "stands_for rs b P base"
    and at: "k \<noteq> '''' \<Longrightarrow> seqs_at m k = map re_Sequence (filter Q rs)"
    and ne: "r \<in> set rs" "P r" "k = '''' \<or> Q r"
  shows "stands_for rs (b \<or> k \<noteq> '''') (\<lambda>r. P r \<and> (k = '''' \<or> Q r)) (filter_key m k base)"
proof (cases "k = ''''")
  case True
  then show ?thesis using rep by (simp add: filter_key_def stands_for_def)
next
  case False
  show ?thesis
  proof (cases b)
    case True
    have "filter (\<lambda>r. P r \<and> Q r) rs \<noteq> []" using ne False by (auto simp: filter_empty_conv)
    moreover have "filter (\<lambda>s. s \<in> set (seqs_at m k)) (map re_Sequence (filter P rs)) =
        map re_Sequence (filter (\<lambda>r. P r \<and> Q r) rs)"
      using filter_seq_inter [OF d, of Q P] at [OF False] by simp
    ultimately show ?thesis
      using rep True False by (simp add: filter_key_def stands_for_def filterSequences_def appended_def)
  next
    case b: False
    then show ?thesis
      using rep False at [OF False] by (simp add: filter_key_def stands_for_def filterSequences_def)
  qed
qed

text \<open>A query as the list of its stages: index, key and what the key means of a receipt.\<close>

type_synonym query_stage = "seq_index \<times> string \<times> (Receipt \<Rightarrow> bool)"

definition stage_ok :: "Receipt list \<Rightarrow> query_stage \<Rightarrow> bool" where
  "stage_ok rs st \<longleftrightarrow> (case st of (m, k, Q) \<Rightarrow> k \<noteq> [] \<longrightarrow> seqs_at m k = map re_Sequence (filter Q rs))"

definition stage_holds :: "Receipt \<Rightarrow> query_stage \<Rightarrow> bool" where
  "stage_holds r st = (case st of (m, k, Q) \<Rightarrow> k = [] \<or> Q r)"

definition stage_set :: "query_stage \<Rightarrow> bool" where
  "stage_set st = (case st of (m, k, Q) \<Rightarrow> k \<noteq> [])"

definition run_stages :: "query_stage list \<Rightarrow> nat list option \<Rightarrow> nat list option" where
  "run_stages sts = fold (\<lambda>(m, k, Q). filter_key m k) sts"

lemma stages:
  assumes d: "distinct (map re_Sequence rs)" and "stands_for rs b P base" and "list_all (stage_ok rs) sts"
    and r: "r \<in> set rs" "P r" "list_all (stage_holds r) sts"
  shows "stands_for rs (b \<or> list_ex stage_set sts) (\<lambda>r. P r \<and> list_all (stage_holds r) sts) (run_stages sts base)"
  using assms(2,3) r(2,3)
proof (induction sts arbitrary: b P base)
  case Nil
  then show ?case by (simp add: run_stages_def)
next
  case (Cons st sts)
  obtain m k Q where st: "st = (m, k, Q)" by (cases st)
  have "stands_for rs (b \<or> k \<noteq> []) (\<lambda>r. P r \<and> (k = [] \<or> Q r)) (filter_key m k base)"
    by (rule stage [OF d Cons.prems(1) _ r(1)]) (use Cons.prems in \<open>simp_all add: st stage_ok_def stage_holds_def\<close>)
  then have "stands_for rs ((b \<or> k \<noteq> []) \<or> list_ex stage_set sts)
      (\<lambda>r. (P r \<and> (k = [] \<or> Q r)) \<and> list_all (stage_holds r) sts) (run_stages sts (filter_key m k base))"
    by (rule Cons.IH) (use Cons.prems in \<open>simp_all add: st stage_holds_def\<close>)
  then show ?case
    by (simp add: st run_stages_def stage_set_def [of "(m, k, Q)"] stage_holds_def [of _ "(m, k, Q)"])
qed

definition query_stages :: "QueryIndex \<Rightarrow> QueryOptions \<Rightarrow> query_stage list" where
  "query_stages idx opts =
     [(qi_ByEventType idx, qo_EventType opts, \<lambda>r. en_EventType (re_Entry r) = qo_EventType opts),
      (qi_ByCorrelationID idx, qo_CorrelationID opts, \<lambda>r. en_CorrelationID (re_Entry r) = qo_CorrelationID opts),
      (qi_ByTaskID idx, qo_TaskID opts, \<lambda>r. en_TaskID (re_Entry r) = qo_TaskID opts),
      (qi_BySessionID idx, qo_SessionID opts, \<lambda>r. en_SessionID (re_Entry r) = qo_SessionID opts),
      (qi_ByClusterID idx, qo_ClusterID opts, \<lambda>r. en_ClusterID (re_Entry r) = qo_ClusterID opts),
      (qi_ByProjectID idx, qo_ProjectID opts, \<lambda>r. en_ProjectID (re_Entry r) = qo_ProjectID opts),
      (qi_BySREDTag idx, qo_SREDTag opts, \<lambda>r. qo_SREDTag opts \<in> set (en_SREDTags (re_Entry r)))]"

lemma key_filters_stages: "key_filters idx opts = run_stages (query_stages idx opts) None"
  by (simp add: key_filters_def run_stages_def query_stages_def)

lemma query_stages_meaning:
  "list_all (stage_holds r) (query_stages idx opts) = key_matches opts r"
  "list_ex stage_set (query_stages idx opts) = has_key opts"
  by (simp_all add: query_stages_def stage_holds_def stage_set_def key_matches_def has_key_def)

lemma query_stages_ok:
  "\<forall>r \<in> set rs. distinct (en_SREDTags (re_Entry r)) \<Longrightarrow> list_all (stage_ok rs) (query_stages (indexed rs) opts)"
  by (simp add: query_stages_def stage_ok_def indexed_keys indexed_tags)

lemma key_filters_indexed:
  assumes "distinct (map re_Sequence rs)" and "\<forall>r \<in> set rs. distinct (en_SREDTags (re_Entry r))"
    and "r \<in> set rs" "key_matches opts r"
  shows "key_filters (indexed rs) opts =
     (if has_key opts then Some (map re_Sequence (filter (key_matches opts) rs)) else None)"
proof -
  have "stands_for rs False (\<lambda>_. True) None" by (simp add: stands_for_def)
  from stages [OF assms(1) this query_stages_ok [OF assms(2)] assms(3), of opts] assms(4)
  show ?thesis
    by (simp add: query_stages_meaning key_filters_stages stands_for_def)
qed

lemma filterByTime_indexed:
  assumes "distinct (map re_Sequence rs)" and "filter P rs \<noteq> []"
  shows "slice_of (filterByTime (indexed rs) (Some (map re_Sequence (filter P rs))) (qo_Start opts) (qo_End opts)) =
     map re_Sequence (filter (\<lambda>r. P r \<and> time_matches opts r) rs)"
proof -
  have t: "in_time (qo_Start opts) (qo_End opts) (time_entry r) = time_matches opts r" for r
    by (auto simp: in_time_def time_entry_def time_matches_def go_time)
  have "filter (\<lambda>r. P r \<and> (case findBySequence (indexed rs) (re_Sequence r) of None \<Rightarrow> False
            | Some entry \<Rightarrow> in_time (qo_Start opts) (qo_End opts) entry)) rs
      = filter (\<lambda>r. P r \<and> time_matches opts r) rs"
    by (intro filter_cong refl) (simp add: findBySequence_indexed [OF assms(1)] t)
  then show ?thesis
    using assms(2) by (simp add: filterByTime_def slice_of_def appended_def filter_map comp_def conj_commute)
qed

text \<open>
  C23. Queries: when at least one key is set and some recorded receipt has all the keys that are set, a
  query returns exactly the receipts with these keys in the time range (start inclusive, end exclusive);
  a limit keeps the first ones that were added, and only then they are ordered, by default descending.
\<close>

theorem query_exact:
  assumes "distinct (map re_Sequence rs)" and "\<forall>r \<in> set rs. distinct (en_SREDTags (re_Entry r))"
    and "has_key opts" and "r \<in> set rs" and "key_matches opts r"
  shows "Query opts (fold Add rs NewQueryIndex) =
    (let found = map re_Sequence (filter (\<lambda>r. key_matches opts r \<and> time_matches opts r) rs);
         limited = (if qo_Limit opts > 0 then take (nat (qo_Limit opts)) found else found)
     in if qo_OrderBy opts = ''asc'' then limited else rev (sort limited))"
proof -
  have ne: "filter (key_matches opts) rs \<noteq> []" using assms(4,5) by (auto simp: filter_empty_conv)
  have lim: "limit_and_order opts xs =
      (let limited = (if qo_Limit opts > 0 then take (nat (qo_Limit opts)) xs else xs)
       in if qo_OrderBy opts = ''asc'' then limited else rev (sort limited))" for xs
    by (simp add: limit_and_order_def Let_def)
  have k: "key_filters (indexed rs) opts = Some (map re_Sequence (filter (key_matches opts) rs))"
    using key_filters_indexed [OF assms(1,2,4,5)] assms(3) by simp
  show ?thesis
  proof (cases "qo_Start opts = 0 \<and> qo_End opts = 0")
    case True
    then have "time_matches opts = (\<lambda>_. True)" by (auto simp: time_matches_def)
    then show ?thesis using True k by (simp add: Query_def Let_def lim slice_of_def go_time)
  next
    case False
    then show ?thesis
      using k filterByTime_indexed [OF assms(1) ne, of opts] by (simp add: Query_def Let_def lim go_time)
  qed
qed

lemma two_keys_forgotten:
  assumes "qo_EventType opts \<noteq> ''''" and "qo_CorrelationID opts \<noteq> ''''"
    and "\<forall>s \<in> set (seqs_at (qi_ByEventType idx) (qo_EventType opts)).
           s \<notin> set (seqs_at (qi_ByCorrelationID idx) (qo_CorrelationID opts))"
  shows "key_filters idx opts = key_filters idx (opts\<lparr>qo_EventType := '''', qo_CorrelationID := ''''\<rparr>)"
proof -
  have "filter (\<lambda>s. s \<in> set (seqs_at (qi_ByCorrelationID idx) (qo_CorrelationID opts)))
      (seqs_at (qi_ByEventType idx) (qo_EventType opts)) = []"
    using assms(3) by (simp add: filter_empty_conv)
  then show ?thesis
    using assms(1,2) by (simp add: key_filters_def filter_key_def filterSequences_def appended_def)
qed

lemma Query_cong:
  assumes "key_filters idx opts = key_filters idx opts'" and "qo_Start opts = qo_Start opts'"
    and "qo_End opts = qo_End opts'" and "qo_Limit opts = qo_Limit opts'" and "qo_OrderBy opts = qo_OrderBy opts'"
  shows "Query opts idx = Query opts' idx"
  by (simp only: Query_def limit_and_order_def assms)

text \<open>
  Keys are forgotten: when no recorded receipt has both the event type and the correlation asked for,
  the query answers as if neither had been asked for, so it returns receipts that have neither as soon
  as another key or a time range is set; a query without any key or time range returns nothing at all.
\<close>

theorem query_forgets_keys:
  assumes "distinct (map re_Sequence rs)"
    and "qo_EventType opts \<noteq> ''''" and "qo_CorrelationID opts \<noteq> ''''"
    and "\<forall>r \<in> set rs. en_EventType (re_Entry r) = qo_EventType opts \<longrightarrow>
           en_CorrelationID (re_Entry r) \<noteq> qo_CorrelationID opts"
  shows "Query opts (fold Add rs NewQueryIndex) =
      Query (opts\<lparr>qo_EventType := '''', qo_CorrelationID := ''''\<rparr>) (fold Add rs NewQueryIndex)
    \<and> Query (opts\<lparr>qo_EventType := '''', qo_CorrelationID := '''', qo_TaskID := '''', qo_SessionID := '''',
                 qo_ClusterID := '''', qo_ProjectID := '''', qo_SREDTag := '''', qo_Start := 0, qo_End := 0\<rparr>)
        idx = []"
proof -
  have "\<forall>s \<in> set (seqs_at (qi_ByEventType (indexed rs)) (qo_EventType opts)).
           s \<notin> set (seqs_at (qi_ByCorrelationID (indexed rs)) (qo_CorrelationID opts))"
    using assms(1,4) by (auto simp: indexed_keys(1) indexed_keys(2) [OF assms(3)] distinct_map dest: inj_onD)
  from two_keys_forgotten [OF assms(2,3) this]
  have "Query opts (indexed rs) = Query (opts\<lparr>qo_EventType := [], qo_CorrelationID := []\<rparr>) (indexed rs)"
    by (rule Query_cong) simp_all
  moreover have "Query (opts\<lparr>qo_EventType := [], qo_CorrelationID := [], qo_TaskID := [], qo_SessionID := [],
      qo_ClusterID := [], qo_ProjectID := [], qo_SREDTag := [], qo_Start := 0, qo_End := 0\<rparr>) idx = []"
    by (simp add: Query_def limit_and_order_def Let_def key_filters_def filter_key_def slice_of_def go_time)
  ultimately show ?thesis by blast
qed

definition ex_query :: QueryOptions where
  "ex_query =
     \<lparr>qo_EventType = ''plan'', qo_CorrelationID = ''c2'', qo_TaskID = [], qo_SessionID = ''s1'', qo_ClusterID = [],
      qo_ProjectID = [], qo_SREDTag = [], qo_Start = 0, qo_End = 0, qo_Limit = 0, qo_OrderBy = []\<rparr>"

definition ex_receipt :: "nat \<Rightarrow> string \<Rightarrow> string \<Rightarrow> Receipt" where
  "ex_receipt n ev corr =
     \<lparr>re_Entry = no_entry\<lparr>en_EventType := ev, en_CorrelationID := corr, en_SessionID := ''s1'', en_Timestamp := int n\<rparr>,
      re_Sequence = n, re_Hash = [], re_PrevHash = [], re_RecordedAt = int n\<rparr>"

theorem query_exact_witness:
  "Query ex_query (fold Add [ex_receipt 1 ''plan'' ''c2'', ex_receipt 2 ''run'' ''c2'', ex_receipt 3 ''plan'' ''c2'']
     NewQueryIndex) = [3, 1]"
  by (subst query_exact [where r = "ex_receipt 1 ''plan'' ''c2''"])
    (simp_all add: ex_query_def ex_receipt_def no_entry_def has_key_def key_matches_def time_matches_def)

theorem query_forgets_keys_witness:
  "Query ex_query (fold Add [ex_receipt 1 ''plan'' ''c1'', ex_receipt 2 ''run'' ''c2''] NewQueryIndex) =
   Query (ex_query\<lparr>qo_EventType := [], qo_CorrelationID := []\<rparr>)
     (fold Add [ex_receipt 1 ''plan'' ''c1'', ex_receipt 2 ''run'' ''c2''] NewQueryIndex)"
  by (rule query_forgets_keys [THEN conjunct1])
    (simp_all add: ex_query_def ex_receipt_def no_entry_def)

subsection \<open>Round trip through the ledger\<close>


lemma split_nonempty [simp]: "split_comma s \<noteq> []"
  by (cases s) (auto split: list.split)













end
