(* ===== verification/Circuit_Breaker.thy ===== *)
theory Circuit_Breaker
  imports Prelude "HOL-Library.Sublist"
begin

text \<open>
  Circuit breakers of the runtime (\<open>internal/runtime/circuit_breaker.go\<close>,
  \<open>circuit_breaker_registry.go\<close>): the breaker, the manager that wraps health checks with one breaker
  per service, the health aggregator, and the registry the doctor reads.

  A health check is a function on the world it acts on, so that a theorem can say that it was not
  called. Failure counts are Go \<open>int\<close>s that no run comes near to overflowing; they are \<open>int\<close> here.
  \<open>clk i\<close> is the \<open>i\<close>-th clock reading in a call.
\<close>

subsection \<open>The breaker\<close>

datatype CircuitState = CircuitStateClosed | CircuitStateOpen | CircuitStateHalfOpen

fun circuit_state_string :: "CircuitState \<Rightarrow> string" where
  "circuit_state_string CircuitStateClosed = ''closed''"
| "circuit_state_string CircuitStateOpen = ''open''"
| "circuit_state_string CircuitStateHalfOpen = ''half_open''"

record CircuitBreaker =
  cb_name :: string
  cb_maxFailures :: int
  cb_timeout :: duration
  cb_state :: CircuitState
  cb_failures :: int
  cb_lastFailTime :: time
  cb_nextRetryTime :: time

record CircuitBreakerConfig =
  cbc_Name :: string
  cbc_MaxFailures :: int
  cbc_Timeout :: duration

definition DefaultCircuitBreakerConfig :: "string \<Rightarrow> CircuitBreakerConfig" where
  "DefaultCircuitBreakerConfig name =
     \<lparr>cbc_Name = name, cbc_MaxFailures = 3, cbc_Timeout = 30 * second\<rparr>"

definition NewCircuitBreaker :: "CircuitBreakerConfig option \<Rightarrow> CircuitBreaker" where
  "NewCircuitBreaker p =
     (let config = (case p of None \<Rightarrow> DefaultCircuitBreakerConfig ''default'' | Some c \<Rightarrow> c)
      in \<lparr>cb_name = cbc_Name config, cb_maxFailures = cbc_MaxFailures config,
          cb_timeout = cbc_Timeout config, cb_state = CircuitStateClosed, cb_failures = 0,
          cb_lastFailTime = zero_time, cb_nextRetryTime = zero_time\<rparr>)"

definition Allow :: "time \<Rightarrow> CircuitBreaker \<Rightarrow> CircuitBreaker \<times> bool" where
  "Allow now cb =
     (case cb_state cb of
        CircuitStateClosed \<Rightarrow> (cb, True)
      | CircuitStateOpen \<Rightarrow>
          if time_sub now (cb_lastFailTime cb) > cb_timeout cb
          then (cb\<lparr>cb_state := CircuitStateHalfOpen, cb_failures := 0\<rparr>, True)
          else (cb, False)
      | CircuitStateHalfOpen \<Rightarrow> (cb, True))"

definition RecordSuccess :: "CircuitBreaker \<Rightarrow> CircuitBreaker" where
  "RecordSuccess cb = cb
     \<lparr>cb_failures := 0,
      cb_state := (if cb_state cb = CircuitStateHalfOpen then CircuitStateClosed else cb_state cb)\<rparr>"

definition RecordFailure :: "clock \<Rightarrow> CircuitBreaker \<Rightarrow> CircuitBreaker" where
  "RecordFailure clk cb =
     (let cb1 = cb\<lparr>cb_failures := cb_failures cb + 1, cb_lastFailTime := clk 0\<rparr>
      in if cb_failures cb1 \<ge> cb_maxFailures cb1
         then cb1\<lparr>cb_state := CircuitStateOpen, cb_nextRetryTime := time_add (clk 1) (cb_timeout cb1)\<rparr>
         else cb1)"

subsection \<open>The manager\<close>

type_synonym CircuitBreakerManager = "(string, CircuitBreaker) gomap"

definition GetBreaker :: "string \<Rightarrow> CircuitBreakerManager \<Rightarrow> CircuitBreakerManager \<times> CircuitBreaker" where
  "GetBreaker name m =
     (case map_of m name of
        Some cb \<Rightarrow> (m, cb)
      | None \<Rightarrow>
          let cb = NewCircuitBreaker (Some (DefaultCircuitBreakerConfig name))
          in (AList.update name cb m, cb))"

datatype wrap_error = WrapOpen string CircuitState | WrapCheck string

fun wrap_error_string :: "wrap_error \<Rightarrow> string" where
  "wrap_error_string (WrapOpen name st) =
     ''circuit breaker open for '' @ name @ '' (state: '' @ circuit_state_string st @ '')''"
| "wrap_error_string (WrapCheck e) = e"

type_synonym 'w health_check = "'w \<Rightarrow> 'w \<times> string option"

text \<open>
  The clock readings of a call are \<open>clk 0\<close> in \<open>Allow\<close> and the next two in \<open>RecordFailure\<close>. The breaker
  that \<open>GetBreaker\<close> returns is a pointer into the map: the updates go back under its name.
\<close>

definition WrapHealthCheck ::
    "clock \<Rightarrow> string \<Rightarrow> 'w health_check \<Rightarrow> CircuitBreakerManager \<Rightarrow> 'w
     \<Rightarrow> CircuitBreakerManager \<times> 'w \<times> wrap_error option" where
  "WrapHealthCheck clk name check m w =
     (case GetBreaker name m of (m1, breaker) \<Rightarrow>
        case Allow (clk 0) breaker of (breaker1, allowed) \<Rightarrow>
          if \<not> allowed
          then (AList.update name breaker1 m1, w, Some (WrapOpen name (cb_state breaker1)))
          else (case check w of
                  (w', Some err) \<Rightarrow>
                    (AList.update name (RecordFailure (\<lambda>i. clk (Suc i)) breaker1) m1, w', Some (WrapCheck err))
                | (w', None) \<Rightarrow> (AList.update name (RecordSuccess breaker1) m1, w', None)))"

definition AllBreakers :: "CircuitBreakerManager \<Rightarrow> (string \<rightharpoonup> CircuitState)" where
  "AllBreakers m name = map_option cb_state (map_of m name)"

subsection \<open>Health aggregation\<close>

record CapabilityStatus =
  cs_Name :: string
  cs_Mode :: string
  cs_Healthy :: bool
  cs_Required :: bool
  cs_Message :: string

record RuntimeReport =
  rr_ZenContext :: CapabilityStatus
  rr_Tier1Hot :: CapabilityStatus
  rr_Tier2Warm :: CapabilityStatus
  rr_Tier3Cold :: CapabilityStatus
  rr_Journal :: CapabilityStatus
  rr_Ledger :: CapabilityStatus
  rr_MessageBus :: CapabilityStatus

record CapabilityHealth =
  ch_Name :: string
  ch_Mode :: string
  ch_Healthy :: bool
  ch_Required :: bool
  ch_Message :: string
  ch_Circuit :: CircuitState

record HealthReport =
  hr_Status :: string
  hr_Timestamp :: time
  hr_Capabilities :: "string \<rightharpoonup> CapabilityHealth"
  hr_Circuits :: "string \<rightharpoonup> CircuitState"
  hr_Summary :: string

record 'w HealthAggregator =
  ha_report :: RuntimeReport
  ha_circuitManager :: CircuitBreakerManager
  ha_healthCheckers :: "string \<rightharpoonup> 'w health_check"

definition NewHealthAggregator :: "RuntimeReport \<Rightarrow> 'w HealthAggregator" where
  "NewHealthAggregator report =
     \<lparr>ha_report = report, ha_circuitManager = [], ha_healthCheckers = Map.empty\<rparr>"

definition RegisterHealthCheck :: "string \<Rightarrow> 'w health_check \<Rightarrow> 'w HealthAggregator \<Rightarrow> 'w HealthAggregator" where
  "RegisterHealthCheck name check h = h\<lparr>ha_healthCheckers := (ha_healthCheckers h)(name \<mapsto> check)\<rparr>"

definition capabilities :: "RuntimeReport \<Rightarrow> (string \<times> CapabilityStatus) list" where
  "capabilities r =
     [(''zen_context'', rr_ZenContext r), (''tier1_hot'', rr_Tier1Hot r),
      (''tier2_warm'', rr_Tier2Warm r), (''tier3_cold'', rr_Tier3Cold r),
      (''journal'', rr_Journal r), (''ledger'', rr_Ledger r), (''message_bus'', rr_MessageBus r)]"

text \<open>One turn of the loop; its accumulator is (breakers, world, capabilities, healthy, critical).\<close>

type_synonym 'w health_acc =
  "CircuitBreakerManager \<times> 'w \<times> (string \<rightharpoonup> CapabilityHealth) \<times> nat \<times> nat"

definition check_capability ::
    "(string \<rightharpoonup> 'w health_check) \<Rightarrow> clock \<Rightarrow> string \<Rightarrow> CapabilityStatus \<Rightarrow> 'w health_acc \<Rightarrow> 'w health_acc"
  where
  "check_capability checkers clk name status acc =
     (case acc of (m, w, caps, healthyCount, criticalFailures) \<Rightarrow>
      let check = (\<lambda>w. case checkers name of None \<Rightarrow> (w, None) | Some f \<Rightarrow> f w)
      in case WrapHealthCheck clk name check m w of (m1, w1, err) \<Rightarrow>
        let (m2, circuitState) =
              (if err \<noteq> None then (case GetBreaker name m1 of (m2, cb) \<Rightarrow> (m2, cb_state cb))
               else (m1, CircuitStateClosed));
            capHealth =
              \<lparr>ch_Name = name, ch_Mode = cs_Mode status,
               ch_Healthy = (cs_Healthy status \<and> err = None), ch_Required = cs_Required status,
               ch_Message = (case err of None \<Rightarrow> cs_Message status | Some e \<Rightarrow> wrap_error_string e),
               ch_Circuit = circuitState\<rparr>
        in (m2, w1, caps(name \<mapsto> capHealth),
            (if ch_Healthy capHealth then healthyCount + 1 else healthyCount),
            (if ch_Required capHealth \<and> \<not> ch_Healthy capHealth then criticalFailures + 1
             else criticalFailures)))"

fun check_loop ::
    "(string \<rightharpoonup> 'w health_check) \<Rightarrow> (nat \<Rightarrow> clock) \<Rightarrow> nat \<Rightarrow> (string \<times> CapabilityStatus) list
     \<Rightarrow> 'w health_acc \<Rightarrow> 'w health_acc" where
  "check_loop checkers clks i [] acc = acc"
| "check_loop checkers clks i ((name, status) # rest) acc =
     check_loop checkers clks (Suc i) rest (check_capability checkers (clks i) name status acc)"

definition CheckHealth ::
    "time \<Rightarrow> (nat \<Rightarrow> clock) \<Rightarrow> 'w HealthAggregator \<Rightarrow> 'w \<Rightarrow> 'w HealthAggregator \<times> 'w \<times> HealthReport" where
  "CheckHealth start clks h w =
     (let caps = capabilities (ha_report h)
      in case check_loop (ha_healthCheckers h) clks 0 caps (ha_circuitManager h, w, Map.empty, 0, 0) of
           (m, w', capMap, healthyCount, criticalFailures) \<Rightarrow>
             (h\<lparr>ha_circuitManager := m\<rparr>, w',
              \<lparr>hr_Status =
                 (if criticalFailures > 0 then ''unhealthy''
                  else if healthyCount = length caps then ''healthy'' else ''degraded''),
               hr_Timestamp = start, hr_Capabilities = capMap,
               hr_Circuits = AllBreakers (ha_circuitManager h),
               hr_Summary = itoa (int healthyCount) @ ''/'' @ itoa (int (length caps))
                 @ '' capabilities healthy ('' @ itoa (int criticalFailures) @ '' critical failures)''\<rparr>))"

subsection \<open>The registry\<close>

text \<open>
  The registry holds pointers to breakers that others use: \<open>heap\<close> is the breakers by address, and a
  lookup that finds nothing is the nil pointer.
\<close>

type_synonym CircuitBreakerRegistry = "(string, nat) gomap"

record CircuitBreakerState =
  cbs_Name :: string
  cbs_State :: CircuitState
  cbs_Failures :: int
  cbs_Healthy :: bool

definition reg_Register :: "string \<Rightarrow> nat \<Rightarrow> CircuitBreakerRegistry \<Rightarrow> CircuitBreakerRegistry" where
  "reg_Register name cb r = AList.update name cb r"

definition reg_Unregister :: "string \<Rightarrow> CircuitBreakerRegistry \<Rightarrow> CircuitBreakerRegistry" where
  "reg_Unregister name r = AList.delete name r"

definition reg_Get :: "string \<Rightarrow> CircuitBreakerRegistry \<Rightarrow> nat option" where
  "reg_Get name r = map_of r name"

definition GetAllStates ::
    "(nat \<Rightarrow> CircuitBreaker) \<Rightarrow> CircuitBreakerRegistry \<Rightarrow> (string \<rightharpoonup> CircuitBreakerState)" where
  "GetAllStates heap r name =
     map_option (\<lambda>p. \<lparr>cbs_Name = name, cbs_State = cb_state (heap p), cbs_Failures = cb_failures (heap p),
       cbs_Healthy = (cb_state (heap p) = CircuitStateClosed \<or> cb_state (heap p) = CircuitStateHalfOpen)\<rparr>)
       (map_of r name)"

definition reg_IsHealthy ::
    "(string \<Rightarrow> nat) \<Rightarrow> (nat \<Rightarrow> CircuitBreaker) \<Rightarrow> CircuitBreakerRegistry \<Rightarrow> bool" where
  "reg_IsHealthy rk heap r \<longleftrightarrow>
     \<not> list_ex (\<lambda>(k, p). cb_state (heap p) = CircuitStateOpen) (go_range rk r)"

definition GetUnhealthy ::
    "(string \<Rightarrow> nat) \<Rightarrow> (nat \<Rightarrow> CircuitBreaker) \<Rightarrow> CircuitBreakerRegistry \<Rightarrow> string list" where
  "GetUnhealthy rk heap r =
     map fst (filter (\<lambda>(k, p). cb_state (heap p) = CircuitStateOpen) (go_range rk r))"

end
