(* ===== verification/Circuit_Breaker_Properties.thy ===== *)
theory Circuit_Breaker_Properties
  imports Circuit_Breaker
begin

text \<open>
  When a breaker trips, what a wrapped health check does, the verdict of the health aggregator and
  the consistency of the registry's views.
\<close>

subsection \<open>Tripping\<close>

definition guarded_call :: "clock \<Rightarrow> CircuitBreaker \<Rightarrow> bool \<Rightarrow> CircuitBreaker" where
  "guarded_call clk cb ok =
     (case Allow (clk 0) cb of (cb1, allowed) \<Rightarrow>
        if \<not> allowed then cb1
        else if ok then RecordSuccess cb1 else RecordFailure (\<lambda>i. clk (Suc i)) cb1)"

fun guarded_calls :: "(nat \<Rightarrow> clock) \<Rightarrow> CircuitBreaker \<Rightarrow> bool list \<Rightarrow> CircuitBreaker" where
  "guarded_calls clks cb [] = cb"
| "guarded_calls clks cb (b # bs) = guarded_calls (\<lambda>i. clks (Suc i)) (guarded_call (clks 0) cb b) bs"

lemma guarded_calls_snoc:
  "guarded_calls clks cb (bs @ [b]) = guarded_call (clks (length bs)) (guarded_calls clks cb bs) b"
  by (induction bs arbitrary: clks cb) auto

lemma guarded_calls_maxFailures [simp]:
  "cb_maxFailures (guarded_calls clks cb bs) = cb_maxFailures cb"
  by (induction bs arbitrary: clks cb)
    (auto simp: guarded_call_def Allow_def RecordSuccess_def RecordFailure_def Let_def
      split: CircuitState.split prod.split)

definition trailing_failures :: "bool list \<Rightarrow> nat" where
  "trailing_failures bs = length (takeWhile Not (rev bs))"

lemma trailing_snoc [simp]:
  "trailing_failures (bs @ [b]) = (if b then 0 else Suc (trailing_failures bs))"
  by (simp add: trailing_failures_def)

lemma trailing_Nil [simp]: "trailing_failures [] = 0"
  by (simp add: trailing_failures_def)

lemma suffix_failures: "suffix (replicate n False) bs \<longleftrightarrow> n \<le> trailing_failures bs"
proof (induction bs arbitrary: n rule: rev_induct)
  case (snoc b bs)
  show ?case
  proof (cases n)
    case (Suc m)
    have "replicate n False = replicate m False @ [False]"
      using Suc by (simp add: replicate_append_same [symmetric])
    then show ?thesis using snoc [of m] Suc by auto
  qed simp
qed (auto simp: suffix_def)

lemma closed_call:
  assumes "cb_state cb = CircuitStateClosed"
  shows "cb_failures (guarded_call clk cb b) = (if b then 0 else cb_failures cb + 1)"
    and "cb_state (guarded_call clk cb b) =
      (if \<not> b \<and> cb_failures cb + 1 \<ge> cb_maxFailures cb then CircuitStateOpen else CircuitStateClosed)"
  using assms by (simp_all add: guarded_call_def Allow_def RecordSuccess_def RecordFailure_def Let_def)

lemma closed_while_few_failures:
  assumes "cb_state cb = CircuitStateClosed" and "cb_failures cb = 0" and "cb_maxFailures cb = int n"
    and "\<forall>k \<le> length bs. trailing_failures (take k bs) < n"
  shows "cb_state (guarded_calls clks cb bs) = CircuitStateClosed
    \<and> cb_failures (guarded_calls clks cb bs) = int (trailing_failures bs)"
  using assms(4)
proof (induction bs rule: rev_induct)
  case (snoc b bs)
  have "\<forall>k \<le> length bs. trailing_failures (take k bs) < n"
  proof (intro allI impI)
    fix k
    assume "k \<le> length bs"
    then show "trailing_failures (take k bs) < n" using snoc.prems [rule_format, of k] by simp
  qed
  note IH = snoc.IH [OF this]
  have "trailing_failures (bs @ [b]) < n" using snoc.prems [rule_format, of "Suc (length bs)"] by simp
  then show ?case using IH assms(3) by (cases b) (auto simp: guarded_calls_snoc closed_call)
qed (use assms in simp)

text \<open>
  C19. Tripping: a fresh breaker with a threshold of \<open>n > 0\<close> is closed after every call of a run iff no
  \<open>n\<close> calls in a row failed; so the n-th consecutive failure opens it and nothing else does.
\<close>

theorem breaker_trips_exactly:
  assumes "cbc_MaxFailures config = int n" and "n > 0"
  shows "(\<forall>k \<le> length bs. cb_state (guarded_calls clks (NewCircuitBreaker (Some config)) (take k bs))
            = CircuitStateClosed)
      \<longleftrightarrow> (\<forall>k \<le> length bs. \<not> suffix (replicate n False) (take k bs))"
proof -
  let ?cb = "NewCircuitBreaker (Some config)"
  have fresh: "cb_state ?cb = CircuitStateClosed" "cb_failures ?cb = 0" "cb_maxFailures ?cb = int n"
    using assms by (simp_all add: NewCircuitBreaker_def)
  have few: "cb_state (guarded_calls clks ?cb (take k bs)) = CircuitStateClosed
      \<and> cb_failures (guarded_calls clks ?cb (take k bs)) = int (trailing_failures (take k bs))"
    if "k \<le> length bs" "\<forall>j \<le> k. trailing_failures (take j bs) < n" for k
    using that closed_while_few_failures [OF fresh, of "take k bs"] by (simp add: min_absorb1)
  have trip: "\<exists>j \<le> k. cb_state (guarded_calls clks ?cb (take j bs)) \<noteq> CircuitStateClosed"
    if "k \<le> length bs" "n \<le> trailing_failures (take k bs)" for k
    using that
  proof (induction k rule: less_induct)
    case (less k)
    obtain i where i: "k = Suc i" using less.prems(2) assms(2) by (cases k) auto
    show ?case
    proof (cases "\<forall>j \<le> i. trailing_failures (take j bs) < n")
      case False
      then obtain j where "j \<le> i" "n \<le> trailing_failures (take j bs)" by (auto simp: not_less)
      then show ?thesis using less.IH [of j] less.prems(1) i by (meson le_SucI le_imp_less_Suc le_trans)
    next
      case True
      have tk: "take k bs = take i bs @ [bs ! i]"
        using i less.prems(1) by (simp add: take_Suc_conv_app_nth)
      have "\<not> bs ! i" "Suc (trailing_failures (take i bs)) \<ge> n"
        using less.prems(2) assms(2) by (auto simp: tk split: if_splits)
      then have "cb_state (guarded_calls clks ?cb (take k bs)) = CircuitStateOpen"
        using few [OF _ True] less.prems(1) i fresh(3) unfolding tk
        by (simp add: guarded_calls_snoc closed_call)
      then show ?thesis by auto
    qed
  qed
  show ?thesis
    unfolding suffix_failures using few trip by (meson le_trans not_le)
qed

theorem breaker_trips_exactly_witness:
  "\<not> (\<forall>k \<le> length [False, True, False, False].
       cb_state (guarded_calls (\<lambda>i j. 0)
         (NewCircuitBreaker (Some \<lparr>cbc_Name = ''jira'', cbc_MaxFailures = 2, cbc_Timeout = second\<rparr>))
         (take k [False, True, False, False])) = CircuitStateClosed)"
  using breaker_trips_exactly [of "\<lparr>cbc_Name = ''jira'', cbc_MaxFailures = 2, cbc_Timeout = second\<rparr>" 2
      "[False, True, False, False]" "\<lambda>i j. 0"]
  by (auto simp: suffix_failures trailing_failures_def intro!: exI [of _ 4])

subsection \<open>Wrapped health checks\<close>

definition breaker_of :: "CircuitBreakerManager \<Rightarrow> string \<Rightarrow> CircuitBreaker" where
  "breaker_of m name =
     (case map_of m name of
        None \<Rightarrow> NewCircuitBreaker (Some (DefaultCircuitBreakerConfig name)) | Some cb \<Rightarrow> cb)"

lemma GetBreaker_eq:
  "\<exists>m1. GetBreaker name m = (m1, breaker_of m name) \<and> map_of m1 name = Some (breaker_of m name)
     \<and> (\<forall>k. k \<noteq> name \<longrightarrow> map_of m1 k = map_of m k)"
  by (auto simp: GetBreaker_def breaker_of_def Let_def update_conv' split: option.split)

definition rejecting :: "time \<Rightarrow> CircuitBreaker \<Rightarrow> bool" where
  "rejecting now cb \<longleftrightarrow>
     cb_state cb = CircuitStateOpen \<and> time_sub now (cb_lastFailTime cb) \<le> cb_timeout cb"

lemma Allow_rejecting: "snd (Allow now cb) \<longleftrightarrow> \<not> rejecting now cb"
  by (auto simp: Allow_def rejecting_def split: CircuitState.split)

lemma Allow_rejected: "rejecting now cb \<Longrightarrow> Allow now cb = (cb, False)"
  by (simp add: Allow_def rejecting_def)

text \<open>
  A wrapped health check, on every branch: while the breaker of the service is open and its
  timeout has not passed the check is not called (the world and the breaker stay as they are) and the
  caller gets the open error; otherwise the check runs exactly once and its own error is returned; a
  success leaves the breaker with no failures and not half-open, a failure counts one more, stamps the
  time, and opens the breaker once the count reaches the threshold; other services are untouched.
\<close>

theorem WrapHealthCheck_exact:
  "case WrapHealthCheck clk name check m w of (m', w', e) \<Rightarrow>
     (map_of m')(name := None) = (map_of m)(name := None)
     \<and> (if rejecting (clk 0) (breaker_of m name)
        then w' = w \<and> e = Some (WrapOpen name CircuitStateOpen)
             \<and> map_of m' name = Some (breaker_of m name)
        else w' = fst (check w) \<and> e = map_option WrapCheck (snd (check w))
             \<and> (let cb1 = fst (Allow (clk 0) (breaker_of m name)); cb2 = breaker_of m' name
                in if snd (check w) = None
                   then cb_failures cb2 = 0 \<and> cb_state cb2 = CircuitStateClosed
                   else cb_failures cb2 = cb_failures cb1 + 1 \<and> cb_lastFailTime cb2 = clk 1
                        \<and> cb_state cb2 =
                            (if cb_failures cb1 + 1 \<ge> cb_maxFailures cb1 then CircuitStateOpen
                             else cb_state cb1)))"
proof -
  obtain m1 where g: "GetBreaker name m = (m1, breaker_of m name)" "map_of m1 name = Some (breaker_of m name)"
    "\<forall>k. k \<noteq> name \<longrightarrow> map_of m1 k = map_of m k"
    using GetBreaker_eq by blast
  have others: "(map_of m1)(name := None) = (map_of m)(name := None)" using g(3) by auto
  show ?thesis
  proof (cases "rejecting (clk 0) (breaker_of m name)")
    case True
    then show ?thesis
      using g others by (auto simp: WrapHealthCheck_def Allow_rejected update_conv' rejecting_def)
  next
    case False
    obtain cb1 where a: "Allow (clk 0) (breaker_of m name) = (cb1, True)"
      using False Allow_rejecting [of "clk 0" "breaker_of m name"] by (metis prod.collapse)
    have "cb_state cb1 \<noteq> CircuitStateOpen"
      using a by (auto simp: Allow_def split: CircuitState.splits if_splits)
    then have s: "cb_state (RecordSuccess cb1) = CircuitStateClosed"
      by (cases "cb_state cb1") (simp_all add: RecordSuccess_def)
    obtain w' e where c: "check w = (w', e)" by fastforce
    show ?thesis
      using g others a False c s
      by (cases e)
        (auto simp: WrapHealthCheck_def update_conv' breaker_of_def [of "AList.update _ _ _"] Let_def
          RecordSuccess_def RecordFailure_def)
  qed
qed

text \<open>
  The half-open state does not admit one request to test the service but any number: once the
  timeout of an open breaker has passed, every further request is admitted at any time, until the
  first of them reports back.
\<close>

theorem half_open_admits_all:
  assumes "cb_state cb = CircuitStateOpen" and "time_sub now (cb_lastFailTime cb) > cb_timeout cb"
  shows "\<exists>cb'. Allow now cb = (cb', True) \<and> cb_state cb' = CircuitStateHalfOpen
    \<and> (\<forall>t. Allow t cb' = (cb', True))"
  using assms by (simp add: Allow_def)

theorem half_open_admits_all_witness:
  "\<exists>cb'. Allow (60 * second)
      \<lparr>cb_name = ''jira'', cb_maxFailures = 3, cb_timeout = 30 * second, cb_state = CircuitStateOpen,
       cb_failures = 3, cb_lastFailTime = 0, cb_nextRetryTime = 30 * second\<rparr> = (cb', True)
    \<and> (\<forall>t. Allow t cb' = (cb', True))"
  using half_open_admits_all [of "\<lparr>cb_name = ''jira'', cb_maxFailures = 3, cb_timeout = 30 * second,
      cb_state = CircuitStateOpen, cb_failures = 3, cb_lastFailTime = 0,
      cb_nextRetryTime = 30 * second\<rparr>" "60 * second"]
  by (auto simp: go_time)

subsection \<open>Health verdicts\<close>

lemma length_filter_all: "length (filter P xs) = length xs \<longleftrightarrow> set xs \<subseteq> {x. P x}"
proof (induction xs)
  case (Cons x xs)
  then show ?case using le_imp_less_Suc [OF length_filter_le [of P xs]] by auto
qed simp

lemma check_capability_cases:
  obtains m2 w1 x where
    "check_capability checkers clk name status (m, w, caps, hc, cf) =
       (m2, w1, caps(name \<mapsto> x), hc + (if ch_Healthy x then 1 else 0),
        cf + (if ch_Required x \<and> \<not> ch_Healthy x then 1 else 0))"
    and "ch_Required x = cs_Required status" and "ch_Healthy x \<longrightarrow> cs_Healthy status"
proof -
  obtain m1 w1 err where a: "WrapHealthCheck clk name
      (\<lambda>w. case checkers name of None \<Rightarrow> (w, None) | Some f \<Rightarrow> f w) m w = (m1, w1, err)"
    by (cases "WrapHealthCheck clk name (\<lambda>w. case checkers name of None \<Rightarrow> (w, None) | Some f \<Rightarrow> f w) m w") blast
  obtain m2 cb where g: "GetBreaker name m1 = (m2, cb)" by fastforce
  let ?x = "\<lparr>ch_Name = name, ch_Mode = cs_Mode status, ch_Healthy = (cs_Healthy status \<and> err = None),
    ch_Required = cs_Required status,
    ch_Message = (case err of None \<Rightarrow> cs_Message status | Some e \<Rightarrow> wrap_error_string e),
    ch_Circuit = (if err \<noteq> None then cb_state cb else CircuitStateClosed)\<rparr>"
  have "check_capability checkers clk name status (m, w, caps, hc, cf) =
      (if err \<noteq> None then m2 else m1, w1, caps(name \<mapsto> ?x), hc + (if ch_Healthy ?x then 1 else 0),
       cf + (if ch_Required ?x \<and> \<not> ch_Healthy ?x then 1 else 0))"
    by (cases err) (simp_all add: check_capability_def a g)
  then show thesis by (rule that) simp_all
qed

lemma check_loop_result:
  "\<exists>m' w' xs. check_loop checkers clks i cs (m, w, caps, hc, cf) =
      (m', w', caps ++ map_of (rev (zip (map fst cs) xs)), hc + length (filter ch_Healthy xs),
       cf + length (filter (\<lambda>x. ch_Required x \<and> \<not> ch_Healthy x) xs))
    \<and> list_all2 (\<lambda>c x. ch_Required x = cs_Required (snd c) \<and> (ch_Healthy x \<longrightarrow> cs_Healthy (snd c))) cs xs"
proof (induction cs arbitrary: i m w caps hc cf)
  case Nil
  then show ?case by simp
next
  case (Cons c cs)
  obtain name status where c: "c = (name, status)" by fastforce
  obtain m2 w1 x where s: "check_capability checkers (clks i) name status (m, w, caps, hc, cf) =
       (m2, w1, caps(name \<mapsto> x), hc + (if ch_Healthy x then 1 else 0),
        cf + (if ch_Required x \<and> \<not> ch_Healthy x then 1 else 0))"
    "ch_Required x = cs_Required status" "ch_Healthy x \<longrightarrow> cs_Healthy status"
    by (rule check_capability_cases [of checkers "clks i" name status m w caps hc cf])
  from Cons.IH [of "Suc i" m2 w1 "caps(name \<mapsto> x)" "hc + (if ch_Healthy x then 1 else 0)"
      "cf + (if ch_Required x \<and> \<not> ch_Healthy x then 1 else 0)"]
  obtain m' w' xs where r: "check_loop checkers clks (Suc i) cs (check_capability checkers (clks i) name status (m, w, caps, hc, cf)) =
      (m', w', caps(name \<mapsto> x) ++ map_of (rev (zip (map fst cs) xs)),
       hc + (if ch_Healthy x then 1 else 0) + length (filter ch_Healthy xs),
       cf + (if ch_Required x \<and> \<not> ch_Healthy x then 1 else 0)
         + length (filter (\<lambda>x. ch_Required x \<and> \<not> ch_Healthy x) xs))"
    "list_all2 (\<lambda>c x. ch_Required x = cs_Required (snd c) \<and> (ch_Healthy x \<longrightarrow> cs_Healthy (snd c))) cs xs"
    unfolding s(1) by blast
  show ?case
    by (rule exI [of _ m'], rule exI [of _ w'], rule exI [of _ "x # xs"])
      (use r s(2, 3) c in \<open>auto simp: map_add_def fun_eq_iff split: option.split\<close>)
qed

lemma ran_map_of_zip: "length ks = length xs \<Longrightarrow> distinct ks \<Longrightarrow> ran (map_of (rev (zip ks xs))) = set xs"
  by (simp add: ran_distinct map_fst_zip rev_map [symmetric]) (metis map_snd_zip list.set_map)

text \<open>
  The health verdict: the report has one entry for each of the seven capabilities; it is
  unhealthy iff some required capability is not healthy, healthy iff all are, and degraded otherwise;
  a capability is never healthy when its runtime status is not; and the circuits it shows are those
  of before the checks it reports.
\<close>

theorem CheckHealth_verdict:
  "case CheckHealth start clks h w of (h', w', rep) \<Rightarrow>
     dom (hr_Capabilities rep) = set (map fst (capabilities (ha_report h)))
     \<and> (hr_Status rep = ''unhealthy''
          \<longleftrightarrow> (\<exists>c \<in> ran (hr_Capabilities rep). ch_Required c \<and> \<not> ch_Healthy c))
     \<and> (hr_Status rep = ''healthy'' \<longleftrightarrow> ran (hr_Capabilities rep) \<subseteq> {c. ch_Healthy c})
     \<and> hr_Status rep \<in> {''unhealthy'', ''healthy'', ''degraded''}
     \<and> card {c \<in> ran (hr_Capabilities rep). ch_Healthy c}
         \<le> length (filter cs_Healthy (map snd (capabilities (ha_report h))))
     \<and> hr_Circuits rep = AllBreakers (ha_circuitManager h)"
proof -
  let ?cs = "capabilities (ha_report h)"
  obtain m' w' xs where r: "check_loop (ha_healthCheckers h) clks 0 ?cs (ha_circuitManager h, w, Map.empty, 0, 0) =
      (m', w', map_of (rev (zip (map fst ?cs) xs)), length (filter ch_Healthy xs),
       length (filter (\<lambda>x. ch_Required x \<and> \<not> ch_Healthy x) xs))"
    and l: "list_all2 (\<lambda>c x. ch_Required x = cs_Required (snd c) \<and> (ch_Healthy x \<longrightarrow> cs_Healthy (snd c))) ?cs xs"
    using check_loop_result [of "ha_healthCheckers h" clks 0 ?cs "ha_circuitManager h" w Map.empty 0 0]
    by auto
  have len: "length (map fst ?cs) = length xs" using list_all2_lengthD [OF l] by simp
  have d: "distinct (map fst ?cs)" by (simp add: capabilities_def)
  have dom: "dom (map_of (rev (zip (map fst ?cs) xs))) = set (map fst ?cs)"
    using len by (metis dom_map_of_conv_image_fst list.set_map map_fst_zip set_rev)
  have "card (set (filter ch_Healthy xs)) \<le> length (filter ch_Healthy xs)" by (rule card_length)
  also have "\<dots> \<le> length (filter cs_Healthy (map snd ?cs))"
    using l by (induction rule: list_all2_induct) auto
  finally have cnt: "card {c \<in> set xs. ch_Healthy c} \<le> length (filter cs_Healthy (map snd ?cs))"
    by simp
  have all: "length (filter ch_Healthy xs) = length ?cs \<longleftrightarrow> set xs \<subseteq> {c. ch_Healthy c}"
    using len length_filter_all [of ch_Healthy xs] by simp
  have crit: "0 < length (filter (\<lambda>x. ch_Required x \<and> \<not> ch_Healthy x) xs)
      \<longleftrightarrow> (\<exists>c \<in> set xs. ch_Required c \<and> \<not> ch_Healthy c)"
    by (simp add: filter_empty_conv)
  show ?thesis
    unfolding CheckHealth_def Let_def r prod.case HealthReport.simps dom ran_map_of_zip [OF len d] crit all
    using cnt by (simp add: subset_iff)
qed

subsection \<open>The registry\<close>

text \<open>
  The registry's views agree: it is healthy iff no breaker is listed as unhealthy, the
  unhealthy list holds exactly the names of the registered breakers that are open, each once, and the
  snapshot of a name is unhealthy exactly for these; no view depends on the order the runtime ranges
  over the map.
\<close>

theorem registry_views_agree:
  assumes "gomap_ok r"
  shows "(reg_IsHealthy rk heap r \<longleftrightarrow> GetUnhealthy rk' heap r = [])
    \<and> distinct (GetUnhealthy rk heap r)
    \<and> set (GetUnhealthy rk heap r) =
        {name. \<exists>p. reg_Get name r = Some p \<and> cb_state (heap p) = CircuitStateOpen}
    \<and> set (GetUnhealthy rk heap r) =
        {name. \<exists>s. GetAllStates heap r name = Some s \<and> \<not> cbs_Healthy s}"
proof -
  have s: "set (GetUnhealthy rk heap r) =
      {name. \<exists>p. reg_Get name r = Some p \<and> cb_state (heap p) = CircuitStateOpen}" for rk
    using assms by (force simp: GetUnhealthy_def reg_Get_def gomap_in_set image_iff)
  have "distinct (GetUnhealthy rk heap r)"
    unfolding GetUnhealthy_def using distinct_go_range [OF assms] by (rule distinct_map_filter)
  moreover have "reg_IsHealthy rk heap r \<longleftrightarrow> GetUnhealthy rk' heap r = []"
    by (simp add: reg_IsHealthy_def GetUnhealthy_def list_ex_iff filter_empty_conv)
  moreover have "{name. \<exists>p. reg_Get name r = Some p \<and> cb_state (heap p) = CircuitStateOpen} =
      {name. \<exists>s. GetAllStates heap r name = Some s \<and> \<not> cbs_Healthy s}"
  proof -
    have "st = CircuitStateOpen \<longleftrightarrow> st \<noteq> CircuitStateClosed \<and> st \<noteq> CircuitStateHalfOpen" for st
      by (cases st) auto
    then show ?thesis by (auto simp: GetAllStates_def reg_Get_def)
  qed
  ultimately show ?thesis using s by simp
qed

theorem registry_views_agree_witness:
  "set (GetUnhealthy (\<lambda>_. 0)
     (\<lambda>p. (NewCircuitBreaker None)\<lparr>cb_state := (if p = 7 then CircuitStateOpen else CircuitStateClosed)\<rparr>)
     (reg_Register ''ledger'' 7 (reg_Register ''jira'' 3 []))) = {''ledger''}"
proof -
  let ?r = "reg_Register ''ledger'' 7 (reg_Register ''jira'' 3 [])"
  have "gomap_ok ?r" by (simp add: reg_Register_def gomap_ok_def)
  moreover have "reg_Get n ?r = (if n = ''ledger'' then Some 7 else if n = ''jira'' then Some 3 else None)"
    for n by (simp add: reg_Register_def reg_Get_def)
  ultimately show ?thesis
    using registry_views_agree [of ?r "\<lambda>_. 0" "\<lambda>p. (NewCircuitBreaker None)\<lparr>cb_state :=
      (if p = 7 then CircuitStateOpen else CircuitStateClosed)\<rparr>" "\<lambda>_. 0"]
    by (auto split: if_splits)
qed

end
