(* ===== verification/Guardian.thy ===== *)
theory Guardian
  imports Journal_Types
begin

text \<open>
  ZenGuardian (\<open>pkg/guardian/interface.go\<close>) and its two implementations: the logging guardian and the
  per-session rate limit that wraps another guardian (\<open>internal/guardian\<close>).

  \<open>guardian_ops\<close> is the interface, \<open>zen_guardian\<close> the contract its callers rely on. The rate limiter is
  shown to keep the contract over any inner guardian that does (\<open>wrapped_guardian\<close> and its
  sublocale), and both implementations are interpretations.
\<close>

subsection \<open>The interface\<close>

datatype EventKind =
    EventTaskStarted | EventTaskCompleted | EventTaskFailed | EventSessionStart | EventSessionEnd
  | EventAnomaly | EventOther string

record Event =
  ge_Kind :: EventKind
  ge_SessionID :: string
  ge_TaskID :: string
  ge_Message :: string
  ge_Payload :: gval
  ge_At :: time

record SafetyCheckResult =
  sr_Allowed :: bool
  sr_Reason :: string

text \<open>
  \<open>clk i\<close> are the clock readings of the call, the wrapped guardian reading from the third on (from the
  second in \<open>CheckSafety\<close>); \<open>Some e\<close> and \<open>Inl e\<close> are errors.
\<close>

record 'g guardian_ops =
  gu_RecordEvent :: "clock \<Rightarrow> Event \<Rightarrow> 'g \<Rightarrow> 'g \<times> string option"
  gu_CheckSafety :: "clock \<Rightarrow> string \<Rightarrow> string \<Rightarrow> EventKind \<Rightarrow> 'g \<Rightarrow> 'g \<times> (string + SafetyCheckResult)"

text \<open>The contract: operations keep the invariant, and a refusal says why.\<close>

locale zen_guardian =
  fixes ops :: "'g guardian_ops"
    and inv :: "'g \<Rightarrow> bool"
  assumes record_inv: "inv g \<Longrightarrow> gu_RecordEvent ops clk ev g = (g', e) \<Longrightarrow> inv g'"
    and check_inv: "inv g \<Longrightarrow> gu_CheckSafety ops clk sid tid k g = (g', r) \<Longrightarrow> inv g'"
    and refusal_reason: "inv g \<Longrightarrow> gu_CheckSafety ops clk sid tid k g = (g', Inr res) \<Longrightarrow>
      \<not> sr_Allowed res \<Longrightarrow> sr_Reason res \<noteq> ''''"

subsection \<open>The logging guardian\<close>

text \<open>Its state is the standard logger: the events written so far.\<close>

definition log_RecordEvent :: "clock \<Rightarrow> Event \<Rightarrow> Event list \<Rightarrow> Event list \<times> string option" where
  "log_RecordEvent clk ev out = (out @ [ev], None)"

definition log_CheckSafety ::
    "clock \<Rightarrow> string \<Rightarrow> string \<Rightarrow> EventKind \<Rightarrow> Event list \<Rightarrow> Event list \<times> (string + SafetyCheckResult)"
  where
  "log_CheckSafety clk sessionID taskID kind out = (out, Inr \<lparr>sr_Allowed = True, sr_Reason = ''''\<rparr>)"

definition LogGuardian :: "Event list guardian_ops" where
  "LogGuardian = \<lparr>gu_RecordEvent = log_RecordEvent, gu_CheckSafety = log_CheckSafety\<rparr>"

interpretation log_guardian: zen_guardian LogGuardian "\<lambda>_. True"
  by unfold_locales (simp_all add: LogGuardian_def log_CheckSafety_def)

subsection \<open>The rate limiter\<close>

record CircuitBreakerGuardianConfig =
  gc_MaxTasksPerSessionPerMinute :: int
  gc_Window :: duration

record eventAt =
  ea_sessionID :: string
  ea_at :: time

record 'g CircuitBreakerGuardian =
  cg_inner :: 'g
  cg_perSession :: "eventAt list"

definition guardian_config :: "CircuitBreakerGuardianConfig \<Rightarrow> CircuitBreakerGuardianConfig" where
  "guardian_config cfg = (if gc_Window cfg \<le> 0 then cfg\<lparr>gc_Window := minute\<rparr> else cfg)"

text \<open>The compaction loop of \<open>RecordEvent\<close>: it writes the kept entries over the front of the slice.\<close>

fun prune_loop :: "time \<Rightarrow> eventAt list \<Rightarrow> nat \<Rightarrow> eventAt list \<Rightarrow> eventAt list \<times> nat" where
  "prune_loop cutoff buf i [] = (buf, i)"
| "prune_loop cutoff buf i (e # rest) =
     (if time_after (ea_at e) cutoff then prune_loop cutoff (buf[i := e]) (Suc i) rest
      else prune_loop cutoff buf i rest)"

definition prune :: "time \<Rightarrow> eventAt list \<Rightarrow> eventAt list" where
  "prune cutoff events = (case prune_loop cutoff events 0 events of (buf, i) \<Rightarrow> take i buf)"

definition cbg_RecordEvent ::
    "'g guardian_ops option \<Rightarrow> CircuitBreakerGuardianConfig \<Rightarrow> clock \<Rightarrow> Event
     \<Rightarrow> 'g CircuitBreakerGuardian \<Rightarrow> 'g CircuitBreakerGuardian \<times> string option" where
  "cbg_RecordEvent inner cfg clk ev c =
     (case (case inner of None \<Rightarrow> (c, None)
            | Some ops \<Rightarrow> (case gu_RecordEvent ops (\<lambda>i. clk (i + 2)) ev (cg_inner c) of
                            (g, e) \<Rightarrow> (c\<lparr>cg_inner := g\<rparr>, e))) of
        (c1, Some err) \<Rightarrow> (c1, Some err)
      | (c1, None) \<Rightarrow>
          if ge_Kind ev = EventTaskStarted \<and> gc_MaxTasksPerSessionPerMinute cfg > 0
          then let at_time = (if is_zero_time (ge_At ev) then clk 0 else ge_At ev);
                   events = cg_perSession c1 @ [\<lparr>ea_sessionID = ge_SessionID ev, ea_at = at_time\<rparr>];
                   cutoff = time_add (clk 1) (- gc_Window cfg)
               in (c1\<lparr>cg_perSession := prune cutoff events\<rparr>, None)
          else (c1, None))"

fun count_recent :: "string \<Rightarrow> time \<Rightarrow> int \<Rightarrow> eventAt list \<Rightarrow> int" where
  "count_recent sessionID cutoff n [] = n"
| "count_recent sessionID cutoff n (e # rest) =
     count_recent sessionID cutoff
       (if ea_sessionID e = sessionID \<and> time_after (ea_at e) cutoff then n + 1 else n) rest"

definition cbg_CheckSafety ::
    "'g guardian_ops option \<Rightarrow> CircuitBreakerGuardianConfig \<Rightarrow> clock \<Rightarrow> string \<Rightarrow> string \<Rightarrow> EventKind
     \<Rightarrow> 'g CircuitBreakerGuardian \<Rightarrow> 'g CircuitBreakerGuardian \<times> (string + SafetyCheckResult)" where
  "cbg_CheckSafety inner cfg clk sessionID taskID kind c =
     (if gc_MaxTasksPerSessionPerMinute cfg > 0 \<and> kind = EventTaskStarted
         \<and> count_recent sessionID (time_add (clk 0) (- gc_Window cfg)) 0 (cg_perSession c)
             \<ge> gc_MaxTasksPerSessionPerMinute cfg
      then (c, Inr \<lparr>sr_Allowed = False,
                    sr_Reason = ''circuit breaker: max tasks per session per minute exceeded''\<rparr>)
      else case inner of
             None \<Rightarrow> (c, Inr \<lparr>sr_Allowed = True, sr_Reason = ''''\<rparr>)
           | Some ops \<Rightarrow>
               (case gu_CheckSafety ops (\<lambda>i. clk (Suc i)) sessionID taskID kind (cg_inner c) of
                  (g, r) \<Rightarrow> (c\<lparr>cg_inner := g\<rparr>, r)))"

definition NewCircuitBreakerGuardian ::
    "'g guardian_ops option \<Rightarrow> CircuitBreakerGuardianConfig \<Rightarrow> 'g CircuitBreakerGuardian guardian_ops" where
  "NewCircuitBreakerGuardian inner cfg =
     \<lparr>gu_RecordEvent = cbg_RecordEvent inner (guardian_config cfg),
      gu_CheckSafety = cbg_CheckSafety inner (guardian_config cfg)\<rparr>"

subsection \<open>The rate limiter keeps the contract\<close>

lemma cbg_record_frame:
  "cbg_RecordEvent None cfg clk ev c = (c', e) \<Longrightarrow> cg_inner c' = cg_inner c"
  by (auto simp: cbg_RecordEvent_def Let_def split: if_splits)

locale wrapped_guardian = inner: zen_guardian iops iinv
  for iops :: "'g guardian_ops" and iinv :: "'g \<Rightarrow> bool" +
  fixes cfg :: CircuitBreakerGuardianConfig

sublocale wrapped_guardian \<subseteq> limited: zen_guardian
  "NewCircuitBreakerGuardian (Some iops) cfg" "\<lambda>c. iinv (cg_inner c)"
proof unfold_locales
  fix c clk ev c' e
  assume i: "iinv (cg_inner c)"
    and r: "gu_RecordEvent (NewCircuitBreakerGuardian (Some iops) cfg) clk ev c = (c', e)"
  obtain g e1 where g: "gu_RecordEvent iops (\<lambda>i. clk (i + 2)) ev (cg_inner c) = (g, e1)" by fastforce
  show "iinv (cg_inner c')"
    using r g inner.record_inv [OF i g]
    by (cases e1) (auto simp: NewCircuitBreakerGuardian_def cbg_RecordEvent_def Let_def split: if_splits)
next
  fix c clk sid tid k c' r
  assume i: "iinv (cg_inner c)"
    and r: "gu_CheckSafety (NewCircuitBreakerGuardian (Some iops) cfg) clk sid tid k c = (c', r)"
  obtain g r1 where g: "gu_CheckSafety iops (\<lambda>i. clk (Suc i)) sid tid k (cg_inner c) = (g, r1)"
    by fastforce
  show "iinv (cg_inner c')"
    using r g i inner.check_inv [OF i g]
    by (auto simp: NewCircuitBreakerGuardian_def cbg_CheckSafety_def split: if_splits)
next
  fix c clk sid tid k c' res
  assume i: "iinv (cg_inner c)" and n: "\<not> sr_Allowed res"
    and r: "gu_CheckSafety (NewCircuitBreakerGuardian (Some iops) cfg) clk sid tid k c = (c', Inr res)"
  obtain g r1 where g: "gu_CheckSafety iops (\<lambda>i. clk (Suc i)) sid tid k (cg_inner c) = (g, r1)"
    by fastforce
  show "sr_Reason res \<noteq> ''''"
    using r g n inner.refusal_reason [OF i, of "\<lambda>i. clk (Suc i)" sid tid k g]
    by (auto simp: NewCircuitBreakerGuardian_def cbg_CheckSafety_def split: if_splits)
qed

interpretation limited_log: wrapped_guardian LogGuardian "\<lambda>_. True" cfg for cfg
  by unfold_locales

end
