(* ===== verification/Gate.thy ===== *)
theory Gate
  imports Journal_Types
begin

text \<open>
  ZenGate, the admission control of the factory: the requests and rules of \<open>pkg/gate/interface.go\<close> and
  \<open>pkg/policy/interface.go\<close>, the conversion of BrainPolicy resources to rules
  (\<open>internal/policyadapter/brainpolicy.go\<close>), the gate that enforces them and the gate that only logs
  (\<open>internal/gate\<close>).

  The policies come from the Kubernetes API server: the result of \<open>client.List\<close>, an error or a list, is
  an argument. A reason is a value of \<open>gate_reason\<close>; the text the code builds from it is never empty
  but for \<open>NoReason\<close>.
\<close>

subsection \<open>Policies and requests\<close>

record PolicyRuleSpec =
  prs_Name :: string
  prs_Action :: string
  prs_RequiresApproval :: bool
  prs_MaxCostUSD :: float64
  prs_AllowedModels :: "string list"

record BrainPolicySpec =
  bps_Rules :: "PolicyRuleSpec list"
  bps_DefaultApprovalLevel :: string
  bps_BudgetLimitUSD :: float64

record Condition =
  cond_Field :: string
  cond_Operator :: string
  cond_Value :: gval

record Obligation =
  ob_Type :: string
  ob_Parameters :: "string \<rightharpoonup> gval"

record PolicyRule =
  pr_Name :: string
  pr_Description :: string
  pr_Version :: string
  pr_Priority :: int
  pr_Conditions :: "Condition list"
  pr_Effect :: string
  pr_Obligations :: "Obligation list"
  pr_Metadata :: "string \<rightharpoonup> gval"

record Resource =
  rs_Type :: string
  rs_ID :: string
  rs_ClusterID :: string
  rs_ProjectID :: string
  rs_Attributes :: "string \<rightharpoonup> gval"

record Subject =
  sj_Type :: string
  sj_ID :: string
  sj_Roles :: "string list"
  sj_Attributes :: "string \<rightharpoonup> gval"

record AdmissionRequest =
  aq_RequestID :: string
  aq_WorkItemID :: string
  aq_SessionID :: string
  aq_TaskID :: string
  aq_ClusterID :: string
  aq_ProjectID :: string
  aq_Action :: string
  aq_Resource :: Resource
  aq_Subject :: Subject
  aq_Payload :: "string \<rightharpoonup> gval"
  aq_Timestamp :: time

datatype gate_reason =
    NoReason
  | PolicyListFailed string
  | RuleFailed string string string gval gval

record AdmissionResponse =
  ap_RequestID :: string
  ap_Allowed :: bool
  ap_Reason :: gate_reason
  ap_RequiresApproval :: bool
  ap_EvaluatedAt :: time
  ap_EvaluationDuration :: duration

subsection \<open>From BrainPolicy to rules\<close>

datatype policy_error =
    PESpecNil
  | PENameRequired nat
  | PEDuplicateName string
  | PEActionRequired nat
  | PENegativeCost nat
  | PERule nat string policy_error
  | PERuleName
  | PERuleAction
  | PERuleCost

fun validate_rules :: "string set \<Rightarrow> nat \<Rightarrow> PolicyRuleSpec list \<Rightarrow> policy_error option" where
  "validate_rules seen i [] = None"
| "validate_rules seen i (r # rs) =
     (if trim_space (prs_Name r) = '''' then Some (PENameRequired i)
      else if prs_Name r \<in> seen then Some (PEDuplicateName (prs_Name r))
      else if trim_space (prs_Action r) = '''' then Some (PEActionRequired i)
      else if flt (prs_MaxCostUSD r) (Fin 0) then Some (PENegativeCost i)
      else validate_rules (insert (prs_Name r) seen) (Suc i) rs)"

definition ValidateBrainPolicySpec :: "BrainPolicySpec option \<Rightarrow> policy_error option" where
  "ValidateBrainPolicySpec p =
     (case p of None \<Rightarrow> Some PESpecNil | Some spec \<Rightarrow> validate_rules {} 0 (bps_Rules spec))"

definition ConvertBrainPolicyRule :: "PolicyRuleSpec \<Rightarrow> string \<Rightarrow> policy_error + PolicyRule" where
  "ConvertBrainPolicyRule rule defaultApprovalLevel =
     (if trim_space (prs_Name rule) = '''' then Inl PERuleName
      else if trim_space (prs_Action rule) = '''' then Inl PERuleAction
      else if flt (prs_MaxCostUSD rule) (Fin 0) then Inl PERuleCost
      else
        let level = (let l = trim_space defaultApprovalLevel in if l = '''' then ''default'' else l)
        in Inr
          \<lparr>pr_Name = trim_space (prs_Name rule),
           pr_Description = ''BrainPolicy rule: '' @ prs_Action rule,
           pr_Version = ''v1'', pr_Priority = 0,
           pr_Conditions =
             [\<lparr>cond_Field = ''action'', cond_Operator = ''equals'', cond_Value = GString (prs_Action rule)\<rparr>]
             @ (if fgt (prs_MaxCostUSD rule) (Fin 0)
                then [\<lparr>cond_Field = ''resource.attributes.estimated_cost_usd'', cond_Operator = ''lte'',
                       cond_Value = GFloat (prs_MaxCostUSD rule)\<rparr>]
                else [])
             @ (if length (prs_AllowedModels rule) > 0
                then [\<lparr>cond_Field = ''context.data.model_id'', cond_Operator = ''in'',
                       cond_Value = GStrings (prs_AllowedModels rule)\<rparr>]
                else []),
           pr_Effect = (if prs_RequiresApproval rule then ''require_approval'' else ''allow''),
           pr_Obligations =
             (if prs_RequiresApproval rule
              then [\<lparr>ob_Type = ''require_approval'',
                     ob_Parameters = [''approval_level'' \<mapsto> GString level]\<rparr>]
              else []),
           pr_Metadata = [''action'' \<mapsto> GString (prs_Action rule)]\<rparr>)"

fun convert_rules :: "string \<Rightarrow> nat \<Rightarrow> PolicyRuleSpec list \<Rightarrow> policy_error + PolicyRule list" where
  "convert_rules lvl i [] = Inr []"
| "convert_rules lvl i (r # rs) =
     (case ConvertBrainPolicyRule r lvl of
        Inl e \<Rightarrow> Inl (PERule i (prs_Name r) e)
      | Inr x \<Rightarrow> (case convert_rules lvl (Suc i) rs of Inl e \<Rightarrow> Inl e | Inr xs \<Rightarrow> Inr (x # xs)))"

definition ConvertBrainPolicy :: "BrainPolicySpec \<Rightarrow> policy_error + PolicyRule list" where
  "ConvertBrainPolicy spec =
     (let defaultApproval = (let l = trim_space (bps_DefaultApprovalLevel spec)
                             in if l = '''' then ''default'' else l)
      in convert_rules defaultApproval 0 (bps_Rules spec))"

subsection \<open>Evaluating rules\<close>

text \<open>
  \<open>reflect.DeepEqual\<close> on interface values: the dynamic types must agree, numbers compare as Go numbers
  (a NaN equals nothing), slices elementwise. The rules compare no map values; two maps are equal here
  when their association lists are.
\<close>

fun deep_equal :: "gval \<Rightarrow> gval \<Rightarrow> bool" where
  "deep_equal (GFloat a) (GFloat b) = feq a b"
| "deep_equal a b = (a = b)"

text \<open>\<open>reflect.Value.IsZero\<close>; an empty slice or map stands for the nil one.\<close>

fun is_zero_value :: "gval \<Rightarrow> bool" where
  "is_zero_value GNil = True"
| "is_zero_value (GString s) = (s = '''')"
| "is_zero_value (GInt i) = (i = 0)"
| "is_zero_value (GInt64 i) = (i = 0)"
| "is_zero_value (GFloat f) = (f = Fin 0)"
| "is_zero_value (GBool b) = (\<not> b)"
| "is_zero_value (GStrings xs) = (xs = [])"
| "is_zero_value (GMap m) = (m = [])"
| "is_zero_value (GFormatted t) = False"

fun toFloat :: "gval \<Rightarrow> float64" where
  "toFloat (GFloat x) = x"
| "toFloat (GInt x) = float_of_int x"
| "toFloat (GInt64 x) = float_of_int x"
| "toFloat _ = Fin 0"

definition numericCompare :: "gval \<Rightarrow> gval \<Rightarrow> int" where
  "numericCompare a b =
     (let af = toFloat a; bf = toFloat b in if flt af bf then -1 else if fgt af bf then 1 else 0)"

definition sliceContains :: "gval \<Rightarrow> gval \<Rightarrow> bool" where
  "sliceContains slice elem =
     (case slice of
        GNil \<Rightarrow> True
      | GStrings xs \<Rightarrow>
          if list_ex (\<lambda>x. deep_equal (GString x) elem) xs then True
          else elem = GNil \<or> is_zero_value elem
      | _ \<Rightarrow> False)"

definition conditionPasses :: "Condition \<Rightarrow> gval \<Rightarrow> bool" where
  "conditionPasses c reqVal =
     (if cond_Operator c = ''equals'' then deep_equal reqVal (cond_Value c)
      else if cond_Operator c = ''lte'' then numericCompare reqVal (cond_Value c) \<le> 0
      else if cond_Operator c = ''in'' then sliceContains (cond_Value c) reqVal
      else True)"

definition getRequestValue :: "AdmissionRequest \<Rightarrow> string \<Rightarrow> gval" where
  "getRequestValue req field =
     (if has_prefix field ''resource.attributes.''
      then (case rs_Attributes (aq_Resource req) (trim_prefix field ''resource.attributes.'') of
              Some v \<Rightarrow> v | None \<Rightarrow> GNil)
      else if has_prefix field ''context.data.''
      then (case aq_Payload req (trim_prefix field ''context.data.'') of Some v \<Rightarrow> v | None \<Rightarrow> GNil)
      else GNil)"

fun evaluate_conditions :: "string \<Rightarrow> AdmissionRequest \<Rightarrow> Condition list \<Rightarrow> gate_reason" where
  "evaluate_conditions name req [] = NoReason"
| "evaluate_conditions name req (cond # conds) =
     (if cond_Field cond = ''action'' then evaluate_conditions name req conds
      else let reqVal = getRequestValue req (cond_Field cond)
           in if \<not> conditionPasses cond reqVal
              then RuleFailed name (cond_Field cond) (cond_Operator cond) (cond_Value cond) reqVal
              else evaluate_conditions name req conds)"

definition evaluateRule :: "PolicyRule \<Rightarrow> AdmissionRequest \<Rightarrow> gate_reason" where
  "evaluateRule rule req = evaluate_conditions (pr_Name rule) req (pr_Conditions rule)"

definition ruleMatchesAction :: "PolicyRule \<Rightarrow> string \<Rightarrow> bool" where
  "ruleMatchesAction r action =
     (case pr_Metadata r ''action'' of
        Some a \<Rightarrow> a = GString action
      | None \<Rightarrow>
          (case find (\<lambda>c. cond_Field c = ''action'' \<and> cond_Operator c = ''equals'') (pr_Conditions r) of
             Some c \<Rightarrow> cond_Value c = GString action
           | None \<Rightarrow> False))"

fun collect_rules :: "string \<Rightarrow> BrainPolicySpec list \<Rightarrow> PolicyRule list" where
  "collect_rules action [] = []"
| "collect_rules action (bp # bps) =
     (if ValidateBrainPolicySpec (Some bp) \<noteq> None then collect_rules action bps
      else case ConvertBrainPolicy bp of
             Inl e \<Rightarrow> collect_rules action bps
           | Inr converted \<Rightarrow>
               filter (\<lambda>r. ruleMatchesAction r action) converted @ collect_rules action bps)"

fun first_denial :: "AdmissionRequest \<Rightarrow> PolicyRule list \<Rightarrow> gate_reason" where
  "first_denial req [] = NoReason"
| "first_denial req (rule # rules) =
     (let reason = evaluateRule rule req
      in if reason \<noteq> NoReason then reason else first_denial req rules)"

definition policy_Admit ::
    "(string + BrainPolicySpec list) \<Rightarrow> clock \<Rightarrow> AdmissionRequest \<Rightarrow> AdmissionResponse" where
  "policy_Admit listing clk req =
     (let resp = \<lparr>ap_RequestID = aq_RequestID req, ap_Allowed = True, ap_Reason = NoReason,
                  ap_RequiresApproval = False, ap_EvaluatedAt = clk 0, ap_EvaluationDuration = 0\<rparr>;
          done_at = time_sub (clk 1) (clk 0)
      in case listing of
           Inl err \<Rightarrow> resp\<lparr>ap_Allowed := False, ap_Reason := PolicyListFailed err,
                           ap_EvaluationDuration := done_at\<rparr>
         | Inr items \<Rightarrow>
             if items = [] then resp\<lparr>ap_EvaluationDuration := done_at\<rparr>
             else let rules = collect_rules (aq_Action req) items
                  in if rules = [] then resp\<lparr>ap_EvaluationDuration := done_at\<rparr>
                     else let reason = first_denial req rules
                          in if reason \<noteq> NoReason
                             then resp\<lparr>ap_Allowed := False, ap_Reason := reason,
                                       ap_EvaluationDuration := done_at\<rparr>
                             else resp\<lparr>ap_EvaluationDuration := done_at\<rparr>)"

definition policy_Validate ::
    "(string + BrainPolicySpec list) \<Rightarrow> clock \<Rightarrow> AdmissionRequest \<Rightarrow> (string \<times> gate_reason) list" where
  "policy_Validate listing clk req =
     (let resp = policy_Admit listing clk req
      in if \<not> ap_Allowed resp then [(''policy'', ap_Reason resp)] else [])"

subsection \<open>The interface\<close>

text \<open>
  \<open>ga_Admit\<close> is \<open>ZenGate.Admit\<close>: an error, or a response pointer that may be nil. The contract: an
  answer is about the request it answers and a denial has a reason.
\<close>

record 'g gate_ops =
  ga_Admit :: "clock \<Rightarrow> AdmissionRequest \<Rightarrow> 'g \<Rightarrow> 'g \<times> (string + AdmissionResponse option)"

locale zen_gate =
  fixes ops :: "'g gate_ops"
  assumes answers: "ga_Admit ops clk req g = (g', Inr (Some resp)) \<Longrightarrow> ap_RequestID resp = aq_RequestID req"
    and denial_reason: "ga_Admit ops clk req g = (g', Inr (Some resp)) \<Longrightarrow> \<not> ap_Allowed resp \<Longrightarrow>
      ap_Reason resp \<noteq> NoReason"

definition PolicyGate :: "(string + BrainPolicySpec list) gate_ops" where
  "PolicyGate = \<lparr>ga_Admit = (\<lambda>clk req listing. (listing, Inr (Some (policy_Admit listing clk req))))\<rparr>"

definition log_Admit ::
    "clock \<Rightarrow> AdmissionRequest \<Rightarrow> AdmissionRequest list
     \<Rightarrow> AdmissionRequest list \<times> (string + AdmissionResponse option)" where
  "log_Admit clk req out =
     (out @ [req], Inr (Some \<lparr>ap_RequestID = aq_RequestID req, ap_Allowed = True, ap_Reason = NoReason,
       ap_RequiresApproval = False, ap_EvaluatedAt = clk 0, ap_EvaluationDuration = 0\<rparr>))"

definition LogGate :: "AdmissionRequest list gate_ops" where
  "LogGate = \<lparr>ga_Admit = log_Admit\<rparr>"

interpretation policy_gate: zen_gate PolicyGate
  by unfold_locales
    (auto simp: PolicyGate_def policy_Admit_def Let_def split: sum.splits if_splits)

interpretation log_gate: zen_gate LogGate
  by unfold_locales (auto simp: LogGate_def log_Admit_def)

end
