(* ===== verification/Foreman.thy ===== *)
theory Foreman
  imports Guardian Gate "HOL-Library.Word"
begin

text \<open>
  The foreman: the reconciler that schedules BrainTasks (\<open>internal/foreman/reconciler.go\<close>), the
  reconciler of queue status (\<open>queue_status.go\<close>), on the resources of \<open>api/v1alpha1\<close>.

  The Kubernetes API server and the dispatcher are outside: the results of the calls a handler makes to
  them are its arguments (\<open>reconcile_env\<close>), and what it asks them to do is the list of effects it
  returns, in order. Guardian and gate are interface values with their own state.
\<close>

subsection \<open>Resources\<close>

datatype BrainTaskPhase =
    PhaseUnset | BrainTaskPhasePending | BrainTaskPhaseScheduled | BrainTaskPhaseRunning
  | BrainTaskPhaseCompleted | BrainTaskPhaseFailed | BrainTaskPhaseCanceled | PhaseOther string

datatype cond_message = CondText string | CondGate gate_reason

record task_condition =
  tc_Type :: string
  tc_Reason :: string
  tc_Message :: cond_message
  tc_LastTransitionTime :: time
  tc_ObservedGeneration :: int

record ObjectMeta =
  om_Namespace :: string
  om_Name :: string
  om_UID :: string
  om_Generation :: int
  om_Annotations :: "string \<rightharpoonup> string"

record TaskSpec =
  ts_ID :: string
  ts_WorkItemID :: string
  ts_SessionID :: string
  ts_SourceKey :: string
  ts_Title :: string
  ts_Description :: string
  ts_WorkType :: string
  ts_WorkDomain :: string
  ts_Priority :: string
  ts_Objective :: string
  ts_AcceptanceCriteria :: "string list"
  ts_Constraints :: "string list"
  ts_EvidenceRequirement :: string
  ts_SREDTags :: "string list"
  ts_Hypothesis :: string
  ts_TimeoutSeconds :: int
  ts_MaxRetries :: int
  ts_EstimatedCostUSD :: float64
  ts_DependsOn :: "string list"
  ts_KBScopes :: "string list"
  ts_QueueName :: string

record TaskStatus =
  tt_Phase :: BrainTaskPhase
  tt_Conditions :: "task_condition list"
  tt_AssignedAgent :: string
  tt_Message :: string
  tt_ObservedGeneration :: int

record BrainTask =
  bt_Meta :: ObjectMeta
  bt_Spec :: TaskSpec
  bt_Status :: TaskStatus

datatype BrainQueuePhase =
    QueueUnset | BrainQueuePhaseReady | BrainQueuePhasePaused | BrainQueuePhaseDraining

record QueueStatus =
  qs_Phase :: BrainQueuePhase
  qs_Depth :: "32 word"
  qs_InFlight :: "32 word"

record BrainQueue =
  bq_Meta :: ObjectMeta
  bq_Status :: QueueStatus

datatype 'a get_result = Got 'a | GetNotFound | GetErr string

record ctrl_result =
  cr_Requeue :: bool
  cr_RequeueAfter :: duration

definition no_requeue :: ctrl_result where
  "no_requeue = \<lparr>cr_Requeue = False, cr_RequeueAfter = 0\<rparr>"

definition requeue :: ctrl_result where
  "requeue = \<lparr>cr_Requeue = True, cr_RequeueAfter = 0\<rparr>"

subsection \<open>Labels\<close>

definition GetPlannedModel :: "(string \<rightharpoonup> string) \<Rightarrow> string" where
  "GetPlannedModel annotations =
     (case annotations ''brain.zen-mesh.io/planned-model'' of
        Some v \<Rightarrow> v
      | None \<Rightarrow>
          (case annotations ''zen.kube-zen.com/planned-model'' of Some v \<Rightarrow> v | None \<Rightarrow> ''''))"

subsection \<open>The task reconciler\<close>

text \<open>
  The arguments of one call: what \<open>Get\<close> returned for the task and for its queue, the errors of the
  status update and of the dispatch (a call of the handler makes at most one of each), and the clock
  readings of the handler, of the guardian's check and record, and of the gate.
\<close>

record reconcile_env =
  re_task :: "BrainTask get_result"
  re_queue :: "BrainQueue get_result"
  re_update :: "string option"
  re_dispatch :: "string option"
  re_clk :: clock
  re_check_clk :: clock
  re_record_clk :: clock
  re_gate_clk :: clock

record ('g, 'a) Reconciler =
  rc_Gate :: "'a gate_ops option"
  rc_Guardian :: "'g guardian_ops option"
  rc_Dispatcher :: bool

datatype effect = StatusUpdate BrainTask | Dispatch BrainTask

record ('g, 'a) reconcile_out =
  ro_guardian :: 'g
  ro_gate :: 'a
  ro_effects :: "effect list"
  ro_result :: ctrl_result
  ro_error :: "string option"

definition findCondition :: "task_condition list \<Rightarrow> string \<Rightarrow> task_condition option" where
  "findCondition conditions ctype = find (\<lambda>c. tc_Type c = ctype) conditions"

definition set_phase :: "BrainTaskPhase \<Rightarrow> BrainTask \<Rightarrow> BrainTask" where
  "set_phase p t = t\<lparr>bt_Status := (bt_Status t)\<lparr>tt_Phase := p\<rparr>\<rparr>"

definition add_condition :: "task_condition \<Rightarrow> BrainTask \<Rightarrow> BrainTask" where
  "add_condition c t = t\<lparr>bt_Status := (bt_Status t)\<lparr>tt_Conditions := tt_Conditions (bt_Status t) @ [c]\<rparr>\<rparr>"

definition observe_generation :: "BrainTask \<Rightarrow> BrainTask" where
  "observe_generation t = t
     \<lparr>bt_Status := (bt_Status t)\<lparr>tt_ObservedGeneration := om_Generation (bt_Meta t)\<rparr>\<rparr>"

definition admission_request :: "time \<Rightarrow> BrainTask \<Rightarrow> AdmissionRequest" where
  "admission_request now t =
     \<lparr>aq_RequestID = om_UID (bt_Meta t), aq_WorkItemID = ts_WorkItemID (bt_Spec t),
      aq_SessionID = ts_SessionID (bt_Spec t), aq_TaskID = om_Name (bt_Meta t), aq_ClusterID = '''',
      aq_ProjectID = '''', aq_Action = ''execute_task'',
      aq_Resource = \<lparr>rs_Type = ''task'', rs_ID = om_Name (bt_Meta t), rs_ClusterID = '''',
        rs_ProjectID = '''',
        rs_Attributes = [''estimated_cost_usd'' \<mapsto> GFloat (ts_EstimatedCostUSD (bt_Spec t))]\<rparr>,
      aq_Subject = \<lparr>sj_Type = ''system'', sj_ID = ''foreman'', sj_Roles = [], sj_Attributes = Map.empty\<rparr>,
      aq_Payload = [''model_id'' \<mapsto> GString (GetPlannedModel (om_Annotations (bt_Meta t)))],
      aq_Timestamp = now\<rparr>"

definition blocked_condition :: "string \<Rightarrow> string \<Rightarrow> cond_message \<Rightarrow> time \<Rightarrow> BrainTask \<Rightarrow> task_condition" where
  "blocked_condition ctype reason msg now t =
     \<lparr>tc_Type = ctype, tc_Reason = reason, tc_Message = msg, tc_LastTransitionTime = now,
      tc_ObservedGeneration = om_Generation (bt_Meta t)\<rparr>"

definition scheduled_task :: "time \<Rightarrow> BrainTask \<Rightarrow> BrainTask" where
  "scheduled_task now t =
     (let t1 = observe_generation (set_phase BrainTaskPhaseScheduled t);
          t2 = t1\<lparr>bt_Status := (bt_Status t1)\<lparr>tt_Message := ''Scheduled by Foreman''\<rparr>\<rparr>
      in add_condition (blocked_condition ''Scheduled'' ''ForemanScheduled''
           (CondText ''Scheduled by Foreman'') now t) t2)"

definition started_event :: "time \<Rightarrow> BrainTask \<Rightarrow> Event" where
  "started_event now t =
     \<lparr>ge_Kind = EventTaskStarted, ge_SessionID = ts_SessionID (bt_Spec t),
      ge_TaskID = om_Name (bt_Meta t), ge_Message = '''', ge_Payload = GNil, ge_At = now\<rparr>"

text \<open>The tail of the Pending branch, after every check has passed.\<close>

definition schedule ::
    "('g, 'a) Reconciler \<Rightarrow> reconcile_env \<Rightarrow> BrainTask \<Rightarrow> 'g \<Rightarrow> 'a \<Rightarrow> ('g, 'a) reconcile_out" where
  "schedule r env task g a =
     (let t = scheduled_task (re_clk env 2) task
      in case re_update env of
           Some e \<Rightarrow> \<lparr>ro_guardian = g, ro_gate = a, ro_effects = [StatusUpdate t],
                      ro_result = no_requeue, ro_error = Some e\<rparr>
         | None \<Rightarrow>
             let g' = (case rc_Guardian r of
                         None \<Rightarrow> g
                       | Some ops \<Rightarrow>
                           fst (gu_RecordEvent ops (re_record_clk env) (started_event (re_clk env 3) t) g))
             in \<lparr>ro_guardian = g', ro_gate = a,
                 ro_effects = StatusUpdate t # (if rc_Dispatcher r then [Dispatch t] else []),
                 ro_result = no_requeue, ro_error = None\<rparr>)"

definition admit_and_schedule ::
    "('g, 'a) Reconciler \<Rightarrow> reconcile_env \<Rightarrow> BrainTask \<Rightarrow> 'g \<Rightarrow> 'a \<Rightarrow> ('g, 'a) reconcile_out" where
  "admit_and_schedule r env task g a =
     (case rc_Gate r of
        None \<Rightarrow> schedule r env task g a
      | Some ops \<Rightarrow>
          (case ga_Admit ops (re_gate_clk env) (admission_request (re_clk env 1) task) a of
             (a', Inl e) \<Rightarrow> \<lparr>ro_guardian = g, ro_gate = a', ro_effects = [], ro_result = no_requeue,
                              ro_error = Some e\<rparr>
           | (a', Inr None) \<Rightarrow> schedule r env task g a'
           | (a', Inr (Some resp)) \<Rightarrow>
               if \<not> ap_Allowed resp
               then \<lparr>ro_guardian = g, ro_gate = a',
                     ro_effects = [StatusUpdate (add_condition
                       (blocked_condition ''AdmissionDenied'' ''GateDenied'' (CondGate (ap_Reason resp))
                          (re_clk env 2) task) task)],
                     ro_result = requeue, ro_error = None\<rparr>
               else schedule r env task g a'))"

definition check_and_schedule ::
    "('g, 'a) Reconciler \<Rightarrow> reconcile_env \<Rightarrow> BrainTask \<Rightarrow> 'g \<Rightarrow> 'a \<Rightarrow> ('g, 'a) reconcile_out" where
  "check_and_schedule r env task g a =
     (case rc_Guardian r of
        None \<Rightarrow> admit_and_schedule r env task g a
      | Some ops \<Rightarrow>
          (case gu_CheckSafety ops (re_check_clk env) (ts_SessionID (bt_Spec task))
                  (om_Name (bt_Meta task)) EventTaskStarted g of
             (g', Inl e) \<Rightarrow> \<lparr>ro_guardian = g', ro_gate = a, ro_effects = [], ro_result = no_requeue,
                              ro_error = Some e\<rparr>
           | (g', Inr safety) \<Rightarrow>
               if \<not> sr_Allowed safety
               then \<lparr>ro_guardian = g', ro_gate = a,
                     ro_effects = [StatusUpdate (add_condition
                       (blocked_condition ''GuardianBlocked'' ''GuardianSafety''
                          (CondText (sr_Reason safety)) (re_clk env 1) task) task)],
                     ro_result = requeue, ro_error = None\<rparr>
               else admit_and_schedule r env task g' a))"

definition queue_paused :: "reconcile_env \<Rightarrow> BrainTask \<Rightarrow> bool" where
  "queue_paused env task \<longleftrightarrow>
     ts_QueueName (bt_Spec task) \<noteq> ''''
     \<and> (case re_queue env of
          Got q \<Rightarrow> qs_Phase (bq_Status q) = BrainQueuePhasePaused
        | _ \<Rightarrow> False)"

definition stale_after :: duration where
  "stale_after = 50 * minute"

definition stale_running :: "time \<Rightarrow> BrainTask \<Rightarrow> bool" where
  "stale_running now task \<longleftrightarrow>
     tt_Phase (bt_Status task) = BrainTaskPhaseRunning
     \<and> (case findCondition (tt_Conditions (bt_Status task)) ''Scheduled'' of
          None \<Rightarrow> False
        | Some c \<Rightarrow> time_sub now (tc_LastTransitionTime c) > stale_after)"

definition Reconcile ::
    "('g, 'a) Reconciler \<Rightarrow> reconcile_env \<Rightarrow> 'g \<Rightarrow> 'a \<Rightarrow> ('g, 'a) reconcile_out" where
  "Reconcile r env g a =
     (let done = (\<lambda>eff res err. \<lparr>ro_guardian = g, ro_gate = a, ro_effects = eff, ro_result = res,
                                 ro_error = err\<rparr>)
      in case re_task env of
           GetNotFound \<Rightarrow> done [] no_requeue None
         | GetErr e \<Rightarrow> done [] no_requeue (Some e)
         | Got task \<Rightarrow>
             let observed = (tt_ObservedGeneration (bt_Status task) = om_Generation (bt_Meta task));
                 phase = tt_Phase (bt_Status task)
             in if observed \<and> phase \<in> {BrainTaskPhaseCompleted, BrainTaskPhaseFailed, BrainTaskPhaseCanceled}
                then done [] no_requeue None
                else if observed \<and> stale_running (re_clk env 0) task
                then (if rc_Dispatcher r
                      then (case re_dispatch env of
                              Some e \<Rightarrow> done [Dispatch task] no_requeue (Some e)
                            | None \<Rightarrow> done [Dispatch task] \<lparr>cr_Requeue = False, cr_RequeueAfter = minute\<rparr> None)
                      else done [] \<lparr>cr_Requeue = False, cr_RequeueAfter = minute\<rparr> None)
                else if phase = PhaseUnset
                then done [StatusUpdate (observe_generation (set_phase BrainTaskPhasePending task))]
                       no_requeue (re_update env)
                else if phase = BrainTaskPhasePending
                then (if queue_paused env task then done [] requeue None
                      else check_and_schedule r env task g a)
                else done [] no_requeue None)"

subsection \<open>The queue reconciler\<close>

fun count_tasks :: "string \<Rightarrow> BrainTask list \<Rightarrow> 32 word \<times> 32 word \<Rightarrow> 32 word \<times> 32 word" where
  "count_tasks queue [] c = c"
| "count_tasks queue (t # ts) (depth, inFlight) =
     (if ts_QueueName (bt_Spec t) \<noteq> queue then count_tasks queue ts (depth, inFlight)
      else count_tasks queue ts
        (case tt_Phase (bt_Status t) of
           BrainTaskPhasePending \<Rightarrow> (depth + 1, inFlight)
         | BrainTaskPhaseScheduled \<Rightarrow> (depth, inFlight + 1)
         | BrainTaskPhaseRunning \<Rightarrow> (depth, inFlight + 1)
         | _ \<Rightarrow> (depth, inFlight)))"

text \<open>The result: the status update it makes, if any, and the error it returns.\<close>

definition QueueReconcile ::
    "BrainQueue get_result \<Rightarrow> (string + BrainTask list) \<Rightarrow> string option
     \<Rightarrow> BrainQueue option \<times> string option" where
  "QueueReconcile got listing upd =
     (case got of
        GetNotFound \<Rightarrow> (None, None)
      | GetErr e \<Rightarrow> (None, Some e)
      | Got queue \<Rightarrow>
          (case listing of
             Inl e \<Rightarrow> (None, Some e)
           | Inr items \<Rightarrow>
               (case count_tasks (om_Name (bq_Meta queue)) items (0, 0) of
                  (depth, inFlight) \<Rightarrow>
                    if qs_Depth (bq_Status queue) = depth \<and> qs_InFlight (bq_Status queue) = inFlight
                    then (None, None)
                    else (Some (queue\<lparr>bq_Status := (bq_Status queue)
                            \<lparr>qs_Depth := depth, qs_InFlight := inFlight,
                             qs_Phase := (if qs_Phase (bq_Status queue) = QueueUnset
                                          then BrainQueuePhaseReady else qs_Phase (bq_Status queue))\<rparr>\<rparr>),
                          upd))))"

definition queueForTask :: "BrainTask \<Rightarrow> (string \<times> string) list" where
  "queueForTask task =
     (if ts_QueueName (bt_Spec task) = '''' then []
      else [(om_Namespace (bt_Meta task), ts_QueueName (bt_Spec task))])"

end
