(* ===== verification/Worker.thy ===== *)
theory Worker
  imports Foreman
begin

text \<open>
  The worker pool of the foreman (\<open>internal/foreman/worker.go\<close>): the choice of a worker for a session,
  and what a worker does with one task: claim it, run it, and write the outcome back.

  A worker is a goroutine over the API server: what the server answers to its \<open>i\<close>-th read and its \<open>i\<close>-th
  status update is an argument, so that conflicts with other workers and with the reconciler are
  part of the model; the runner and the context binder are functions. What the worker does is the list
  of its effects. Log lines and metrics are left out.
\<close>

subsection \<open>Session affinity\<close>

record affinity =
  af_sessionToWorker :: "string \<rightharpoonup> nat"
  af_workerLoad :: "int list"

fun least_loaded :: "int list \<Rightarrow> nat \<Rightarrow> nat \<Rightarrow> nat \<Rightarrow> nat" where
  "least_loaded load i 0 idx = idx"
| "least_loaded load i (Suc k) idx =
     least_loaded load (Suc i) k (if load ! i < load ! idx then i else idx)"

definition affinity_key :: "BrainTask \<Rightarrow> string" where
  "affinity_key task =
     (if ts_SessionID (bt_Spec task) = ''''
      then om_Namespace (bt_Meta task) @ ''/'' @ om_Name (bt_Meta task)
      else ts_SessionID (bt_Spec task))"

definition sessionWorkerIndex :: "nat \<Rightarrow> BrainTask \<Rightarrow> affinity \<Rightarrow> affinity \<times> nat" where
  "sessionWorkerIndex numWorkers task w =
     (case af_sessionToWorker w (affinity_key task) of
        Some idx \<Rightarrow>
          (w\<lparr>af_workerLoad := (af_workerLoad w)[idx := af_workerLoad w ! idx + 1]\<rparr>, idx)
      | None \<Rightarrow>
          let idx = least_loaded (af_workerLoad w) 1 (numWorkers - 1) 0
          in (w\<lparr>af_sessionToWorker := (af_sessionToWorker w)(affinity_key task \<mapsto> idx),
                af_workerLoad := (af_workerLoad w)[idx := af_workerLoad w ! idx + 1]\<rparr>, idx))"

text \<open>The end of one turn of \<open>runLoopFrom\<close>.\<close>

definition release_worker :: "nat \<Rightarrow> affinity \<Rightarrow> affinity" where
  "release_worker idx w =
     (if af_workerLoad w ! idx > 0
      then w\<lparr>af_workerLoad := (af_workerLoad w)[idx := af_workerLoad w ! idx - 1]\<rparr> else w)"

subsection \<open>Processing one task\<close>

datatype upd_result = UpdOk | UpdConflict | UpdErr string

record TaskRunOutcome =
  to_WorkspacePath :: string
  to_ProofOfWorkPath :: string
  to_TemplateKey :: string
  to_FilesChanged :: int
  to_ResultStatus :: string
  to_Recommendation :: string
  to_DurationSeconds :: int
  to_ExecutionMode :: string

text \<open>
  \<open>wk_RunWithContext\<close> is the runner when a context binder is set and the runner supports it, and
  \<open>wk_GetForContinuation\<close> is the binder's read, with \<open>None\<close> for a nil session (its error is ignored).
\<close>

record 'c Worker =
  wk_ClusterID :: string
  wk_Run :: "BrainTask \<Rightarrow> TaskRunOutcome option \<times> string option"
  wk_Binder :: "((string \<Rightarrow> string \<Rightarrow> string \<Rightarrow> 'c option)
                 \<times> (BrainTask \<Rightarrow> 'c option \<Rightarrow> 'c option \<times> TaskRunOutcome option \<times> string option)) option"
  wk_Ledger :: bool
  wk_Feedback :: bool

datatype 'c worker_effect =
    WStatus BrainTask upd_result
  | WRun BrainTask
  | WWriteIntermediate string 'c
  | WLedger string string string
  | WPatch "(string \<times> string) list"
  | WReport BrainTask

record api_answers =
  ans_get :: "nat \<Rightarrow> BrainTask get_result"
  ans_update :: "nat \<Rightarrow> upd_result"

definition worker_clusterID :: "'c Worker \<Rightarrow> string" where
  "worker_clusterID w = (if wk_ClusterID w \<noteq> '''' then wk_ClusterID w else ''default'')"

definition running_task :: "BrainTask \<Rightarrow> BrainTask" where
  "running_task t =
     (let t1 = observe_generation (set_phase BrainTaskPhaseRunning t)
      in t1\<lparr>bt_Status := (bt_Status t1)\<lparr>tt_Message := ''Running''\<rparr>\<rparr>)"

text \<open>
  The claim loop with \<open>n\<close> attempts left, at attempt number \<open>i\<close>; \<open>task\<close> is the variable the loop reads
  into. It returns the task to run, or \<open>None\<close> when the worker gives up. A loop that runs out of attempts
  falls through to the run.
\<close>

fun claim_loop ::
    "api_answers \<Rightarrow> nat \<Rightarrow> nat \<Rightarrow> BrainTask option \<Rightarrow> 'c worker_effect list \<times> BrainTask option" where
  "claim_loop ans i 0 task = ([], task)"
| "claim_loop ans i (Suc n) task =
     (case ans_get ans i of
        GetNotFound \<Rightarrow> ([], None)
      | GetErr e \<Rightarrow> ([], None)
      | Got t \<Rightarrow>
          if tt_Phase (bt_Status t) \<noteq> BrainTaskPhaseScheduled
             \<and> tt_Phase (bt_Status t) \<noteq> BrainTaskPhasePending
          then ([], None)
          else let t' = running_task t
               in (case ans_update ans i of
                     UpdConflict \<Rightarrow>
                       (case claim_loop ans (Suc i) n (Some t') of
                          (es, r) \<Rightarrow> (WStatus t' UpdConflict # es, r))
                   | UpdErr e \<Rightarrow> ([WStatus t' (UpdErr e)], None)
                   | UpdOk \<Rightarrow> ([WStatus t' UpdOk], Some t')))"

definition run_task ::
    "'c Worker \<Rightarrow> BrainTask \<Rightarrow> 'c worker_effect list \<times> TaskRunOutcome option \<times> string option" where
  "run_task w task =
     (case wk_Binder w of
        None \<Rightarrow> (case wk_Run w task of (outcome, err) \<Rightarrow> ([WRun task], outcome, err))
      | Some (get, runc) \<Rightarrow>
          let clusterID = worker_clusterID w;
              sessionCtx = get clusterID (ts_SessionID (bt_Spec task)) (om_Name (bt_Meta task))
          in (case runc task sessionCtx of
                (updated, outcome, err) \<Rightarrow>
                  (WRun task #
                     (case updated of
                        Some c \<Rightarrow> if err = None then [WWriteIntermediate clusterID c] else []
                      | None \<Rightarrow> []),
                   outcome, err)))"

definition outcome_annotations :: "TaskRunOutcome \<Rightarrow> (string \<times> string) list" where
  "outcome_annotations res =
     (if to_WorkspacePath res \<noteq> '''' then [(''zen.kube-zen.com/factory-workspace'', to_WorkspacePath res)] else [])
     @ (if to_ProofOfWorkPath res \<noteq> '''' then [(''zen.kube-zen.com/factory-proof'', to_ProofOfWorkPath res)] else [])
     @ (if to_TemplateKey res \<noteq> '''' then [(''zen.kube-zen.com/factory-template'', to_TemplateKey res)] else [])
     @ (if to_FilesChanged res > 0
        then [(''zen.kube-zen.com/factory-files-changed'', itoa (to_FilesChanged res))] else [])
     @ (if to_DurationSeconds res > 0
        then [(''zen.kube-zen.com/factory-duration-seconds'', itoa (to_DurationSeconds res))] else [])
     @ (if to_Recommendation res \<noteq> ''''
        then [(''zen.kube-zen.com/factory-recommendation'', to_Recommendation res)] else [])
     @ (if to_ExecutionMode res \<noteq> ''''
        then [(''zen.kube-zen.com/factory-execution-mode'', to_ExecutionMode res)] else [])"

definition executed_condition :: "time \<Rightarrow> BrainTask \<Rightarrow> string option \<Rightarrow> task_condition" where
  "executed_condition now task err =
     \<lparr>tc_Type = ''Executed'', tc_Reason = ''WorkerRun'',
      tc_Message = CondText (case err of None \<Rightarrow> ''Task execution completed'' | Some e \<Rightarrow> e),
      tc_LastTransitionTime = now, tc_ObservedGeneration = om_Generation (bt_Meta task)\<rparr>"

definition final_task :: "task_condition \<Rightarrow> string option \<Rightarrow> BrainTask \<Rightarrow> BrainTask" where
  "final_task c err t =
     (let t1 = (case err of
                  Some e \<Rightarrow> (set_phase BrainTaskPhaseFailed t)
                    \<lparr>bt_Status := (bt_Status (set_phase BrainTaskPhaseFailed t))\<lparr>tt_Message := e\<rparr>\<rparr>
                | None \<Rightarrow> (set_phase BrainTaskPhaseCompleted t)
                    \<lparr>bt_Status := (bt_Status (set_phase BrainTaskPhaseCompleted t))\<lparr>tt_Message := ''Completed''\<rparr>\<rparr>)
      in add_condition c t1)"

text \<open>The completion loop with \<open>n\<close> attempts left; a read error or a conflict uses one up.\<close>

fun complete_loop ::
    "'c Worker \<Rightarrow> api_answers \<Rightarrow> task_condition \<Rightarrow> string option \<Rightarrow> nat \<Rightarrow> nat \<Rightarrow> 'c worker_effect list" where
  "complete_loop w ans c err i 0 = []"
| "complete_loop w ans c err i (Suc n) =
     (case ans_get ans i of
        Got t \<Rightarrow>
          let t' = final_task c err t
          in (case ans_update ans i of
                UpdOk \<Rightarrow> WStatus t' UpdOk # (if wk_Feedback w then [WReport t'] else [])
              | UpdConflict \<Rightarrow>
                  if n > 0 then WStatus t' UpdConflict # complete_loop w ans c err (Suc i) n
                  else [WStatus t' UpdConflict]
              | UpdErr e \<Rightarrow> [WStatus t' (UpdErr e)])
      | _ \<Rightarrow> complete_loop w ans c err (Suc i) n)"

definition processOne ::
    "'c Worker \<Rightarrow> api_answers \<Rightarrow> api_answers \<Rightarrow> time \<Rightarrow> 'c worker_effect list" where
  "processOne w claim_ans final_ans now =
     (case claim_loop claim_ans 0 3 None of
        (es, None) \<Rightarrow> es
      | (es, Some task) \<Rightarrow>
          (case run_task w task of
             (rs, outcome, err) \<Rightarrow>
               es @ rs
               @ (if wk_Ledger w
                  then [WLedger (affinity_key task) (om_Name (bt_Meta task))
                          (if err = None then ''completed'' else ''failed'')]
                  else [])
               @ (case outcome of None \<Rightarrow> [] | Some o1 \<Rightarrow> [WPatch (outcome_annotations o1)])
               @ complete_loop w final_ans (executed_condition now task err) err 0 5))"

end
