(* ===== verification/Guardian_Properties.thy ===== *)
theory Guardian_Properties
  imports Guardian
begin

text \<open>
  The rate limiter over the logging guardian, asked and told the way the reconciler does it: a task
  start is first checked and, when allowed, recorded. No rolling window ever holds more starts of one
  session than the limit, and a start is refused only when the window behind it is full.
\<close>

subsection \<open>Pruning and counting\<close>

lemma prune_loop_result:
  "i + length rest \<le> length buf \<Longrightarrow>
     prune_loop cutoff buf i rest =
       (take i buf @ filter (\<lambda>e. time_after (ea_at e) cutoff) rest
          @ drop (i + length (filter (\<lambda>e. time_after (ea_at e) cutoff) rest)) buf,
        i + length (filter (\<lambda>e. time_after (ea_at e) cutoff) rest))"
proof (induction cutoff buf i rest rule: prune_loop.induct)
  case (2 cutoff buf i e rest)
  then show ?case by (simp add: take_Suc_conv_app_nth)
qed simp

lemma prune_filter: "prune cutoff es = filter (\<lambda>e. time_after (ea_at e) cutoff) es"
  by (simp add: prune_def prune_loop_result)

lemma count_recent_length:
  "count_recent sid cutoff n es =
     n + int (length (filter (\<lambda>e. ea_sessionID e = sid \<and> time_after (ea_at e) cutoff) es))"
  by (induction es arbitrary: n) auto

subsection \<open>Runs of task starts\<close>

definition limiter :: "CircuitBreakerGuardianConfig \<Rightarrow> Event list CircuitBreakerGuardian guardian_ops" where
  "limiter cfg = NewCircuitBreakerGuardian (Some LogGuardian) cfg"

definition new_limiter :: "Event list CircuitBreakerGuardian" where
  "new_limiter = \<lparr>cg_inner = [], cg_perSession = []\<rparr>"

definition start_event :: "string \<Rightarrow> Event" where
  "start_event sid =
     \<lparr>ge_Kind = EventTaskStarted, ge_SessionID = sid, ge_TaskID = ''task'', ge_Message = '''',
      ge_Payload = GNil, ge_At = zero_time\<rparr>"

text \<open>A start checked at time \<open>c\<close>, recorded at \<open>a\<close> and pruned at \<open>p\<close>.\<close>

definition start_task ::
    "CircuitBreakerGuardianConfig \<Rightarrow> string \<Rightarrow> time \<Rightarrow> time \<Rightarrow> time
     \<Rightarrow> Event list CircuitBreakerGuardian \<Rightarrow> Event list CircuitBreakerGuardian \<times> bool" where
  "start_task cfg sid c a p g =
     (case gu_CheckSafety (limiter cfg) (\<lambda>_. c) sid ''task'' EventTaskStarted g of
        (g1, Inl e) \<Rightarrow> (g1, False)
      | (g1, Inr res) \<Rightarrow>
          if sr_Allowed res
          then (fst (gu_RecordEvent (limiter cfg) (\<lambda>i. if i = 0 then a else p) (start_event sid) g1), True)
          else (g1, False))"

fun start_run ::
    "CircuitBreakerGuardianConfig \<Rightarrow> (string \<times> time \<times> time \<times> time) list
     \<Rightarrow> Event list CircuitBreakerGuardian \<times> (string \<times> time) list
     \<Rightarrow> Event list CircuitBreakerGuardian \<times> (string \<times> time) list" where
  "start_run cfg [] s = s"
| "start_run cfg ((sid, c, a, p) # steps) (g, starts) =
     (case start_task cfg sid c a p g of
        (g', admitted) \<Rightarrow> start_run cfg steps (g', if admitted then starts @ [(sid, a)] else starts))"

fun times_ok :: "time \<Rightarrow> (string \<times> time \<times> time \<times> time) list \<Rightarrow> bool" where
  "times_ok t [] = True"
| "times_ok t ((sid, c, a, p) # steps) \<longleftrightarrow> t \<le> c \<and> c \<le> a \<and> a \<le> p \<and> times_ok p steps"

fun end_time :: "time \<Rightarrow> (string \<times> time \<times> time \<times> time) list \<Rightarrow> time" where
  "end_time t [] = t"
| "end_time t ((sid, c, a, p) # steps) = end_time p steps"

definition starts_since :: "string \<Rightarrow> time \<Rightarrow> (string \<times> time) list \<Rightarrow> nat" where
  "starts_since sid t starts = length (filter (\<lambda>(s, u). s = sid \<and> t < u) starts)"

definition starts_in :: "string \<Rightarrow> time \<Rightarrow> time \<Rightarrow> (string \<times> time) list \<Rightarrow> nat" where
  "starts_in sid t x starts = length (filter (\<lambda>(s, u). s = sid \<and> t < u \<and> u \<le> x) starts)"

definition limiter_inv ::
    "CircuitBreakerGuardianConfig \<Rightarrow> time \<Rightarrow> Event list CircuitBreakerGuardian \<Rightarrow> (string \<times> time) list \<Rightarrow> bool"
  where
  "limiter_inv cfg t g starts \<longleftrightarrow>
     (\<exists>l \<le> t - gc_Window (guardian_config cfg).
        map (\<lambda>e. (ea_sessionID e, ea_at e)) (cg_perSession g) = filter (\<lambda>(s, u). l < u) starts)
     \<and> (\<forall>(s, u) \<in> set starts. u \<le> t)
     \<and> (\<forall>sid x. int (starts_in sid (x - gc_Window (guardian_config cfg)) x starts)
                  \<le> gc_MaxTasksPerSessionPerMinute cfg)"

lemma guardian_config_max [simp]:
  "gc_MaxTasksPerSessionPerMinute (guardian_config cfg) = gc_MaxTasksPerSessionPerMinute cfg"
  by (simp add: guardian_config_def)

lemma guardian_config_window: "gc_Window (guardian_config cfg) > 0"
  by (simp add: guardian_config_def go_time)

lemma count_recent_log:
  assumes "map (\<lambda>e. (ea_sessionID e, ea_at e)) es = filter (\<lambda>(s, u). l < u) starts" and "l \<le> cutoff"
  shows "count_recent sid cutoff 0 es = int (starts_since sid cutoff starts)"
proof -
  have "length (filter (\<lambda>e. ea_sessionID e = sid \<and> time_after (ea_at e) cutoff) es) =
      length (filter (\<lambda>(s, u). s = sid \<and> cutoff < u) (map (\<lambda>e. (ea_sessionID e, ea_at e)) es))"
    by (simp add: filter_map comp_def time_after_def)
  also have "filter (\<lambda>(s, u). s = sid \<and> cutoff < u) (map (\<lambda>e. (ea_sessionID e, ea_at e)) es) =
      filter (\<lambda>(s, u). s = sid \<and> cutoff < u) starts"
    unfolding assms(1) filter_filter by (rule filter_cong) (use assms(2) in auto)
  finally show ?thesis by (simp add: count_recent_length starts_since_def)
qed

lemma start_task_result:
  assumes "gc_MaxTasksPerSessionPerMinute cfg > 0"
    and "map (\<lambda>e. (ea_sessionID e, ea_at e)) (cg_perSession g) = filter (\<lambda>(s, u). l < u) starts"
    and "l \<le> c - gc_Window (guardian_config cfg)"
  shows "\<exists>g'. start_task cfg sid c a p g =
     (g', int (starts_since sid (c - gc_Window (guardian_config cfg)) starts) < gc_MaxTasksPerSessionPerMinute cfg)
   \<and> cg_perSession g' =
      (if int (starts_since sid (c - gc_Window (guardian_config cfg)) starts) < gc_MaxTasksPerSessionPerMinute cfg
       then prune (p - gc_Window (guardian_config cfg))
              (cg_perSession g @ [\<lparr>ea_sessionID = sid, ea_at = a\<rparr>])
       else cg_perSession g)"
  using assms(1) count_recent_log [OF assms(2, 3), of sid]
  by (simp add: start_task_def limiter_def NewCircuitBreakerGuardian_def cbg_CheckSafety_def
      cbg_RecordEvent_def LogGuardian_def log_CheckSafety_def log_RecordEvent_def start_event_def
      is_zero_time_def zero_time_def time_add_def)

lemma starts_in_snoc:
  "starts_in sid t x (starts @ [(s, a)]) = starts_in sid t x starts + (if s = sid \<and> t < a \<and> a \<le> x then 1 else 0)"
  by (simp add: starts_in_def)

lemma starts_in_since: "t \<le> t' \<Longrightarrow> starts_in sid t' x starts \<le> starts_since sid t starts"
  by (induction starts) (auto simp: starts_in_def starts_since_def)

lemma limiter_inv_step:
  assumes "limiter_inv cfg t g starts" and "gc_MaxTasksPerSessionPerMinute cfg > 0"
    and "t \<le> c" and "c \<le> a" and "a \<le> p" and "start_task cfg sid c a p g = (g', admitted)"
  shows "limiter_inv cfg p g' (if admitted then starts @ [(sid, a)] else starts)"
proof -
  let ?W = "gc_Window (guardian_config cfg)"
  obtain l where l: "l \<le> t - ?W"
    and per: "map (\<lambda>e. (ea_sessionID e, ea_at e)) (cg_perSession g) = filter (\<lambda>(s, u). l < u) starts"
    using assms(1) by (auto simp: limiter_inv_def)
  note res = start_task_result [OF assms(2) per, of c sid a p]
  have old: "\<forall>(s, u) \<in> set starts. u \<le> p" using assms(1, 3, 4, 5) by (auto simp: limiter_inv_def)
  have win: "int (starts_in s (x - ?W) x starts) \<le> gc_MaxTasksPerSessionPerMinute cfg" for s x
    using assms(1) by (simp add: limiter_inv_def)
  show ?thesis
  proof (cases admitted)
    case False
    then have "cg_perSession g' = cg_perSession g" using res l assms(3, 6) by auto
    moreover have "l \<le> p - ?W" using l assms(3, 4, 5) by simp
    ultimately show ?thesis using per old win False unfolding limiter_inv_def by auto
  next
    case True
    then have n: "int (starts_since sid (c - ?W) starts) < gc_MaxTasksPerSessionPerMinute cfg"
      and g': "cg_perSession g' = prune (p - ?W) (cg_perSession g @ [\<lparr>ea_sessionID = sid, ea_at = a\<rparr>])"
      using res l assms(3, 6) by auto
    have "map (\<lambda>e. (ea_sessionID e, ea_at e)) (cg_perSession g') =
        filter (\<lambda>(s, u). p - ?W < u)
          (map (\<lambda>e. (ea_sessionID e, ea_at e)) (cg_perSession g) @ [(sid, a)])"
      by (simp add: g' prune_filter filter_map comp_def time_after_def)
    also have "\<dots> = filter (\<lambda>(s, u). p - ?W < u) (starts @ [(sid, a)])"
      using l assms(3, 4, 5) by (auto simp: per intro!: filter_cong)
    finally have "map (\<lambda>e. (ea_sessionID e, ea_at e)) (cg_perSession g') =
        filter (\<lambda>(s, u). p - ?W < u) (starts @ [(sid, a)])" .
    moreover have "int (starts_in s (x - ?W) x (starts @ [(sid, a)])) \<le> gc_MaxTasksPerSessionPerMinute cfg" for s x
      using win [of s x] n starts_in_since [of "c - ?W" "x - ?W" sid x starts] assms(4)
      by (auto simp: starts_in_snoc)
    ultimately show ?thesis
      unfolding limiter_inv_def using True old assms(5) by auto
  qed
qed

lemma limiter_inv_run:
  assumes "limiter_inv cfg t g starts" and "gc_MaxTasksPerSessionPerMinute cfg > 0" and "times_ok t steps"
    and "start_run cfg steps (g, starts) = (g', starts')"
  shows "limiter_inv cfg (end_time t steps) g' starts'"
  using assms
proof (induction steps arbitrary: t g starts)
  case (Cons st steps)
  obtain sid c a p where st: "st = (sid, c, a, p)" by (metis prod.collapse)
  obtain g1 adm where s: "start_task cfg sid c a p g = (g1, adm)" by fastforce
  have "limiter_inv cfg p g1 (if adm then starts @ [(sid, a)] else starts)"
    using limiter_inv_step [OF Cons.prems(1, 2) _ _ _ s] Cons.prems(3) st by simp
  from Cons.IH [OF this Cons.prems(2)] show ?case using Cons.prems(3, 4) st s by simp
qed simp

text \<open>
  C17. Rate limit: with a positive limit, on any run of task starts whose clock does not go back,
  every window of the configured length (one minute by default), wherever it ends, holds at most the
  limit of admitted starts of any one session; and the next start is admitted exactly when fewer than
  the limit lie in the window behind it, so the pruning of the log loses nothing that counts.
\<close>

theorem rate_limit_windows:
  assumes "gc_MaxTasksPerSessionPerMinute cfg > 0" and "times_ok t steps"
    and "start_run cfg steps (new_limiter, []) = (g, starts)"
  shows "int (starts_in sid (x - gc_Window (guardian_config cfg)) x starts)
           \<le> gc_MaxTasksPerSessionPerMinute cfg
    \<and> (end_time t steps \<le> c \<longrightarrow>
         (snd (start_task cfg sid c a p g) \<longleftrightarrow>
            int (starts_since sid (c - gc_Window (guardian_config cfg)) starts)
              < gc_MaxTasksPerSessionPerMinute cfg))"
proof -
  have "limiter_inv cfg t new_limiter []"
    using assms(1) by (auto simp: limiter_inv_def new_limiter_def starts_in_def)
  then have inv: "limiter_inv cfg (end_time t steps) g starts"
    by (rule limiter_inv_run [OF _ assms])
  then obtain l where "l \<le> end_time t steps - gc_Window (guardian_config cfg)"
    "map (\<lambda>e. (ea_sessionID e, ea_at e)) (cg_perSession g) = filter (\<lambda>(s, u). l < u) starts"
    by (auto simp: limiter_inv_def)
  then have "end_time t steps \<le> c \<Longrightarrow> snd (start_task cfg sid c a p g) \<longleftrightarrow>
      int (starts_since sid (c - gc_Window (guardian_config cfg)) starts) < gc_MaxTasksPerSessionPerMinute cfg"
    using start_task_result [OF assms(1), of g l starts c sid a p] by fastforce
  then show ?thesis using inv by (simp add: limiter_inv_def)
qed

theorem rate_limit_windows_witness:
  "snd (start_task \<lparr>gc_MaxTasksPerSessionPerMinute = 1, gc_Window = 0\<rparr> ''s'' second second second
      (fst (start_run \<lparr>gc_MaxTasksPerSessionPerMinute = 1, gc_Window = 0\<rparr>
        [(''s'', 0, 0, 0)] (new_limiter, [])))) = False
   \<and> snd (start_task \<lparr>gc_MaxTasksPerSessionPerMinute = 1, gc_Window = 0\<rparr> ''s'' minute minute minute
      (fst (start_run \<lparr>gc_MaxTasksPerSessionPerMinute = 1, gc_Window = 0\<rparr>
        [(''s'', 0, 0, 0)] (new_limiter, [])))) = True"
proof -
  let ?cfg = "\<lparr>gc_MaxTasksPerSessionPerMinute = 1, gc_Window = 0\<rparr>"
  let ?r = "start_run ?cfg [(''s'', 0, 0, 0)] (new_limiter, [])"
  have starts: "snd ?r = [(''s'', 0)]"
    using start_task_result [of ?cfg new_limiter "- minute" "[]" 0 "''s''" 0 0]
    by (auto simp: new_limiter_def guardian_config_def starts_since_def)
  have r: "?r = (fst ?r, [(''s'', 0)])" using starts by (metis prod.collapse)
  show ?thesis
    using rate_limit_windows [OF _ _ r, of 0 "''s''" 0 second second second]
      rate_limit_windows [OF _ _ r, of 0 "''s''" 0 minute minute minute]
    by (simp add: guardian_config_def starts_since_def) (simp add: go_time)
qed

end
