(* ===== verification/Gate_Properties.thy ===== *)
theory Gate_Properties
  imports Gate
begin

text \<open>
  What the policy gate decides, as a specification over the BrainPolicy resources themselves, and what
  it does with rules that require approval.
\<close>

subsection \<open>The decision as a specification\<close>

text \<open>\<open>opt_value\<close> is a Go map lookup whose missing key reads as nil.\<close>

definition opt_value :: "(string \<rightharpoonup> gval) \<Rightarrow> string \<Rightarrow> gval" where
  "opt_value m k = (case m k of Some v \<Rightarrow> v | None \<Rightarrow> GNil)"

definition rule_allows :: "AdmissionRequest \<Rightarrow> PolicyRuleSpec \<Rightarrow> bool" where
  "rule_allows req r \<longleftrightarrow>
     (fgt (prs_MaxCostUSD r) (Fin 0) \<longrightarrow>
        \<not> fgt (toFloat (opt_value (rs_Attributes (aq_Resource req)) ''estimated_cost_usd'')) (prs_MaxCostUSD r))
     \<and> (prs_AllowedModels r \<noteq> [] \<longrightarrow>
          is_zero_value (opt_value (aq_Payload req) ''model_id'')
          \<or> (\<exists>m \<in> set (prs_AllowedModels r). opt_value (aq_Payload req) ''model_id'' = GString m))"

lemma request_cost:
  "getRequestValue req ''resource.attributes.estimated_cost_usd'' =
     opt_value (rs_Attributes (aq_Resource req)) ''estimated_cost_usd''"
  by (simp add: getRequestValue_def trim_prefix_def opt_value_def)

lemma request_model: "getRequestValue req ''context.data.model_id'' = opt_value (aq_Payload req) ''model_id''"
  by (simp add: getRequestValue_def trim_prefix_def opt_value_def)

lemma numericCompare_le: "numericCompare a b \<le> 0 \<longleftrightarrow> \<not> fgt (toFloat a) (toFloat b)"
proof -
  have "flt x y \<Longrightarrow> \<not> fgt x y" for x y by (cases x; cases y) (auto simp: fgt_def)
  then show ?thesis by (auto simp: numericCompare_def Let_def)
qed

lemma deep_equal_string [simp]: "deep_equal (GString s) v \<longleftrightarrow> v = GString s"
  by (cases v) auto

lemma sliceContains_strings:
  "sliceContains (GStrings xs) v \<longleftrightarrow> is_zero_value v \<or> (\<exists>m \<in> set xs. v = GString m)"
  by (auto simp: sliceContains_def list_ex_iff)

lemma evaluate_conditions_append:
  "evaluate_conditions n req (xs @ ys) =
     (if evaluate_conditions n req xs = NoReason then evaluate_conditions n req ys
      else evaluate_conditions n req xs)"
  by (induction n req xs rule: evaluate_conditions.induct) (auto simp: Let_def)

lemma evaluate_converted:
  assumes "ConvertBrainPolicyRule r lvl = Inr x"
  shows "evaluateRule x req = NoReason \<longleftrightarrow> rule_allows req r"
proof -
  have x: "pr_Conditions x =
     [\<lparr>cond_Field = ''action'', cond_Operator = ''equals'', cond_Value = GString (prs_Action r)\<rparr>]
     @ (if fgt (prs_MaxCostUSD r) (Fin 0)
        then [\<lparr>cond_Field = ''resource.attributes.estimated_cost_usd'', cond_Operator = ''lte'',
               cond_Value = GFloat (prs_MaxCostUSD r)\<rparr>] else [])
     @ (if length (prs_AllowedModels r) > 0
        then [\<lparr>cond_Field = ''context.data.model_id'', cond_Operator = ''in'',
               cond_Value = GStrings (prs_AllowedModels r)\<rparr>] else [])"
    using assms by (auto simp: ConvertBrainPolicyRule_def Let_def split: if_splits)
  show ?thesis
    unfolding evaluateRule_def x evaluate_conditions_append
    by (simp add: rule_allows_def conditionPasses_def request_cost request_model numericCompare_le
        sliceContains_strings Let_def)
qed

lemma converted_action:
  "ConvertBrainPolicyRule r lvl = Inr x \<Longrightarrow> ruleMatchesAction x action \<longleftrightarrow> prs_Action r = action"
  by (auto simp: ConvertBrainPolicyRule_def ruleMatchesAction_def Let_def split: if_splits)

lemma valid_rules_convert:
  "validate_rules seen i rs = None \<Longrightarrow>
     \<exists>xs. convert_rules lvl j rs = Inr xs \<and> list_all2 (\<lambda>r x. ConvertBrainPolicyRule r lvl = Inr x) rs xs"
proof (induction seen i rs arbitrary: j rule: validate_rules.induct)
  case (2 seen i r rs)
  then obtain xs where "convert_rules lvl (Suc j) rs = Inr xs"
    "list_all2 (\<lambda>r x. ConvertBrainPolicyRule r lvl = Inr x) rs xs"
    by (auto split: if_splits)
  moreover have "\<exists>x. ConvertBrainPolicyRule r lvl = Inr x"
    using "2.prems" by (auto simp: ConvertBrainPolicyRule_def Let_def split: if_splits)
  ultimately show ?case by auto
qed simp

lemma first_denial_NoReason: "first_denial req rules = NoReason \<longleftrightarrow> (\<forall>r \<in> set rules. evaluateRule r req = NoReason)"
  by (induction rules) (auto simp: Let_def)

lemma list_all2_ball:
  "list_all2 R rs xs \<Longrightarrow> (\<And>r x. R r x \<Longrightarrow> P x = Q r) \<Longrightarrow> (\<forall>x \<in> set xs. P x) = (\<forall>r \<in> set rs. Q r)"
  by (induction rule: list_all2_induct) auto

lemma collect_rules_allow:
  "(\<forall>x \<in> set (collect_rules action bps). evaluateRule x req = NoReason) \<longleftrightarrow>
     (\<forall>bp \<in> set bps. ValidateBrainPolicySpec (Some bp) = None \<longrightarrow>
        (\<forall>r \<in> set (bps_Rules bp). prs_Action r = action \<longrightarrow> rule_allows req r))"
proof (induction action bps rule: collect_rules.induct)
  case (2 action bp bps)
  show ?case
  proof (cases "ValidateBrainPolicySpec (Some bp) = None")
    case True
    define lvl where "lvl = (let l = trim_space (bps_DefaultApprovalLevel bp) in if l = '''' then ''default'' else l)"
    obtain xs where xs: "ConvertBrainPolicy bp = Inr xs"
      "list_all2 (\<lambda>r x. ConvertBrainPolicyRule r lvl = Inr x) (bps_Rules bp) xs"
      using valid_rules_convert [of "{}" 0 "bps_Rules bp" lvl 0] True
      by (auto simp: ValidateBrainPolicySpec_def ConvertBrainPolicy_def lvl_def)
    have "(\<forall>x \<in> set xs. ruleMatchesAction x action \<longrightarrow> evaluateRule x req = NoReason) \<longleftrightarrow>
        (\<forall>r \<in> set (bps_Rules bp). prs_Action r = action \<longrightarrow> rule_allows req r)"
      by (rule list_all2_ball [OF xs(2)]) (simp add: evaluate_converted converted_action)
    then show ?thesis using 2 True xs(1) by auto
  qed (use 2 in auto)
qed simp

lemma policy_Admit_iff:
  "ap_Allowed (policy_Admit listing clk req) \<longleftrightarrow>
     (\<exists>items. listing = Inr items
        \<and> (\<forall>bp \<in> set items. ValidateBrainPolicySpec (Some bp) = None \<longrightarrow>
             (\<forall>r \<in> set (bps_Rules bp). prs_Action r = aq_Action req \<longrightarrow> rule_allows req r)))"
proof (cases listing)
  case (Inr items)
  have "ap_Allowed (policy_Admit listing clk req) \<longleftrightarrow>
      (\<forall>x \<in> set (collect_rules (aq_Action req) items). evaluateRule x req = NoReason)"
    by (auto simp: policy_Admit_def Let_def Inr first_denial_NoReason)
  then show ?thesis using Inr by (simp add: collect_rules_allow)
qed (simp add: policy_Admit_def Let_def)

text \<open>
  C18. Admission: the policy gate admits a request iff the policies could be listed and every rule, of
  every policy that is valid, whose action is exactly the one requested allows it: the estimated cost
  does not exceed the cost limit when one is set (a cost that is not a number counts as 0, and NaN
  passes), and the model is absent, empty or among the allowed models when these are restricted.
  A policy with an invalid rule is skipped as a whole.
\<close>

theorem policy_gate_decides:
  "ap_Allowed (policy_Admit listing clk req) \<longleftrightarrow>
     (\<exists>items. listing = Inr items
        \<and> (\<forall>bp \<in> set items. ValidateBrainPolicySpec (Some bp) = None \<longrightarrow>
             (\<forall>r \<in> set (bps_Rules bp). prs_Action r = aq_Action req \<longrightarrow> rule_allows req r)))"
  by (rule policy_Admit_iff)

definition ex_request :: AdmissionRequest where
  "ex_request =
     \<lparr>aq_RequestID = ''r'', aq_WorkItemID = ''w'', aq_SessionID = ''s'', aq_TaskID = ''t'',
      aq_ClusterID = '''', aq_ProjectID = '''', aq_Action = ''execute_task'',
      aq_Resource = \<lparr>rs_Type = ''task'', rs_ID = ''t'', rs_ClusterID = '''', rs_ProjectID = '''',
                     rs_Attributes = [''estimated_cost_usd'' \<mapsto> GFloat (Fin 5)]\<rparr>,
      aq_Subject = \<lparr>sj_Type = ''system'', sj_ID = ''foreman'', sj_Roles = [], sj_Attributes = Map.empty\<rparr>,
      aq_Payload = [''model_id'' \<mapsto> GString ''m''], aq_Timestamp = 0\<rparr>"

definition ex_policy :: "float64 \<Rightarrow> BrainPolicySpec" where
  "ex_policy limit =
     \<lparr>bps_Rules = [\<lparr>prs_Name = ''cap'', prs_Action = ''execute_task'', prs_RequiresApproval = True,
                    prs_MaxCostUSD = limit, prs_AllowedModels = []\<rparr>],
      bps_DefaultApprovalLevel = '''', bps_BudgetLimitUSD = Fin 0\<rparr>"

lemma ex_policy_valid: "\<not> flt limit (Fin 0) \<Longrightarrow> ValidateBrainPolicySpec (Some (ex_policy limit)) = None"
  by (simp add: ValidateBrainPolicySpec_def ex_policy_def trim_space_def drop_runes.simps
      rune_at_def space_runes_def)

theorem policy_gate_decides_witness:
  "ap_Allowed (policy_Admit (Inr [ex_policy (Fin 10)]) (\<lambda>_. 0) ex_request)
   \<and> \<not> ap_Allowed (policy_Admit (Inr [ex_policy (Fin 2)]) (\<lambda>_. 0) ex_request)"
  unfolding policy_gate_decides
  using ex_policy_valid [of "Fin 2"] ex_policy_valid [of "Fin 10"]
  by (auto simp: ex_policy_def ex_request_def rule_allows_def opt_value_def fgt_def)

definition with_approval :: "(PolicyRuleSpec \<Rightarrow> bool) \<Rightarrow> string \<Rightarrow> BrainPolicySpec \<Rightarrow> BrainPolicySpec" where
  "with_approval f lvl bp = bp
     \<lparr>bps_Rules := map (\<lambda>r. r\<lparr>prs_RequiresApproval := f r\<rparr>) (bps_Rules bp),
      bps_DefaultApprovalLevel := lvl\<rparr>"

lemma validate_rules_approval:
  "validate_rules seen i (map (\<lambda>r. r\<lparr>prs_RequiresApproval := f r\<rparr>) rs) = validate_rules seen i rs"
  by (induction seen i rs rule: validate_rules.induct) auto

lemma ValidateBrainPolicySpec_approval:
  "ValidateBrainPolicySpec (Some (with_approval f lvl bp)) = ValidateBrainPolicySpec (Some bp)"
  by (simp add: ValidateBrainPolicySpec_def with_approval_def validate_rules_approval)

lemma rule_allows_approval: "rule_allows req (r\<lparr>prs_RequiresApproval := b\<rparr>) = rule_allows req r"
  by (simp add: rule_allows_def)

text \<open>
  Approval is not enforced: whether a rule requires approval, and at which level, never changes
  the gate's verdict, and no answer of the gate asks for approval.
\<close>

theorem approval_not_enforced:
  "ap_Allowed (policy_Admit (Inr (map (with_approval f lvl) items)) clk req)
     = ap_Allowed (policy_Admit (Inr items) clk req)
   \<and> \<not> ap_RequiresApproval (policy_Admit listing clk req)"
proof -
  have "\<not> ap_RequiresApproval (policy_Admit listing clk req)"
    by (auto simp: policy_Admit_def Let_def split: sum.split)
  then show ?thesis
    by (simp add: policy_Admit_iff ValidateBrainPolicySpec_approval)
      (simp add: with_approval_def rule_allows_approval)
qed

end
