(* ===== verification/Foreman_Properties.thy ===== *)
theory Foreman_Properties
  imports Worker Guardian_Properties Gate_Properties
begin

text \<open>
  What the foreman guarantees over any guardian and gate that keep their contracts (the locale
  \<open>foreman_interfaces\<close>, interpreted with the rate limiter and the policy gate), and what a worker does
  with a task it is handed, in particular when the API server answers with conflicts.
\<close>

subsection \<open>The reconciler over its interfaces\<close>



subsection \<open>What a reconciliation may do\<close>


definition allowed_effects :: "('g, 'a) Reconciler \<Rightarrow> reconcile_env \<Rightarrow> effect set" where
  "allowed_effects r env =
     {e. \<exists>task. re_task env = Got task \<and>
        (case e of
           StatusUpdate t \<Rightarrow>
             bt_Meta t = bt_Meta task \<and> bt_Spec t = bt_Spec task
             \<and> (tt_Phase (bt_Status task), tt_Phase (bt_Status t)) \<in>
                 {(PhaseUnset, BrainTaskPhasePending), (BrainTaskPhasePending, BrainTaskPhasePending),
                  (BrainTaskPhasePending, BrainTaskPhaseScheduled)}
             \<and> (tt_Phase (bt_Status t) = BrainTaskPhaseScheduled \<longrightarrow> \<not> queue_paused env task)
         | Dispatch t \<Rightarrow>
             rc_Dispatcher r
             \<and> (tt_Phase (bt_Status task) = BrainTaskPhasePending \<and> re_update env = None
                  \<and> \<not> queue_paused env task
                  \<and> t = scheduled_task (re_clk env 2) task
                \<or> t = task \<and> stale_running (re_clk env 0) task))}"

lemma set_phase_sel [simp]:
  "bt_Meta (set_phase p t) = bt_Meta t" "bt_Spec (set_phase p t) = bt_Spec t"
  "tt_Phase (bt_Status (set_phase p t)) = p"
  "tt_Conditions (bt_Status (set_phase p t)) = tt_Conditions (bt_Status t)"
  by (simp_all add: set_phase_def)

lemma observe_sel [simp]:
  "bt_Meta (observe_generation t) = bt_Meta t" "bt_Spec (observe_generation t) = bt_Spec t"
  "tt_Phase (bt_Status (observe_generation t)) = tt_Phase (bt_Status t)"
  by (simp_all add: observe_generation_def)

lemma add_condition_sel [simp]:
  "bt_Meta (add_condition c t) = bt_Meta t" "bt_Spec (add_condition c t) = bt_Spec t"
  "tt_Phase (bt_Status (add_condition c t)) = tt_Phase (bt_Status t)"
  by (simp_all add: add_condition_def)

lemma scheduled_sel [simp]:
  "bt_Meta (scheduled_task now t) = bt_Meta t" "bt_Spec (scheduled_task now t) = bt_Spec t"
  "tt_Phase (bt_Status (scheduled_task now t)) = BrainTaskPhaseScheduled"
  by (simp_all add: scheduled_task_def Let_def add_condition_def)

definition pending_effects :: "('g, 'a) Reconciler \<Rightarrow> reconcile_env \<Rightarrow> BrainTask \<Rightarrow> effect set" where
  "pending_effects r env task =
     {StatusUpdate t |t. \<exists>c. t = add_condition c task}
     \<union> {StatusUpdate (scheduled_task (re_clk env 2) task)}
     \<union> (if rc_Dispatcher r \<and> re_update env = None then {Dispatch (scheduled_task (re_clk env 2) task)} else {})"

lemma blocked_in_pending [simp]: "StatusUpdate (add_condition c task) \<in> pending_effects r env task"
  by (auto simp: pending_effects_def)

lemma schedule_effects: "set (ro_effects (schedule r env task g a)) \<subseteq> pending_effects r env task"
  by (auto simp: schedule_def pending_effects_def Let_def split: option.split)

lemma admit_effects: "set (ro_effects (admit_and_schedule r env task g a)) \<subseteq> pending_effects r env task"
proof (cases "rc_Gate r")
  case (Some ops)
  obtain a' res where "ga_Admit ops (re_gate_clk env) (admission_request (re_clk env 1) task) a = (a', res)"
    by fastforce
  then show ?thesis
    using Some schedule_effects [of r env task g a']
    by (cases res; cases "projr res") (simp_all add: admit_and_schedule_def split: option.split sum.split)
qed (simp add: admit_and_schedule_def schedule_effects)

lemma check_effects: "set (ro_effects (check_and_schedule r env task g a)) \<subseteq> pending_effects r env task"
proof (cases "rc_Guardian r")
  case (Some ops)
  obtain g' res where "gu_CheckSafety ops (re_check_clk env) (ts_SessionID (bt_Spec task))
      (om_Name (bt_Meta task)) EventTaskStarted g = (g', res)"
    by fastforce
  then show ?thesis
    using Some admit_effects [of r env task g' a] by (cases res) (simp_all add: check_and_schedule_def)
qed (simp add: check_and_schedule_def admit_effects)

text \<open>
  C13. What a reconciliation may do, with any guardian, gate and dispatcher: it moves a task only from
  no phase to Pending and from Pending to Scheduled, the latter only when its queue is not paused, never
  touches metadata or specification, and dispatches only a task whose Scheduled status it has just
  written with success, or one that has been Running for more than fifty minutes.
\<close>

theorem reconcile_effects_allowed: "set (ro_effects (Reconcile r env g a)) \<subseteq> allowed_effects r env"
proof (cases "re_task env")
  case (Got task)
  show ?thesis
  proof (cases "tt_Phase (bt_Status task) = BrainTaskPhasePending \<and> \<not> queue_paused env task")
    case True
    then have "Reconcile r env g a = check_and_schedule r env task g a"
      using Got by (simp add: Reconcile_def Let_def stale_running_def)
    then show ?thesis
      using check_effects [of r env task g a] True Got
      by (auto simp: allowed_effects_def pending_effects_def split: if_splits)
  next
    case False
    then show ?thesis
      using Got by (auto simp: Reconcile_def Let_def allowed_effects_def split: if_splits option.splits)
  qed
qed (simp_all add: Reconcile_def Let_def)

definition ex_task :: "BrainTaskPhase \<Rightarrow> BrainTask" where
  "ex_task p =
     \<lparr>bt_Meta = \<lparr>om_Namespace = ''ns'', om_Name = ''t'', om_UID = ''u'', om_Generation = 1,
                 om_Annotations = Map.empty\<rparr>,
      bt_Spec = \<lparr>ts_ID = ''t'', ts_WorkItemID = ''w'', ts_SessionID = ''s'', ts_SourceKey = '''',
        ts_Title = ''title'', ts_Description = '''', ts_WorkType = ''debug'', ts_WorkDomain = ''core'',
        ts_Priority = '''', ts_Objective = ''o'', ts_AcceptanceCriteria = [], ts_Constraints = [],
        ts_EvidenceRequirement = '''', ts_SREDTags = [], ts_Hypothesis = '''', ts_TimeoutSeconds = 0,
        ts_MaxRetries = 0, ts_EstimatedCostUSD = Fin 5, ts_DependsOn = [], ts_KBScopes = [],
        ts_QueueName = ''''\<rparr>,
      bt_Status = \<lparr>tt_Phase = p,
        tt_Conditions = [\<lparr>tc_Type = ''Scheduled'', tc_Reason = ''ForemanScheduled'',
          tc_Message = CondText ''Scheduled by Foreman'', tc_LastTransitionTime = 0,
          tc_ObservedGeneration = 1\<rparr>],
        tt_AssignedAgent = '''', tt_Message = '''', tt_ObservedGeneration = 1\<rparr>\<rparr>"

definition ex_env :: "BrainTaskPhase \<Rightarrow> reconcile_env" where
  "ex_env p =
     \<lparr>re_task = Got (ex_task p), re_queue = GetNotFound, re_update = None, re_dispatch = None,
      re_clk = (\<lambda>_. hour), re_check_clk = (\<lambda>_. hour), re_record_clk = (\<lambda>_. hour),
      re_gate_clk = (\<lambda>_. hour)\<rparr>"

lemma ex_task_sel [simp]:
  "tt_Phase (bt_Status (ex_task p)) = p" "ts_QueueName (bt_Spec (ex_task p)) = ''''"
  "tt_ObservedGeneration (bt_Status (ex_task p)) = om_Generation (bt_Meta (ex_task p))"
  "re_task (ex_env p) = Got (ex_task p)" "re_update (ex_env p) = None" "re_dispatch (ex_env p) = None"
  by (simp_all add: ex_task_def ex_env_def)


subsection \<open>Workers\<close>

definition claimable :: "BrainTask \<Rightarrow> bool" where
  "claimable t \<longleftrightarrow>
     tt_Phase (bt_Status t) = BrainTaskPhaseScheduled \<or> tt_Phase (bt_Status t) = BrainTaskPhasePending"

definition claim_at :: "api_answers \<Rightarrow> nat \<Rightarrow> upd_result \<Rightarrow> BrainTask \<Rightarrow> bool" where
  "claim_at ans i u t \<longleftrightarrow> ans_get ans i = Got t \<and> claimable t \<and> ans_update ans i = u"

lemma snd_case_pair: "snd (case p of (es, r) \<Rightarrow> (f es, r)) = snd p"
  by (cases p) simp

lemma fst_case_pair: "fst (case p of (es, r) \<Rightarrow> (f es, r)) = f (fst p)"
  by (cases p) simp

lemma claim_loop_Suc:
  "snd (claim_loop ans i (Suc n) task :: 'c worker_effect list \<times> _) = Some x \<longleftrightarrow>
     (\<exists>t. claim_at ans i UpdOk t \<and> x = running_task t)
     \<or> (\<exists>t. claim_at ans i UpdConflict t \<and> snd (claim_loop ans (Suc i) n (Some (running_task t)) :: 'c worker_effect list \<times> _) = Some x)"
  by (auto simp: claim_at_def claimable_def Let_def snd_case_pair split: get_result.splits upd_result.splits)

lemma claim_loop_3:
  "snd (claim_loop ans 0 3 None :: 'c worker_effect list \<times> _) = Some x \<longleftrightarrow>
     (\<exists>k < 3. \<exists>t. claim_at ans k UpdOk t \<and> x = running_task t
        \<and> (\<forall>i < k. \<exists>s. claim_at ans i UpdConflict s))
     \<or> (\<exists>t. claim_at ans 2 UpdConflict t \<and> x = running_task t
          \<and> (\<forall>i < 2. \<exists>s. claim_at ans i UpdConflict s))"
proof -
  have 3: "(3::nat) = Suc (Suc (Suc 0))" by simp
  have ex: "(\<exists>k < Suc n. P k) \<longleftrightarrow> P 0 \<or> (\<exists>k < n. P (Suc k))" for n P
    using less_Suc_eq_0_disj by auto
  have al: "(\<forall>k < Suc n. P k) \<longleftrightarrow> P 0 \<and> (\<forall>k < n. P (Suc k))" for n P
    using less_Suc_eq_0_disj by auto
  show ?thesis
    unfolding 3 claim_loop_Suc
    by (simp add: ex al numeral_2_eq_2 del: claim_loop.simps(2)) blast
qed

lemma no_run_in_claim: "WRun t \<notin> set (fst (claim_loop ans i n task))"
  by (induction ans i n task rule: claim_loop.induct)
    (auto simp: Let_def fst_case_pair split: get_result.splits upd_result.splits)

lemma no_run_in_complete: "WRun t \<notin> set (complete_loop w ans c err i n)"
  by (induction w ans c err i n rule: complete_loop.induct)
    (auto simp: Let_def split: get_result.splits upd_result.splits)

lemma run_task_runs: "WRun t \<in> set (fst (run_task w task)) \<longleftrightarrow> t = task"
  by (auto simp: run_task_def Let_def split: option.splits prod.splits)

text \<open>
  C14. When a worker runs a task: it executes the task iff one of its three claim attempts succeeded,
  all before it being conflicts on a claimable task - or all three were conflicts: a loop that runs out
  of attempts falls through to the execution, although no claim was written.
\<close>

theorem worker_runs_iff:
  fixes w :: "'c Worker"
  shows "WRun x \<in> set (processOne w claim_ans final_ans now) \<longleftrightarrow>
     (\<exists>k < 3. \<exists>t. claim_at claim_ans k UpdOk t \<and> x = running_task t
        \<and> (\<forall>i < k. \<exists>s. claim_at claim_ans i UpdConflict s))
     \<or> (\<exists>t. claim_at claim_ans 2 UpdConflict t \<and> x = running_task t
          \<and> (\<forall>i < 2. \<exists>s. claim_at claim_ans i UpdConflict s))"
proof -
  obtain es :: "'c worker_effect list" and r where c: "claim_loop claim_ans 0 3 None = (es, r)"
    by fastforce
  have es: "WRun x \<notin> set es" by (metis no_run_in_claim c fst_conv)
  have "WRun x \<in> set (processOne w claim_ans final_ans now) \<longleftrightarrow> r = Some x"
  proof (cases r)
    case None
    then show ?thesis using es c by (simp add: processOne_def)
  next
    case (Some t)
    obtain rs out err where r: "run_task w t = (rs, out, err)" by (metis prod.collapse)
    have "WRun x \<in> set rs \<longleftrightarrow> x = t" using run_task_runs [of x w t] unfolding r by simp
    then show ?thesis
      using es c Some r
      by (auto simp: processOne_def no_run_in_complete split: option.split)
  qed
  then show ?thesis using claim_loop_3 [of claim_ans x, where 'c = 'c] unfolding c by simp
qed

theorem worker_runs_iff_witness:
  "WRun (running_task (ex_task BrainTaskPhaseScheduled))
     \<in> set (processOne (\<lparr>wk_ClusterID = [], wk_Run = (\<lambda>t. (None, None)), wk_Binder = None,
              wk_Ledger = False, wk_Feedback = False\<rparr> :: unit Worker)
          \<lparr>ans_get = (\<lambda>_. Got (ex_task BrainTaskPhaseScheduled)), ans_update = (\<lambda>_. UpdConflict)\<rparr>
          \<lparr>ans_get = (\<lambda>_. GetNotFound), ans_update = (\<lambda>_. UpdOk)\<rparr> 0)"
  unfolding worker_runs_iff
  by (intro disjI2 exI [of _ "ex_task BrainTaskPhaseScheduled"])
    (auto simp: claim_at_def claimable_def intro!: exI [of _ "ex_task BrainTaskPhaseScheduled"])

text \<open>
  Re-dispatching a stale task is in vain: the reconciler hands a task that has been Running for
  more than fifty minutes to the dispatcher again and asks to be called in a minute, but a worker that
  then reads the task as Running drops it without any effect.
\<close>

theorem stale_redispatch_in_vain:
  fixes w :: "'c Worker"
  assumes "re_task env = Got task" and "stale_running (re_clk env 0) task"
    and "tt_ObservedGeneration (bt_Status task) = om_Generation (bt_Meta task)"
    and "rc_Dispatcher r" and "re_dispatch env = None" and "ans_get claim_ans 0 = Got task"
  shows "ro_effects (Reconcile r env g a) = [Dispatch task]
    \<and> ro_result (Reconcile r env g a) = \<lparr>cr_Requeue = False, cr_RequeueAfter = minute\<rparr>
    \<and> processOne w claim_ans final_ans now = []"
proof -
  have p: "tt_Phase (bt_Status task) = BrainTaskPhaseRunning" using assms(2) by (simp add: stale_running_def)
  have "(claim_loop claim_ans 0 3 None :: 'c worker_effect list \<times> _) = ([], None)"
    using assms(6) p by (simp add: numeral_3_eq_3)
  then have "processOne w claim_ans final_ans now = []" by (simp add: processOne_def)
  then show ?thesis using assms p by (simp add: Reconcile_def Let_def)
qed

theorem stale_redispatch_in_vain_witness:
  "ro_effects (Reconcile \<lparr>rc_Gate = Some PolicyGate, rc_Guardian = Some LogGuardian, rc_Dispatcher = True\<rparr>
      (ex_env BrainTaskPhaseRunning) [] (Inl ''down'')) = [Dispatch (ex_task BrainTaskPhaseRunning)]
   \<and> processOne (\<lparr>wk_ClusterID = '''', wk_Run = (\<lambda>t. (None, None)), wk_Binder = None, wk_Ledger = False,
        wk_Feedback = False\<rparr> :: unit Worker)
      \<lparr>ans_get = (\<lambda>_. Got (ex_task BrainTaskPhaseRunning)), ans_update = (\<lambda>_. UpdOk)\<rparr>
      \<lparr>ans_get = (\<lambda>_. GetNotFound), ans_update = (\<lambda>_. UpdOk)\<rparr> 0 = []"
proof -
  have "stale_running (re_clk (ex_env BrainTaskPhaseRunning) 0) (ex_task BrainTaskPhaseRunning)"
    by (simp add: stale_running_def ex_env_def ex_task_def findCondition_def stale_after_def go_time)
  then show ?thesis
    using stale_redispatch_in_vain [of "ex_env BrainTaskPhaseRunning" "ex_task BrainTaskPhaseRunning"
        "\<lparr>rc_Gate = Some PolicyGate, rc_Guardian = Some LogGuardian, rc_Dispatcher = True\<rparr>"
        "\<lparr>ans_get = (\<lambda>_. Got (ex_task BrainTaskPhaseRunning)), ans_update = (\<lambda>_. UpdOk)\<rparr>"
        "[]" "Inl ''down''"
        "\<lparr>wk_ClusterID = '''', wk_Run = (\<lambda>t. (None, None)), wk_Binder = None, wk_Ledger = False,
          wk_Feedback = False\<rparr> :: unit Worker"
        "\<lparr>ans_get = (\<lambda>_. GetNotFound), ans_update = (\<lambda>_. UpdOk)\<rparr>" 0]
    by simp
qed






subsection \<open>Session affinity\<close>

datatype affinity_op = Assign BrainTask | Release nat

fun affinity_step :: "nat \<Rightarrow> affinity_op \<Rightarrow> affinity \<Rightarrow> affinity" where
  "affinity_step n (Assign t) w = fst (sessionWorkerIndex n t w)"
| "affinity_step n (Release i) w = release_worker i w"

definition affinity_ok :: "nat \<Rightarrow> affinity \<Rightarrow> bool" where
  "affinity_ok n w \<longleftrightarrow> length (af_workerLoad w) = n \<and> ran (af_sessionToWorker w) \<subseteq> {..<n}"

lemma least_loaded_bounds:
  "idx < i \<Longrightarrow> i + k \<le> length load \<Longrightarrow> least_loaded load i k idx < i + k"
proof (induction load i k idx rule: least_loaded.induct)
  case (2 load i k idx)
  then show ?case by (cases "load ! i < load ! idx") auto
qed simp

lemma least_loaded_min:
  "load ! least_loaded load i k idx \<le> load ! idx
   \<and> (\<forall>j. i \<le> j \<and> j < i + k \<longrightarrow> load ! least_loaded load i k idx \<le> load ! j)"
proof (induction load i k idx rule: least_loaded.induct)
  case (2 load i k idx)
  show ?case
  proof (cases "load ! i < load ! idx")
    case True
    then show ?thesis using 2 by simp (metis Suc_leI le_neq_implies_less order.trans less_imp_le)
  next
    case False
    then show ?thesis using 2 by simp (metis Suc_leI le_neq_implies_less not_less order.trans)
  qed
qed simp

lemma affinity_stable_step:
  "af_sessionToWorker w key = Some i \<Longrightarrow> af_sessionToWorker (affinity_step n op w) key = Some i"
  by (cases op) (auto simp: sessionWorkerIndex_def release_worker_def Let_def split: option.split)

lemma affinity_stable_run:
  "af_sessionToWorker w key = Some i \<Longrightarrow>
     af_sessionToWorker (fold (affinity_step n) ops w) key = Some i"
  by (induction ops arbitrary: w) (simp_all add: affinity_stable_step)

lemma sessionWorkerIndex_assigned:
  "af_sessionToWorker (fst (sessionWorkerIndex n t w)) (affinity_key t) = Some (snd (sessionWorkerIndex n t w))"
  by (auto simp: sessionWorkerIndex_def Let_def split: option.split)

text \<open>
  Session affinity: a task is routed to an existing worker; a session seen for the first time goes
  to a worker with the least load; and every later task of the session goes to the same worker,
  whatever is assigned and finished in between.
\<close>

theorem session_affinity:
  assumes "affinity_ok n w" and "n > 0" and "affinity_key t' = affinity_key t"
  shows "snd (sessionWorkerIndex n t w) < n
    \<and> (af_sessionToWorker w (affinity_key t) = None \<longrightarrow>
         (\<forall>j < n. af_workerLoad w ! snd (sessionWorkerIndex n t w) \<le> af_workerLoad w ! j))
    \<and> snd (sessionWorkerIndex n t' (fold (affinity_step n) ops (fst (sessionWorkerIndex n t w))))
        = snd (sessionWorkerIndex n t w)"
proof -
  have len: "length (af_workerLoad w) = n" using assms(1) by (simp add: affinity_ok_def)
  have b: "least_loaded (af_workerLoad w) 1 (n - 1) 0 < n"
    using least_loaded_bounds [of 0 1 "n - 1" "af_workerLoad w"] len assms(2) by simp
  have min: "\<forall>j < n. af_workerLoad w ! least_loaded (af_workerLoad w) 1 (n - 1) 0 \<le> af_workerLoad w ! j"
  proof (intro allI impI)
    fix j
    assume "j < n"
    then show "af_workerLoad w ! least_loaded (af_workerLoad w) 1 (n - 1) 0 \<le> af_workerLoad w ! j"
      using least_loaded_min [of "af_workerLoad w" 1 "n - 1" 0] by (cases j) auto
  qed
  have "snd (sessionWorkerIndex n t' w') = i"
    if "af_sessionToWorker w' (affinity_key t') = Some i" for w' i
    using that by (simp add: sessionWorkerIndex_def)
  then have same: "snd (sessionWorkerIndex n t' (fold (affinity_step n) ops (fst (sessionWorkerIndex n t w))))
      = snd (sessionWorkerIndex n t w)"
    using affinity_stable_run [OF sessionWorkerIndex_assigned] assms(3) by metis
  show ?thesis
  proof (cases "af_sessionToWorker w (affinity_key t)")
    case None
    then have "snd (sessionWorkerIndex n t w) = least_loaded (af_workerLoad w) 1 (n - 1) 0"
      by (simp add: sessionWorkerIndex_def Let_def)
    then show ?thesis using b min same by simp
  next
    case (Some i)
    then have "snd (sessionWorkerIndex n t w) = i" by (simp add: sessionWorkerIndex_def)
    moreover have "i < n" using Some assms(1) by (auto simp: affinity_ok_def ran_def)
    ultimately show ?thesis using same Some by simp
  qed
qed

theorem session_affinity_witness:
  "snd (sessionWorkerIndex 3 (ex_task BrainTaskPhasePending)
      \<lparr>af_sessionToWorker = Map.empty, af_workerLoad = [2, 0, 1]\<rparr>) < 3
   \<and> snd (sessionWorkerIndex 3 (ex_task BrainTaskPhaseScheduled)
      (fold (affinity_step 3) [Release 1, Assign (ex_task BrainTaskPhaseScheduled)]
        (fst (sessionWorkerIndex 3 (ex_task BrainTaskPhasePending)
          \<lparr>af_sessionToWorker = Map.empty, af_workerLoad = [2, 0, 1]\<rparr>))))
      = snd (sessionWorkerIndex 3 (ex_task BrainTaskPhasePending)
          \<lparr>af_sessionToWorker = Map.empty, af_workerLoad = [2, 0, 1]\<rparr>)"
  using session_affinity [of 3 "\<lparr>af_sessionToWorker = Map.empty, af_workerLoad = [2, 0, 1]\<rparr>"
      "ex_task BrainTaskPhaseScheduled" "ex_task BrainTaskPhasePending"
      "[Release 1, Assign (ex_task BrainTaskPhaseScheduled)]"]
  by (simp add: affinity_ok_def affinity_key_def ex_task_def)

subsection \<open>Queue status\<close>

definition queue_tasks :: "string \<Rightarrow> BrainTaskPhase set \<Rightarrow> BrainTask list \<Rightarrow> BrainTask list" where
  "queue_tasks queue ps ts = filter (\<lambda>t. ts_QueueName (bt_Spec t) = queue \<and> tt_Phase (bt_Status t) \<in> ps) ts"

lemma count_tasks_result:
  "count_tasks queue ts (d, f) =
     (d + of_nat (length (queue_tasks queue {BrainTaskPhasePending} ts)),
      f + of_nat (length (queue_tasks queue {BrainTaskPhaseScheduled, BrainTaskPhaseRunning} ts)))"
  by (induction queue ts "(d, f)" arbitrary: d f rule: count_tasks.induct)
    (auto simp: queue_tasks_def split: BrainTaskPhase.split)

text \<open>
  Queue status: depth and in-flight become the numbers (modulo 2^32) of the queue's tasks that are
  Pending, and Scheduled or Running; an update is made exactly when one of them differs, it changes
  nothing else but sets an unset phase to Ready, and with the same tasks the next call makes none. A
  new queue without tasks has both numbers right already and is never set to Ready.
\<close>

theorem queue_status_exact:
  "let d = of_nat (length (queue_tasks (om_Name (bq_Meta q)) {BrainTaskPhasePending} items));
       f = of_nat (length (queue_tasks (om_Name (bq_Meta q)) {BrainTaskPhaseScheduled, BrainTaskPhaseRunning} items));
       q' = q\<lparr>bq_Status := \<lparr>qs_Phase = (if qs_Phase (bq_Status q) = QueueUnset then BrainQueuePhaseReady
                                         else qs_Phase (bq_Status q)),
                            qs_Depth = d, qs_InFlight = f\<rparr>\<rparr>
   in QueueReconcile (Got q) (Inr items) upd =
        (if qs_Depth (bq_Status q) = d \<and> qs_InFlight (bq_Status q) = f then (None, None) else (Some q', upd))
      \<and> QueueReconcile (Got q') (Inr items) upd = (None, None)
      \<and> QueueReconcile (Got (q\<lparr>bq_Status := \<lparr>qs_Phase = QueueUnset, qs_Depth = 0, qs_InFlight = 0\<rparr>\<rparr>))
          (Inr []) upd = (None, None)"
  by (simp add: QueueReconcile_def count_tasks_result Let_def queue_tasks_def)

end
