(* ===== verification/Concurrency.thy ===== *)
theory Concurrency
  imports GoFloat
begin

text \<open>
  The dynamic concurrency controller of the factory (\<open>internal/concurrency/controller.go\<close>): how many
  general workers may run, from the amount of runnable work, the model slots and the CPU load.

  The CPU reader is an interface: its reading, a percentage and whether there was an error, is an
  argument of the calculation. Reasons are the strings of the code. Slot counts are Go \<open>int\<close>s far from
  their bounds; the conversion of the reduced slot count from a float keeps its 64-bit range.
\<close>

record ConcurrencyMetrics =
  cm_TotalSlots :: int
  cm_ReservedSlots :: int
  cm_UsableSlots :: int
  cm_DesiredGeneral :: int
  cm_CurrentRunning :: int
  cm_ReadyCount :: int
  cm_BacklogCount :: int
  cm_CPUPercent :: float64
  cm_ThrottleReason :: string
  cm_IsThrottled :: bool
  cm_IsConservative :: bool
  cm_LastCalculation :: "time option"

record ConcurrencyConfig =
  cc_TotalSlots :: int
  cc_ReservedSlots :: int
  cc_CPUSoftCapPct :: float64
  cc_CPUHardCapPct :: float64
  cc_HysteresisDur :: duration
  cc_MinGeneral :: int

record Controller =
  ct_totalSlots :: int
  ct_reservedSlots :: int
  ct_cpuSoftCapPct :: float64
  ct_cpuHardCapPct :: float64
  ct_hysteresisDur :: duration
  ct_minGeneral :: int
  ct_cpuHighSince :: time
  ct_throttled :: bool
  ct_metrics :: ConcurrencyMetrics

definition DefaultReservedSlots :: int where "DefaultReservedSlots = 2"
definition DefaultTotalSlots :: int where "DefaultTotalSlots = 10"
definition DefaultCPUSoftCapPct :: float64 where "DefaultCPUSoftCapPct = Fin 80"
definition DefaultHysteresisDur :: duration where "DefaultHysteresisDur = 30 * second"
definition DefaultMinGeneral :: int where "DefaultMinGeneral = 1"

definition zero_metrics :: ConcurrencyMetrics where
  "zero_metrics =
     \<lparr>cm_TotalSlots = 0, cm_ReservedSlots = 0, cm_UsableSlots = 0, cm_DesiredGeneral = 0,
      cm_CurrentRunning = 0, cm_ReadyCount = 0, cm_BacklogCount = 0, cm_CPUPercent = Fin 0,
      cm_ThrottleReason = '''', cm_IsThrottled = False, cm_IsConservative = False,
      cm_LastCalculation = None\<rparr>"

definition NewController :: "ConcurrencyConfig \<Rightarrow> Controller" where
  "NewController cfg =
     (let total = (if cc_TotalSlots cfg \<le> 0 then DefaultTotalSlots else cc_TotalSlots cfg);
          reserved0 = (if cc_ReservedSlots cfg < 0 then 0 else cc_ReservedSlots cfg);
          reserved = (if reserved0 \<ge> total then total - 1 else reserved0);
          soft = (if fle (cc_CPUSoftCapPct cfg) (Fin 0) then DefaultCPUSoftCapPct else cc_CPUSoftCapPct cfg);
          hard = (if fle (cc_CPUHardCapPct cfg) soft then fadd soft (Fin 10) else cc_CPUHardCapPct cfg);
          hyst = (if cc_HysteresisDur cfg \<le> 0 then DefaultHysteresisDur else cc_HysteresisDur cfg);
          minGeneral = (if cc_MinGeneral cfg \<le> 0 then DefaultMinGeneral else cc_MinGeneral cfg)
      in \<lparr>ct_totalSlots = total, ct_reservedSlots = reserved, ct_cpuSoftCapPct = soft,
          ct_cpuHardCapPct = hard, ct_hysteresisDur = hyst, ct_minGeneral = minGeneral,
          ct_cpuHighSince = zero_time, ct_throttled = False, ct_metrics = zero_metrics\<rparr>)"

definition updateMetrics ::
    "int \<Rightarrow> int \<Rightarrow> int \<Rightarrow> float64 \<Rightarrow> int \<Rightarrow> bool \<Rightarrow> string \<Rightarrow> bool \<Rightarrow> time \<Rightarrow> Controller \<Rightarrow> Controller" where
  "updateMetrics desired currentRunning runnableWork cpuPct usableSlots throttled reason conservative now c =
     c\<lparr>ct_metrics :=
         \<lparr>cm_TotalSlots = ct_totalSlots c, cm_ReservedSlots = ct_reservedSlots c,
          cm_UsableSlots = usableSlots, cm_DesiredGeneral = desired,
          cm_CurrentRunning = currentRunning, cm_ReadyCount = runnableWork, cm_BacklogCount = 0,
          cm_CPUPercent = cpuPct, cm_ThrottleReason = reason, cm_IsThrottled = throttled,
          cm_IsConservative = conservative, cm_LastCalculation = Some now\<rparr>\<rparr>"

definition usable_slots :: "Controller \<Rightarrow> int" where
  "usable_slots c =
     (if ct_totalSlots c - ct_reservedSlots c < 1 then 1 else ct_totalSlots c - ct_reservedSlots c)"

text \<open>The cap on the minimum that three branches share: \<open>minGeneral\<close>, the slots, the work.\<close>

definition min_general_capped :: "Controller \<Rightarrow> int \<Rightarrow> int" where
  "min_general_capped c runnableWork =
     (let d1 = (if ct_minGeneral c > usable_slots c then usable_slots c else ct_minGeneral c)
      in if runnableWork < d1 then runnableWork else d1)"

definition reduced_slots :: "Controller \<Rightarrow> float64 \<Rightarrow> int" where
  "reduced_slots c cpuPct =
     (let cpuPressure = fdiv (fsub cpuPct (ct_cpuSoftCapPct c))
                             (fsub (ct_cpuHardCapPct c) (ct_cpuSoftCapPct c));
          reducedSlots = float_to_int (fmul (float_of_int (usable_slots c))
                           (fsub (Fin 1) (fmul cpuPressure (Fin (1/2)))))
      in if reducedSlots < ct_minGeneral c then ct_minGeneral c else reducedSlots)"

text \<open>The part after the hysteresis check.\<close>

definition unthrottled_decision ::
    "time \<Rightarrow> time \<Rightarrow> float64 \<Rightarrow> int \<Rightarrow> int \<Rightarrow> Controller \<Rightarrow> Controller \<times> int \<times> string" where
  "unthrottled_decision now now1 cpuPct runnableWork currentRunning c =
     (let usable = usable_slots c;
          soft = fge cpuPct (ct_cpuSoftCapPct c);
          c1 = (if soft
                then c\<lparr>ct_cpuHighSince :=
                         (if is_zero_time (ct_cpuHighSince c) then now else ct_cpuHighSince c),
                       ct_throttled := True\<rparr>
                else c);
          throttleReason = (if soft then ''cpu_soft_cap_reducing'' else '''');
          allowed0 = (if soft then reduced_slots c cpuPct else usable);
          cpuAllowedSlots = (if allowed0 > usable then usable else allowed0);
          d1 = (if runnableWork > usable then usable else runnableWork);
          desired = (if d1 > cpuAllowedSlots then cpuAllowedSlots else d1)
      in (updateMetrics desired currentRunning runnableWork cpuPct usable (throttleReason \<noteq> '''')
            throttleReason False now1 c1,
          desired, throttleReason))"

text \<open>
  \<open>clk 0\<close> is the handler's own clock reading, \<open>clk 1\<close> that of \<open>updateMetrics\<close>; \<open>cpuErr\<close> tells that the
  telemetry is unavailable.
\<close>

definition DesiredConcurrency ::
    "clock \<Rightarrow> float64 \<Rightarrow> bool \<Rightarrow> int \<Rightarrow> int \<Rightarrow> Controller \<Rightarrow> Controller \<times> int \<times> string" where
  "DesiredConcurrency clk cpuPct cpuErr runnableWork currentRunning c =
     (let now = clk 0; usable = usable_slots c
      in if runnableWork \<le> 0
         then (updateMetrics 0 currentRunning 0 (Fin 0) 0 False ''no_runnable_work'' False (clk 1) c,
               0, ''no_runnable_work'')
         else if cpuErr
         then (let d = min_general_capped c runnableWork
               in (updateMetrics d currentRunning runnableWork cpuPct usable False
                     ''cpu_telemetry_unavailable'' True (clk 1) c,
                   d, ''cpu_telemetry_unavailable''))
         else if fge cpuPct (ct_cpuHardCapPct c)
         then (updateMetrics 0 currentRunning runnableWork cpuPct usable True ''cpu_hard_cap'' False (clk 1)
                 (c\<lparr>ct_cpuHighSince := now, ct_throttled := True\<rparr>),
               0, ''cpu_hard_cap'')
         else if ct_throttled c
         then (let d = min_general_capped c runnableWork
               in if fge cpuPct (ct_cpuSoftCapPct c)
                  then (updateMetrics d currentRunning runnableWork cpuPct usable True
                          ''cpu_soft_cap_hysteresis'' False (clk 1) (c\<lparr>ct_cpuHighSince := now\<rparr>),
                        d, ''cpu_soft_cap_hysteresis'')
                  else if time_sub now (ct_cpuHighSince c) < ct_hysteresisDur c
                  then (updateMetrics d currentRunning runnableWork cpuPct usable True
                          ''cpu_hysteresis_waiting'' False (clk 1) c,
                        d, ''cpu_hysteresis_waiting'')
                  else unthrottled_decision now (clk 1) cpuPct runnableWork currentRunning
                         (c\<lparr>ct_throttled := False, ct_cpuHighSince := zero_time\<rparr>))
         else unthrottled_decision now (clk 1) cpuPct runnableWork currentRunning c)"

definition SlotsAvailable ::
    "clock \<Rightarrow> float64 \<Rightarrow> bool \<Rightarrow> int \<Rightarrow> int \<Rightarrow> Controller \<Rightarrow> Controller \<times> int" where
  "SlotsAvailable clk cpuPct cpuErr runnableWork currentRunning c =
     (case DesiredConcurrency clk cpuPct cpuErr runnableWork currentRunning c of
        (c', desired, reason) \<Rightarrow>
          (c', if currentRunning \<ge> desired then 0 else desired - currentRunning))"

subsection \<open>Invariant and bounds\<close>

definition controller_ok :: "Controller \<Rightarrow> bool" where
  "controller_ok c \<longleftrightarrow>
     0 \<le> ct_reservedSlots c \<and> ct_reservedSlots c < ct_totalSlots c \<and> 0 < ct_minGeneral c
     \<and> 0 < ct_hysteresisDur c"

lemma NewController_ok: "controller_ok (NewController cfg)"
  by (simp add: NewController_def Let_def controller_ok_def DefaultTotalSlots_def DefaultMinGeneral_def
      DefaultHysteresisDur_def go_time)

lemma usable_slots_ok: "controller_ok c \<Longrightarrow> usable_slots c = ct_totalSlots c - ct_reservedSlots c \<and> 1 \<le> usable_slots c"
  by (auto simp: controller_ok_def usable_slots_def)

lemma updateMetrics_sel [simp]:
  "ct_totalSlots (updateMetrics d r w p u t s v n c) = ct_totalSlots c"
  "ct_reservedSlots (updateMetrics d r w p u t s v n c) = ct_reservedSlots c"
  "ct_minGeneral (updateMetrics d r w p u t s v n c) = ct_minGeneral c"
  "ct_hysteresisDur (updateMetrics d r w p u t s v n c) = ct_hysteresisDur c"
  "ct_cpuSoftCapPct (updateMetrics d r w p u t s v n c) = ct_cpuSoftCapPct c"
  "ct_cpuHardCapPct (updateMetrics d r w p u t s v n c) = ct_cpuHardCapPct c"
  "ct_throttled (updateMetrics d r w p u t s v n c) = ct_throttled c"
  "ct_cpuHighSince (updateMetrics d r w p u t s v n c) = ct_cpuHighSince c"
  by (simp_all add: updateMetrics_def)

lemma min_general_bounds:
  assumes "controller_ok c" and "0 < w"
  shows "1 \<le> min_general_capped c w" and "min_general_capped c w \<le> w"
    and "min_general_capped c w \<le> usable_slots c"
  using assms usable_slots_ok [OF assms(1)] by (auto simp: min_general_capped_def Let_def controller_ok_def)

lemma unthrottled_frame:
  "\<exists>c'. fst (unthrottled_decision now now1 p w r c) = c' \<and> ct_totalSlots c' = ct_totalSlots c
     \<and> ct_reservedSlots c' = ct_reservedSlots c \<and> ct_minGeneral c' = ct_minGeneral c
     \<and> ct_hysteresisDur c' = ct_hysteresisDur c \<and> ct_cpuSoftCapPct c' = ct_cpuSoftCapPct c
     \<and> ct_cpuHardCapPct c' = ct_cpuHardCapPct c
     \<and> ct_throttled c' = (ct_throttled c \<or> fge p (ct_cpuSoftCapPct c))"
  by (simp add: unthrottled_decision_def Let_def)

lemma unthrottled_bounds:
  assumes "controller_ok c" and "0 < w"
  shows "1 \<le> fst (snd (unthrottled_decision now now1 p w r c))"
    and "fst (snd (unthrottled_decision now now1 p w r c)) \<le> w"
    and "fst (snd (unthrottled_decision now now1 p w r c)) \<le> usable_slots c"
proof -
  have "1 \<le> reduced_slots c p" using assms(1) by (simp add: reduced_slots_def Let_def controller_ok_def)
  then show "1 \<le> fst (snd (unthrottled_decision now now1 p w r c))"
    "fst (snd (unthrottled_decision now now1 p w r c)) \<le> w"
    "fst (snd (unthrottled_decision now now1 p w r c)) \<le> usable_slots c"
    using assms(2) usable_slots_ok [OF assms(1)] by (simp_all add: unthrottled_decision_def Let_def)
qed

lemma DesiredConcurrency_ok:
  "controller_ok c \<Longrightarrow> controller_ok (fst (DesiredConcurrency clk p err w r c))"
  using unthrottled_frame [of "clk 0" "clk 1" p w r c]
    unthrottled_frame [of "clk 0" "clk 1" p w r "c\<lparr>ct_throttled := False, ct_cpuHighSince := zero_time\<rparr>"]
  by (auto simp: DesiredConcurrency_def Let_def controller_ok_def)

subsection \<open>Properties\<close>

text \<open>A run of calculations on a new controller: clock, CPU reading, its error, work, running.\<close>

fun controller_run ::
    "Controller \<Rightarrow> (clock \<times> float64 \<times> bool \<times> int \<times> int) list \<Rightarrow> Controller" where
  "controller_run c [] = c"
| "controller_run c ((clk, p, err, w, r) # calls) =
     controller_run (fst (DesiredConcurrency clk p err w r c)) calls"

lemma controller_run_ok: "controller_ok c \<Longrightarrow> controller_ok (controller_run c calls)"
  by (induction c calls rule: controller_run.induct) (simp_all add: DesiredConcurrency_ok)

lemma desired_cases:
  assumes "controller_ok c"
  shows "case DesiredConcurrency clk p err w r c of (c', d, reason) \<Rightarrow>
     0 \<le> d \<and> d \<le> max 0 w \<and> d \<le> usable_slots c
     \<and> (d = 0 \<longleftrightarrow> w \<le> 0 \<or> fge p (ct_cpuHardCapPct c) \<and> \<not> err)"
proof (cases "0 < w")
  case True
  let ?c0 = "c\<lparr>ct_throttled := False, ct_cpuHighSince := zero_time\<rparr>"
  have ok0: "controller_ok ?c0" using assms by (simp add: controller_ok_def)
  have u0: "usable_slots ?c0 = usable_slots c" by (simp add: usable_slots_def)
  show ?thesis
    using True min_general_bounds [OF assms True] usable_slots_ok [OF assms]
      unthrottled_bounds [OF assms True, of "clk 0" "clk 1" p r]
      unthrottled_bounds [OF ok0 True, of "clk 0" "clk 1" p r]
    by (auto simp: DesiredConcurrency_def Let_def u0 split: prod.split)
next
  case False
  then show ?thesis
    using usable_slots_ok [OF assms] by (simp add: DesiredConcurrency_def Let_def)
qed

text \<open>
  C20. Concurrency bounds: whatever the configuration and the calculations before, the number of
  workers asked for is not negative, not more than the runnable work, and leaves the reserved slots
  free; it is 0 only when there is no work or the CPU is at its hard cap, so runnable work always
  has a worker otherwise; and the slots reported available are what is missing to it.
\<close>

theorem concurrency_bounds:
  "let c = controller_run (NewController cfg) calls;
       (c', d, reason) = DesiredConcurrency clk p err w r c;
       s = snd (SlotsAvailable clk p err w r c)
   in 0 \<le> d \<and> d \<le> max 0 w \<and> d + ct_reservedSlots c \<le> ct_totalSlots c
      \<and> (d = 0 \<longleftrightarrow> w \<le> 0 \<or> fge p (ct_cpuHardCapPct c) \<and> \<not> err)
      \<and> s = max 0 (d - r)"
proof -
  let ?c = "controller_run (NewController cfg) calls"
  have ok: "controller_ok ?c" by (rule controller_run_ok [OF NewController_ok])
  show ?thesis
    using desired_cases [OF ok, where clk = clk and p = p and err = err and w = w and r = r] usable_slots_ok [OF ok]
    by (auto simp: SlotsAvailable_def Let_def split: prod.split)
qed

text \<open>
  Throttling: with work and telemetry, a controller is throttled after a calculation iff the load
  is at the soft or hard cap, or it was throttled and the hysteresis has not passed since the last high
  reading; there is no waiting at the soft cap before it throttles. Not throttled, it asks for as many
  workers as work and slots allow; staying throttled below the hard cap, it asks for the bare minimum, so
  the reduction in proportion to the load lasts for one calculation only.
\<close>

theorem throttle_machine:
  assumes "0 < w"
  shows "case DesiredConcurrency clk p False w r c of (c', d, reason) \<Rightarrow>
    (ct_throttled c' \<longleftrightarrow>
       fge p (ct_cpuHardCapPct c) \<or> fge p (ct_cpuSoftCapPct c)
       \<or> ct_throttled c \<and> time_sub (clk 0) (ct_cpuHighSince c) < ct_hysteresisDur c)
    \<and> (\<not> ct_throttled c' \<longrightarrow> d = min w (usable_slots c) \<and> reason = '''')
    \<and> (ct_throttled c \<and> ct_throttled c' \<and> \<not> fge p (ct_cpuHardCapPct c) \<longrightarrow>
         d = min w (min (ct_minGeneral c) (usable_slots c)))"
proof -
  have m: "min_general_capped c w = min w (min (ct_minGeneral c) (usable_slots c))"
    by (simp add: min_general_capped_def Let_def min_def)
  have u: "usable_slots (c\<lparr>ct_throttled := b, ct_cpuHighSince := t\<rparr>) = usable_slots c" for b t
    by (simp add: usable_slots_def)
  show ?thesis
    using assms by (auto simp: DesiredConcurrency_def unthrottled_decision_def Let_def m u min_def)
qed

theorem throttle_machine_witness:
  "ct_throttled (fst (DesiredConcurrency (\<lambda>_. 5) (Fin 85) False 4 1
     (NewController \<lparr>cc_TotalSlots = 0, cc_ReservedSlots = 2, cc_CPUSoftCapPct = Fin 80,
        cc_CPUHardCapPct = Fin 90, cc_HysteresisDur = 0, cc_MinGeneral = 0\<rparr>)))"
  using throttle_machine [where w = 4 and clk = "\<lambda>_. 5" and p = "Fin 85" and r = 1 and c = "NewController \<lparr>cc_TotalSlots = 0, cc_ReservedSlots = 2,
      cc_CPUSoftCapPct = Fin 80, cc_CPUHardCapPct = Fin 90, cc_HysteresisDur = 0, cc_MinGeneral = 0\<rparr>"]
  by (auto simp: NewController_def Let_def fge_def fle_def feq_def DefaultTotalSlots_def split: prod.splits)

end
