(* ===== verification/Action_Policy.thy ===== *)
theory Action_Policy
  imports Prelude
begin

text \<open>
  The office's action policy (\<open>internal/office/action_policy.go\<close>): classes of actions, which of them
  may execute, and validation. The class is an integer; \<open>ActionClassOther\<close> stands for those that no constant names. A nil pointer dereference is the result \<open>Panic\<close>; log lines are left out.
\<close>

datatype ActionClass =
    ActionClassAlwaysAllowed | ActionClassSafeWriteBack | ActionClassApprovalRequired
  | ActionClassOther int

fun ActionClass_String :: "ActionClass \<Rightarrow> string" where
  "ActionClass_String ActionClassAlwaysAllowed = ''Class A (Always Allowed)''"
| "ActionClass_String ActionClassSafeWriteBack = ''Class B (Safe Write-Back)''"
| "ActionClass_String ActionClassApprovalRequired = ''Class C (Approval Required)''"
| "ActionClass_String (ActionClassOther i) = ''Unknown''"

record Approval =
  app_Required :: bool
  app_ApprovedBy :: string
  app_ApprovedAt :: string
  app_SignOff :: string

record Proof =
  prf_Path :: string
  prf_Type :: string
  prf_Description :: string
  prf_CreatedAt :: string

record Action =
  act_ID :: string
  act_Type :: string
  act_Class :: ActionClass
  act_Description :: string
  act_RiskLevel :: string
  act_BusinessImpact :: string
  act_Approval :: "Approval option"
  act_Proof :: "Proof option"

datatype action_error =
    AEIDRequired | AETypeRequired | AEDescriptionRequired | AERiskRequired | AEImpactRequired
  | AEApproval string

definition ClassifyAction :: "string \<Rightarrow> ActionClass" where
  "ClassifyAction actionType =
     (if actionType \<in> {''fetch_issue'', ''analyze'', ''summarize'', ''classify'', ''recommend'',
                       ''generate_artifacts''}
      then ActionClassAlwaysAllowed
      else if actionType \<in> {''jira_comment'', ''jira_attachment'', ''status_update_safe'',
                            ''artifact_attachment''}
      then ActionClassSafeWriteBack
      else if actionType \<in> {''repo_write'', ''merge'', ''deploy'', ''secret_config_change'',
                            ''status_update_meaningful'', ''workflow_transition''}
      then ActionClassApprovalRequired
      else ActionClassApprovalRequired)"

text \<open>
  The \<open>ApprovalRequired\<close> branch in the order of the code: a present approval returns at once, so the two
  tests after it dereference an absent one.
\<close>

definition CanExecute :: "Action \<Rightarrow> bool go_result" where
  "CanExecute action =
     (case act_Class action of
        ActionClassAlwaysAllowed \<Rightarrow> Returns True
      | ActionClassSafeWriteBack \<Rightarrow> Returns True
      | ActionClassApprovalRequired \<Rightarrow>
          if act_Approval action \<noteq> None then Returns True
          else (case act_Approval action of
                  None \<Rightarrow> Panic
                | Some a \<Rightarrow>
                    if \<not> app_Required a then Returns True
                    else Returns (app_ApprovedBy a \<noteq> ''''))
      | ActionClassOther i \<Rightarrow> Returns False)"

definition RequireApproval :: "Action \<Rightarrow> bool" where
  "RequireApproval action =
     (case act_Class action of
        ActionClassAlwaysAllowed \<Rightarrow> False
      | ActionClassSafeWriteBack \<Rightarrow> False
      | ActionClassApprovalRequired \<Rightarrow> True
      | ActionClassOther i \<Rightarrow> True)"

definition ValidateAction :: "Action \<Rightarrow> action_error option" where
  "ValidateAction action =
     (if act_ID action = '''' then Some AEIDRequired
      else if act_Type action = '''' then Some AETypeRequired
      else if act_Description action = '''' then Some AEDescriptionRequired
      else if act_Class action = ActionClassApprovalRequired
      then (if act_RiskLevel action = '''' then Some AERiskRequired
            else if act_BusinessImpact action = '''' then Some AEImpactRequired
            else None)
      else None)"

definition LogAction :: "Action \<Rightarrow> action_error option go_result" where
  "LogAction action =
     (case ValidateAction action of
        Some err \<Rightarrow> Returns (Some err)
      | None \<Rightarrow>
          (case CanExecute action of
             Panic \<Rightarrow> Panic
           | Returns ok \<Rightarrow> Returns (if \<not> ok then Some (AEApproval (act_ID action)) else None)))"

definition QueueForApproval :: "Action \<Rightarrow> action_error option" where
  "QueueForApproval action = ValidateAction action"

definition no_approval_types :: "string set" where
  "no_approval_types =
     {''fetch_issue'', ''analyze'', ''summarize'', ''classify'', ''recommend'', ''generate_artifacts'',
      ''jira_comment'', ''jira_attachment'', ''status_update_safe'', ''artifact_attachment''}"

text \<open>
  Approval is not checked: a valid action that requires approval is executed as soon as it carries
  approval metadata, whatever it says - required but not given included - and without metadata the
  check dereferences a nil pointer; only classes outside the three are ever refused for approval. Of
  the known action types exactly the read and the safe write-back ones do not require approval.
\<close>

theorem approval_not_checked:
  "(ValidateAction a = None \<and> act_Class a = ActionClassApprovalRequired \<longrightarrow>
      LogAction a = (if act_Approval a = None then Panic else Returns None))
   \<and> (LogAction a = Returns (Some (AEApproval (act_ID a))) \<longrightarrow> (\<exists>i. act_Class a = ActionClassOther i))
   \<and> (RequireApproval (a\<lparr>act_Class := ClassifyAction t\<rparr>) \<longleftrightarrow>
        t \<notin> no_approval_types)"
proof -
  have executed: "ValidateAction a = None \<Longrightarrow> act_Class a = ActionClassApprovalRequired \<Longrightarrow>
      LogAction a = (if act_Approval a = None then Panic else Returns None)"
    by (simp add: LogAction_def CanExecute_def)
  have "ValidateAction a \<noteq> Some (AEApproval (act_ID a))" by (simp add: ValidateAction_def)
  then have refused: "LogAction a = Returns (Some (AEApproval (act_ID a))) \<Longrightarrow> \<exists>i. act_Class a = ActionClassOther i"
    by (cases "act_Class a"; cases "ValidateAction a")
      (auto simp: LogAction_def CanExecute_def split: if_splits option.splits)
  have cls: "ClassifyAction t = ActionClassApprovalRequired \<longleftrightarrow> t \<notin> no_approval_types"
    by (simp add: ClassifyAction_def no_approval_types_def)
  have "ClassifyAction t \<in> {ActionClassAlwaysAllowed, ActionClassSafeWriteBack, ActionClassApprovalRequired}"
    by (simp add: ClassifyAction_def)
  then have "RequireApproval (a\<lparr>act_Class := ClassifyAction t\<rparr>) \<longleftrightarrow> t \<notin> no_approval_types"
    using cls by (cases "ClassifyAction t") (simp_all add: RequireApproval_def)
  with executed refused show ?thesis by iprover
qed

theorem approval_not_checked_witness:
  "LogAction \<lparr>act_ID = ''a1'', act_Type = ''deploy'', act_Class = ActionClassApprovalRequired,
     act_Description = ''d'', act_RiskLevel = ''high'', act_BusinessImpact = ''infra'',
     act_Approval = Some \<lparr>app_Required = True, app_ApprovedBy = '''', app_ApprovedAt = '''', app_SignOff = ''''\<rparr>,
     act_Proof = None\<rparr> = Returns None"
  using approval_not_checked [of "\<lparr>act_ID = ''a1'', act_Type = ''deploy'',
     act_Class = ActionClassApprovalRequired,
     act_Description = ''d'', act_RiskLevel = ''high'', act_BusinessImpact = ''infra'',
     act_Approval = Some \<lparr>app_Required = True, app_ApprovedBy = '''', app_ApprovedAt = '''', app_SignOff = ''''\<rparr>,
     act_Proof = None\<rparr>" "''deploy''"]
  by (simp add: ValidateAction_def)

end
