(* ===== verification/Cost.thy ===== *)
theory Cost
  imports GoFloat "HOL-Library.Signed_Division"
begin

text \<open>
  Token costs (\<open>internal/cost/cost.go\<close>) and the estimator (\<open>internal/cost/estimator.go\<close>).

  Token counts and costs are Go \<open>int\<close>s far from their bounds, written as \<open>int\<close>; the division of Go
  truncates, which is \<open>sdiv\<close>. \<open>ByProvider\<close> is a map of pointers that only the tracker holds, so its
  entries are values. The formatted texts (\<open>Summary\<close>, \<open>FormatCost\<close>, \<open>CostBreakdown\<close>) are left out.
\<close>

record Pricing =
  InputPerMillion :: int
  OutputPerMillion :: int

definition price :: "int \<Rightarrow> int \<Rightarrow> Pricing" where
  "price i out = \<lparr>InputPerMillion = i, OutputPerMillion = out\<rparr>"

definition providerCosts :: "(string \<times> Pricing) list" where
  "providerCosts =
     [(''local-worker:qwen3.5:0.8b'', price 0 0),
      (''deepseek:deepseek-chat'', price 1400 2800),
      (''qwen-portal:qwen-flash-us'', price 500 1500),
      (''qwen-portal:qwen-plus-us'', price 5000 15000),
      (''qwen-portal:qwen3-coder-30b-a3b-instruct'', price 700 4500),
      (''qwen-portal:qwen3-235b-a22b-instruct-2507'', price 2000 8000),
      (''qwen-portal:qwen3-coder-480b-a35b-instruct'', price 5000 20000),
      (''minimax:MiniMax-M2.1'', price 3000 3000),
      (''kimi:moonshot-v1-8k'', price 3000 6000),
      (''kimi:moonshot-v1-32k'', price 6000 12000),
      (''kimi:moonshot-v1-128k'', price 12000 24000),
      (''glm:GLM-4.7'', price 5000 5000),
      (''glm:GLM-5'', price 7500 7500),
      (''glm:GLM-5-Turbo'', price 2500 2500),
      (''glm:GLM-5.1'', price 10000 10000),
      (''zen-glm:GLM-5'', price 7500 7500),
      (''zen-glm:GLM-5-Turbo'', price 2500 2500),
      (''zen-glm:GLM-5.1'', price 10000 10000),
      (''zenmesh-glm:GLM-5'', price 7500 7500),
      (''zenmesh-glm:GLM-5-Turbo'', price 2500 2500),
      (''zenmesh-glm:GLM-5.1'', price 10000 10000),
      (''openai:gpt-4o-mini'', price 1500 6000),
      (''openai:gpt-4o'', price 25000 100000),
      (''openai:gpt-4-turbo'', price 100000 300000),
      (''openai:o1-mini'', price 30000 120000),
      (''openai:o1'', price 150000 600000),
      (''anthropic:claude-3-5-haiku-20241022'', price 1000 5000),
      (''anthropic:claude-3-5-sonnet-20241022'', price 30000 150000),
      (''anthropic:claude-3-opus-20240229'', price 150000 750000),
      (''ollama:qwen3.5:0.8b'', price 0 0),
      (''ollama:llama3.2:3b'', price 0 0),
      (''ollama:mistral:7b'', price 0 0),
      (''ollama:deepseek-coder:6.7b'', price 0 0),
      (''ollama:phi:2.7b'', price 0 0),
      (''ollama:qwen2.5:1.5b'', price 0 0),
      (''ollama:qwen3.5:2b'', price 0 0)]"

definition unknown_price :: Pricing where
  "unknown_price = price 100 300"

definition model_key :: "string \<Rightarrow> string \<Rightarrow> string" where
  "model_key provider model = provider @ '':'' @ model"

definition price_of :: "string \<Rightarrow> Pricing" where
  "price_of key =
     (case map_of providerCosts key of None \<Rightarrow> unknown_price | Some p \<Rightarrow> p)"

subsection \<open>Calculation\<close>

text \<open>The cost of one direction: truncated, but at least one unit of a paid price for any token.\<close>

definition cost_part :: "int \<Rightarrow> int \<Rightarrow> int" where
  "cost_part tokens perMillion =
     (let c = (tokens * perMillion) sdiv 1000000
      in if perMillion > 0 \<and> c = 0 \<and> tokens > 0 then 1 else c)"

definition Calculate :: "string \<Rightarrow> string \<Rightarrow> int \<Rightarrow> int \<Rightarrow> int" where
  "Calculate provider model inputTokens outputTokens =
     (let pricing = price_of (model_key provider model)
      in cost_part inputTokens (InputPerMillion pricing)
         + cost_part outputTokens (OutputPerMillion pricing))"

subsection \<open>Usage tracker\<close>

record ProviderUsage =
  pu_Provider :: string
  pu_Model :: string
  pu_InputTokens :: int
  pu_OutputTokens :: int
  pu_Calls :: int
  pu_Cost :: int

record Usage =
  us_InputTokens :: int
  us_OutputTokens :: int
  us_TotalCost :: int
  us_ByProvider :: "(string, ProviderUsage) gomap"

definition NewUsage :: Usage where
  "NewUsage = \<lparr>us_InputTokens = 0, us_OutputTokens = 0, us_TotalCost = 0, us_ByProvider = []\<rparr>"

definition new_provider_usage :: "string \<Rightarrow> string \<Rightarrow> ProviderUsage" where
  "new_provider_usage provider model =
     \<lparr>pu_Provider = provider, pu_Model = model, pu_InputTokens = 0, pu_OutputTokens = 0,
      pu_Calls = 0, pu_Cost = 0\<rparr>"

definition Record :: "string \<Rightarrow> string \<Rightarrow> int \<Rightarrow> int \<Rightarrow> Usage \<Rightarrow> Usage" where
  "Record provider model inputTokens outputTokens u =
     (let cost = Calculate provider model inputTokens outputTokens;
          key = model_key provider model;
          pu = (case map_of (us_ByProvider u) key of
                  None \<Rightarrow> new_provider_usage provider model
                | Some pu \<Rightarrow> pu)
      in u\<lparr>us_InputTokens := us_InputTokens u + inputTokens,
           us_OutputTokens := us_OutputTokens u + outputTokens,
           us_TotalCost := us_TotalCost u + cost,
           us_ByProvider := AList.update key
             (pu\<lparr>pu_InputTokens := pu_InputTokens pu + inputTokens,
                 pu_OutputTokens := pu_OutputTokens pu + outputTokens,
                 pu_Calls := pu_Calls pu + 1,
                 pu_Cost := pu_Cost pu + cost\<rparr>) (us_ByProvider u)\<rparr>)"

definition Totals :: "Usage \<Rightarrow> int \<times> int \<times> int" where
  "Totals u = (us_InputTokens u, us_OutputTokens u, us_TotalCost u)"

definition Reset :: "Usage \<Rightarrow> Usage" where
  "Reset u = u\<lparr>us_InputTokens := 0, us_OutputTokens := 0, us_TotalCost := 0, us_ByProvider := []\<rparr>"

subsection \<open>Estimator\<close>

definition estimateTokens :: "string \<Rightarrow> int" where
  "estimateTokens text = (if text = '''' then 0 else int (length text) sdiv 4)"

definition shortPatterns :: "string list" where
  "shortPatterns =
     [''what is'', ''how many'', ''which'', ''when'', ''where'', ''who'', ''yes or no'',
      ''true or false'', ''summarize'', ''tldr'', ''briefly'']"

definition codePatterns :: "string list" where
  "codePatterns =
     [''write'', ''create'', ''implement'', ''generate'', ''build'', ''refactor'', ''add'',
      ''modify'', ''fix'', ''update'', ''function'', ''class'', ''method'']"

definition analysisPatterns :: "string list" where
  "analysisPatterns =
     [''analyze'', ''review'', ''explain'', ''compare'', ''evaluate'', ''architecture'',
      ''design'', ''security'']"

definition mentions :: "string \<Rightarrow> string list \<Rightarrow> bool" where
  "mentions s patterns = list_ex (contains_str s) patterns"

definition estimateOutputTokens :: "string \<Rightarrow> int" where
  "estimateOutputTokens prompt =
     (let promptLower = to_lower prompt
      in if mentions promptLower shortPatterns then 500
         else if mentions promptLower codePatterns then 2000
         else if mentions promptLower analysisPatterns then 3000
         else 1000)"

record Estimate =
  est_Provider :: string
  est_Model :: string
  est_InputTokens :: int
  est_OutputTokens :: int
  est_CachedTokens :: int
  est_EstimatedCostUSD :: float64
  est_Warning :: string

definition price_per_token :: "int \<Rightarrow> float64" where
  "price_per_token perMillion = fdiv (fdiv (float_of_int perMillion) (Fin 1000000)) (Fin 100)"

definition estimated_cost :: "int \<Rightarrow> int \<Rightarrow> Pricing \<Rightarrow> float64" where
  "estimated_cost inputTokens outputTokens pricing =
     fadd (fmul (float_of_int inputTokens) (price_per_token (InputPerMillion pricing)))
          (fmul (float_of_int outputTokens) (price_per_token (OutputPerMillion pricing)))"

definition EstimateTask :: "string \<Rightarrow> string \<Rightarrow> string \<Rightarrow> string \<Rightarrow> bool \<Rightarrow> Estimate" where
  "EstimateTask provider model systemPrompt userPrompt hasTools =
     (let systemTokens = estimateTokens systemPrompt;
          userTokens = estimateTokens userPrompt;
          toolTokens = (if hasTools then 2000 else 0);
          inputTokens = systemTokens + userTokens + toolTokens;
          outputTokens = estimateOutputTokens userPrompt;
          known = map_of providerCosts (model_key provider model);
          pricing = (case known of None \<Rightarrow> unknown_price | Some p \<Rightarrow> p)
      in \<lparr>est_Provider = provider, est_Model = model, est_InputTokens = inputTokens,
          est_OutputTokens = outputTokens, est_CachedTokens = systemTokens,
          est_EstimatedCostUSD = estimated_cost inputTokens outputTokens pricing,
          est_Warning =
            (if known = None
             then ''Unknown provider:model '' @ provider @ '':'' @ model @ '', using default pricing''
             else '''')\<rparr>)"

definition EstimateSession :: "string \<Rightarrow> string \<Rightarrow> int \<Rightarrow> int \<Rightarrow> int \<Rightarrow> Estimate" where
  "EstimateSession provider model turns avgInputTokens avgOutputTokens =
     \<lparr>est_Provider = provider, est_Model = model, est_InputTokens = turns * avgInputTokens,
      est_OutputTokens = turns * avgOutputTokens, est_CachedTokens = 0,
      est_EstimatedCostUSD =
        estimated_cost (turns * avgInputTokens) (turns * avgOutputTokens)
          (price_of (model_key provider model)),
      est_Warning = ''''\<rparr>"

subsection \<open>Lemmas\<close>

lemma cost_part_nonneg: "0 \<le> n \<Longrightarrow> 0 \<le> p \<Longrightarrow> cost_part n p = (if 0 < p \<and> 0 < n then max 1 ((n * p) div 1000000) else (n * p) div 1000000)"
  by (auto simp: cost_part_def signed_divide_int_def Let_def sgn_if max_def zdiv_int pos_imp_zdiv_nonneg_iff not_le)

lemma cost_part_mono:
  "0 \<le> n \<Longrightarrow> 0 \<le> p \<Longrightarrow> p \<le> q \<Longrightarrow> cost_part n p \<le> cost_part n q"
proof -
  assume a: "0 \<le> n" "0 \<le> p" "p \<le> q"
  then have "(n * p) div 1000000 \<le> (n * q) div 1000000"
    by (intro zdiv_mono1 mult_left_mono) auto
  with a show ?thesis by (auto simp: cost_part_nonneg max_def)
qed

lemma prices_split:
  "list_all (\<lambda>(k, p). p = price 0 0 \<or> InputPerMillion p \<ge> 500 \<and> OutputPerMillion p \<ge> 1500) providerCosts"
  by (simp add: providerCosts_def price_def)

lemma unknown_cheaper:
  assumes "map_of providerCosts k = Some p" and "p \<noteq> price 0 0"
  shows "InputPerMillion unknown_price \<le> InputPerMillion p"
    and "OutputPerMillion unknown_price \<le> OutputPerMillion p"
proof -
  have "(k, p) \<in> set providerCosts" using assms(1) by (rule map_of_SomeD)
  then have "InputPerMillion p \<ge> 500 \<and> OutputPerMillion p \<ge> 1500"
    using prices_split assms(2) unfolding list_all_iff by fastforce
  then show "InputPerMillion unknown_price \<le> InputPerMillion p"
    and "OutputPerMillion unknown_price \<le> OutputPerMillion p"
    by (simp_all add: unknown_price_def price_def)
qed

lemma price_of_nonneg: "0 \<le> InputPerMillion (price_of k)" "0 \<le> OutputPerMillion (price_of k)"
proof -
  have "0 \<le> InputPerMillion (price_of k) \<and> 0 \<le> OutputPerMillion (price_of k)"
  proof (cases "map_of providerCosts k")
    case None
    then show ?thesis by (simp add: price_of_def unknown_price_def price_def)
  next
    case (Some p)
    then have "(k, p) \<in> set providerCosts" by (rule map_of_SomeD)
    then have "p = price 0 0 \<or> InputPerMillion p \<ge> 500 \<and> OutputPerMillion p \<ge> 1500"
      using prices_split unfolding list_all_iff by fastforce
    then show ?thesis using Some by (auto simp: price_of_def price_def)
  qed
  then show "0 \<le> InputPerMillion (price_of k)" "0 \<le> OutputPerMillion (price_of k)" by auto
qed

lemma cost_part_error:
  assumes "0 \<le> n" and "0 \<le> p"
  shows "n * p - 1000000 < 1000000 * cost_part n p" and "1000000 * cost_part n p \<le> max (n * p) 1000000"
    and "0 \<le> cost_part n p" and "cost_part n p = 0 \<longleftrightarrow> n = 0 \<or> p = 0"
proof -
  have d: "1000000 * ((n * p) div 1000000) \<le> n * p" "n * p - 1000000 < 1000000 * ((n * p) div 1000000)"
    by (simp_all add: mult_div_mod_eq [symmetric] minus_mod_eq_mult_div [symmetric])
  have z: "0 \<le> (n * p) div 1000000" using assms by (simp add: pos_imp_zdiv_nonneg_iff)
  show "n * p - 1000000 < 1000000 * cost_part n p" "1000000 * cost_part n p \<le> max (n * p) 1000000"
    "0 \<le> cost_part n p" "cost_part n p = 0 \<longleftrightarrow> n = 0 \<or> p = 0"
    using d z assms by (auto simp: cost_part_nonneg max_def)
qed

text \<open>The tracker after a list of calls: provider, model, input tokens, output tokens.\<close>

type_synonym token_call = "string \<times> string \<times> int \<times> int"

definition call_key :: "token_call \<Rightarrow> string" where
  "call_key c = model_key (fst c) (fst (snd c))"

definition call_in :: "token_call \<Rightarrow> int" where
  "call_in c = fst (snd (snd c))"

definition call_out :: "token_call \<Rightarrow> int" where
  "call_out c = snd (snd (snd c))"

definition call_cost :: "token_call \<Rightarrow> int" where
  "call_cost c = Calculate (fst c) (fst (snd c)) (call_in c) (call_out c)"

definition record_call :: "token_call \<Rightarrow> Usage \<Rightarrow> Usage" where
  "record_call c = Record (fst c) (fst (snd c)) (call_in c) (call_out c)"

definition add_call :: "token_call \<Rightarrow> ProviderUsage \<Rightarrow> ProviderUsage" where
  "add_call c pu =
     pu\<lparr>pu_InputTokens := pu_InputTokens pu + call_in c,
        pu_OutputTokens := pu_OutputTokens pu + call_out c,
        pu_Calls := pu_Calls pu + 1, pu_Cost := pu_Cost pu + call_cost c\<rparr>"

text \<open>What the breakdown must hold for the calls of one key.\<close>

definition usage_of_calls :: "token_call list \<Rightarrow> ProviderUsage option" where
  "usage_of_calls cs =
     (if cs = [] then None
      else Some \<lparr>pu_Provider = fst (hd cs), pu_Model = fst (snd (hd cs)),
                 pu_InputTokens = sum_list (map call_in cs), pu_OutputTokens = sum_list (map call_out cs),
                 pu_Calls = int (length cs), pu_Cost = sum_list (map call_cost cs)\<rparr>)"

lemma usage_of_calls_snoc:
  "usage_of_calls (cs @ [c]) =
     Some (add_call c (case usage_of_calls cs of
                         None \<Rightarrow> new_provider_usage (fst c) (fst (snd c)) | Some pu \<Rightarrow> pu))"
  by (cases cs) (simp_all add: usage_of_calls_def new_provider_usage_def add_call_def)

lemma record_call_lookup:
  "map_of (us_ByProvider (record_call c u)) k =
     (if k = call_key c
      then Some (add_call c (case map_of (us_ByProvider u) k of
                             None \<Rightarrow> new_provider_usage (fst c) (fst (snd c)) | Some pu \<Rightarrow> pu))
      else map_of (us_ByProvider u) k)"
  by (simp add: record_call_def Record_def Let_def call_key_def call_cost_def update_conv' add_call_def)

lemma record_calls_lookup:
  "map_of (us_ByProvider (fold record_call calls NewUsage)) k =
     usage_of_calls (filter (\<lambda>c. call_key c = k) calls)"
proof (induction calls rule: rev_induct)
  case Nil
  then show ?case by (simp add: NewUsage_def usage_of_calls_def)
next
  case (snoc c calls)
  then show ?case by (auto simp: record_call_lookup usage_of_calls_snoc)
qed

lemma record_calls_totals:
  "Totals (fold record_call calls NewUsage) =
     (sum_list (map call_in calls), sum_list (map call_out calls), sum_list (map call_cost calls))"
  by (induction calls rule: rev_induct)
    (simp_all add: Totals_def NewUsage_def record_call_def Record_def Let_def call_cost_def)

lemma record_calls_ok: "gomap_ok (us_ByProvider (fold record_call calls NewUsage))"
  by (induction calls rule: rev_induct)
    (simp_all add: NewUsage_def record_call_def Record_def Let_def)

text \<open>Replacing an entry of an association list changes a sum by the difference.\<close>

lemma sum_update:
  fixes f :: "'v \<Rightarrow> int"
  assumes "gomap_ok m"
  shows "sum_list (map (\<lambda>x. f (snd x)) (AList.update k v m)) =
           sum_list (map (\<lambda>x. f (snd x)) m) + f v - (case map_of m k of None \<Rightarrow> 0 | Some w \<Rightarrow> f w)"
  using assms by (induction m) (auto simp: gomap_ok_def split: option.splits)

lemma record_calls_sums:
  fixes g :: "token_call \<Rightarrow> int"
  assumes "\<And>c pu. f (add_call c pu) = f pu + g c"
    and "\<And>p m. f (new_provider_usage p m) = 0"
  shows "sum_list (map (\<lambda>x. f (snd x)) (us_ByProvider (fold record_call calls NewUsage))) = sum_list (map g calls)"
proof (induction calls rule: rev_induct)
  case Nil
  then show ?case by (simp add: NewUsage_def)
next
  case (snoc c calls)
  let ?u = "fold record_call calls NewUsage"
  have "us_ByProvider (record_call c ?u) =
     AList.update (call_key c)
       (add_call c (case map_of (us_ByProvider ?u) (call_key c) of
                      None \<Rightarrow> new_provider_usage (fst c) (fst (snd c)) | Some pu \<Rightarrow> pu))
       (us_ByProvider ?u)"
    by (simp add: record_call_def Record_def Let_def call_key_def call_cost_def add_call_def)
  then show ?case
    using snoc by (simp add: sum_update [OF record_calls_ok] assms split: option.split)
qed

text \<open>
  Usage accounts: after any calls on a new tracker the totals are the sums over the calls, the
  breakdown has for every provider:model key exactly the calls of that key (names of the first of
  them, sums, number) and no other entry, and the breakdown adds up to the totals.
\<close>

theorem usage_accounts:
  "let u = fold record_call calls NewUsage; bd = us_ByProvider u
   in Totals u = (sum_list (map call_in calls), sum_list (map call_out calls),
                  sum_list (map (\<lambda>(p, m, i, out). Calculate p m i out) calls))
      \<and> map_of bd = (\<lambda>k. usage_of_calls (filter (\<lambda>c. call_key c = k) calls))
      \<and> Totals u = (sum_list (map (\<lambda>x. pu_InputTokens (snd x)) bd), sum_list (map (\<lambda>x. pu_OutputTokens (snd x)) bd),
                    sum_list (map (\<lambda>x. pu_Cost (snd x)) bd))
      \<and> sum_list (map (\<lambda>x. pu_Calls (snd x)) bd) = int (length calls)"
proof -
  have c: "call_cost = (\<lambda>(p, m, i, out). Calculate p m i out)"
    by (auto simp: call_cost_def call_in_def call_out_def)
  have n: "sum_list (map (\<lambda>_. 1) calls) = int (length calls)" by (induction calls) simp_all
  note s = record_calls_sums [of pu_InputTokens call_in calls] record_calls_sums [of pu_OutputTokens call_out calls]
    record_calls_sums [of pu_Cost call_cost calls] record_calls_sums [of pu_Calls "\<lambda>_. 1" calls]
  show ?thesis
    unfolding Let_def c [symmetric]
    by (intro conjI ext) (simp_all add: record_calls_totals record_calls_lookup s new_provider_usage_def add_call_def n)
qed

text \<open>
  Costs: for token counts that are not negative the cost is never negative, is zero only if each
  direction has no tokens or a zero price, and is less than one unit per direction below the exact
  price and at most one above. The price for an unknown model, called conservative, never charges more
  than any paid model of the table does.
\<close>

theorem Calculate_bounds:
  assumes "0 \<le> i" and "0 \<le> out"
  shows "(let c = Calculate prov m i out; pr = price_of (model_key prov m);
              exact = i * InputPerMillion pr + out * OutputPerMillion pr
          in 0 \<le> c \<and> exact - 2000000 < 1000000 * c \<and> 1000000 * c \<le> exact + 2000000
             \<and> (c = 0 \<longleftrightarrow> (i = 0 \<or> InputPerMillion pr = 0) \<and> (out = 0 \<or> OutputPerMillion pr = 0)))
     \<and> (map_of providerCosts (model_key prov m) = None \<and> map_of providerCosts (model_key prov' m') = Some q
          \<and> q \<noteq> price 0 0 \<longrightarrow> Calculate prov m i out \<le> Calculate prov' m' i out)"
proof -
  let ?pr = "price_of (model_key prov m)"
  have z: "0 \<le> i * InputPerMillion ?pr" "0 \<le> out * OutputPerMillion ?pr"
    using assms price_of_nonneg by simp_all
  note e = cost_part_error [OF assms(1) price_of_nonneg(1), of "model_key prov m"]
    cost_part_error [OF assms(2) price_of_nonneg(2), of "model_key prov m"]
  have cheaper: "Calculate prov m i out \<le> Calculate prov' m' i out"
    if "map_of providerCosts (model_key prov m) = None" "map_of providerCosts (model_key prov' m') = Some q"
      "q \<noteq> price 0 0"
  proof -
    have "?pr = unknown_price" and "price_of (model_key prov' m') = q"
      using that by (simp_all add: price_of_def)
    then show ?thesis
      using unknown_cheaper [OF that(2,3)] assms
      by (simp add: Calculate_def Let_def add_mono cost_part_mono unknown_price_def price_def)
  qed
  show ?thesis
    using e z cheaper unfolding Let_def Calculate_def by (auto simp: max_def split: if_splits)
qed

theorem Calculate_bounds_witness:
  "Calculate ''openai'' ''gpt-9'' 1000000 0 \<le> Calculate ''openai'' ''gpt-4o'' 1000000 0"
  using Calculate_bounds [of 1000000 0 "''openai''" "''gpt-9''" "''openai''" "''gpt-4o''" "price 25000 100000"]
  by (simp add: providerCosts_def model_key_def price_def)

end
