(* ===== verification/MLQ.thy ===== *)
theory MLQ
  imports Prelude "HOL-Library.Word"
begin

text \<open>
  The multi-level queue: selection of a level (\<open>internal/mlq/selector.go\<close>) and execution with retry,
  escalation and fallback (\<open>internal/mlq/task_executor.go\<close>).

  Level numbers and counters are Go \<open>int\<close>s far from their bounds; the round-robin counter is a 64-bit
  word and wraps. The pools of different levels are different objects, and the function that executes
  an attempt acts on a world of its own: it does not touch the pools. The loop of \<open>ExecuteWithRetry\<close> may
  run forever, so it is a partial function with values in \<open>option\<close>: not returning is \<open>None\<close>. Levels
  without the fields no operation reads (concurrency, capabilities, performance); log lines are left out.
\<close>

subsection \<open>Configuration and selection\<close>

record BackendConfig =
  bc_Provider :: string
  bc_Name :: string
  bc_ModelFile :: string
  bc_APIEndpoint :: string
  bc_TimeoutSeconds :: int

record Level =
  lv_Level :: int
  lv_Name :: string
  lv_DisplayName :: string
  lv_Enabled :: bool
  lv_Backend :: BackendConfig
  lv_TaskClass :: "string list"

record EscalationRule =
  er_Trigger :: string
  er_FromLevel :: int
  er_ToLevel :: int
  er_MaxRetries :: int
  er_TimeoutThresholdSec :: int
  er_RequireManualApproval :: bool
  er_AllowedForTaskClass :: "string list"

record SelectionPolicy =
  sp_DefaultLevelMapping :: "string \<rightharpoonup> int"
  sp_JiraKeyOverrides :: "string \<rightharpoonup> int"

record MLQConfig =
  mc_MLQLevels :: "Level list"
  mc_EscalationRules :: "EscalationRule list"
  mc_SelectionPolicy :: SelectionPolicy

record MLQ =
  mlq_config :: MLQConfig
  mlq_levels :: "(int, Level) gomap"
  mlq_healthy :: "(int, bool) gomap"

definition NewMLQ :: "MLQConfig \<Rightarrow> MLQ" where
  "NewMLQ config =
     fold (\<lambda>level m. m\<lparr>mlq_levels := AList.update (lv_Level level) level (mlq_levels m),
                       mlq_healthy := AList.update (lv_Level level) (lv_Enabled level) (mlq_healthy m)\<rparr>)
       (mc_MLQLevels config)
       \<lparr>mlq_config = config, mlq_levels = [], mlq_healthy = []\<rparr>"

definition GetLevel :: "MLQ \<Rightarrow> int \<Rightarrow> Level option" where
  "GetLevel m levelNum = map_of (mlq_levels m) levelNum"

text \<open>The test \<open>level, ok := m.levels[n]; ok && level.Enabled\<close>.\<close>

definition enabled_level :: "MLQ \<Rightarrow> int \<Rightarrow> Level option" where
  "enabled_level m levelNum =
     (case GetLevel m levelNum of
        Some level \<Rightarrow> if lv_Enabled level then Some level else None
      | None \<Rightarrow> None)"

definition mapped_level :: "MLQ \<Rightarrow> (string \<rightharpoonup> int) \<Rightarrow> string \<Rightarrow> Level option" where
  "mapped_level m mapping key =
     (if key \<noteq> ''''
      then (case mapping key of Some levelNum \<Rightarrow> enabled_level m levelNum | None \<Rightarrow> None)
      else None)"

datatype mlq_error = NoEnabledLevel string string

definition SelectLevel :: "MLQ \<Rightarrow> string \<Rightarrow> string \<Rightarrow> string \<Rightarrow> mlq_error + Level" where
  "SelectLevel m taskID jiraKey taskClass =
     (case mapped_level m (sp_JiraKeyOverrides (mc_SelectionPolicy (mlq_config m))) jiraKey of
        Some level \<Rightarrow> Inr level
      | None \<Rightarrow>
          (case mapped_level m (sp_DefaultLevelMapping (mc_SelectionPolicy (mlq_config m))) taskClass of
             Some level \<Rightarrow> Inr level
           | None \<Rightarrow>
               (case enabled_level m 0 of
                  Some level \<Rightarrow> Inr level
                | None \<Rightarrow> Inl (NoEnabledLevel taskID jiraKey))))"

definition ListLevels :: "(int \<Rightarrow> nat) \<Rightarrow> MLQ \<Rightarrow> int list" where
  "ListLevels r m = map fst (filter (\<lambda>(n, level). lv_Enabled level) (go_range r (mlq_levels m)))"

subsection \<open>Worker pools\<close>

record PoolWorker =
  pw_ID :: string
  pw_Endpoint :: string
  pw_Provider :: string
  pw_Model :: string
  pw_Busy :: bool

record WorkerPool =
  wp_workers :: "PoolWorker list"
  wp_rrIndex :: "64 word"
  wp_baseLevel :: Level

definition NewWorkerPool :: "Level \<Rightarrow> string list \<Rightarrow> WorkerPool" where
  "NewWorkerPool level endpoints =
     \<lparr>wp_workers =
        map (\<lambda>(i, ep). \<lparr>pw_ID = lv_Name level @ ''-w'' @ itoa (int i + 1), pw_Endpoint = ep,
                        pw_Provider = bc_Provider (lv_Backend level), pw_Model = bc_Name (lv_Backend level),
                        pw_Busy = False\<rparr>) (enumerate 0 endpoints),
      wp_rrIndex = 0, wp_baseLevel = level\<rparr>"

text \<open>On an empty pool Go panics with a division by zero; the executor never selects from one.\<close>

definition SelectWorker :: "WorkerPool \<Rightarrow> WorkerPool \<times> PoolWorker" where
  "SelectWorker wp =
     (wp\<lparr>wp_rrIndex := wp_rrIndex wp + 1\<rparr>,
      wp_workers wp ! (unat (wp_rrIndex wp) mod length (wp_workers wp)))"

definition SelectLeastBusy :: "WorkerPool \<Rightarrow> WorkerPool \<times> PoolWorker" where
  "SelectLeastBusy wp =
     (if list_ex (\<lambda>w. \<not> pw_Busy w) (wp_workers wp) then SelectWorker wp else SelectWorker wp)"

fun mark_worker :: "string \<Rightarrow> bool \<Rightarrow> PoolWorker list \<Rightarrow> PoolWorker list" where
  "mark_worker workerID b [] = []"
| "mark_worker workerID b (w # ws) =
     (if pw_ID w = workerID then w\<lparr>pw_Busy := b\<rparr> # ws else w # mark_worker workerID b ws)"

definition MarkBusy :: "string \<Rightarrow> WorkerPool \<Rightarrow> WorkerPool" where
  "MarkBusy workerID wp = wp\<lparr>wp_workers := mark_worker workerID True (wp_workers wp)\<rparr>"

definition MarkFree :: "string \<Rightarrow> WorkerPool \<Rightarrow> WorkerPool" where
  "MarkFree workerID wp = wp\<lparr>wp_workers := mark_worker workerID False (wp_workers wp)\<rparr>"

definition WorkerCount :: "WorkerPool \<Rightarrow> nat" where
  "WorkerCount wp = length (wp_workers wp)"

definition WorkerEndpoints :: "WorkerPool \<Rightarrow> string list" where
  "WorkerEndpoints wp = map pw_Endpoint (wp_workers wp)"

subsection \<open>Telemetry\<close>

record TaskAttempt =
  ta_AttemptID :: int
  ta_Level :: int
  ta_WorkerEndpoint :: string
  ta_RetryCount :: int
  ta_EscalationCount :: int
  ta_FallbackCount :: int
  ta_StartTime :: time
  ta_CompletionTime :: time
  ta_Success :: bool
  ta_Error :: string
  ta_ArtifactPath :: string

record TaskTelemetry =
  tt_TaskID :: string
  tt_TaskClass :: string
  tt_JiraKey :: string
  tt_InitialLevel :: int
  tt_Attempts :: "TaskAttempt list"
  tt_FinalLevel :: int
  tt_FinalResult :: string
  tt_TotalRetries :: int
  tt_Escalated :: bool
  tt_FallbackUsed :: bool

definition new_telemetry :: "string \<Rightarrow> string \<Rightarrow> string \<Rightarrow> TaskTelemetry" where
  "new_telemetry taskID taskClass jiraKey =
     \<lparr>tt_TaskID = taskID, tt_TaskClass = taskClass, tt_JiraKey = jiraKey, tt_InitialLevel = 0,
      tt_Attempts = [], tt_FinalLevel = 0, tt_FinalResult = '''', tt_TotalRetries = 0,
      tt_Escalated = False, tt_FallbackUsed = False\<rparr>"

end
