(* ===== verification/MLQ_Executor.thy ===== *)
theory MLQ_Executor
  imports MLQ
begin

text \<open>
  \<open>ExecuteWithRetry\<close> (\<open>internal/mlq/task_executor.go\<close>): one iteration of its loop is \<open>exec_step\<close>, which
  ends the loop (\<open>Inl\<close>) or goes on (\<open>Inr\<close>); \<open>exec_loop\<close> iterates it. \<open>clk i\<close> is the \<open>i\<close>-th
  clock reading of the call. The result also holds what the telemetry sink was sent.
\<close>

record TaskExecutor =
  te_mlq :: MLQ
  te_workerPools :: "int \<rightharpoonup> WorkerPool"

type_synonym 'w execute_fn = "string \<Rightarrow> 'w \<Rightarrow> 'w \<times> string \<times> string option"

definition selectWorker :: "(int \<rightharpoonup> WorkerPool) \<Rightarrow> int \<Rightarrow> (WorkerPool \<times> PoolWorker) option" where
  "selectWorker pools level =
     (case pools level of
        None \<Rightarrow> None
      | Some pool \<Rightarrow> if WorkerCount pool = 0 then None else Some (SelectWorker pool))"

definition retry_rule :: "int \<Rightarrow> EscalationRule \<Rightarrow> bool" where
  "retry_rule level rule \<longleftrightarrow> er_FromLevel rule = level \<and> er_Trigger rule = ''retry_count''"

definition getMaxRetriesForLevel :: "MLQ \<Rightarrow> int \<Rightarrow> int" where
  "getMaxRetriesForLevel m level =
     (case find (retry_rule level) (mc_EscalationRules (mlq_config m)) of
        Some rule \<Rightarrow> er_MaxRetries rule
      | None \<Rightarrow> 2)"

fun find_escalation :: "MLQ \<Rightarrow> int \<Rightarrow> string \<Rightarrow> EscalationRule list \<Rightarrow> Level option" where
  "find_escalation m fromLevel taskClass [] = None"
| "find_escalation m fromLevel taskClass (rule # rules) =
     (if retry_rule fromLevel rule
      then (case enabled_level m (er_ToLevel rule) of
              Some nextLevel \<Rightarrow>
                if er_RequireManualApproval rule then None
                else if er_AllowedForTaskClass rule \<noteq> [] \<and> taskClass \<notin> set (er_AllowedForTaskClass rule)
                then find_escalation m fromLevel taskClass rules
                else Some nextLevel
            | None \<Rightarrow> find_escalation m fromLevel taskClass rules)
      else find_escalation m fromLevel taskClass rules)"

definition findEscalationLevel :: "MLQ \<Rightarrow> int \<Rightarrow> string \<Rightarrow> Level option" where
  "findEscalationLevel m fromLevel taskClass =
     find_escalation m fromLevel taskClass (mc_EscalationRules (mlq_config m))"

record 'w exec_state =
  xs_pools :: "int \<rightharpoonup> WorkerPool"
  xs_world :: 'w
  xs_level :: Level
  xs_maxRetries :: int
  xs_attemptID :: int
  xs_tel :: TaskTelemetry

text \<open>One call of \<open>executeFn\<close>, with the worker marked busy before and free after; the new attempt.\<close>

definition run_attempt ::
    "clock \<Rightarrow> 'w execute_fn \<Rightarrow> WorkerPool \<Rightarrow> PoolWorker \<Rightarrow> 'w exec_state \<Rightarrow> 'w exec_state \<times> bool" where
  "run_attempt clk executeFn pool worker s =
     (let n = length (tt_Attempts (xs_tel s));
          busy = MarkBusy (pw_ID worker) pool;
          (w1, artifactPath, execErr) = executeFn (pw_Endpoint worker) (xs_world s);
          attempt =
            \<lparr>ta_AttemptID = xs_attemptID s, ta_Level = lv_Level (xs_level s),
             ta_WorkerEndpoint = pw_Endpoint worker, ta_RetryCount = 0, ta_EscalationCount = 0,
             ta_FallbackCount = 0, ta_StartTime = clk (2 * n), ta_CompletionTime = clk (2 * n + 1),
             ta_Success = (execErr = None), ta_Error = (case execErr of None \<Rightarrow> '''' | Some e \<Rightarrow> e),
             ta_ArtifactPath = artifactPath\<rparr>
      in (s\<lparr>xs_pools := (xs_pools s)(lv_Level (xs_level s) \<mapsto> MarkFree (pw_ID worker) busy),
            xs_world := w1,
            xs_tel := (xs_tel s)\<lparr>tt_Attempts := tt_Attempts (xs_tel s) @ [attempt]\<rparr>\<rparr>,
          execErr = None))"

definition count_escalation :: "TaskAttempt list \<Rightarrow> TaskAttempt list" where
  "count_escalation as =
     as[length as - 1 := (as ! (length as - 1))\<lparr>ta_EscalationCount := ta_EscalationCount (as ! (length as - 1)) + 1\<rparr>]"

text \<open>What follows a failed attempt: retry, escalate, fall back or give up.\<close>

definition after_failure :: "MLQ \<Rightarrow> string \<Rightarrow> 'w exec_state \<Rightarrow> 'w exec_state + 'w exec_state" where
  "after_failure m taskClass s =
     (if xs_attemptID s \<ge> xs_maxRetries s
      then (case findEscalationLevel m (lv_Level (xs_level s)) taskClass of
              Some nextLevel \<Rightarrow>
                Inr (s\<lparr>xs_tel := (xs_tel s)\<lparr>tt_Escalated := True,
                                 tt_Attempts := count_escalation (tt_Attempts (xs_tel s))\<rparr>,
                       xs_level := nextLevel,
                       xs_maxRetries := getMaxRetriesForLevel m (lv_Level nextLevel),
                       xs_attemptID := 0\<rparr>)
            | None \<Rightarrow>
                (case enabled_level m 0 of
                   Some fbLevel \<Rightarrow>
                     if lv_Level (xs_level s) \<noteq> 0
                     then Inr (s\<lparr>xs_tel := (xs_tel s)\<lparr>tt_FallbackUsed := True\<rparr>,
                                 xs_level := fbLevel, xs_maxRetries := getMaxRetriesForLevel m 0,
                                 xs_attemptID := 0\<rparr>)
                     else Inl (s\<lparr>xs_tel := (xs_tel s)\<lparr>tt_FinalLevel := lv_Level (xs_level s),
                                   tt_FinalResult := ''exhausted'',
                                   tt_TotalRetries := int (length (tt_Attempts (xs_tel s))) - 1\<rparr>\<rparr>)
                 | None \<Rightarrow>
                     Inl (s\<lparr>xs_tel := (xs_tel s)\<lparr>tt_FinalLevel := lv_Level (xs_level s),
                              tt_FinalResult := ''exhausted'',
                              tt_TotalRetries := int (length (tt_Attempts (xs_tel s))) - 1\<rparr>\<rparr>)))
      else Inr s)"

definition no_worker :: "MLQ \<Rightarrow> 'w exec_state \<Rightarrow> 'w exec_state + 'w exec_state" where
  "no_worker m s =
     (case enabled_level m 0 of
        Some fbLevel \<Rightarrow>
          Inr (s\<lparr>xs_level := fbLevel, xs_tel := (xs_tel s)\<lparr>tt_FallbackUsed := True\<rparr>\<rparr>)
      | None \<Rightarrow> Inl (s\<lparr>xs_tel := (xs_tel s)\<lparr>tt_FinalResult := ''infra_fail''\<rparr>\<rparr>))"

definition exec_step ::
    "MLQ \<Rightarrow> string \<Rightarrow> clock \<Rightarrow> 'w execute_fn \<Rightarrow> 'w exec_state \<Rightarrow> 'w exec_state + 'w exec_state" where
  "exec_step m taskClass clk executeFn s0 =
     (let s = s0\<lparr>xs_attemptID := xs_attemptID s0 + 1\<rparr>
      in case selectWorker (xs_pools s) (lv_Level (xs_level s)) of
           None \<Rightarrow> no_worker m s
         | Some (pool, worker) \<Rightarrow>
             (case run_attempt clk executeFn pool worker s of
                (s1, ok) \<Rightarrow>
                  if ok
                  then Inl (s1\<lparr>xs_tel := (xs_tel s1)\<lparr>tt_FinalLevel := lv_Level (xs_level s1),
                                  tt_FinalResult := ''success'', tt_TotalRetries := xs_attemptID s1 - 1\<rparr>\<rparr>)
                  else after_failure m taskClass s1))"

partial_function (option) exec_loop ::
    "MLQ \<Rightarrow> string \<Rightarrow> clock \<Rightarrow> 'w execute_fn \<Rightarrow> 'w exec_state \<Rightarrow> 'w exec_state option" where
  "exec_loop m taskClass clk executeFn s =
     (case exec_step m taskClass clk executeFn s of
        Inl s1 \<Rightarrow> Some s1
      | Inr s1 \<Rightarrow> exec_loop m taskClass clk executeFn s1)"

definition start_state ::
    "MLQ \<Rightarrow> (int \<rightharpoonup> WorkerPool) \<Rightarrow> string \<Rightarrow> string \<Rightarrow> string \<Rightarrow> 'w \<Rightarrow> Level \<Rightarrow> 'w exec_state" where
  "start_state m pools taskID taskClass jiraKey w level =
     \<lparr>xs_pools = pools, xs_world = w, xs_level = level,
      xs_maxRetries = getMaxRetriesForLevel m (lv_Level level), xs_attemptID = 0,
      xs_tel = (new_telemetry taskID taskClass jiraKey)
        \<lparr>tt_InitialLevel := lv_Level level, tt_FinalLevel := lv_Level level\<rparr>\<rparr>"

text \<open>The executor after the call, the world, the returned telemetry and what the sink received.\<close>

definition ExecuteWithRetry ::
    "clock \<Rightarrow> 'w execute_fn \<Rightarrow> string \<Rightarrow> string \<Rightarrow> string \<Rightarrow> TaskExecutor \<Rightarrow> 'w \<Rightarrow>
       (TaskExecutor \<times> 'w \<times> TaskTelemetry \<times> TaskTelemetry list) option" where
  "ExecuteWithRetry clk executeFn taskID taskClass jiraKey te w =
     (case SelectLevel (te_mlq te) taskID jiraKey taskClass of
        Inl err \<Rightarrow>
          Some (te, w, (new_telemetry taskID taskClass jiraKey)\<lparr>tt_FinalResult := ''infra_fail''\<rparr>, [])
      | Inr level \<Rightarrow>
          (case exec_loop (te_mlq te) taskClass clk executeFn
                  (start_state (te_mlq te) (te_workerPools te) taskID taskClass jiraKey w level) of
             None \<Rightarrow> None
           | Some s \<Rightarrow> Some (te\<lparr>te_workerPools := xs_pools s\<rparr>, xs_world s, xs_tel s, [xs_tel s])))"

subsection \<open>Construction by the factory\<close>

text \<open>
  \<open>EnableMLQ\<close> of the factory (\<open>internal/factory/factory.go\<close>) on a loaded configuration: one worker, the
  configured endpoint, for each enabled level, in the order \<open>r\<close> of the iteration over the level map.
\<close>

definition EnableMLQ :: "(int \<Rightarrow> nat) \<Rightarrow> MLQConfig \<Rightarrow> TaskExecutor" where
  "EnableMLQ r config =
     (let m = NewMLQ config
      in \<lparr>te_mlq = m,
          te_workerPools =
            fold (\<lambda>levelNum pools.
                    case GetLevel m levelNum of
                      None \<Rightarrow> pools
                    | Some level \<Rightarrow>
                        pools(levelNum \<mapsto> NewWorkerPool level [bc_APIEndpoint (lv_Backend level)]))
              (ListLevels r m) Map.empty\<rparr>)"

end
