(* ===== verification/MLQ_Properties.thy ===== *)
theory MLQ_Properties
  imports MLQ_Executor
begin

text \<open>
  Properties of the multi-level queue: which level is selected, the round robin, what the telemetry of
  an execution says about the calls that were made, when an execution returns and when it never does.
\<close>

subsection \<open>Levels\<close>

definition mlq_ok :: "MLQ \<Rightarrow> bool" where
  "mlq_ok m \<longleftrightarrow> gomap_ok (mlq_levels m)
     \<and> (\<forall>n l. map_of (mlq_levels m) n = Some l \<longrightarrow> lv_Level l = n)"

lemma NewMLQ_ok: "mlq_ok (NewMLQ config)"
  unfolding NewMLQ_def
  by (rule fold_invariant) (auto simp: mlq_ok_def update_conv' split: if_splits)

lemma NewMLQ_config [simp]: "mlq_config (NewMLQ config) = config"
  unfolding NewMLQ_def by (rule fold_invariant [where P = "\<lambda>m. mlq_config m = config"]) simp_all

lemma enabled_levelD:
  "mlq_ok m \<Longrightarrow> enabled_level m n = Some l \<Longrightarrow> lv_Level l = n \<and> lv_Enabled l \<and> enabled_level m (lv_Level l) = Some l"
  by (auto simp: enabled_level_def GetLevel_def mlq_ok_def split: option.splits if_splits)

lemma mapped_levelD:
  "mapped_level m f k = Some l \<Longrightarrow> \<exists>n. enabled_level m n = Some l"
  by (auto simp: mapped_level_def split: option.splits if_splits)

lemma SelectLevel_enabled:
  assumes "mlq_ok m" and "SelectLevel m i j c = Inr l"
  shows "enabled_level m (lv_Level l) = Some l"
  using assms mapped_levelD enabled_levelD
  by (force simp: SelectLevel_def split: option.splits)

lemma find_escalation_rule:
  "find_escalation m f c rules = Some l \<Longrightarrow>
     \<exists>rule \<in> set rules. retry_rule f rule \<and> enabled_level m (er_ToLevel rule) = Some l"
  by (induction m f c rules rule: find_escalation.induct) (auto split: if_splits option.splits)

lemma findEscalationLevelD:
  assumes "mlq_ok m" and "findEscalationLevel m f c = Some l"
  shows "enabled_level m (lv_Level l) = Some l"
    and "\<exists>rule \<in> set (mc_EscalationRules (mlq_config m)). retry_rule f rule \<and> er_ToLevel rule = lv_Level l"
  using find_escalation_rule [OF assms(2) [unfolded findEscalationLevel_def]] enabled_levelD [OF assms(1)]
  by metis+

text \<open>The newest configured level of a number is the one in the index.\<close>

lemma NewMLQ_levels:
  "map_of (mlq_levels (NewMLQ config)) n = find (\<lambda>l. lv_Level l = n) (rev (mc_MLQLevels config))"
proof -
  have "map_of (mlq_levels (fold (\<lambda>level m. m\<lparr>mlq_levels := AList.update (lv_Level level) level (mlq_levels m),
                       mlq_healthy := AList.update (lv_Level level) (lv_Enabled level) (mlq_healthy m)\<rparr>) ls
       \<lparr>mlq_config = config, mlq_levels = [], mlq_healthy = []\<rparr>)) n = find (\<lambda>l. lv_Level l = n) (rev ls)" for ls
    by (induction ls rule: rev_induct) (auto simp: update_conv')
  then show ?thesis by (simp add: NewMLQ_def)
qed

subsection \<open>Worker pools\<close>

lemma mark_worker_endpoints [simp]: "map pw_Endpoint (mark_worker i b ws) = map pw_Endpoint ws"
  by (induction i b ws rule: mark_worker.induct) auto

lemma pool_endpoints [simp]:
  "WorkerEndpoints (MarkBusy i wp) = WorkerEndpoints wp"
  "WorkerEndpoints (MarkFree i wp) = WorkerEndpoints wp"
  "WorkerEndpoints (fst (SelectWorker wp)) = WorkerEndpoints wp"
  by (simp_all add: WorkerEndpoints_def MarkBusy_def MarkFree_def SelectWorker_def)

lemma WorkerCount_endpoints: "WorkerCount wp = length (WorkerEndpoints wp)"
  by (simp add: WorkerCount_def WorkerEndpoints_def)

lemma SelectWorker_endpoint:
  assumes "WorkerCount wp \<noteq> 0"
  shows "pw_Endpoint (snd (SelectWorker wp)) \<in> set (WorkerEndpoints wp)"
  using assms by (auto simp: SelectWorker_def WorkerEndpoints_def WorkerCount_def)

lemma selectWorkerD:
  assumes "selectWorker pools n = Some (pool, worker)"
  shows "\<exists>p. pools n = Some p \<and> WorkerEndpoints pool = WorkerEndpoints p
            \<and> pw_Endpoint worker \<in> set (WorkerEndpoints p)"
proof -
  obtain p where "pools n = Some p" "WorkerCount p \<noteq> 0" "SelectWorker p = (pool, worker)"
    using assms by (auto simp: selectWorker_def split: option.splits if_splits)
  then show ?thesis using SelectWorker_endpoint [of p] pool_endpoints(3) [of p] by simp
qed

lemma selectWorker_None_iff:
  "selectWorker pools n = None \<longleftrightarrow> (case pools n of None \<Rightarrow> True | Some p \<Rightarrow> WorkerEndpoints p = [])"
  by (auto simp: selectWorker_def WorkerCount_endpoints split: option.splits)

text \<open>The same pools up to counters and busy marks.\<close>

definition same_pools :: "(int \<rightharpoonup> WorkerPool) \<Rightarrow> (int \<rightharpoonup> WorkerPool) \<Rightarrow> bool" where
  "same_pools p q \<longleftrightarrow> (\<forall>n. map_option WorkerEndpoints (p n) = map_option WorkerEndpoints (q n))"

lemma same_pools_refl [simp]: "same_pools p p"
  by (simp add: same_pools_def)

lemma same_pools_upd:
  "same_pools p q \<Longrightarrow> p n = Some a \<Longrightarrow> WorkerEndpoints b = WorkerEndpoints a \<Longrightarrow> same_pools (p(n \<mapsto> b)) q"
  unfolding same_pools_def by (metis fun_upd_apply option.simps(9))

lemma same_pools_Some:
  "same_pools p q \<Longrightarrow> p n = Some a \<Longrightarrow> \<exists>b. q n = Some b \<and> WorkerEndpoints a = WorkerEndpoints b"
  unfolding same_pools_def by (metis map_option_eq_Some option.simps(9))

lemma same_pools_select:
  assumes "same_pools p q" shows "selectWorker p n = None \<longleftrightarrow> selectWorker q n = None"
proof -
  have "map_option WorkerEndpoints (p n) = map_option WorkerEndpoints (q n)"
    using assms by (simp add: same_pools_def)
  then show ?thesis by (cases "p n"; cases "q n") (simp_all add: selectWorker_None_iff)
qed

subsection \<open>Invariant of the loop\<close>

definition attempt_ok :: "MLQ \<Rightarrow> (int \<rightharpoonup> WorkerPool) \<Rightarrow> TaskAttempt \<Rightarrow> bool" where
  "attempt_ok m pools a \<longleftrightarrow>
     (\<exists>level pool. enabled_level m (ta_Level a) = Some level \<and> pools (ta_Level a) = Some pool
        \<and> ta_WorkerEndpoint a \<in> set (WorkerEndpoints pool))"

definition calls_of :: "TaskTelemetry \<Rightarrow> string list" where
  "calls_of t = map ta_WorkerEndpoint (tt_Attempts t)"

text \<open>What holds whenever the loop starts an iteration, from pools \<open>pools\<close> and world \<open>w\<close>.\<close>

definition exec_inv ::
    "MLQ \<Rightarrow> 'w execute_fn \<Rightarrow> (int \<rightharpoonup> WorkerPool) \<Rightarrow> 'w \<Rightarrow> 'w exec_state \<Rightarrow> bool" where
  "exec_inv m fn pools w s \<longleftrightarrow>
     same_pools (xs_pools s) pools
     \<and> enabled_level m (lv_Level (xs_level s)) = Some (xs_level s)
     \<and> (\<forall>a \<in> set (tt_Attempts (xs_tel s)). attempt_ok m pools a \<and> \<not> ta_Success a)
     \<and> xs_world s = fold (\<lambda>ep w. fst (fn ep w)) (calls_of (xs_tel s)) w"

definition exec_final ::
    "MLQ \<Rightarrow> 'w execute_fn \<Rightarrow> (int \<rightharpoonup> WorkerPool) \<Rightarrow> 'w \<Rightarrow> 'w exec_state \<Rightarrow> bool" where
  "exec_final m fn pools w s \<longleftrightarrow>
     same_pools (xs_pools s) pools
     \<and> (\<forall>a \<in> set (tt_Attempts (xs_tel s)). attempt_ok m pools a)
     \<and> (\<forall>a \<in> set (butlast (tt_Attempts (xs_tel s))). \<not> ta_Success a)
     \<and> xs_world s = fold (\<lambda>ep w. fst (fn ep w)) (calls_of (xs_tel s)) w
     \<and> (tt_FinalResult (xs_tel s) = ''success'' \<and> tt_Attempts (xs_tel s) \<noteq> []
          \<and> ta_Success (last (tt_Attempts (xs_tel s)))
          \<and> tt_FinalLevel (xs_tel s) = ta_Level (last (tt_Attempts (xs_tel s)))
        \<or> tt_FinalResult (xs_tel s) = ''exhausted''
          \<and> (\<forall>a \<in> set (tt_Attempts (xs_tel s)). \<not> ta_Success a) \<and> tt_Attempts (xs_tel s) \<noteq> []
        \<or> tt_FinalResult (xs_tel s) = ''infra_fail''
          \<and> (\<forall>a \<in> set (tt_Attempts (xs_tel s)). \<not> ta_Success a) \<and> enabled_level m 0 = None)"

lemma count_escalation_map:
  "as \<noteq> [] \<Longrightarrow> (\<And>a n. f (a\<lparr>ta_EscalationCount := n\<rparr>) = f a) \<Longrightarrow> map f (count_escalation as) = map f as"
  using list_update_id [of "map f as" "length as - 1"] by (simp add: count_escalation_def map_update)

lemma count_escalation_set:
  assumes "as \<noteq> []" and "\<And>a n. P (a\<lparr>ta_EscalationCount := n\<rparr>) = P a"
  shows "(\<forall>a \<in> set (count_escalation as). P a) = (\<forall>a \<in> set as. P a)"
  using count_escalation_map [of as P] assms by (metis (mono_tags, lifting) image_iff list.set_map)

lemma attempt_ok_count [simp]: "attempt_ok m p (a\<lparr>ta_EscalationCount := n\<rparr>) = attempt_ok m p a"
  by (simp add: attempt_ok_def)

text \<open>One attempt: one more call on the world and one more entry.\<close>

lemma run_attempt_exact:
  assumes "exec_inv m fn pools w s" and sel: "selectWorker (xs_pools s) (lv_Level (xs_level s)) = Some (pool, worker)"
    and run: "run_attempt clk fn pool worker s = (s1, ok)"
  obtains a where "tt_Attempts (xs_tel s1) = tt_Attempts (xs_tel s) @ [a]" and "ta_Success a = ok"
    and "attempt_ok m pools a" and "ta_Level a = lv_Level (xs_level s)"
    and "same_pools (xs_pools s1) pools" and "xs_level s1 = xs_level s"
    and "xs_world s1 = fold (\<lambda>ep w. fst (fn ep w)) (calls_of (xs_tel s1)) w"
    and "xs_attemptID s1 = xs_attemptID s" and "xs_maxRetries s1 = xs_maxRetries s"
    and "ok = (snd (snd (fn (pw_Endpoint worker) (xs_world s))) = None)"
proof -
  obtain p where p: "xs_pools s (lv_Level (xs_level s)) = Some p" "WorkerEndpoints pool = WorkerEndpoints p"
    "pw_Endpoint worker \<in> set (WorkerEndpoints p)"
    using selectWorkerD [OF sel] by blast
  obtain w1 art err where f: "fn (pw_Endpoint worker) (xs_world s) = (w1, art, err)" by (cases "fn (pw_Endpoint worker) (xs_world s)")
  have same: "same_pools (xs_pools s) pools" using assms(1) by (simp add: exec_inv_def)
  obtain q where q: "pools (lv_Level (xs_level s)) = Some q" "WorkerEndpoints p = WorkerEndpoints q"
    using same_pools_Some [OF same p(1)] by blast
  define a where "a = last (tt_Attempts (xs_tel s1))"
  have s1: "s1 = s\<lparr>xs_pools := (xs_pools s)(lv_Level (xs_level s) \<mapsto> MarkFree (pw_ID worker) (MarkBusy (pw_ID worker) pool)),
            xs_world := w1,
            xs_tel := (xs_tel s)\<lparr>tt_Attempts := tt_Attempts (xs_tel s) @ [a]\<rparr>\<rparr>" "ok = (err = None)"
    and a: "ta_Success a = (err = None)" "ta_Level a = lv_Level (xs_level s)" "ta_WorkerEndpoint a = pw_Endpoint worker"
    using run by (auto simp: run_attempt_def f Let_def a_def)
  show thesis
  proof (rule that [of a])
    show "attempt_ok m pools a"
      using assms(1) p q a by (auto simp: attempt_ok_def exec_inv_def)
    show "same_pools (xs_pools s1) pools"
      using same_pools_upd [OF same p(1)] p(2) by (simp add: s1)
    show "xs_world s1 = fold (\<lambda>ep w. fst (fn ep w)) (calls_of (xs_tel s1)) w"
    proof -
      have "xs_world s = fold (\<lambda>ep w. fst (fn ep w)) (calls_of (xs_tel s)) w"
        using assms(1) by (simp add: exec_inv_def)
      then have "fn (pw_Endpoint worker) (fold (\<lambda>ep w. fst (fn ep w)) (calls_of (xs_tel s)) w) = (w1, art, err)"
        using f by simp
      then show ?thesis by (simp add: s1(1) calls_of_def a(3))
    qed
  qed (simp_all add: s1 a f)
qed

lemma after_failure_inv:
  assumes ok: "mlq_ok m" and inv: "exec_inv m fn pools w s" and ne: "tt_Attempts (xs_tel s) \<noteq> []"
  shows "case after_failure m cls s of Inl s1 \<Rightarrow> exec_final m fn pools w s1 | Inr s1 \<Rightarrow> exec_inv m fn pools w s1"
proof -
  have att: "\<forall>a \<in> set (tt_Attempts (xs_tel s)). attempt_ok m pools a \<and> \<not> ta_Success a"
    using inv by (simp add: exec_inv_def)
  have fin: "exec_final m fn pools w (s\<lparr>xs_tel := (xs_tel s)\<lparr>tt_FinalLevel := l,
               tt_FinalResult := ''exhausted'', tt_TotalRetries := n\<rparr>\<rparr>)" for l n
    using inv ne by (simp add: exec_inv_def exec_final_def calls_of_def in_set_butlastD)
  have up: "exec_inv m fn pools w (s\<lparr>xs_tel := (xs_tel s)\<lparr>tt_Escalated := True,
                                 tt_Attempts := count_escalation (tt_Attempts (xs_tel s))\<rparr>,
                       xs_level := l, xs_maxRetries := k, xs_attemptID := 0\<rparr>)"
    if "findEscalationLevel m f cls = Some l" for f l k
  proof -
    have "\<forall>a \<in> set (count_escalation (tt_Attempts (xs_tel s))). attempt_ok m pools a \<and> \<not> ta_Success a"
      using att by (subst count_escalation_set [OF ne, of "\<lambda>a. attempt_ok m pools a \<and> \<not> ta_Success a"]) simp_all
    then show ?thesis
      using inv findEscalationLevelD(1) [OF ok that] count_escalation_map [OF ne, of ta_WorkerEndpoint]
      by (simp add: exec_inv_def calls_of_def)
  qed
  have down: "exec_inv m fn pools w (s\<lparr>xs_tel := (xs_tel s)\<lparr>tt_FallbackUsed := True\<rparr>,
                xs_level := l, xs_maxRetries := k, xs_attemptID := 0\<rparr>)"
    if "enabled_level m 0 = Some l" for l k
    using inv enabled_levelD [OF ok that] that by (simp add: exec_inv_def calls_of_def)
  show ?thesis
    unfolding after_failure_def using inv fin up down by (simp split: option.split)
qed

lemma no_worker_inv:
  assumes ok: "mlq_ok m" and inv: "exec_inv m fn pools w s"
  shows "case no_worker m s of Inl s1 \<Rightarrow> exec_final m fn pools w s1 | Inr s1 \<Rightarrow> exec_inv m fn pools w s1"
proof (cases "enabled_level m 0")
  case None
  then show ?thesis
    using inv by (simp add: no_worker_def exec_inv_def exec_final_def calls_of_def in_set_butlastD)
next
  case (Some l)
  then show ?thesis
    using inv enabled_levelD [OF ok Some] Some by (simp add: no_worker_def exec_inv_def calls_of_def)
qed

lemma exec_step_inv:
  assumes ok: "mlq_ok m" and inv: "exec_inv m fn pools w s"
  shows "case exec_step m cls clk fn s of Inl s1 \<Rightarrow> exec_final m fn pools w s1 | Inr s1 \<Rightarrow> exec_inv m fn pools w s1"
proof -
  define s' where "s' = s\<lparr>xs_attemptID := xs_attemptID s + 1\<rparr>"
  have inv': "exec_inv m fn pools w s'" using inv by (simp add: exec_inv_def s'_def)
  show ?thesis
  proof (cases "selectWorker (xs_pools s') (lv_Level (xs_level s'))")
    case None
    then show ?thesis
      using no_worker_inv [OF ok inv'] by (simp add: exec_step_def Let_def s'_def [symmetric])
  next
    case (Some pw)
    obtain pool worker where pw: "pw = (pool, worker)" by (cases pw)
    obtain s1 b where run: "run_attempt clk fn pool worker s' = (s1, b)" by (cases "run_attempt clk fn pool worker s'")
    obtain a where a: "tt_Attempts (xs_tel s1) = tt_Attempts (xs_tel s') @ [a]" "ta_Success a = b"
      "attempt_ok m pools a" "ta_Level a = lv_Level (xs_level s')" "same_pools (xs_pools s1) pools"
      "xs_level s1 = xs_level s'" "xs_world s1 = fold (\<lambda>ep w. fst (fn ep w)) (calls_of (xs_tel s1)) w"
      by (rule run_attempt_exact [OF inv' Some [unfolded pw] run]) (rule that; assumption)
    have att: "\<forall>a \<in> set (tt_Attempts (xs_tel s')). attempt_ok m pools a \<and> \<not> ta_Success a"
      and lev: "enabled_level m (lv_Level (xs_level s')) = Some (xs_level s')"
      using inv' by (simp_all add: exec_inv_def)
    have "exec_inv m fn pools w s1" if "\<not> b"
      using a att lev that by (simp add: exec_inv_def)
    then have "case after_failure m cls s1 of Inl s2 \<Rightarrow> exec_final m fn pools w s2 | Inr s2 \<Rightarrow> exec_inv m fn pools w s2"
      if "\<not> b"
      using that a(1) by (intro after_failure_inv [OF ok]) simp_all
    moreover have "exec_final m fn pools w (s1\<lparr>xs_tel := (xs_tel s1)\<lparr>tt_FinalLevel := lv_Level (xs_level s1),
                                  tt_FinalResult := ''success'', tt_TotalRetries := n\<rparr>\<rparr>)" if b for n
      using a att that by (simp add: exec_final_def calls_of_def)
    ultimately show ?thesis
      using Some by (simp add: exec_step_def Let_def s'_def [symmetric] pw run)
  qed
qed

text \<open>The rule for the loop: an invariant of the steps, and what holds when a step ends it.\<close>

lemma exec_loop_rule:
  assumes "exec_loop m cls clk fn s = Some s'" and "I s"
    and step: "\<And>s. I s \<Longrightarrow> case exec_step m cls clk fn s of Inl s1 \<Rightarrow> Q s1 | Inr s1 \<Rightarrow> I s1"
  shows "Q s'"
proof -
  have "m = m \<and> cls = cls \<and> clk = clk \<and> fn = fn \<and> I s \<longrightarrow> Q s'"
  proof (rule exec_loop.raw_induct [where P = "\<lambda>m' cls' clk' fn' s y. m' = m \<and> cls' = cls \<and> clk' = clk \<and> fn' = fn \<and> I s \<longrightarrow> Q y",
        OF _ assms(1)])
    fix f m' cls' clk' fn' s y
    assume IH: "\<And>m' cls' clk' fn' s y. f m' cls' clk' fn' s = Some y \<Longrightarrow>
        m' = m \<and> cls' = cls \<and> clk' = clk \<and> fn' = fn \<and> I s \<longrightarrow> Q y"
      and eq: "(case exec_step m' cls' clk' fn' s of Inl s1 \<Rightarrow> Some s1 | Inr s1 \<Rightarrow> f m' cls' clk' fn' s1) = Some y"
    show "m' = m \<and> cls' = cls \<and> clk' = clk \<and> fn' = fn \<and> I s \<longrightarrow> Q y"
    proof
      assume h: "m' = m \<and> cls' = cls \<and> clk' = clk \<and> fn' = fn \<and> I s"
      then show "Q y"
        using eq step [of s] IH by (cases "exec_step m cls clk fn s") auto
    qed
  qed
  with assms(2) show ?thesis by simp
qed

lemma exec_loop_final:
  assumes "mlq_ok m" and "exec_inv m fn pools w s" and "exec_loop m cls clk fn s = Some s'"
  shows "exec_final m fn pools w s'"
  by (rule exec_loop_rule [where I = "exec_inv m fn pools w", OF assms(3,2)]) (rule exec_step_inv [OF assms(1)])

text \<open>A set of states that no step leaves and where no step ends: the loop never returns.\<close>

lemma exec_loop_diverges:
  assumes "I s" and "\<And>s. I s \<Longrightarrow> \<exists>s1. exec_step m cls clk fn s = Inr s1 \<and> I s1"
  shows "exec_loop m cls clk fn s = None"
proof (cases "exec_loop m cls clk fn s")
  case (Some s')
  have "case exec_step m cls clk fn s of Inl s1 \<Rightarrow> False | Inr s1 \<Rightarrow> I s1" if "I s" for s
    using assms(2) [OF that] by auto
  then have False using exec_loop_rule [where I = I and Q = "\<lambda>_. False", OF Some assms(1)] by blast
  then show ?thesis ..
qed simp

text \<open>A measure that every step that goes on decreases, on the states of an invariant: it returns.\<close>

lemma exec_loop_returns:
  assumes "wf r" and "I s"
    and "\<And>s s1. I s \<Longrightarrow> exec_step m cls clk fn s = Inr s1 \<Longrightarrow> I s1 \<and> (s1, s) \<in> r"
  shows "\<exists>s'. exec_loop m cls clk fn s = Some s'"
  using assms(1,2)
proof (induction s rule: wf_induct_rule)
  case (less s)
  show ?case
  proof (cases "exec_step m cls clk fn s")
    case (Inl s1)
    then show ?thesis by (simp add: exec_loop.simps [of m cls clk fn s])
  next
    case (Inr s1)
    with assms(3) less show ?thesis by (simp add: exec_loop.simps [of m cls clk fn s])
  qed
qed

lemma start_inv:
  assumes "mlq_ok m" and "SelectLevel m taskID jiraKey cls = Inr level"
  shows "exec_inv m fn pools w (start_state m pools taskID cls jiraKey w level)"
  using SelectLevel_enabled [OF assms]
  by (simp add: exec_inv_def start_state_def new_telemetry_def calls_of_def)

text \<open>
  C21. Telemetry of an execution: when it returns, the recorded attempts are exactly the calls that were
  made, in their order; each went to an enabled level and to an endpoint of its pool; only the last can
  have succeeded, and it did iff the final result is success; otherwise the result is exhausted
  after at least one attempt, or infra_fail, which needs level 0 to be missing or disabled. The pools keep
  their endpoints, and the sink gets the telemetry unless no level could be selected.
\<close>

theorem execute_telemetry:
  "case ExecuteWithRetry clk fn taskID cls jiraKey
          \<lparr>te_mlq = NewMLQ config, te_workerPools = pools\<rparr> w of
     None \<Rightarrow> True
   | Some (te', w', t, sink) \<Rightarrow>
       te_mlq te' = NewMLQ config \<and> same_pools (te_workerPools te') pools
       \<and> w' = fold (\<lambda>ep w. fst (fn ep w)) (calls_of t) w
       \<and> set (tt_Attempts t) \<subseteq> {a. attempt_ok (NewMLQ config) pools a}
       \<and> set (butlast (tt_Attempts t)) \<subseteq> {a. \<not> ta_Success a}
       \<and> (if tt_FinalResult t = ''success''
          then tt_Attempts t \<noteq> [] \<and> ta_Success (last (tt_Attempts t))
               \<and> tt_FinalLevel t = ta_Level (last (tt_Attempts t))
          else set (tt_Attempts t) \<subseteq> {a. \<not> ta_Success a}
               \<and> (tt_FinalResult t = ''exhausted'' \<and> tt_Attempts t \<noteq> []
                  \<or> tt_FinalResult t = ''infra_fail'' \<and> enabled_level (NewMLQ config) 0 = None))
       \<and> sink = (case SelectLevel (NewMLQ config) taskID jiraKey cls of Inl e \<Rightarrow> [] | Inr l \<Rightarrow> [t])"
proof (cases "SelectLevel (NewMLQ config) taskID jiraKey cls")
  case (Inl e)
  then have "enabled_level (NewMLQ config) 0 = None"
    by (auto simp: SelectLevel_def split: option.splits)
  then show ?thesis using Inl by (simp add: ExecuteWithRetry_def new_telemetry_def calls_of_def)
next
  case (Inr level)
  let ?s = "start_state (NewMLQ config) pools taskID cls jiraKey w level"
  show ?thesis
  proof (cases "exec_loop (NewMLQ config) cls clk fn ?s")
    case None
    then show ?thesis using Inr by (simp add: ExecuteWithRetry_def)
  next
    case (Some s')
    have "exec_final (NewMLQ config) fn pools w s'"
      by (rule exec_loop_final [OF NewMLQ_ok start_inv [OF NewMLQ_ok Inr] Some])
    then show ?thesis using Inr Some by (auto simp: ExecuteWithRetry_def exec_final_def)
  qed
qed

subsection \<open>Termination\<close>

definition upward_rules :: "MLQConfig \<Rightarrow> bool" where
  "upward_rules config \<longleftrightarrow>
     (\<forall>rule \<in> set (mc_EscalationRules config).
        er_Trigger rule = ''retry_count'' \<longrightarrow> 0 < er_FromLevel rule \<and> er_FromLevel rule < er_ToLevel rule)"

definition level_bound :: "MLQ \<Rightarrow> int" where
  "level_bound m = Max (insert 0 (er_ToLevel ` set (mc_EscalationRules (mlq_config m))))"

definition loop_order :: "MLQ \<Rightarrow> ('w exec_state \<times> 'w exec_state) set" where
  "loop_order m =
     measures [\<lambda>s. if lv_Level (xs_level s) = 0 then 0 else 1,
               \<lambda>s. nat (level_bound m - lv_Level (xs_level s)),
               \<lambda>s. nat (xs_maxRetries s - xs_attemptID s)]"

lemma escalation_upward:
  assumes "mlq_ok m" and "upward_rules (mlq_config m)" and "findEscalationLevel m f cls = Some l"
  shows "0 < f" and "f < lv_Level l" and "lv_Level l \<le> level_bound m"
proof -
  obtain rule where "rule \<in> set (mc_EscalationRules (mlq_config m))" "retry_rule f rule" "er_ToLevel rule = lv_Level l"
    using findEscalationLevelD(2) [OF assms(1,3)] by blast
  then show "0 < f" and "f < lv_Level l" and "lv_Level l \<le> level_bound m"
    using assms(2) by (auto simp: upward_rules_def retry_rule_def level_bound_def intro!: Max_ge intro: image_eqI [OF sym])
qed

lemma after_failure_decreases:
  assumes "mlq_ok m" and "upward_rules (mlq_config m)" and "after_failure m cls s1 = Inr s2"
    and "lv_Level (xs_level s1) = lv_Level (xs_level s)" and "xs_maxRetries s1 = xs_maxRetries s"
    and "xs_attemptID s1 = xs_attemptID s + 1"
  shows "(s2, s) \<in> loop_order m"
proof (cases "xs_attemptID s1 \<ge> xs_maxRetries s1")
  case True
  show ?thesis
  proof (cases "findEscalationLevel m (lv_Level (xs_level s1)) cls")
    case None
    then obtain fb where "enabled_level m 0 = Some fb" "lv_Level (xs_level s1) \<noteq> 0" "xs_level s2 = fb"
      using assms(3) True by (auto simp: after_failure_def split: option.splits if_splits)
    then show ?thesis
      using enabled_levelD [OF assms(1)] assms(4) by (auto simp: loop_order_def)
  next
    case (Some l)
    then have "xs_level s2 = l" using assms(3) True by (auto simp: after_failure_def)
    then show ?thesis
      using escalation_upward [OF assms(1,2) Some] assms(4) by (simp add: loop_order_def)
  qed
next
  case False
  then have "s2 = s1" using assms(3) by (simp add: after_failure_def)
  then show ?thesis using False assms(4-6) by (simp add: loop_order_def)
qed

lemma exec_step_decreases:
  assumes ok: "mlq_ok m" and up: "upward_rules (mlq_config m)" and inv: "exec_inv m fn pools w s"
    and fb: "enabled_level m 0 = None \<or> selectWorker pools 0 \<noteq> None"
    and step: "exec_step m cls clk fn s = Inr s2"
  shows "(s2, s) \<in> loop_order m"
proof -
  define s' where "s' = s\<lparr>xs_attemptID := xs_attemptID s + 1\<rparr>"
  have inv': "exec_inv m fn pools w s'" using inv by (simp add: exec_inv_def s'_def)
  show ?thesis
  proof (cases "selectWorker (xs_pools s') (lv_Level (xs_level s'))")
    case None
    then have "no_worker m s' = Inr s2" using step by (simp add: exec_step_def Let_def s'_def)
    then obtain l where l: "enabled_level m 0 = Some l" "xs_level s2 = l"
      by (auto simp: no_worker_def split: option.splits)
    have same: "same_pools (xs_pools s') pools" using inv' by (simp add: exec_inv_def)
    have "lv_Level (xs_level s') \<noteq> 0"
      using None fb l same_pools_select [OF same, of 0] by auto
    then show ?thesis using l enabled_levelD [OF ok l(1)] by (simp add: loop_order_def s'_def)
  next
    case (Some pw)
    obtain pool worker where pw: "pw = (pool, worker)" by (cases pw)
    obtain s1 b where run: "run_attempt clk fn pool worker s' = (s1, b)" by (cases "run_attempt clk fn pool worker s'")
    have s1: "xs_level s1 = xs_level s'" "xs_attemptID s1 = xs_attemptID s'" "xs_maxRetries s1 = xs_maxRetries s'"
      by (rule run_attempt_exact [OF inv' Some [unfolded pw] run]; assumption)+
    have "after_failure m cls s1 = Inr s2"
      using step Some by (auto simp: exec_step_def Let_def s'_def [symmetric] pw run split: if_splits)
    then show ?thesis
      using s1 by (intro after_failure_decreases [OF ok up]) (simp_all add: s'_def)
  qed
qed

lemma exec_inv_step: "mlq_ok m \<Longrightarrow> exec_inv m fn pools w s \<Longrightarrow> exec_step m cls clk fn s = Inr s1 \<Longrightarrow> exec_inv m fn pools w s1"
  using exec_step_inv [of m fn pools w s cls clk] by simp

lemma execution_returns:
  assumes "upward_rules config"
    and "enabled_level (NewMLQ config) 0 = None \<or> selectWorker pools 0 \<noteq> None"
  shows "ExecuteWithRetry clk fn taskID cls jiraKey \<lparr>te_mlq = NewMLQ config, te_workerPools = pools\<rparr> w \<noteq> None"
proof (cases "SelectLevel (NewMLQ config) taskID jiraKey cls")
  case (Inl e)
  then show ?thesis by (simp add: ExecuteWithRetry_def)
next
  case (Inr level)
  let ?m = "NewMLQ config" and ?s = "start_state (NewMLQ config) pools taskID cls jiraKey w level"
  have "\<exists>s'. exec_loop ?m cls clk fn ?s = Some s'"
  proof (rule exec_loop_returns [where I = "exec_inv ?m fn pools w" and r = "loop_order ?m"])
    fix s s1
    assume s: "exec_inv ?m fn pools w s" "exec_step ?m cls clk fn s = Inr s1"
    show "exec_inv ?m fn pools w s1 \<and> (s1, s) \<in> loop_order ?m"
      using exec_inv_step [OF NewMLQ_ok s] exec_step_decreases [OF NewMLQ_ok _ s(1) assms(2) s(2)] assms(1) by simp
  qed (simp_all add: loop_order_def start_inv [OF NewMLQ_ok Inr])
  then show ?thesis using Inr by (auto simp: ExecuteWithRetry_def)
qed

text \<open>
  C22. An execution returns, whatever the calls answer, when every retry rule leads from a positive level
  to a higher one and level 0 is disabled or has a worker.
\<close>

theorem execute_returns:
  assumes "upward_rules config"
    and "enabled_level (NewMLQ config) 0 = None \<or> selectWorker pools 0 \<noteq> None"
  shows "ExecuteWithRetry clk fn taskID cls jiraKey \<lparr>te_mlq = NewMLQ config, te_workerPools = pools\<rparr> w \<noteq> None"
  by (rule execution_returns [OF assms])

lemma EnableMLQ_workers:
  "enabled_level (NewMLQ config) 0 = None \<or> selectWorker (te_workerPools (EnableMLQ r config)) 0 \<noteq> None"
proof (cases "enabled_level (NewMLQ config) 0")
  case (Some l)
  let ?m = "NewMLQ config"
  let ?step = "\<lambda>n pools. case GetLevel ?m n of None \<Rightarrow> pools
                 | Some level \<Rightarrow> pools(n \<mapsto> NewWorkerPool level [bc_APIEndpoint (lv_Backend level)])"
  have built: "n \<in> set ns \<Longrightarrow> GetLevel ?m n = Some level \<Longrightarrow>
      fold ?step ns p n = Some (NewWorkerPool level [bc_APIEndpoint (lv_Backend level)])" for n ns level p
    by (induction ns rule: rev_induct) (auto split: option.split)
  have l: "GetLevel ?m 0 = Some l" "lv_Enabled l"
    using Some by (auto simp: enabled_level_def split: option.splits if_splits)
  then have "(0, l) \<in> set (mlq_levels ?m)" by (simp add: GetLevel_def map_of_SomeD)
  then have "0 \<in> set (ListLevels r ?m)" using l(2) by (force simp: ListLevels_def)
  then have "te_workerPools (EnableMLQ r config) 0 = Some (NewWorkerPool l [bc_APIEndpoint (lv_Backend l)])"
    unfolding EnableMLQ_def Let_def using built [OF _ l(1)] by simp
  then show ?thesis by (simp add: selectWorker_def WorkerCount_def NewWorkerPool_def)
qed simp

definition ex_level :: "int \<Rightarrow> bool \<Rightarrow> Level" where
  "ex_level n b =
     \<lparr>lv_Level = n, lv_Name = ''level'', lv_DisplayName = '''', lv_Enabled = b,
      lv_Backend = \<lparr>bc_Provider = ''llama.cpp'', bc_Name = ''m'', bc_ModelFile = '''',
                    bc_APIEndpoint = ''http://localhost'', bc_TimeoutSeconds = 60\<rparr>, lv_TaskClass = []\<rparr>"

definition ex_rule :: "int \<Rightarrow> int \<Rightarrow> EscalationRule" where
  "ex_rule a b =
     \<lparr>er_Trigger = ''retry_count'', er_FromLevel = a, er_ToLevel = b, er_MaxRetries = 2,
      er_TimeoutThresholdSec = 2400, er_RequireManualApproval = False, er_AllowedForTaskClass = []\<rparr>"

definition ex_mlq :: "(int \<times> int) list \<Rightarrow> MLQConfig" where
  "ex_mlq rules =
     \<lparr>mc_MLQLevels = [ex_level 1 True, ex_level 2 True, ex_level 0 False],
      mc_EscalationRules = map (\<lambda>(a, b). ex_rule a b) rules,
      mc_SelectionPolicy = \<lparr>sp_DefaultLevelMapping = [''bugfix'' \<mapsto> 1], sp_JiraKeyOverrides = Map.empty\<rparr>\<rparr>"

theorem execute_returns_witness:
  "ExecuteWithRetry (\<lambda>_. 0) (\<lambda>ep w. (w + 1, '''', Some ''down'')) ''t'' ''bugfix'' ''''
     \<lparr>te_mlq = NewMLQ (ex_mlq [(1, 2)]), te_workerPools = te_workerPools (EnableMLQ (\<lambda>_. 0) (ex_mlq [(1, 2)]))\<rparr>
     (0::nat) \<noteq> None"
  by (rule execute_returns [OF _ EnableMLQ_workers]) (simp add: upward_rules_def ex_mlq_def ex_rule_def)

subsection \<open>Divergence\<close>

lemma failing_step:
  assumes ok: "mlq_ok m" and inv: "exec_inv m fn pools w s"
    and sel: "selectWorker (xs_pools s) (lv_Level (xs_level s)) \<noteq> None"
    and esc: "findEscalationLevel m (lv_Level (xs_level s)) cls = Some l"
    and fails: "\<And>ep w. snd (snd (fn ep w)) \<noteq> None"
  obtains s2 where "exec_step m cls clk fn s = Inr s2" and "xs_level s2 \<in> {xs_level s, l}"
proof -
  define s' where "s' = s\<lparr>xs_attemptID := xs_attemptID s + 1\<rparr>"
  have inv': "exec_inv m fn pools w s'" using inv by (simp add: exec_inv_def s'_def)
  obtain pool worker where pw: "selectWorker (xs_pools s') (lv_Level (xs_level s')) = Some (pool, worker)"
    using sel by (auto simp: s'_def)
  obtain s1 b where run: "run_attempt clk fn pool worker s' = (s1, b)" by (cases "run_attempt clk fn pool worker s'")
  have s1: "xs_level s1 = xs_level s'" "b = (snd (snd (fn (pw_Endpoint worker) (xs_world s'))) = None)"
    by (rule run_attempt_exact [OF inv' pw run]; assumption)+
  obtain s2 where "after_failure m cls s1 = Inr s2" "xs_level s2 \<in> {xs_level s, l}"
    using esc s1(1) by (cases "xs_attemptID s1 \<ge> xs_maxRetries s1") (auto simp: after_failure_def s'_def)
  moreover have "exec_step m cls clk fn s = after_failure m cls s1"
    using s1(2) fails by (simp add: exec_step_def Let_def s'_def [symmetric] pw run)
  ultimately show thesis using that by simp
qed

text \<open>
  Two ways in which an execution never returns: the selected level has no worker and level 0 is
  enabled but has none either; or the calls keep failing and from the selected level the rules escalate
  only within levels from which they escalate again.
\<close>

theorem execute_diverges:
  fixes fn :: "'a execute_fn"
  assumes "SelectLevel (NewMLQ config) taskID jiraKey cls = Inr l"
    and "selectWorker pools (lv_Level l) = None \<and> selectWorker pools 0 = None
           \<and> enabled_level (NewMLQ config) 0 \<noteq> None
         \<or> lv_Level l \<in> S \<and> (\<forall>ep w. snd (snd (fn ep w)) \<noteq> None)
           \<and> (\<forall>n \<in> S. selectWorker pools n \<noteq> None
                \<and> (\<exists>l'. findEscalationLevel (NewMLQ config) n cls = Some l' \<and> lv_Level l' \<in> S))"
  shows "ExecuteWithRetry clk fn taskID cls jiraKey \<lparr>te_mlq = NewMLQ config, te_workerPools = pools\<rparr> w = None"
proof -
  let ?m = "NewMLQ config" and ?s = "start_state (NewMLQ config) pools taskID cls jiraKey w l"
  have start: "exec_inv ?m fn pools w ?s" by (rule start_inv [OF NewMLQ_ok assms(1)])
  have "exec_loop ?m cls clk fn ?s = None"
    using assms(2)
  proof
    assume a: "selectWorker pools (lv_Level l) = None \<and> selectWorker pools 0 = None \<and> enabled_level ?m 0 \<noteq> None"
    show ?thesis
    proof (rule exec_loop_diverges [where I = "\<lambda>s. xs_pools s = pools \<and> selectWorker pools (lv_Level (xs_level s)) = None"])
      fix s :: "'a exec_state" assume I: "xs_pools s = pools \<and> selectWorker pools (lv_Level (xs_level s)) = None"
      obtain f where f: "enabled_level ?m 0 = Some f" using a by blast
      then have "lv_Level f = 0" using enabled_levelD [OF NewMLQ_ok] by blast
      then show "\<exists>s1. exec_step ?m cls clk fn s = Inr s1
                   \<and> (xs_pools s1 = pools \<and> selectWorker pools (lv_Level (xs_level s1)) = None)"
        using I a f by (simp add: exec_step_def Let_def no_worker_def)
    qed (use a in \<open>simp add: start_state_def\<close>)
  next
    assume b: "lv_Level l \<in> S \<and> (\<forall>ep w. snd (snd (fn ep w)) \<noteq> None)
           \<and> (\<forall>n \<in> S. selectWorker pools n \<noteq> None
                \<and> (\<exists>l'. findEscalationLevel ?m n cls = Some l' \<and> lv_Level l' \<in> S))"
    show ?thesis
    proof (rule exec_loop_diverges [where I = "\<lambda>s. exec_inv ?m fn pools w s \<and> lv_Level (xs_level s) \<in> S"])
      fix s assume I: "exec_inv ?m fn pools w s \<and> lv_Level (xs_level s) \<in> S"
      then obtain l' where l': "findEscalationLevel ?m (lv_Level (xs_level s)) cls = Some l'" "lv_Level l' \<in> S"
        using b by blast
      have "same_pools (xs_pools s) pools" using I by (simp add: exec_inv_def)
      then have "selectWorker (xs_pools s) (lv_Level (xs_level s)) \<noteq> None"
        using b I same_pools_select by blast
      then obtain s2 where "exec_step ?m cls clk fn s = Inr s2" "xs_level s2 \<in> {xs_level s, l'}"
        using failing_step [OF NewMLQ_ok conjunct1 [OF I] _ l'(1)] b by metis
      then show "\<exists>s1. exec_step ?m cls clk fn s = Inr s1 \<and> (exec_inv ?m fn pools w s1 \<and> lv_Level (xs_level s1) \<in> S)"
        using I l' exec_inv_step [OF NewMLQ_ok] by auto
    qed (use b start in \<open>simp add: start_state_def\<close>)
  qed
  then show ?thesis using assms(1) by (simp add: ExecuteWithRetry_def)
qed

theorem execute_diverges_witness:
  "ExecuteWithRetry (\<lambda>_. 0) (\<lambda>ep w. (w + 1, '''', Some ''down'')) ''t'' ''bugfix'' ''''
     \<lparr>te_mlq = NewMLQ (ex_mlq [(1, 2), (2, 1)]),
      te_workerPools = [1 \<mapsto> NewWorkerPool (ex_level 1 True) [''a''], 2 \<mapsto> NewWorkerPool (ex_level 2 True) [''b'']]\<rparr>
     (0::nat) = None"
  by (rule execute_diverges [where l = "ex_level 1 True" and S = "{1, 2}"])
    (auto simp: SelectLevel_def mapped_level_def enabled_level_def GetLevel_def NewMLQ_def ex_mlq_def
      ex_level_def ex_rule_def selectWorker_def WorkerCount_def NewWorkerPool_def findEscalationLevel_def
      retry_rule_def)

end
