(* ===== verification/Factory_Types.thy ===== *)
theory Factory_Types
  imports Planner "HOL-Library.Word"
begin

text \<open>
  The data of the factory (\<open>internal/factory/types.go\<close>) and its structured errors
  (\<open>internal/factory/errors.go\<close>). The task specification is in theory \<open>Planner\<close>.

  A Go \<open>error\<close> is \<open>EFactory\<close> with the structured error or \<open>EText\<close> with its text; the wrapped cause is
  kept as its text. A \<open>*time.Time\<close> is an option. Step and execution statuses are the strings of the
  source. \<open>time.Duration\<close> values are 64-bit: \<open>int64\<close> is the value an overflowing product wraps to.
\<close>

definition int64 :: "int \<Rightarrow> int" where
  "int64 x = sint (word_of_int x :: 64 word)"

lemma int64_small: "- (2 ^ 63) \<le> x \<Longrightarrow> x < 2 ^ 63 \<Longrightarrow> int64 x = x"
  unfolding int64_def by (simp add: signed_of_int signed_take_bit_int_eq_self)

text \<open>A text with apostrophes is written as the list of the pieces between them.\<close>

fun sq :: "string list \<Rightarrow> string" where
  "sq [] = []"
| "sq [p] = p"
| "sq (p # q # ps) = p @ CHR 0x27 # sq (q # ps)"

fun join_with :: "string \<Rightarrow> string list \<Rightarrow> string" where
  "join_with sep [] = []"
| "join_with sep [x] = x"
| "join_with sep (x # y # xs) = x @ sep @ join_with sep (y # xs)"

subsection \<open>Errors\<close>

abbreviation ErrStepExecutionFailed :: string where "ErrStepExecutionFailed \<equiv> ''STEP_EXECUTION_FAILED''"
abbreviation ErrStepTimeout :: string where "ErrStepTimeout \<equiv> ''STEP_TIMEOUT''"
abbreviation ErrStepMaxRetriesExceeded :: string where
  "ErrStepMaxRetriesExceeded \<equiv> ''STEP_MAX_RETRIES_EXCEEDED''"
abbreviation ErrWorkspaceAllocation :: string where "ErrWorkspaceAllocation \<equiv> ''WORKSPACE_ALLOCATION_FAILED''"
abbreviation ErrWorkspaceLock :: string where "ErrWorkspaceLock \<equiv> ''WORKSPACE_LOCK_FAILED''"
abbreviation ErrInvalidInput :: string where "ErrInvalidInput \<equiv> ''INVALID_INPUT''"
abbreviation ErrContextCanceled :: string where "ErrContextCanceled \<equiv> ''CONTEXT_CANCELED''"
abbreviation ErrInternal :: string where "ErrInternal \<equiv> ''INTERNAL_ERROR''"

record FactoryError =
  fe_Code :: string
  fe_Message :: string
  fe_Details :: string
  fe_StepID :: string
  fe_TaskID :: string
  fe_ExitCode :: int
  fe_Cause :: "string option"

datatype go_error = EText string | EFactory FactoryError

definition FactoryError_Error :: "FactoryError \<Rightarrow> string" where
  "FactoryError_Error e =
     ''['' @ fe_Code e @ ''] '' @ fe_Message e
     @ (if fe_Details e \<noteq> [] then '': '' @ fe_Details e else [])
     @ (if fe_StepID e \<noteq> [] then '' (step: '' @ fe_StepID e @ '')'' else [])
     @ (if fe_TaskID e \<noteq> [] then '' (task: '' @ fe_TaskID e @ '')'' else [])
     @ (if fe_ExitCode e \<noteq> 0 then '' (exit code: '' @ itoa (fe_ExitCode e) @ '')'' else [])
     @ (case fe_Cause e of Some c \<Rightarrow> '' (cause: '' @ c @ '')'' | None \<Rightarrow> [])"

fun error_text :: "go_error \<Rightarrow> string" where
  "error_text (EText s) = s"
| "error_text (EFactory e) = FactoryError_Error e"

definition NewFactoryError :: "string \<Rightarrow> string \<Rightarrow> FactoryError" where
  "NewFactoryError code message =
     \<lparr>fe_Code = code, fe_Message = message, fe_Details = [], fe_StepID = [], fe_TaskID = [],
      fe_ExitCode = 0, fe_Cause = None\<rparr>"

definition WithDetails :: "string \<Rightarrow> FactoryError \<Rightarrow> FactoryError" where
  "WithDetails details e = e\<lparr>fe_Details := details\<rparr>"

definition WithStepID :: "string \<Rightarrow> FactoryError \<Rightarrow> FactoryError" where
  "WithStepID stepID e = e\<lparr>fe_StepID := stepID\<rparr>"

definition WithTaskID :: "string \<Rightarrow> FactoryError \<Rightarrow> FactoryError" where
  "WithTaskID taskID e = e\<lparr>fe_TaskID := taskID\<rparr>"

definition WithExitCode :: "int \<Rightarrow> FactoryError \<Rightarrow> FactoryError" where
  "WithExitCode exitCode e = e\<lparr>fe_ExitCode := exitCode\<rparr>"

definition WithCause :: "string option \<Rightarrow> FactoryError \<Rightarrow> FactoryError" where
  "WithCause cause e = e\<lparr>fe_Cause := cause\<rparr>"

definition IsFactoryError :: "go_error \<Rightarrow> bool" where
  "IsFactoryError err = (case err of EFactory _ \<Rightarrow> True | EText _ \<Rightarrow> False)"

definition GetErrorCode :: "go_error \<Rightarrow> string" where
  "GetErrorCode err = (case err of EFactory fe \<Rightarrow> fe_Code fe | EText _ \<Rightarrow> ErrInternal)"

definition StepExecutionError :: "string \<Rightarrow> string \<Rightarrow> int \<Rightarrow> string option \<Rightarrow> FactoryError" where
  "StepExecutionError stepID message exitCode cause =
     WithCause cause (WithExitCode exitCode (WithStepID stepID (NewFactoryError ErrStepExecutionFailed message)))"

definition StepTimeoutError :: "string \<Rightarrow> FactoryError" where
  "StepTimeoutError stepID = WithStepID stepID (NewFactoryError ErrStepTimeout ''step execution timed out'')"

definition StepMaxRetriesError :: "string \<Rightarrow> int \<Rightarrow> FactoryError" where
  "StepMaxRetriesError stepID maxRetries =
     WithStepID stepID (NewFactoryError ErrStepMaxRetriesExceeded
       (''step failed after '' @ itoa maxRetries @ '' retries''))"

definition WorkspaceError :: "string \<Rightarrow> string \<Rightarrow> string \<Rightarrow> string option \<Rightarrow> FactoryError" where
  "WorkspaceError code message workspacePath cause =
     WithCause cause (WithDetails (''workspace: '' @ workspacePath) (NewFactoryError code message))"

subsection \<open>Steps and results\<close>

abbreviation StepStatusPending :: string where "StepStatusPending \<equiv> ''pending''"
abbreviation StepStatusRunning :: string where "StepStatusRunning \<equiv> ''running''"
abbreviation StepStatusCompleted :: string where "StepStatusCompleted \<equiv> ''completed''"
abbreviation StepStatusFailed :: string where "StepStatusFailed \<equiv> ''failed''"

abbreviation ExecutionStatusRunning :: string where "ExecutionStatusRunning \<equiv> ''running''"
abbreviation ExecutionStatusCompleted :: string where "ExecutionStatusCompleted \<equiv> ''completed''"
abbreviation ExecutionStatusFailed :: string where "ExecutionStatusFailed \<equiv> ''failed''"
abbreviation ExecutionStatusCanceled :: string where "ExecutionStatusCanceled \<equiv> ''canceled''"

record ExecutionStep =
  es_StepID :: string
  es_TaskID :: string
  es_Name :: string
  es_Description :: string
  es_Command :: string
  es_Status :: string
  es_StartedAt :: "time option"
  es_CompletedAt :: "time option"
  es_Output :: string
  es_Error :: string
  es_ExitCode :: int
  es_TimeoutSeconds :: int
  es_MaxRetries :: int
  es_RetryCount :: int

record ExecutionResult =
  er_TaskID :: string
  er_SessionID :: string
  er_WorkItemID :: string
  er_Status :: string
  er_Success :: bool
  er_CompletedAt :: time
  er_TotalSteps :: int
  er_CompletedSteps :: int
  er_FailedSteps :: "ExecutionStep list"
  er_ExecutionSteps :: "ExecutionStep list"
  er_WorkspacePath :: string
  er_FilesChanged :: "string list"
  er_TemplateKey :: string
  er_TestsRun :: "string list"
  er_TestsPassed :: bool
  er_ProofOfWorkPath :: string
  er_LogPath :: string
  er_DiffPath :: string
  er_ArtifactPaths :: "string list"
  er_GitStatusPath :: string
  er_GitDiffStatPath :: string
  er_GitBranch :: string
  er_GitCommit :: string
  er_Metadata :: "string \<rightharpoonup> string"
  er_Error :: string
  er_ErrorCode :: string
  er_NeedsRetry :: bool
  er_Recommendation :: string
  er_VerificationFailed :: bool
  er_SREDEvidence :: "EvidenceItem list"
  er_Duration :: duration

definition empty_result :: ExecutionResult where
  "empty_result =
     \<lparr>er_TaskID = [], er_SessionID = [], er_WorkItemID = [], er_Status = [], er_Success = False,
      er_CompletedAt = zero_time, er_TotalSteps = 0, er_CompletedSteps = 0, er_FailedSteps = [],
      er_ExecutionSteps = [], er_WorkspacePath = [], er_FilesChanged = [], er_TemplateKey = [],
      er_TestsRun = [], er_TestsPassed = False, er_ProofOfWorkPath = [], er_LogPath = [], er_DiffPath = [],
      er_ArtifactPaths = [], er_GitStatusPath = [], er_GitDiffStatPath = [], er_GitBranch = [],
      er_GitCommit = [], er_Metadata = Map.empty, er_Error = [], er_ErrorCode = [], er_NeedsRetry = False,
      er_Recommendation = [], er_VerificationFailed = False, er_SREDEvidence = [], er_Duration = 0\<rparr>"

record WorkspaceMetadata =
  wm_TaskID :: string
  wm_SessionID :: string
  wm_Path :: string
  wm_Initialized :: bool
  wm_Clean :: bool
  wm_Locked :: bool
  wm_Class :: string
  wm_TrustLevel :: string
  wm_Branch :: string
  wm_BaseCommit :: string
  wm_DirtyFiles :: "string list"
  wm_TmpfsMounted :: bool
  wm_TmpfsSizeMB :: int
  wm_CreatedAt :: time
  wm_UpdatedAt :: time

end
