(* ===== verification/Bounded_Executor.thy ===== *)
theory Bounded_Executor
  imports Factory_Types
begin

text \<open>
  The bounded executor of the factory (\<open>internal/factory/bounded_executor.go\<close>): shell steps with a
  timeout, retries of a failing step, and a plan that stops at the first step that fails for good.

  The shell, the clock and the contexts are the record \<open>shell\<close> on the state \<open>'w\<close> of the world.
  \<open>sh_run t cmd dir\<close> runs \<open>/bin/sh -c cmd\<close> in \<open>dir\<close> under a deadline of \<open>t\<close> nanoseconds and returns the
  combined output, the error of the command with its exit code when it is an \<open>ExitError\<close>, and
  whether the deadline was exceeded when the status was looked at. \<open>sh_ctx\<close> is the error of the
  context of the caller, if it has ended. The steps of a plan are distinct objects.
\<close>

record 'w shell =
  sh_run :: "int \<Rightarrow> string \<Rightarrow> string \<Rightarrow> 'w \<Rightarrow> 'w \<times> string \<times> (string \<times> int option) option \<times> bool"
  sh_now :: "'w \<Rightarrow> time"
  sh_ctx :: "'w \<Rightarrow> string option"

subsection \<open>One step\<close>

definition default_command :: "string \<Rightarrow> string" where
  "default_command stepName =
     (let name = to_lower (trim_space stepName)
      in if name \<in> {''initialize workspace'', ''init workspace''}
         then sq [''echo '', ''Initializing workspace for task execution'', '' && pwd && ls -la'']
         else if name \<in> {''execute objective'', ''run objective''}
         then sq [''echo '', ''Executing task objective'', '' && echo '', ''Simulating work: sleep 0.1s'', '' && sleep 0.1'']
         else if name \<in> {''run tests'', ''go test'', ''test'', ''test feature'', ''execute tests'', ''verify refactoring''}
         then sq [''if [ -f go.mod ]; then go test ./... -count=1; else echo '', ''No go.mod, skipping go test'', ''; fi'']
         else if name \<in> {''build'', ''go build'', ''compile''}
         then sq [''if [ -f go.mod ]; then go build ./...; else echo '', ''No go.mod, skipping go build'', ''; fi'']
         else if name \<in> {''lint'', ''go vet'', ''vet''}
         then sq [''if [ -f go.mod ]; then go vet ./...; else echo '', ''No go.mod, skipping go vet'', ''; fi'']
         else if name \<in> {''format'', ''fmt'', ''gofmt''}
         then sq [''if [ -f go.mod ]; then gofmt -l -w . 2>/dev/null || true; else echo '', ''No go.mod, skipping gofmt'', ''; fi'']
         else if name \<in> {''staticcheck'', ''static analysis'', ''analyze code''}
         then sq [''if [ -f go.mod ]; then if command -v staticcheck >/dev/null 2>&1; then staticcheck ./...; else echo '', ''staticcheck not installed, skipping'', ''; fi; else echo '', ''No go.mod, skipping staticcheck'', ''; fi'']
         else if name \<in> {''golangci-lint'', ''lint all'', ''comprehensive lint''}
         then sq [''if [ -f go.mod ]; then if command -v golangci-lint >/dev/null 2>&1; then golangci-lint run; else echo '', ''golangci-lint not installed, skipping'', ''; fi; else echo '', ''No go.mod, skipping golangci-lint'', ''; fi'']
         else if name \<in> {''pytest'', ''python test'', ''test python''}
         then sq [''if [ -f requirements.txt ] || [ -f pyproject.toml ] || [ -f setup.py ]; then if command -v pytest >/dev/null 2>&1; then pytest -v; else echo '', ''pytest not installed, skipping'', ''; fi; else echo '', ''No Python project detected, skipping pytest'', ''; fi'']
         else if name \<in> {''pylint'', ''python lint''}
         then sq [''if [ -f requirements.txt ] || [ -f pyproject.toml ] || [ -f setup.py ]; then if command -v pylint >/dev/null 2>&1; then pylint **/*.py; else echo '', ''pylint not installed, skipping'', ''; fi; else echo '', ''No Python project detected, skipping pylint'', ''; fi'']
         else if name \<in> {''black'', ''python format'', ''format python''}
         then sq [''if [ -f requirements.txt ] || [ -f pyproject.toml ] || [ -f setup.py ]; then if command -v black >/dev/null 2>&1; then black .; else echo '', ''black not installed, skipping'', ''; fi; else echo '', ''No Python project detected, skipping black'', ''; fi'']
         else if name \<in> {''npm test'', ''yarn test'', ''node test'', ''test javascript''}
         then sq [''if [ -f package.json ]; then if [ -f yarn.lock ]; then yarn test; else npm test; fi; else echo '', ''No package.json, skipping npm test'', ''; fi'']
         else if name \<in> {''npm run lint'', ''eslint'', ''lint javascript''}
         then sq [''if [ -f package.json ]; then if command -v npm >/dev/null 2>&1; then npm run lint 2>/dev/null || echo '', ''lint script not found in package.json'', ''; else echo '', ''npm not installed, skipping'', ''; fi; else echo '', ''No package.json, skipping npm lint'', ''; fi'']
         else if name \<in> {''npm run build'', ''build javascript'', ''build node''}
         then sq [''if [ -f package.json ]; then if [ -f yarn.lock ]; then yarn build 2>/dev/null || echo '', ''build script not found'', ''; else npm run build 2>/dev/null || echo '', ''build script not found'', ''; fi; else echo '', ''No package.json, skipping npm build'', ''; fi'']
         else if name \<in> {''validate results'', ''validate''}
         then sq [''echo '', ''Validating results'', '' && echo '', ''All checks passed'', '''']
         else sq [''echo '', ''Executing step: '' @ stepName, []])"

definition step_command :: "ExecutionStep \<Rightarrow> string" where
  "step_command step = (if es_Command step \<noteq> [] then es_Command step else default_command (es_Name step))"

definition step_timeout :: "ExecutionStep \<Rightarrow> int" where
  "step_timeout step =
     (let timeout = int64 (es_TimeoutSeconds step * second) in if timeout = 0 then 5 * minute else timeout)"

definition run_step ::
    "'w shell \<Rightarrow> ExecutionStep \<Rightarrow> string \<Rightarrow> 'w \<Rightarrow> 'w \<times> ExecutionStep \<times> go_error option" where
  "run_step sh step0 workspacePath w =
     (let step = step0\<lparr>es_Status := StepStatusRunning, es_StartedAt := Some (sh_now sh w)\<rparr>
      in case sh_run sh (step_timeout step) (step_command step) workspacePath w of
           (w', output, err, deadline) \<Rightarrow>
             let exitCode = (case err of Some (_, Some c) \<Rightarrow> c | Some (_, None) \<Rightarrow> -1 | None \<Rightarrow> 0)
             in if err \<noteq> None \<and> \<not> deadline then
                  (w', step\<lparr>es_Status := StepStatusFailed,
                            es_Error := ''Command execution failed: '' @ fst (the err),
                            es_ExitCode := exitCode, es_Output := output\<rparr>,
                   Some (EFactory (StepExecutionError (es_StepID step) ''command execution failed'' exitCode
                           (Some (fst (the err))))))
                else if deadline then
                  (w', step\<lparr>es_Status := StepStatusFailed, es_Error := ''Step timed out'', es_ExitCode := -2,
                            es_Output := output\<rparr>,
                   Some (EFactory (StepTimeoutError (es_StepID step))))
                else
                  (w', step\<lparr>es_Status := StepStatusCompleted, es_CompletedAt := Some (sh_now sh w'),
                            es_Output := output, es_ExitCode := exitCode\<rparr>, None))"

text \<open>The step is a pointer: \<open>None\<close> is nil.\<close>

definition ExecuteStep ::
    "'w shell \<Rightarrow> ExecutionStep option \<Rightarrow> string \<Rightarrow> 'w \<Rightarrow> 'w \<times> ExecutionStep option \<times> go_error option" where
  "ExecuteStep sh step workspacePath w =
     (case step of
        None \<Rightarrow> (w, None, Some (EText ''step cannot be nil''))
      | Some s \<Rightarrow> (case run_step sh s workspacePath w of (w', s', err) \<Rightarrow> (w', Some s', err)))"

subsection \<open>A plan\<close>

text \<open>The loop over the retries of a step; \<open>ks\<close> are the values of \<open>retry\<close> still to come.\<close>

fun retry_loop ::
    "'w shell \<Rightarrow> string \<Rightarrow> int list \<Rightarrow> go_error option \<Rightarrow> ExecutionStep \<Rightarrow> 'w
     \<Rightarrow> 'w \<times> ExecutionStep \<times> bool \<times> go_error option" where
  "retry_loop sh workspacePath [] lastErr step w = (w, step, False, lastErr)"
| "retry_loop sh workspacePath (k # ks) lastErr step w =
     (case run_step sh step workspacePath w of
        (w', step', Some err) \<Rightarrow> retry_loop sh workspacePath ks (Some err) (step'\<lparr>es_RetryCount := k\<rparr>) w'
      | (w', step', None) \<Rightarrow> (w', step', True, None))"

definition retries :: "ExecutionStep \<Rightarrow> int list" where
  "retries step = [0..es_MaxRetries step]"

definition failed_plan :: "ExecutionStep \<Rightarrow> go_error \<Rightarrow> ExecutionResult \<Rightarrow> ExecutionResult \<times> go_error" where
  "failed_plan step lastErr result =
     (let retryErr = (case lastErr of
                        EFactory fe \<Rightarrow> EFactory fe
                      | EText _ \<Rightarrow> EFactory (StepMaxRetriesError (es_StepID step) (es_MaxRetries step)))
      in (result\<lparr>er_FailedSteps := er_FailedSteps result @ [step\<lparr>es_Status := StepStatusFailed\<rparr>],
                 er_Error := error_text retryErr, er_ErrorCode := GetErrorCode retryErr,
                 er_Status := ExecutionStatusFailed, er_NeedsRetry := True, er_Recommendation := ''retry''\<rparr>,
          retryErr))"

fun plan_loop ::
    "'w shell \<Rightarrow> string \<Rightarrow> ExecutionStep list \<Rightarrow> ExecutionResult \<Rightarrow> 'w
     \<Rightarrow> 'w \<times> ExecutionResult \<times> go_error option" where
  "plan_loop sh workspacePath [] result w =
     (w, result\<lparr>er_Status := ExecutionStatusCompleted, er_Success := True, er_Recommendation := ''merge''\<rparr>, None)"
| "plan_loop sh workspacePath (step # steps) result w =
     (case sh_ctx sh w of
        Some e \<Rightarrow>
          (w, result\<lparr>er_Status := ExecutionStatusCanceled, er_Error := e, er_ErrorCode := ''CONTEXT_CANCELED''\<rparr>,
           Some (EText e))
      | None \<Rightarrow>
          (case retry_loop sh workspacePath (retries step) None step w of
             (w', step', executed, lastErr) \<Rightarrow>
               let result' = (if executed
                              then result\<lparr>er_ExecutionSteps := er_ExecutionSteps result @ [step'],
                                          er_CompletedSteps := er_CompletedSteps result + 1\<rparr>
                              else result)
               in case lastErr of
                    Some err \<Rightarrow> (case failed_plan step' err result' of (r, e) \<Rightarrow> (w', r, Some e))
                  | None \<Rightarrow> plan_loop sh workspacePath steps result' w'))"

definition ExecutePlan ::
    "'w shell \<Rightarrow> ExecutionStep list \<Rightarrow> string \<Rightarrow> 'w \<Rightarrow> 'w \<times> ExecutionResult option \<times> go_error option" where
  "ExecutePlan sh steps workspacePath w =
     (if length steps = 0 then (w, None, Some (EText ''execution plan cannot be empty''))
      else case plan_loop sh workspacePath steps
                  (empty_result\<lparr>er_TotalSteps := int (length steps), er_Status := ExecutionStatusRunning,
                                er_WorkspacePath := workspacePath\<rparr>) w of
             (w', result, err) \<Rightarrow> (w', Some result, err))"

end
