(* ===== verification/Executor_Properties.thy ===== *)
theory Executor_Properties
  imports Bounded_Executor
begin

text \<open>
  Properties of the bounded executor: the bound on the commands a plan runs and on the time they are
  given, and the shape of the result on every outcome.
\<close>

subsection \<open>Attempts\<close>

text \<open>A shell that also keeps the deadlines of the commands it has run.\<close>

definition logged :: "'w shell \<Rightarrow> ('w \<times> int list) shell" where
  "logged sh =
     \<lparr>sh_run = (\<lambda>t cmd dir (w, ts). case sh_run sh t cmd dir w of (w', x) \<Rightarrow> ((w', ts @ [t]), x)),
      sh_now = (\<lambda>(w, ts). sh_now sh w), sh_ctx = (\<lambda>(w, ts). sh_ctx sh w)\<rparr>"

definition max_attempts :: "ExecutionStep \<Rightarrow> nat" where
  "max_attempts step = nat (es_MaxRetries step + 1)"

lemma length_retries: "length (retries step) = max_attempts step"
  by (simp add: retries_def max_attempts_def)

lemma run_step_frame:
  assumes "run_step sh step ws w = (w', step', err)"
  shows "es_StepID step' = es_StepID step" "es_MaxRetries step' = es_MaxRetries step"
    "es_TimeoutSeconds step' = es_TimeoutSeconds step" "step_timeout step' = step_timeout step"
  using assms unfolding run_step_def
  by (auto simp: Let_def step_timeout_def split: prod.splits if_splits)

lemma run_step_logged:
  "run_step (logged sh) step ws (w, ts) =
     (case run_step sh step ws w of (w', x) \<Rightarrow> ((w', ts @ [step_timeout step]), x))"
proof -
  let ?s = "step\<lparr>es_Status := StepStatusRunning, es_StartedAt := Some (sh_now sh w)\<rparr>"
  have t: "step_timeout ?s = step_timeout step" by (simp add: step_timeout_def)
  obtain w' out err d where "sh_run sh (step_timeout ?s) (step_command ?s) ws w = (w', out, err, d)"
    by (rule prod_cases4)
  then show ?thesis unfolding run_step_def Let_def by (simp add: logged_def t)
qed

lemma retry_loop_logged:
  "\<exists>n \<le> length ks. \<forall>ts. retry_loop (logged sh) ws ks lastErr step (w, ts) =
     (case retry_loop sh ws ks lastErr step w of (w', x) \<Rightarrow> ((w', ts @ replicate n (step_timeout step)), x))"
proof (induction sh ws ks lastErr step w rule: retry_loop.induct)
  case (2 sh ws k ks lastErr step w)
  obtain w1 s1 e1 where r: "run_step sh step ws w = (w1, s1, e1)" by (rule prod_cases3)
  show ?case
  proof (cases e1)
    case None
    then show ?thesis using r by (intro exI [of _ 1]) (simp add: run_step_logged)
  next
    case (Some err)
    have same: "step_timeout (s1\<lparr>es_RetryCount := k\<rparr>) = step_timeout step"
      using run_step_frame(3) [OF r] by (simp add: step_timeout_def)
    obtain n where "n \<le> length ks" "\<And>ts. retry_loop (logged sh) ws ks (Some err) (s1\<lparr>es_RetryCount := k\<rparr>) (w1, ts) =
        (case retry_loop sh ws ks (Some err) (s1\<lparr>es_RetryCount := k\<rparr>) w1 of
           (w', x) \<Rightarrow> ((w', ts @ replicate n (step_timeout step)), x))"
      using 2 [OF r [symmetric] refl Some] unfolding same by blast
    then show ?thesis using r Some
      by (intro exI [of _ "Suc n"]) (simp add: run_step_logged split: prod.splits)
  qed
qed simp

definition time_budget :: "ExecutionStep \<Rightarrow> int" where
  "time_budget step = int (max_attempts step) * step_timeout step"

lemma time_budget_nonneg: "0 \<le> step_timeout s \<Longrightarrow> 0 \<le> time_budget s"
  by (simp add: time_budget_def)

lemma time_budgets_nonneg: "list_all (\<lambda>s. 0 \<le> step_timeout s) steps \<Longrightarrow> 0 \<le> sum_list (map time_budget steps)"
  by (induction steps) (simp_all add: time_budget_nonneg)

lemma plan_loop_logged:
  assumes "list_all (\<lambda>s. 0 \<le> step_timeout s) steps"
  shows "\<exists>us. length us \<le> sum_list (map max_attempts steps) \<and> sum_list us \<le> sum_list (map time_budget steps)
    \<and> plan_loop (logged sh) ws steps result (w, ts) =
       (case plan_loop sh ws steps result w of (w', x) \<Rightarrow> ((w', ts @ us), x))"
  using assms
proof (induction sh ws steps result w arbitrary: ts rule: plan_loop.induct)
  case (2 sh ws step steps result w)
  show ?case
  proof (cases "sh_ctx sh w")
    case None
    obtain w1 s1 ex le where r: "retry_loop sh ws (retries step) None step w = (w1, s1, ex, le)" by (rule prod_cases4)
    obtain n where n: "n \<le> max_attempts step"
        "\<And>ts. retry_loop (logged sh) ws (retries step) None step (w, ts) =
          ((w1, ts @ replicate n (step_timeout step)), s1, ex, le)"
      using retry_loop_logged [of "retries step" sh ws None step w] r by (auto simp: length_retries)
    have pos: "0 \<le> step_timeout step" "list_all (\<lambda>s. 0 \<le> step_timeout s) steps" using 2(2) by simp_all
    have budget: "int n * step_timeout step \<le> time_budget step" "0 \<le> sum_list (map time_budget steps)"
      using n(1) pos by (simp_all add: time_budget_def mult_right_mono time_budgets_nonneg)
    have ctx: "sh_ctx (logged sh) (w, ts) = None" using None by (simp add: logged_def)
    show ?thesis
    proof (cases le)
      case (Some err)
      then show ?thesis using n budget None ctx r
        by (intro exI [of _ "replicate n (step_timeout step)"]) (simp add: sum_list_replicate split: prod.splits)
    next
      case None
      let ?res = "if ex then result\<lparr>er_ExecutionSteps := er_ExecutionSteps result @ [s1],
          er_CompletedSteps := er_CompletedSteps result + 1\<rparr> else result"
      obtain us where us: "length us \<le> sum_list (map max_attempts steps)" "sum_list us \<le> sum_list (map time_budget steps)"
          "plan_loop (logged sh) ws steps ?res (w1, ts @ replicate n (step_timeout step)) =
           (case plan_loop sh ws steps ?res w1 of (w', x) \<Rightarrow> ((w', (ts @ replicate n (step_timeout step)) @ us), x))"
        using 2(1) [OF \<open>sh_ctx sh w = None\<close> r [symmetric] refl refl refl None pos(2)] by blast
      then show ?thesis using n budget None \<open>sh_ctx sh w = None\<close> ctx r
        by (intro exI [of _ "replicate n (step_timeout step) @ us"])
          (auto simp: sum_list_replicate split: prod.splits)
    qed
  next
    case (Some e)
    then show ?thesis using 2(2)
      by (intro exI [of _ "[]"]) (simp add: logged_def time_budget_nonneg time_budgets_nonneg)
  qed
qed (auto intro!: exI [of _ "[]"])
text \<open>
  A plan whose steps have no negative timeout runs at most one command more than the retries of each
  step, and the deadlines of its commands add up to at most the budgets of its steps.
\<close>

lemma plan_bounds:
  assumes "list_all (\<lambda>s. 0 \<le> step_timeout s) steps"
  shows "\<exists>us. length us \<le> sum_list (map max_attempts steps) \<and> sum_list us \<le> sum_list (map time_budget steps)
    \<and> ExecutePlan (logged sh) steps ws (w, []) =
       (case ExecutePlan sh steps ws w of (w', x) \<Rightarrow> ((w', us), x))"
proof (cases "steps = []")
  case False
  let ?res = "empty_result\<lparr>er_TotalSteps := int (length steps), er_Status := ExecutionStatusRunning, er_WorkspacePath := ws\<rparr>"
  obtain us where "length us \<le> sum_list (map max_attempts steps)" "sum_list us \<le> sum_list (map time_budget steps)"
      "plan_loop (logged sh) ws steps ?res (w, []) = (case plan_loop sh ws steps ?res w of (w', x) \<Rightarrow> ((w', [] @ us), x))"
    using plan_loop_logged [OF assms, where sh = sh and ws = ws and result = ?res and w = w and ts = "[]"] by blast
  moreover obtain w' r e where "plan_loop sh ws steps ?res w = (w', r, e)" by (rule prod_cases3)
  ultimately show ?thesis using False
    by (intro exI [of _ us]) (simp add: ExecutePlan_def)
next
  case True
  then show ?thesis by (intro exI [of _ "[]"]) (simp add: ExecutePlan_def)
qed

text \<open>A shell in which every command ends well at once, and a step with its limits.\<close>

definition quiet_shell :: "int shell" where
  "quiet_shell = \<lparr>sh_run = (\<lambda>t cmd dir w. (w + 1, ''ok'', None, False)), sh_now = (\<lambda>w. w), sh_ctx = (\<lambda>w. None)\<rparr>"

definition plain_step :: "string \<Rightarrow> int \<Rightarrow> int \<Rightarrow> ExecutionStep" where
  "plain_step n timeout r =
     \<lparr>es_StepID = n, es_TaskID = ''t'', es_Name = n, es_Description = [], es_Command = ''true'',
      es_Status = StepStatusPending, es_StartedAt = None, es_CompletedAt = None, es_Output = [], es_Error = [],
      es_ExitCode = 0, es_TimeoutSeconds = timeout, es_MaxRetries = r, es_RetryCount = 0\<rparr>"

subsection \<open>Outcomes\<close>

definition done_step :: "ExecutionStep \<Rightarrow> bool" where
  "done_step s \<longleftrightarrow> es_Status s = StepStatusCompleted \<and> es_ExitCode s = 0 \<and> es_CompletedAt s \<noteq> None"

lemma run_step_outcome:
  assumes "run_step sh step ws w = (w', step', err)"
  shows "case err of
      None \<Rightarrow> done_step step'
    | Some e \<Rightarrow> es_Status step' = StepStatusFailed
        \<and> (\<exists>fe. e = EFactory fe \<and> fe_Code fe \<in> {ErrStepExecutionFailed, ErrStepTimeout} \<and> fe_StepID fe = es_StepID step)"
proof -
  let ?s = "step\<lparr>es_Status := StepStatusRunning, es_StartedAt := Some (sh_now sh w)\<rparr>"
  obtain w1 out er d where "sh_run sh (step_timeout ?s) (step_command ?s) ws w = (w1, out, er, d)"
    by (rule prod_cases4)
  with assms show ?thesis unfolding run_step_def Let_def
    by (cases er; cases d)
      (auto simp: done_step_def StepExecutionError_def StepTimeoutError_def NewFactoryError_def
        WithStepID_def WithExitCode_def WithCause_def)
qed

lemma retry_loop_outcome:
  assumes "retry_loop sh ws ks lastErr step w = (w', step', executed, lastErr')"
  shows "es_StepID step' = es_StepID step \<and> es_MaxRetries step' = es_MaxRetries step
    \<and> (if executed then lastErr' = None \<and> done_step step' \<and> ks \<noteq> []
       else if ks = [] then lastErr' = lastErr
       else \<exists>fe. lastErr' = Some (EFactory fe) \<and> fe_Code fe \<in> {ErrStepExecutionFailed, ErrStepTimeout}
              \<and> fe_StepID fe = es_StepID step)"
  using assms
proof (induction sh ws ks lastErr step w rule: retry_loop.induct)
  case (2 sh ws k ks lastErr step w)
  obtain w1 s1 e1 where r: "run_step sh step ws w = (w1, s1, e1)" by (rule prod_cases3)
  note fr = run_step_frame [OF r] and out = run_step_outcome [OF r]
  show ?case
  proof (cases e1)
    case None
    then show ?thesis using 2(2) r fr out by auto
  next
    case (Some err)
    have "retry_loop sh ws ks (Some err) (s1\<lparr>es_RetryCount := k\<rparr>) w1 = (w', step', executed, lastErr')"
      using 2(2) r Some by simp
    then show ?thesis using 2(1) [OF r [symmetric] refl Some] fr out Some by (cases "ks = []") (auto split: if_splits)
  qed
qed auto

text \<open>What a result says is consistent: the shape of a finished, a failed and a canceled plan.\<close>

definition counted :: "ExecutionResult \<Rightarrow> bool" where
  "counted r \<longleftrightarrow> er_CompletedSteps r = int (length (er_ExecutionSteps r)) \<and> list_all done_step (er_ExecutionSteps r)"

definition step_ids :: "ExecutionStep list \<Rightarrow> string list" where
  "step_ids steps = map es_StepID steps"

definition finished_ok :: "ExecutionStep list \<Rightarrow> ExecutionResult \<Rightarrow> bool" where
  "finished_ok steps r \<longleftrightarrow>
     er_Status r = ExecutionStatusCompleted \<and> er_Success r \<and> er_Error r = [] \<and> er_FailedSteps r = []
     \<and> er_Recommendation r = ''merge''
     \<and> step_ids (er_ExecutionSteps r) = step_ids (filter (\<lambda>s. 0 \<le> es_MaxRetries s) steps)"

definition failed_ok :: "ExecutionResult \<Rightarrow> go_error \<Rightarrow> bool" where
  "failed_ok r e \<longleftrightarrow>
     er_Status r = ExecutionStatusFailed \<and> \<not> er_Success r \<and> er_NeedsRetry r \<and> er_Recommendation r = ''retry''
     \<and> (\<exists>s fe. er_FailedSteps r = [s] \<and> es_Status s = StepStatusFailed \<and> e = EFactory fe
          \<and> fe_StepID fe = es_StepID s \<and> er_ErrorCode r = fe_Code fe \<and> er_Error r = FactoryError_Error fe
          \<and> fe_Code fe \<in> {ErrStepExecutionFailed, ErrStepTimeout})"

definition canceled_ok :: "ExecutionResult \<Rightarrow> go_error \<Rightarrow> bool" where
  "canceled_ok r e \<longleftrightarrow>
     er_Status r = ExecutionStatusCanceled \<and> \<not> er_Success r \<and> \<not> er_NeedsRetry r \<and> er_FailedSteps r = []
     \<and> er_ErrorCode r = ErrContextCanceled \<and> (\<exists>t. e = EText t \<and> er_Error r = t)"

lemma plan_loop_outcome:
  assumes "plan_loop sh ws steps result w = (w', r, err)"
    and "counted result" and "er_FailedSteps result = []" and "\<not> er_Success result" and "\<not> er_NeedsRetry result"
    and "er_Error result = []"
  shows "er_TotalSteps r = er_TotalSteps result \<and> er_WorkspacePath r = er_WorkspacePath result \<and> counted r
    \<and> (\<exists>more. er_ExecutionSteps r = er_ExecutionSteps result @ more
         \<and> length more \<le> length (filter (\<lambda>s. 0 \<le> es_MaxRetries s) steps)
         \<and> (case err of
              None \<Rightarrow> finished_ok [] (r\<lparr>er_ExecutionSteps := []\<rparr>)
                \<and> step_ids more = step_ids (filter (\<lambda>s. 0 \<le> es_MaxRetries s) steps)
            | Some e \<Rightarrow> failed_ok r e \<or> canceled_ok r e))"
  using assms
proof (induction sh ws steps result w rule: plan_loop.induct)
  case (1 sh ws result w)
  then show ?case by (auto simp: finished_ok_def counted_def step_ids_def)
next
  case (2 sh ws step steps result w)
  show ?case
  proof (cases "sh_ctx sh w")
    case (Some e)
    then show ?thesis using 2(2-) by (auto simp: canceled_ok_def counted_def)
  next
    case None
    obtain w1 s1 ex le where r: "retry_loop sh ws (retries step) None step w = (w1, s1, ex, le)" by (rule prod_cases4)
    note out = retry_loop_outcome [OF r]
    have ne: "retries step \<noteq> [] \<longleftrightarrow> 0 \<le> es_MaxRetries step"
      by (auto simp: retries_def)
    let ?res = "if ex then result\<lparr>er_ExecutionSteps := er_ExecutionSteps result @ [s1],
        er_CompletedSteps := er_CompletedSteps result + 1\<rparr> else result"
    show ?thesis
    proof (cases le)
      case (Some e)
      then have "\<not> ex" "0 \<le> es_MaxRetries step" using out ne by (auto split: if_splits)
      then show ?thesis using 2(2-) out ne Some \<open>sh_ctx sh w = None\<close> r
        by (auto simp: failed_plan_def Let_def failed_ok_def counted_def GetErrorCode_def)
    next
      case None
      have loop: "plan_loop sh ws steps ?res w1 = (w', r, err)"
        using 2(2) \<open>sh_ctx sh w = None\<close> r None by (simp add: Let_def)
      have ex: "ex \<longleftrightarrow> 0 \<le> es_MaxRetries step" "ex \<Longrightarrow> done_step s1" "es_StepID s1 = es_StepID step"
        using out ne None by (auto split: if_splits)
      have "counted ?res" using 2(3) ex(2) by (simp add: counted_def)
      with 2(1) [OF \<open>sh_ctx sh w = None\<close> r [symmetric] refl refl refl None loop] 2(4-)
      show ?thesis using ex by (cases ex) (auto simp: step_ids_def split: option.splits)
    qed
  qed
qed

text \<open>C27. Every result of a plan is well formed. The steps that ran are all completed with exit code 0, as many as
  the result counts, and no more than the plan has. Without an error the plan is completed, with the
  steps that have a non-negative retry limit, in their order. With an error either the context had
  ended, or exactly one step is reported failed, with the code of a failed command or of a timeout:
  the code of exhausted retries is never reported.\<close>

theorem plan_result_wf:
  assumes "ExecutePlan sh steps ws w = (w', Some r, err)"
  shows "er_TotalSteps r = int (length steps) \<and> er_WorkspacePath r = ws \<and> counted r
    \<and> er_CompletedSteps r \<le> er_TotalSteps r
    \<and> (case err of None \<Rightarrow> finished_ok steps r | Some e \<Rightarrow> failed_ok r e \<or> canceled_ok r e)"
proof -
  let ?res = "empty_result\<lparr>er_TotalSteps := int (length steps), er_Status := ExecutionStatusRunning, er_WorkspacePath := ws\<rparr>"
  have loop: "plan_loop sh ws steps ?res w = (w', r, err)"
    using assms by (auto simp: ExecutePlan_def split: if_splits prod.splits)
  have start: "counted ?res" "er_FailedSteps ?res = []" "\<not> er_Success ?res" "\<not> er_NeedsRetry ?res" "er_Error ?res = []"
    by (simp_all add: counted_def empty_result_def)
  obtain more where o: "er_TotalSteps r = er_TotalSteps ?res" "er_WorkspacePath r = er_WorkspacePath ?res" "counted r"
      "er_ExecutionSteps r = er_ExecutionSteps ?res @ more"
      "length more \<le> length (filter (\<lambda>s. 0 \<le> es_MaxRetries s) steps)"
      "case err of
         None \<Rightarrow> finished_ok [] (r\<lparr>er_ExecutionSteps := []\<rparr>) \<and> step_ids more = step_ids (filter (\<lambda>s. 0 \<le> es_MaxRetries s) steps)
       | Some e \<Rightarrow> failed_ok r e \<or> canceled_ok r e"
    using plan_loop_outcome [OF loop start] by blast
  have "er_CompletedSteps r \<le> er_TotalSteps r"
    using o(1,3,4) order_trans [OF o(5) length_filter_le] by (simp add: counted_def empty_result_def)
  moreover have "case err of None \<Rightarrow> finished_ok steps r | Some e \<Rightarrow> failed_ok r e \<or> canceled_ok r e"
    using o(4,6) by (cases err) (simp_all add: finished_ok_def empty_result_def)
  ultimately show ?thesis using o(1,2,3) by (simp add: empty_result_def)
qed

theorem plan_result_wf_witness:
  "\<exists>w' r. ExecutePlan quiet_shell [plain_step ''build'' 60 2, plain_step ''skip'' 60 (-1)] ''/ws'' 0 = (w', Some r, None)
    \<and> er_CompletedSteps r = 1 \<and> er_TotalSteps r = 2 \<and> er_Success r"
proof -
  let ?steps = "[plain_step ''build'' 60 2, plain_step ''skip'' 60 (-1)]"
  have "retries (plain_step ''skip'' 60 (-1)) = []" "retries (plain_step ''build'' 60 2) = [0, 1, 2]"
    by (simp_all add: retries_def plain_step_def upto.simps)
  then obtain w' r where r: "ExecutePlan quiet_shell ?steps ''/ws'' 0 = (w', Some r, None)"
    by (auto simp: ExecutePlan_def quiet_shell_def run_step_def Let_def)
  from plan_result_wf [OF r] r show ?thesis
    by (auto simp: finished_ok_def counted_def plain_step_def step_ids_def dest: arg_cong [of _ _ length])
qed

end
