(* ===== verification/Factory_Templates.thy ===== *)
theory Factory_Templates
  imports Factory_Types
begin

text \<open>
  Work templates of the factory: the registry and the expansion of variables
  (\<open>internal/factory/templates.go\<close>, \<open>template_manager.go\<close>) and the selection of a template, with or without
  the recommender (\<open>intelligence_selection.go\<close>).

  The registry maps a work type to its templates by domain; the inner map is ranged over, \<open>r\<close> ranks the
  visit. The recommender is a record of its two readings, \<open>None\<close> for their errors.
\<close>

record ExecutionStepTemplate =
  st_Name :: string
  st_Description :: string
  st_Command :: string
  st_Variables :: "(string, string) gomap"
  st_Timeout :: int
  st_MaxRetries :: int

record WorkTypeTemplate =
  wt_WorkType :: string
  wt_WorkDomain :: string
  wt_Description :: string
  wt_Steps :: "ExecutionStepTemplate list"

type_synonym template_registry = "string \<rightharpoonup> (string, WorkTypeTemplate) gomap"

subsection \<open>Registry\<close>

definition registerTemplate :: "WorkTypeTemplate \<Rightarrow> template_registry \<Rightarrow> template_registry" where
  "registerTemplate t reg =
     (let domainMap = (case reg (wt_WorkType t) of None \<Rightarrow> [] | Some m \<Rightarrow> m)
      in reg(wt_WorkType t \<mapsto> AList.update (wt_WorkDomain t) t domainMap))"

definition HasExactTemplate :: "template_registry \<Rightarrow> string \<Rightarrow> string \<Rightarrow> bool" where
  "HasExactTemplate reg workType workDomain =
     (case reg workType of
        None \<Rightarrow> False
      | Some domainMap \<Rightarrow>
          if workDomain \<noteq> [] then map_of domainMap workDomain \<noteq> None
          else map_of domainMap [] \<noteq> None \<or> length domainMap > 0)"

definition any_template :: "(string \<Rightarrow> nat) \<Rightarrow> (string, WorkTypeTemplate) gomap \<Rightarrow> WorkTypeTemplate option" where
  "any_template r m = (case go_range r m of [] \<Rightarrow> None | (d, t) # _ \<Rightarrow> Some t)"

definition GetTemplateOrNil ::
    "(string \<Rightarrow> nat) \<Rightarrow> template_registry \<Rightarrow> string \<Rightarrow> string \<Rightarrow> WorkTypeTemplate option" where
  "GetTemplateOrNil r reg workType workDomain =
     (case reg workType of
        None \<Rightarrow> (case reg ''default'' of Some defaultMap \<Rightarrow> any_template r defaultMap | None \<Rightarrow> None)
      | Some domainMap \<Rightarrow>
          (case (if workDomain \<noteq> [] then map_of domainMap workDomain else None) of
             Some t \<Rightarrow> Some t
           | None \<Rightarrow>
               (case map_of domainMap [] of
                  Some t \<Rightarrow> Some t
                | None \<Rightarrow> any_template r domainMap)))"

definition GetTemplate ::
    "(string \<Rightarrow> nat) \<Rightarrow> template_registry \<Rightarrow> string \<Rightarrow> string \<Rightarrow> string + WorkTypeTemplate" where
  "GetTemplate r reg workType workDomain =
     (case GetTemplateOrNil r reg workType workDomain of
        Some t \<Rightarrow> Inr t
      | None \<Rightarrow> Inl (''no template for work type: '' @ workType))"

definition HasTemplate :: "(string \<Rightarrow> nat) \<Rightarrow> template_registry \<Rightarrow> string \<Rightarrow> string \<Rightarrow> bool" where
  "HasTemplate r reg workType workDomain \<longleftrightarrow> GetTemplateOrNil r reg workType workDomain \<noteq> None"

definition HasTemplateForType :: "(string \<Rightarrow> nat) \<Rightarrow> template_registry \<Rightarrow> string \<Rightarrow> bool" where
  "HasTemplateForType r reg workType \<longleftrightarrow> GetTemplateOrNil r reg workType [] \<noteq> None"

subsection \<open>Variables\<close>

text \<open>\<open>strings.ReplaceAll\<close> for a text that is not empty.\<close>

function replace_all :: "string \<Rightarrow> string \<Rightarrow> string \<Rightarrow> string" where
  "replace_all old new [] = []"
| "replace_all old new (c # s) =
     (if old \<noteq> [] \<and> has_prefix (c # s) old then new @ replace_all old new (drop (length old) (c # s))
      else c # replace_all old new s)"
  by pat_completeness auto
termination
  by (relation "measure (\<lambda>(old, new, s). length s)") (auto simp: neq_Nil_conv)

definition placeholder :: "string \<Rightarrow> string" where
  "placeholder key = ''{{.'' @ key @ ''}}''"

definition ExpandVariables :: "(string \<Rightarrow> nat) \<Rightarrow> string \<Rightarrow> (string, string) gomap \<Rightarrow> string" where
  "ExpandVariables r command variables =
     fold (\<lambda>(key, value) result. replace_all (placeholder key) value result) (go_range r variables) command"

definition buildVariableMap :: "FactoryTaskSpec \<Rightarrow> ExecutionStepTemplate \<Rightarrow> (string, string) gomap" where
  "buildVariableMap spec stepTemplate =
     fold (\<lambda>(key, value) m. AList.update key value m) (st_Variables stepTemplate)
       [(''title'', fts_Title spec), (''summary'', fts_Objective spec), (''objective'', fts_Objective spec),
        (''work_item_id'', fts_WorkItemID spec), (''session_id'', fts_SessionID spec), (''task_id'', fts_ID spec),
        (''work_type'', fts_WorkType spec), (''work_domain'', fts_WorkDomain spec),
        (''priority'', fts_Priority spec)]"

definition expand_step :: "(string \<Rightarrow> nat) \<Rightarrow> FactoryTaskSpec \<Rightarrow> nat \<times> ExecutionStepTemplate \<Rightarrow> ExecutionStep" where
  "expand_step r spec x =
     (case x of (i, st) \<Rightarrow>
        \<lparr>es_StepID = fts_ID spec @ ''-step-'' @ itoa (int i + 1), es_TaskID = fts_ID spec,
         es_Name = st_Name st, es_Description = st_Description st,
         es_Command = ExpandVariables r (st_Command st) (buildVariableMap spec st),
         es_Status = StepStatusPending, es_StartedAt = None, es_CompletedAt = None, es_Output = [],
         es_Error = [], es_ExitCode = 0, es_TimeoutSeconds = st_Timeout st,
         es_MaxRetries = st_MaxRetries st, es_RetryCount = 0\<rparr>)"

definition ExpandTemplateVariables ::
    "(string \<Rightarrow> nat) \<Rightarrow> WorkTypeTemplate \<Rightarrow> FactoryTaskSpec \<Rightarrow> ExecutionStep list" where
  "ExpandTemplateVariables r template spec =
     map (expand_step r spec) (zip [0..<length (wt_Steps template)] (wt_Steps template))"

subsection \<open>Selection\<close>

record selectionResult =
  sr_workType :: string
  sr_workDomain :: string
  sr_timeoutSeconds :: int
  sr_maxRetries :: int
  sr_source :: string
  sr_confidence :: float64
  sr_reasoning :: string
  sr_templateIdentity :: string

record recommender_ops =
  rc_template :: "string \<Rightarrow> string \<Rightarrow> (string \<times> string \<times> float64 \<times> string) option"
  rc_config :: "string \<Rightarrow> string \<Rightarrow> (int \<times> int) option"

text \<open>The parts of a name before and after the first \<open>c\<close>.\<close>

definition split_first :: "char \<Rightarrow> string \<Rightarrow> (string \<times> string) option" where
  "split_first c s =
     (if c \<in> set s then Some (takeWhile (\<lambda>x. x \<noteq> c) s, tl (dropWhile (\<lambda>x. x \<noteq> c) s)) else None)"

definition parse_template_name :: "string \<Rightarrow> string \<times> string" where
  "parse_template_name templateName =
     (case split_first (CHR '':'') templateName of
        Some (a, b) \<Rightarrow> (trim_space a, trim_space b)
      | None \<Rightarrow>
          (case split_first (CHR ''/'') templateName of
             Some (a, b) \<Rightarrow> (trim_space a, trim_space b)
           | None \<Rightarrow> (templateName, [])))"

text \<open>
  Identity, work type and domain. A recommended name that is not empty keeps its spelling, so the code
  that builds one from the work type is not reached.
\<close>

definition interpretRecommendedTemplate ::
    "(string \<Rightarrow> nat) \<Rightarrow> template_registry \<Rightarrow> FactoryTaskSpec \<Rightarrow> string \<Rightarrow> string \<times> string \<times> string" where
  "interpretRecommendedTemplate r reg spec templateName =
     (if templateName = [] \<or> templateName = ''default'' then (''default'', fts_WorkType spec, fts_WorkDomain spec)
      else case parse_template_name templateName of
             (recWorkType, recWorkDomain) \<Rightarrow>
               if recWorkType \<noteq> [] \<and> recWorkType \<noteq> fts_WorkType spec
               then (''default'', fts_WorkType spec, fts_WorkDomain spec)
               else let workType = (if recWorkType \<noteq> [] then recWorkType else fts_WorkType spec);
                        workDomain = (if recWorkDomain \<noteq> [] then recWorkDomain else fts_WorkDomain spec)
                    in if GetTemplateOrNil r reg workType workDomain = None
                       then (''default'', fts_WorkType spec, fts_WorkDomain spec)
                       else (templateName, workType, workDomain))"

definition static_selection :: "template_registry \<Rightarrow> string \<Rightarrow> string \<Rightarrow> string \<times> string \<times> string" where
  "static_selection reg workType workDomain =
     (if workDomain = [] \<and> HasExactTemplate reg workType ''real'' then (workType @ '':real'', workType, ''real'')
      else if HasExactTemplate reg workType workDomain
      then (if workDomain = [] then workType else workType @ '':'' @ workDomain, workType, workDomain)
      else if HasExactTemplate reg workType [] then (workType, workType, [])
      else (''default'', ''default'', []))"

definition record_selection :: "selectionResult \<Rightarrow> FactoryTaskSpec \<Rightarrow> FactoryTaskSpec" where
  "record_selection sel spec =
     spec\<lparr>fts_SelectedTemplate := sr_templateIdentity sel, fts_TemplateKey := sr_templateIdentity sel,
          fts_SelectionSource := sr_source sel, fts_SelectionConfidence := sr_confidence sel,
          fts_SelectionReasoning := sr_reasoning sel\<rparr>"

definition apply_selection :: "selectionResult \<Rightarrow> FactoryTaskSpec \<Rightarrow> FactoryTaskSpec" where
  "apply_selection sel spec =
     (let spec1 = record_selection sel spec;
          spec2 = (if fts_TimeoutSeconds spec1 \<le> 0 \<and> sr_timeoutSeconds sel > 0
                   then spec1\<lparr>fts_TimeoutSeconds := sr_timeoutSeconds sel\<rparr> else spec1)
      in if fts_MaxRetries spec2 \<le> 0 \<and> sr_maxRetries sel > 0
         then spec2\<lparr>fts_MaxRetries := sr_maxRetries sel\<rparr> else spec2)"

definition chooseTemplateAndConfig ::
    "(string \<Rightarrow> nat) \<Rightarrow> template_registry \<Rightarrow> recommender_ops option \<Rightarrow> FactoryTaskSpec
     \<Rightarrow> FactoryTaskSpec \<times> selectionResult" where
  "chooseTemplateAndConfig r reg recommender spec =
     (let sel0 = \<lparr>sr_workType = fts_WorkType spec, sr_workDomain = fts_WorkDomain spec,
                  sr_timeoutSeconds = fts_TimeoutSeconds spec, sr_maxRetries = fts_MaxRetries spec,
                  sr_source = ''static'', sr_confidence = Fin 0,
                  sr_reasoning = ''Static selection (no recommender or fallback)'',
                  sr_templateIdentity = ''default''\<rparr>
      in case recommender of
           None \<Rightarrow>
             (case static_selection reg (fts_WorkType spec) (fts_WorkDomain spec) of
                (identity, workType, workDomain) \<Rightarrow>
                  let sel = sel0\<lparr>sr_workType := workType, sr_workDomain := workDomain, sr_templateIdentity := identity\<rparr>
                  in (record_selection sel spec, sel))
         | Some rc \<Rightarrow>
             let sel1 = (case rc_template rc (fts_WorkType spec) (fts_WorkDomain spec) of
                           None \<Rightarrow> sel0
                         | Some (templateName, recSource, recConf, recReason) \<Rightarrow>
                             (case interpretRecommendedTemplate r reg spec templateName of
                                (identity, workType, workDomain) \<Rightarrow>
                                  sel0\<lparr>sr_source := recSource, sr_confidence := recConf, sr_reasoning := recReason,
                                       sr_templateIdentity := identity, sr_workType := workType,
                                       sr_workDomain := workDomain\<rparr>));
                 sel = (if sr_timeoutSeconds sel1 \<le> 0 \<or> sr_maxRetries sel1 \<le> 0
                        then case rc_config rc (fts_WorkType spec) (fts_WorkDomain spec) of
                               None \<Rightarrow> sel1
                             | Some (to, ret) \<Rightarrow>
                                 sel1\<lparr>sr_timeoutSeconds :=
                                        (if sr_timeoutSeconds sel1 \<le> 0 \<and> to > 0 then to else sr_timeoutSeconds sel1),
                                      sr_maxRetries :=
                                        (if sr_maxRetries sel1 \<le> 0 \<and> ret > 0 then ret else sr_maxRetries sel1)\<rparr>
                        else sel1)
             in (apply_selection sel spec, sel))"

text \<open>
  The steps of the plan for a specification, without the route to the LLM. When not even a default
  template is registered the code dereferences a nil template, here \<open>None\<close>.
\<close>

definition override_step :: "selectionResult \<Rightarrow> ExecutionStep \<Rightarrow> ExecutionStep" where
  "override_step sel step =
     (let s1 = (if sr_timeoutSeconds sel > 0 \<and> es_TimeoutSeconds step \<le> 0
                then step\<lparr>es_TimeoutSeconds := sr_timeoutSeconds sel\<rparr> else step)
      in if sr_maxRetries sel > 0 \<and> es_MaxRetries s1 \<le> 0 then s1\<lparr>es_MaxRetries := sr_maxRetries sel\<rparr> else s1)"

definition template_plan ::
    "(string \<Rightarrow> nat) \<Rightarrow> template_registry \<Rightarrow> recommender_ops option \<Rightarrow> FactoryTaskSpec
     \<Rightarrow> FactoryTaskSpec \<times> ExecutionStep list option" where
  "template_plan r reg recommender spec0 =
     (case chooseTemplateAndConfig r reg recommender spec0 of
        (spec, sel) \<Rightarrow>
          let template = (case GetTemplateOrNil r reg (sr_workType sel) (sr_workDomain sel) of
                            Some t \<Rightarrow> Some t
                          | None \<Rightarrow> GetTemplateOrNil r reg ''default'' [])
          in (spec, map_option (\<lambda>t. map (override_step sel) (ExpandTemplateVariables r t spec)) template))"

end
