(* ===== verification/Template_Properties.thy ===== *)
theory Template_Properties
  imports Factory_Templates
begin

text \<open>
  Expansion of template variables: the replacements, one variable after the other in map order, are the
  simultaneous substitution of the placeholders as long as no value contains an opening brace.
\<close>

subsection \<open>Templates as lists of segments\<close>

















subsection \<open>The variables of a task\<close>




definition titled_task :: "string \<Rightarrow> string \<Rightarrow> FactoryTaskSpec" where
  "titled_task title objective =
     \<lparr>fts_ID = ''t'', fts_SessionID = ''s'', fts_WorkItemID = ''W-1'', fts_Title = title, fts_Objective = objective,
      fts_Description = [], fts_Constraints = [], fts_AcceptanceCriteria = [], fts_WorkType = ''misc'',
      fts_WorkDomain = [], fts_Priority = ''low'', fts_TimeoutSeconds = 0, fts_MaxRetries = 0, fts_KBScopes = [],
      fts_ExecutionConstraints =
        \<lparr>ec_MaxCostUSD = Fin 0, ec_TimeoutSeconds = 0, ec_AllowedClusters = [], ec_RequiredApproval = False\<rparr>,
      fts_WorkspacePath = [], fts_TargetFiles = [], fts_TemplateKey = [],
      fts_CreatedAt = 0, fts_UpdatedAt = 0, fts_SelectedTemplate = [], fts_SelectionSource = [],
      fts_SelectionConfidence = Fin 0, fts_SelectionReasoning = []\<rparr>"

definition bare_step :: "string \<Rightarrow> ExecutionStepTemplate" where
  "bare_step c =
     \<lparr>st_Name = ''x'', st_Description = [], st_Command = c, st_Variables = [], st_Timeout = 60, st_MaxRetries = 1\<rparr>"


text \<open>With a brace in a text of the task the command depends on the order of the map.\<close>

lemma expansion_order_matters:
  "ExpandVariables (\<lambda>k. if k = ''title'' then 0 else 1) ''{{.title}}''
       (buildVariableMap (titled_task ''{{.objective}}'' ''x'') (bare_step [])) = ''x''"
  "ExpandVariables (\<lambda>k. if k = ''title'' then 1 else 0) ''{{.title}}''
       (buildVariableMap (titled_task ''{{.objective}}'' ''x'') (bare_step [])) = ''{{.objective}}''"
  by (simp_all add: ExpandVariables_def buildVariableMap_def bare_step_def titled_task_def go_range_def placeholder_def)

end
