(* ===== verification/Go_Path.thy ===== *)
theory Go_Path
  imports Prelude
begin

text \<open>
  The functions of Go's \<open>path/filepath\<close> on Unix that the factory uses, by the components of a path:
  \<open>Clean\<close>, \<open>Join\<close>, \<open>Base\<close>, \<open>Dir\<close>, \<open>IsAbs\<close>, \<open>Abs\<close> and \<open>Rel\<close>, and the splitting of texts at a byte.
\<close>

subsection \<open>Splitting and joining\<close>

fun split_at :: "char \<Rightarrow> string \<Rightarrow> string list" where
  "split_at d [] = [[]]"
| "split_at d (c # s) =
     (if c = d then [] # split_at d s
      else (case split_at d s of [] \<Rightarrow> [[c]] | w # ws \<Rightarrow> (c # w) # ws))"

fun join_at :: "char \<Rightarrow> string list \<Rightarrow> string" where
  "join_at d [] = []"
| "join_at d [x] = x"
| "join_at d (x # y # xs) = x @ d # join_at d (y # xs)"

lemma split_at_not_Nil [simp]: "split_at d s \<noteq> []"
  by (induction s) (auto split: list.split)

lemma join_split_at [simp]: "join_at d (split_at d s) = s"
proof (induction s)
  case (Cons c s)
  then show ?case by (cases "split_at d s"; cases "tl (split_at d s)") auto
qed simp

lemma split_at_no_sep: "x \<in> set (split_at d s) \<Longrightarrow> d \<notin> set x"
  by (induction s arbitrary: x) (auto split: list.splits if_splits)

lemma split_at_append: "d \<notin> set x \<Longrightarrow> split_at d (x @ d # s) = x # split_at d s"
  by (induction x) auto

lemma split_at_single: "d \<notin> set x \<Longrightarrow> split_at d x = [x]"
  by (induction x) auto

lemma split_join_at: "xs \<noteq> [] \<Longrightarrow> list_all (\<lambda>x. d \<notin> set x) xs \<Longrightarrow> split_at d (join_at d xs) = xs"
proof (induction d xs rule: join_at.induct)
  case (3 d x y xs)
  then show ?case by (simp add: split_at_append)
qed (simp_all add: split_at_single)

subsection \<open>Paths\<close>

abbreviation slash :: char where "slash \<equiv> CHR ''/''"

definition IsAbs :: "string \<Rightarrow> bool" where
  "IsAbs p \<longleftrightarrow> has_prefix p ''/''"

text \<open>The components of a cleaned path: what is left of the components read so far.\<close>

definition push_component :: "bool \<Rightarrow> string \<Rightarrow> string list \<Rightarrow> string list" where
  "push_component rooted c acc =
     (if c = [] \<or> c = ''.'' then acc
      else if c = ''..'' then
        (if acc \<noteq> [] \<and> last acc \<noteq> ''..'' then butlast acc else if rooted then acc else acc @ [c])
      else acc @ [c])"

definition components :: "string \<Rightarrow> string list" where
  "components p = fold (push_component (IsAbs p)) (split_at slash p) []"

definition path_of :: "bool \<Rightarrow> string list \<Rightarrow> string" where
  "path_of rooted cs = (if rooted then slash # join_at slash cs else if cs = [] then ''.'' else join_at slash cs)"

definition Clean :: "string \<Rightarrow> string" where
  "Clean p = path_of (IsAbs p) (components p)"

definition path_join :: "string list \<Rightarrow> string" where
  "path_join elems =
     (let es = dropWhile (\<lambda>e. e = []) elems in if es = [] then [] else Clean (join_at slash es))"

definition Base :: "string \<Rightarrow> string" where
  "Base p =
     (if p = [] then ''.''
      else let q = rev (dropWhile (\<lambda>c. c = slash) (rev p))
           in if q = [] then ''/'' else last (split_at slash q))"

definition Dir :: "string \<Rightarrow> string" where
  "Dir p = Clean (rev (dropWhile (\<lambda>c. c \<noteq> slash) (rev p)))"

definition Abs_path :: "string \<Rightarrow> string \<Rightarrow> string" where
  "Abs_path cwd p = (if IsAbs p then Clean p else path_join [cwd, p])"

fun strip_common :: "string list \<Rightarrow> string list \<Rightarrow> string list \<times> string list" where
  "strip_common (x # xs) (y # ys) = (if x = y then strip_common xs ys else (x # xs, y # ys))"
| "strip_common xs ys = (xs, ys)"

definition Rel :: "string \<Rightarrow> string \<Rightarrow> string option" where
  "Rel base targ =
     (if IsAbs base \<noteq> IsAbs targ then None
      else case strip_common (components base) (components targ) of
             (bs, ts) \<Rightarrow>
               if bs \<noteq> [] \<and> hd bs = ''..'' then None
               else if bs = [] \<and> ts = [] then Some ''.''
               else Some (join_at slash (replicate (length bs) ''..'' @ ts)))"

subsection \<open>Cleaned paths\<close>

text \<open>The components of a cleaned rooted path are proper names.\<close>

definition proper :: "string \<Rightarrow> bool" where
  "proper c \<longleftrightarrow> c \<noteq> [] \<and> c \<noteq> ''.'' \<and> c \<noteq> ''..'' \<and> slash \<notin> set c"

lemma push_proper_rooted:
  "slash \<notin> set c \<Longrightarrow> list_all proper acc \<Longrightarrow> list_all proper (push_component True c acc)"
  by (auto simp: push_component_def proper_def list_all_iff dest: in_set_butlastD)

lemma fold_push_proper:
  "list_all (\<lambda>c. slash \<notin> set c) cs \<Longrightarrow> list_all proper acc
   \<Longrightarrow> list_all proper (fold (push_component True) cs acc)"
  by (induction cs arbitrary: acc) (auto intro!: push_proper_rooted)

lemma components_proper: "IsAbs p \<Longrightarrow> list_all proper (components p)"
  unfolding components_def by (simp, rule fold_push_proper) (auto simp: list_all_iff dest: split_at_no_sep)

lemma fold_push_id: "list_all proper cs \<Longrightarrow> fold (push_component r) cs acc = acc @ cs"
  by (induction cs arbitrary: acc) (auto simp: push_component_def proper_def)

lemma proper_no_slash: "list_all proper cs \<Longrightarrow> list_all (\<lambda>c. slash \<notin> set c) cs"
  by (auto simp: list_all_iff proper_def)

lemma IsAbs_path_of [simp]: "IsAbs (path_of True cs)"
  by (simp add: IsAbs_def path_of_def)

lemma push_component_Nil [simp]: "push_component r [] acc = acc"
  by (simp add: push_component_def)

lemma components_path_of [simp]:
  assumes "list_all proper cs"
  shows "components (path_of True cs) = cs"
proof (cases "cs = []")
  case True
  then show ?thesis by (simp add: components_def path_of_def)
next
  case False
  then have "split_at slash (join_at slash cs) = cs"
    using assms by (simp add: split_join_at proper_no_slash)
  then show ?thesis
    using fold_push_id [OF assms, of True "[]"] IsAbs_path_of [of cs]
    by (simp add: components_def path_of_def del: IsAbs_path_of)
qed

lemma path_of_inject:
  "list_all proper cs \<Longrightarrow> list_all proper ds \<Longrightarrow> path_of True cs = path_of True ds \<longleftrightarrow> cs = ds"
  by (metis components_path_of)

lemma Clean_rooted: "IsAbs p \<Longrightarrow> Clean p = path_of True (components p)"
  by (simp add: Clean_def)

lemma Clean_path_of [simp]: "list_all proper cs \<Longrightarrow> Clean (path_of True cs) = path_of True cs"
  by (simp add: Clean_rooted)

lemma components_Clean: "IsAbs p \<Longrightarrow> components (Clean p) = components p"
  by (simp add: Clean_rooted components_proper)

lemma IsAbs_Clean: "IsAbs p \<Longrightarrow> IsAbs (Clean p)"
  by (simp add: Clean_rooted)

lemma Clean_idem: "IsAbs p \<Longrightarrow> Clean (Clean p) = Clean p"
  by (simp add: Clean_rooted components_proper)

subsection \<open>Relative paths\<close>

lemma strip_common_spec:
  "strip_common xs ys = (bs, ts) \<Longrightarrow>
     \<exists>p. xs = p @ bs \<and> ys = p @ ts \<and> (bs = [] \<or> ts = [] \<or> hd bs \<noteq> hd ts)"
proof (induction xs ys rule: strip_common.induct)
  case (1 x xs y ys)
  show ?case
  proof (cases "x = y")
    case True
    with "1.IH" "1.prems" obtain p where "xs = p @ bs \<and> ys = p @ ts \<and> (bs = [] \<or> ts = [] \<or> hd bs \<noteq> hd ts)"
      by auto
    with True show ?thesis by (intro exI [of _ "x # p"]) simp
  next
    case False
    with "1.prems" show ?thesis by auto
  qed
qed auto

lemma strip_common_append [simp]: "strip_common p (p @ ts) = ([], ts)"
  by (induction p) auto

lemma dots_prefix_iff: "has_prefix s ''..'' \<longleftrightarrow> (\<exists>t. s = ''..'' @ t)"
  by (rule has_prefix_iff)

lemma join_at_dots:
  "slash \<notin> set c \<Longrightarrow> has_prefix (join_at slash (c # cs)) ''..'' \<longleftrightarrow> has_prefix c ''..''"
  by (cases cs; cases c; cases "tl c") (auto simp: has_prefix_iff Cons_eq_append_conv)

lemma join_replicate_dots: "0 < n \<Longrightarrow> has_prefix (join_at slash (replicate n ''..'' @ ts)) ''..''"
proof (cases n)
  case (Suc k)
  then show ?thesis using join_at_dots [of "''..''" "replicate k ''..'' @ ts"] by simp
qed simp

text \<open>
  Of two absolute paths the second has a relative path to the first, and it starts with two dots
  unless the second lies in the first, not counting names that start with two dots.
\<close>

lemma Rel_inside:
  assumes "IsAbs root" "IsAbs p"
  shows "\<exists>rel. Rel root p = Some rel \<and>
           (has_prefix rel ''..'' \<longleftrightarrow>
            \<not> (\<exists>ts. components p = components root @ ts \<and> (ts = [] \<or> \<not> has_prefix (hd ts) ''..'')))"
proof -
  obtain bs ts where st: "strip_common (components root) (components p) = (bs, ts)" by fastforce
  then obtain q where q: "components root = q @ bs" "components p = q @ ts"
      "bs = [] \<or> ts = [] \<or> hd bs \<noteq> hd ts"
    using strip_common_spec by blast
  have pr: "list_all proper bs" "list_all proper ts"
    using components_proper [OF assms(1)] components_proper [OF assms(2)] by (auto simp: q)
  then have nd: "bs = [] \<or> hd bs \<noteq> ''..''" by (cases bs) (auto simp: proper_def)
  show ?thesis
  proof (cases bs)
    case Nil
    show ?thesis
    proof (cases ts)
      case Nil
      then show ?thesis using \<open>bs = []\<close> st assms by (simp add: Rel_def q)
    next
      case (Cons t us)
      then have "slash \<notin> set t" using pr(2) by (simp add: proper_def)
      then show ?thesis
        using \<open>bs = []\<close> st assms Cons join_at_dots [of t us] by (simp add: Rel_def q)
    qed
  next
    case (Cons b cs)
    then have "\<not> (\<exists>us. components p = components root @ us)"
      using q by (cases ts) auto
    moreover have "Rel root p = Some (join_at slash (replicate (length bs) ''..'' @ ts))"
      using nd st assms Cons by (simp add: Rel_def)
    ultimately show ?thesis using join_replicate_dots [of "length bs" ts] Cons by simp
  qed
qed

subsection \<open>Base and Dir\<close>

lemma join_at_snoc: "cs \<noteq> [] \<Longrightarrow> join_at d (cs @ [c]) = join_at d cs @ d # c"
  by (induction d cs rule: join_at.induct) auto

lemma path_of_snoc:
  "path_of True (cs @ [c]) = (if cs = [] then [slash] else path_of True cs @ [slash]) @ c"
  by (simp add: path_of_def join_at_snoc)

lemma dropWhile_slash_free:
  "slash \<notin> set c \<Longrightarrow> rev (dropWhile (\<lambda>c. c \<noteq> slash) (rev (p @ slash # c))) = p @ [slash]"
  by (simp add: dropWhile_append3) (auto simp: dropWhile_eq_Nil_conv)

lemma split_at_concat: "split_at d (a @ d # b) = split_at d a @ split_at d b"
  by (induction a) (auto split: list.split simp: split_at_not_Nil)

lemma last_split_at_slash: "slash \<notin> set c \<Longrightarrow> last (split_at slash (p @ slash # c)) = c"
  by (simp add: split_at_concat split_at_single)

lemma Base_snoc:
  assumes "proper c"
  shows "Base (path_of True (cs @ [c])) = c"
proof -
  define p where "p = (if cs = [] then [] else path_of True cs)"
  have p: "path_of True (cs @ [c]) = p @ slash # c" by (simp add: path_of_snoc p_def)
  have "rev c \<noteq> []" "hd (rev c) \<in> set c"
    using assms by (auto simp: proper_def hd_rev)
  then have "dropWhile (\<lambda>c. c = slash) (rev (p @ slash # c)) = rev (p @ slash # c)"
    using assms by (cases "rev c") (auto simp: proper_def)
  then show ?thesis
    using assms by (simp add: p Base_def proper_def last_split_at_slash del: rev_append)
qed

lemma Base_root: "Base (path_of True []) = ''/''"
  by (simp add: Base_def path_of_def)

lemma components_trailing_slash: "IsAbs p \<Longrightarrow> components (p @ [slash]) = components p"
proof -
  assume a: "IsAbs p"
  have "split_at slash (p @ [slash]) = split_at slash p @ [[]]"
    by (induction p) (auto split: list.split simp: split_at_not_Nil)
  moreover have "IsAbs (p @ [slash])" using a by (simp add: IsAbs_def has_prefix_mono)
  ultimately show ?thesis using a by (simp add: components_def)
qed

lemma Dir_snoc:
  assumes "list_all proper cs" "proper c"
  shows "Dir (path_of True (cs @ [c])) = path_of True cs"
proof (cases "cs = []")
  case True
  have "rev (dropWhile (\<lambda>c. c \<noteq> slash) (rev ([] @ slash # c))) = [slash]"
    using assms by (subst dropWhile_slash_free) (simp_all add: proper_def)
  then show ?thesis
    using True by (simp add: path_of_snoc Dir_def Clean_def components_def IsAbs_def path_of_def)
next
  case False
  have "rev (dropWhile (\<lambda>c. c \<noteq> slash) (rev (path_of True cs @ slash # c))) = path_of True cs @ [slash]"
    using assms by (subst dropWhile_slash_free) (simp_all add: proper_def)
  moreover have "IsAbs (path_of True cs @ [slash])"
    using IsAbs_path_of [of cs] by (simp add: IsAbs_def has_prefix_mono del: IsAbs_path_of)
  ultimately show ?thesis
    using False assms by (simp add: path_of_snoc Dir_def Clean_rooted components_trailing_slash)
qed

subsection \<open>Joining\<close>

lemma components_join3:
  assumes "a \<noteq> []"
  shows "components (join_at slash [a, b, c]) =
           fold (push_component (IsAbs a)) (split_at slash a @ split_at slash b @ split_at slash c) []"
proof -
  have "IsAbs (a @ slash # b @ slash # c) = IsAbs a"
    using assms by (cases a) (simp_all add: IsAbs_def)
  then show ?thesis by (simp add: components_def split_at_concat)
qed

lemma path_join3:
  assumes "IsAbs root" "proper s" "proper t"
  shows "path_join [root, s, t] = path_of True (components root @ [s, t])"
proof -
  have ne: "root \<noteq> []" using assms(1) by (auto simp: IsAbs_def)
  have abs: "IsAbs (join_at slash [root, s, t])" using assms(1) by (simp add: IsAbs_def has_prefix_mono)
  have "components (join_at slash [root, s, t]) = fold (push_component True) [s, t] (components root)"
    using assms ne by (subst components_join3) (simp_all add: components_def split_at_single proper_def)
  also have "\<dots> = components root @ [s, t]"
    using assms by (subst fold_push_id) simp_all
  finally show ?thesis
    using ne abs by (simp add: path_join_def Clean_rooted del: join_at.simps)
qed

end
