(* ===== verification/OS_View.thy ===== *)
theory OS_View
  imports Go_Path GoFloat Factory_Types
begin

text \<open>
  What the checks of the factory read of the operating system, and Go's readers of its texts:
  \<open>strings.Fields\<close>, \<open>fmt.Sscanf\<close> with \<open>%d\<close>, \<open>strconv.ParseUint\<close> and the verb \<open>%v\<close> of a list of strings.

  An \<open>os_view\<close> answers the questions of one check: a command in a directory (its output, and the text of its
  error), \<open>os.Stat\<close>, \<open>os.ReadFile\<close>, \<open>os.Open\<close>, \<open>exec.LookPath\<close>, \<open>filepath.Glob\<close>, \<open>syscall.Statfs\<close>
  (free blocks and block size) and whether the system is Linux. One check sees one view; views of
  different checks are unrelated.
\<close>

datatype stat_result = StatOk | StatNotExist | StatError

record os_view =
  os_cmd :: "string \<Rightarrow> string list \<Rightarrow> string \<times> string option"
  os_stat :: "string \<Rightarrow> stat_result"
  os_read :: "string \<Rightarrow> string + string"
  os_open :: "string \<Rightarrow> bool"
  os_lookpath :: "string \<Rightarrow> bool"
  os_glob :: "string \<Rightarrow> string list"
  os_statfs :: "string \<Rightarrow> string + nat \<times> nat"
  os_linux :: bool
  os_heapMB :: nat
  os_fmt2 :: "float64 \<Rightarrow> string"
  os_sha256hex :: "string \<Rightarrow> string"

subsection \<open>Fields\<close>

fun next_field :: "string \<Rightarrow> string \<times> string" where
  "next_field [] = ([], [])"
| "next_field (c # s) =
     (if rune_at space_runes (c # s) \<noteq> None then ([], c # s)
      else case next_field s of (w, rest) \<Rightarrow> (c # w, rest))"

lemma next_field_append: "next_field s = (w, rest) \<Longrightarrow> s = w @ rest"
  by (induction s arbitrary: w rest) (auto split: if_splits prod.splits)

lemma next_field_not_Nil:
  "next_field s = (w, rest) \<Longrightarrow> s \<noteq> [] \<Longrightarrow> rune_at space_runes s = None \<Longrightarrow> w \<noteq> []"
  by (cases s) (auto split: prod.splits)

lemma length_drop_runes: "length (drop_runes rs s) \<le> length s"
  using drop_runes_suffix [of s rs] by (metis le_add2 length_append)

lemma field_shorter:
  assumes "(w, rest) = next_field (drop_runes space_runes s)" "drop_runes space_runes s \<noteq> []"
  shows "length rest < length s"
proof -
  let ?t = "drop_runes space_runes s"
  have eq: "?t = w @ rest" using next_field_append [of ?t w rest] assms(1) by simp
  have "w \<noteq> []" using next_field_not_Nil [of ?t w rest] assms drop_runes_done by simp
  then have "length rest < length ?t" by (simp add: eq)
  also have "length ?t \<le> length s" by (rule length_drop_runes)
  finally show ?thesis .
qed

function go_fields :: "string \<Rightarrow> string list" where
  "go_fields s =
     (let t = drop_runes space_runes s
      in if t = [] then [] else case next_field t of (w, rest) \<Rightarrow> w # go_fields rest)"
  by pat_completeness auto
termination
  by (relation "measure length") (auto dest: field_shorter)

declare go_fields.simps [simp del]

subsection \<open>Numbers\<close>

definition sscan_uint :: "string \<Rightarrow> nat" where
  "sscan_uint s =
     (let ds = takeWhile is_digit_char s
      in if ds \<noteq> [] \<and> parse_digits 0 ds < 2 ^ 64 then parse_digits 0 ds else 0)"

definition sscan_int :: "string \<Rightarrow> int" where
  "sscan_int s =
     (let neg = has_prefix s ''-'';
          ds = takeWhile is_digit_char (if neg \<or> has_prefix s ''+'' then tl s else s);
          n = (if neg then - int (parse_digits 0 ds) else int (parse_digits 0 ds))
      in if ds \<noteq> [] \<and> - (2 ^ 63) \<le> n \<and> n < 2 ^ 63 then n else 0)"

text \<open>The value of \<open>strconv.ParseUint(s, 10, 64)\<close> when its error is ignored.\<close>

definition ParseUint_value :: "string \<Rightarrow> nat" where
  "ParseUint_value s =
     (if s = [] \<or> \<not> list_all is_digit_char s then 0
      else min (parse_digits 0 s) (2 ^ 64 - 1))"

definition fmt_list :: "string list \<Rightarrow> string" where
  "fmt_list xs = ''['' @ join_with '' '' xs @ '']''"

definition uint64 :: "nat \<Rightarrow> nat" where
  "uint64 n = n mod 2 ^ 64"

abbreviation newline :: char where "newline \<equiv> CHR 0x0A"

end
