(* ===== verification/Preflight.thy ===== *)
theory Preflight
  imports OS_View
begin

text \<open>
  Preflight checks of the factory: the basic checker (\<open>internal/factory/preflight.go\<close>) and the enhanced one
  with its modes (\<open>preflight_enhanced.go\<close>).

  A check maps an \<open>os_view\<close> and the task to its result; no check returns an error, so the branch that wraps
  one is not there. The checkers overwrite the duration of every result: \<open>dur i\<close> is what they measure for the
  \<open>i\<close>-th check, and \<open>osv i\<close> the view that check has. The workspace manager is never nil in the factory:
  \<open>wm\<close> says whether there is one. The description of the environment in the enhanced report is left out.
\<close>

record PreflightCheckResult =
  pf_Name :: string
  pf_Passed :: bool
  pf_Message :: string
  pf_Details :: string
  pf_FixSuggestion :: string
  pf_Duration :: duration

record PreflightReport =
  pr_TaskID :: string
  pr_SessionID :: string
  pr_Timestamp :: time
  pr_AllPassed :: bool
  pr_Checks :: "PreflightCheckResult list"

definition pre_check :: "string \<Rightarrow> bool \<Rightarrow> string \<Rightarrow> string \<Rightarrow> string \<Rightarrow> PreflightCheckResult" where
  "pre_check name passed msg details fix =
     \<lparr>pf_Name = name, pf_Passed = passed, pf_Message = msg, pf_Details = details, pf_FixSuggestion = fix,
      pf_Duration = 0\<rparr>"

type_synonym preflight_check = "os_view \<Rightarrow> FactoryTaskSpec \<Rightarrow> PreflightCheckResult"

definition mib :: nat where "mib = 1024 * 1024"

subsection \<open>The basic checks\<close>

definition checkGitAvailable :: preflight_check where
  "checkGitAvailable os spec =
     (case os_cmd os [] [''git'', ''--version''] of
        (output, Some e) \<Rightarrow>
          pre_check ''git_available'' False ''Git is not available'' (''Error: '' @ e)
            ''Install git: apt-get install git or brew install git''
      | (output, None) \<Rightarrow> pre_check ''git_available'' True ''Git is available'' (trim_space output) [])"

definition git_version_check :: "string \<Rightarrow> os_view \<Rightarrow> PreflightCheckResult" where
  "git_version_check assumed os =
     (case os_cmd os [] [''git'', ''version''] of
        (output, Some e) \<Rightarrow> pre_check ''git_version'' False ''Failed to get git version'' (''Error: '' @ e) []
      | (output, None) \<Rightarrow>
          let version = trim_space output; parts = go_fields version
          in if contains_str version ''git version'' \<and> length parts \<ge> 3
             then pre_check ''git_version'' True ''Git version supports worktrees'' (''Version: '' @ parts ! 2) []
             else pre_check ''git_version'' True assumed version [])"

definition checkGitVersion :: preflight_check where
  "checkGitVersion os spec = git_version_check ''Git version check passed (assumed compatible)'' os"

definition checkWorktreeSupport :: preflight_check where
  "checkWorktreeSupport os spec = pre_check ''worktree_support'' True ''Git worktree support available'' [] []"

definition checkRepoState :: preflight_check where
  "checkRepoState os spec =
     (if fts_WorkspacePath spec = []
      then pre_check ''repo_state'' True ''No workspace path set (will be allocated)'' [] []
      else case os_cmd os [] [''git'', ''-C'', fts_WorkspacePath spec, ''status'', ''--porcelain''] of
             (output, Some e) \<Rightarrow> pre_check ''repo_state'' True ''Could not check repo state'' (''Error: '' @ e) []
           | (output, None) \<Rightarrow>
               if length (trim_space output) > 0
               then pre_check ''repo_state'' True ''Repository has uncommitted changes''
                      (''Dirty files: '' @ trim_space output) []
               else pre_check ''repo_state'' True ''Repository is clean'' [] [])"

definition workspace_config_check :: "bool \<Rightarrow> FactoryTaskSpec \<Rightarrow> PreflightCheckResult" where
  "workspace_config_check wm spec =
     (if \<not> wm then pre_check ''workspace_config'' False ''Workspace manager not configured'' [] []
      else if fts_ID spec = [] then pre_check ''workspace_config'' False ''Task ID is empty'' [] []
      else if fts_SessionID spec = [] then pre_check ''workspace_config'' False ''Session ID is empty'' [] []
      else pre_check ''workspace_config'' True ''Workspace configuration valid'' [] [])"

definition checkWorkspaceConfig :: "bool \<Rightarrow> preflight_check" where
  "checkWorkspaceConfig wm os spec = workspace_config_check wm spec"

text \<open>The number of the first line with \<open>MemAvailable\<close> (in kilobytes, which the code takes for megabytes).\<close>

definition mem_available :: "os_view \<Rightarrow> int" where
  "mem_available os =
     (if os_stat os ''/proc/meminfo'' \<noteq> StatOk then 0
      else case os_read os ''/proc/meminfo'' of
             Inl e \<Rightarrow> 0
           | Inr memData \<Rightarrow>
               (case find (\<lambda>l. has_prefix l ''MemAvailable:'') (split_at newline memData) of
                  None \<Rightarrow> 0
                | Some l \<Rightarrow> let fields = go_fields l in if length fields \<ge> 2 then sscan_int (fields ! 1) else 0))"

definition checkResourceAvailability :: preflight_check where
  "checkResourceAvailability os spec =
     (let workspacePath = (if fts_WorkspacePath spec = [] then ''.'' else fts_WorkspacePath spec)
      in case os_cmd os [] [''df'', ''-B1'', workspacePath] of
           (output, Some e) \<Rightarrow>
             pre_check ''resource_availability'' False ''Failed to check disk space'' (''Error: '' @ e) []
         | (output, None) \<Rightarrow>
             let lines = split_at newline (trim_space output)
             in if length lines < 2
                then pre_check ''resource_availability'' False ''Failed to parse disk space output'' output []
                else
                  let fields = go_fields (lines ! 1);
                      freeSpaceBytes = (if length fields \<ge> 4 then sscan_uint (fields ! 3) else 0);
                      memAvailableMB = mem_available os
                  in if freeSpaceBytes < 500 * mib
                     then pre_check ''resource_availability'' False ''Insufficient disk space''
                            (''Available: '' @ itoa (int (freeSpaceBytes div mib)) @ '' MB, Required: 500 MB'')
                            ''Free up disk space or choose a different workspace location''
                     else if memAvailableMB > 0 \<and> memAvailableMB < 100
                     then pre_check ''resource_availability'' False ''Insufficient memory''
                            (''Available: '' @ itoa memAvailableMB @ '' MB, Required: 100 MB'')
                            ''Close other applications or increase available memory''
                     else pre_check ''resource_availability'' True ''Sufficient resources available''
                            (''Disk: '' @ itoa (int (freeSpaceBytes div mib)) @ '' MB free'' @
                             (if memAvailableMB > 0 then '', Memory: '' @ itoa memAvailableMB @ '' MB available'' else []))
                            [])"

subsection \<open>The basic checker\<close>

definition preflight_checks :: "bool \<Rightarrow> preflight_check list" where
  "preflight_checks wm =
     [checkGitAvailable, checkGitVersion, checkWorktreeSupport, checkRepoState, checkWorkspaceConfig wm,
      checkResourceAvailability]"

definition new_preflight_report :: "time \<Rightarrow> FactoryTaskSpec \<Rightarrow> PreflightReport" where
  "new_preflight_report now spec =
     \<lparr>pr_TaskID = fts_ID spec, pr_SessionID = fts_SessionID spec, pr_Timestamp = now, pr_AllPassed = True,
      pr_Checks = []\<rparr>"

text \<open>The loop over the checks, from the \<open>i\<close>-th on; \<open>blocking\<close> tells whether its failure fails the report.\<close>

fun preflight_loop ::
    "(nat \<Rightarrow> os_view) \<Rightarrow> (nat \<Rightarrow> duration) \<Rightarrow> FactoryTaskSpec \<Rightarrow> nat \<Rightarrow> (bool \<times> preflight_check) list
     \<Rightarrow> PreflightReport \<Rightarrow> PreflightReport" where
  "preflight_loop osv dur spec i [] report = report"
| "preflight_loop osv dur spec i ((blocking, check) # checks) report =
     (let result = (check (osv i) spec)\<lparr>pf_Duration := dur i\<rparr>;
          report' = report\<lparr>pr_Checks := pr_Checks report @ [result]\<rparr>
      in preflight_loop osv dur spec (Suc i) checks
           (if \<not> pf_Passed result \<and> blocking then report'\<lparr>pr_AllPassed := False\<rparr> else report'))"

definition RunPreflightChecks ::
    "bool \<Rightarrow> time \<Rightarrow> (nat \<Rightarrow> os_view) \<Rightarrow> (nat \<Rightarrow> duration) \<Rightarrow> FactoryTaskSpec \<Rightarrow> PreflightReport" where
  "RunPreflightChecks wm now osv dur spec =
     preflight_loop osv dur spec 0 (map (Pair True) (preflight_checks wm)) (new_preflight_report now spec)"

definition failed_checks :: "PreflightReport \<Rightarrow> string" where
  "failed_checks report =
     join_with ''; '' (map (\<lambda>c. pf_Name c @ '': '' @ pf_Message c) (filter (\<lambda>c. \<not> pf_Passed c) (pr_Checks report)))"

definition MustRunPreflightChecks ::
    "bool \<Rightarrow> time \<Rightarrow> (nat \<Rightarrow> os_view) \<Rightarrow> (nat \<Rightarrow> duration) \<Rightarrow> FactoryTaskSpec \<Rightarrow> PreflightReport \<times> string option" where
  "MustRunPreflightChecks wm now osv dur spec =
     (let report = RunPreflightChecks wm now osv dur spec
      in (report, if \<not> pr_AllPassed report then Some (''preflight checks failed: '' @ failed_checks report) else None))"

subsection \<open>The enhanced checks\<close>

abbreviation PreflightModeLenient :: string where "PreflightModeLenient \<equiv> ''lenient''"
abbreviation PreflightModeStrict :: string where "PreflightModeStrict \<equiv> ''strict''"
abbreviation PreflightModeFailClosed :: string where "PreflightModeFailClosed \<equiv> ''fail-closed''"

record EnhancedPreflightChecker =
  ep_manager :: bool
  ep_mode :: string
  ep_minDiskSpaceGB :: float64
  ep_minMemoryMB :: nat

definition NewEnhancedPreflightChecker :: "bool \<Rightarrow> string \<Rightarrow> EnhancedPreflightChecker" where
  "NewEnhancedPreflightChecker wm mode =
     \<lparr>ep_manager = wm, ep_mode = (if mode = [] then PreflightModeStrict else mode), ep_minDiskSpaceGB = Fin 2,
      ep_minMemoryMB = 1024\<rparr>"

definition checkRepoValid :: preflight_check where
  "checkRepoValid os spec =
     (let workspacePath = fts_WorkspacePath spec
      in if workspacePath = []
         then pre_check ''repo_valid'' True ''No workspace path set (will be allocated)'' [] []
         else if os_stat os workspacePath = StatNotExist
         then pre_check ''repo_valid'' False ''Workspace directory does not exist'' workspacePath
                ''Allocate workspace before checking repo state''
         else if os_stat os (path_join [workspacePath, ''.git'']) = StatNotExist
         then pre_check ''repo_valid'' False ''Workspace is not a git repository'' workspacePath
                ''Initialize git repository: git init''
         else case os_cmd os [] [''git'', ''-C'', workspacePath, ''rev-parse'', ''--verify'', ''HEAD''] of
                (output, Some e) \<Rightarrow>
                  pre_check ''repo_valid'' False ''Repository has no HEAD (empty or corrupted)'' (trim_space output)
                    (sq [''Initialize repository with a commit: git commit --allow-empty -m '', ''Initial commit'', []])
              | (output, None) \<Rightarrow>
                  pre_check ''repo_valid'' True ''Repository is valid'' ''Git repository exists with HEAD'' [])"

definition checkRepoCleanStrict :: "string \<Rightarrow> preflight_check" where
  "checkRepoCleanStrict mode os spec =
     (let workspacePath = fts_WorkspacePath spec
      in if workspacePath = [] then pre_check ''repo_clean'' True ''No workspace path set'' [] []
         else case os_cmd os [] [''git'', ''-C'', workspacePath, ''status'', ''--porcelain''] of
                (output, Some e) \<Rightarrow>
                  pre_check ''repo_clean'' True ''Could not check repo cleanliness'' (''Error: '' @ e) []
              | (output, None) \<Rightarrow>
                  let statusLines = split_at newline (trim_space output)
                  in if length statusLines > 0 \<and> hd statusLines \<noteq> [] then
                       let dirtyCount = length (filter (\<lambda>l. l \<noteq> []) statusLines);
                           message = ''Repository has '' @ itoa (int dirtyCount) @ '' uncommitted changes''
                       in if mode = PreflightModeFailClosed
                          then pre_check ''repo_clean'' False message (trim_space output)
                                 ''Commit or stash changes before execution''
                          else pre_check ''repo_clean'' True (message @ '' (warning)'') (trim_space output) []
                     else pre_check ''repo_clean'' True ''Repository is clean'' [] [])"

definition checkDiskSpace :: "float64 \<Rightarrow> preflight_check" where
  "checkDiskSpace minDiskSpaceGB os spec =
     (let checkPath = (if fts_WorkspacePath spec = [] then ''.'' else fts_WorkspacePath spec)
      in case os_statfs os checkPath of
           Inl e \<Rightarrow> pre_check ''disk_space'' True ''Could not check disk space'' (''Error: '' @ e) []
         | Inr (bavail, bsize) \<Rightarrow>
             let availableGB = fdiv (float_of_int (int (uint64 (bavail * bsize)))) (Fin (1024 * 1024 * 1024));
                 details = ''Available: '' @ os_fmt2 os availableGB @ '' GB (minimum: '' @ os_fmt2 os minDiskSpaceGB @ '' GB)''
             in if flt availableGB minDiskSpaceGB
                then pre_check ''disk_space'' False ''Insufficient disk space'' details
                       ''Free up disk space or increase minimum threshold''
                else pre_check ''disk_space'' True ''Sufficient disk space available'' details [])"

text \<open>The last line of \<open>/proc/meminfo\<close> with a name sets the value of that name, in bytes.\<close>

definition meminfo_value :: "string \<Rightarrow> string \<Rightarrow> nat" where
  "meminfo_value name memData =
     fold (\<lambda>line v. let fields = go_fields line
                    in if length fields \<ge> 3 \<and> hd fields = name then uint64 (ParseUint_value (fields ! 1) * 1024) else v)
       (split_at newline memData) 0"

definition checkMemoryAvailable :: "nat \<Rightarrow> preflight_check" where
  "checkMemoryAvailable minMemoryMB os spec =
     (let fallback = pre_check ''memory_available'' True ''Memory check passed (system-specific check unavailable)''
                       (''Go alloc: '' @ itoa (int (os_heapMB os)) @ '' MB (system-specific memory check unavailable)'') []
      in if \<not> os_linux os then fallback
         else case os_read os ''/proc/meminfo'' of
                Inl e \<Rightarrow> fallback
              | Inr memData \<Rightarrow>
                  let availableMB = uint64 (meminfo_value ''MemFree:'' memData + meminfo_value ''Buffers:'' memData
                                            + meminfo_value ''Cached:'' memData) div mib;
                      totalMB = meminfo_value ''MemTotal:'' memData div mib;
                      details = ''Available: '' @ itoa (int availableMB) @ '' MB (total: '' @ itoa (int totalMB) @
                                '' MB, minimum: '' @ itoa (int minMemoryMB) @ '' MB)''
                  in if availableMB < minMemoryMB
                     then pre_check ''memory_available'' False ''Insufficient memory available'' details
                            ''Close other processes or increase minimum threshold''
                     else pre_check ''memory_available'' True ''Sufficient memory available'' details [])"

definition checkNetworkConnectivity :: preflight_check where
  "checkNetworkConnectivity os spec =
     (let failedHosts = filter (\<lambda>host. snd (os_cmd os [] [''ping'', ''-c'', ''1'', ''-W'', ''2'', host]) \<noteq> None)
                          [''github.com'', ''8.8.8.8'']
      in if failedHosts = []
         then pre_check ''network_connectivity'' True ''Network connectivity OK'' ''All 2 hosts reachable'' []
         else pre_check ''network_connectivity'' True ''Limited network connectivity (non-critical)''
                (''Unreachable hosts: '' @ fmt_list failedHosts) [])"

definition enhanced_checkGitVersion :: preflight_check where
  "enhanced_checkGitVersion os spec = git_version_check ''Git version check passed'' os"

text \<open>Three checks have the code of the basic checker.\<close>

definition enhanced_checkGitAvailable :: preflight_check where
  "enhanced_checkGitAvailable = checkGitAvailable"

definition enhanced_checkWorktreeSupport :: preflight_check where
  "enhanced_checkWorktreeSupport = checkWorktreeSupport"

definition enhanced_checkWorkspaceConfig :: "bool \<Rightarrow> preflight_check" where
  "enhanced_checkWorkspaceConfig = checkWorkspaceConfig"

subsection \<open>The enhanced checker\<close>

definition enhanced_checks :: "EnhancedPreflightChecker \<Rightarrow> (bool \<times> preflight_check) list" where
  "enhanced_checks e =
     [(True, enhanced_checkGitAvailable), (True, enhanced_checkGitVersion), (True, enhanced_checkWorktreeSupport),
      (True, checkRepoValid), (False, checkRepoCleanStrict (ep_mode e)), (True, checkDiskSpace (ep_minDiskSpaceGB e)),
      (True, checkMemoryAvailable (ep_minMemoryMB e)), (True, enhanced_checkWorkspaceConfig (ep_manager e)),
      (False, checkNetworkConnectivity)]"

definition mode_blocks :: "string \<Rightarrow> bool \<Rightarrow> bool" where
  "mode_blocks mode critical \<longleftrightarrow>
     mode = PreflightModeFailClosed \<or> (mode = PreflightModeStrict \<and> critical)"

definition RunEnhancedPreflightChecks ::
    "EnhancedPreflightChecker \<Rightarrow> time \<Rightarrow> (nat \<Rightarrow> os_view) \<Rightarrow> (nat \<Rightarrow> duration) \<Rightarrow> FactoryTaskSpec
     \<Rightarrow> PreflightReport \<times> string option" where
  "RunEnhancedPreflightChecks e now osv dur spec =
     (preflight_loop osv dur spec 0 (map (\<lambda>(critical, c). (mode_blocks (ep_mode e) critical, c)) (enhanced_checks e))
        (new_preflight_report now spec), None)"

definition MustRunEnhancedPreflightChecks ::
    "EnhancedPreflightChecker \<Rightarrow> time \<Rightarrow> (nat \<Rightarrow> os_view) \<Rightarrow> (nat \<Rightarrow> duration) \<Rightarrow> FactoryTaskSpec
     \<Rightarrow> PreflightReport \<times> string option" where
  "MustRunEnhancedPreflightChecks e now osv dur spec =
     (let report = fst (RunEnhancedPreflightChecks e now osv dur spec)
      in (report, if \<not> pr_AllPassed report
                  then Some (''enhanced preflight checks failed: '' @ failed_checks report) else None))"

end
