(* ===== verification/Postflight.thy ===== *)
theory Postflight
  imports OS_View
begin

text \<open>
  Postflight verification of the factory: the basic verifier (\<open>internal/factory/postflight.go\<close>) and the
  enhanced one (\<open>postflight_enhanced.go\<close>).

  As for the preflight checks, the \<open>i\<close>-th check has the view \<open>osv i\<close> and the measured duration \<open>dur i\<close>, and
  none returns an error. The result of the execution is not nil where the verifiers are called; they
  change it (the recommendation, the mark of a failed verification, the paths of the artifacts), so it
  is returned.
\<close>

record PostflightCheckResult =
  qf_Name :: string
  qf_Passed :: bool
  qf_Message :: string
  qf_Details :: string
  qf_Duration :: duration

record PostflightReport =
  qr_TaskID :: string
  qr_SessionID :: string
  qr_Timestamp :: time
  qr_AllPassed :: bool
  qr_Checks :: "PostflightCheckResult list"

definition post_check :: "string \<Rightarrow> bool \<Rightarrow> string \<Rightarrow> string \<Rightarrow> PostflightCheckResult" where
  "post_check name passed msg details =
     \<lparr>qf_Name = name, qf_Passed = passed, qf_Message = msg, qf_Details = details, qf_Duration = 0\<rparr>"

type_synonym postflight_check = "os_view \<Rightarrow> ExecutionResult \<Rightarrow> PostflightCheckResult"

text \<open>The em dash of the messages, in UTF-8.\<close>

definition em_dash :: string where "em_dash = [CHR 0xE2, CHR 0x80, CHR 0x94]"

subsection \<open>Checks of both verifiers\<close>

definition checkExecutionCompleted :: postflight_check where
  "checkExecutionCompleted os result =
     (if er_Error result \<noteq> []
      then post_check ''execution_completed'' False ''Execution failed with error'' (er_Error result)
      else if \<not> er_Success result
      then post_check ''execution_completed'' False ''Execution marked as unsuccessful'' (''Status: '' @ er_Status result)
      else post_check ''execution_completed'' True ''Execution completed successfully'' [])"

definition workspace_check :: "string \<Rightarrow> postflight_check" where
  "workspace_check name os result =
     (if er_WorkspacePath result = [] then post_check name True ''No workspace path to verify'' []
      else if os_stat os (er_WorkspacePath result) = StatNotExist
      then post_check name False ''Workspace directory does not exist'' (er_WorkspacePath result)
      else if \<not> os_open os (er_WorkspacePath result)
      then post_check name False ''Workspace directory is not accessible'' (er_WorkspacePath result)
      else post_check name True ''Workspace is accessible'' (er_WorkspacePath result))"

definition checkWorkspaceClean :: postflight_check where
  "checkWorkspaceClean = workspace_check ''workspace_clean''"

definition artifacts_check :: "string list \<Rightarrow> string \<Rightarrow> postflight_check" where
  "artifacts_check patterns kinds os result =
     (if er_WorkspacePath result = []
      then post_check ''artifacts_generated'' True ''No workspace path (no artifacts to verify)'' []
      else let artifacts = concat (map (\<lambda>p. os_glob os (path_join [er_WorkspacePath result, p])) patterns)
           in if length artifacts = 0
              then post_check ''artifacts_generated'' True ''No artifacts generated''
                     (''No '' @ kinds @ '' files found in workspace'')
              else post_check ''artifacts_generated'' True (''Found '' @ itoa (int (length artifacts)) @ '' artifacts'')
                     (join_with '', '' artifacts))"

definition checkArtifactsGenerated :: postflight_check where
  "checkArtifactsGenerated = artifacts_check [''*.json'', ''*.md'', ''*.log''] ''JSON/MD/LOG''"

text \<open>The path of a declared file.\<close>

definition absolute_file :: "ExecutionResult \<Rightarrow> string \<Rightarrow> string" where
  "absolute_file result filePath =
     (if \<not> IsAbs filePath \<and> er_WorkspacePath result \<noteq> [] then path_join [er_WorkspacePath result, filePath]
      else filePath)"

definition missing_files :: "os_view \<Rightarrow> ExecutionResult \<Rightarrow> string list" where
  "missing_files os result =
     filter (\<lambda>f. os_stat os (absolute_file result f) = StatNotExist) (er_FilesChanged result)"

definition declared_files_check :: postflight_check where
  "declared_files_check os result =
     (let missingFiles = missing_files os result
      in if length missingFiles > 0
         then post_check ''files_verified'' False
                (itoa (int (length missingFiles)) @ '' files declared as changed but not found'') (join_with '', '' missingFiles)
         else post_check ''files_verified'' True
                (''All '' @ itoa (int (length (er_FilesChanged result))) @ '' declared files verified'') [])"

definition checkFilesCreated :: postflight_check where
  "checkFilesCreated os result =
     (if length (er_FilesChanged result) = 0
      then post_check ''files_verified'' False (''No files generated '' @ em_dash @ '' hard failure'')
             ''Task completed but produced zero files''
      else declared_files_check os result)"

definition realPatterns :: "string list" where
  "realPatterns =
     [''=== run'', ''--- pass'', ''--- fail'', ''passed'', ''failed'', ''ok '', ''error:'', ''assertion'', ''expect'', ''::'']"

text \<open>A test step counts when its output is not a simulation and has two of the patterns.\<close>

definition real_test_step :: "ExecutionStep \<Rightarrow> bool" where
  "real_test_step step \<longleftrightarrow>
     (let output = to_lower (es_Output step)
      in es_Output step \<noteq> [] \<and> \<not> contains_str output ''simulating'' \<and> \<not> contains_str output ''echo ''
         \<and> \<not> contains_str output ''placeholder'' \<and> length (filter (contains_str output) realPatterns) \<ge> 2)"

definition test_steps :: "ExecutionResult \<Rightarrow> ExecutionStep list" where
  "test_steps result =
     filter (\<lambda>s. contains_str (to_lower (es_Name s)) ''test'' \<or> contains_str (to_lower (es_Name s)) ''verify'')
       (er_ExecutionSteps result)"

definition go_bool :: "bool \<Rightarrow> string" where
  "go_bool b = (if b then ''true'' else ''false'')"

definition checkTestsRan :: postflight_check where
  "checkTestsRan os result =
     (let testSteps = test_steps result
      in if length (er_TestsRun result) = 0 then post_check ''tests_verified'' True ''No tests declared'' []
         else if length testSteps = 0
         then post_check ''tests_verified'' False ''Tests declared but no test execution steps found''
                (''Declared: '' @ fmt_list (er_TestsRun result))
         else if list_ex real_test_step testSteps
         then post_check ''tests_verified'' (er_TestsPassed result)
                (''Test execution verified ('' @ itoa (int (length testSteps)) @ '' test steps)'')
                (''Tests passed: '' @ go_bool (er_TestsPassed result) @ '', Steps: '' @ itoa (int (length testSteps)))
         else post_check ''tests_verified'' False ''Tests declared but test steps lack real output''
                (sq [''Test steps found but output doesn'', ''t match real test patterns'']))"

subsection \<open>Checks of the basic verifier\<close>

definition checkGitStatus :: postflight_check where
  "checkGitStatus os result =
     (if er_WorkspacePath result = [] then post_check ''git_status'' True ''No workspace path to check git status'' []
      else if os_stat os (path_join [er_WorkspacePath result, ''.git'']) = StatNotExist
      then post_check ''git_status'' True ''Workspace is not a git repository'' []
      else case os_cmd os [] [''git'', ''-C'', er_WorkspacePath result, ''status'', ''--porcelain''] of
             (output, Some e) \<Rightarrow> post_check ''git_status'' True ''Failed to get git status'' (''Error: '' @ e)
           | (output, None) \<Rightarrow>
               let dirtyFiles = trim_space output
               in if dirtyFiles \<noteq> []
                  then post_check ''git_status'' True
                         (''Git repository has '' @ itoa (int (length (split_at newline dirtyFiles))) @ '' modified files'')
                         dirtyFiles
                  else post_check ''git_status'' True ''Git repository is clean'' [])"

definition proof_paths :: "ExecutionResult \<Rightarrow> string list" where
  "proof_paths result =
     (if er_ProofOfWorkPath result \<noteq> []
      then map (\<lambda>f. path_join [er_ProofOfWorkPath result, f])
             [''proof-of-work.md'', ''PROOF_OF_WORK.md'', ''proof-of-work.json''] else [])
     @ (if er_WorkspacePath result \<noteq> []
        then map (\<lambda>f. path_join [er_WorkspacePath result, f]) [''PROOF_OF_WORK.md'', ''PROOF.md'', ''proof.md''] else [])"

fun first_readable :: "os_view \<Rightarrow> string list \<Rightarrow> string" where
  "first_readable os [] = []"
| "first_readable os (p # ps) = (case os_read os p of Inr content \<Rightarrow> content | Inl e \<Rightarrow> first_readable os ps)"

definition checkProofOfWork :: postflight_check where
  "checkProofOfWork os result =
     (let proofContent = first_readable os (proof_paths result);
          n = itoa (int (length proofContent))
      in if proofContent = [] then
           (if er_ProofOfWorkPath result \<noteq> []
            then post_check ''proof_of_work'' True (''Proof-of-work artifact created at '' @ er_ProofOfWorkPath result) []
            else post_check ''proof_of_work'' False ''No proof-of-work file generated''
                   ''No proof artifact or workspace proof file found'')
         else if length proofContent < 50
         then post_check ''proof_of_work'' False ''Proof file is too small'' (''Content length: '' @ n @ '' characters'')
         else post_check ''proof_of_work'' True (''Proof-of-work verified ('' @ n @ '' characters)'')
                (''Proof file has substantive content ('' @ n @ '' characters)''))"

definition checkCodeCompiles :: postflight_check where
  "checkCodeCompiles os result =
     (if er_WorkspacePath result = []
      then post_check ''code_compiles'' False (''No workspace path '' @ em_dash @ '' cannot verify compilation'') []
      else if \<not> os_lookpath os ''go''
      then post_check ''code_compiles'' True ''Skipped: go toolchain not available in runtime container'' []
      else case os_cmd os (er_WorkspacePath result) [''go'', ''build'', ''./...''] of
             (output, Some e) \<Rightarrow>
               let outStr = (if length output > 500 then take 500 output @ ''... (truncated)'' else output)
               in post_check ''code_compiles'' False (''go build ./... failed: '' @ trim_space outStr) outStr
           | (output, None) \<Rightarrow> post_check ''code_compiles'' True ''go build ./... passed'' [])"

definition fakePatterns :: "string list" where
  "fakePatterns =
     [''github.com/alexmiller/'', ''github.com/tidwall/'', ''github.com/example.com/'',
      ''github.com/stretchr/testify/mock'', ''github.com/prometheus/client_golang/prometheus'',
      ''github.com/sirupsen/logrus'']"

definition file_violations :: "os_view \<Rightarrow> ExecutionResult \<Rightarrow> string \<Rightarrow> string list" where
  "file_violations os result fpath =
     (case os_read os (absolute_file result fpath) of
        Inl e \<Rightarrow> []
      | Inr content \<Rightarrow>
          map (\<lambda>p. Base fpath @ '' contains '' @ [CHR 0x22] @ p @ [CHR 0x22]) (filter (contains_str content) fakePatterns)
          @ (if contains_str content ''command execution not implemented''
             then [Base fpath @ '' contains placeholder marker''] else []))"

definition checkNoFakeImports :: postflight_check where
  "checkNoFakeImports os result =
     (if length (er_FilesChanged result) = 0
      then post_check ''no_fake_imports'' False ''No files to scan for fake imports'' []
      else let violations = concat (map (file_violations os result) (er_FilesChanged result))
           in if length violations > 0
              then post_check ''no_fake_imports'' False
                     (itoa (int (length violations)) @ '' fake/disallowed import violations: '' @ join_with ''; '' violations)
                     (join_with [newline] violations)
              else post_check ''no_fake_imports'' True
                     (''No fake imports detected across '' @ itoa (int (length (er_FilesChanged result))) @ '' files'') [])"

subsection \<open>The basic verifier\<close>

definition postflight_checks :: "postflight_check list" where
  "postflight_checks =
     [checkExecutionCompleted, checkWorkspaceClean, checkArtifactsGenerated, checkFilesCreated, checkCodeCompiles,
      checkNoFakeImports, checkTestsRan, checkGitStatus, checkProofOfWork]"

definition new_postflight_report :: "time \<Rightarrow> FactoryTaskSpec \<Rightarrow> PostflightReport" where
  "new_postflight_report now spec =
     \<lparr>qr_TaskID = fts_ID spec, qr_SessionID = fts_SessionID spec, qr_Timestamp = now, qr_AllPassed = True,
      qr_Checks = []\<rparr>"

fun postflight_loop ::
    "(nat \<Rightarrow> os_view) \<Rightarrow> (nat \<Rightarrow> duration) \<Rightarrow> ExecutionResult \<Rightarrow> nat \<Rightarrow> postflight_check list
     \<Rightarrow> PostflightReport \<Rightarrow> PostflightReport" where
  "postflight_loop osv dur result i [] report = report"
| "postflight_loop osv dur result i (check # checks) report =
     (let checkResult = (check (osv i) result)\<lparr>qf_Duration := dur i\<rparr>;
          report' = report\<lparr>qr_Checks := qr_Checks report @ [checkResult]\<rparr>
      in postflight_loop osv dur result (Suc i) checks
           (if \<not> qf_Passed checkResult then report'\<lparr>qr_AllPassed := False\<rparr> else report'))"

definition checkPassed :: "PostflightCheckResult list \<Rightarrow> string \<Rightarrow> bool" where
  "checkPassed checks name = (case find (\<lambda>c. qf_Name c = name) checks of None \<Rightarrow> False | Some c \<Rightarrow> qf_Passed c)"

definition checkContains :: "PostflightCheckResult list \<Rightarrow> string \<Rightarrow> bool" where
  "checkContains checks name = list_ex (\<lambda>c. qf_Name c = name) checks"

definition critical_check :: "ExecutionResult \<Rightarrow> string \<Rightarrow> bool" where
  "critical_check result name \<longleftrightarrow>
     name \<in> {''execution_completed'', ''proof_of_work'', ''code_compiles'', ''no_fake_imports''}
     \<or> (name = ''files_verified'' \<and> length (er_FilesChanged result) > 0)"

definition downgrade :: "PostflightCheckResult list \<Rightarrow> ExecutionResult \<Rightarrow> ExecutionResult" where
  "downgrade checks result =
     (let failed = (\<lambda>name. checkContains checks name \<and> \<not> checkPassed checks name);
          result' = (if failed ''execution_completed'' then result\<lparr>er_Recommendation := ''retry''\<rparr>
                     else if failed ''files_verified'' then result\<lparr>er_Recommendation := ''investigate''\<rparr>
                     else if failed ''proof_of_work'' then result\<lparr>er_Recommendation := ''investigate''\<rparr>
                     else result)
      in result'\<lparr>er_VerificationFailed := True\<rparr>)"

definition RunPostflightVerification ::
    "time \<Rightarrow> (nat \<Rightarrow> os_view) \<Rightarrow> (nat \<Rightarrow> duration) \<Rightarrow> ExecutionResult \<Rightarrow> FactoryTaskSpec
     \<Rightarrow> ExecutionResult \<times> PostflightReport" where
  "RunPostflightVerification now osv dur result spec =
     (let report = postflight_loop osv dur result 0 postflight_checks (new_postflight_report now spec)
      in (if list_ex (\<lambda>c. critical_check result (qf_Name c) \<and> \<not> qf_Passed c) (qr_Checks report)
          then downgrade (qr_Checks report) result else result,
          report))"

definition post_failed_checks :: "PostflightReport \<Rightarrow> string list" where
  "post_failed_checks report =
     map (\<lambda>c. qf_Name c @ '': '' @ qf_Message c) (filter (\<lambda>c. \<not> qf_Passed c) (qr_Checks report))"

definition MustRunPostflightVerification ::
    "time \<Rightarrow> (nat \<Rightarrow> os_view) \<Rightarrow> (nat \<Rightarrow> duration) \<Rightarrow> ExecutionResult \<Rightarrow> FactoryTaskSpec
     \<Rightarrow> ExecutionResult \<times> PostflightReport \<times> string option" where
  "MustRunPostflightVerification now osv dur result spec =
     (case RunPostflightVerification now osv dur result spec of
        (result', report) \<Rightarrow>
          (result', report,
           if \<not> qr_AllPassed report
           then Some (''postflight checks failed: '' @ join_with ''; '' (post_failed_checks report)) else None))"

subsection \<open>Checks of the enhanced verifier\<close>

text \<open>Two checks have the code of the basic verifier.\<close>

definition enhanced_checkExecutionCompleted :: postflight_check where
  "enhanced_checkExecutionCompleted = checkExecutionCompleted"

definition checkTestsVerified :: postflight_check where
  "checkTestsVerified = checkTestsRan"

definition checkWorkspaceAccessible :: postflight_check where
  "checkWorkspaceAccessible = workspace_check ''workspace_accessible''"

definition checkGitStateValid :: postflight_check where
  "checkGitStateValid os result =
     (if er_WorkspacePath result = [] then post_check ''git_state_valid'' True ''No workspace path to check git state'' []
      else if os_stat os (path_join [er_WorkspacePath result, ''.git'']) = StatNotExist
      then post_check ''git_state_valid'' True ''Workspace is not a git repository'' (er_WorkspacePath result)
      else case os_cmd os [] [''git'', ''-C'', er_WorkspacePath result, ''rev-parse'', ''--verify'', ''HEAD''] of
             (output, Some e) \<Rightarrow>
               post_check ''git_state_valid'' False ''Git repository has no HEAD (empty or corrupted)'' (trim_space output)
           | (output, None) \<Rightarrow>
               post_check ''git_state_valid'' True ''Git repository state is valid'' ''HEAD exists and is valid'')"

text \<open>The second fields of the status lines that have one, and those whose base name is not declared.\<close>

definition actual_modified :: "string list \<Rightarrow> string list" where
  "actual_modified dirtyFiles = map (\<lambda>l. go_fields l ! 1) (filter (\<lambda>l. length (go_fields l) \<ge> 2) dirtyFiles)"

definition missing_in_declared :: "string list \<Rightarrow> string list \<Rightarrow> string list" where
  "missing_in_declared declared actual = filter (\<lambda>b. b \<notin> set (map Base declared)) (map Base actual)"

definition checkGitStatusVerified :: "bool \<Rightarrow> postflight_check" where
  "checkGitStatusVerified strictMode os result =
     (if er_WorkspacePath result = []
      then post_check ''git_status_verified'' True ''No workspace path to verify git status'' []
      else if os_stat os (path_join [er_WorkspacePath result, ''.git'']) = StatNotExist
      then post_check ''git_status_verified'' True ''Not a git repository (skipping)'' []
      else case os_cmd os [] [''git'', ''-C'', er_WorkspacePath result, ''status'', ''--porcelain''] of
             (output, Some e) \<Rightarrow>
               post_check ''git_status_verified'' True ''Could not verify git status'' (''Error: '' @ e)
           | (output, None) \<Rightarrow>
               let dirtyFiles = filter (\<lambda>l. l \<noteq> []) (split_at newline (trim_space output));
                   details = ''Dirty files: '' @ itoa (int (length dirtyFiles));
                   actual = actual_modified dirtyFiles;
                   missing = missing_in_declared (er_FilesChanged result) actual
               in if length dirtyFiles = 0
                  then post_check ''git_status_verified'' True ''Git repository is clean'' details
                  else if length (er_FilesChanged result) > 0 \<and> length missing > 0
                  then post_check ''git_status_verified'' (\<not> strictMode) ''Declared files inconsistent with git status''
                         (''Inconsistent: declared '' @ itoa (int (length (er_FilesChanged result))) @ '' files, git shows '' @
                          itoa (int (length actual)) @ ''. Missing from declared: '' @ fmt_list missing)
                  else post_check ''git_status_verified'' True
                         (''Git repository has '' @ itoa (int (length dirtyFiles)) @ '' modified files'') details)"

definition enhanced_checkArtifactsGenerated :: postflight_check where
  "enhanced_checkArtifactsGenerated = artifacts_check [''*.json'', ''*.md'', ''*.log'', ''*.txt''] ''JSON/MD/LOG/TXT''"

definition proof_files :: "string list" where
  "proof_files = [''proof-of-work.json'', ''proof-of-work.md'', ''execution.log'']"

definition missing_proof_files :: "os_view \<Rightarrow> ExecutionResult \<Rightarrow> string list" where
  "missing_proof_files os result =
     filter (\<lambda>f. os_stat os (path_join [er_ProofOfWorkPath result, f]) = StatNotExist) proof_files"

text \<open>The only check that changes the result: it appends the path of the JSON artifact.\<close>

definition checkArtifactIntegrity :: "os_view \<Rightarrow> ExecutionResult \<Rightarrow> ExecutionResult \<times> PostflightCheckResult" where
  "checkArtifactIntegrity os result =
     (let fail = (\<lambda>msg details. (result, post_check ''artifact_integrity'' False msg details));
          jsonPath = path_join [er_ProofOfWorkPath result, ''proof-of-work.json'']
      in if er_ProofOfWorkPath result = []
         then (result, post_check ''artifact_integrity'' True ''No proof-of-work path to verify'' [])
         else if os_stat os (er_ProofOfWorkPath result) = StatNotExist
         then fail ''Proof-of-work directory does not exist'' (er_ProofOfWorkPath result)
         else if length (missing_proof_files os result) > 0
         then fail ''Missing proof-of-work files'' (''Missing: '' @ fmt_list (missing_proof_files os result))
         else case os_read os jsonPath of
                Inl e \<Rightarrow> fail ''Failed to read JSON artifact'' e
              | Inr data \<Rightarrow>
                  (result\<lparr>er_ArtifactPaths := er_ArtifactPaths result @ [jsonPath]\<rparr>,
                   post_check ''artifact_integrity'' True ''Artifact integrity verified''
                     (''JSON SHA256: '' @ os_sha256hex os data)))"

definition checkFilesVerified :: postflight_check where
  "checkFilesVerified os result =
     (if length (er_FilesChanged result) = 0
      then post_check ''files_verified'' True ''No files declared as changed'' []
      else declared_files_check os result)"

definition checkProofOfWorkValid :: postflight_check where
  "checkProofOfWorkValid os result =
     (if er_ProofOfWorkPath result = []
      then post_check ''proof_of_work_valid'' True ''No proof-of-work generated''
             ''Proof-of-work generation is optional for this task type''
      else let missingFiles = map (\<lambda>f. Base (path_join [er_ProofOfWorkPath result, f])) (missing_proof_files os result)
           in if length missingFiles > 0
              then post_check ''proof_of_work_valid'' False ''Proof-of-work structure incomplete''
                     (''Missing files: '' @ fmt_list missingFiles)
              else post_check ''proof_of_work_valid'' True ''Proof-of-work structure valid''
                     (''Path: '' @ er_ProofOfWorkPath result))"

subsection \<open>The enhanced verifier\<close>

definition pure_check :: "postflight_check \<Rightarrow> os_view \<Rightarrow> ExecutionResult \<Rightarrow> ExecutionResult \<times> PostflightCheckResult" where
  "pure_check c os result = (result, c os result)"

definition enhanced_postflight_checks ::
    "bool \<Rightarrow> (os_view \<Rightarrow> ExecutionResult \<Rightarrow> ExecutionResult \<times> PostflightCheckResult) list" where
  "enhanced_postflight_checks strictMode =
     [pure_check enhanced_checkExecutionCompleted, pure_check checkWorkspaceAccessible, pure_check checkGitStateValid,
      pure_check (checkGitStatusVerified strictMode), pure_check enhanced_checkArtifactsGenerated,
      checkArtifactIntegrity, pure_check checkFilesVerified, pure_check checkTestsVerified,
      pure_check checkProofOfWorkValid]"

fun enhanced_postflight_loop ::
    "bool \<Rightarrow> (nat \<Rightarrow> os_view) \<Rightarrow> (nat \<Rightarrow> duration) \<Rightarrow> nat
     \<Rightarrow> (os_view \<Rightarrow> ExecutionResult \<Rightarrow> ExecutionResult \<times> PostflightCheckResult) list
     \<Rightarrow> ExecutionResult \<Rightarrow> PostflightReport \<Rightarrow> ExecutionResult \<times> PostflightReport" where
  "enhanced_postflight_loop strictMode osv dur i [] result report = (result, report)"
| "enhanced_postflight_loop strictMode osv dur i (check # checks) result report =
     (case check (osv i) result of
        (result', c) \<Rightarrow>
          let report' = report\<lparr>qr_Checks := qr_Checks report @ [c\<lparr>qf_Duration := dur i\<rparr>]\<rparr>
          in enhanced_postflight_loop strictMode osv dur (Suc i) checks result'
               (if \<not> qf_Passed c then report'\<lparr>qr_AllPassed := \<not> strictMode\<rparr> else report'))"

definition RunEnhancedPostflightVerification ::
    "bool \<Rightarrow> time \<Rightarrow> (nat \<Rightarrow> os_view) \<Rightarrow> (nat \<Rightarrow> duration) \<Rightarrow> ExecutionResult \<Rightarrow> FactoryTaskSpec
     \<Rightarrow> ExecutionResult \<times> PostflightReport" where
  "RunEnhancedPostflightVerification strictMode now osv dur result spec =
     enhanced_postflight_loop strictMode osv dur 0 (enhanced_postflight_checks strictMode) result
       (new_postflight_report now spec)"

definition MustRunEnhancedPostflightVerification ::
    "bool \<Rightarrow> time \<Rightarrow> (nat \<Rightarrow> os_view) \<Rightarrow> (nat \<Rightarrow> duration) \<Rightarrow> ExecutionResult \<Rightarrow> FactoryTaskSpec
     \<Rightarrow> ExecutionResult \<times> PostflightReport \<times> string option" where
  "MustRunEnhancedPostflightVerification strictMode now osv dur result spec =
     (case RunEnhancedPostflightVerification strictMode now osv dur result spec of
        (result', report) \<Rightarrow>
          (result', report,
           if \<not> qr_AllPassed report
           then Some (''enhanced postflight verification failed: '' @ join_with ''; '' (post_failed_checks report))
           else None))"

end
