(* ===== verification/Factory_Template_Data.thy ===== *)
theory Factory_Template_Data
  imports Factory_Templates
begin

text \<open>
  The templates the factory registers (\<open>internal/factory/work_templates.go\<close>, \<open>useful_templates.go\<close>,
  \<open>repo_aware_templates.go\<close> with the embedded files under \<open>templates/\<close>, and the default of
  \<open>templates.go\<close>), with their commands, and the registry they make. A definition \<open>xTemplate\<close> is the
  template that \<open>registerXTemplate\<close> registers. The variables of every step are empty.
\<close>

definition step_template :: "string \<Rightarrow> string \<Rightarrow> string \<Rightarrow> int \<Rightarrow> int \<Rightarrow> ExecutionStepTemplate" where
  "step_template n d c t retries =
     \<lparr>st_Name = n, st_Description = d, st_Command = c, st_Variables = [], st_Timeout = t, st_MaxRetries = retries\<rparr>"

text \<open>Simplification of a step leaves its texts alone.\<close>

lemma step_template_cong:
  "t = t' \<Longrightarrow> k = k' \<Longrightarrow> step_template n d c t k = step_template n d c t' k'"
  by simp

lemma step_template_sel [simp]:
  "st_Name (step_template n d c t k) = n" "st_Command (step_template n d c t k) = c"
  "st_Variables (step_template n d c t k) = []" "st_Timeout (step_template n d c t k) = t"
  "st_MaxRetries (step_template n d c t k) = k"
  by (simp_all add: step_template_def)

definition bugFixTemplates :: WorkTypeTemplate where
  "bugFixTemplates =
     \<lparr>wt_WorkType = ''debug'', wt_WorkDomain = [],
      wt_Description = ''Bug fix execution plan: analyze, implement fix, test'',
      wt_Steps =
       [step_template (''Analyze bug'')
         (''Analyze bug to understand root cause'')
         (sq [''echo '', ''Analyzing bug: {{.title}}'', '' && echo '', ''Investigating issue {{.work_item_id}}'', '' && echo '', ''Checking recent changes and logs...'', '''']) 120 1,
        step_template (''Implement fix'')
         (''Implement the bug fix based on analysis'')
         (sq [''echo '', ''Implementing fix for {{.work_item_id}}'', '' && echo '', ''Modifying source files...'', '' && echo '', ''Adding test coverage...'', '' && echo '', ''Fix implementation complete'', '''']) 2700 2,
        step_template (''format'')
         (''Format code (real gofmt when go.mod present)'')
         ([]) 30 1,
        step_template (''lint'')
         (''Run static checks (real go vet when go.mod present)'')
         ([]) 60 1,
        step_template (''build'')
         (''Build the project (real go build when go.mod present)'')
         ([]) 120 1,
        step_template (''Run tests'')
         (''Execute tests to verify fix works (real go test when go.mod present)'')
         ([]) 180 1,
        step_template (''Generate documentation'')
         (''Generate proof-of-work documentation'')
         (sq [''echo '', ''Generating proof-of-work...'', '' && echo '', ''Creating evidence bundle for {{.work_item_id}}'', '' && echo '', ''Documenting changes, test results, and verification steps'', '' && echo '', ''Documentation complete'', '''']) 60 1]\<rparr>"

definition featureTemplates :: WorkTypeTemplate where
  "featureTemplates =
     \<lparr>wt_WorkType = ''implementation'', wt_WorkDomain = [],
      wt_Description = ''Feature implementation plan: design, implement, test'',
      wt_Steps =
       [step_template (''Design feature'')
         (''Create feature design and architecture'')
         (sq [''echo '', ''Designing feature: {{.title}}'', '' && echo '', ''Objective: {{.objective}}'', '' && echo '', ''Creating design document...'', '' && echo '', ''Architecture plan complete'', '''']) 180 1,
        step_template (''Implement feature'')
         (''Implement feature according to design'')
         (sq [''echo '', ''Implementing feature {{.work_item_id}}'', '' && echo '', ''Adding source files...'', '' && echo '', ''Implementing core logic...'', '' && echo '', ''Feature implementation complete'', '''']) 600 2,
        step_template (''format'')
         (''Format code (real gofmt when go.mod present)'')
         ([]) 30 1,
        step_template (''lint'')
         (''Run static checks (real go vet when go.mod present)'')
         ([]) 60 1,
        step_template (''build'')
         (''Build the project (real go build when go.mod present)'')
         ([]) 180 1,
        step_template (''Run tests'')
         (''Execute feature tests (real go test when go.mod present)'')
         ([]) 2700 1,
        step_template (''Generate documentation'')
         (''Generate proof-of-work documentation'')
         (sq [''echo '', ''Generating proof-of-work...'', '' && echo '', ''Creating feature documentation bundle'', '' && echo '', ''Documenting implementation, tests, and acceptance'', '' && echo '', ''Documentation complete'', '''']) 60 1]\<rparr>"

definition refactorTemplates :: WorkTypeTemplate where
  "refactorTemplates =
     \<lparr>wt_WorkType = ''refactor'', wt_WorkDomain = [],
      wt_Description = ''Refactoring plan: analyze, refactor, verify'',
      wt_Steps =
       [step_template (''Analyze code'')
         (''Analyze code structure for refactoring opportunities'')
         (sq [''echo '', ''Analyzing code for refactoring: {{.title}}'', '' && echo '', ''Examining code structure and dependencies'', '' && echo '', ''Identifying improvement opportunities'', '' && echo '', ''Analysis complete'', '''']) 180 1,
        step_template (''Apply refactoring'')
         (''Apply refactoring changes'')
         (sq [''echo '', ''Refactoring code for {{.work_item_id}}'', '' && echo '', ''Improving code structure...'', '' && echo '', ''Reducing complexity...'', '' && echo '', ''Refactoring complete'', '''']) 2700 2,
        step_template (''format'')
         (''Format code (real gofmt when go.mod present)'')
         ([]) 30 1,
        step_template (''lint'')
         (''Run static checks (real go vet when go.mod present)'')
         ([]) 60 1,
        step_template (''Verify refactoring'')
         (''Verify refactoring preserves behavior (real go test when go.mod present)'')
         ([]) 180 1]\<rparr>"

definition documentationTemplates :: WorkTypeTemplate where
  "documentationTemplates =
     \<lparr>wt_WorkType = ''docs'', wt_WorkDomain = [],
      wt_Description = ''Documentation work plan: research, write, review'',
      wt_Steps =
       [step_template (''Research topic'')
         (''Research and gather information'')
         (sq [''echo '', ''Researching topic: {{.title}}'', '' && echo '', ''Gathering relevant information'', '' && echo '', ''Research complete'', '''']) 120 1,
        step_template (''Write documentation'')
         (''Create or update documentation'')
         (sq [''echo '', ''Writing documentation for {{.work_item_id}}'', '' && echo '', ''Creating markdown documents...'', '' && echo '', ''Adding examples and diagrams'', '' && echo '', ''Documentation written'', '''']) 2700 2,
        step_template (''Review and validate'')
         (''Review documentation for accuracy and completeness'')
         (sq [''echo '', ''Reviewing documentation...'', '' && echo '', ''Checking links and references'', '' && echo '', ''Validating examples'', '' && echo '', ''Documentation review complete'', '''']) 120 1]\<rparr>"

definition testTemplates :: WorkTypeTemplate where
  "testTemplates =
     \<lparr>wt_WorkType = ''test'', wt_WorkDomain = [],
      wt_Description = ''Test work plan: write tests, execute, report'',
      wt_Steps =
       [step_template (''Write tests'')
         (''Create test cases based on requirements'')
         (sq [''echo '', ''Writing tests for {{.work_item_id}}'', '' && echo '', ''Creating test files...'', '' && echo '', ''Adding edge cases'', '' && echo '', ''Tests written'', '''']) 240 2,
        step_template (''format'')
         (''Format code (real gofmt when go.mod present)'')
         ([]) 30 1,
        step_template (''Run tests'')
         (''Run test suite and collect results (real go test when go.mod present)'')
         ([]) 180 1,
        step_template (''Generate test report'')
         (''Create test execution report'')
         (sq [''echo '', ''Generating test report...'', '' && echo '', ''Documenting test results'', '' && echo '', ''Reporting coverage and failures'', '' && echo '', ''Test report complete'', '''']) 60 1]\<rparr>"

definition debugTemplates :: WorkTypeTemplate where
  "debugTemplates =
     \<lparr>wt_WorkType = ''debug'', wt_WorkDomain = ''analysis'',
      wt_Description = ''Debug analysis plan: investigate, diagnose, recommend'',
      wt_Steps =
       [step_template (''Investigate issue'')
         (''Investigate the reported issue'')
         (sq [''echo '', ''Investigating issue: {{.title}}'', '' && echo '', ''Gathering logs and traces'', '' && echo '', ''Examining error patterns'', '' && echo '', ''Investigation complete'', '''']) 180 1,
        step_template (''Diagnose root cause'')
         (''Analyze data to identify root cause'')
         (sq [''echo '', ''Diagnosing root cause for {{.work_item_id}}'', '' && echo '', ''Analyzing error patterns'', '' && echo '', ''Correlating with recent changes'', '' && echo '', ''Diagnosis complete'', '''']) 240 2,
        step_template (''Recommend solution'')
         (''Create solution recommendation'')
         (sq [''echo '', ''Creating recommendation...'', '' && echo '', ''Proposing fix strategy'', '' && echo '', ''Documenting risks and dependencies'', '' && echo '', ''Recommendation complete'', '''']) 120 1]\<rparr>"

definition defaultTemplate :: WorkTypeTemplate where
  "defaultTemplate =
     \<lparr>wt_WorkType = ''default'', wt_WorkDomain = [],
      wt_Description = ''Default execution plan for unknown work types'',
      wt_Steps =
       [step_template (''Generic execution'')
         (''Execute work using available tools and context'')
         (sq [''echo '', ''Executing: {{.title}}'', '' && echo '', ''Objective: {{.objective}}'', '' && echo '', ''Work type: {{.work_type}}'', '' && echo '', ''Domain: {{.work_domain}}'', '''']) 300 2]\<rparr>"

definition cICDTemplate :: WorkTypeTemplate where
  "cICDTemplate =
     \<lparr>wt_WorkType = ''cicd'', wt_WorkDomain = ''real'',
      wt_Description = ''CI/CD pipeline: creates GitHub Actions workflow with build, test, and deploy stages'',
      wt_Steps =
       [step_template (''Create CI/CD structure'')
         (''Create .github/workflows directory'')
         (sq [''mkdir -p .github/workflows && echo '', ''CI/CD structure created'', '' > .cicd_structure'']) 30 1,
        step_template (''Generate GitHub Actions workflow'')
         (''Create CI workflow with build, test, and deploy stages'')
         (sq [''echo '', ''name: CI'', '' > .github/workflows/ci.yml && echo '', '''', '' >> .github/workflows/ci.yml && echo '', ''on:'', '' >> .github/workflows/ci.yml && echo '', ''  push:'', '' >> .github/workflows/ci.yml && echo '', ''    branches: [ main, develop ]'', '' >> .github/workflows/ci.yml && echo '', ''  pull_request:'', '' >> .github/workflows/ci.yml && echo '', ''    branches: [ main ]'', '' >> .github/workflows/ci.yml && echo '', '''', '' >> .github/workflows/ci.yml && echo '', ''jobs:'', '' >> .github/workflows/ci.yml && echo '', ''  build:'', '' >> .github/workflows/ci.yml && echo '', ''    runs-on: ubuntu-latest'', '' >> .github/workflows/ci.yml && echo '', ''    steps:'', '' >> .github/workflows/ci.yml && echo '', ''      - uses: actions/checkout@v4'', '' >> .github/workflows/ci.yml && echo '', ''      - name: Set up Go'', '' >> .github/workflows/ci.yml && echo '', ''        uses: actions/setup-go@v5'', '' >> .github/workflows/ci.yml && echo '', ''        with:'', '' >> .github/workflows/ci.yml && echo '', ''          go-version: \"1.25\"'', '' >> .github/workflows/ci.yml && echo '', ''      - name: Build'', '' >> .github/workflows/ci.yml && echo '', ''        run: go build -v ./...'', '' >> .github/workflows/ci.yml && echo '', ''  test:'', '' >> .github/workflows/ci.yml && echo '', ''    runs-on: ubuntu-latest'', '' >> .github/workflows/ci.yml && echo '', ''    steps:'', '' >> .github/workflows/ci.yml && echo '', ''      - uses: actions/checkout@v4'', '' >> .github/workflows/ci.yml && echo '', ''      - name: Set up Go'', '' >> .github/workflows/ci.yml && echo '', ''        uses: actions/setup-go@v5'', '' >> .github/workflows/ci.yml && echo '', ''        with:'', '' >> .github/workflows/ci.yml && echo '', ''          go-version: \"1.25\"'', '' >> .github/workflows/ci.yml && echo '', ''      - name: Test'', '' >> .github/workflows/ci.yml && echo '', ''        run: go test -v ./...'', '' >> .github/workflows/ci.yml && echo '', ''CI workflow generated'', '' > .ci_workflow'']) 30 1,
        step_template (''Create deployment documentation'')
         (''Document deployment process'')
         (sq [''echo '', ''# CI/CD Pipeline'', '' > DEPLOYMENT.md && echo '', '''', '' >> DEPLOYMENT.md && echo '', ''## Workflow'', '' >> DEPLOYMENT.md && echo '', '''', '' >> DEPLOYMENT.md && echo '', ''- Work Item: {{.work_item_id}}'', '' >> DEPLOYMENT.md && echo '', ''- Title: {{.title}}'', '' >> DEPLOYMENT.md && echo '', '''', '' >> DEPLOYMENT.md && echo '', ''## Pipeline Stages'', '' >> DEPLOYMENT.md && echo '', '''', '' >> DEPLOYMENT.md && echo '', ''1. **Build**: Compiles the code'', '' >> DEPLOYMENT.md && echo '', ''2. **Test**: Runs all tests'', '' >> DEPLOYMENT.md && echo '', ''3. **Deploy**: Deploys to target environment'', '' >> DEPLOYMENT.md && echo '', '''', '' >> DEPLOYMENT.md && echo '', ''## Triggers'', '' >> DEPLOYMENT.md && echo '', '''', '' >> DEPLOYMENT.md && echo '', ''- Push to main/develop branches'', '' >> DEPLOYMENT.md && echo '', ''- Pull requests to main branch'', '' >> DEPLOYMENT.md && echo '', ''Deployment documentation created'', '' > .deploy_documented'']) 30 1,
        step_template (''Generate proof-of-work summary'')
         (''Create CI/CD proof-of-work'')
         (sq [''echo '', ''# Proof of Work'', '' > PROOF_OF_WORK.md && echo '', '''', '' >> PROOF_OF_WORK.md && echo '', ''## CI/CD Pipeline Setup'', '' >> PROOF_OF_WORK.md && echo '', '''', '' >> PROOF_OF_WORK.md && echo '', ''- Work Item: {{.work_item_id}}'', '' >> PROOF_OF_WORK.md && echo '', ''- Title: {{.title}}'', '' >> PROOF_OF_WORK.md && echo '', ''- Objective: {{.objective}}'', '' >> PROOF_OF_WORK.md && echo '', '''', '' >> PROOF_OF_WORK.md && echo '', ''## Files Created'', '' >> PROOF_OF_WORK.md && echo '', '''', '' >> PROOF_OF_WORK.md && echo '', ''- .github/workflows/ci.yml - GitHub Actions workflow'', '' >> PROOF_OF_WORK.md && echo '', ''- DEPLOYMENT.md - Deployment documentation'', '' >> PROOF_OF_WORK.md && echo '', '''', '' >> PROOF_OF_WORK.md && echo '', ''## Verification'', '' >> PROOF_OF_WORK.md && echo '', '''', '' >> PROOF_OF_WORK.md && echo '', ''Check the workflow in .github/workflows/ci.yml'', '' >> PROOF_OF_WORK.md && echo '', ''Proof of work generated'', '' > .pow_generated'']) 30 1]\<rparr>"

definition javaScriptTemplate :: WorkTypeTemplate where
  "javaScriptTemplate =
     \<lparr>wt_WorkType = ''implementation'', wt_WorkDomain = ''javascript'',
      wt_Description = ''JavaScript implementation: creates Node.js project with source code, tests, and documentation'',
      wt_Steps =
       [step_template (''Create JavaScript project structure'')
         (''Create Node.js directories and files'')
         (sq [''mkdir -p src tests && echo '', ''{'', '' > package.json && echo '', ''  \"name\": \"{{.work_item_id}}\",'', '' >> package.json && echo '', ''  \"version\": \"1.0.0\",'', '' >> package.json && echo '', ''  \"description\": \"{{.title}}\",'', '' >> package.json && echo '', ''  \"main\": \"src/main.js\",'', '' >> package.json && echo '', ''  \"scripts\": {'', '' >> package.json && echo '', ''    \"start\": \"node src/main.js\",'', '' >> package.json && echo '', ''    \"test\": \"node --test tests/**/*.test.js\"'', '' >> package.json && echo '', ''  },'', '' >> package.json && echo '', ''  \"type\": \"module\",'', '' >> package.json && echo '', ''  \"engines\": {'', '' >> package.json && echo '', ''    \"node\": \">=18.0.0\"'', '' >> package.json && echo '', ''  }'', '' >> package.json && echo '', ''}'', '' >> package.json && echo '', ''node_modules/'', '' > .gitignore && echo '', ''.DS_Store'', '' >> .gitignore && echo '', ''*.log'', '' >> .gitignore && echo '', ''JavaScript project structure created'', '' > .structure_created'']) 30 1,
        step_template (''Generate JavaScript source code'')
         (''Generate actual JavaScript source files'')
         (sq [''echo '', ''// Main application for {{.title}}'', '' > src/main.js && echo '', '''', '' >> src/main.js && echo '', ''const title = \"{{.title}}\";'', '' >> src/main.js && echo '', ''const objective = \"{{.objective}}\";'', '' >> src/main.js && echo '', '''', '' >> src/main.js && echo '', ''class Main {'', '' >> src/main.js && echo '', ''  constructor(name) {'', '' >> src/main.js && echo '', ''    this.name = name || title;'', '' >> src/main.js && echo '', ''  }'', '' >> src/main.js && echo '', '''', '' >> src/main.js && echo '', ''  run() {'', '' >> src/main.js && echo '', ''    console.log(`Hello from ${this.name}`);'', '' >> src/main.js && echo '', ''  }'', '' >> src/main.js && echo '', ''}'', '' >> src/main.js && echo '', '''', '' >> src/main.js && echo '', ''function main() {'', '' >> src/main.js && echo '', ''  const app = new Main();'', '' >> src/main.js && echo '', ''  app.run();'', '' >> src/main.js && echo '', ''}'', '' >> src/main.js && echo '', '''', '' >> src/main.js && echo '', ''if (import.meta.url === `file://${process.argv[1]}`) {'', '' >> src/main.js && echo '', ''  main();'', '' >> src/main.js && echo '', ''}'', '' >> src/main.js && echo '', ''Source code generated'', '' > .code_generated'']) 60 2,
        step_template (''Create documentation'')
         (''Generate README and documentation'')
         (sq [''echo '', ''# {{.title}}'', '' > README.md && echo '', '''', '' >> README.md && echo '', ''{{.objective}}'', '' >> README.md && echo '', '''', '' >> README.md && echo '', ''## Work Item'', '' >> README.md && echo '', '''', '' >> README.md && echo '', ''- ID: {{.work_item_id}}'', '' >> README.md && echo '', '''', '' >> README.md && echo '', ''## Installation'', '' >> README.md && echo '', '''', '' >> README.md && echo '', ''npm install'', '' >> README.md && echo '', '''', '' >> README.md && echo '', ''## Usage'', '' >> README.md && echo '', '''', '' >> README.md && echo '', ''npm start'', '' >> README.md && echo '', '''', '' >> README.md && echo '', ''## Testing'', '' >> README.md && echo '', '''', '' >> README.md && echo '', ''npm test'', '' >> README.md && mkdir -p docs && echo '', ''# API Documentation'', '' > docs/api.md && echo '', '''', '' >> docs/api.md && echo '', ''## Main Class'', '' >> docs/api.md && echo '', '''', '' >> docs/api.md && echo '', ''### Main(name)'', '' >> docs/api.md && echo '', '''', '' >> docs/api.md && echo '', ''Initialize the main application.'', '' >> docs/api.md && echo '', '''', '' >> docs/api.md && echo '', ''### run()'', '' >> docs/api.md && echo '', '''', '' >> docs/api.md && echo '', ''Run the main application.'', '' >> docs/api.md && echo '', ''Documentation generated'', '' > .docs_generated'']) 30 1,
        step_template (''Write tests'')
         (''Create Node.js test files'')
         (sq [''echo '', ''import { describe, it } from \"node:test\";'', '' > tests/main.test.js && echo '', ''import assert from \"node:assert\";'', '' >> tests/main.test.js && echo '', ''import { Main } from \"../src/main.js\";'', '' >> tests/main.test.js && echo '', '''', '' >> tests/main.test.js && echo '', ''describe(\"Main\", () => {'', '' >> tests/main.test.js && echo '', ''  it(\"should initialize with default name\", () => {'', '' >> tests/main.test.js && echo '', ''    const app = new Main();'', '' >> tests/main.test.js && echo '', ''    assert.strictEqual(app.name, \"{{.title}}\");'', '' >> tests/main.test.js && echo '', ''  });'', '' >> tests/main.test.js && echo '', ''});'', '' >> tests/main.test.js && echo '', ''# Test package'', '' > tests/package.json && echo '', ''{\"type\":\"module\"}'', '' >> tests/package.json && echo '', ''Tests created'', '' > .tests_created'']) 60 2,
        step_template (''Generate proof-of-work summary'')
         (''Create summary of work done'')
         (sq [''echo '', ''# Proof of Work'', '' > PROOF_OF_WORK.md && echo '', '''', '' >> PROOF_OF_WORK.md && echo '', ''## Summary'', '' >> PROOF_OF_WORK.md && echo '', '''', '' >> PROOF_OF_WORK.md && echo '', ''- Work Item: {{.work_item_id}}'', '' >> PROOF_OF_WORK.md && echo '', ''- Title: {{.title}}'', '' >> PROOF_OF_WORK.md && echo '', ''- Objective: {{.objective}}'', '' >> PROOF_OF_WORK.md && echo '', '''', '' >> PROOF_OF_WORK.md && echo '', ''## Files Created'', '' >> PROOF_OF_WORK.md && echo '', '''', '' >> PROOF_OF_WORK.md && echo '', ''- src/main.js - Main application'', '' >> PROOF_OF_WORK.md && echo '', ''- tests/main.test.js - Node.js test suite'', '' >> PROOF_OF_WORK.md && echo '', ''- package.json - Node.js dependencies'', '' >> PROOF_OF_WORK.md && echo '', ''- README.md - Documentation'', '' >> PROOF_OF_WORK.md && echo '', ''- docs/api.md - API documentation'', '' >> PROOF_OF_WORK.md && echo '', '''', '' >> PROOF_OF_WORK.md && echo '', ''## Verification'', '' >> PROOF_OF_WORK.md && echo '', '''', '' >> PROOF_OF_WORK.md && echo '', ''Run tests: npm test'', '' >> PROOF_OF_WORK.md && echo '', '''', '' >> PROOF_OF_WORK.md && echo '', ''Run application: npm start'', '' >> PROOF_OF_WORK.md && echo '', ''Proof of work generated'', '' > .pow_generated'']) 30 1]\<rparr>"

definition databaseMigrationTemplate :: WorkTypeTemplate where
  "databaseMigrationTemplate =
     \<lparr>wt_WorkType = ''migration'', wt_WorkDomain = ''real'',
      wt_Description = ''Database migration: creates migration files, rollback scripts, and documentation'',
      wt_Steps =
       [step_template (''Create migration structure'')
         (''Create migrations directory structure'')
         (sq [''mkdir -p migrations rollbacks && echo '', ''Migration structure created'', '' > .migration_structure'']) 30 1,
        step_template (''Generate up migration'')
         (''Create migration SQL file'')
         (sq [''echo '', ''-- Migration: {{.title}}'', '' > migrations/$(date +%Y%m%d%H%M%S)_{{.work_item_id}}_up.sql && echo '', ''-- Work Item: {{.work_item_id}}'', '' >> migrations/$(date +%Y%m%d%H%M%S)_{{.work_item_id}}_up.sql && echo '', '''', '' >> migrations/$(date +%Y%m%d%H%M%S)_{{.work_item_id}}_up.sql && echo '', ''BEGIN;'', '' >> migrations/$(date +%Y%m%d%H%M%S)_{{.work_item_id}}_up.sql && echo '', '''', '' >> migrations/$(date +%Y%m%d%H%M%S)_{{.work_item_id}}_up.sql && echo '', ''-- Add your migration SQL here'', '' >> migrations/$(date +%Y%m%d%H%M%S)_{{.work_item_id}}_up.sql && echo '', ''-- Example:'', '' >> migrations/$(date +%Y%m%d%H%M%S)_{{.work_item_id}}_up.sql && echo '', ''-- CREATE TABLE example ('', '' >> migrations/$(date +%Y%m%d%H%M%S)_{{.work_item_id}}_up.sql && echo '', ''--   id SERIAL PRIMARY KEY,'', '' >> migrations/$(date +%Y%m%d%H%M%S)_{{.work_item_id}}_up.sql && echo '', ''--   name VARCHAR(255) NOT NULL,'', '' >> migrations/$(date +%Y%m%d%H%M%S)_{{.work_item_id}}_up.sql && echo '', ''--   created_at TIMESTAMP DEFAULT NOW()'', '' >> migrations/$(date +%Y%m%d%H%M%S)_{{.work_item_id}}_up.sql && echo '', ''-- );'', '' >> migrations/$(date +%Y%m%d%H%M%S)_{{.work_item_id}}_up.sql && echo '', '''', '' >> migrations/$(date +%Y%m%d%H%M%S)_{{.work_item_id}}_up.sql && echo '', ''COMMIT;'', '' >> migrations/$(date +%Y%m%d%H%M%S)_{{.work_item_id}}_up.sql && echo '', ''Up migration generated'', '' > .up_migration'']) 30 1,
        step_template (''Generate down migration'')
         (''Create rollback migration SQL file'')
         (sq [''echo '', ''-- Rollback: {{.title}}'', '' > rollbacks/$(date +%Y%m%d%H%M%S)_{{.work_item_id}}_down.sql && echo '', ''-- Work Item: {{.work_item_id}}'', '' >> rollbacks/$(date +%Y%m%d%H%M%S)_{{.work_item_id}}_down.sql && echo '', '''', '' >> rollbacks/$(date +%Y%m%d%H%M%S)_{{.work_item_id}}_down.sql && echo '', ''BEGIN;'', '' >> rollbacks/$(date +%Y%m%d%H%M%S)_{{.work_item_id}}_down.sql && echo '', '''', '' >> rollbacks/$(date +%Y%m%d%H%M%S)_{{.work_item_id}}_down.sql && echo '', ''-- Add your rollback SQL here'', '' >> rollbacks/$(date +%Y%m%d%H%M%S)_{{.work_item_id}}_down.sql && echo '', ''-- Example:'', '' >> rollbacks/$(date +%Y%m%d%H%M%S)_{{.work_item_id}}_down.sql && echo '', ''-- DROP TABLE IF EXISTS example;'', '' >> rollbacks/$(date +%Y%m%d%H%M%S)_{{.work_item_id}}_down.sql && echo '', '''', '' >> rollbacks/$(date +%Y%m%d%H%M%S)_{{.work_item_id}}_down.sql && echo '', ''COMMIT;'', '' >> rollbacks/$(date +%Y%m%d%H%M%S)_{{.work_item_id}}_down.sql && echo '', ''Down migration generated'', '' > .down_migration'']) 30 1,
        step_template (''Create migration documentation'')
         (''Document the migration'')
         (sq [''echo '', ''# Database Migration'', '' > MIGRATION.md && echo '', '''', '' >> MIGRATION.md && echo '', ''## Summary'', '' >> MIGRATION.md && echo '', '''', '' >> MIGRATION.md && echo '', ''- Work Item: {{.work_item_id}}'', '' >> MIGRATION.md && echo '', ''- Title: {{.title}}'', '' >> MIGRATION.md && echo '', ''- Objective: {{.objective}}'', '' >> MIGRATION.md && echo '', '''', '' >> MIGRATION.md && echo '', ''## Migration Files'', '' >> MIGRATION.md && echo '', '''', '' >> MIGRATION.md && echo '', ''- Up migration: migrations/*_up.sql'', '' >> MIGRATION.md && echo '', ''- Down migration: rollbacks/*_down.sql'', '' >> MIGRATION.md && echo '', '''', '' >> MIGRATION.md && echo '', ''## Running the Migration'', '' >> MIGRATION.md && echo '', '''', '' >> MIGRATION.md && echo '', ''```bash'', '' >> MIGRATION.md && echo '', ''# Apply migration'', '' >> MIGRATION.md && echo '', ''psql -U username -d database -f migrations/*_up.sql'', '' >> MIGRATION.md && echo '', '''', '' >> MIGRATION.md && echo '', ''# Rollback migration'', '' >> MIGRATION.md && echo '', ''psql -U username -d database -f rollbacks/*_down.sql'', '' >> MIGRATION.md && echo '', ''```'', '' >> MIGRATION.md && echo '', ''Migration documentation created'', '' > .migration_documented'']) 30 1,
        step_template (''Generate proof-of-work summary'')
         (''Create migration proof-of-work'')
         (sq [''echo '', ''# Proof of Work'', '' > PROOF_OF_WORK.md && echo '', '''', '' >> PROOF_OF_WORK.md && echo '', ''## Database Migration'', '' >> PROOF_OF_WORK.md && echo '', '''', '' >> PROOF_OF_WORK.md && echo '', ''- Work Item: {{.work_item_id}}'', '' >> PROOF_OF_WORK.md && echo '', ''- Title: {{.title}}'', '' >> PROOF_OF_WORK.md && echo '', ''- Objective: {{.objective}}'', '' >> PROOF_OF_WORK.md && echo '', '''', '' >> PROOF_OF_WORK.md && echo '', ''## Files Created'', '' >> PROOF_OF_WORK.md && echo '', '''', '' >> PROOF_OF_WORK.md && echo '', ''- migrations/*_up.sql - Up migration script'', '' >> PROOF_OF_WORK.md && echo '', ''- rollbacks/*_down.sql - Down migration script'', '' >> PROOF_OF_WORK.md && echo '', ''- MIGRATION.md - Migration documentation'', '' >> PROOF_OF_WORK.md && echo '', '''', '' >> PROOF_OF_WORK.md && echo '', ''## Verification'', '' >> PROOF_OF_WORK.md && echo '', '''', '' >> PROOF_OF_WORK.md && echo '', ''Review MIGRATION.md for migration instructions'', '' >> PROOF_OF_WORK.md && echo '', ''Proof of work generated'', '' > .pow_generated'']) 30 1]\<rparr>"

definition monitoringTemplate :: WorkTypeTemplate where
  "monitoringTemplate =
     \<lparr>wt_WorkType = ''monitoring'', wt_WorkDomain = ''real'',
      wt_Description = ''Monitoring setup: creates Prometheus metrics, Grafana dashboards, and alerting rules'',
      wt_Steps =
       [step_template (''Create monitoring structure'')
         (''Create monitoring directories'')
         (sq [''mkdir -p monitoring/metrics monitoring/dashboards monitoring/alerts && echo '', ''Monitoring structure created'', '' > .monitoring_structure'']) 30 1,
        step_template (''Generate Prometheus metrics config'')
         (''Create metrics configuration'')
         (sq [''echo '', ''# Prometheus Metrics Configuration'', '' > monitoring/metrics/metrics.yml && echo '', '''', '' >> monitoring/metrics/metrics.yml && echo '', ''## Application Metrics'', '' >> monitoring/metrics/metrics.yml && echo '', '''', '' >> monitoring/metrics/metrics.yml && echo '', ''- Work Item: {{.work_item_id}}'', '' >> monitoring/metrics/metrics.yml && echo '', ''- Title: {{.title}}'', '' >> monitoring/metrics/metrics.yml && echo '', '''', '' >> monitoring/metrics/metrics.yml && echo '', ''### Key Metrics'', '' >> monitoring/metrics/metrics.yml && echo '', '''', '' >> monitoring/metrics/metrics.yml && echo '', ''1. **http_requests_total** - Total HTTP requests'', '' >> monitoring/metrics/metrics.yml && echo '', ''2. **http_request_duration_seconds** - Request latency'', '' >> monitoring/metrics/metrics.yml && echo '', ''3. **active_connections** - Current connections'', '' >> monitoring/metrics/metrics.yml && echo '', ''4. **error_rate** - Error percentage'', '' >> monitoring/metrics/metrics.yml && echo '', '''', '' >> monitoring/metrics/metrics.yml && echo '', ''### Metric Labels'', '' >> monitoring/metrics/metrics.yml && echo '', '''', '' >> monitoring/metrics/metrics.yml && echo '', ''- method: HTTP method'', '' >> monitoring/metrics/metrics.yml && echo '', ''- status: HTTP status code'', '' >> monitoring/metrics/metrics.yml && echo '', ''- endpoint: Request endpoint'', '' >> monitoring/metrics/metrics.yml && echo '', ''Metrics config generated'', '' > .metrics_config'']) 30 1,
        step_template (''Generate Grafana dashboard'')
         (''Create Grafana dashboard JSON'')
         (sq [''echo '', ''{'', '' > monitoring/dashboards/application.json && echo '', ''  \"dashboard\": {'', '' >> monitoring/dashboards/application.json && echo '', ''    \"title\": \"{{.title}}\",'', '' >> monitoring/dashboards/application.json && echo '', ''    \"uid\": \"{{.work_item_id}}\",'', '' >> monitoring/dashboards/application.json && echo '', ''    \"panels\": ['', '' >> monitoring/dashboards/application.json && echo '', ''      {'', '' >> monitoring/dashboards/application.json && echo '', ''        \"title\": \"Request Rate\",'', '' >> monitoring/dashboards/application.json && echo '', ''        \"targets\": [{'', '' >> monitoring/dashboards/application.json && echo '', ''          \"expr\": \"rate(http_requests_total[5m])\"'', '' >> monitoring/dashboards/application.json && echo '', ''        }]'', '' >> monitoring/dashboards/application.json && echo '', ''      },'', '' >> monitoring/dashboards/application.json && echo '', ''      {'', '' >> monitoring/dashboards/application.json && echo '', ''        \"title\": \"Request Latency\",'', '' >> monitoring/dashboards/application.json && echo '', ''        \"targets\": [{'', '' >> monitoring/dashboards/application.json && echo '', ''          \"expr\": \"histogram_quantile(0.95, http_request_duration_seconds_bucket)\"'', '' >> monitoring/dashboards/application.json && echo '', ''        }]'', '' >> monitoring/dashboards/application.json && echo '', ''      }'', '' >> monitoring/dashboards/application.json && echo '', ''    ]'', '' >> monitoring/dashboards/application.json && echo '', ''  }'', '' >> monitoring/dashboards/application.json && echo '', ''}'', '' >> monitoring/dashboards/application.json && echo '', ''Grafana dashboard generated'', '' > .dashboard_config'']) 30 1,
        step_template (''Generate alerting rules'')
         (''Create Prometheus alert rules'')
         (sq [''echo '', ''groups:'', '' > monitoring/alerts/alerts.yml && echo '', ''  - name: {{.work_item_id}}'', '' >> monitoring/alerts/alerts.yml && echo '', ''    rules:'', '' >> monitoring/alerts/alerts.yml && echo '', ''      - alert: HighErrorRate'', '' >> monitoring/alerts/alerts.yml && echo '', ''        expr: rate(http_requests_total{status=~\"5..\"}[5m]) > 0.05'', '' >> monitoring/alerts/alerts.yml && echo '', ''        for: 5m'', '' >> monitoring/alerts/alerts.yml && echo '', ''        annotations:'', '' >> monitoring/alerts/alerts.yml && echo '', ''          summary: \"High error rate detected\"'', '' >> monitoring/alerts/alerts.yml && echo '', ''      - alert: HighLatency'', '' >> monitoring/alerts/alerts.yml && echo '', ''        expr: histogram_quantile(0.95, http_request_duration_seconds_bucket) > 1'', '' >> monitoring/alerts/alerts.yml && echo '', ''        for: 5m'', '' >> monitoring/alerts/alerts.yml && echo '', ''        annotations:'', '' >> monitoring/alerts/alerts.yml && echo '', ''          summary: \"High latency detected\"'', '' >> monitoring/alerts/alerts.yml && echo '', ''Alerting rules generated'', '' > .alerts_config'']) 30 1,
        step_template (''Create monitoring documentation'')
         (''Document monitoring setup'')
         (sq [''echo '', ''# Monitoring Setup'', '' > MONITORING.md && echo '', '''', '' >> MONITORING.md && echo '', ''## Summary'', '' >> MONITORING.md && echo '', '''', '' >> MONITORING.md && echo '', ''- Work Item: {{.work_item_id}}'', '' >> MONITORING.md && echo '', ''- Title: {{.title}}'', '' >> MONITORING.md && echo '', ''- Objective: {{.objective}}'', '' >> MONITORING.md && echo '', '''', '' >> MONITORING.md && echo '', ''## Components'', '' >> MONITORING.md && echo '', '''', '' >> MONITORING.md && echo '', ''1. **Metrics**: monitoring/metrics/metrics.yml'', '' >> MONITORING.md && echo '', ''2. **Dashboards**: monitoring/dashboards/application.json'', '' >> MONITORING.md && echo '', ''3. **Alerts**: monitoring/alerts/alerts.yml'', '' >> MONITORING.md && echo '', '''', '' >> MONITORING.md && echo '', ''## Alerting'', '' >> MONITORING.md && echo '', '''', '' >> MONITORING.md && echo '', ''- **HighErrorRate**: Triggered when error rate > 5% for 5 minutes'', '' >> MONITORING.md && echo '', ''- **HighLatency**: Triggered when p95 latency > 1s for 5 minutes'', '' >> MONITORING.md && echo '', ''Monitoring documentation created'', '' > .monitoring_documented'']) 30 1,
        step_template (''Generate proof-of-work summary'')
         (''Create monitoring proof-of-work'')
         (sq [''echo '', ''# Proof of Work'', '' > PROOF_OF_WORK.md && echo '', '''', '' >> PROOF_OF_WORK.md && echo '', ''## Monitoring Setup'', '' >> PROOF_OF_WORK.md && echo '', '''', '' >> PROOF_OF_WORK.md && echo '', ''- Work Item: {{.work_item_id}}'', '' >> PROOF_OF_WORK.md && echo '', ''- Title: {{.title}}'', '' >> PROOF_OF_WORK.md && echo '', ''- Objective: {{.objective}}'', '' >> PROOF_OF_WORK.md && echo '', '''', '' >> PROOF_OF_WORK.md && echo '', ''## Files Created'', '' >> PROOF_OF_WORK.md && echo '', '''', '' >> PROOF_OF_WORK.md && echo '', ''- monitoring/metrics/metrics.yml - Metrics configuration'', '' >> PROOF_OF_WORK.md && echo '', ''- monitoring/dashboards/application.json - Grafana dashboard'', '' >> PROOF_OF_WORK.md && echo '', ''- monitoring/alerts/alerts.yml - Alert rules'', '' >> PROOF_OF_WORK.md && echo '', ''- MONITORING.md - Documentation'', '' >> PROOF_OF_WORK.md && echo '', '''', '' >> PROOF_OF_WORK.md && echo '', ''## Verification'', '' >> PROOF_OF_WORK.md && echo '', '''', '' >> PROOF_OF_WORK.md && echo '', ''Import dashboard into Grafana and verify alerts'', '' >> PROOF_OF_WORK.md && echo '', ''Proof of work generated'', '' > .pow_generated'']) 30 1]\<rparr>"

definition realImplementationTemplate :: WorkTypeTemplate where
  "realImplementationTemplate =
     \<lparr>wt_WorkType = ''implementation'', wt_WorkDomain = ''real'',
      wt_Description = ''Real implementation: creates actual files, documentation, and tests'',
      wt_Steps =
       [step_template (''Create project structure'')
         (''Create source directories and files'')
         (sq [''mkdir -p cmd internal pkg docs tests && echo '', ''Project structure created'', '' > .structure_created'']) 30 1,
        step_template (''Generate source code'')
         (''Generate production-ready Go source files'')
         (sq [''cat > cmd/main.go << '', ''GOEOF'', ''
package main

import (
'' @ [CHR 0x09] @ ''\"context\"
'' @ [CHR 0x09] @ ''\"log\"
'' @ [CHR 0x09] @ ''\"os\"
'' @ [CHR 0x09] @ ''\"os/signal\"
'' @ [CHR 0x09] @ ''\"syscall\"
)

// WorkItem represents the {{.title}} feature
const (
'' @ [CHR 0x09] @ ''WorkItemID = \"{{.work_item_id}}\"
'' @ [CHR 0x09] @ ''FeatureName = \"{{.title}}\"
'' @ [CHR 0x09] @ ''Version    = \"1.0.0\"
)

// Main entry point for {{.title}}
func main() {
'' @ [CHR 0x09] @ ''ctx, cancel := context.WithCancel(context.Background())
'' @ [CHR 0x09] @ ''defer cancel()

'' @ [CHR 0x09] @ ''// Setup signal handling for graceful shutdown
'' @ [CHR 0x09] @ ''sigChan := make(chan os.Signal, 1)
'' @ [CHR 0x09] @ ''signal.Notify(sigChan, syscall.SIGINT, syscall.SIGTERM)
'' @ [CHR 0x09] @ ''go func() {
'' @ [CHR 0x09, CHR 0x09] @ ''<-sigChan
'' @ [CHR 0x09, CHR 0x09] @ ''log.Printf(\"[INFO] Received shutdown signal, gracefully stopping %s\", FeatureName)
'' @ [CHR 0x09, CHR 0x09] @ ''cancel()
'' @ [CHR 0x09] @ ''}()

'' @ [CHR 0x09] @ ''log.Printf(\"[INFO] Starting %s v%s (WorkItem: %s)\", FeatureName, Version, WorkItemID)
'' @ [CHR 0x09] @ ''log.Printf(\"[INFO] Objective: {{.objective}}\")

'' @ [CHR 0x09] @ ''// Main application logic
'' @ [CHR 0x09] @ ''if err := run(ctx); err != nil {
'' @ [CHR 0x09, CHR 0x09] @ ''log.Printf(\"[ERROR] Application failed: %v\", err)
'' @ [CHR 0x09, CHR 0x09] @ ''os.Exit(1)
'' @ [CHR 0x09] @ ''}

'' @ [CHR 0x09] @ ''log.Printf(\"[INFO] %s completed successfully\", FeatureName)
}

// run implements the main application logic
func run(ctx context.Context) error {
'' @ [CHR 0x09] @ ''// Implement {{.title}} specific logic
'' @ [CHR 0x09] @ ''// This is a production-grade starter template
'' @ [CHR 0x09] @ ''// 1. Initialize dependencies
'' @ [CHR 0x09] @ ''// 2. Connect to required services
'' @ [CHR 0x09] @ ''// 3. Process according to objective
'' @ [CHR 0x09] @ ''// 4. Handle errors and retries
'' @ [CHR 0x09] @ ''// 5. Cleanup resources

'' @ [CHR 0x09] @ ''log.Printf(\"[INFO] Feature implementation in progress\")

'' @ [CHR 0x09] @ ''// Simulate work - replace with actual implementation
'' @ [CHR 0x09] @ ''select {
'' @ [CHR 0x09] @ ''case <-ctx.Done():
'' @ [CHR 0x09, CHR 0x09] @ ''return ctx.Err()
'' @ [CHR 0x09] @ ''default:
'' @ [CHR 0x09, CHR 0x09] @ ''log.Printf(\"[INFO] Processing feature: %s\", FeatureName)
'' @ [CHR 0x09] @ ''}

'' @ [CHR 0x09] @ ''return nil
}
GOEOF
echo '', ''Source code generated'', '' > .code_generated'']) 60 2,
        step_template (''Create documentation'')
         (''Generate comprehensive README and API documentation'')
         (sq [''cat > README.md << '', ''RDMEOF'', ''
# {{.title}}

[![Go Version](https://img.shields.io/badge/Go-1.25+-00ADD8E?style=flat&logo=go)](https://golang.org)
[![License](https://img.shields.io/badge/License-MIT-green.svg)](LICENSE)

## Overview

{{.objective}}

## Features

- Production-ready error handling with context support
- Graceful shutdown on SIGINT/SIGTERM
- Structured logging with appropriate log levels
- Clean architecture with separation of concerns
- Comprehensive test coverage
- Well-documented code with godoc comments

## Installation

```bash
# Clone repository
git clone <repository-url>
cd <repository-name>

# Build binary
go build -o {{.title}} ./cmd

# Run binary
./{{.title}}
```

## Usage

### Basic Usage

```bash
# Run with default configuration
./{{.title}}
```

### Configuration

Configuration is loaded from environment variables:

| Variable | Description | Default |
|----------|-------------|----------|
| `LOG_LEVEL` | Log level (debug, info, warn, error) | `info` |
| `TIMEOUT` | Operation timeout in seconds | `30` |

### Environment Variables

```bash
# Set log level
export LOG_LEVEL=debug

# Set timeout
export TIMEOUT=60

# Run application
./{{.title}}
```

## Development

### Prerequisites

- Go 1.25 or later

### Building

```bash
# Build for current platform
go build -o {{.title}} ./cmd

# Build for multiple platforms
GOOS=linux GOARCH=amd64 go build -o {{.title}}-linux-amd64 ./cmd
GOOS=darwin GOARCH=arm64 go build -o {{.title}}-darwin-arm64 ./cmd
```

### Testing

```bash
# Run all tests
go test ./...

# Run with coverage
go test -coverprofile=coverage.out ./...
go tool cover -html=coverage.out -o coverage.html

# Run benchmarks
go test -bench=. -benchmem ./...
```

## Documentation

- [API Reference](docs/API.md)
- [Architecture](docs/ARCHITECTURE.md)
- [Contributing Guide](CONTRIBUTING.md)

## Work Item Reference

- **ID**: {{.work_item_id}}
- **Title**: {{.title}}
- **Status**: Completed

## License

MIT License - see [LICENSE](LICENSE) file for details.

---

Built with zen-brain Factory
RDMEOF
mkdir -p docs && cat > docs/API.md << '', ''APIEOF'', ''
# API Reference

## Table of Contents

1. [Constants](#constants)
2. [Functions](#functions)
3. [Types](#types)

## Constants

### WorkItemID

Work item identifier used for tracing and logging.

```go
const WorkItemID = \"{{.work_item_id}}\"
```

### FeatureName

Human-readable feature name.

```go
const FeatureName = \"{{.title}}\"
```

### Version

Current semantic version of the feature.

```go
const Version = \"1.0.0\"
```

## Functions

### main()

Entry point for the application. Initializes context, sets up signal handling, and starts the application.

```go
func main()
```

### run()

Main application logic implementation.

```go
func run(ctx context.Context) error
```

**Parameters**:
- `ctx context.Context`: Context for cancellation and timeout control

**Returns**:
- `error`: nil on success, error on failure
**Description**:
Implements the core logic for {{.title}}. Handles initialization, processing, and cleanup.

## Usage Examples

### Running the Application

```go
package main

import (
    \"context\"
    \"os\"
    \"os/signal\"
    \"syscall\"
)

func main() {
    ctx, cancel := context.WithCancel(context.Background())
    defer cancel()

    // Handle signals
    sigChan := make(chan os.Signal, 1)
    signal.Notify(sigChan, syscall.SIGINT, syscall.SIGTERM)

    go func() {
        <-sigChan
        cancel()
    }()

    // Run application
    if err := run(ctx); err != nil {
        os.Exit(1)
    }
}
```

---

*Generated by zen-brain Factory*
APIEOF
echo '', ''Documentation generated'', '' > .docs_generated'']) 30 1,
        step_template (''Write tests'')
         (''Create comprehensive test files with production-grade test cases'')
         (sq [''cat > cmd/main_test.go << '', ''TESTEOF'', ''
package main

import (
'' @ [CHR 0x09] @ ''\"context\"
'' @ [CHR 0x09] @ ''\"testing\"
'' @ [CHR 0x09] @ ''\"time\"
)

func TestMain(t *testing.T) {
'' @ [CHR 0x09] @ ''// This test verifies that main() runs without panicking
'' @ [CHR 0x09] @ ''t.Run(\"does not panic\", func(t *testing.T) {
'' @ [CHR 0x09, CHR 0x09] @ ''defer func() {
'' @ [CHR 0x09, CHR 0x09, CHR 0x09] @ ''if r := recover(); r != nil {
'' @ [CHR 0x09, CHR 0x09, CHR 0x09, CHR 0x09] @ ''t.Errorf(\"main() panicked: %v\", r)
'' @ [CHR 0x09, CHR 0x09, CHR 0x09] @ ''}
'' @ [CHR 0x09, CHR 0x09] @ ''}()
'' @ [CHR 0x09, CHR 0x09] @ ''// Note: We cannot call main() directly as it starts the program
'' @ [CHR 0x09, CHR 0x09] @ ''// This is a structural test ensuring the function compiles
'' @ [CHR 0x09] @ ''})
}

func TestRun(t *testing.T) {
'' @ [CHR 0x09] @ ''t.Run(\"returns nil on success\", func(t *testing.T) {
'' @ [CHR 0x09, CHR 0x09] @ ''ctx, cancel := context.WithTimeout(context.Background(), 1*time.Second)
'' @ [CHR 0x09, CHR 0x09] @ ''defer cancel()

'' @ [CHR 0x09, CHR 0x09] @ ''if err := run(ctx); err != nil {
'' @ [CHR 0x09, CHR 0x09, CHR 0x09] @ ''t.Errorf(\"run() returned error: %v\", err)
'' @ [CHR 0x09, CHR 0x09] @ ''}
'' @ [CHR 0x09] @ ''})

'' @ [CHR 0x09] @ ''t.Run(\"handles context cancellation\", func(t *testing.T) {
'' @ [CHR 0x09, CHR 0x09] @ ''ctx, cancel := context.WithCancel(context.Background())
'' @ [CHR 0x09, CHR 0x09] @ ''cancel() // Immediate cancellation

'' @ [CHR 0x09, CHR 0x09] @ ''err := run(ctx)
'' @ [CHR 0x09, CHR 0x09] @ ''if err == nil {
'' @ [CHR 0x09, CHR 0x09, CHR 0x09] @ ''t.Error(\"run() should return error on context cancellation\")
'' @ [CHR 0x09, CHR 0x09] @ ''}
'' @ [CHR 0x09, CHR 0x09] @ ''if err != context.Canceled {
'' @ [CHR 0x09, CHR 0x09, CHR 0x09] @ ''t.Errorf(\"run() should return context.Canceled, got: %v\", err)
'' @ [CHR 0x09, CHR 0x09] @ ''}
'' @ [CHR 0x09] @ ''})

'' @ [CHR 0x09] @ ''t.Run(\"handles context timeout\", func(t *testing.T) {
'' @ [CHR 0x09, CHR 0x09] @ ''ctx, cancel := context.WithTimeout(context.Background(), 1*time.Nanosecond)
'' @ [CHR 0x09, CHR 0x09] @ ''defer cancel()

'' @ [CHR 0x09, CHR 0x09] @ ''err := run(ctx)
'' @ [CHR 0x09, CHR 0x09] @ ''if err == nil {
'' @ [CHR 0x09, CHR 0x09, CHR 0x09] @ ''t.Error(\"run() should return error on timeout\")
'' @ [CHR 0x09, CHR 0x09] @ ''}
'' @ [CHR 0x09] @ ''})
}

func TestConstants(t *testing.T) {
'' @ [CHR 0x09] @ ''t.Run(\"WorkItemID is set\", func(t *testing.T) {
'' @ [CHR 0x09, CHR 0x09] @ ''if WorkItemID == \"\" {
'' @ [CHR 0x09, CHR 0x09, CHR 0x09] @ ''t.Error(\"WorkItemID should be set\")
'' @ [CHR 0x09, CHR 0x09] @ ''}
'' @ [CHR 0x09, CHR 0x09] @ ''if WorkItemID != \"{{.work_item_id}}\" {
'' @ [CHR 0x09, CHR 0x09, CHR 0x09] @ ''t.Errorf(\"WorkItemID mismatch: got %s, want {{.work_item_id}}\", WorkItemID)
'' @ [CHR 0x09, CHR 0x09] @ ''}
'' @ [CHR 0x09] @ ''})

'' @ [CHR 0x09] @ ''t.Run(\"FeatureName is set\", func(t *testing.T) {
'' @ [CHR 0x09, CHR 0x09] @ ''if FeatureName == \"\" {
'' @ [CHR 0x09, CHR 0x09, CHR 0x09] @ ''t.Error(\"FeatureName should be set\")
'' @ [CHR 0x09, CHR 0x09] @ ''}
'' @ [CHR 0x09, CHR 0x09] @ ''if FeatureName != \"{{.title}}\" {
'' @ [CHR 0x09, CHR 0x09, CHR 0x09] @ ''t.Errorf(\"FeatureName mismatch: got %s, want {{.title}}\", FeatureName)
'' @ [CHR 0x09, CHR 0x09] @ ''}
'' @ [CHR 0x09] @ ''})

'' @ [CHR 0x09] @ ''t.Run(\"Version is set\", func(t *testing.T) {
'' @ [CHR 0x09, CHR 0x09] @ ''if Version == \"\" {
'' @ [CHR 0x09, CHR 0x09, CHR 0x09] @ ''t.Error(\"Version should be set\")
'' @ [CHR 0x09, CHR 0x09] @ ''}
'' @ [CHR 0x09, CHR 0x09] @ ''if Version != \"1.0.0\" {
'' @ [CHR 0x09, CHR 0x09, CHR 0x09] @ ''t.Errorf(\"Version mismatch: got %s, want 1.0.0\", Version)
'' @ [CHR 0x09, CHR 0x09] @ ''}
'' @ [CHR 0x09] @ ''})
}

func BenchmarkRun(b *testing.B) {
'' @ [CHR 0x09] @ ''ctx := context.Background()

'' @ [CHR 0x09] @ ''b.ResetTimer()
'' @ [CHR 0x09] @ ''for i := 0; i < b.N; i++ {
'' @ [CHR 0x09, CHR 0x09] @ ''// Note: run() returns immediately in stub
'' @ [CHR 0x09, CHR 0x09] @ ''// In a real benchmark, we would measure actual work
'' @ [CHR 0x09, CHR 0x09] @ ''_ = run(ctx)
'' @ [CHR 0x09] @ ''}
}
TESTEOF
echo '', ''Tests created'', '' > .tests_created'']) 60 2,
        step_template (''build'')
         (''Build the project (real go build when go.mod present)'')
         ([]) 120 1,
        step_template (''Run tests'')
         (''Run tests (real go test when go.mod present)'')
         ([]) 180 1,
        step_template (''Generate proof-of-work summary'')
         (''Create comprehensive summary of work done'')
         (sq [''cat > PROOF_OF_WORK.md << '', ''POWEEOF'', ''
# Proof of Work: Implementation

## Work Item
- **ID**: {{.work_item_id}}
- **Title**: {{.title}}
- **Objective**: {{.objective}}

## Deliverables

### Source Code

'' @ [CHR 0xE2, CHR 0x9C, CHR 0x85] @ '' **cmd/main.go** - Production-ready main entry point
- Context-based cancellation support
- Graceful signal handling (SIGINT/SIGTERM)
- Structured logging with INFO/ERROR levels
- Constants for WorkItemID, FeatureName, Version
- Complete main() and run() implementations

### Documentation

'' @ [CHR 0xE2, CHR 0x9C, CHR 0x85] @ '' **README.md** - Comprehensive project documentation
- Feature overview and description
- Installation instructions
- Usage examples (basic and advanced)
- Environment variable configuration
- Development setup and testing guide
- Work item reference section

'' @ [CHR 0xE2, CHR 0x9C, CHR 0x85] @ '' **docs/API.md** - Complete API reference
- Constants documentation (WorkItemID, FeatureName, Version)
- Function signatures (main(), run())
- Parameter descriptions
- Usage examples
- Comprehensive godoc comments

### Tests

'' @ [CHR 0xE2, CHR 0x9C, CHR 0x85] @ '' **cmd/main_test.go** - Full test coverage
- `TestMain()` - Structural test
- `TestRun()` - Success, cancellation, timeout scenarios
- `TestConstants()` - Constant value validation
- `BenchmarkRun()` - Performance benchmark

### Code Quality

'' @ [CHR 0xE2, CHR 0x9C, CHR 0x85] @ '' **Production-Ready**
- No TODO placeholders in production code
- Complete error handling
- Context-aware design
- Idiomatic Go patterns
- Comprehensive testing
- Well-documented code

## Verification

### Build Verification

```bash
# Build project
go build -o {{.title}} ./cmd

# Output
# Build successful
```

### Test Verification

```bash
# Run tests
go test ./... -v

# Expected output
# PASS: TestMain
# PASS: TestRun
# PASS: TestConstants
# PASS: BenchmarkRun
```

### Lint Verification

```bash
# Run linters
gofmt -s -w .
go vet ./...
```

## Git Evidence

```bash
# View files created
git status --short

# Expected output
# A  README.md
# A  PROOF_OF_WORK.md
# A  cmd/main.go
# A  cmd/main_test.go
# A  docs/API.md
```

---

*Generated by zen-brain Factory*
*Work Item: {{.work_item_id}}*
POWEEOF
echo '', ''Proof of work generated'', '' > .pow_generated'']) 30 1]\<rparr>"

definition realDocumentationTemplate :: WorkTypeTemplate where
  "realDocumentationTemplate =
     \<lparr>wt_WorkType = ''docs'', wt_WorkDomain = ''real'',
      wt_Description = ''Real documentation: creates actual markdown files with comprehensive content'',
      wt_Steps =
       [step_template (''Create documentation structure'')
         (''Create docs directory and index'')
         (sq [''mkdir -p docs examples && echo '', ''Documentation structure created'', '' > .docs_structure'']) 30 1,
        step_template (''Generate main documentation'')
         (''Create primary documentation file with full content'')
         (sq [''cat > docs/README.md << '', ''DOCEOF'', ''
# {{.title}}

## Overview

{{.objective}}

## Context

This document is part of the zen-brain knowledge base and serves as a comprehensive reference for the topic described above.

## Implementation Details

The implementation follows zen-brain best practices:
- Uses structured error handling
- Includes comprehensive testing
- Follows project conventions
- Maintains backward compatibility

## Usage Examples

### Basic Usage

```bash
# Example command
{{.title}} --help
```

### Advanced Usage

```bash
# Advanced configuration
{{.title}} --config=config.yaml --verbose
```

## Configuration

### Required Parameters

| Parameter | Type | Description | Default |
|-----------|-------|-------------|----------|
| config | string | Path to configuration file | Required |

### Optional Parameters

| Parameter | Type | Description | Default |
|-----------|-------|-------------|----------|
| verbose | boolean | Enable verbose logging | false |
| timeout | int | Operation timeout in seconds | 30 |

## Troubleshooting

### Common Issues

**Issue**: Configuration file not found

**Solution**: Ensure the configuration file exists at the specified path. Check file permissions.

**Issue**: Timeout exceeded

**Solution**: Increase the timeout parameter using the `--timeout` flag.

### Debug Mode

Enable debug mode for detailed logging:

```bash
export ZEN_DEBUG=true
{{.title}} --verbose
```

## Related Documentation

- [Architecture Overview](./ARCHITECTURE.md)
- [API Reference](./API.md)
- [Contributing Guide](../../CONTRIBUTING.md)

## Work Item Reference

- **ID**: {{.work_item_id}}
- **Title**: {{.title}}
- **Status**: Completed

---

*Generated by zen-brain Factory*
DOCEOF
echo '', ''Main documentation generated'', '' > .docs_main'']) 60 2,
        step_template (''Generate examples'')
         (''Create comprehensive usage examples'')
         (sq [''cat > examples/example.md << '', ''EXEEOF'', ''
# Usage Examples for {{.title}}

## Table of Contents

1. [Quick Start](#quick-start)
2. [Common Scenarios](#common-scenarios)
3. [Advanced Patterns](#advanced-patterns)

## Quick Start

### Installation

```bash
# Clone the repository
git clone <repository-url>
cd <repository-name>

# Install dependencies
go mod download
```

### Running the Tool

```bash
# Basic usage
./{{.title}} --help

# Show version
./{{.title}} --version
```

## Common Scenarios

### Scenario 1: Standard Operation

```bash
# Execute with default settings
./{{.title}} execute --input=data.json

# Output
# Success: Operation completed in 1.23s
```

### Scenario 2: With Custom Configuration

```bash
# Use custom configuration file
./{{.title}} execute --config=my-config.yaml --input=data.json

# With verbose output
./{{.title}} execute --config=my-config.yaml --input=data.json --verbose
```

### Scenario 3: Error Handling

```bash
# Handle invalid input gracefully
./{{.title}} execute --input=invalid.json

# Output
# Error: Invalid input format
# Details: File '', ''invalid.json'', '' not found
# Suggestion: Check file path and try again
```

## Advanced Patterns

### Batch Processing

```bash
# Process multiple files
for file in data/*.json; do
  ./{{.title}} execute --input=\"$file\" --output=\"results/$(basename $file .json).out\"
done
```

### Pipeline Integration

```bash
# Integrate with Unix pipeline
cat data.json | ./{{.title}} execute --stdin | jq '', ''.success'', ''
```

## Testing Examples

```bash
# Run integration tests
go test -v -run TestIntegration

# Run with coverage
go test -coverprofile=coverage.out ./...
go tool cover -html=coverage.out
```

---

*Examples generated for {{.work_item_id}}*
EXEEOF
echo '', ''Examples generated'', '' > .docs_examples'']) 30 1,
        step_template (''Generate proof-of-work summary'')
         (''Create summary of documentation created'')
         (sq [''cat > PROOF_OF_WORK.md << '', ''POWEEOF'', ''
# Proof of Work: Documentation

## Work Item
- **ID**: {{.work_item_id}}
- **Title**: {{.title}}
- **Objective**: {{.objective}}

## Artifacts Created

### Documentation Files

- `docs/README.md` - Main documentation with comprehensive content
  - Overview and context
  - Implementation details
  - Usage examples (basic and advanced)
  - Configuration reference
  - Troubleshooting guide

- `examples/example.md` - Usage examples
  - Quick start guide
  - Common scenarios
  - Advanced patterns
  - Pipeline integration examples

### Documentation Quality

- '' @ [CHR 0xE2, CHR 0x9C, CHR 0x85] @ '' Complete: All sections populated with real content
- '' @ [CHR 0xE2, CHR 0x9C, CHR 0x85] @ '' No placeholders: No TODO markers
- '' @ [CHR 0xE2, CHR 0x9C, CHR 0x85] @ '' Tested: Examples are valid and runnable
- '' @ [CHR 0xE2, CHR 0x9C, CHR 0x85] @ '' Structured: Proper markdown formatting and organization

## Verification

To verify documentation quality:

1. **Content completeness**: Check all sections have meaningful content
2. **Example validity**: Run examples to ensure they work
3. **Link integrity**: Verify all cross-references link correctly
4. **Format consistency**: Check markdown formatting is valid

```bash
# Run markdown linter
markdownlint docs/ examples/

# Check links
markdown-link-check docs/
```

## Git Evidence

```bash
# View files created
git status --short

# View changes
git diff --stat
```

---

*Documentation generated by zen-brain Factory*
*Work Item: {{.work_item_id}}*
POWEEOF
echo '', ''Proof of work generated'', '' > .pow_generated'']) 30 1]\<rparr>"

definition realBugFixTemplate :: WorkTypeTemplate where
  "realBugFixTemplate =
     \<lparr>wt_WorkType = ''bugfix'', wt_WorkDomain = ''real'',
      wt_Description = ''Real bug fix: creates analysis, fix code, tests, and documentation'',
      wt_Steps =
       [step_template (''Analyze bug'')
         (''Create bug analysis document'')
         (sq [''mkdir -p analysis && echo '', ''# Bug Analysis

## {{.title}}

{{.objective}}

## Root Cause
[Analysis pending]

## Impact
[Impact assessment]
'', '' > analysis/BUG_REPORT.md && echo '', ''Bug analysis created'', '' > .analysis_created'']) 30 1,
        step_template (''Implement fix'')
         (''Create fix implementation file'')
         (sq [''mkdir -p internal && echo '', ''package internal

// Fix for {{.title}}
//
// Work Item: {{.work_item_id}}
//
// This implements the fix for the bug described in analysis/BUG_REPORT.md

// Implement the actual fix here
func ApplyFix() error {
    // Fix implementation
    return nil
}
'', '' > internal/fix.go && echo '', ''Fix implemented'', '' > .fix_implemented'']) 60 2,
        step_template (''Write tests for fix'')
         (''Create test file with regression tests'')
         (sq [''echo '', ''package internal

import (
    \"testing\"
)

func TestApplyFix(t *testing.T) {
    t.Run(\"Fix is applied correctly\", func(t *testing.T) {
        if err := ApplyFix(); err != nil {
            t.Errorf(\"ApplyFix() error = %v\", err)
        }
    })
}
'', '' > internal/fix_test.go && echo '', ''Tests created'', '' > .tests_created'']) 60 2,
        step_template (''Create fix documentation'')
         (''Document the bug and fix'')
         (sq [''echo '', ''# Fix Documentation'', '' > FIX_DOCUMENTATION.md && echo '', '''', '' >> FIX_DOCUMENTATION.md && echo '', ''## Summary'', '' >> FIX_DOCUMENTATION.md && echo '', '''', '' >> FIX_DOCUMENTATION.md && echo '', ''- Work Item: {{.work_item_id}}'', '' >> FIX_DOCUMENTATION.md && echo '', ''- Title: {{.title}}'', '' >> FIX_DOCUMENTATION.md && echo '', '''', '' >> FIX_DOCUMENTATION.md && echo '', ''## Bug Analysis'', '' >> FIX_DOCUMENTATION.md && echo '', '''', '' >> FIX_DOCUMENTATION.md && echo '', ''See analysis/BUG_REPORT.md for detailed bug analysis.'', '' >> FIX_DOCUMENTATION.md && echo '', '''', '' >> FIX_DOCUMENTATION.md && echo '', ''## Fix Implementation'', '' >> FIX_DOCUMENTATION.md && echo '', '''', '' >> FIX_DOCUMENTATION.md && echo '', ''See internal/fix.go for the fix implementation.'', '' >> FIX_DOCUMENTATION.md && echo '', '''', '' >> FIX_DOCUMENTATION.md && echo '', ''## Tests'', '' >> FIX_DOCUMENTATION.md && echo '', '''', '' >> FIX_DOCUMENTATION.md && echo '', ''See internal/fix_test.go for regression tests.'', '' >> FIX_DOCUMENTATION.md && echo '', '''', '' >> FIX_DOCUMENTATION.md && echo '', ''## Verification'', '' >> FIX_DOCUMENTATION.md && echo '', '''', '' >> FIX_DOCUMENTATION.md && echo '', ''Run tests: go test ./internal -v -run TestApplyFix'', '' >> FIX_DOCUMENTATION.md && echo '', ''Fix documentation created'', '' > .fix_documented'']) 30 1]\<rparr>"

definition realRefactorTemplate :: WorkTypeTemplate where
  "realRefactorTemplate =
     \<lparr>wt_WorkType = ''refactor'', wt_WorkDomain = ''real'',
      wt_Description = ''Real refactoring: creates analysis, refactored code, tests, and documentation'',
      wt_Steps =
       [step_template (''Analyze code for refactoring'')
         (''Create code analysis document'')
         (sq [''mkdir -p analysis && echo '', ''# Refactoring Analysis'', '' > analysis/REFACTOR_ANALYSIS.md && echo '', '''', '' >> analysis/REFACTOR_ANALYSIS.md && echo '', ''## {{.title}}'', '' >> analysis/REFACTOR_ANALYSIS.md && echo '', '''', '' >> analysis/REFACTOR_ANALYSIS.md && echo '', ''{{.objective}}'', '' >> analysis/REFACTOR_ANALYSIS.md && echo '', '''', '' >> analysis/REFACTOR_ANALYSIS.md && echo '', ''## Current Issues'', '' >> analysis/REFACTOR_ANALYSIS.md && echo '', '''', '' >> analysis/REFACTOR_ANALYSIS.md && echo '', ''- Issue 1: [Description]'', '' >> analysis/REFACTOR_ANALYSIS.md && echo '', ''- Issue 2: [Description]'', '' >> analysis/REFACTOR_ANALYSIS.md && echo '', ''Refactor analysis created'', '' > .analysis_created'']) 30 1,
        step_template (''Implement refactored code'')
         (''Create refactored implementation'')
         (sq [''mkdir -p pkg && echo '', ''package pkg'', '' > pkg/refactored.go && echo '', '''', '' >> pkg/refactored.go && echo '', ''// Refactored implementation for {{.title}}'', '' >> pkg/refactored.go && echo '', '''', '' >> pkg/refactored.go && echo '', ''type Refactored struct {'', '' >> pkg/refactored.go && echo '', ''}'', '' >> pkg/refactored.go && echo '', '''', '' >> pkg/refactored.go && echo '', ''func (r *Refactored) Process() error {'', '' >> pkg/refactored.go && echo '', ''    return nil'', '' >> pkg/refactored.go && echo '', ''}'', '' >> pkg/refactored.go && echo '', ''Refactored code implemented'', '' > .refactor_implemented'']) 60 2,
        step_template (''Write refactored tests'')
         (''Create comprehensive tests for refactored code'')
         (sq [''echo '', ''package pkg'', '' > pkg/refactored_test.go && echo '', '''', '' >> pkg/refactored_test.go && echo '', ''import ('', '' >> pkg/refactored_test.go && echo '', ''    \"testing\"'', '' >> pkg/refactored_test.go && echo '', '')'', '' >> pkg/refactored_test.go && echo '', '''', '' >> pkg/refactored_test.go && echo '', ''func TestRefactored_Process(t *testing.T) {'', '' >> pkg/refactored_test.go && echo '', ''    t.Log(\"Test passed\")'', '' >> pkg/refactored_test.go && echo '', ''}'', '' >> pkg/refactored_test.go && echo '', ''Refactored tests created'', '' > .tests_created'']) 60 2,
        step_template (''Create refactoring documentation'')
         (''Document the refactoring changes'')
         (sq [''echo '', ''# Refactoring Documentation'', '' > REFACTORING.md && echo '', '''', '' >> REFACTORING.md && echo '', ''## Summary'', '' >> REFACTORING.md && echo '', '''', '' >> REFACTORING.md && echo '', ''- Work Item: {{.work_item_id}}'', '' >> REFACTORING.md && echo '', ''- Title: {{.title}}'', '' >> REFACTORING.md && echo '', ''Refactoring documentation created'', '' > .refactor_documented'']) 30 1]\<rparr>"

definition realPythonTemplate :: WorkTypeTemplate where
  "realPythonTemplate =
     \<lparr>wt_WorkType = ''implementation'', wt_WorkDomain = ''python'',
      wt_Description = ''Real Python implementation: creates Python project with source code, tests, and documentation'',
      wt_Steps =
       [step_template (''Create Python project structure'')
         (''Create Python directories and files'')
         (sq [''mkdir -p src tests && echo '', ''# Requirements'', '' > requirements.txt && echo '', '''', '' >> requirements.txt && echo '', ''pytest>=7.0.0'', '' >> requirements.txt && echo '', ''# Python'', '' > .gitignore && echo '', ''__pycache__/'', '' >> .gitignore && echo '', ''*.py[cod]'', '' >> .gitignore && echo '', ''*$py.class'', '' >> .gitignore && echo '', ''*.so'', '' >> .gitignore && echo '', ''.Python'', '' >> .gitignore && echo '', ''venv/'', '' >> .gitignore && echo '', ''env/'', '' >> .gitignore && echo '', ''from setuptools import setup, find_packages'', '' > setup.py && echo '', '''', '' >> setup.py && echo '', ''setup('', '' >> setup.py && echo '', ''    name=\"{{.work_item_id}}\",'', '' >> setup.py && echo '', ''    version=\"0.1.0\",'', '' >> setup.py && echo '', ''    description=\"{{.title}}\",'', '' >> setup.py && echo '', ''    packages=find_packages(),'', '' >> setup.py && echo '', ''    python_requires=\">=3.8\",'', '' >> setup.py && echo '', '')'', '' >> setup.py && echo '', ''Python project structure created'', '' > .structure_created'']) 30 1,
        step_template (''Generate Python source code'')
         (''Generate actual Python source files'')
         (sq [''echo '', ''#!/usr/bin/env python3'', '' > src/main.py && echo '', ''title = \"{{.title}}\"'', '' >> src/main.py && echo '', ''objective = \"{{.objective}}\"'', '' >> src/main.py && echo '', '''', '' >> src/main.py && echo '', ''class Main:'', '' >> src/main.py && echo '', ''    def __init__(self, name=None):'', '' >> src/main.py && echo '', ''        self.name = name or title'', '' >> src/main.py && echo '', '''', '' >> src/main.py && echo '', ''    def run(self):'', '' >> src/main.py && echo '', ''        print(\"Hello from {}\".format(self.name))'', '' >> src/main.py && echo '', '''', '' >> src/main.py && echo '', ''def main():'', '' >> src/main.py && echo '', ''    app = Main()'', '' >> src/main.py && echo '', ''    app.run()'', '' >> src/main.py && echo '', '''', '' >> src/main.py && echo '', ''if __name__ == \"__main__\":'', '' >> src/main.py && echo '', ''    main()'', '' >> src/main.py && chmod +x src/main.py && echo '', ''Source code generated'', '' > .code_generated'']) 60 2,
        step_template (''Create documentation'')
         (''Generate README and documentation'')
         (sq [''echo '', ''# {{.title}}'', '' > README.md && echo '', '''', '' >> README.md && echo '', ''{{.objective}}'', '' >> README.md && echo '', '''', '' >> README.md && echo '', ''## Work Item'', '' >> README.md && echo '', '''', '' >> README.md && echo '', ''- ID: {{.work_item_id}}'', '' >> README.md && echo '', '''', '' >> README.md && echo '', ''## Installation'', '' >> README.md && echo '', '''', '' >> README.md && echo '', ''pip install -r requirements.txt'', '' >> README.md && echo '', '''', '' >> README.md && echo '', ''## Usage'', '' >> README.md && echo '', '''', '' >> README.md && echo '', ''python src/main.py'', '' >> README.md && echo '', '''', '' >> README.md && echo '', ''## Testing'', '' >> README.md && echo '', '''', '' >> README.md && echo '', ''pytest tests/ -v'', '' >> README.md && mkdir -p docs && echo '', ''# API Documentation'', '' > docs/api.md && echo '', '''', '' >> docs/api.md && echo '', ''## Main Class'', '' >> docs/api.md && echo '', '''', '' >> docs/api.md && echo '', ''### Main(name=None)'', '' >> docs/api.md && echo '', '''', '' >> docs/api.md && echo '', ''Initialize the main application.'', '' >> docs/api.md && echo '', '''', '' >> docs/api.md && echo '', ''### run()'', '' >> docs/api.md && echo '', '''', '' >> docs/api.md && echo '', ''Run the main application.'', '' >> docs/api.md && echo '', ''Documentation generated'', '' > .docs_generated'']) 30 1,
        step_template (''Write tests'')
         (''Create pytest test files'')
         (sq [''echo '', ''import pytest'', '' > tests/test_main.py && echo '', ''from src.main import Main'', '' >> tests/test_main.py && echo '', '''', '' >> tests/test_main.py && echo '', ''class TestMain:'', '' >> tests/test_main.py && echo '', ''    def test_initialization(self):'', '' >> tests/test_main.py && echo '', ''        app = Main()'', '' >> tests/test_main.py && echo '', ''        assert app.name == \"{{.title}}\"'', '' >> tests/test_main.py && echo '', '''', '' >> tests/test_main.py && echo '', ''    def test_run(self, capsys):'', '' >> tests/test_main.py && echo '', ''        app = Main()'', '' >> tests/test_main.py && echo '', ''        app.run()'', '' >> tests/test_main.py && echo '', ''        captured = capsys.readouterr()'', '' >> tests/test_main.py && echo '', ''        assert \"Hello\" in captured.out'', '' >> tests/test_main.py && echo '', ''# Test package'', '' > tests/__init__.py && echo '', ''# Source package'', '' > src/__init__.py && echo '', ''Tests created'', '' > .tests_created'']) 60 2,
        step_template (''Generate proof-of-work summary'')
         (''Create summary of work done'')
         (sq [''echo '', ''# Proof of Work'', '' > PROOF_OF_WORK.md && echo '', '''', '' >> PROOF_OF_WORK.md && echo '', ''## Summary'', '' >> PROOF_OF_WORK.md && echo '', '''', '' >> PROOF_OF_WORK.md && echo '', ''- Work Item: {{.work_item_id}}'', '' >> PROOF_OF_WORK.md && echo '', ''- Title: {{.title}}'', '' >> PROOF_OF_WORK.md && echo '', ''- Objective: {{.objective}}'', '' >> PROOF_OF_WORK.md && echo '', '''', '' >> PROOF_OF_WORK.md && echo '', ''## Files Created'', '' >> PROOF_OF_WORK.md && echo '', '''', '' >> PROOF_OF_WORK.md && echo '', ''- src/main.py - Main application'', '' >> PROOF_OF_WORK.md && echo '', ''- tests/test_main.py - Pytest test suite'', '' >> PROOF_OF_WORK.md && echo '', ''- requirements.txt - Python dependencies'', '' >> PROOF_OF_WORK.md && echo '', ''- setup.py - Package setup'', '' >> PROOF_OF_WORK.md && echo '', ''- README.md - Documentation'', '' >> PROOF_OF_WORK.md && echo '', ''- docs/api.md - API documentation'', '' >> PROOF_OF_WORK.md && echo '', '''', '' >> PROOF_OF_WORK.md && echo '', ''## Verification'', '' >> PROOF_OF_WORK.md && echo '', '''', '' >> PROOF_OF_WORK.md && echo '', ''Run tests: python -m pytest tests/ -v'', '' >> PROOF_OF_WORK.md && echo '', '''', '' >> PROOF_OF_WORK.md && echo '', ''Run application: python src/main.py'', '' >> PROOF_OF_WORK.md && echo '', ''Proof of work generated'', '' > .pow_generated'']) 30 1]\<rparr>"

definition realReviewTemplate :: WorkTypeTemplate where
  "realReviewTemplate =
     \<lparr>wt_WorkType = ''review'', wt_WorkDomain = ''real'',
      wt_Description = ''Real review: repo-aware inventory, git evidence, Go/Python checks, REVIEW.md from observations'',
      wt_Steps =
       [step_template (''Workspace and git inventory'')
         (''Create review dir, pwd, list files; if git repo write branch/commit/status/diff, else write not-a-git-repo markers'')
         (sq [''mkdir -p review && pwd > review/workspace.txt && find . -maxdepth 4 -type f ! -path '', ''./.git/*'', '' ! -path '', ''./.zen-*'', '' | sort > review/files.txt && (git rev-parse --is-inside-work-tree 2>/dev/null | grep -q true && (git rev-parse --abbrev-ref HEAD > review/git-branch.txt && git rev-parse HEAD > review/git-commit.txt && git status --short > review/git-status.txt 2>/dev/null || true && git diff --stat > review/git-diff-stat.txt 2>/dev/null || true && git diff --name-only > review/git-diff-files.txt 2>/dev/null || true) || (echo '', ''not a git repo'', '' > review/git-branch.txt && echo '', ''not a git repo'', '' > review/git-commit.txt && echo '', ''not a git repo'', '' > review/git-status.txt && echo '', ''not a git repo'', '' > review/git-diff-stat.txt && echo '', ''not a git repo'', '' > review/git-diff-files.txt))'']) 30 1,
        step_template (''Language-aware safe checks'')
         (''Run go test ./... if go.mod and go exist; run Python py_compile if py project and python3 exist; else write skipped markers'')
         (sq [''if [ -f go.mod ] && command -v go >/dev/null 2>&1; then go test ./... -count=1 > review/go-test.txt 2>&1 || true; else echo '', ''skipped (no go.mod or go not in PATH)'', '' > review/go-test.txt; fi && (if ( [ -f pyproject.toml ] || [ -f setup.py ] || [ -f requirements.txt ] ) && command -v python3 >/dev/null 2>&1; then pyfiles=$(find . -name '', ''*.py'', '' -type f 2>/dev/null | head -20); if [ -n \"$pyfiles\" ]; then python3 -m py_compile $pyfiles > review/python-test.txt 2>&1 || true; else echo '', ''skipped (no .py files)'', '' > review/python-test.txt; fi; else echo '', ''skipped (no pyproject.toml/setup.py/requirements.txt or python3 not in PATH)'', '' > review/python-test.txt; fi)'']) 120 1,
        step_template (''Generate REVIEW.md from observations'')
         (''Create REVIEW.md with work item, title, objective, workspace path, git-backed flag, Go/Python check status, diff stat location, next action'')
         (sq [''echo '', ''# Review'', '' > REVIEW.md && echo '', '''', '' >> REVIEW.md && echo '', ''- **Work Item:** {{.work_item_id}}'', '' >> REVIEW.md && echo '', ''- **Title:** {{.title}}'', '' >> REVIEW.md && echo '', ''- **Objective:** {{.objective}}'', '' >> REVIEW.md && echo '', ''- **Workspace path:** '', ''$(cat review/workspace.txt 2>/dev/null) >> REVIEW.md && echo '', '''', '' >> REVIEW.md && (grep -q '', ''not a git repo'', '' review/git-branch.txt 2>/dev/null && echo '', ''- **Git-backed:** no'', '' >> REVIEW.md || echo '', ''- **Git-backed:** yes'', '' >> REVIEW.md) && echo '', '''', '' >> REVIEW.md && echo '', ''## Files inventory'', '' >> REVIEW.md && echo '', ''- `review/files.txt`'', '' >> REVIEW.md && echo '', '''', '' >> REVIEW.md && echo '', ''## Checks'', '' >> REVIEW.md && (grep -q '', ''skipped'', '' review/go-test.txt 2>/dev/null && echo '', ''- Go checks ran: no'', '' >> REVIEW.md || echo '', ''- Go checks ran: yes'', '' >> REVIEW.md) && (grep -q '', ''skipped'', '' review/python-test.txt 2>/dev/null && echo '', ''- Python checks ran: no'', '' >> REVIEW.md || echo '', ''- Python checks ran: yes'', '' >> REVIEW.md) && echo '', '''', '' >> REVIEW.md && echo '', ''## Diff stat'', '' >> REVIEW.md && echo '', ''- `review/git-diff-stat.txt` (or not a git repo)'', '' >> REVIEW.md && echo '', '''', '' >> REVIEW.md && echo '', ''## Next action'', '' >> REVIEW.md && echo '', ''Inspect `review/` artifacts and REVIEW.md. If git-backed, review git-status and diff; run tests locally if needed.'', '' >> REVIEW.md'']) 30 1]\<rparr>"

definition repoAwareImplementationTemplate :: WorkTypeTemplate where
  "repoAwareImplementationTemplate =
     \<lparr>wt_WorkType = ''implementation'', wt_WorkDomain = ''real'',
      wt_Description = ''Repo-native implementation: writes to real repo paths, context-aware code, honest proof'',
      wt_Steps =
       [step_template (''Validate git repository'')
         (''Require git repository for safe modification'')
         (sq [''git rev-parse --is-inside-work-tree 2>/dev/null || { echo '', ''ERROR: Not inside a git repository'', '' >&2; exit 1; } && echo '', ''Git repository: OK'', '''']) 15 1,
        step_template (''Detect project type and structure'')
         (''Detect Go/Python/Node project and identify existing directories'')
         (sq [''PROJECT_TYPE='', ''unknown'', '' && [ -f go.mod ] && PROJECT_TYPE='', ''go'', '' && echo \"PROJECT_TYPE=$PROJECT_TYPE\" > .zen-project-info && echo '', ''Detected: Go module'', '' && ls -d cmd internal pkg src 2>/dev/null | head -5 > .zen-dirs || true'']) 30 1,
        step_template (''Select real implementation target'')
         (''Select real target path from existing repo structure'')
         (sq [''[ -f .zen-dirs ] && DIRS=$(cat .zen-dirs) || DIRS='', '''', '' && TARGET_DIR='', '''', '' && PACKAGE_NAME='', '''', '' && if echo \"$DIRS\" | grep -q '', ''internal'', ''; then TARGET_DIR=$(echo \"$DIRS\" | grep '', ''internal'', '' | head -1); fi && if [ -z \"$TARGET_DIR\" ]; then echo '', ''ERROR: Cannot determine target directory - no valid directories found'', '' >&2; exit 1; fi && PACKAGE_NAME=$(basename \"$TARGET_DIR\") && echo \"export TARGET_DIR=$TARGET_DIR\" >> .zen-target-info && echo \"export PACKAGE_NAME=$PACKAGE_NAME\" >> .zen-target-info && echo \"Selected target: $TARGET_DIR, package: $PACKAGE_NAME\"'']) 30 1,
        step_template (''Create implementation file in real repo location'')
         (''Generate implementation in actual repo path, not .zen-tasks'')
         (sq [''[ -f .zen-target-info ] && . .zen-target-info || exit 1 && WORKITEM_ID=$(echo '', ''{{.work_item_id}}'', '' | tr '', ''[:upper:]'', '' '', ''[:lower:]'', '' | tr -cd '', ''a-z0-9_'', '' | head -c 30) && [ -z \"$WORKITEM_ID\" ] && WORKITEM_ID='', ''impl'', '' || true && mkdir -p \"$TARGET_DIR\" && TARGET_PATH=\"$TARGET_DIR/${WORKITEM_ID}.go\" && cat > \"$TARGET_PATH\" << IMPL_EOF
package $PACKAGE_NAME

import \"fmt\"

type WorkItem struct {
'' @ [CHR 0x09] @ ''name    string
'' @ [CHR 0x09] @ ''enabled bool
}

func New(name string) *WorkItem {
'' @ [CHR 0x09] @ ''return &WorkItem{name: name, enabled: false}
}

func (w *WorkItem) Enable() {
'' @ [CHR 0x09] @ ''w.enabled = true
}

func (w *WorkItem) Execute() error {
'' @ [CHR 0x09] @ ''if !w.enabled {
'' @ [CHR 0x09, CHR 0x09] @ ''return fmt.Errorf(\"feature disabled\")
'' @ [CHR 0x09] @ ''}
'' @ [CHR 0x09] @ ''fmt.Printf(\"Executing: %s'' @ [CHR 0x5C] @ ''n\", w.name)
'' @ [CHR 0x09] @ ''return nil
}
IMPL_EOF
echo \"$TARGET_PATH\" >> .zen-repo-files-changed && echo \"Created: $TARGET_PATH\"'']) 30 2,
        step_template (''Create test file beside implementation'')
         (''Generate test in actual repo location beside implementation'')
         (sq [''[ -f .zen-target-info ] && . .zen-target-info || exit 1 && WORKITEM_ID=$(echo '', ''{{.work_item_id}}'', '' | tr '', ''[:upper:]'', '' '', ''[:lower:]'', '' | tr -cd '', ''a-z0-9_'', '' | head -c 30) && [ -z \"$WORKITEM_ID\" ] && WORKITEM_ID='', ''impl'', '' || true && TEST_PATH=\"$TARGET_DIR/${WORKITEM_ID}_test.go\" && cat > \"$TEST_PATH\" << TEST_EOF
package $PACKAGE_NAME

import \"testing\"

func TestNew(t *testing.T) {
'' @ [CHR 0x09] @ ''w := New(\"test\")
'' @ [CHR 0x09] @ ''if w == nil {
'' @ [CHR 0x09, CHR 0x09] @ ''t.Fatal(\"New() returned nil\")
'' @ [CHR 0x09] @ ''}
}

func TestExecute(t *testing.T) {
'' @ [CHR 0x09] @ ''w := New(\"test\")
'' @ [CHR 0x09] @ ''w.Enable()
'' @ [CHR 0x09] @ ''if err := w.Execute(); err != nil {
'' @ [CHR 0x09, CHR 0x09] @ ''t.Errorf(\"Execute() failed: %v\", err)
'' @ [CHR 0x09] @ ''}
}
TEST_EOF
echo \"$TEST_PATH\" >> .zen-repo-files-changed && echo \"Created: $TEST_PATH\"'']) 30 2,
        step_template (''build'')
         (''Build project to verify implementation compiles'')
         ([]) 120 1,
        step_template (''Run tests'')
         (''Run tests to verify implementation works'')
         ([]) 180 1,
        step_template (''format'')
         (''Format code according to project style'')
         ([]) 30 1,
        step_template (''lint'')
         (''Run static checks on new code'')
         ([]) 60 1,
        step_template (''Generate honest proof'')
         (''Generate proof distinguishing repo files from metadata'')
         (sq [''[ -f .zen-target-info ] && . .zen-target-info || exit 1 && cat > PROOF_OF_WORK.md << PROOF_EOF
# Proof of Work

## Work Item
- **ID:** {{.work_item_id}}
- **Title:** {{.title}}

## Real Repository Files Changed
$(if [ -f .zen-repo-files-changed ]; then while read -r file; do echo \"- $file\"; done < .zen-repo-files-changed; else echo '', ''No repo files changed'', ''; fi)

## Metadata Files Created
- PROOF_OF_WORK.md

## Git Status
$(git status --short 2>/dev/null | head -20)
PROOF_EOF
rm -f .zen-project-info .zen-dirs .zen-target-info && echo '', ''Proof generated'', '''']) 30 1,
        step_template (''Commit work to git'')
         (''Create git commit with structured message for cryptographic provenance'')
         (sq [''if [ -f .zen-repo-files-changed ] && [ -s .zen-repo-files-changed ]; then git add . && git commit -m \"feat: Implement work item {{.work_item_id}}

- Template: implementation:real
- Work Item: {{.work_item_id}}
- Title: {{.title}}
- Files changed: $(wc -l < .zen-repo-files-changed)

Proof-of-work: $(if [ -f PROOF_OF_WORK.md ]; then cat PROOF_OF_WORK.md | head -c 20; else echo '', ''none'', ''; fi)\" && COMMIT_SHA=$(git rev-parse HEAD) && echo \"$COMMIT_SHA\" > .zen-commit-sha && echo \"Committed: $COMMIT_SHA\"; else echo '', ''No changes to commit'', ''; fi'']) 30 1]\<rparr>"

definition repoAwareBugFixTemplate :: WorkTypeTemplate where
  "repoAwareBugFixTemplate =
     \<lparr>wt_WorkType = ''bugfix'', wt_WorkDomain = ''real'',
      wt_Description = ''Repo-native bugfix: analyzes real files, modifies actual repo, honest verification'',
      wt_Steps =
       [step_template (''Validate git repository'')
         (''Require git repository for bug fix tracking'')
         (sq [''git rev-parse --is-inside-work-tree 2>/dev/null || { echo '', ''ERROR: Not inside a git repository'', '' >&2; exit 1; } && echo '', ''Git repository: OK'', '''']) 15 1,
        step_template (''Analyze objective and discover bug targets'')
         (''Analyze objective and search for likely bug target files in repo'')
         (sq [''mkdir -p analysis && cat > analysis/BUG_REPORT.md << '', ''REPORT_EOF'', ''
# Bug Analysis

## Work Item
- **ID:** {{.work_item_id}}
- **Title:** {{.title}}
- **Objective:** {{.objective}}

## Keywords
$(echo '', ''{{.title}} {{.objective}}'', '' | tr '', ''[:upper:]'', '' '', ''[:lower:]'', '' | tr -s '', '' '', '' '', [CHR 0x5C] @ ''n'', '' | head -10)
REPORT_EOF
echo '', ''analysis/BUG_REPORT.md'', '' >> .zen-metadata-files && echo '', ''Analysis created'', '''']) 60 1,
        step_template (''Detect project type'')
         (''Detect project type for file discovery'')
         (sq [''[ -f go.mod ] && PROJECT_TYPE='', ''go'', '' && echo '', ''PROJECT_TYPE=go'', '' > .zen-project-info && echo '', ''Detected: Go'', '' || echo '', ''PROJECT_TYPE=unknown'', '' > .zen-project-info && echo '', ''Unknown type'', '''']) 30 1,
        step_template (''Discover potential bug target files'')
         (''Search for files likely related to bug based on keywords'')
         (sq [''if [ -f .zen-project-info ]; then . .zen-project-info; fi && if [ \"$PROJECT_TYPE\" = '', ''go'', '' ]; then TARGET_FILES=$(find internal pkg cmd -name '', ''*.go'', '' ! -name '', ''*_test.go'', '' 2>/dev/null | head -10); fi && if [ -z \"$TARGET_FILES\" ]; then echo '', ''ERROR: No target files discovered'', '' >&2; exit 1; fi && echo \"$TARGET_FILES\" > .zen-target-files && echo \"$TARGET_FILES\" | head -5'']) 60 1,
        step_template (''Create targeted fix file'')
         (''Create fix file targeting specific bugs'')
         (sq [''if [ -f .zen-target-files ]; then TARGET_FILE=$(head -1 .zen-target-files); TARGET_DIR=$(dirname \"$TARGET_FILE\"); FILE_BASE=$(basename \"$TARGET_FILE\" | cut -d'', ''.'', '' -f1); else exit 1; fi && FIX_FILE=\"${TARGET_DIR}/fix_${FILE_BASE}.go\" && cat > \"$FIX_FILE\" << FIX_EOF
package $(basename \"$TARGET_DIR\")

import \"fmt\"

func ApplyFix() error {
'' @ [CHR 0x09] @ ''fmt.Println(\"Fix for {{.work_item_id}}\")
'' @ [CHR 0x09] @ ''return nil
}
FIX_EOF
echo \"$FIX_FILE\" >> .zen-repo-files-changed && echo \"Created: $FIX_FILE\"'']) 30 2,
        step_template (''Create test for fix'')
         (''Create regression test for the bug fix'')
         (sq [''if [ -f .zen-target-files ]; then TARGET_FILE=$(head -1 .zen-target-files); TARGET_DIR=$(dirname \"$TARGET_FILE\"); FILE_BASE=$(basename \"$TARGET_FILE\" | cut -d'', ''.'', '' -f1); else exit 1; fi && TEST_FILE=\"${TARGET_DIR}/fix_${FILE_BASE}_test.go\" && cat > \"$TEST_FILE\" << '', ''TEST_EOF'', ''
package $(basename \"$TARGET_DIR\")

import \"testing\"

func TestApplyFix(t *testing.T) {
'' @ [CHR 0x09] @ ''if err := ApplyFix(); err != nil {
'' @ [CHR 0x09, CHR 0x09] @ ''t.Fatal(err)
'' @ [CHR 0x09] @ ''}
}
TEST_EOF
echo \"$TEST_FILE\" >> .zen-repo-files-changed && echo \"Created: $TEST_FILE\"'']) 30 2,
        step_template (''format'')
         (''Format fix and test files'')
         ([]) 30 1,
        step_template (''build'')
         (''Build project to verify fix compiles'')
         ([]) 120 1,
        step_template (''Run tests'')
         (''Run tests including new regression tests'')
         ([]) 180 1,
        step_template (''Generate honest proof'')
         (''Generate proof with actual target files referenced'')
         (sq [''cat > PROOF_OF_WORK.md << '', ''PROOF_EOF'', ''
# Proof of Work: Bug Fix

## Work Item
- **ID:** {{.work_item_id}}
- **Title:** {{.title}}

## Target Files Examined
$(if [ -f .zen-target-files ]; then while read -r file; do echo \"- $file\"; done < .zen-target-files; else echo '', ''No target files'', ''; fi)

## Real Repository Files Changed
$(if [ -f .zen-repo-files-changed ]; then while read -r file; do echo \"- $file\"; done < .zen-repo-files-changed; else echo '', ''No repo files changed'', ''; fi)

## Metadata Files Created
$(if [ -f .zen-metadata-files ]; then while read -r file; do echo \"- $file\"; done < .zen-metadata-files; else echo '', ''No metadata files'', ''; fi)

## Git Status
$(git status --short 2>/dev/null | head -20)
PROOF_EOF
rm -f .zen-project-info .zen-target-files .zen-metadata-files && echo '', ''Proof generated'', '''']) 30 1,
        step_template (''Commit work to git'')
         (''Create git commit with structured message for cryptographic provenance'')
         (sq [''if [ -f .zen-repo-files-changed ] && [ -s .zen-repo-files-changed ]; then git add . && git commit -m \"fix: Implement work item {{.work_item_id}}

- Template: bugfix:real
- Work Item: {{.work_item_id}}
- Title: {{.title}}
- Files changed: $(wc -l < .zen-repo-files-changed)

Proof-of-work: $(if [ -f PROOF_OF_WORK.md ]; then cat PROOF_OF_WORK.md | head -c 20; else echo '', ''none'', ''; fi)\" && COMMIT_SHA=$(git rev-parse HEAD) && echo \"$COMMIT_SHA\" > .zen-commit-sha && echo \"Committed: $COMMIT_SHA\"; else echo '', ''No changes to commit'', ''; fi'']) 30 1]\<rparr>"

definition repoAwareRefactorTemplate :: WorkTypeTemplate where
  "repoAwareRefactorTemplate =
     \<lparr>wt_WorkType = ''refactor'', wt_WorkDomain = ''real'',
      wt_Description = ''Repo-native refactor: operates on actual files, captures before/after, honest proof'',
      wt_Steps =
       [step_template (''Validate git repository'')
         (''Require git repository for refactoring and change tracking'')
         (sq [''git rev-parse --is-inside-work-tree 2>/dev/null || { echo '', ''ERROR: Not inside a git repository'', '' >&2; exit 1; } && echo '', ''Git repository: OK'', '''']) 15 1,
        step_template (''Capture pre-refactor state'')
         (''Capture git commit and initial file states before refactoring'')
         (sq [''git rev-parse HEAD > .zen-pre-refactor-commit && echo \"Pre-refactor commit: $(cat .zen-pre-refactor-commit)\" && git diff --stat > .zen-pre-refactor-stat 2>/dev/null || true && echo '', ''Pre-refactor state captured'', '''']) 15 1,
        step_template (''Detect project type and discover refactor targets'')
         (''Detect project type and find files that are candidates for refactoring'')
         (sq [''[ -f go.mod ] && PROJECT_TYPE='', ''go'', '' && echo '', ''PROJECT_TYPE=go'', '' > .zen-project-info && echo '', ''Detected: Go'', '' && TARGET_FILES=$(find internal pkg -name '', ''*.go'', '' ! -name '', ''*_test.go'', '' 2>/dev/null | head -5) && echo \"$TARGET_FILES\" > .zen-target-files || (echo '', ''PROJECT_TYPE=unknown'', '' > .zen-project-info && exit 1) && [ -s .zen-target-files ] && echo \"Discovered $(wc -l < .zen-target-files) candidate files\"'']) 60 1,
        step_template (''Create refactoring analysis'')
         (''Create analysis document referencing actual target files'')
         (sq [''mkdir -p analysis && cat > analysis/REFACTOR_ANALYSIS.md << '', ''ANALYSIS_EOF'', ''
# Refactoring Analysis

## Work Item
- **ID:** {{.work_item_id}}
- **Title:** {{.title}}

## Candidate Files
$(if [ -f .zen-target-files ]; then while read -r file; do echo \"- $file\"; done < .zen-target-files; else echo '', ''No target files'', ''; fi)

## Pre-Refactor State
Commit: $(cat .zen-pre-refactor-commit 2>/dev/null)
ANALYSIS_EOF
echo '', ''analysis/REFACTOR_ANALYSIS.md'', '' >> .zen-metadata-files && echo '', ''Analysis created'', '''']) 60 1,
        step_template (''Create refactored files'')
         (''Create refactored versions of target files'')
         (sq [''if [ -f .zen-target-files ]; then while read -r target_file; do target_dir=$(dirname \"$target_file\"); file_base=$(basename \"$target_file\" | cut -d'', ''.'', '' -f1); refactored_file=\"${target_dir}/${file_base}_refactored.go\"; cat > \"$refactored_file\" << '', ''REFACTOR_EOF'', ''
package $(basename \"$target_dir\")

import \"fmt\"

type Refactored struct {
'' @ [CHR 0x09] @ ''name string
}

func NewRefactored(name string) *Refactored {
'' @ [CHR 0x09] @ ''return &Refactored{name: name}
}

func (r *Refactored) Process() error {
'' @ [CHR 0x09] @ ''fmt.Printf(\"Processing: %s'' @ [CHR 0x5C] @ ''n\", r.name)
'' @ [CHR 0x09] @ ''return nil
}
REFACTOR_EOF
echo \"$refactored_file\" >> .zen-repo-files-changed && echo \"Created: $refactored_file\"; done < .zen-target-files; else echo '', ''ERROR: No target files'', '' >&2; exit 1; fi'']) 60 2,
        step_template (''Create tests for refactored code'')
         (''Create tests for refactored files'')
         (sq [''if [ -f .zen-target-files ]; then while read -r target_file; do target_dir=$(dirname \"$target_file\"); file_base=$(basename \"$target_file\" | cut -d'', ''.'', '' -f1); test_file=\"${target_dir}/${file_base}_refactored_test.go\"; cat > \"$test_file\" << '', ''TEST_EOF'', ''
package $(basename \"$target_dir\")

import \"testing\"

func TestNewRefactored(t *testing.T) {
'' @ [CHR 0x09] @ ''r := NewRefactored(\"test\")
'' @ [CHR 0x09] @ ''if r == nil {
'' @ [CHR 0x09, CHR 0x09] @ ''t.Fatal(\"NewRefactored returned nil\")
'' @ [CHR 0x09] @ ''}
}
TEST_EOF
echo \"$test_file\" >> .zen-repo-files-changed; done < .zen-target-files; fi'']) 60 2,
        step_template (''format'')
         (''Format refactored files'')
         ([]) 30 1,
        step_template (''build'')
         (''Build project to verify refactoring compiles'')
         ([]) 120 1,
        step_template (''Run tests'')
         (''Run tests to verify refactoring preserves behavior'')
         ([]) 180 1,
        step_template (''Capture post-refactor state'')
         (''Capture git diff after refactoring'')
         (sq [''git diff --stat > .zen-post-refactor-stat 2>/dev/null && git rev-parse HEAD > .zen-post-refactor-commit && echo '', ''Post-refactor state captured'', '''']) 15 1,
        step_template (''Generate honest proof'')
         (''Generate proof with before/after evidence'')
         (sq [''cat > PROOF_OF_WORK.md << '', ''PROOF_EOF'', ''
# Proof of Work: Refactoring

## Work Item
- **ID:** {{.work_item_id}}
- **Title:** {{.title}}

## Target Files
$(if [ -f .zen-target-files ]; then while read -r file; do echo \"- $file\"; done < .zen-target-files; else echo '', ''No target files'', ''; fi)

## Real Repository Files Changed
$(if [ -f .zen-repo-files-changed ]; then while read -r file; do echo \"- $file\"; done < .zen-repo-files-changed; else echo '', ''No repo files changed'', ''; fi)

## Metadata Files Created
$(if [ -f .zen-metadata-files ]; then while read -r file; do echo \"- $file\"; done < .zen-metadata-files; else echo '', ''No metadata files'', ''; fi)

## Before/After
Pre: $(cat .zen-pre-refactor-commit 2>/dev/null)
Post: $(cat .zen-post-refactor-commit 2>/dev/null)

## Git Status
$(git status --short 2>/dev/null | head -20)
PROOF_EOF
rm -f .zen-project-info .zen-target-files .zen-metadata-files .zen-pre-refactor-commit .zen-post-refactor-commit .zen-pre-refactor-stat .zen-post-refactor-stat && echo '', ''Proof generated'', '''']) 30 1,
        step_template (''Commit work to git'')
         (''Create git commit with structured message for cryptographic provenance'')
         (sq [''if [ -f .zen-repo-files-changed ] && [ -s .zen-repo-files-changed ]; then git add . && git commit -m \"refactor: Refactor code for work item {{.work_item_id}}

- Template: refactor:real
- Work Item: {{.work_item_id}}
- Title: {{.title}}
- Files changed: $(wc -l < .zen-repo-files-changed)

Proof-of-work: $(if [ -f PROOF_OF_WORK.md ]; then cat PROOF_OF_WORK.md | head -c 20; else echo '', ''none'', ''; fi)\" && COMMIT_SHA=$(git rev-parse HEAD) && echo \"$COMMIT_SHA\" > .zen-commit-sha && echo \"Committed: $COMMIT_SHA\"; else echo '', ''No changes to commit'', ''; fi'']) 30 1]\<rparr>"

definition repoAwareDocsTemplate :: WorkTypeTemplate where
  "repoAwareDocsTemplate =
     \<lparr>wt_WorkType = ''docs'', wt_WorkDomain = ''real'',
      wt_Description = ''Repo-native documentation: detects docs structure, writes to actual paths, context-aware content'',
      wt_Steps =
       [step_template (''Validate git repository'')
         (''Require git repository for documentation tracking'')
         (sq [''git rev-parse --is-inside-work-tree 2>/dev/null || { echo '', ''ERROR: Not inside a git repository'', '' >&2; exit 1; } && echo '', ''Git repository: OK'', '''']) 15 1,
        step_template (''Step 2'')
         ('''')
         (sq [''[ -f go.mod ] && PROJECT_TYPE='', ''go'', '' && echo '', ''PROJECT_TYPE=go'', '' > .zen-project-info && echo '', ''Detected: Go'', '' && [ -f go.mod ] && MODULE_NAME=$(grep '', ''^module '', '' go.mod | awk '', ''{print $2}'', '') || MODULE_NAME='', ''unknown'', '' && echo \"MODULE_NAME=$MODULE_NAME\" >> .zen-project-info || (echo '', ''PROJECT_TYPE=unknown'', '' > .zen-project-info && echo '', ''Unknown type'', '') && DOC_DIRS=$(find . -type d -name '', ''docs'', '' 2>/dev/null | head -3) && if [ -z \"$DOC_DIRS\" ]; then DOC_DIRS='', ''docs'', ''; mkdir -p docs 2>/dev/null; fi && echo \"$DOC_DIRS\" > .zen-doc-dirs && echo '', ''Documentation directories: docs/'', '''']) 30 1,
        step_template (''Step 3'')
         ('''')
         (sq [''if [ -f .zen-project-info ]; then . .zen-project-info; fi && OBJECTIVE_LC=$(echo '', ''{{.objective}}'', '' | tr '', ''[:upper:]'', '' '', ''[:lower:]'', '') && if echo \"$OBJECTIVE_LC\" | grep -qi '', ''api'' @ [CHR 0x5C] @ ''|rest'' @ [CHR 0x5C] @ ''|grpc'', ''; then TARGET_DIR='', ''docs/api'', ''; elif echo \"$OBJECTIVE_LC\" | grep -qi '', ''guide'' @ [CHR 0x5C] @ ''|how-to'' @ [CHR 0x5C] @ ''|tutorial'' @ [CHR 0x5C] @ ''|getting started'', ''; then TARGET_DIR='', ''docs/guides'', ''; else TARGET_DIR='', ''docs'', ''; fi && mkdir -p \"$TARGET_DIR\" && DOC_NAME=$(echo '', ''{{.title}}'', '' | tr '', '' '', '' '', ''-'', '' | tr '', ''[:upper:]'', '' '', ''[:lower:]'', '' | tr -cd '', ''a-z0-9-'', '') && [ -z \"$DOC_NAME\" ] && DOC_NAME='', ''new-doc'', '' && TARGET_PATH=\"${TARGET_DIR}/${DOC_NAME}.md\" && echo \"export TARGET_PATH=$TARGET_PATH\" > .zen-target-info && echo \"Selected: $TARGET_PATH\"'']) 30 1,
        step_template (''Step 4'')
         ('''')
         (sq [''if [ -f .zen-project-info ]; then . .zen-project-info; fi && if [ -f .zen-target-info ]; then . .zen-target-info; fi && cat > \"$TARGET_PATH\" <<DOCS_EOF
# {{.title}}'' @ [CHR 0x5C] @ ''

> **Work Item:** {{.work_item_id}}'' @ [CHR 0x5C] @ ''
> **Created:** $(date -u +%Y-%m-%dT%H:%M:%SZ)'' @ [CHR 0x5C] @ ''

## Overview'' @ [CHR 0x5C] @ ''

{{.objective}}'' @ [CHR 0x5C] @ ''

## Project Context'' @ [CHR 0x5C] @ ''

$(if [ \"$PROJECT_TYPE\" = '', ''go'', '' ]; then echo '', ''This documentation applies to the Go module **$MODULE_NAME**.'', ''; elif [ \"$PROJECT_TYPE\" = '', ''node'', '' ]; then echo '', ''This documentation applies to the Node.js package.'', ''; else echo '', ''This documentation applies to this project.'', ''; fi)'' @ [CHR 0x5C] @ ''

## Getting Started'' @ [CHR 0x5C] @ ''

### Prerequisites'' @ [CHR 0x5C] @ ''
$(if [ \"$PROJECT_TYPE\" = '', ''go'', '' ]; then echo '', ''- Go 1.21+ installed'', ''; echo '', ''- GOPATH/bin in your PATH'', ''; elif [ \"$PROJECT_TYPE\" = '', ''node'', '' ]; then echo '', ''- Node.js 18+ installed'', ''; echo '', ''- npm or yarn package manager'', ''; else echo '', ''- Appropriate development environment for this project type'', ''; fi)'' @ [CHR 0x5C] @ ''

### Installation'' @ [CHR 0x5C] @ ''
$(if [ \"$PROJECT_TYPE\" = '', ''go'', '' ]; then echo '', [CHR 0x5C] @ ''`bash'' @ [CHR 0x5C] @ ''
go get /./...'' @ [CHR 0x5C] @ ''
'' @ [CHR 0x5C] @ ''`'', '''', ''; elif [ \"$PROJECT_TYPE\" = '', ''node'', '' ]; then echo '', [CHR 0x5C] @ ''`bash'' @ [CHR 0x5C] @ ''
npm install'' @ [CHR 0x5C] @ ''
'' @ [CHR 0x5C] @ ''`'', '''', ''; else echo '', ''Follow standard installation procedures for this project type.'', ''; fi)'' @ [CHR 0x5C] @ ''

### Quick Start'' @ [CHR 0x5C] @ ''
1. Clone to repository: '' @ [CHR 0x5C] @ ''`git clone <repo-url>'' @ [CHR 0x5C] @ ''`'' @ [CHR 0x5C] @ ''
2. Navigate to project directory'' @ [CHR 0x5C] @ ''
3. $(if [ \"$PROJECT_TYPE\" = '', ''go'', '' ]; then echo '', ''Run '' @ [CHR 0x5C] @ ''`go run main.go'' @ [CHR 0x5C] @ ''`'', ''; elif [ \"$PROJECT_TYPE\" = '', ''node'', '' ]; then echo '', ''Run '' @ [CHR 0x5C] @ ''`npm start'' @ [CHR 0x5C] @ ''`'', ''; else echo '', ''Run to main application'', ''; fi)'' @ [CHR 0x5C] @ ''
4. Verify to service is running'' @ [CHR 0x5C] @ ''


## Usage'' @ [CHR 0x5C] @ ''

### Basic Usage'' @ [CHR 0x5C] @ ''
The {{.title}} provides to following capabilities:'' @ [CHR 0x5C] @ ''

$(echo '', ''{{.objective}}'', '' | sed '', ''s/'' @ [CHR 0x5C] @ ''. /'' @ [CHR 0x5C] @ ''
- /g'', '' | sed '', ''s/^/- /'', '')'' @ [CHR 0x5C] @ ''

### Example: Common Scenario'' @ [CHR 0x5C] @ ''
'' @ [CHR 0x5C] @ ''`'' @ [CHR 0x5C] @ ''`'' @ [CHR 0x5C] @ ''`bash'' @ [CHR 0x5C] @ ''
# Example command demonstrating {{.title}}'' @ [CHR 0x5C] @ ''
$(if [ \"$PROJECT_TYPE\" = '', ''go'', '' ]; then echo '', ''go run cmd/main.go --help'', ''; elif [ \"$PROJECT_TYPE\" = '', ''node'', '' ]; then echo '', ''node index.js --help'', ''; else echo '', ''./script.sh --help'', ''; fi)'' @ [CHR 0x5C] @ ''
'' @ [CHR 0x5C] @ ''`'' @ [CHR 0x5C] @ ''`'' @ [CHR 0x5C] @ ''`'' @ [CHR 0x5C] @ ''

### Advanced Usage'' @ [CHR 0x5C] @ ''
For production deployment, consider these patterns:'' @ [CHR 0x5C] @ ''

1. **Environment Configuration**: Set environment variables for customization'' @ [CHR 0x5C] @ ''
2. **Logging**: Enable structured logging for observability'' @ [CHR 0x5C] @ ''
3. **Monitoring**: Integrate with monitoring tools (Prometheus, Grafana)'' @ [CHR 0x5C] @ ''
4. **Scaling**: Configure horizontal scaling based on load'' @ [CHR 0x5C] @ ''


## Configuration'' @ [CHR 0x5C] @ ''

### Environment Variables'' @ [CHR 0x5C] @ ''
$(if [ \"$PROJECT_TYPE\" = '', ''go'', '' ]; then echo '', ''| Variable | Description | Default |'' @ [CHR 0x5C] @ ''
|----------|-------------|---------|'' @ [CHR 0x5C] @ ''
| '' @ [CHR 0x5C] @ ''`PORT'' @ [CHR 0x5C] @ ''` | HTTP server port | '' @ [CHR 0x5C] @ ''`8080'' @ [CHR 0x5C] @ ''` |'' @ [CHR 0x5C] @ ''
| '' @ [CHR 0x5C] @ ''`LOG_LEVEL'' @ [CHR 0x5C] @ ''` | Logging level (debug, info, warn, error) | '' @ [CHR 0x5C] @ ''`info'' @ [CHR 0x5C] @ ''` |'' @ [CHR 0x5C] @ ''
| '' @ [CHR 0x5C] @ ''`DATABASE_URL'' @ [CHR 0x5C] @ ''` | Database connection string | '' @ [CHR 0x5C] @ ''`postgres://localhost:5432/db'' @ [CHR 0x5C] @ ''` |'', ''; elif [ \"$PROJECT_TYPE\" = '', ''node'', '' ]; then echo '', ''| Variable | Description | Default |'' @ [CHR 0x5C] @ ''
|----------|-------------|---------|'' @ [CHR 0x5C] @ ''
| '' @ [CHR 0x5C] @ ''`PORT'' @ [CHR 0x5C] @ ''` | HTTP server port | '' @ [CHR 0x5C] @ ''`3000'' @ [CHR 0x5C] @ ''` |'' @ [CHR 0x5C] @ ''
| '' @ [CHR 0x5C] @ ''`NODE_ENV'' @ [CHR 0x5C] @ ''` | Node environment (development, production) | '' @ [CHR 0x5C] @ ''`development'' @ [CHR 0x5C] @ ''` |'' @ [CHR 0x5C] @ ''
| '' @ [CHR 0x5C] @ ''`DATABASE_URL'' @ [CHR 0x5C] @ ''` | Database connection string | '' @ [CHR 0x5C] @ ''`postgres://localhost:5432/db'' @ [CHR 0x5C] @ ''` |'', ''; else echo '', ''| Variable | Description | Default |'' @ [CHR 0x5C] @ ''
|----------|-------------|---------|'' @ [CHR 0x5C] @ ''
| '' @ [CHR 0x5C] @ ''`APP_ENV'' @ [CHR 0x5C] @ ''` | Application environment | '' @ [CHR 0x5C] @ ''`development'' @ [CHR 0x5C] @ ''` |'' @ [CHR 0x5C] @ ''
| '' @ [CHR 0x5C] @ ''`APP_PORT'' @ [CHR 0x5C] @ ''` | Application port | '' @ [CHR 0x5C] @ ''`8080'' @ [CHR 0x5C] @ ''` |'' @ [CHR 0x5C] @ ''
| '' @ [CHR 0x5C] @ ''`LOG_LEVEL'' @ [CHR 0x5C] @ ''` | Logging level | '' @ [CHR 0x5C] @ ''`info'' @ [CHR 0x5C] @ ''` |'', ''; fi)'' @ [CHR 0x5C] @ ''

### Configuration Files'' @ [CHR 0x5C] @ ''
$(if [ \"$PROJECT_TYPE\" = '', ''go'', '' ]; then echo '', ''Configuration can be provided via:'' @ [CHR 0x5C] @ ''
- Environment variables'' @ [CHR 0x5C] @ ''
- '' @ [CHR 0x5C] @ ''`config.yaml'' @ [CHR 0x5C] @ ''` file'' @ [CHR 0x5C] @ ''
- Command-line flags'', ''; elif [ \"$PROJECT_TYPE\" = '', ''node'', '' ]; then echo '', ''Configuration can be provided via:'' @ [CHR 0x5C] @ ''
- Environment variables'' @ [CHR 0x5C] @ ''
- '' @ [CHR 0x5C] @ ''`.env'' @ [CHR 0x5C] @ ''` file'' @ [CHR 0x5C] @ ''
- '' @ [CHR 0x5C] @ ''`config.json'' @ [CHR 0x5C] @ ''` file'', ''; else echo '', ''Configuration can be provided via environment variables or configuration files.'', ''; fi)'' @ [CHR 0x5C] @ ''

## Troubleshooting'' @ [CHR 0x5C] @ ''

### Common Issues'' @ [CHR 0x5C] @ ''

#### Issue: Service fails to start'' @ [CHR 0x5C] @ ''
**Solution**: Check port availability and required environment variables.'' @ [CHR 0x5C] @ ''

#### Issue: Database connection errors'' @ [CHR 0x5C] @ ''
**Solution**: Verify database credentials and network connectivity.'' @ [CHR 0x5C] @ ''

#### Issue: Performance degradation'' @ [CHR 0x5C] @ ''
**Solution**: Monitor resource usage and adjust scaling configuration.'' @ [CHR 0x5C] @ ''

### Debugging'' @ [CHR 0x5C] @ ''
Enable debug logging by setting '' @ [CHR 0x5C] @ ''`LOG_LEVEL=debug'' @ [CHR 0x5C] @ ''` and review application logs.'' @ [CHR 0x5C] @ ''

### Getting Help'' @ [CHR 0x5C] @ ''
- Check application logs for error messages'' @ [CHR 0x5C] @ ''
- Review system resource utilization'' @ [CHR 0x5C] @ ''
- Consult project documentation and README'' @ [CHR 0x5C] @ ''

## See Also'' @ [CHR 0x5C] @ ''

### Related Documentation'' @ [CHR 0x5C] @ ''
$(if [ \"$PROJECT_TYPE\" = '', ''go'', '' ]; then echo '', ''- [Go Documentation](https://golang.org/doc/)'' @ [CHR 0x5C] @ ''
- [Project README](../README.md)'' @ [CHR 0x5C] @ ''
- [API Reference](../docs/API.md)'', ''; elif [ \"$PROJECT_TYPE\" = '', ''node'', '' ]; then echo '', ''- [Node.js Documentation](https://nodejs.org/docs/)'' @ [CHR 0x5C] @ ''
- [Project README](../README.md)'' @ [CHR 0x5C] @ ''
- [Package Documentation](../docs/)'', ''; else echo '', ''- [Project README](../README.md)'' @ [CHR 0x5C] @ ''
- [Architecture Documentation](../docs/ARCHITECTURE.md)'', ''; fi)'' @ [CHR 0x5C] @ ''

### External Resources'' @ [CHR 0x5C] @ ''
- [zen-brain Documentation](https://docs.zen-brain.ai)'' @ [CHR 0x5C] @ ''
- [Best Practices Guide](../docs/BEST_PRACTICES.md)'' @ [CHR 0x5C] @ ''

---'' @ [CHR 0x5C] @ ''

*Documented as part of work item {{.work_item_id}}*'' @ [CHR 0x5C] @ ''
DOCS_EOF'' @ [CHR 0x5C] @ ''
echo \"$TARGET_PATH\" >> .zen-repo-files-changed && echo \"Created: $TARGET_PATH\"'']) 30 1,
        step_template (''Step 5'')
         ('''')
         (sq [''if [ -f .zen-target-info ]; then . .zen-target-info; fi && if [ ! -f docs/index.md ]; then mkdir -p docs && cat > docs/index.md <<INDEX_EOF
# Documentation Index

## $(date +%Y-%m-%d)

INDEX_EOF
fi && if ! grep -q '', ''{{.title}}'', '' docs/index.md 2>/dev/null; then echo '', '''', '' >> docs/index.md && echo \"## $(date +%Y-%m-%d)\" >> docs/index.md && echo \"- [{{.title}}]($TARGET_PATH)\" >> docs/index.md && echo '', ''Updated index'', ''; else echo '', ''Already indexed'', ''; fi'']) 30 1,
        step_template (''Step 6'')
         ('''')
         (sq [''if [ -f .zen-target-info ]; then . .zen-target-info; fi && mkdir -p analysis && cat > analysis/DOCS_ANALYSIS.md <<VERIF_EOF
# Documentation Verification

## Work Item
- **ID:** {{.work_item_id}}
- **Title:** {{.title}}

## File Existence
$(if [ -f \"$TARGET_PATH\" ]; then echo '', ''- **Documentation file:** EXISTS'', ''; echo \"  - Path: $TARGET_PATH\"; echo \"  - Size: $(wc -c < \"$TARGET_PATH\") bytes\"; else echo '', ''- **Documentation file:** MISSING'', ''; exit 1; fi)

## Content Validation
$(if grep -q '', ''# {{.title}}'', '' \"$TARGET_PATH\" 2>/dev/null; then echo '', ''- **Title:** PRESENT'', ''; else echo '', ''- **Title:** MISSING'', ''; fi)
$(if grep -q '', ''{{.objective}}'', '' \"$TARGET_PATH\" 2>/dev/null; then echo '', ''- **Objective:** PRESENT'', ''; else echo '', ''- **Objective:** MISSING'', ''; fi)
VERIF_EOF
echo '', ''analysis/DOCS_ANALYSIS.md'', '' >> .zen-metadata-files && echo '', ''Documentation verified'', '''']) 30 1,
        step_template (''Step 7'')
         ('''')
         (sq [''if [ -f .zen-target-info ]; then . .zen-target-info; fi && cat > PROOF_OF_WORK.md <<PROOF_EOF
# Proof of Work: Documentation

## Work Item
- **ID:** {{.work_item_id}}
- **Title:** {{.title}}

## Real Repository Files Changed
$(if [ -f .zen-repo-files-changed ]; then while read -r file; do echo \"- $file\"; done < .zen-repo-files-changed; else echo '', ''No repo files changed'', ''; fi)

## Metadata Files Created
$(if [ -f .zen-metadata-files ]; then while read -r file; do echo \"- $file\"; done < .zen-metadata-files; else echo '', ''No metadata files'', ''; fi)

## Git Status
$(git status --short 2>/dev/null | head -20)
PROOF_EOF
rm -f .zen-project-info .zen-target-info .zen-doc-dirs .zen-metadata-files .zen-repo-files-changed && echo '', ''Proof generated'', '''']) 30 1,
        step_template (''Step 8'')
         ('''')
         (sq [''if [ -f .zen-repo-files-changed ] && [ -s .zen-repo-files-changed ]; then git add . && git commit -m \"docs: Add documentation for work item {{.work_item_id}}

- Template: docs:real
- Work Item: {{.work_item_id}}
- Title: {{.title}}
- Files changed: $(wc -l < .zen-repo-files-changed)

Proof-of-work: $(if [ -f PROOF_OF_WORK.md ]; then cat PROOF_OF_WORK.md | head -c 20; else echo '', ''none'', ''; fi)\" && COMMIT_SHA=$(git rev-parse HEAD) && echo \"$COMMIT_SHA\" > .zen-commit-sha && echo \"Committed: $COMMIT_SHA\"; else echo '', ''No changes to commit'', ''; fi'']) 30 1]\<rparr>"

definition repoAwareTestTemplate :: WorkTypeTemplate where
  "repoAwareTestTemplate =
     \<lparr>wt_WorkType = ''test'', wt_WorkDomain = ''real'',
      wt_Description = ''Repo-native testing: analyzes test structure, discovers code to test, writes tests beside code, runs real tests'',
      wt_Steps =
       [step_template (''Validate git repository'')
         (''Require git repository for test tracking'')
         (sq [''git rev-parse --is-inside-work-tree 2>/dev/null || { echo '', ''ERROR: Not inside a git repository'', '' >&2; exit 1; } && echo '', ''Git repository: OK'', '''']) 15 1,
        step_template (''Detect project type and test structure'')
         (''Detect project type and existing test structure'')
         (sq [''[ -f go.mod ] && PROJECT_TYPE='', ''go'', '' && echo '', ''PROJECT_TYPE=go'', '' > .zen-project-info && echo '', ''Detected: Go'', '' && [ -f go.mod ] && MODULE_NAME=$(grep '', ''^module '', '' go.mod | awk '', ''{print $2}'', '') || MODULE_NAME='', ''unknown'', '' && echo \"MODULE_NAME=$MODULE_NAME\" >> .zen-project-info || (echo '', ''PROJECT_TYPE=unknown'', '' > .zen-project-info && echo '', ''Unknown type'', '') && TEST_DIRS=$(find . -type d -name '', ''test*'', '' 2>/dev/null | head -3) && if [ -z \"$TEST_DIRS\" ]; then TEST_DIRS='', ''.'', ''; fi && echo \"$TEST_DIRS\" > .zen-test-dirs && echo '', ''Test structure analyzed'', '''']) 30 1,
        step_template (''Analyze objective and discover code to test'')
         (''Analyze objective and discover code files that need testing'')
         (sq [''mkdir -p analysis && cat > analysis/TEST_ANALYSIS.md << '', ''ANALYSIS_EOF'', ''
# Test Analysis

## Work Item
- **ID:** {{.work_item_id}}
- **Title:** {{.title}}
- **Objective:** {{.objective}}
ANALYSIS_EOF
echo '', ''analysis/TEST_ANALYSIS.md'', '' >> .zen-metadata-files && if [ -f .zen-project-info ]; then . .zen-project-info; fi && if [ \"$PROJECT_TYPE\" = '', ''go'', '' ]; then SOURCE_FILES=$(find internal pkg cmd -name '', ''*.go'', '' ! -name '', ''*_test.go'', '' 2>/dev/null | head -10); else SOURCE_FILES='', '''', ''; fi && if [ -z \"$SOURCE_FILES\" ]; then echo '', ''ERROR: No source files found to test'', '' >&2; exit 1; fi && echo \"$SOURCE_FILES\" > .zen-source-files && echo \"Discovered $(wc -l < .zen-source-files) source files to test\"'']) 60 1,
        step_template (''Create context-aware tests'')
         (''Write basic smoke tests beside the code being tested'')
         (sq [''if [ -f .zen-source-files ]; then while read -r source_file; do if [ -f .zen-project-info ]; then . .zen-project-info; fi && source_dir=$(dirname \"$source_file\"); file_base=$(basename \"$source_file\" | cut -d'', ''.'', '' -f1); test_file=\"${source_dir}/${file_base}_test.go\" && cat > \"$test_file\" << '', ''TEST_EOF'', ''
package $(basename \"$source_dir\")

import (
'' @ [CHR 0x09] @ ''\"testing\"
)

// Smoke tests for {{.title}} ({{.work_item_id}})
// Objective: {{.objective}}
// Note: These are basic compilation and import tests.
// Production-quality tests require domain-specific logic.

func TestWorkItem{{.work_item_id}}_Compiles(t *testing.T) {
'' @ [CHR 0x09] @ ''// Verify the package compiles
'' @ [CHR 0x09] @ ''// This test ensures the source file has valid Go syntax
}

func TestWorkItem{{.work_item_id}}_Imports(t *testing.T) {
'' @ [CHR 0x09] @ ''// Verify imports are valid
'' @ [CHR 0x09] @ ''// Production tests should import and test actual functionality
}
TEST_EOF
echo \"$test_file\" >> .zen-repo-files-changed && echo \"Created: $test_file\"; done < .zen-source-files; else echo '', ''ERROR: No source files'', '' >&2; exit 1; fi'']) 60 2,
        step_template (''format'')
         (''Format test files'')
         ([]) 30 1,
        step_template (''build'')
         (''Build project to verify tests compile'')
         ([]) 120 1,
        step_template (''Run tests'')
         (''Run all tests including new ones'')
         (sq [''mkdir -p analysis && if [ -f .zen-project-info ]; then . .zen-project-info; fi && if [ \"$PROJECT_TYPE\" = '', ''go'', '' ] && command -v go >/dev/null 2>&1; then go test ./... -v 2>&1 | tee analysis/test-output.txt && TEST_EXIT=${PIPESTATUS[0]}; else echo '', ''Tests skipped: Not a Go project or go not available'', ''; TEST_EXIT=0; fi && cat > analysis/TEST_RESULTS.md << '', ''RESULTS_EOF'', ''
# Test Results

## Exit Code
$TEST_EXIT

## Output
$(if [ -f analysis/test-output.txt ]; then cat analysis/test-output.txt; else echo '', ''No test output'', ''; fi)
RESULTS_EOF
echo '', ''analysis/TEST_RESULTS.md'', '' >> .zen-metadata-files && if [ $TEST_EXIT -eq 0 ]; then echo '', ''Tests: PASS'', ''; else echo '', ''Tests: FAIL'', ''; fi'']) 180 1,
        step_template (''Generate honest proof'')
         (''Generate proof with test results and file changes'')
         (sq [''cat > PROOF_OF_WORK.md << '', ''PROOF_EOF'', ''
# Proof of Work: Testing

## Work Item
- **ID:** {{.work_item_id}}
- **Title:** {{.title}}

## Source Files to Test
$(if [ -f .zen-source-files ]; then while read -r file; do echo \"- $file\"; done < .zen-source-files; else echo '', ''No source files'', ''; fi)

## Real Repository Files Changed (Tests)
$(if [ -f .zen-repo-files-changed ]; then while read -r file; do echo \"- $file\"; done < .zen-repo-files-changed; else echo '', ''No repo files changed'', ''; fi)

## Metadata Files Created
$(if [ -f .zen-metadata-files ]; then while read -r file; do echo \"- $file\"; done < .zen-metadata-files; else echo '', ''No metadata files'', ''; fi)

## Test Summary
$(if [ -f analysis/TEST_RESULTS.md ]; then cat analysis/TEST_RESULTS.md; else echo '', ''No test results'', ''; fi)

## Git Status
$(git status --short 2>/dev/null | head -20)
PROOF_EOF
rm -f .zen-project-info .zen-source-files .zen-test-dirs .zen-metadata-files .zen-repo-files-changed && echo '', ''Proof generated'', '''']) 30 1,
        step_template (''Commit work to git'')
         (''Create git commit with structured message for cryptographic provenance'')
         (sq [''if [ -f .zen-repo-files-changed ] && [ -s .zen-repo-files-changed ]; then git add . && git commit -m \"test: Add tests for work item {{.work_item_id}}

- Template: test:real
- Work Item: {{.work_item_id}}
- Title: {{.title}}
- Files changed: $(wc -l < .zen-repo-files-changed)

Proof-of-work: $(if [ -f PROOF_OF_WORK.md ]; then cat PROOF_OF_WORK.md | head -c 20; else echo '', ''none'', ''; fi)\" && COMMIT_SHA=$(git rev-parse HEAD) && echo \"$COMMIT_SHA\" > .zen-commit-sha && echo \"Committed: $COMMIT_SHA\"; else echo '', ''No changes to commit'', ''; fi'']) 30 1]\<rparr>"

definition repoAwareCICDTemplate :: WorkTypeTemplate where
  "repoAwareCICDTemplate =
     \<lparr>wt_WorkType = ''cicd'', wt_WorkDomain = ''real'',
      wt_Description = ''Repo-native CI/CD: detects CI platform, creates workflow files, generates deployment documentation'',
      wt_Steps =
       [step_template (''Validate git repository'')
         (''Require git repository for CI/CD setup'')
         (sq [''git rev-parse --is-inside-work-tree 2>/dev/null || { echo '', ''ERROR: Not inside a git repository'', '' >&2; exit 1; } && echo '', ''Git repository: OK'', '''']) 15 1,
        step_template (''Step 2'')
         ('''')
         (sq [''[ -f go.mod ] && PROJECT_TYPE='', ''go'', '' && echo '', ''PROJECT_TYPE=go'', '' > .zen-project-info && echo '', ''Detected: Go'', '' && [ -f go.mod ] && MODULE_NAME=$(grep '', ''^module '', '' go.mod | awk '', ''{print $2}'', '') || MODULE_NAME='', ''unknown'', '' && echo \"MODULE_NAME=$MODULE_NAME\" >> .zen-project-info || (echo '', ''PROJECT_TYPE=unknown'', '' > .zen-project-info && echo '', ''Unknown type'', '') && CI_PLATFORM='', ''unknown'', '' && [ -d .github/workflows ] && CI_PLATFORM='', ''github'', '' && echo '', ''Detected CI: GitHub Actions'', '' || [ -f .gitlab-ci.yml ] && CI_PLATFORM='', ''gitlab'', '' && echo '', ''Detected CI: GitLab CI'', '' || [ -f .circleci/config.yml ] && CI_PLATFORM='', ''circleci'', '' && echo '', ''Detected CI: CircleCI'', '' || CI_PLATFORM='', ''github'', '' && echo '', ''Default CI: GitHub Actions'', '' && echo \"CI_PLATFORM=$CI_PLATFORM\" >> .zen-project-info && echo '', ''CI platform: $CI_PLATFORM'', '''']) 30 1,
        step_template (''Step 3'')
         ('''')
         (sq [''if [ -f .zen-project-info ]; then . .zen-project-info; fi && mkdir -p .github/workflows && WORKFLOW_FILE='', ''.github/workflows/ci.yml'', '' && if [ \"$CI_PLATFORM\" = '', ''github'', '' ]; then cat > \"$WORKFLOW_FILE\" << '', ''CI_EOF'', ''
name: CI

on:
  push:
    branches: [ main, develop ]
  pull_request:
    branches: [ main ]

jobs:
  lint:
    runs-on: ubuntu-latest
    steps:
      - uses: actions/checkout@v4
      - name: Set up Go
        uses: actions/setup-go@v5
        with:
          go-version: '', ''1.25'', ''
      - name: Run linters
        run: gofmt -s -w . && go vet ./...

  test:
    runs-on: ubuntu-latest
    steps:
      - uses: actions/checkout@v4
      - name: Set up Go
        uses: actions/setup-go@v5
        with:
          go-version: '', ''1.25'', ''
      - name: Run tests
        run: go test -v -race -coverprofile=coverage.out ./...
      - name: Upload coverage
        uses: codecov/codecov-action@v3
        with:
          files: ./coverage.out

  build:
    runs-on: ubuntu-latest
    needs: [lint, test]
    steps:
      - uses: actions/checkout@v4
      - name: Set up Go
        uses: actions/setup-go@v5
        with:
          go-version: '', ''1.25'', ''
      - name: Build
        run: go build -v ./...
CI_EOF
echo \"$WORKFLOW_FILE\" >> .zen-repo-files-changed && echo \"Created/Updated: $WORKFLOW_FILE\"; else echo '', ''ERROR: Only GitHub Actions supported for now'', '' >&2; exit 1; fi'']) 30 1,
        step_template (''Step 4'')
         ('''')
         (sq [''mkdir -p docs && if [ -f .zen-project-info ]; then . .zen-project-info; fi && cat > docs/DEPLOYMENT.md <<DEPLOY_EOF
# Deployment

> **Work Item:** {{.work_item_id}}
> **CI Platform:** $CI_PLATFORM

## CI/CD Pipeline

The project uses **$CI_PLATFORM** for continuous integration and deployment.

### Workflows

- **ci.yml**: Main CI workflow with lint, test, and build stages

### Deployment Strategy

#### Blue-Green Deployment
- Two production environments: **blue** and **green**
- Zero-downtime deployments with automatic traffic shifting
- Easy rollback: switch back to previous environment on failure


#### Canary Deployment
- Gradual traffic rollout: 5% '' @ [CHR 0xE2, CHR 0x86, CHR 0x92] @ '' 25% '' @ [CHR 0xE2, CHR 0x86, CHR 0x92] @ '' 50% '' @ [CHR 0xE2, CHR 0x86, CHR 0x92] @ '' 100%
- Monitor key metrics: error rate, latency, throughput
- Automatic rollback on metrics degradation

#### Rolling Deployment
- Incremental instance replacement
- Maintain availability during updates
- Health check validation before traffic routing

#### Environment-Specific Strategy
$(if [ -f .env.production ]; then echo '', ''- **Production**: Blue-green with 50% canary phase'', ''; elif [ -f .env.staging ]; then echo '', ''- **Staging**: Rolling deployment with full validation'', ''; else echo '', ''- **Development**: Direct deployment with basic health checks'', ''; fi)

### Environment Variables

### Required Environment Variables
| Variable | Description | Example Value | Required |
|----------|-------------|----------------|-----------|
| `CI_PLATFORM` | CI/CD platform name (github, gitlab, jenkins) | `github` | Yes |
| `REGISTRY_URL` | Container registry URL | `ghcr.io/kube-zen` | Yes |
| `CLUSTER_NAME` | Target Kubernetes cluster | `production-cluster` | Yes |

### Optional Environment Variables
| Variable | Description | Example Value | Required |
|----------|-------------|----------------|-----------|
| `NAMESPACE` | Kubernetes namespace | `default` | No |
| `HELM_VALUES` | Path to Helm values file | `./helm/values-prod.yaml` | No |
| `SLACK_WEBHOOK` | Slack notifications URL | `https://hooks.slack.com/...` | No |
| `PROMETHEUS_URL` | Prometheus push gateway | `http://prometheus:9091` | No |

### Environment Files
- Development: `.env.development`
- Staging: `.env.staging`
- Production: `.env.production`

### Security Notes
- Store sensitive values in secret management (Vault, Kubernetes Secrets)
- Never commit `.env.production` files
- Rotate credentials periodically

DEPLOY_EOF
echo '', ''docs/DEPLOYMENT.md'', '' >> .zen-repo-files-changed && echo '', ''Created: docs/DEPLOYMENT.md'', '''']) 30 1,
        step_template (''Step 5'')
         ('''')
         (sq [''mkdir -p analysis && cat > analysis/CICD_VERIFICATION.md <<VERIFY_EOF
# CI/CD Verification

## Work Item
- **ID:** {{.work_item_id}}
- **Title:** {{.title}}

## Workflow File
$(if [ -f .github/workflows/ci.yml ]; then echo '', ''- **Location:** .github/workflows/ci.yml'', ''; echo '', ''- **Size:** $(wc -l < .github/workflows/ci.yml) lines'', ''; echo '', ''- **Jobs:** $(grep -c '', ''^  [a-z]'', '' .github/workflows/ci.yml)'', ''; else echo '', ''- **Workflow File:** MISSING'', ''; exit 1; fi)

## Stages Detected
$(if [ -f .github/workflows/ci.yml ]; then echo '', ''- Lint: PRESENT'', ''; echo '', ''- Test: PRESENT'', ''; echo '', ''- Build: PRESENT'', ''; else echo '', ''No workflow file'', ''; fi)
VERIFY_EOF
echo '', ''analysis/CICD_VERIFICATION.md'', '' >> .zen-metadata-files && echo '', ''CI/CD verified'', '''']) 30 1,
        step_template (''Step 6'')
         ('''')
         (sq [''cat > PROOF_OF_WORK.md <<PROOF_EOF
# Proof of Work: CI/CD

## Work Item
- **ID:** {{.work_item_id}}
- **Title:** {{.title}}

## Real Repository Files Changed
$(if [ -f .zen-repo-files-changed ]; then while read -r file; do echo \"- $file\"; done < .zen-repo-files-changed; else echo '', ''No repo files changed'', ''; fi)

## Metadata Files Created
$(if [ -f .zen-metadata-files ]; then while read -r file; do echo \"- $file\"; done < .zen-metadata-files; else echo '', ''No metadata files'', ''; fi)

## Git Status
$(git status --short 2>/dev/null | head -20)
PROOF_EOF
rm -f .zen-project-info .zen-metadata-files .zen-repo-files-changed && echo '', ''Proof generated'', '''']) 30 1,
        step_template (''Step 7'')
         ('''')
         (sq [''if [ -f .zen-repo-files-changed ] && [ -s .zen-repo-files-changed ]; then git add . && git commit -m \"cicd: Add CI/CD for work item {{.work_item_id}}

- Template: cicd:real
- Work Item: {{.work_item_id}}
- Title: {{.title}}
- Files changed: $(wc -l < .zen-repo-files-changed)

Proof-of-work: $(if [ -f PROOF_OF_WORK.md ]; then cat PROOF_OF_WORK.md | head -c 20; else echo '', ''none'', ''; fi)\" && COMMIT_SHA=$(git rev-parse HEAD) && echo \"$COMMIT_SHA\" > .zen-commit-sha && echo \"Committed: $COMMIT_SHA\"; else echo '', ''No changes to commit'', ''; fi'']) 30 1]\<rparr>"

definition repoAwareMonitoringTemplate :: WorkTypeTemplate where
  "repoAwareMonitoringTemplate =
     \<lparr>wt_WorkType = ''monitoring'', wt_WorkDomain = ''real'',
      wt_Description = ''Repo-native monitoring: detects existing setup, adds metrics to services, creates project-aware dashboards'',
      wt_Steps =
       [step_template (''Validate git repository'')
         (''Require git repository for monitoring setup'')
         (sq [''git rev-parse --is-inside-work-tree 2>/dev/null || { echo '', ''ERROR: Not inside a git repository'', '' >&2; exit 1; } && echo '', ''Git repository: OK'', '''']) 15 1,
        step_template (''Detect project type and existing monitoring'')
         (''Detect project type and existing monitoring setup'')
         (sq [''[ -f go.mod ] && PROJECT_TYPE='', ''go'', '' && echo '', ''PROJECT_TYPE=go'', '' > .zen-project-info && echo '', ''Detected: Go'', '' && [ -f go.mod ] && MODULE_NAME=$(grep '', ''^module '', '' go.mod | awk '', ''{print $2}'', '') || MODULE_NAME='', ''unknown'', '' && echo \"MODULE_NAME=$MODULE_NAME\" >> .zen-project-info || (echo '', ''PROJECT_TYPE=unknown'', '' > .zen-project-info && echo '', ''Unknown type'', '') && MONITORING_EXISTS=false && [ -d monitoring ] && MONITORING_EXISTS=true && echo '', ''Monitoring directory exists'', '' || [ -f prometheus.yml ] && MONITORING_EXISTS=true && echo '', ''Prometheus config exists'', '' && echo \"MONITORING_EXISTS=$MONITORING_EXISTS\" >> .zen-project-info && echo '', ''Monitoring detected: $MONITORING_EXISTS'', '''']) 30 1,
        step_template (''Discover services to add metrics to'')
         (''Discover services in the project for metrics integration'')
         (sq [''if [ -f .zen-project-info ]; then . .zen-project-info; fi && if [ \"$PROJECT_TYPE\" = '', ''go'', '' ]; then SERVICE_DIRS=$(find internal pkg -type d -mindepth 1 -maxdepth 1 2>/dev/null | head -5); else SERVICE_DIRS='', '''', ''; fi && if [ -z \"$SERVICE_DIRS\" ]; then echo '', ''ERROR: No services found'', '' >&2; exit 1; fi && echo \"$SERVICE_DIRS\" > .zen-service-dirs && echo \"Discovered $(wc -l < .zen-service-dirs) services\"'']) 60 1,
        step_template (''Create metrics package'')
         (''Create Prometheus metrics package in internal/metrics'')
         (sq [''mkdir -p internal/metrics && cat > internal/metrics/metrics.go << '', ''METRICS_EOF'', ''
package metrics

import (
'' @ [CHR 0x09] @ ''\"github.com/prometheus/client_golang/prometheus\"
'' @ [CHR 0x09] @ ''\"github.com/prometheus/client_golang/prometheus/promauto\"
)

var (
'' @ [CHR 0x09] @ ''// RequestCount counts total requests
'' @ [CHR 0x09] @ ''RequestCount = promauto.NewCounterVec(
'' @ [CHR 0x09, CHR 0x09] @ ''prometheus.CounterOpts{
'' @ [CHR 0x09, CHR 0x09, CHR 0x09] @ ''Name: \"zen_requests_total\",
'' @ [CHR 0x09, CHR 0x09, CHR 0x09] @ ''Help: \"Total number of requests\",
'' @ [CHR 0x09, CHR 0x09] @ ''},
'' @ [CHR 0x09, CHR 0x09] @ ''[]string{\"method\", \"endpoint\", \"status\"},
'' @ [CHR 0x09] @ '')

'' @ [CHR 0x09] @ ''// RequestDuration tracks request duration
'' @ [CHR 0x09] @ ''RequestDuration = promauto.NewHistogramVec(
'' @ [CHR 0x09, CHR 0x09] @ ''prometheus.HistogramOpts{
'' @ [CHR 0x09, CHR 0x09, CHR 0x09] @ ''Name:    \"zen_request_duration_seconds\",
'' @ [CHR 0x09, CHR 0x09, CHR 0x09] @ ''Help:    \"Request duration in seconds\",
'' @ [CHR 0x09, CHR 0x09, CHR 0x09] @ ''Buckets: prometheus.DefBuckets,
'' @ [CHR 0x09, CHR 0x09] @ ''},
'' @ [CHR 0x09, CHR 0x09] @ ''[]string{\"method\", \"endpoint\"},
'' @ [CHR 0x09] @ '')

'' @ [CHR 0x09] @ ''// ActiveConnections tracks active connections
'' @ [CHR 0x09] @ ''ActiveConnections = promauto.NewGauge(
'' @ [CHR 0x09, CHR 0x09] @ ''prometheus.GaugeOpts{
'' @ [CHR 0x09, CHR 0x09, CHR 0x09] @ ''Name: \"zen_active_connections\",
'' @ [CHR 0x09, CHR 0x09, CHR 0x09] @ ''Help: \"Number of active connections\",
'' @ [CHR 0x09, CHR 0x09] @ ''},
'' @ [CHR 0x09] @ '')
)

// Init initializes the metrics package
func Init() {
'' @ [CHR 0x09] @ ''// Register any custom metrics here
}
METRICS_EOF
echo '', ''internal/metrics/metrics.go'', '' >> .zen-repo-files-changed && echo '', ''Created: internal/metrics/metrics.go'', '''']) 30 2,
        step_template (''Create monitoring endpoints'')
         (''Create HTTP handler for metrics endpoint'')
         (sq [''cat > internal/metrics/handler.go << '', ''HANDLER_EOF'', ''
package metrics

import (
'' @ [CHR 0x09] @ ''\"net/http\"
'' @ [CHR 0x09] @ ''\"time\"

'' @ [CHR 0x09] @ ''\"github.com/prometheus/client_golang/prometheus/promhttp\"
)

// Handler returns the Prometheus metrics handler
func Handler() http.Handler {
'' @ [CHR 0x09] @ ''return promhttp.Handler()
}

// responseWriter wraps http.ResponseWriter to capture status code
 type responseWriter struct {
'' @ [CHR 0x09] @ ''http.ResponseWriter
'' @ [CHR 0x09] @ ''statusCode int
}

func (rw *responseWriter) WriteHeader(code int) {
'' @ [CHR 0x09] @ ''rw.statusCode = code
'' @ [CHR 0x09] @ ''rw.ResponseWriter.WriteHeader(code)
}

// MetricsMiddleware wraps an http.Handler with metrics collection
func MetricsMiddleware(next http.Handler) http.Handler {
'' @ [CHR 0x09] @ ''return http.HandlerFunc(func(w http.ResponseWriter, r *http.Request) {
'' @ [CHR 0x09, CHR 0x09] @ ''start := time.Now()
'' @ [CHR 0x09, CHR 0x09] @ ''rw := &responseWriter{ResponseWriter: w, statusCode: 200}
'' @ [CHR 0x09, CHR 0x09] @ ''next.ServeHTTP(rw, r)
'' @ [CHR 0x09, CHR 0x09] @ ''duration := time.Since(start).Seconds()
'' @ [CHR 0x09, CHR 0x09] @ ''
'' @ [CHR 0x09, CHR 0x09] @ ''RequestCount.WithLabelValues(r.Method, r.URL.Path, string(rune(rw.statusCode))).Inc()
'' @ [CHR 0x09, CHR 0x09] @ ''RequestDuration.WithLabelValues(r.Method, r.URL.Path).Observe(duration)
'' @ [CHR 0x09] @ ''})
}
HANDLER_EOF
echo '', ''internal/metrics/handler.go'', '' >> .zen-repo-files-changed && echo '', ''Created: internal/metrics/handler.go'', '''']) 30 2,
        step_template (''Create Prometheus configuration'')
         (''Create Prometheus configuration in actual repo'')
         (sq [''mkdir -p monitoring && cat > monitoring/prometheus.yml << '', ''PROM_EOF'', ''
global:
  scrape_interval: 15s
  evaluation_interval: 15s

scrape_configs:
  - job_name: '', ''zen-brain'', ''
    static_configs:
      - targets: ['', ''localhost:8080'', '']
    metrics_path: /metrics
    scrape_interval: 10s
PROM_EOF
echo '', ''monitoring/prometheus.yml'', '' >> .zen-repo-files-changed && echo '', ''Created: monitoring/prometheus.yml'', '''']) 30 1,
        step_template (''Create Grafana dashboard'')
         (''Create Grafana dashboard configuration'')
         (sq [''mkdir -p monitoring/dashboards && cat > monitoring/dashboards/zen-brain.json << '', ''GRAFANA_EOF'', ''
{
  \"dashboard\": {
    \"title\": \"Zen-Brain Metrics\",
    \"uid\": \"zen-brain\",
    \"panels\": [
      {
        \"title\": \"Request Rate\",
        \"targets\": [
          {
            \"expr\": \"rate(zen_requests_total[5m])\"
          }
        ]
      },
      {
        \"title\": \"Request Duration\",
        \"targets\": [
          {
            \"expr\": \"histogram_quantile(0.95, zen_request_duration_seconds)\"
          }
        ]
      },
      {
        \"title\": \"Active Connections\",
        \"targets\": [
          {
            \"expr\": \"zen_active_connections\"
          }
        ]
      }
    ]
  }
}
GRAFANA_EOF
echo '', ''monitoring/dashboards/zen-brain.json'', '' >> .zen-repo-files-changed && echo '', ''Created: monitoring/dashboards/zen-brain.json'', '''']) 30 1,
        step_template (''Create monitoring documentation'')
         (''Create monitoring documentation in docs/'')
         (sq [''mkdir -p docs && if [ -f .zen-project-info ]; then . .zen-project-info; fi && cat > docs/MONITORING.md << '', ''MONIT_DOC_EOF'', ''
# Monitoring

> **Work Item:** {{.work_item_id}}
> **Module:** $MODULE_NAME

## Overview

This project uses **Prometheus** for metrics collection and **Grafana** for visualization.

## Metrics

### Available Metrics

- `zen_requests_total`: Total number of requests
- `zen_request_duration_seconds`: Request duration
- `zen_active_connections`: Number of active connections

## Endpoints

- **Metrics:** `/metrics` - Prometheus metrics endpoint

## Configuration

- **Prometheus:** `monitoring/prometheus.yml`
- **Grafana Dashboards:** `monitoring/dashboards/`

## Running Locally

```bash
# Start Prometheus
prometheus --config.file=monitoring/prometheus.yml

# Access metrics
http://localhost:9090
```

MONIT_DOC_EOF
echo '', ''docs/MONITORING.md'', '' >> .zen-repo-files-changed && echo '', ''Created: docs/MONITORING.md'', '''']) 30 1,
        step_template (''Generate honest proof'')
         (''Generate proof with monitoring setup changes'')
         (sq [''cat > PROOF_OF_WORK.md << '', ''PROOF_EOF'', ''
# Proof of Work: Monitoring

## Work Item
- **ID:** {{.work_item_id}}
- **Title:** {{.title}}

## Real Repository Files Changed
$(if [ -f .zen-repo-files-changed ]; then while read -r file; do echo \"- $file\"; done < .zen-repo-files-changed; else echo '', ''No repo files changed'', ''; fi)

## Git Status
$(git status --short 2>/dev/null | head -20)
PROOF_EOF
rm -f .zen-project-info .zen-service-dirs .zen-repo-files-changed && echo '', ''Proof generated'', '''']) 30 1,
        step_template (''Commit work to git'')
         (''Create git commit with structured message for cryptographic provenance'')
         (sq [''if [ -f .zen-repo-files-changed ] && [ -s .zen-repo-files-changed ]; then git add . && git commit -m \"monitoring: Add monitoring for work item {{.work_item_id}}

- Template: monitoring:real
- Work Item: {{.work_item_id}}
- Title: {{.title}}
- Files changed: $(wc -l < .zen-repo-files-changed)

Proof-of-work: $(if [ -f PROOF_OF_WORK.md ]; then cat PROOF_OF_WORK.md | head -c 20; else echo '', ''none'', ''; fi)\" && COMMIT_SHA=$(git rev-parse HEAD) && echo \"$COMMIT_SHA\" > .zen-commit-sha && echo \"Committed: $COMMIT_SHA\"; else echo '', ''No changes to commit'', ''; fi'']) 30 1]\<rparr>"

definition repoAwareMigrationTemplate :: WorkTypeTemplate where
  "repoAwareMigrationTemplate =
     \<lparr>wt_WorkType = ''migration'', wt_WorkDomain = ''real'',
      wt_Description = ''Repo-native database migrations: creates migration files, Go migrator, documentation'',
      wt_Steps =
       [step_template (''Validate git repository'')
         (''Require git repository for migration tracking'')
         (sq [''git rev-parse --is-inside-work-tree 2>/dev/null || { echo '', ''ERROR: Not inside a git repository'', '' >&2; exit 1; } && echo '', ''Git repository: OK'', '''']) 15 1,
        step_template (''Step 2'')
         ('''')
         (sq [''[ -f go.mod ] && PROJECT_TYPE='', ''go'', '' && echo '', ''PROJECT_TYPE=go'', '' > .zen-project-info && echo '', ''Detected: Go'', '' && [ -f go.mod ] && MODULE_NAME=$(grep '', ''^module '', '' go.mod | awk '', ''{print $2}'', '') || MODULE_NAME='', ''unknown'', '' && echo \"MODULE_NAME=$MODULE_NAME\" >> .zen-project-info || (echo '', ''PROJECT_TYPE=unknown'', '' > .zen-project-info && echo '', ''Unknown type'', '') && MIGRATION_TYPE='', ''none'', '' && [ -f migrate/migrate.go ] && MIGRATION_TYPE='', ''golang-migrate'', '' && echo '', ''Detected: golang-migrate'', '' || [ -d migrations ] && MIGRATION_TYPE='', ''golang-migrate'', '' && echo '', ''Detected: golang-migrate (migrations/)'', '' || [ -f alembic.ini ] && MIGRATION_TYPE='', ''alembic'', '' && echo '', ''Detected: Alembic'', '' || MIGRATION_TYPE='', ''golang-migrate'', '' && echo '', ''Default: golang-migrate'', '' && echo \"MIGRATION_TYPE=$MIGRATION_TYPE\" >> .zen-project-info && echo '', ''Migration type: $MIGRATION_TYPE'', '''']) 30 1,
        step_template (''Step 3'')
         ('''')
         (sq [''if [ -f .zen-project-info ]; then . .zen-project-info; fi && if [ \"$MIGRATION_TYPE\" = '', ''golang-migrate'', '' ]; then mkdir -p migrations && echo '', ''Created: migrations/'', ''; else echo '', ''ERROR: Only golang-migrate supported for now'', '' >&2; exit 1; fi && MIGRATION_NAME=$(echo '', ''{{.title}}'', '' | tr '', '' '', '' '', ''_'', '' | tr '', ''[:upper:]'', '' '', ''[:lower:]'', '' | tr -cd '', ''a-z0-9_'', '') && TIMESTAMP=$(date +%Y%m%d%H%M%S) && MIGRATION_FILE=\"migrations/${TIMESTAMP}_${MIGRATION_NAME}.up.sql\" && echo \"MIGRATION_FILE=$MIGRATION_FILE\" > .zen-target-info && echo \"Migration file: $MIGRATION_FILE\"'']) 30 1,
        step_template (''Step 4'')
         ('''')
         (sq [''if [ -f .zen-target-info ]; then . .zen-target-info; fi && cat > \"$MIGRATION_FILE\" <<MIGR_EOF
-- Migration: {{.title}}
-- Work Item: {{.work_item_id}}
-- Created: $(date -u +%Y-%m-%dT%H:%M:%SZ)

-- FAIL-CLOSED TEMPLATE: replace the guarded block below with concrete migration SQL before applying.
BEGIN;

DO $$
BEGIN
  RAISE EXCEPTION '', ''zen-brain generated migration template for {{.work_item_id}} must be customized before execution'', '';
END $$;

COMMIT;
MIGR_EOF
echo \"$MIGRATION_FILE\" >> .zen-repo-files-changed && echo \"Created: $MIGRATION_FILE\"'']) 30 1,
        step_template (''Step 5'')
         ('''')
         (sq [''if [ -f .zen-target-info ]; then . .zen-target-info; fi && ROLLBACK_FILE=\"${MIGRATION_FILE%.up.sql}.down.sql\" && cat > \"$ROLLBACK_FILE\" <<ROLLBACK_EOF
-- Rollback: {{.title}}
-- Work Item: {{.work_item_id}}
-- Created: $(date -u +%Y-%m-%dT%H:%M:%SZ)

-- FAIL-CLOSED TEMPLATE: replace the guarded block below with concrete rollback SQL before applying.
BEGIN;

DO $$
BEGIN
  RAISE EXCEPTION '', ''zen-brain generated rollback template for {{.work_item_id}} must be customized before execution'', '';
END $$;

COMMIT;
ROLLBACK_EOF
echo \"$ROLLBACK_FILE\" >> .zen-repo-files-changed && echo \"Created: $ROLLBACK_FILE\"'']) 30 1,
        step_template (''Step 6'')
         ('''')
         (sq [''mkdir -p internal/migrate && cat > internal/migrate/migrate.go << '', ''MIGR_GO_EOF'', ''
package migrate

import (
'' @ [CHR 0x09] @ ''\"database/sql\"
'' @ [CHR 0x09] @ ''\"embed\"
'' @ [CHR 0x09] @ ''\"fmt\"
'' @ [CHR 0x09] @ ''\"io/fs\"
'' @ [CHR 0x09] @ ''\"sort\"
'' @ [CHR 0x09] @ ''\"time\"

'' @ [CHR 0x09] @ ''\"github.com/golang-migrate/migrate/v4\"
'' @ [CHR 0x09] @ ''\"github.com/golang-migrate/migrate/v4/database/postgres\"
'' @ [CHR 0x09] @ ''_ \"github.com/golang-migrate/migrate/v4/source/file\"
)

//go:embed migrations/*.sql
var migrationFS embed.FS

// Migrator handles database migrations

type Migrator struct {
'' @ [CHR 0x09] @ ''m *migrate.Migrate
}

// NewMigrator creates a new migrator
func NewMigrator(db *sql.DB) (*Migrator, error) {
'' @ [CHR 0x09] @ ''driver, err := postgres.WithInstance(db, &postgres.Config{})
'' @ [CHR 0x09] @ ''if err != nil {
'' @ [CHR 0x09, CHR 0x09] @ ''return nil, fmt.Errorf(\"failed to create driver: %w\", err)
'' @ [CHR 0x09] @ ''}

'' @ [CHR 0x09] @ ''m, err := migrate.NewWithDatabaseInstance(
'' @ [CHR 0x09, CHR 0x09] @ ''\"file://migrations\",
'' @ [CHR 0x09, CHR 0x09] @ ''\"postgres\",
'' @ [CHR 0x09, CHR 0x09] @ ''driver,
'' @ [CHR 0x09] @ '')
'' @ [CHR 0x09] @ ''if err != nil {
'' @ [CHR 0x09, CHR 0x09] @ ''return nil, fmt.Errorf(\"failed to create migrator: %w\", err)
'' @ [CHR 0x09] @ ''}

'' @ [CHR 0x09] @ ''return &Migrator{m: m}, nil
}

// Up applies all pending migrations
func (m *Migrator) Up() error {
'' @ [CHR 0x09] @ ''if err := m.m.Up(); err != nil && err != migrate.ErrNoChange {
'' @ [CHR 0x09, CHR 0x09] @ ''return fmt.Errorf(\"failed to apply migrations: %w\", err)
'' @ [CHR 0x09] @ ''}
'' @ [CHR 0x09] @ ''return nil
}

// Down rolls back the last migration
func (m *Migrator) Down() error {
'' @ [CHR 0x09] @ ''if err := m.m.Steps(-1); err != nil {
'' @ [CHR 0x09, CHR 0x09] @ ''return fmt.Errorf(\"failed to rollback migration: %w\", err)
'' @ [CHR 0x09] @ ''}
'' @ [CHR 0x09] @ ''return nil
}

// Version returns the current migration version
func (m *Migrator) Version() (uint, bool, error) {
'' @ [CHR 0x09] @ ''return m.m.Version()
}

MIGR_GO_EOF
echo '', ''internal/migrate/migrate.go'', '' >> .zen-repo-files-changed && echo '', ''Created: internal/migrate/migrate.go'', '''']) 30 1,
        step_template (''Step 7'')
         ('''')
         (sq [''mkdir -p docs && if [ -f .zen-project-info ]; then . .zen-project-info; fi && cat > docs/MIGRATIONS.md <<MIGR_DOC_EOF
# Database Migrations

> **Work Item:** {{.work_item_id}}
> **Framework:** $MIGRATION_TYPE

## Overview

This project uses **$MIGRATION_TYPE** for database migrations.

## Running Migrations

### Apply Migrations

~~~bash
# Apply all pending migrations
zen-brain migrate up

# Apply specific migration
zen-brain migrate up 1
~~~

### Rollback Migrations

~~~bash
# Rollback last migration
zen-brain migrate down

# Rollback specific migration
zen-brain migrate down 1
~~~

### Check Status

~~~bash
# Show current version
zen-brain migrate version
~~~

## Migration Files

$(if [ -d migrations ]; then echo '', ''### Applied Migrations'', ''; ls -1t migrations/*.up.sql 2>/dev/null | head -20 | while read f; do NAME=$(basename \"$f\" .up.sql); echo \"- [$NAME](../migrations/$NAME.up.sql) - Created: $(stat -c %y \"migrations/$f.up.sql\" 2>/dev/null || stat -f %Sm \"migrations/$f.up.sql\" 2>/dev/null)\"; done 2>/dev/null; else echo '', ''No migrations created yet.'', ''; fi)

## Creating New Migrations

1. Create migration files in `migrations/` directory
2. Use timestamp naming convention: `YYYYMMDDHHMMSS_description.up.sql`
3. Create corresponding rollback: `YYYYMMDDHHMMSS_description.down.sql`

MIGR_DOC_EOF
echo '', ''docs/MIGRATIONS.md'', '' >> .zen-repo-files-changed && echo '', ''Created: docs/MIGRATIONS.md'', '''']) 30 1,
        step_template (''Step 8'')
         ('''')
         (sq [''cat > PROOF_OF_WORK.md <<PROOF_EOF
# Proof of Work: Migration

## Work Item
- **ID:** {{.work_item_id}}
- **Title:** {{.title}}

## Real Repository Files Changed
$(if [ -f .zen-repo-files-changed ]; then while read -r file; do echo \"- $file\"; done < .zen-repo-files-changed; else echo '', ''No repo files changed'', ''; fi)

## Git Status
$(git status --short 2>/dev/null | head -20)
PROOF_EOF
rm -f .zen-project-info .zen-target-info .zen-repo-files-changed && echo '', ''Proof generated'', '''']) 30 1,
        step_template (''Step 9'')
         ('''')
         (sq [''if [ -f .zen-repo-files-changed ] && [ -s .zen-repo-files-changed ]; then git add . && git commit -m \"migration: Add migration for work item {{.work_item_id}}

- Template: migration:real
- Work Item: {{.work_item_id}}
- Title: {{.title}}
- Files changed: $(wc -l < .zen-repo-files-changed)

Proof-of-work: $(if [ -f PROOF_OF_WORK.md ]; then cat PROOF_OF_WORK.md | head -c 20; else echo '', ''none'', ''; fi)\" && COMMIT_SHA=$(git rev-parse HEAD) && echo \"$COMMIT_SHA\" > .zen-commit-sha && echo \"Committed: $COMMIT_SHA\"; else echo '', ''No changes to commit'', ''; fi'']) 30 1]\<rparr>"

subsection \<open>The registry\<close>

definition usefulTemplates :: "WorkTypeTemplate list" where
  "usefulTemplates =
     [realImplementationTemplate,
      realDocumentationTemplate,
      realBugFixTemplate,
      realRefactorTemplate,
      realPythonTemplate,
      realReviewTemplate,
      cICDTemplate,
      javaScriptTemplate,
      databaseMigrationTemplate,
      monitoringTemplate]"

definition repoAwareTemplates :: "WorkTypeTemplate list" where
  "repoAwareTemplates =
     [repoAwareImplementationTemplate,
      repoAwareBugFixTemplate,
      repoAwareRefactorTemplate,
      repoAwareDocsTemplate,
      repoAwareTestTemplate,
      repoAwareCICDTemplate,
      repoAwareMonitoringTemplate,
      repoAwareMigrationTemplate]"

definition NewWorkTypeTemplateRegistry :: template_registry where
  "NewWorkTypeTemplateRegistry =
     fold registerTemplate
       ([bugFixTemplates, featureTemplates, refactorTemplates, documentationTemplates, testTemplates, debugTemplates]
        @ usefulTemplates @ repoAwareTemplates @ [defaultTemplate]) Map.empty"

end
