(* ===== verification/Factory.thy ===== *)
theory Factory
  imports Preflight Postflight Factory_Template_Data MLQ_Executor
begin

text \<open>
  The factory (\<open>internal/factory/factory.go\<close>): execution of a task, from the preflight checks to the
  postflight verification, with shell steps or with the LLM.

  The parts behind interfaces are the fields of \<open>factory_env\<close> on a world \<open>'w\<close>: the workspace manager, the
  executor of plans, the proof-of-work manager and the execution of an LLM template; \<open>fe_views\<close> and
  \<open>fe_durs\<close> are what the checks started in a world see and measure, \<open>fe_checked\<close> and \<open>fe_verified\<close> what the
  commands of the checks and of the proof verification (which is only logged) do to the world. A nil
  dereference is \<open>Panic\<close>, and \<open>None\<close> an execution that does not return.

  The factory keeps the pointer of the caller to the task, so the stored task has every later change:
  each change stores it again.
\<close>

subsection \<open>State and environment\<close>

record LLMProvider =
  lp_Name :: string
  lp_BaseURL :: string
  lp_Model :: string
  lp_Timeout :: duration

record LLMGeneratorConfig =
  lg_Provider :: LLMProvider
  lg_Model :: string
  lg_Temperature :: float64
  lg_MaxTokens :: int
  lg_EnableThinking :: bool
  lg_Timeout :: duration

record ProofArtifact =
  pa_Directory :: string
  pa_ArtifactPaths :: "string list"
  pa_GitStatusPath :: string
  pa_GitDiffStatPath :: string

record 'w workspace_ops =
  wo_Create :: "string \<Rightarrow> string \<Rightarrow> 'w \<Rightarrow> 'w \<times> (string + WorkspaceMetadata)"
  wo_Lock :: "string \<Rightarrow> 'w \<Rightarrow> 'w \<times> string option"
  wo_Unlock :: "string \<Rightarrow> 'w \<Rightarrow> 'w"
  wo_ListFiles :: "string \<Rightarrow> 'w \<Rightarrow> string list option"
  wo_Metadata :: "string \<Rightarrow> 'w \<Rightarrow> WorkspaceMetadata option"
  wo_Delete :: "string \<Rightarrow> 'w \<Rightarrow> 'w \<times> string option"

record 'w factory_env =
  fe_ws :: "'w workspace_ops"
  fe_executor :: "ExecutionStep list \<Rightarrow> string \<Rightarrow> 'w \<Rightarrow> 'w \<times> ExecutionResult option \<times> go_error option"
  fe_proof :: "ExecutionResult \<Rightarrow> FactoryTaskSpec \<Rightarrow> 'w \<Rightarrow> 'w \<times> (string + ProofArtifact)"
  fe_llm :: "LLMGeneratorConfig \<Rightarrow> string \<Rightarrow> FactoryTaskSpec \<Rightarrow> string \<Rightarrow> 'w \<Rightarrow> 'w \<times> (string + string list)"
  fe_now :: "'w \<Rightarrow> time"
  fe_views :: "'w \<Rightarrow> nat \<Rightarrow> os_view"
  fe_durs :: "'w \<Rightarrow> nat \<Rightarrow> duration"
  fe_checked :: "'w \<Rightarrow> 'w"
  fe_verified :: "'w \<Rightarrow> 'w"
  fe_order :: "string \<Rightarrow> nat"
  fe_levels :: "int \<Rightarrow> nat"
  fe_clock :: "'w \<Rightarrow> clock"

record factory =
  fc_tasks :: "(string, FactoryTaskSpec) gomap"
  fc_registry :: template_registry
  fc_recommender :: "recommender_ops option"
  fc_preflightMode :: string
  fc_postflightStrictMode :: bool
  fc_proofVerificationMode :: bool
  fc_generator :: "LLMGeneratorConfig option"
  fc_llmEnabled :: bool
  fc_taskExecutor :: "TaskExecutor option"

definition NewFactory :: factory where
  "NewFactory =
     \<lparr>fc_tasks = [], fc_registry = NewWorkTypeTemplateRegistry, fc_recommender = None,
      fc_preflightMode = PreflightModeStrict, fc_postflightStrictMode = False, fc_proofVerificationMode = False,
      fc_generator = None, fc_llmEnabled = False, fc_taskExecutor = None\<rparr>"

definition SetPreflightMode :: "string \<Rightarrow> factory \<Rightarrow> factory" where
  "SetPreflightMode mode f = f\<lparr>fc_preflightMode := mode\<rparr>"

definition SetPostflightStrictMode :: "bool \<Rightarrow> factory \<Rightarrow> factory" where
  "SetPostflightStrictMode strict f = f\<lparr>fc_postflightStrictMode := strict\<rparr>"

definition SetProofVerificationMode :: "bool \<Rightarrow> factory \<Rightarrow> factory" where
  "SetProofVerificationMode enabled f = f\<lparr>fc_proofVerificationMode := enabled\<rparr>"

definition SetRecommender :: "recommender_ops option \<Rightarrow> factory \<Rightarrow> factory" where
  "SetRecommender r f = f\<lparr>fc_recommender := r\<rparr>"

definition llm_template :: "string \<Rightarrow> string \<Rightarrow> WorkTypeTemplate" where
  "llm_template workType description =
     \<lparr>wt_WorkType = workType, wt_WorkDomain = ''llm'', wt_Description = description, wt_Steps = []\<rparr>"

definition RegisterLLMTemplates :: "template_registry \<Rightarrow> template_registry" where
  "RegisterLLMTemplates reg =
     fold registerTemplate
       [llm_template ''implementation'' ''LLM-powered implementation: generates real code based on work item context'',
        llm_template ''bugfix'' ''LLM-powered bug fix: analyzes code and generates fix'',
        llm_template ''refactor'' ''LLM-powered refactor: improves code quality while preserving behavior'',
        llm_template ''test'' ''LLM-powered test generation: creates comprehensive tests from code'',
        llm_template ''documentation'' ''LLM-powered documentation: generates clear docs from code'',
        llm_template ''migration'' ''LLM-powered migration: generates UP and DOWN SQL from description''] reg"

definition SetLLMGenerator :: "LLMGeneratorConfig option \<Rightarrow> factory \<Rightarrow> factory" where
  "SetLLMGenerator generator f =
     (let f' = f\<lparr>fc_generator := generator, fc_llmEnabled := (generator \<noteq> None)\<rparr>
      in if generator \<noteq> None then f'\<lparr>fc_registry := RegisterLLMTemplates (fc_registry f')\<rparr> else f')"

definition IsLLMEnabled :: "factory \<Rightarrow> bool" where
  "IsLLMEnabled f \<longleftrightarrow> fc_llmEnabled f \<and> fc_generator f \<noteq> None"

definition store_task :: "FactoryTaskSpec \<Rightarrow> factory \<Rightarrow> factory" where
  "store_task spec f = f\<lparr>fc_tasks := AList.update (fts_ID spec) spec (fc_tasks f)\<rparr>"

definition ListTasks :: "(string \<Rightarrow> nat) \<Rightarrow> factory \<Rightarrow> FactoryTaskSpec list" where
  "ListTasks r f = map snd (go_range r (fc_tasks f))"

definition GetTask :: "string \<Rightarrow> factory \<Rightarrow> string + FactoryTaskSpec" where
  "GetTask taskID f =
     (case map_of (fc_tasks f) taskID of None \<Rightarrow> Inl (''task not found: '' @ taskID) | Some task \<Rightarrow> Inr task)"

definition CancelTask :: "string \<Rightarrow> factory \<Rightarrow> string option" where
  "CancelTask taskID f =
     (case map_of (fc_tasks f) taskID of None \<Rightarrow> Some (''task not found: '' @ taskID) | Some _ \<Rightarrow> None)"

definition AllocateWorkspace ::
    "'w factory_env \<Rightarrow> string \<Rightarrow> string \<Rightarrow> 'w \<Rightarrow> 'w \<times> (string + WorkspaceMetadata)" where
  "AllocateWorkspace env taskID sessionID w = wo_Create (fe_ws env) taskID sessionID w"

definition CleanupWorkspace :: "'w factory_env \<Rightarrow> string \<Rightarrow> 'w \<Rightarrow> 'w \<times> string option" where
  "CleanupWorkspace env workspacePath w = wo_Delete (fe_ws env) workspacePath w"

subsection \<open>Errors and the LLM gate\<close>

definition createErrorResult :: "time \<Rightarrow> FactoryTaskSpec \<Rightarrow> go_error \<Rightarrow> string \<Rightarrow> ExecutionResult" where
  "createErrorResult now spec err message =
     (let (errorCode, recommendation) =
        (case err of
           EText _ \<Rightarrow> (''WORKSPACE_ERROR'', ''retry'')
         | EFactory fe \<Rightarrow>
             (GetErrorCode err,
              if GetErrorCode err = ErrStepTimeout \<or> GetErrorCode err = ErrStepMaxRetriesExceeded then ''escalate''
              else if GetErrorCode err = ErrContextCanceled then ''review''
              else if GetErrorCode err = ErrInvalidInput then ''review'' else ''retry''))
      in empty_result\<lparr>er_TaskID := fts_ID spec, er_SessionID := fts_SessionID spec,
                      er_WorkItemID := fts_WorkItemID spec, er_Status := ExecutionStatusFailed,
                      er_Success := False, er_Error := message @ '': '' @ error_text err,
                      er_ErrorCode := errorCode, er_CompletedAt := now, er_Recommendation := recommendation\<rparr>)"

definition llmWorkTypes :: "string list" where
  "llmWorkTypes =
     [''implementation'', ''feature'', ''bugfix'', ''debug'', ''refactor'', ''test'', ''migration'']"

definition llmWorkAliases :: "(string \<times> string) list" where
  "llmWorkAliases =
     [(''implementation'', ''implementation''), (''implement'', ''implementation''), (''impl'', ''implementation''),
      (''feature'', ''feature''), (''new'', ''feature''), (''bugfix'', ''bugfix''), (''fix'', ''bugfix''),
      (''bug'', ''bugfix''), (''debug'', ''debug''), (''refactor'', ''refactor''), (''refactoring'', ''refactor''),
      (''test'', ''test''), (''testing'', ''test''), (''unit_test'', ''test''), (''integration_test'', ''test''),
      (''migration'', ''migration''), (''migrate'', ''migration'')]"

definition shouldUseLLMTemplate :: "factory \<Rightarrow> FactoryTaskSpec \<Rightarrow> bool" where
  "shouldUseLLMTemplate f spec \<longleftrightarrow>
     fc_llmEnabled f \<and> fc_generator f \<noteq> None
     \<and> (let normalizedWorkType = trim_space (to_lower (fts_WorkType spec))
        in normalizedWorkType \<in> set llmWorkTypes
           \<or> (case map_of llmWorkAliases normalizedWorkType of
                None \<Rightarrow> False
              | Some canonicalType \<Rightarrow> canonicalType \<in> set llmWorkTypes))"

text \<open>The task with the selection recorded and the steps, none for the LLM; \<open>None\<close> without a default template.\<close>

definition createExecutionPlan ::
    "(string \<Rightarrow> nat) \<Rightarrow> factory \<Rightarrow> FactoryTaskSpec \<Rightarrow> FactoryTaskSpec \<times> ExecutionStep list option" where
  "createExecutionPlan r f spec =
     (if shouldUseLLMTemplate f spec
      then (spec\<lparr>fts_SelectedTemplate := fts_WorkType spec @ '':llm'', fts_SelectionSource := ''llm_generator'',
                 fts_SelectionConfidence := Fin 1\<rparr>, Some [])
      else template_plan r (fc_registry f) (fc_recommender f) spec)"

subsection \<open>Execution with the LLM\<close>

definition NewLLMGenerator :: "LLMGeneratorConfig \<Rightarrow> LLMGeneratorConfig" where
  "NewLLMGenerator config =
     (let c1 = (if lg_Timeout config = 0 then config\<lparr>lg_Timeout := 120 * second\<rparr> else config);
          c2 = (if feq (lg_Temperature c1) (Fin 0) then c1\<lparr>lg_Temperature := round64 (3 / 10)\<rparr> else c1)
      in if lg_MaxTokens c2 = 0 then c2\<lparr>lg_MaxTokens := 4096\<rparr> else c2)"

text \<open>The provider, model and timeout of the first listed level whose backend has the endpoint.\<close>

definition level_of_endpoint :: "(int \<Rightarrow> nat) \<Rightarrow> MLQ \<Rightarrow> string \<Rightarrow> Level option" where
  "level_of_endpoint r m workerEndpoint =
     (case find (\<lambda>n. case GetLevel m n of
                       None \<Rightarrow> False
                     | Some level \<Rightarrow> bc_APIEndpoint (lv_Backend level) = workerEndpoint) (ListLevels r m) of
        None \<Rightarrow> None
      | Some n \<Rightarrow> GetLevel m n)"

definition endpoint_backend :: "(int \<Rightarrow> nat) \<Rightarrow> MLQ option \<Rightarrow> string \<Rightarrow> string \<times> string \<times> int" where
  "endpoint_backend r mlq workerEndpoint =
     (let (provider, model, timeout) =
        (case (case mlq of None \<Rightarrow> None | Some m \<Rightarrow> level_of_endpoint r m workerEndpoint) of
           None \<Rightarrow> ('''', '''', 2700)
         | Some level \<Rightarrow>
             (bc_Provider (lv_Backend level), bc_Name (lv_Backend level), bc_TimeoutSeconds (lv_Backend level)))
      in if provider = [] then (''llama-cpp'', ''unknown'', timeout) else (provider, model, timeout))"

definition llama_generator :: "string \<Rightarrow> string \<Rightarrow> string \<Rightarrow> int \<Rightarrow> string + LLMGeneratorConfig" where
  "llama_generator provider model baseURL timeout =
     (if provider \<in> {''ollama'', ''llama-cpp'', ''llama.cpp''}
      then Inr (NewLLMGenerator
             \<lparr>lg_Provider = \<lparr>lp_Name = ''llama-cpp'', lp_BaseURL = baseURL, lp_Model = model,
                             lp_Timeout = int64 (timeout * second)\<rparr>,
              lg_Model = model, lg_Temperature = round64 (3 / 10), lg_MaxTokens = 4096,
              lg_EnableThinking = False, lg_Timeout = int64 (timeout * second)\<rparr>)
      else Inl (''unsupported MLQ provider: '' @ provider))"

definition createGeneratorForLevel ::
    "(int \<Rightarrow> nat) \<Rightarrow> MLQ option \<Rightarrow> LLMGeneratorConfig \<Rightarrow> FactoryTaskSpec \<Rightarrow> string \<Rightarrow> string
     \<Rightarrow> string + LLMGeneratorConfig" where
  "createGeneratorForLevel r mlq gen0 spec taskClass workerEndpoint =
     (if workerEndpoint = [] then
        (case mlq of
           None \<Rightarrow> Inr gen0
         | Some m \<Rightarrow>
             (case SelectLevel m (fts_ID spec) (fts_WorkItemID spec) taskClass of
                Inl (NoEnabledLevel t j) \<Rightarrow>
                  Inl (''MLQ selection failed: no enabled level available for task='' @ t @ '' jira='' @ j)
              | Inr level \<Rightarrow>
                  llama_generator (bc_Provider (lv_Backend level)) (bc_Name (lv_Backend level))
                    (bc_APIEndpoint (lv_Backend level)) (bc_TimeoutSeconds (lv_Backend level))))
      else (case endpoint_backend r mlq workerEndpoint of
              (provider, model, timeout) \<Rightarrow> llama_generator provider model workerEndpoint timeout))"

definition template_type :: "string \<Rightarrow> string" where
  "template_type workType =
     (if workType = ''bugfix'' \<or> workType = ''debug'' then ''bugfix''
      else if workType = ''refactor'' then ''refactor''
      else if workType = ''test'' then ''test''
      else if workType = ''migration'' then ''migration''
      else ''implementation'')"

definition runLLMTemplate ::
    "'w factory_env \<Rightarrow> LLMGeneratorConfig \<Rightarrow> FactoryTaskSpec \<Rightarrow> string \<Rightarrow> 'w \<Rightarrow> 'w \<times> (string + string list)" where
  "runLLMTemplate env generator spec workspacePath w =
     (case fe_llm env generator (template_type (fts_WorkType spec)) spec workspacePath w of
        (w', Inl e) \<Rightarrow> (w', Inl (''LLM execution: '' @ e))
      | (w', Inr files) \<Rightarrow> (w', Inr files))"

definition executeWithLLMSingle ::
    "'w factory_env \<Rightarrow> LLMGeneratorConfig \<Rightarrow> MLQ option \<Rightarrow> FactoryTaskSpec \<Rightarrow> string \<Rightarrow> string \<Rightarrow> 'w
     \<Rightarrow> 'w \<times> (string + string list)" where
  "executeWithLLMSingle env gen0 mlq spec workspacePath taskClass w =
     (case createGeneratorForLevel (fe_levels env) mlq gen0 spec taskClass [] of
        Inl e \<Rightarrow> (w, Inl e)
      | Inr generator \<Rightarrow> runLLMTemplate env generator spec workspacePath w)"

text \<open>The function handed to the task executor; it keeps the last files and the last error.\<close>

definition llm_attempt ::
    "'w factory_env \<Rightarrow> LLMGeneratorConfig \<Rightarrow> MLQ \<Rightarrow> FactoryTaskSpec \<Rightarrow> string \<Rightarrow> string
     \<Rightarrow> ('w \<times> string list \<times> string option) execute_fn" where
  "llm_attempt env gen0 m spec workspacePath taskClass workerEndpoint s =
     (case s of (w, lastFiles, lastErr) \<Rightarrow>
        case createGeneratorForLevel (fe_levels env) (Some m) gen0 spec taskClass workerEndpoint of
          Inl e \<Rightarrow> ((w, lastFiles, lastErr), [], Some e)
        | Inr generator \<Rightarrow>
            (case runLLMTemplate env generator spec workspacePath w of
               (w', Inl e) \<Rightarrow> ((w', [], Some e), [], Some e)
             | (w', Inr files) \<Rightarrow> ((w', files, None), workspacePath, None)))"

definition executeWithLLMRetry ::
    "'w factory_env \<Rightarrow> LLMGeneratorConfig \<Rightarrow> TaskExecutor \<Rightarrow> FactoryTaskSpec \<Rightarrow> string \<Rightarrow> string \<Rightarrow> 'w
     \<Rightarrow> (TaskExecutor \<times> 'w \<times> (string + string list)) option" where
  "executeWithLLMRetry env gen0 te spec workspacePath taskClass w =
     (case ExecuteWithRetry (fe_clock env w) (llm_attempt env gen0 (te_mlq te) spec workspacePath taskClass)
             (fts_ID spec) taskClass (fts_WorkItemID spec) te (w, [], None) of
        None \<Rightarrow> None
      | Some (te', (w', lastFiles, lastErr), telemetry, sent) \<Rightarrow>
          Some (te', w', case lastErr of Some e \<Rightarrow> Inl e | None \<Rightarrow> Inr lastFiles))"

definition executeWithLLM ::
    "'w factory_env \<Rightarrow> FactoryTaskSpec \<Rightarrow> string \<Rightarrow> factory \<Rightarrow> 'w
     \<Rightarrow> (factory \<times> 'w \<times> (string + string list)) option" where
  "executeWithLLM env spec workspacePath f w =
     (case fc_generator f of
        None \<Rightarrow> Some (f, w, Inl ''LLM generator not configured'')
      | Some gen0 \<Rightarrow>
          let taskClass = (if contains_str (fts_WorkType spec) ''implementation'' then ''implementation''
                           else fts_WorkType spec)
          in case fc_taskExecutor f of
               Some te \<Rightarrow>
                 map_option (\<lambda>(te', w', r). (f\<lparr>fc_taskExecutor := Some te'\<rparr>, w', r))
                   (executeWithLLMRetry env gen0 te spec workspacePath taskClass w)
             | None \<Rightarrow>
                 (case executeWithLLMSingle env gen0 None spec workspacePath taskClass w of
                    (w', r) \<Rightarrow> Some (f, w', r)))"

subsection \<open>Execution of a task\<close>

definition run_preflight :: "'w factory_env \<Rightarrow> factory \<Rightarrow> FactoryTaskSpec \<Rightarrow> 'w \<Rightarrow> PreflightReport \<times> string option" where
  "run_preflight env f spec w =
     (if fc_preflightMode f \<noteq> [] then
        let checker = NewEnhancedPreflightChecker True (fc_preflightMode f)
        in if fc_preflightMode f = PreflightModeFailClosed
           then MustRunEnhancedPreflightChecks checker (fe_now env w) (fe_views env w) (fe_durs env w) spec
           else RunEnhancedPreflightChecks checker (fe_now env w) (fe_views env w) (fe_durs env w) spec
      else MustRunPreflightChecks True (fe_now env w) (fe_views env w) (fe_durs env w) spec)"

definition label_result :: "FactoryTaskSpec \<Rightarrow> string \<Rightarrow> ExecutionResult \<Rightarrow> ExecutionResult" where
  "label_result spec path result =
     result\<lparr>er_TaskID := fts_ID spec, er_SessionID := fts_SessionID spec, er_WorkItemID := fts_WorkItemID spec,
            er_WorkspacePath := path,
            er_TemplateKey := (if fts_TemplateKey spec = [] then fts_SelectedTemplate spec else fts_TemplateKey spec)\<rparr>"

definition llm_result ::
    "LLMGeneratorConfig \<Rightarrow> FactoryTaskSpec \<Rightarrow> string \<Rightarrow> time \<Rightarrow> time \<Rightarrow> string + string list \<Rightarrow> ExecutionResult" where
  "llm_result gen0 spec path start now r =
     (let base = empty_result
        \<lparr>er_TaskID := fts_ID spec, er_SessionID := fts_SessionID spec, er_WorkItemID := fts_WorkItemID spec,
         er_WorkspacePath := path, er_TemplateKey := fts_SelectedTemplate spec,
         er_Status := ExecutionStatusCompleted, er_Success := (case r of Inl _ \<Rightarrow> False | Inr _ \<Rightarrow> True),
         er_CompletedAt := now, er_Duration := time_sub now start,
         er_FilesChanged := (case r of Inl _ \<Rightarrow> [] | Inr files \<Rightarrow> files),
         er_Metadata := [''execution_mode'' \<mapsto> ''llm'', ''llm_model'' \<mapsto> lg_Model gen0,
                         ''llm_provider'' \<mapsto> lp_Name (lg_Provider gen0)]\<rparr>
      in case r of
           Inr _ \<Rightarrow> base
         | Inl e \<Rightarrow> base\<lparr>er_Status := ExecutionStatusFailed, er_Error := e, er_Success := False,
                         er_ProofOfWorkPath := path_join [path, ''proof-of-work.json'']\<rparr>)"

text \<open>
  The branch that executes: the factory, the world, the result and the error to return at once. A result that
  is nil without an error is dereferenced.
\<close>

definition execute_steps ::
    "'w factory_env \<Rightarrow> time \<Rightarrow> FactoryTaskSpec \<Rightarrow> string \<Rightarrow> ExecutionStep list \<Rightarrow> factory \<Rightarrow> 'w
     \<Rightarrow> (factory \<times> 'w \<times> ExecutionResult option \<times> go_error option) go_result option" where
  "execute_steps env start spec path steps f w =
     (if length steps = 0 \<and> fc_llmEnabled f \<and> shouldUseLLMTemplate f spec then
        (case executeWithLLM env spec path f w of
           None \<Rightarrow> None
         | Some (f', w', r) \<Rightarrow>
             Some (Returns (f', w', Some (llm_result (the (fc_generator f)) spec path start (fe_now env w') r),
                            case r of Inl e \<Rightarrow> Some (EText e) | Inr _ \<Rightarrow> None)))
      else
        (case fe_executor env steps path w of
           (w', result, Some err) \<Rightarrow> Some (Returns (f, w', map_option (label_result spec path) result, Some err))
         | (w', None, None) \<Rightarrow> Some Panic
         | (w', Some result, None) \<Rightarrow> Some (Returns (f, w', Some result, None))))"

text \<open>The result after the execution: files, git metadata and proof of work.\<close>

definition complete_result ::
    "'w factory_env \<Rightarrow> time \<Rightarrow> FactoryTaskSpec \<Rightarrow> string \<Rightarrow> ExecutionResult \<Rightarrow> 'w \<Rightarrow> 'w \<times> ExecutionResult \<times> bool" where
  "complete_result env start spec path result0 w =
     (let result = (label_result spec path result0)
                     \<lparr>er_CompletedAt := fe_now env w, er_Duration := time_sub (fe_now env w) start,
                      er_Success := (er_Status result0 = ExecutionStatusCompleted)\<rparr>;
          result1 = (case wo_ListFiles (fe_ws env) path w of
                       Some files \<Rightarrow> result\<lparr>er_FilesChanged := sort files\<rparr>
                     | None \<Rightarrow> result);
          result2 = (case wo_Metadata (fe_ws env) path w of
                       Some meta \<Rightarrow> result1\<lparr>er_GitBranch := wm_Branch meta, er_GitCommit := wm_BaseCommit meta\<rparr>
                     | None \<Rightarrow> result1)
      in case fe_proof env result2 spec w of
           (w', Inl e) \<Rightarrow> (w', result2, False)
         | (w', Inr a) \<Rightarrow>
             (w', result2\<lparr>er_ProofOfWorkPath := pa_Directory a, er_ArtifactPaths := pa_ArtifactPaths a,
                          er_GitStatusPath := pa_GitStatusPath a, er_GitDiffStatPath := pa_GitDiffStatPath a\<rparr>, True))"

definition hard_failure :: "string \<Rightarrow> bool" where
  "hard_failure name \<longleftrightarrow> name \<in> {''execution_completed'', ''files_verified'', ''proof_of_work''}"

definition apply_report :: "PostflightReport \<Rightarrow> ExecutionResult \<Rightarrow> ExecutionResult" where
  "apply_report report result =
     (if qr_AllPassed report then result
      else if list_ex (\<lambda>c. \<not> qf_Passed c \<and> hard_failure (qf_Name c)) (qr_Checks report)
      then result\<lparr>er_Success := False, er_Status := ExecutionStatusFailed, er_VerificationFailed := True,
                  er_Recommendation := ''retry'',
                  er_Error := ''critical postflight failure: '' @ join_with ''; '' (post_failed_checks report)\<rparr>
      else result\<lparr>er_VerificationFailed := True\<rparr>)"

definition run_postflight ::
    "'w factory_env \<Rightarrow> factory \<Rightarrow> FactoryTaskSpec \<Rightarrow> ExecutionResult \<Rightarrow> 'w \<Rightarrow> ExecutionResult" where
  "run_postflight env f spec result w =
     (case (if fc_postflightStrictMode f
            then RunEnhancedPostflightVerification True (fe_now env w) (fe_views env w) (fe_durs env w) result spec
            else RunPostflightVerification (fe_now env w) (fe_views env w) (fe_durs env w) result spec) of
        (result', report) \<Rightarrow> apply_report report result')"

text \<open>From the locked workspace to the result; the caller unlocks.\<close>

definition execute_locked ::
    "'w factory_env \<Rightarrow> time \<Rightarrow> FactoryTaskSpec \<Rightarrow> string \<Rightarrow> factory \<Rightarrow> 'w
     \<Rightarrow> (factory \<times> 'w \<times> ExecutionResult option \<times> go_error option) go_result option" where
  "execute_locked env start spec0 path f0 w =
     (case createExecutionPlan (fe_order env) f0 spec0 of
        (spec, None) \<Rightarrow> Some Panic
      | (spec, Some steps) \<Rightarrow>
          (case execute_steps env start spec path steps (store_task spec f0) w of
             None \<Rightarrow> None
           | Some Panic \<Rightarrow> Some Panic
           | Some (Returns (f, w1, result, Some err)) \<Rightarrow> Some (Returns (f, w1, result, Some err))
           | Some (Returns (f, w1, None, None)) \<Rightarrow> Some Panic
           | Some (Returns (f, w1, Some result, None)) \<Rightarrow>
               (case complete_result env start spec path result w1 of
                  (w2, result1, proved) \<Rightarrow>
                    let result2 = run_postflight env f spec result1 w2;
                        w3 = fe_checked env w2
                    in Some (Returns (f, if fc_proofVerificationMode f \<and> proved then fe_verified env w3 else w3,
                                      Some result2, None)))))"

definition ExecuteTask ::
    "'w factory_env \<Rightarrow> FactoryTaskSpec option \<Rightarrow> factory \<Rightarrow> 'w
     \<Rightarrow> (factory \<times> 'w \<times> ExecutionResult option \<times> go_error option) go_result option" where
  "ExecuteTask env task f0 w0 =
     (case task of
        None \<Rightarrow> Some (Returns (f0, w0, None, Some (EText ''task spec cannot be nil'')))
      | Some spec0 \<Rightarrow>
          if fts_ID spec0 = [] then Some (Returns (f0, w0, None, Some (EText ''task ID cannot be empty'')))
          else
            let w1 = fe_checked env w0 in
            case snd (run_preflight env f0 spec0 w0) of
              Some e \<Rightarrow>
                Some (Returns (f0, w1, Some (createErrorResult (fe_now env w1) spec0 (EText e) ''preflight checks failed''),
                               Some (EText e)))
            | None \<Rightarrow>
                let f1 = store_task spec0 f0; start = fe_now env w1 in
                case wo_Create (fe_ws env) (fts_ID spec0) (fts_SessionID spec0) w1 of
                  (w2, Inl e) \<Rightarrow>
                    let err = EFactory (WithTaskID (fts_ID spec0)
                                (WorkspaceError ErrWorkspaceAllocation ''failed to allocate workspace'' [] (Some e)))
                    in Some (Returns (f1, w2, Some (createErrorResult (fe_now env w2) spec0 err
                                               ''failed to allocate workspace''), Some err))
                | (w2, Inr meta) \<Rightarrow>
                    let path = wm_Path meta;
                        spec = spec0\<lparr>fts_WorkspacePath := path, fts_UpdatedAt := fe_now env w2\<rparr>;
                        f2 = store_task spec f1
                    in case wo_Lock (fe_ws env) path w2 of
                         (w3, Some e) \<Rightarrow>
                           let err = EFactory (WithTaskID (fts_ID spec)
                                       (WorkspaceError ErrWorkspaceLock ''failed to lock workspace'' path (Some e)))
                           in Some (Returns (f2, w3, Some (createErrorResult (fe_now env w3) spec err
                                                      ''failed to lock workspace''), Some err))
                       | (w3, None) \<Rightarrow>
                           (case execute_locked env start spec path f2 w3 of
                              None \<Rightarrow> None
                            | Some Panic \<Rightarrow> Some Panic
                            | Some (Returns (f3, w4, result, err)) \<Rightarrow>
                                Some (Returns (f3, wo_Unlock (fe_ws env) path w4, result, err))))"

end
