(* ===== verification/Plan_Properties.thy ===== *)
theory Plan_Properties
  imports Template_Properties Executor_Properties
begin

text \<open>
  The plans of the factory: a registry whose templates are within limits gives plans within limits.
\<close>

definition step_template_ok :: "ExecutionStepTemplate \<Rightarrow> bool" where
  "step_template_ok st \<longleftrightarrow>
     st_Variables st = [] \<and> 15 \<le> st_Timeout st \<and> st_Timeout st \<le> 2700 \<and> 1 \<le> st_MaxRetries st \<and> st_MaxRetries st \<le> 2"

definition template_attempts :: "WorkTypeTemplate \<Rightarrow> nat" where
  "template_attempts t = sum_list (map (\<lambda>st. nat (st_MaxRetries st + 1)) (wt_Steps t))"

definition template_seconds :: "WorkTypeTemplate \<Rightarrow> int" where
  "template_seconds t = sum_list (map (\<lambda>st. (st_MaxRetries st + 1) * st_Timeout st) (wt_Steps t))"

definition template_ok :: "WorkTypeTemplate \<Rightarrow> bool" where
  "template_ok t \<longleftrightarrow>
     wt_Steps t \<noteq> [] \<and> length (wt_Steps t) \<le> 12 \<and> list_all step_template_ok (wt_Steps t)
     \<and> template_attempts t \<le> 26 \<and> template_seconds t \<le> 9240"

lemmas template_ok_defs = template_ok_def step_template_ok_def template_attempts_def template_seconds_def

subsection \<open>The registry\<close>

definition registry_all :: "(WorkTypeTemplate \<Rightarrow> bool) \<Rightarrow> template_registry \<Rightarrow> bool" where
  "registry_all P reg \<longleftrightarrow>
     (\<forall>wt m. reg wt = Some m \<longrightarrow> m \<noteq> [] \<and> (\<forall>x \<in> set m. P (snd x)))"

lemma set_alist_update: "set (AList.update k v m) \<subseteq> insert (k, v) (set m)"
  by (induction m) auto

lemma registerTemplate_all:
  assumes "registry_all P reg" "P t"
  shows "registry_all P (registerTemplate t reg)"
proof -
  have ne: "AList.update k v m \<noteq> []" for k and v :: WorkTypeTemplate and m
    by (cases m) auto
  show ?thesis
    using assms set_alist_update [of "wt_WorkDomain t" t]
    by (fastforce simp: registry_all_def registerTemplate_def Let_def ne split: option.splits)
qed

lemma registerTemplate_dom: "dom reg \<subseteq> dom (registerTemplate t reg)" "wt_WorkType t \<in> dom (registerTemplate t reg)"
  by (auto simp: registerTemplate_def Let_def)

lemma fold_registerTemplate:
  assumes "list_all P ts" "registry_all P reg"
  shows "registry_all P (fold registerTemplate ts reg)" "dom reg \<subseteq> dom (fold registerTemplate ts reg)"
proof -
  show "registry_all P (fold registerTemplate ts reg)"
    using assms by (induction ts arbitrary: reg) (simp_all add: registerTemplate_all)
  show "dom reg \<subseteq> dom (fold registerTemplate ts reg)"
  proof (induction ts arbitrary: reg)
    case (Cons t ts)
    show ?case using Cons [of "registerTemplate t reg"] registerTemplate_dom(1) [of reg t] by auto
  qed simp
qed

lemma go_range_eq_Nil: "go_range r m = [] \<longleftrightarrow> m = []"
  by (metis length_0_conv length_go_range)

lemma GetTemplateOrNil_all:
  assumes "registry_all P reg" "reg ''default'' \<noteq> None"
  obtains t where "GetTemplateOrNil r reg wt d = Some t" "P t"
proof -
  have pick: "\<exists>t. any_template r m = Some t \<and> P t" if "reg w = Some m" for w m
  proof -
    have "m \<noteq> []" and P: "\<And>x. x \<in> set m \<Longrightarrow> P (snd x)" using assms(1) that by (simp_all add: registry_all_def)
    then have "go_range r m \<noteq> []" by (simp add: go_range_eq_Nil)
    then obtain x xs where x: "go_range r m = x # xs" by (cases "go_range r m") simp_all
    then have "x \<in> set m" using set_go_range [of r m] by auto
    moreover obtain d t where "x = (d, t)" by (rule prod.exhaust)
    ultimately show ?thesis using x P [of x] by (simp add: any_template_def)
  qed
  have look: "P t" if m: "reg w = Some m" and k: "map_of m k = Some t" for w m k t
  proof -
    have "\<forall>x \<in> set m. P (snd x)" using assms(1) m by (simp add: registry_all_def)
    from bspec [OF this map_of_SomeD [OF k]] show ?thesis by simp
  qed
  have "\<exists>t. GetTemplateOrNil r reg wt d = Some t \<and> P t"
    using assms(2) pick look unfolding GetTemplateOrNil_def
    by (auto split: option.split if_splits)
  then show thesis using that by blast
qed

subsection \<open>Plans\<close>

lemma expand_step_limits:
  "es_TimeoutSeconds (expand_step r spec (i, st)) = st_Timeout st"
  "es_MaxRetries (expand_step r spec (i, st)) = st_MaxRetries st"
  "es_StepID (expand_step r spec (i, st)) = fts_ID spec @ ''-step-'' @ itoa (int i + 1)"
  by (simp_all add: expand_step_def)

lemma override_identity:
  "0 < es_TimeoutSeconds s \<Longrightarrow> 0 < es_MaxRetries s \<Longrightarrow> override_step sel s = s"
  by (simp add: override_step_def Let_def)

lemma map_snd_indexed: "map (\<lambda>x. f (snd x)) (zip [0..<length ys] ys) = map f ys"
proof -
  have "map (\<lambda>x. f (snd x)) (zip [0..<length ys] ys) = map f (map snd (zip [0..<length ys] ys))"
    by (simp only: map_map o_def)
  also have "map snd (zip [0..<length ys] ys) = ys" by (rule map_snd_zip) simp
  finally show ?thesis .
qed

lemma expanded_limits:
  assumes "template_ok t"
    and steps: "steps = map (override_step sel) (ExpandTemplateVariables r t spec)"
  shows "steps = ExpandTemplateVariables r t spec" "length steps = length (wt_Steps t)"
    "sum_list (map max_attempts steps) = template_attempts t"
    "sum_list (map time_budget steps) = template_seconds t * second"
    "list_all (\<lambda>s. 0 < step_timeout s) steps"
proof -
  have ok: "step_template_ok (snd x)" if "x \<in> set (zip [0..<length (wt_Steps t)] (wt_Steps t))" for x
  proof -
    have "snd x \<in> set (wt_Steps t)" using that by (metis set_zip_rightD prod.collapse)
    then show ?thesis using assms(1) by (simp add: template_ok_def list_all_iff)
  qed
  have same: "override_step sel (expand_step r spec x) = expand_step r spec x"
    if "x \<in> set (zip [0..<length (wt_Steps t)] (wt_Steps t))" for x
    using ok [OF that] by (cases x) (simp add: override_identity expand_step_limits step_template_ok_def)
  then show eq: "steps = ExpandTemplateVariables r t spec"
    by (simp add: steps ExpandTemplateVariables_def)
  have timeout: "step_timeout (expand_step r spec (i, st)) = st_Timeout st * second"
    if "step_template_ok st" for i st
    using that by (simp add: step_timeout_def expand_step_limits step_template_ok_def second_def int64_small Let_def)
  have budget: "time_budget (expand_step r spec x) = (st_MaxRetries (snd x) + 1) * st_Timeout (snd x) * second"
    if "step_template_ok (snd x)" for x
    using that timeout [of "snd x" "fst x"]
    by (cases x) (simp add: time_budget_def max_attempts_def expand_step_limits step_template_ok_def)
  have att: "max_attempts (expand_step r spec x) = nat (st_MaxRetries (snd x) + 1)" for x
    by (cases x) (simp add: max_attempts_def expand_step_limits)
  show "length steps = length (wt_Steps t)" unfolding eq by (simp add: ExpandTemplateVariables_def)
  show "sum_list (map max_attempts steps) = template_attempts t"
    unfolding eq ExpandTemplateVariables_def template_attempts_def map_map o_def att
    by (simp only: map_snd_indexed [where f = "\<lambda>st. nat (st_MaxRetries st + 1)"])
  have "map time_budget steps = map (\<lambda>x. (st_MaxRetries (snd x) + 1) * st_Timeout (snd x) * second)
      (zip [0..<length (wt_Steps t)] (wt_Steps t))"
    unfolding eq ExpandTemplateVariables_def map_map o_def by (rule map_cong [OF refl]) (simp add: budget ok)
  then have "map time_budget steps = map (\<lambda>st. (st_MaxRetries st + 1) * st_Timeout st * second) (wt_Steps t)"
    by (simp only: map_snd_indexed [where f = "\<lambda>st. (st_MaxRetries st + 1) * st_Timeout st * second"])
  then show "sum_list (map time_budget steps) = template_seconds t * second"
    by (simp add: template_seconds_def sum_list_mult_const)
  show "list_all (\<lambda>s. 0 < step_timeout s) steps"
    unfolding eq ExpandTemplateVariables_def list_all_iff
  proof
    fix s assume "s \<in> set (map (expand_step r spec) (zip [0..<length (wt_Steps t)] (wt_Steps t)))"
    then obtain x where x: "x \<in> set (zip [0..<length (wt_Steps t)] (wt_Steps t))" "s = expand_step r spec x" by auto
    with ok [OF x(1)] timeout [of "snd x" "fst x"] show "0 < step_timeout s"
      by (cases x) (simp add: step_template_ok_def second_def)
  qed
qed

end
