(* ===== verification/Builtin_Plans.thy ===== *)
theory Builtin_Plans
  imports Plan_Properties Factory_Template_Data
begin

text \<open>
  The plans made from the built-in templates: every one of them is within the limits, so is every plan.
\<close>

text \<open>Every built-in template is within the limits.\<close>

lemma bugFixTemplates_ok: "template_ok bugFixTemplates"
  by (simp add: template_ok_defs bugFixTemplates_def cong: step_template_cong)

lemma featureTemplates_ok: "template_ok featureTemplates"
  by (simp add: template_ok_defs featureTemplates_def cong: step_template_cong)

lemma refactorTemplates_ok: "template_ok refactorTemplates"
  by (simp add: template_ok_defs refactorTemplates_def cong: step_template_cong)

lemma documentationTemplates_ok: "template_ok documentationTemplates"
  by (simp add: template_ok_defs documentationTemplates_def cong: step_template_cong)

lemma testTemplates_ok: "template_ok testTemplates"
  by (simp add: template_ok_defs testTemplates_def cong: step_template_cong)

lemma debugTemplates_ok: "template_ok debugTemplates"
  by (simp add: template_ok_defs debugTemplates_def cong: step_template_cong)

lemma defaultTemplate_ok: "template_ok defaultTemplate"
  by (simp add: template_ok_defs defaultTemplate_def cong: step_template_cong)

lemma cICDTemplate_ok: "template_ok cICDTemplate"
  by (simp add: template_ok_defs cICDTemplate_def cong: step_template_cong)

lemma javaScriptTemplate_ok: "template_ok javaScriptTemplate"
  by (simp add: template_ok_defs javaScriptTemplate_def cong: step_template_cong)

lemma databaseMigrationTemplate_ok: "template_ok databaseMigrationTemplate"
  by (simp add: template_ok_defs databaseMigrationTemplate_def cong: step_template_cong)

lemma monitoringTemplate_ok: "template_ok monitoringTemplate"
  by (simp add: template_ok_defs monitoringTemplate_def cong: step_template_cong)

lemma realImplementationTemplate_ok: "template_ok realImplementationTemplate"
  by (simp add: template_ok_defs realImplementationTemplate_def cong: step_template_cong)

lemma realDocumentationTemplate_ok: "template_ok realDocumentationTemplate"
  by (simp add: template_ok_defs realDocumentationTemplate_def cong: step_template_cong)

lemma realBugFixTemplate_ok: "template_ok realBugFixTemplate"
  by (simp add: template_ok_defs realBugFixTemplate_def cong: step_template_cong)

lemma realRefactorTemplate_ok: "template_ok realRefactorTemplate"
  by (simp add: template_ok_defs realRefactorTemplate_def cong: step_template_cong)

lemma realPythonTemplate_ok: "template_ok realPythonTemplate"
  by (simp add: template_ok_defs realPythonTemplate_def cong: step_template_cong)

lemma realReviewTemplate_ok: "template_ok realReviewTemplate"
  by (simp add: template_ok_defs realReviewTemplate_def cong: step_template_cong)

lemma repoAwareImplementationTemplate_ok: "template_ok repoAwareImplementationTemplate"
  by (simp add: template_ok_defs repoAwareImplementationTemplate_def cong: step_template_cong)

lemma repoAwareBugFixTemplate_ok: "template_ok repoAwareBugFixTemplate"
  by (simp add: template_ok_defs repoAwareBugFixTemplate_def cong: step_template_cong)

lemma repoAwareRefactorTemplate_ok: "template_ok repoAwareRefactorTemplate"
  by (simp add: template_ok_defs repoAwareRefactorTemplate_def cong: step_template_cong)

lemma repoAwareDocsTemplate_ok: "template_ok repoAwareDocsTemplate"
  by (simp add: template_ok_defs repoAwareDocsTemplate_def cong: step_template_cong)

lemma repoAwareTestTemplate_ok: "template_ok repoAwareTestTemplate"
  by (simp add: template_ok_defs repoAwareTestTemplate_def cong: step_template_cong)

lemma repoAwareCICDTemplate_ok: "template_ok repoAwareCICDTemplate"
  by (simp add: template_ok_defs repoAwareCICDTemplate_def cong: step_template_cong)

lemma repoAwareMonitoringTemplate_ok: "template_ok repoAwareMonitoringTemplate"
  by (simp add: template_ok_defs repoAwareMonitoringTemplate_def cong: step_template_cong)

lemma repoAwareMigrationTemplate_ok: "template_ok repoAwareMigrationTemplate"
  by (simp add: template_ok_defs repoAwareMigrationTemplate_def cong: step_template_cong)

lemmas builtin_template_ok =
  bugFixTemplates_ok
  featureTemplates_ok
  refactorTemplates_ok
  documentationTemplates_ok
  testTemplates_ok
  debugTemplates_ok
  defaultTemplate_ok
  cICDTemplate_ok
  javaScriptTemplate_ok
  databaseMigrationTemplate_ok
  monitoringTemplate_ok
  realImplementationTemplate_ok
  realDocumentationTemplate_ok
  realBugFixTemplate_ok
  realRefactorTemplate_ok
  realPythonTemplate_ok
  realReviewTemplate_ok
  repoAwareImplementationTemplate_ok
  repoAwareBugFixTemplate_ok
  repoAwareRefactorTemplate_ok
  repoAwareDocsTemplate_ok
  repoAwareTestTemplate_ok
  repoAwareCICDTemplate_ok
  repoAwareMonitoringTemplate_ok
  repoAwareMigrationTemplate_ok

lemma builtin_registry:
  "registry_all template_ok NewWorkTypeTemplateRegistry" "NewWorkTypeTemplateRegistry ''default'' \<noteq> None"
proof -
  have all: "list_all template_ok ([bugFixTemplates, featureTemplates, refactorTemplates, documentationTemplates,
      testTemplates, debugTemplates] @ usefulTemplates @ repoAwareTemplates @ [defaultTemplate])"
    by (simp add: usefulTemplates_def repoAwareTemplates_def builtin_template_ok)
  have "registry_all template_ok Map.empty" by (simp add: registry_all_def)
  then show "registry_all template_ok NewWorkTypeTemplateRegistry"
    unfolding NewWorkTypeTemplateRegistry_def by (rule fold_registerTemplate(1) [OF all])
  have "wt_WorkType defaultTemplate = ''default''" by (simp add: defaultTemplate_def cong: step_template_cong)
  then show "NewWorkTypeTemplateRegistry ''default'' \<noteq> None"
    unfolding NewWorkTypeTemplateRegistry_def
    by (simp add: registerTemplate_def Let_def)
qed

text \<open>C29. Every task gets a plan from the built-in templates, with or without a recommender and in any map order:
  between one and twelve steps, whose timeouts and retries are those of the template, so that the plan
  runs at most 26 commands and the deadlines of the commands it runs add up to at most 9240 seconds.
  The limits of the task and those the recommender proposes never reach a step.\<close>

theorem builtin_plan_bounds:
  "\<exists>t steps us. snd (template_plan r NewWorkTypeTemplateRegistry recommender spec) = Some steps
    \<and> steps = ExpandTemplateVariables r t (fst (template_plan r NewWorkTypeTemplateRegistry recommender spec))
    \<and> 1 \<le> length steps \<and> length steps \<le> 12 \<and> length us \<le> 26 \<and> sum_list us \<le> 9240 * second
    \<and> ExecutePlan (logged sh) steps ws (w, []) = (case ExecutePlan sh steps ws w of (w', x) \<Rightarrow> ((w', us), x))"
proof -
  obtain spec' sel where sel: "chooseTemplateAndConfig r NewWorkTypeTemplateRegistry recommender spec = (spec', sel)"
    by (rule prod.exhaust)
  obtain t where t: "GetTemplateOrNil r NewWorkTypeTemplateRegistry (sr_workType sel) (sr_workDomain sel) = Some t"
      "template_ok t"
    by (rule GetTemplateOrNil_all [OF builtin_registry])
  let ?steps = "map (override_step sel) (ExpandTemplateVariables r t spec')"
  note lim = expanded_limits [OF t(2) refl, where sel = sel and r = r and spec = spec']
  have plan: "template_plan r NewWorkTypeTemplateRegistry recommender spec = (spec', Some ?steps)"
    by (simp add: template_plan_def sel t(1))
  have "list_all (\<lambda>s. 0 \<le> step_timeout s) ?steps"
    using lim(5) by (auto simp: list_all_iff less_imp_le)
  from plan_bounds [OF this, of sh ws w] obtain us where us:
      "length us \<le> template_attempts t" "sum_list us \<le> template_seconds t * second"
      "ExecutePlan (logged sh) ?steps ws (w, []) = (case ExecutePlan sh ?steps ws w of (w', x) \<Rightarrow> ((w', us), x))"
    unfolding lim(3,4) by blast
  have "template_attempts t \<le> 26" "template_seconds t \<le> 9240" "wt_Steps t \<noteq> []" "length (wt_Steps t) \<le> 12"
    using t(2) by (simp_all add: template_ok_def)
  moreover from this(2) have "template_seconds t * second \<le> 9240 * second" by (simp add: second_def)
  moreover have "1 \<le> length ?steps" using lim(2) \<open>wt_Steps t \<noteq> []\<close> by (simp add: Suc_le_eq)
  ultimately show ?thesis
    using plan us lim(1,2) by (intro exI [of _ t] exI [of _ ?steps] exI [of _ us]) simp
qed

end
