(* ===== verification/Verification_Properties.thy ===== *)
theory Verification_Properties
  imports Preflight Postflight
begin

text \<open>
  The reports of the preflight and postflight checkers: what is in them, when they pass, and how the
  postflight checks decide. Every check has the name it is listed under.
\<close>

subsection \<open>Preflight\<close>

lemma preflight_loop_checks:
  "pr_Checks (preflight_loop osv dur spec i cs report) =
     pr_Checks report @ map (\<lambda>j. (snd (cs ! j) (osv (i + j)) spec)\<lparr>pf_Duration := dur (i + j)\<rparr>) [0..<length cs]"
proof (induction cs arbitrary: i report)
  case (Cons c cs)
  have shift: "map f [0..<Suc (length cs)] = f 0 # map (\<lambda>j. f (Suc j)) [0..<length cs]" for f :: "nat \<Rightarrow> PreflightCheckResult"
    by (simp add: upt_conv_Cons map_Suc_upt [symmetric] del: upt_Suc)
  show ?case by (cases c) (simp add: Cons Let_def shift del: upt_Suc)
qed simp

lemma preflight_loop_passed:
  "pr_AllPassed (preflight_loop osv dur spec i cs report) \<longleftrightarrow> pr_AllPassed report \<and> (\<forall>j<length cs. fst (cs ! j) \<longrightarrow> pf_Passed (snd (cs ! j) (osv (i + j)) spec))"
proof (induction cs arbitrary: i report)
  case (Cons c cs)
  show ?case by (cases c) (auto simp: Cons Let_def less_Suc_eq_0_disj)
qed simp

lemmas preflight_loop_report = preflight_loop_checks preflight_loop_passed

lemma all_passed_iff:
  assumes "list_all fst cs"
  shows "pr_AllPassed (preflight_loop osv dur spec 0 cs (new_preflight_report now spec)) \<longleftrightarrow>
    list_all pf_Passed (pr_Checks (preflight_loop osv dur spec 0 cs (new_preflight_report now spec)))"
  using assms by (auto simp: preflight_loop_report new_preflight_report_def list_all_iff list_all_length)

lemma length_checks: "length (pr_Checks (preflight_loop osv dur spec i cs report)) = length (pr_Checks report) + length cs"
  by (simp add: preflight_loop_checks)

lemma basic_report:
  "length (pr_Checks (RunPreflightChecks wm now osv dur spec)) = 6"
  "pr_AllPassed (RunPreflightChecks wm now osv dur spec) \<longleftrightarrow> list_all pf_Passed (pr_Checks (RunPreflightChecks wm now osv dur spec))"
proof -
  show "length (pr_Checks (RunPreflightChecks wm now osv dur spec)) = 6"
    unfolding RunPreflightChecks_def length_checks by (simp add: preflight_checks_def new_preflight_report_def)
  have "list_all fst (map (Pair True) (preflight_checks wm))" by (simp add: preflight_checks_def)
  from all_passed_iff [OF this]
  show "pr_AllPassed (RunPreflightChecks wm now osv dur spec) \<longleftrightarrow>
      list_all pf_Passed (pr_Checks (RunPreflightChecks wm now osv dur spec))"
    unfolding RunPreflightChecks_def .
qed

lemma enhanced_report:
  "length (pr_Checks (fst (RunEnhancedPreflightChecks e now osv dur spec))) = 9"
  "ep_mode e = PreflightModeFailClosed \<Longrightarrow>
   pr_AllPassed (fst (RunEnhancedPreflightChecks e now osv dur spec)) \<longleftrightarrow>
   list_all pf_Passed (pr_Checks (fst (RunEnhancedPreflightChecks e now osv dur spec)))"
proof -
  show "length (pr_Checks (fst (RunEnhancedPreflightChecks e now osv dur spec))) = 9"
    unfolding RunEnhancedPreflightChecks_def fst_conv length_checks by (simp add: enhanced_checks_def new_preflight_report_def)
  assume "ep_mode e = PreflightModeFailClosed"
  then have "list_all fst (map (\<lambda>(critical, c). (mode_blocks (ep_mode e) critical, c)) (enhanced_checks e))"
    by (simp add: enhanced_checks_def mode_blocks_def)
  from all_passed_iff [OF this]
  show "pr_AllPassed (fst (RunEnhancedPreflightChecks e now osv dur spec)) \<longleftrightarrow>
      list_all pf_Passed (pr_Checks (fst (RunEnhancedPreflightChecks e now osv dur spec)))"
    unfolding RunEnhancedPreflightChecks_def fst_conv .
qed

lemma enhanced_report_no_error: "snd (RunEnhancedPreflightChecks e now osv dur spec) = None"
  by (simp add: RunEnhancedPreflightChecks_def)

subsection \<open>Postflight\<close>

lemma postflight_loop_checks:
  "qr_Checks (postflight_loop osv dur r i cs report) =
     qr_Checks report @ map (\<lambda>j. ((cs ! j) (osv (i + j)) r)\<lparr>qf_Duration := dur (i + j)\<rparr>) [0..<length cs]"
proof (induction cs arbitrary: i report)
  case (Cons c cs)
  have shift: "map f [0..<Suc (length cs)] = f 0 # map (\<lambda>j. f (Suc j)) [0..<length cs]" for f :: "nat \<Rightarrow> PostflightCheckResult"
    by (simp add: upt_conv_Cons map_Suc_upt [symmetric] del: upt_Suc)
  show ?case by (simp add: Cons Let_def shift del: upt_Suc)
qed simp

lemma postflight_loop_passed:
  "qr_AllPassed (postflight_loop osv dur r i cs report) \<longleftrightarrow> qr_AllPassed report \<and> (\<forall>j<length cs. qf_Passed ((cs ! j) (osv (i + j)) r))"
proof (induction cs arbitrary: i report)
  case (Cons c cs)
  show ?case by (auto simp: Cons Let_def less_Suc_eq_0_disj)
qed simp

lemmas postflight_loop_report = postflight_loop_checks postflight_loop_passed

lemma post_check_sel [simp]:
  "qf_Name (post_check n p m d) = n" "qf_Passed (post_check n p m d) = p"
  by (simp_all add: post_check_def)

lemma check_names:
  "qf_Name (checkExecutionCompleted os r) = ''execution_completed''"
  "qf_Name (workspace_check n os r) = n"
  "qf_Name (artifacts_check ps ks os r) = ''artifacts_generated''"
  "qf_Name (checkFilesCreated os r) = ''files_verified''"
  "qf_Name (checkFilesVerified os r) = ''files_verified''"
  "qf_Name (checkCodeCompiles os r) = ''code_compiles''"
  "qf_Name (checkNoFakeImports os r) = ''no_fake_imports''"
  "qf_Name (checkTestsRan os r) = ''tests_verified''"
  "qf_Name (checkGitStatus os r) = ''git_status''"
  "qf_Name (checkProofOfWork os r) = ''proof_of_work''"
  "qf_Name (checkGitStateValid os r) = ''git_state_valid''"
  "qf_Name (checkGitStatusVerified s os r) = ''git_status_verified''"
  "qf_Name (snd (checkArtifactIntegrity os r)) = ''artifact_integrity''"
  "qf_Name (checkProofOfWorkValid os r) = ''proof_of_work_valid''"
  by (simp_all add: checkExecutionCompleted_def workspace_check_def artifacts_check_def checkFilesCreated_def
      checkFilesVerified_def declared_files_check_def checkCodeCompiles_def checkNoFakeImports_def checkTestsRan_def
      checkGitStatus_def checkProofOfWork_def checkGitStateValid_def checkGitStatusVerified_def checkArtifactIntegrity_def
      checkProofOfWorkValid_def Let_def split: prod.split option.split sum.split)

lemma execution_completed_iff:
  "qf_Passed (checkExecutionCompleted os r) \<longleftrightarrow> er_Error r = [] \<and> er_Success r"
  by (simp add: checkExecutionCompleted_def)

lemma files_created_iff:
  "qf_Passed (checkFilesCreated os r) \<longleftrightarrow> er_FilesChanged r \<noteq> [] \<and> missing_files os r = []"
  by (simp add: checkFilesCreated_def declared_files_check_def Let_def)

lemma files_verified_iff: "qf_Passed (checkFilesVerified os r) \<longleftrightarrow> missing_files os r = []"
  by (simp add: checkFilesVerified_def declared_files_check_def missing_files_def Let_def)

text \<open>The result of the checks that look at what they do not change.\<close>

lemma integrity_result:
  "fst (checkArtifactIntegrity os r) = r \<or> (\<exists>p. fst (checkArtifactIntegrity os r) = r\<lparr>er_ArtifactPaths := er_ArtifactPaths r @ [p]\<rparr>)"
  by (auto simp: checkArtifactIntegrity_def Let_def split: sum.split)

lemma downgrade_frame:
  "er_Success (downgrade cs r) = er_Success r" "er_Status (downgrade cs r) = er_Status r"
  "er_Error (downgrade cs r) = er_Error r" "er_FilesChanged (downgrade cs r) = er_FilesChanged r"
  "er_VerificationFailed (downgrade cs r)"
  by (simp_all add: downgrade_def Let_def)

subsection \<open>The checks that fail a task\<close>

fun basic_results ::
    "(nat \<Rightarrow> os_view) \<Rightarrow> (nat \<Rightarrow> duration) \<Rightarrow> nat \<Rightarrow> postflight_check list \<Rightarrow> ExecutionResult
     \<Rightarrow> PostflightCheckResult list" where
  "basic_results osv dur i [] r = []"
| "basic_results osv dur i (c # cs) r = (c (osv i) r)\<lparr>qf_Duration := dur i\<rparr> # basic_results osv dur (Suc i) cs r"

lemma postflight_loop_results:
  "qr_Checks (postflight_loop osv dur r i cs report) = qr_Checks report @ basic_results osv dur i cs r"
  by (induction cs arbitrary: i report) (simp_all add: Let_def)

lemma basic_hard_failure:
  "list_ex (\<lambda>c. \<not> qf_Passed c \<and> qf_Name c \<in> {''execution_completed'', ''files_verified'', ''proof_of_work''})
     (qr_Checks (postflight_loop osv dur r 0 postflight_checks (new_postflight_report now spec))) \<longleftrightarrow>
   \<not> (qf_Passed (checkExecutionCompleted (osv 0) r) \<and> qf_Passed (checkFilesCreated (osv 3) r)
      \<and> qf_Passed (checkProofOfWork (osv 8) r))"
  unfolding postflight_loop_results
  by (simp add: postflight_checks_def new_postflight_report_def check_names checkWorkspaceClean_def
      checkArtifactsGenerated_def eval_nat_numeral)

text \<open>The results of the enhanced checks, with the result of the execution threaded through.\<close>

fun enhanced_results ::
    "(nat \<Rightarrow> os_view) \<Rightarrow> (nat \<Rightarrow> duration) \<Rightarrow> nat
     \<Rightarrow> (os_view \<Rightarrow> ExecutionResult \<Rightarrow> ExecutionResult \<times> PostflightCheckResult) list \<Rightarrow> ExecutionResult
     \<Rightarrow> PostflightCheckResult list" where
  "enhanced_results osv dur i [] r = []"
| "enhanced_results osv dur i (c # cs) r =
     (snd (c (osv i) r))\<lparr>qf_Duration := dur i\<rparr> # enhanced_results osv dur (Suc i) cs (fst (c (osv i) r))"

lemma enhanced_loop_checks:
  "qr_Checks (snd (enhanced_postflight_loop s osv dur i cs r report)) = qr_Checks report @ enhanced_results osv dur i cs r"
proof (induction cs arbitrary: i r report)
  case (Cons c cs)
  show ?case by (cases "c (osv i) r") (simp add: Cons Let_def)
qed simp

fun enhanced_final ::
    "(nat \<Rightarrow> os_view) \<Rightarrow> nat \<Rightarrow> (os_view \<Rightarrow> ExecutionResult \<Rightarrow> ExecutionResult \<times> PostflightCheckResult) list
     \<Rightarrow> ExecutionResult \<Rightarrow> ExecutionResult" where
  "enhanced_final osv i [] r = r"
| "enhanced_final osv i (c # cs) r = enhanced_final osv (Suc i) cs (fst (c (osv i) r))"

lemma enhanced_loop_result: "fst (enhanced_postflight_loop s osv dur i cs r report) = enhanced_final osv i cs r"
proof (induction cs arbitrary: i r report)
  case (Cons c cs)
  show ?case by (cases "c (osv i) r") (simp add: Cons Let_def)
qed simp

lemma enhanced_checks_result:
  "fst (enhanced_postflight_loop s osv dur 0 (enhanced_postflight_checks s) r report) = fst (checkArtifactIntegrity (osv 5) r)"
  unfolding enhanced_loop_result by (simp add: enhanced_postflight_checks_def pure_check_def eval_nat_numeral)

lemma enhanced_hard_failure:
  "list_ex (\<lambda>c. \<not> qf_Passed c \<and> qf_Name c \<in> {''execution_completed'', ''files_verified'', ''proof_of_work''})
     (qr_Checks (snd (enhanced_postflight_loop s osv dur 0 (enhanced_postflight_checks s) r (new_postflight_report now spec)))) \<longleftrightarrow>
   \<not> (qf_Passed (checkExecutionCompleted (osv 0) r) \<and> qf_Passed (checkFilesVerified (osv 6) r))"
proof -
  have f: "missing_files os (fst (checkArtifactIntegrity v r)) = missing_files os r" for os v
    using integrity_result [of v r] by (auto simp: missing_files_def absolute_file_def [abs_def])
  show ?thesis
    unfolding enhanced_loop_checks
    by (simp add: enhanced_postflight_checks_def pure_check_def new_postflight_report_def check_names
        checkWorkspaceAccessible_def enhanced_checkExecutionCompleted_def checkTestsVerified_def
        enhanced_checkArtifactsGenerated_def files_verified_iff f eval_nat_numeral)
qed

text \<open>A report that passes has no failed check, in the strict mode of the enhanced verifier too.\<close>

lemma basic_all_passed:
  "qr_AllPassed (postflight_loop osv dur r i cs report) \<Longrightarrow> list_all qf_Passed (basic_results osv dur i cs r)"
  by (induction cs arbitrary: i report) (auto simp: Let_def postflight_loop_passed split: if_splits)

lemma enhanced_AllPassed_mono:
  "qr_AllPassed (snd (enhanced_postflight_loop True osv dur i cs r report)) \<Longrightarrow> qr_AllPassed report"
proof (induction cs arbitrary: i r report)
  case (Cons c cs)
  show ?case
    using Cons.prems by (cases "c (osv i) r") (auto simp: Let_def dest!: Cons.IH split: if_splits)
qed simp

lemma enhanced_all_passed:
  "qr_AllPassed (snd (enhanced_postflight_loop True osv dur i cs r report)) \<Longrightarrow> list_all qf_Passed (enhanced_results osv dur i cs r)"
proof (induction cs arbitrary: i r report)
  case (Cons c cs)
  show ?case
    using Cons.prems
    by (cases "c (osv i) r") (auto simp: Let_def dest: Cons.IH enhanced_AllPassed_mono split: if_splits)
qed simp

end
