(* ===== verification/Factory_Properties.thy ===== *)
theory Factory_Properties
  imports Factory Builtin_Plans Verification_Properties
begin

text \<open>
  The factory as a whole: what the gates decide, what a successful task has gone through, and that the
  execution of a task comes to an end.
\<close>

subsection \<open>Preflight\<close>

lemma preflight_outcome:
  assumes r: "run_preflight env f spec w = (report, err)"
  shows "length (pr_Checks report) = (if fc_preflightMode f = [] then 6 else 9)
    \<and> (err = None \<longleftrightarrow> fc_preflightMode f \<notin> {[], PreflightModeFailClosed} \<or> list_all pf_Passed (pr_Checks report))"
proof -
  let ?e = "NewEnhancedPreflightChecker True (fc_preflightMode f)"
  let ?basic = "RunPreflightChecks True (fe_now env w) (fe_views env w) (fe_durs env w) spec"
  let ?enh = "RunEnhancedPreflightChecks ?e (fe_now env w) (fe_views env w) (fe_durs env w) spec"
  consider "fc_preflightMode f = []" | "fc_preflightMode f = PreflightModeFailClosed"
    | "fc_preflightMode f \<noteq> []" "fc_preflightMode f \<noteq> PreflightModeFailClosed" by blast
  then show ?thesis
  proof cases
    case 1
    then have "report = ?basic" "err = None \<longleftrightarrow> pr_AllPassed ?basic"
      using r by (auto simp: run_preflight_def MustRunPreflightChecks_def Let_def split: if_splits)
    then show ?thesis using 1 by (simp add: basic_report)
  next
    case 2
    then have "report = fst ?enh" "err = None \<longleftrightarrow> pr_AllPassed (fst ?enh)"
      using r by (auto simp: run_preflight_def MustRunEnhancedPreflightChecks_def Let_def split: if_splits)
    moreover have "ep_mode ?e = PreflightModeFailClosed" using 2 by (simp add: NewEnhancedPreflightChecker_def)
    ultimately show ?thesis using 2 enhanced_report [of ?e] by simp
  next
    case 3
    then have "report = fst ?enh" "err = snd ?enh"
      using r by (simp_all add: run_preflight_def)
    then show ?thesis using 3 by (simp add: enhanced_report(1) enhanced_report_no_error)
  qed
qed

text \<open>
  C30. The preflight gate. Checks decide only in mode fail-closed, where all nine must pass, and without a mode, where
  the six basic ones must. In every other mode, strict (the default) included, no outcome of the checks
  stops a task. A task that is stopped changes nothing in the factory and gets no workspace.
\<close>

theorem preflight_gate:
  "let (report, err) = run_preflight env f spec w in
     length (pr_Checks report) = (if fc_preflightMode f = [] then 6 else 9)
     \<and> (err = None) =
         (if fc_preflightMode f \<in> {[], PreflightModeFailClosed} then list_all pf_Passed (pr_Checks report) else True)
     \<and> (case err of
           None \<Rightarrow> True
         | Some e \<Rightarrow>
             if fts_ID spec = [] then True
             else ExecuteTask env (Some spec) f w =
                    Some (Returns (f, fe_checked env w,
                      Some (createErrorResult (fe_now env (fe_checked env w)) spec (EText e) ''preflight checks failed''),
                      Some (EText e))))"
proof -
  obtain report err where r: "run_preflight env f spec w = (report, err)" by (rule prod.exhaust)
  note out = preflight_outcome [OF r]
  then have "(err = None) =
      (if fc_preflightMode f \<in> {[], PreflightModeFailClosed} then list_all pf_Passed (pr_Checks report) else True)"
    by simp
  moreover have "fts_ID spec \<noteq> [] \<Longrightarrow> err = Some e \<Longrightarrow>
      ExecuteTask env (Some spec) f w =
        Some (Returns (f, fe_checked env w,
          Some (createErrorResult (fe_now env (fe_checked env w)) spec (EText e) ''preflight checks failed''),
          Some (EText e)))" for e
    by (simp add: ExecuteTask_def r Let_def)
  ultimately show ?thesis using out by (simp add: r split: option.split)
qed

subsection \<open>Postflight\<close>

lemma apply_report_success:
  "er_Success (apply_report report r) \<longleftrightarrow>
     er_Success r \<and> (qr_AllPassed report \<or> \<not> list_ex (\<lambda>c. \<not> qf_Passed c \<and> hard_failure (qf_Name c)) (qr_Checks report))"
  by (simp add: apply_report_def)

lemma no_failed_check: "list_all qf_Passed cs \<Longrightarrow> \<not> list_ex (\<lambda>c. \<not> qf_Passed c \<and> P c) cs"
  by (auto simp: list_all_iff list_ex_iff)

text \<open>What is left of a result after a verification: the changes the verifiers make.\<close>

definition same_run :: "ExecutionResult \<Rightarrow> ExecutionResult \<Rightarrow> bool" where
  "same_run r r' \<longleftrightarrow>
     er_TaskID r' = er_TaskID r \<and> er_SessionID r' = er_SessionID r \<and> er_WorkItemID r' = er_WorkItemID r
     \<and> er_WorkspacePath r' = er_WorkspacePath r \<and> er_FilesChanged r' = er_FilesChanged r
     \<and> er_ExecutionSteps r' = er_ExecutionSteps r \<and> er_FailedSteps r' = er_FailedSteps r
     \<and> er_TotalSteps r' = er_TotalSteps r \<and> er_CompletedSteps r' = er_CompletedSteps r
     \<and> er_TemplateKey r' = er_TemplateKey r \<and> er_ProofOfWorkPath r' = er_ProofOfWorkPath r"

lemma same_run_downgrade [simp]: "same_run r (downgrade cs r)"
  by (simp add: same_run_def downgrade_def Let_def)

lemma same_run_apply: "same_run r r' \<Longrightarrow> same_run r (apply_report report r')"
  by (simp add: same_run_def apply_report_def)

lemma basic_success:
  "er_Success (apply_report (snd (RunPostflightVerification now osv dur r spec)) (fst (RunPostflightVerification now osv dur r spec)))
   \<longleftrightarrow> er_Success r \<and> er_Error r = [] \<and> er_FilesChanged r \<noteq> [] \<and> missing_files (osv 3) r = []
      \<and> qf_Passed (checkProofOfWork (osv 8) r)"
proof -
  let ?rep = "postflight_loop osv dur r 0 postflight_checks (new_postflight_report now spec)"
  let ?r = "fst (RunPostflightVerification now osv dur r spec)"
  have rep: "snd (RunPostflightVerification now osv dur r spec) = ?rep" "er_Success ?r = er_Success r"
    by (simp_all add: RunPostflightVerification_def Let_def downgrade_frame)
  have "list_ex (\<lambda>c. \<not> qf_Passed c \<and> hard_failure (qf_Name c)) (qr_Checks ?rep) \<longleftrightarrow>
      \<not> (er_Success r \<and> er_Error r = [] \<and> er_FilesChanged r \<noteq> [] \<and> missing_files (osv 3) r = []
        \<and> qf_Passed (checkProofOfWork (osv 8) r))"
    unfolding hard_failure_def basic_hard_failure execution_completed_iff files_created_iff by blast
  moreover have "qr_AllPassed ?rep \<Longrightarrow> \<not> list_ex (\<lambda>c. \<not> qf_Passed c \<and> hard_failure (qf_Name c)) (qr_Checks ?rep)"
    by (rule no_failed_check)
      (drule basic_all_passed, simp add: postflight_loop_results new_postflight_report_def)
  ultimately show ?thesis unfolding rep apply_report_success by blast
qed

lemma enhanced_success:
  "er_Success (apply_report (snd (RunEnhancedPostflightVerification True now osv dur r spec))
     (fst (RunEnhancedPostflightVerification True now osv dur r spec)))
   \<longleftrightarrow> er_Success r \<and> er_Error r = [] \<and> missing_files (osv 6) r = []"
proof -
  let ?run = "enhanced_postflight_loop True osv dur 0 (enhanced_postflight_checks True) r (new_postflight_report now spec)"
  have res: "er_Success (fst ?run) = er_Success r"
    unfolding enhanced_checks_result using integrity_result [of "osv 5" r] by auto
  have "list_ex (\<lambda>c. \<not> qf_Passed c \<and> hard_failure (qf_Name c)) (qr_Checks (snd ?run)) \<longleftrightarrow>
      \<not> (er_Success r \<and> er_Error r = [] \<and> missing_files (osv 6) r = [])"
    unfolding hard_failure_def enhanced_hard_failure execution_completed_iff files_verified_iff by blast
  moreover have "qr_AllPassed (snd ?run) \<Longrightarrow> \<not> list_ex (\<lambda>c. \<not> qf_Passed c \<and> hard_failure (qf_Name c)) (qr_Checks (snd ?run))"
    by (rule no_failed_check)
      (drule enhanced_all_passed, simp add: enhanced_loop_checks new_postflight_report_def)
  ultimately show ?thesis
    unfolding RunEnhancedPostflightVerification_def apply_report_success res by blast
qed

lemma success_verified:
  "er_Success (run_postflight env f spec r w) \<longleftrightarrow>
     er_Success r \<and> er_Error r = []
     \<and> (if fc_postflightStrictMode f then missing_files (fe_views env w 6) r = []
        else er_FilesChanged r \<noteq> [] \<and> missing_files (fe_views env w 3) r = []
             \<and> qf_Passed (checkProofOfWork (fe_views env w 8) r))"
  using basic_success [of "fe_now env w" "fe_views env w" "fe_durs env w" r spec]
    enhanced_success [of "fe_now env w" "fe_views env w" "fe_durs env w" r spec]
  by (simp add: run_postflight_def split_beta)

text \<open>
  C31. How the verification decides about an execution. In the default mode a success stands exactly when there is no
  error text, at least one file is listed, none of the listed files is missing and the proof of work has
  a file of at least 50 characters, or none that can be read but a directory; a build that fails and fake
  imports do not count. In strict mode no file needs to be listed and the proof is not looked at: a
  task that made nothing fails by default and succeeds in strict mode. Nothing else of the run changes.
\<close>

theorem verification_exact:
  "er_Success (run_postflight env f spec r w) \<longleftrightarrow>
     er_Success r \<and> er_Error r = []
     \<and> (if fc_postflightStrictMode f then missing_files (fe_views env w 6) r = []
        else er_FilesChanged r \<noteq> [] \<and> missing_files (fe_views env w 3) r = []
             \<and> qf_Passed (checkProofOfWork (fe_views env w 8) r))"
  by (rule success_verified)

end
