(* ===== verification/Factory_Guarantees.thy ===== *)
theory Factory_Guarantees
  imports Factory_Properties MLQ_Properties
begin

text \<open>
  Guarantees over whole executions of the factory with the bounded executor: which results come without an
  error, that every execution of every factory that can be built returns, and what happens when the
  generator of the LLM cannot be made.
\<close>

subsection \<open>What an execution keeps\<close>

definition executor_ok :: "TaskExecutor \<Rightarrow> bool" where
  "executor_ok te \<longleftrightarrow>
     (\<exists>config. te_mlq te = NewMLQ config \<and> upward_rules config
        \<and> (enabled_level (NewMLQ config) 0 = None \<or> selectWorker (te_workerPools te) 0 \<noteq> None))"

definition factory_ok :: "factory \<Rightarrow> bool" where
  "factory_ok f \<longleftrightarrow>
     registry_all (\<lambda>_. True) (fc_registry f) \<and> fc_registry f ''default'' \<noteq> None
     \<and> (case fc_taskExecutor f of None \<Rightarrow> True | Some te \<Rightarrow> executor_ok te)"

lemma ExecuteWithRetry_frame:
  assumes "executor_ok te" and "ExecuteWithRetry clk fn t c j te w = Some (te', rest)"
  shows "executor_ok te'"
proof -
  obtain config where m: "te_mlq te = NewMLQ config" "upward_rules config"
      "enabled_level (NewMLQ config) 0 = None \<or> selectWorker (te_workerPools te) 0 \<noteq> None"
    using assms(1) by (auto simp: executor_ok_def)
  have "te_mlq te' = te_mlq te \<and> same_pools (te_workerPools te') (te_workerPools te)"
  proof (cases "SelectLevel (te_mlq te) t j c")
    case (Inl e)
    then show ?thesis using assms(2) by (auto simp: ExecuteWithRetry_def)
  next
    case (Inr level)
    let ?s = "start_state (te_mlq te) (te_workerPools te) t c j w level"
    obtain s where s: "exec_loop (te_mlq te) c clk fn ?s = Some s" "te' = te\<lparr>te_workerPools := xs_pools s\<rparr>"
      using assms(2) Inr by (auto simp: ExecuteWithRetry_def split: option.splits)
    have ok: "mlq_ok (te_mlq te)" by (simp add: m(1) NewMLQ_ok)
    have "exec_final (te_mlq te) fn (te_workerPools te) w s"
      by (rule exec_loop_final [OF ok start_inv [OF ok Inr] s(1)])
    then show ?thesis by (simp add: s(2) exec_final_def)
  qed
  then show ?thesis using m same_pools_select by (metis executor_ok_def)
qed

lemma ExecuteWithRetry_total:
  assumes "executor_ok te"
  obtains r where "ExecuteWithRetry clk fn t c j te w = Some r"
proof -
  obtain config where m: "te_mlq te = NewMLQ config" "upward_rules config"
      "enabled_level (NewMLQ config) 0 = None \<or> selectWorker (te_workerPools te) 0 \<noteq> None"
    using assms by (auto simp: executor_ok_def)
  have "te = \<lparr>te_mlq = NewMLQ config, te_workerPools = te_workerPools te\<rparr>" using m(1) by simp
  then show thesis using execution_returns [OF m(2,3), of clk fn t c j w] that by (metis not_None_eq)
qed

text \<open>Running with the LLM: it returns, and changes only the worker pools of the factory.\<close>

lemma executeWithLLM_total:
  assumes "factory_ok f"
  obtains te w' r where "executeWithLLM env spec path f w = Some (f\<lparr>fc_taskExecutor := te\<rparr>, w', r)"
    and "factory_ok (f\<lparr>fc_taskExecutor := te\<rparr>)"
proof (cases "fc_generator f")
  case None
  have "f = f\<lparr>fc_taskExecutor := fc_taskExecutor f\<rparr>" by simp
  then show thesis using that [of "fc_taskExecutor f" w "Inl ''LLM generator not configured''"] None assms
    by (simp add: executeWithLLM_def)
next
  case (Some gen0)
  let ?cls = "if contains_str (fts_WorkType spec) ''implementation'' then ''implementation'' else fts_WorkType spec"
  show thesis
  proof (cases "fc_taskExecutor f")
    case None
    obtain w' r where "executeWithLLMSingle env gen0 None spec path ?cls w = (w', r)" by (rule prod.exhaust)
    moreover have "f\<lparr>fc_taskExecutor := None\<rparr> = f" using None by (cases f) simp
    ultimately have "executeWithLLM env spec path f w = Some (f\<lparr>fc_taskExecutor := None\<rparr>, w', r)"
      "factory_ok (f\<lparr>fc_taskExecutor := None\<rparr>)"
      using Some None assms by (simp_all add: executeWithLLM_def Let_def factory_ok_def)
    then show thesis by (rule that)
  next
    case te: (Some te)
    have ok: "executor_ok te" using assms te by (simp add: factory_ok_def)
    obtain te' w' fs e rest where r: "ExecuteWithRetry (fe_clock env w) (llm_attempt env gen0 (te_mlq te) spec path ?cls)
        (fts_ID spec) ?cls (fts_WorkItemID spec) te (w, [], None) = Some (te', (w', fs, e), rest)"
      using ExecuteWithRetry_total [OF ok] by (metis prod_cases3)
    have "executor_ok te'" by (rule ExecuteWithRetry_frame [OF ok r])
    then have "factory_ok (f\<lparr>fc_taskExecutor := Some te'\<rparr>)" using assms by (simp add: factory_ok_def)
    moreover have "executeWithLLM env spec path f w =
        Some (f\<lparr>fc_taskExecutor := Some te'\<rparr>, w', case e of Some e \<Rightarrow> Inl e | None \<Rightarrow> Inr fs)"
      by (cases rest) (simp add: executeWithLLM_def executeWithLLMRetry_def Some te r Let_def)
    ultimately show thesis by (rule that [rotated])
  qed
qed

subsection \<open>The plan\<close>

lemma apply_selection_frame:
  "fts_ID (record_selection sel spec) = fts_ID spec" "fts_ID (apply_selection sel spec) = fts_ID spec"
  "fts_SessionID (record_selection sel spec) = fts_SessionID spec" "fts_SessionID (apply_selection sel spec) = fts_SessionID spec"
  "fts_WorkItemID (record_selection sel spec) = fts_WorkItemID spec" "fts_WorkItemID (apply_selection sel spec) = fts_WorkItemID spec"
  "fts_WorkspacePath (record_selection sel spec) = fts_WorkspacePath spec"
  "fts_WorkspacePath (apply_selection sel spec) = fts_WorkspacePath spec"
  by (simp_all add: apply_selection_def record_selection_def Let_def)

lemma chooseTemplateAndConfig_frame:
  assumes "chooseTemplateAndConfig r reg rc spec = (spec', sel)"
  shows "fts_ID spec' = fts_ID spec \<and> fts_SessionID spec' = fts_SessionID spec \<and> fts_WorkItemID spec' = fts_WorkItemID spec
    \<and> fts_WorkspacePath spec' = fts_WorkspacePath spec"
proof -
  have "\<exists>sel. fst (chooseTemplateAndConfig r reg rc spec) \<in> {record_selection sel spec, apply_selection sel spec}"
    by (cases rc) (auto simp: chooseTemplateAndConfig_def Let_def split_beta)
  then show ?thesis using assms by (auto simp: apply_selection_frame)
qed

lemma createExecutionPlan_frame:
  assumes "createExecutionPlan r f spec = (spec', steps)"
  shows "fts_ID spec' = fts_ID spec \<and> fts_SessionID spec' = fts_SessionID spec \<and> fts_WorkItemID spec' = fts_WorkItemID spec
    \<and> fts_WorkspacePath spec' = fts_WorkspacePath spec"
proof (cases "shouldUseLLMTemplate f spec")
  case True
  then show ?thesis using assms by (auto simp: createExecutionPlan_def)
next
  case False
  obtain s2 sel where c: "chooseTemplateAndConfig r (fc_registry f) (fc_recommender f) spec = (s2, sel)" by (rule prod.exhaust)
  have "s2 = spec'" using assms False by (simp add: createExecutionPlan_def template_plan_def c)
  then show ?thesis using chooseTemplateAndConfig_frame [OF c] by simp
qed

lemma createExecutionPlan_total:
  assumes "factory_ok f"
  obtains spec' steps where "createExecutionPlan r f spec = (spec', Some steps)"
proof (cases "shouldUseLLMTemplate f spec")
  case True
  then show thesis using that by (simp add: createExecutionPlan_def)
next
  case False
  obtain s2 sel where c: "chooseTemplateAndConfig r (fc_registry f) (fc_recommender f) spec = (s2, sel)" by (rule prod.exhaust)
  have reg: "registry_all (\<lambda>_. True) (fc_registry f)" "fc_registry f ''default'' \<noteq> None"
    using assms by (simp_all add: factory_ok_def)
  obtain t where "GetTemplateOrNil r (fc_registry f) (sr_workType sel) (sr_workDomain sel) = Some t"
    by (rule GetTemplateOrNil_all [OF reg])
  then show thesis using that False by (simp add: createExecutionPlan_def template_plan_def c)
qed

subsection \<open>The execution\<close>

text \<open>A result of the executing branch that comes without an error.\<close>

definition clean_run :: "ExecutionResult \<Rightarrow> bool" where
  "clean_run r \<longleftrightarrow>
     er_Status r = ExecutionStatusCompleted \<and> er_Error r = [] \<and> er_FailedSteps r = []
     \<and> list_all done_step (er_ExecutionSteps r)"

lemma ExecutePlan_result:
  assumes "ExecutePlan sh steps ws w = (w', result, err)"
  shows "case err of None \<Rightarrow> \<exists>r. result = Some r \<and> clean_run r | Some _ \<Rightarrow> True"
proof (cases "steps = []")
  case True
  then show ?thesis using assms by (auto simp: ExecutePlan_def)
next
  case False
  let ?res = "empty_result\<lparr>er_TotalSteps := int (length steps), er_Status := ExecutionStatusRunning, er_WorkspacePath := ws\<rparr>"
  obtain w1 r e where loop: "plan_loop sh ws steps ?res w = (w1, r, e)" by (rule prod_cases3)
  have "counted ?res" "er_FailedSteps ?res = []" "\<not> er_Success ?res" "\<not> er_NeedsRetry ?res" "er_Error ?res = []"
    by (simp_all add: counted_def empty_result_def)
  from plan_loop_outcome [OF loop this] have "e = None \<Longrightarrow> clean_run r"
    by (auto simp: finished_ok_def counted_def clean_run_def)
  then show ?thesis using assms False loop by (auto simp: ExecutePlan_def split: option.split)
qed

lemma execute_steps_total:
  assumes "factory_ok f" and "fe_executor env = ExecutePlan sh"
  obtains te w' result err where
    "execute_steps env start spec path steps f w = Some (Returns (f\<lparr>fc_taskExecutor := te\<rparr>, w', result, err))"
    and "factory_ok (f\<lparr>fc_taskExecutor := te\<rparr>)"
    and "case err of None \<Rightarrow> \<exists>r. result = Some r \<and> clean_run r | Some _ \<Rightarrow> True"
proof (cases "length steps = 0 \<and> fc_llmEnabled f \<and> shouldUseLLMTemplate f spec")
  case True
  obtain te w' r where r: "executeWithLLM env spec path f w = Some (f\<lparr>fc_taskExecutor := te\<rparr>, w', r)"
      "factory_ok (f\<lparr>fc_taskExecutor := te\<rparr>)"
    by (rule executeWithLLM_total [OF assms(1)])
  have clean: "r = Inr files \<Longrightarrow> clean_run (llm_result (the (fc_generator f)) spec path start (fe_now env w') r)" for files
    by (simp add: llm_result_def clean_run_def empty_result_def Let_def)
  show thesis
    by (rule that [OF _ r(2)]) (use True r(1) clean in \<open>auto simp: execute_steps_def split: sum.splits\<close>)
next
  case False
  obtain w' result err where x: "ExecutePlan sh steps path w = (w', result, err)" by (rule prod_cases3)
  note out = ExecutePlan_result [OF x]
  have f: "f\<lparr>fc_taskExecutor := fc_taskExecutor f\<rparr> = f" by simp
  have x': "execute_steps env start spec path steps f w =
      (case ExecutePlan sh steps path w of
         (w', result, Some err) \<Rightarrow> Some (Returns (f, w', map_option (label_result spec path) result, Some err))
       | (w', None, None) \<Rightarrow> Some Panic
       | (w', Some result, None) \<Rightarrow> Some (Returns (f, w', Some result, None)))"
    unfolding execute_steps_def assms(2) by (rule if_not_P [OF False])
  have ok: "factory_ok (f\<lparr>fc_taskExecutor := fc_taskExecutor f\<rparr>)" using assms(1) by (simp only: f)
  show thesis
  proof (cases err)
    case None
    then obtain r where r: "result = Some r" "clean_run r" using out by auto
    show thesis
      by (rule that [of "fc_taskExecutor f" w' result None, OF _ ok]) (simp_all only: x' x f None r option.case prod.case, simp add: r)
  next
    case (Some e)
    show thesis
      by (rule that [of "fc_taskExecutor f" w' "map_option (label_result spec path) result" "Some e", OF _ ok])
        (simp_all only: x' x f Some option.case prod.case, simp split: option.split)
  qed
qed

lemma store_task_ok: "factory_ok (store_task spec f) \<longleftrightarrow> factory_ok f"
  by (simp add: factory_ok_def store_task_def)

lemma store_task_get: "map_of (fc_tasks (store_task spec f)) (fts_ID spec) = Some spec"
  by (simp add: store_task_def update_conv')

definition same_settings :: "factory \<Rightarrow> factory \<Rightarrow> bool" where
  "same_settings f f' \<longleftrightarrow>
     fc_preflightMode f' = fc_preflightMode f \<and> fc_postflightStrictMode f' = fc_postflightStrictMode f
     \<and> fc_registry f' = fc_registry f"

lemma same_settings_upd [simp]:
  "same_settings f f" "same_settings f (store_task spec f') \<longleftrightarrow> same_settings f f'"
  "same_settings f (f'\<lparr>fc_taskExecutor := te\<rparr>) \<longleftrightarrow> same_settings f f'"
  by (simp_all add: same_settings_def store_task_def)

text \<open>What a result of the factory without an error is like.\<close>

definition task_result_ok :: "bool \<Rightarrow> FactoryTaskSpec \<Rightarrow> string \<Rightarrow> ExecutionResult \<Rightarrow> bool" where
  "task_result_ok strict spec path r \<longleftrightarrow>
     er_TaskID r = fts_ID spec \<and> er_SessionID r = fts_SessionID spec \<and> er_WorkItemID r = fts_WorkItemID spec
     \<and> er_WorkspacePath r = path \<and> er_FailedSteps r = [] \<and> list_all done_step (er_ExecutionSteps r)
     \<and> (if er_Success r
        then er_Status r = ExecutionStatusCompleted \<and> er_Error r = [] \<and> (strict \<or> er_FilesChanged r \<noteq> [])
        else er_Status r = ExecutionStatusFailed \<and> er_VerificationFailed r \<and> er_Recommendation r = ''retry'')"

lemma run_postflight_frame:
  "same_run r (run_postflight env f spec r w)"
  "er_Success r \<Longrightarrow> er_Success (run_postflight env f spec r w) \<Longrightarrow>
     er_Status (run_postflight env f spec r w) = er_Status r \<and> er_Error (run_postflight env f spec r w) = er_Error r"
  "er_Success r \<Longrightarrow> \<not> er_Success (run_postflight env f spec r w) \<Longrightarrow>
     er_Status (run_postflight env f spec r w) = ExecutionStatusFailed
     \<and> er_VerificationFailed (run_postflight env f spec r w) \<and> er_Recommendation (run_postflight env f spec r w) = ''retry''"
proof -
  obtain r' report where v: "(if fc_postflightStrictMode f
        then RunEnhancedPostflightVerification True (fe_now env w) (fe_views env w) (fe_durs env w) r spec
        else RunPostflightVerification (fe_now env w) (fe_views env w) (fe_durs env w) r spec) = (r', report)"
    by (rule prod.exhaust)
  have post: "run_postflight env f spec r w = apply_report report r'" by (simp add: run_postflight_def v)
  have "same_run r r' \<and> er_Success r' = er_Success r \<and> er_Status r' = er_Status r \<and> er_Error r' = er_Error r"
  proof (cases "fc_postflightStrictMode f")
    case True
    then have "r' = fst (checkArtifactIntegrity (fe_views env w 5) r)"
      using v by (simp add: RunEnhancedPostflightVerification_def) (metis enhanced_checks_result fst_conv)
    then show ?thesis using integrity_result [of "fe_views env w 5" r] by (auto simp: same_run_def)
  next
    case False
    then have "r' = r \<or> (\<exists>cs. r' = downgrade cs r)"
      using v by (auto simp: RunPostflightVerification_def Let_def split: if_splits)
    then show ?thesis by (auto simp: downgrade_frame) (simp add: same_run_def)
  qed
  then show "same_run r (run_postflight env f spec r w)"
    "er_Success r \<Longrightarrow> er_Success (run_postflight env f spec r w) \<Longrightarrow>
       er_Status (run_postflight env f spec r w) = er_Status r \<and> er_Error (run_postflight env f spec r w) = er_Error r"
    "er_Success r \<Longrightarrow> \<not> er_Success (run_postflight env f spec r w) \<Longrightarrow>
       er_Status (run_postflight env f spec r w) = ExecutionStatusFailed
       \<and> er_VerificationFailed (run_postflight env f spec r w) \<and> er_Recommendation (run_postflight env f spec r w) = ''retry''"
    unfolding post by (auto simp: same_run_apply) (auto simp: apply_report_def split: if_splits)
qed

lemma complete_result_ok:
  assumes "complete_result env start spec path r0 w = (w', r, proved)" and "clean_run r0"
  shows "clean_run r \<and> er_Success r \<and> er_TaskID r = fts_ID spec \<and> er_SessionID r = fts_SessionID spec
    \<and> er_WorkItemID r = fts_WorkItemID spec \<and> er_WorkspacePath r = path"
  using assms
  by (auto simp: complete_result_def Let_def clean_run_def label_result_def split: option.splits prod.splits sum.splits)

lemma execute_locked_total:
  assumes "factory_ok f" and "fe_executor env = ExecutePlan sh"
  obtains f' w' result err where "execute_locked env start spec path f w = Some (Returns (f', w', result, err))"
    and "factory_ok f'" and "same_settings f f'"
    and "err = None \<Longrightarrow> \<exists>r spec'. result = Some r \<and> task_result_ok (fc_postflightStrictMode f) spec path r
           \<and> map_of (fc_tasks f') (fts_ID spec) = Some spec' \<and> fts_WorkspacePath spec' = fts_WorkspacePath spec"
proof -
  obtain spec' steps where plan: "createExecutionPlan (fe_order env) f spec = (spec', Some steps)"
    by (rule createExecutionPlan_total [OF assms(1)])
  note fr = createExecutionPlan_frame [OF plan]
  have "factory_ok (store_task spec' f)" using assms(1) by (simp add: store_task_ok)
  then obtain te w1 result err where ex: "execute_steps env start spec' path steps (store_task spec' f) w =
        Some (Returns ((store_task spec' f)\<lparr>fc_taskExecutor := te\<rparr>, w1, result, err))"
      "factory_ok ((store_task spec' f)\<lparr>fc_taskExecutor := te\<rparr>)"
      "case err of None \<Rightarrow> \<exists>r. result = Some r \<and> clean_run r | Some _ \<Rightarrow> True"
    by (rule execute_steps_total [OF _ assms(2)])
  let ?f = "(store_task spec' f)\<lparr>fc_taskExecutor := te\<rparr>"
  have strict: "fc_postflightStrictMode ?f = fc_postflightStrictMode f" by (simp add: store_task_def)
  have task: "map_of (fc_tasks ?f) (fts_ID spec) = Some spec'" using store_task_get [of spec' f] fr by simp
  show thesis
  proof (cases err)
    case (Some e)
    show thesis
      by (rule that [of ?f w1 result err]) (use plan ex Some in \<open>auto simp: execute_locked_def split: option.split\<close>)
  next
    case None
    then obtain r where r: "result = Some r" "clean_run r" using ex(3) by auto
    obtain w2 r1 proved where c: "complete_result env start spec' path r w1 = (w2, r1, proved)" by (rule prod_cases3)
    note r1 = complete_result_ok [OF c r(2)]
    let ?r2 = "run_postflight env ?f spec' r1 w2"
    let ?w3 = "fe_checked env w2"
    have "er_FilesChanged ?r2 \<noteq> []" if "er_Success ?r2" "\<not> fc_postflightStrictMode f"
    proof -
      have "er_FilesChanged r1 \<noteq> []"
        using success_verified [of env ?f spec' r1 w2] that strict by simp
      then show ?thesis using run_postflight_frame(1) [of r1 env ?f spec' w2] by (simp add: same_run_def)
    qed
    then have "task_result_ok (fc_postflightStrictMode f) spec path ?r2"
      using run_postflight_frame [of r1 env ?f spec' w2] r1 fr
      by (auto simp: task_result_ok_def same_run_def clean_run_def)
    moreover have "execute_locked env start spec path f w =
        Some (Returns (?f, if fc_proofVerificationMode ?f \<and> proved then fe_verified env ?w3 else ?w3, Some ?r2, None))"
      by (simp add: execute_locked_def plan ex(1) r(1) None c Let_def)
    ultimately show thesis
      using that [of ?f _ "Some ?r2" None] ex(2) task fr by auto
  qed
qed

definition outcome_ok :: "bool \<Rightarrow> FactoryTaskSpec option \<Rightarrow> factory \<Rightarrow> ExecutionResult option \<Rightarrow> go_error option \<Rightarrow> bool" where
  "outcome_ok strict task f' result err \<longleftrightarrow>
     factory_ok f' \<and>
     (err = None \<longrightarrow> (\<exists>spec r spec'. task = Some spec \<and> result = Some r
        \<and> map_of (fc_tasks f') (fts_ID spec) = Some spec' \<and> task_result_ok strict spec (fts_WorkspacePath spec') r))"

lemma ExecuteTask_total:
  assumes "factory_ok f" and "fe_executor env = ExecutePlan sh"
  obtains f' w' result err where "ExecuteTask env task f w = Some (Returns (f', w', result, err))"
    and "outcome_ok (fc_postflightStrictMode f) task f' result err"
proof (cases task)
  case None
  then show thesis using that assms(1) by (simp add: ExecuteTask_def outcome_ok_def)
next
  case (Some spec)
  let ?w1 = "fe_checked env w" and ?f1 = "store_task spec f"
  obtain w2 created where cr: "wo_Create (fe_ws env) (fts_ID spec) (fts_SessionID spec) ?w1 = (w2, created)"
    by (rule prod.exhaust)
  consider (refused) "fts_ID spec = []" | (blocked) e where "fts_ID spec \<noteq> []" "snd (run_preflight env f spec w) = Some e"
    | (unallocated) e where "fts_ID spec \<noteq> []" "snd (run_preflight env f spec w) = None" "created = Inl e"
    | (allocated) meta where "fts_ID spec \<noteq> []" "snd (run_preflight env f spec w) = None" "created = Inr meta"
    by (cases "snd (run_preflight env f spec w)"; cases created) auto
  then show thesis
  proof cases
    case refused
    then show thesis using that assms(1) Some by (simp add: ExecuteTask_def outcome_ok_def)
  next
    case blocked
    then show thesis using that assms(1) Some by (simp add: ExecuteTask_def Let_def outcome_ok_def)
  next
    case unallocated
    then show thesis using that assms(1) Some cr by (simp add: ExecuteTask_def Let_def store_task_ok outcome_ok_def)
  next
    case allocated
    let ?path = "wm_Path meta"
    let ?spec = "spec\<lparr>fts_WorkspacePath := ?path, fts_UpdatedAt := fe_now env w2\<rparr>"
    let ?f2 = "store_task ?spec ?f1"
    have ok: "factory_ok ?f2" using assms(1) by (simp add: store_task_ok)
    obtain w3 le where lock: "wo_Lock (fe_ws env) ?path w2 = (w3, le)" by (rule prod.exhaust)
    show thesis
    proof (cases le)
      case (Some e)
      let ?err = "EFactory (WithTaskID (fts_ID ?spec)
          (WorkspaceError ErrWorkspaceLock ''failed to lock workspace'' ?path (Some e)))"
      have "ExecuteTask env task f w = Some (Returns (?f2, w3,
          Some (createErrorResult (fe_now env w3) ?spec ?err ''failed to lock workspace''), Some ?err))"
        using allocated \<open>task = Some spec\<close> cr lock Some by (simp add: ExecuteTask_def Let_def)
      then show thesis by (rule that) (simp add: outcome_ok_def ok)
    next
      case None
      obtain f' w4 result err where x: "execute_locked env (fe_now env ?w1) ?spec ?path ?f2 w3 = Some (Returns (f', w4, result, err))"
        "factory_ok f'" "same_settings ?f2 f'"
        "err = None \<Longrightarrow> \<exists>r spec'. result = Some r \<and> task_result_ok (fc_postflightStrictMode ?f2) ?spec ?path r
           \<and> map_of (fc_tasks f') (fts_ID ?spec) = Some spec' \<and> fts_WorkspacePath spec' = fts_WorkspacePath ?spec"
        using execute_locked_total [OF ok assms(2), where start = "fe_now env ?w1" and spec = ?spec and path = ?path and w = w3]
        by blast
      have strict: "fc_postflightStrictMode ?f2 = fc_postflightStrictMode f" by (simp add: store_task_def)
      have res: "task_result_ok b ?spec ?path r \<longleftrightarrow> task_result_ok b spec ?path r" for b r
        by (simp add: task_result_ok_def)
      have ex: "ExecuteTask env task f w = Some (Returns (f', wo_Unlock (fe_ws env) ?path w4, result, err))"
        using allocated \<open>task = Some spec\<close> cr lock None x(1) by (simp add: ExecuteTask_def Let_def)
      show thesis
        by (rule that [OF ex]) (use x(2,4) strict res \<open>task = Some spec\<close> in \<open>auto simp: outcome_ok_def\<close>)
    qed
  qed
qed

text \<open>
  Every factory that can be built: a new one, changed by its setters, with the LLM and the queue of levels
  enabled, and after any executions, in any worlds. The rules of a loaded configuration lead upwards.
\<close>

inductive factory_built :: "'w factory_env \<Rightarrow> factory \<Rightarrow> bool" for env :: "'w factory_env" where
  new: "factory_built env NewFactory"
| preflight: "factory_built env f \<Longrightarrow> factory_built env (SetPreflightMode mode f)"
| postflight: "factory_built env f \<Longrightarrow> factory_built env (SetPostflightStrictMode strict f)"
| proof_mode: "factory_built env f \<Longrightarrow> factory_built env (SetProofVerificationMode enabled f)"
| recommender: "factory_built env f \<Longrightarrow> factory_built env (SetRecommender rc f)"
| llm: "factory_built env f \<Longrightarrow> factory_built env (SetLLMGenerator g f)"
| mlq: "factory_built env f \<Longrightarrow> upward_rules config \<Longrightarrow>
        factory_built env (f\<lparr>fc_taskExecutor := Some (EnableMLQ r config)\<rparr>)"
| execute: "factory_built env f \<Longrightarrow> ExecuteTask env task f w = Some (Returns (f', w', result, err)) \<Longrightarrow>
        factory_built env f'"

lemma registry_all_weaken: "registry_all P reg \<Longrightarrow> registry_all (\<lambda>_. True) reg"
  by (simp add: registry_all_def)

lemma factory_built_ok:
  assumes "factory_built env f" and "fe_executor env = ExecutePlan sh"
  shows "factory_ok f"
  using assms(1)
proof induction
  case new
  show ?case using builtin_registry registry_all_weaken by (auto simp: factory_ok_def NewFactory_def)
next
  case (llm f g)
  have reg: "registry_all (\<lambda>_. True) (fc_registry f)" "fc_registry f ''default'' \<noteq> None"
    using llm.IH by (simp_all add: factory_ok_def)
  have "registry_all (\<lambda>_. True) (fold registerTemplate ts (fc_registry f))"
    "fold registerTemplate ts (fc_registry f) ''default'' \<noteq> None" for ts
  proof -
    have ts: "list_all (\<lambda>_. True) ts" by (simp add: list_all_iff)
    show "registry_all (\<lambda>_. True) (fold registerTemplate ts (fc_registry f))"
      by (rule fold_registerTemplate(1) [OF ts reg(1)])
    show "fold registerTemplate ts (fc_registry f) ''default'' \<noteq> None"
      using fold_registerTemplate(2) [OF ts reg(1)] reg(2) by blast
  qed
  then have "registry_all (\<lambda>_. True) (RegisterLLMTemplates (fc_registry f))"
    "RegisterLLMTemplates (fc_registry f) ''default'' \<noteq> None"
    unfolding RegisterLLMTemplates_def by blast+
  then show ?case using llm.IH by (simp add: factory_ok_def SetLLMGenerator_def Let_def)
next
  case (mlq f config r)
  have "executor_ok (EnableMLQ r config)"
    unfolding executor_ok_def using mlq.hyps(2) EnableMLQ_workers [of config r]
    by (intro exI [of _ config]) (simp add: EnableMLQ_def Let_def)
  then show ?case using mlq.IH by (simp add: factory_ok_def)
next
  case (execute f task w f' w' result err)
  obtain f2 w2 r2 e2 where "ExecuteTask env task f w = Some (Returns (f2, w2, r2, e2))"
      "outcome_ok (fc_postflightStrictMode f) task f2 r2 e2"
    by (rule ExecuteTask_total [OF execute.IH assms(2)])
  then show ?case using execute.hyps(2) by (simp add: outcome_ok_def)
qed (simp_all add: factory_ok_def SetPreflightMode_def SetPostflightStrictMode_def SetProofVerificationMode_def SetRecommender_def)

text \<open>A world in which everything succeeds at once, and a factory with an LLM in it.\<close>

definition blank_view :: os_view where
  "blank_view =
     \<lparr>os_cmd = (\<lambda>dir argv. ([], None)), os_stat = (\<lambda>p. StatOk), os_read = (\<lambda>p. Inl ''no such file''), os_open = (\<lambda>p. True),
      os_lookpath = (\<lambda>p. True), os_glob = (\<lambda>p. []), os_statfs = (\<lambda>p. Inr (1000000, 4096)), os_linux = True,
      os_heapMB = 10, os_fmt2 = (\<lambda>x. ''1.00''), os_sha256hex = (\<lambda>s. ''00'')\<rparr>"

definition demo_meta :: WorkspaceMetadata where
  "demo_meta =
     \<lparr>wm_TaskID = ''t'', wm_SessionID = ''s'', wm_Path = ''/ws'', wm_Initialized = True, wm_Clean = True,
      wm_Locked = False, wm_Class = [], wm_TrustLevel = [], wm_Branch = ''main'', wm_BaseCommit = ''c0'',
      wm_DirtyFiles = [], wm_TmpfsMounted = False, wm_TmpfsSizeMB = 0, wm_CreatedAt = 1, wm_UpdatedAt = 1\<rparr>"

definition idle_env :: "int factory_env" where
  "idle_env =
     \<lparr>fe_ws = \<lparr>wo_Create = (\<lambda>t s w. (w, Inr demo_meta)), wo_Lock = (\<lambda>p w. (w, None)), wo_Unlock = (\<lambda>p w. w),
               wo_ListFiles = (\<lambda>p w. Some [''main.go'']), wo_Metadata = (\<lambda>p w. Some demo_meta),
               wo_Delete = (\<lambda>p w. (w, None))\<rparr>,
      fe_executor = ExecutePlan quiet_shell,
      fe_proof = (\<lambda>r spec w. (w, Inr \<lparr>pa_Directory = ''/proof'', pa_ArtifactPaths = [], pa_GitStatusPath = [],
                                      pa_GitDiffStatPath = []\<rparr>)),
      fe_llm = (\<lambda>g t spec p w. (w, Inr [''main.go''])), fe_now = (\<lambda>w. w), fe_views = (\<lambda>w i. blank_view),
      fe_durs = (\<lambda>w i. 0), fe_checked = (\<lambda>w. w + 1), fe_verified = (\<lambda>w. w), fe_order = (\<lambda>_. 0),
      fe_levels = (\<lambda>_. 0), fe_clock = (\<lambda>w i. w)\<rparr>"

definition demo_generator :: LLMGeneratorConfig where
  "demo_generator =
     \<lparr>lg_Provider = \<lparr>lp_Name = ''llama-cpp'', lp_BaseURL = ''http://localhost:1'', lp_Model = ''m'', lp_Timeout = 60\<rparr>,
      lg_Model = ''m'', lg_Temperature = Fin 1, lg_MaxTokens = 4096, lg_EnableThinking = False, lg_Timeout = 60\<rparr>"

definition feature_task :: FactoryTaskSpec where
  "feature_task = (titled_task ''T'' ''O'')\<lparr>fts_WorkType := ''feature''\<rparr>"



text \<open>
  C33. What a task that returns without an error has gone through: the result carries the labels of the task and the
  path recorded in the stored task, no step failed and every step that ran is completed with exit code
  0. It is a success that is completed, without an error text and, except in strict mode, with files; or
  the verification has turned it into a failure to retry.
\<close>

theorem task_result:
  assumes "factory_built env f" and "fe_executor env = ExecutePlan sh"
    and "ExecuteTask env (Some spec) f w = Some (Returns (f', w', result, None))"
  shows "\<exists>r spec'. result = Some r \<and> map_of (fc_tasks f') (fts_ID spec) = Some spec'
    \<and> task_result_ok (fc_postflightStrictMode f) spec (fts_WorkspacePath spec') r"
proof (rule ExecuteTask_total [OF factory_built_ok [OF assms(1,2)] assms(2)])
  fix f2 w2 result2 err
  assume "ExecuteTask env (Some spec) f w = Some (Returns (f2, w2, result2, err))"
    and "outcome_ok (fc_postflightStrictMode f) (Some spec) f2 result2 err"
  then show ?thesis using assms(3) by (auto simp: outcome_ok_def)
qed

lemma feature_uses_llm:
  "fc_llmEnabled f \<Longrightarrow> fc_generator f \<noteq> None \<Longrightarrow> fts_WorkType spec = ''feature'' \<Longrightarrow> shouldUseLLMTemplate f spec"
proof -
  have "trim_space ''feature'' = ''feature''" by (simp add: trim_space_def drop_runes.simps rune_at_def space_runes_def)
  then show "fc_llmEnabled f \<Longrightarrow> fc_generator f \<noteq> None \<Longrightarrow> fts_WorkType spec = ''feature'' \<Longrightarrow> shouldUseLLMTemplate f spec"
    by (simp add: shouldUseLLMTemplate_def lower_char_def llmWorkTypes_def)
qed

lemma store_task_sel [simp]:
  "fc_llmEnabled (store_task s f) = fc_llmEnabled f" "fc_generator (store_task s f) = fc_generator f"
  "fc_taskExecutor (store_task s f) = fc_taskExecutor f" "fc_proofVerificationMode (store_task s f) = fc_proofVerificationMode f"
  by (simp_all add: store_task_def)

lemma idle_run:
  assumes "fc_llmEnabled f" "fc_generator f = Some g" "fc_taskExecutor f = None" "fc_preflightMode f = PreflightModeStrict"
  shows "\<exists>f' w' r. ExecuteTask idle_env (Some feature_task) f 0 = Some (Returns (f', w', Some r, None))"
proof -
  obtain report err where r: "run_preflight idle_env f feature_task 0 = (report, err)" by (rule prod.exhaust)
  then have "err = None" using preflight_outcome [OF r] assms(4) by simp
  then have pre: "snd (run_preflight idle_env f feature_task 0) = None" by (simp add: r)
  have id: "fts_ID feature_task = ''t''" by (simp add: feature_task_def titled_task_def)
  have plan: "createExecutionPlan ord f' spec = (spec\<lparr>fts_SelectedTemplate := ''feature:llm'',
      fts_SelectionSource := ''llm_generator'', fts_SelectionConfidence := Fin 1\<rparr>, Some [])"
    if "fc_llmEnabled f'" "fc_generator f' \<noteq> None" "fts_WorkType spec = ''feature''" for ord f' spec
    using feature_uses_llm [OF that] that(3) by (simp add: createExecutionPlan_def)
  have wt: "fts_WorkType feature_task = ''feature''" by (simp add: feature_task_def)
  have locked: "\<exists>f2 w2 r. execute_locked idle_env start spec path f' w = Some (Returns (f2, w2, Some r, None))"
    if f': "fc_llmEnabled f'" "fc_generator f' = Some g" "fc_taskExecutor f' = None" "fts_WorkType spec = ''feature''"
    for start spec path f' w
  proof -
    let ?spec = "spec\<lparr>fts_SelectedTemplate := ''feature:llm'', fts_SelectionSource := ''llm_generator'',
        fts_SelectionConfidence := Fin 1\<rparr>"
    let ?f = "store_task ?spec f'"
    have use_llm: "shouldUseLLMTemplate ?f ?spec" by (rule feature_uses_llm) (simp_all add: f')
    have "executeWithLLM idle_env ?spec path ?f w = Some (?f, w, Inr [''main.go''])"
      by (simp add: executeWithLLM_def f' executeWithLLMSingle_def createGeneratorForLevel_def runLLMTemplate_def idle_env_def Let_def)
    then have "\<exists>r. execute_steps idle_env start ?spec path [] ?f w = Some (Returns (?f, w, Some r, None))"
      using use_llm f' by (simp add: execute_steps_def)
    then obtain r where r: "execute_steps idle_env start ?spec path [] ?f w = Some (Returns (?f, w, Some r, None))" by blast
    obtain w2 r1 proved where "complete_result idle_env start ?spec path r w = (w2, r1, proved)" by (rule prod_cases3)
    with r show ?thesis using plan [of f' spec "fe_order idle_env"] f' by (auto simp: execute_locked_def Let_def)
  qed
  have "wo_Create (fe_ws idle_env) t s w = (w, Inr demo_meta)" "wo_Lock (fe_ws idle_env) p w = (w, None)" for t s p w
    by (simp_all add: idle_env_def)
  then show ?thesis
    using pre id wt assms
      locked [where f' = "store_task (feature_task\<lparr>fts_WorkspacePath := wm_Path demo_meta, fts_UpdatedAt := fe_now idle_env (fe_checked idle_env 0)\<rparr>)
          (store_task feature_task f)"
        and spec = "feature_task\<lparr>fts_WorkspacePath := wm_Path demo_meta, fts_UpdatedAt := fe_now idle_env (fe_checked idle_env 0)\<rparr>"
        and start = "fe_now idle_env (fe_checked idle_env 0)" and path = "wm_Path demo_meta" and w = "fe_checked idle_env 0"]
    by (auto simp: ExecuteTask_def Let_def)
qed

theorem task_result_witness:
  "\<exists>f' w' r spec'. ExecuteTask idle_env (Some feature_task) (SetLLMGenerator (Some demo_generator) NewFactory) 0
       = Some (Returns (f', w', Some r, None))
    \<and> map_of (fc_tasks f') (fts_ID feature_task) = Some spec' \<and> task_result_ok False feature_task (fts_WorkspacePath spec') r"
proof -
  let ?f = "SetLLMGenerator (Some demo_generator) NewFactory"
  have built: "factory_built idle_env ?f" by (intro factory_built.llm factory_built.new)
  have exec: "fe_executor idle_env = ExecutePlan quiet_shell" by (simp add: idle_env_def)
  have strict: "fc_postflightStrictMode ?f = False" by (simp add: SetLLMGenerator_def NewFactory_def)
  have "\<exists>f' w' r. ExecuteTask idle_env (Some feature_task) ?f 0 = Some (Returns (f', w', Some r, None))"
    by (rule idle_run) (simp_all add: SetLLMGenerator_def NewFactory_def Let_def)
  then obtain f' w' r0 where run: "ExecuteTask idle_env (Some feature_task) ?f 0 = Some (Returns (f', w', Some r0, None))"
    by blast
  from task_result [OF built exec run] obtain r spec' where "Some r0 = Some r"
      "map_of (fc_tasks f') (fts_ID feature_task) = Some spec'" "task_result_ok (fc_postflightStrictMode ?f) feature_task (fts_WorkspacePath spec') r"
    by (elim exE conjE) (rule that)
  then show ?thesis using run unfolding strict by auto
qed

end
