(* ===== verification/Workspace.thy ===== *)
theory Workspace
  imports OS_View
begin

text \<open>
  Workspaces of the factory: the checks of paths (\<open>internal/factory/workspace_safety.go\<close>) and the operations
  of the manager of isolated directories (\<open>WorkspaceManagerImpl\<close> of \<open>internal/factory/workspace.go\<close>), except
  for its locks, which are in \<open>Workspace_Locks\<close>.

  A \<open>ws_view\<close> is what one call reads: the current directory, \<open>os.Stat\<close>, \<open>filepath.EvalSymlinks\<close>, the format
  of a time, and which changes of the file system succeed. The changes a call attempts are the list of its
  effects.
\<close>

subsection \<open>Safety of paths\<close>

datatype fs_effect = MkdirAll string | WriteFile string string | RemoveFile string | RemoveAll string

record ws_view =
  wv_cwd :: "string option"
  wv_stat :: "string \<Rightarrow> stat_result"
  wv_resolve :: "string \<Rightarrow> string option"
  wv_rfc3339 :: "time \<Rightarrow> string"
  wv_ok :: "fs_effect \<Rightarrow> bool"

datatype safety_error =
    NoAbsolutePath | NoAbsoluteRoot | OutsideRoot | ParentTraversal | SymlinksUnresolved | ResolvedOutside
  | ResolvedTraversal | RootItself | NotDirectSubdirectory | InvalidWorkspacePath
  | SessionMismatch string string | TaskMismatch string string

text \<open>\<open>filepath.Abs\<close>, which asks for the current directory when the path is relative.\<close>

definition absolute :: "string option \<Rightarrow> string \<Rightarrow> string option" where
  "absolute cwd p = (if IsAbs p then Some (Clean p) else map_option (\<lambda>d. path_join [d, p]) cwd)"

definition resolved_checks :: "string \<Rightarrow> string \<Rightarrow> string option \<Rightarrow> safety_error option" where
  "resolved_checks absRoot absPath resolved =
     (case resolved of
        None \<Rightarrow> Some SymlinksUnresolved
      | Some resolvedPath \<Rightarrow>
          (case Rel absRoot resolvedPath of
             None \<Rightarrow> Some ResolvedOutside
           | Some resolvedRel \<Rightarrow>
               if has_prefix resolvedRel ''..'' then Some ResolvedTraversal
               else if resolvedPath = absRoot then Some RootItself
               else if Dir resolvedPath = absRoot \<and> Base resolvedPath \<noteq> Base absPath
               then Some NotDirectSubdirectory else None))"

definition validatePathCanonical :: "ws_view \<Rightarrow> string \<Rightarrow> string \<Rightarrow> safety_error option" where
  "validatePathCanonical v path rootDir =
     (case absolute (wv_cwd v) (Clean path) of
        None \<Rightarrow> Some NoAbsolutePath
      | Some absPath \<Rightarrow>
          (case absolute (wv_cwd v) (Clean rootDir) of
             None \<Rightarrow> Some NoAbsoluteRoot
           | Some absRoot \<Rightarrow>
               (case Rel absRoot absPath of
                  None \<Rightarrow> Some OutsideRoot
                | Some relPath \<Rightarrow>
                    if has_prefix relPath ''..'' then Some ParentTraversal
                    else if wv_stat v absPath = StatOk
                    then resolved_checks absRoot absPath (wv_resolve v absPath)
                    else if absPath = absRoot then Some RootItself else None)))"

definition validateWorkspaceOwnership :: "ws_view \<Rightarrow> string \<Rightarrow> string \<Rightarrow> string \<Rightarrow> safety_error option" where
  "validateWorkspaceOwnership v path expectedTaskID expectedSessionID =
     (case absolute (wv_cwd v) (Clean path) of
        None \<Rightarrow> Some NoAbsolutePath
      | Some absPath \<Rightarrow>
          let base = Base absPath;
              sessionDir = Base (Dir absPath)
          in if base = [] \<or> base = ''.'' \<or> base = ''/'' then Some InvalidWorkspacePath
             else if sessionDir \<noteq> expectedSessionID then Some (SessionMismatch sessionDir expectedSessionID)
             else if base \<noteq> expectedTaskID then Some (TaskMismatch base expectedTaskID) else None)"

definition isPathWithinRoot :: "string \<Rightarrow> string \<Rightarrow> bool option" where
  "isPathWithinRoot path rootDir = map_option (\<lambda>relPath. \<not> has_prefix relPath ''..'') (Rel rootDir path)"

subsection \<open>Creation and deletion\<close>

datatype ws_error =
    EmptyTaskID | EmptySessionID | Unsafe safety_error | NotOwned safety_error | EffectFailed fs_effect
  | OutsideWorkspaces | WorkspacesRoot

definition staleLockThreshold :: duration where
  "staleLockThreshold = 1 * hour"

definition staleWorkspaceThreshold :: duration where
  "staleWorkspaceThreshold = 24 * hour"

definition new_metadata :: "string \<Rightarrow> string \<Rightarrow> string \<Rightarrow> time \<Rightarrow> time \<Rightarrow> WorkspaceMetadata" where
  "new_metadata taskID sessionID path created updated =
     \<lparr>wm_TaskID = taskID, wm_SessionID = sessionID, wm_Path = path, wm_Initialized = True, wm_Clean = True,
      wm_Locked = False, wm_Class = '''', wm_TrustLevel = '''', wm_Branch = '''', wm_BaseCommit = '''',
      wm_DirtyFiles = [], wm_TmpfsMounted = False, wm_TmpfsSizeMB = 0, wm_CreatedAt = created,
      wm_UpdatedAt = updated\<rparr>"

definition marker_text :: "ws_view \<Rightarrow> time \<Rightarrow> string \<Rightarrow> string \<Rightarrow> string" where
  "marker_text v now taskID sessionID =
     ''task_id='' @ taskID @ [newline] @ ''session_id='' @ sessionID @ [newline]
     @ ''created_at='' @ wv_rfc3339 v now @ [newline]"

text \<open>Attempts an effect and goes on when it succeeds.\<close>

definition attempt ::
    "ws_view \<Rightarrow> fs_effect \<Rightarrow> fs_effect list \<times> (ws_error + 'a) \<Rightarrow> fs_effect list \<times> (ws_error + 'a)" where
  "attempt v e k =
     (if wv_ok v e then (case k of (es, r) \<Rightarrow> (e # es, r)) else ([e], Inl (EffectFailed e)))"

definition CreateWorkspace ::
    "ws_view \<Rightarrow> clock \<Rightarrow> string \<Rightarrow> string \<Rightarrow> string \<Rightarrow> fs_effect list \<times> (ws_error + WorkspaceMetadata)" where
  "CreateWorkspace v clk workspacesDir taskID sessionID =
     (if taskID = [] then ([], Inl EmptyTaskID)
      else if sessionID = [] then ([], Inl EmptySessionID)
      else
        let workspacePath = path_join [workspacesDir, sessionID, taskID]
        in case validatePathCanonical v workspacePath workspacesDir of
             Some e \<Rightarrow> ([], Inl (Unsafe e))
           | None \<Rightarrow>
               attempt v (MkdirAll workspacesDir) (attempt v (MkdirAll workspacePath)
                 (case validateWorkspaceOwnership v workspacePath taskID sessionID of
                    Some e \<Rightarrow> ([], Inl (NotOwned e))
                  | None \<Rightarrow>
                      attempt v (WriteFile (path_join [workspacePath, ''.zen-workspace''])
                                   (marker_text v (clk 0) taskID sessionID))
                        ([], Inr (new_metadata taskID sessionID workspacePath (clk 1) (clk 2))))))"

definition ValidateWorkspace :: "ws_view \<Rightarrow> string \<Rightarrow> bool" where
  "ValidateWorkspace v path \<longleftrightarrow> wv_stat v path \<noteq> StatNotExist"

definition DeleteWorkspace :: "ws_view \<Rightarrow> string \<Rightarrow> string \<Rightarrow> fs_effect list \<times> (ws_error + unit)" where
  "DeleteWorkspace v workspacesDir path =
     (case validatePathCanonical v path workspacesDir of
        Some e \<Rightarrow> ([], Inl (Unsafe e))
      | None \<Rightarrow>
          (case (absolute (wv_cwd v) (Clean path), absolute (wv_cwd v) (Clean workspacesDir)) of
             (Some absPath, Some absWorkspacesDir) \<Rightarrow>
               (case isPathWithinRoot absPath absWorkspacesDir of
                  None \<Rightarrow> ([], Inl (Unsafe OutsideRoot))
                | Some withinRoot \<Rightarrow>
                    if \<not> withinRoot then ([], Inl OutsideWorkspaces)
                    else if absPath = absWorkspacesDir then ([], Inl WorkspacesRoot)
                    else attempt v (RemoveAll path) ([], Inr ()))
           | (None, _) \<Rightarrow> ([], Inl (Unsafe NoAbsolutePath))
           | (_, None) \<Rightarrow> ([], Inl (Unsafe NoAbsoluteRoot))))"

subsection \<open>Cleanup\<close>

text \<open>
  What the walk over the workspaces directory meets: a path, whether it is a directory, its time of
  change and that of the lock file in it, as far as they can be read, and the view of a deletion that
  happens now. What is inside a directory deleted on the way is not met.
\<close>

record walk_entry =
  we_path :: string
  we_dir :: bool
  we_modified :: "time option"
  we_lock :: "time option"
  we_view :: ws_view
  we_now :: time

definition cleanup_entry :: "string \<Rightarrow> walk_entry \<Rightarrow> fs_effect list \<times> nat \<Rightarrow> fs_effect list \<times> nat" where
  "cleanup_entry workspacesDir entry acc =
     (case acc of (effects, cleaned) \<Rightarrow>
        let path = we_path entry;
            lockPath = path_join [path, ''.zen-lock''];
            delete_now = (\<lambda>before. case DeleteWorkspace (we_view entry) workspacesDir path of
                                      (es, Inl _) \<Rightarrow> (effects @ before @ es, cleaned)
                                    | (es, Inr _) \<Rightarrow> (effects @ before @ es, Suc cleaned))
        in if \<not> we_dir entry then acc
           else case Rel workspacesDir path of
                  None \<Rightarrow> acc
                | Some relPath \<Rightarrow>
                    if length (split_at slash relPath) \<noteq> 2 then acc
                    else (case we_modified entry of
                            None \<Rightarrow> acc
                          | Some modified \<Rightarrow>
                              if time_sub (we_now entry) modified \<le> staleWorkspaceThreshold then acc
                              else (case we_lock entry of
                                      None \<Rightarrow> delete_now []
                                    | Some locked \<Rightarrow>
                                        if time_sub (we_now entry) locked > staleLockThreshold
                                        then delete_now [RemoveFile lockPath] else acc)))"

definition CleanupStaleWorkspaces :: "string \<Rightarrow> walk_entry list \<Rightarrow> fs_effect list \<times> nat" where
  "CleanupStaleWorkspaces workspacesDir entries = fold (cleanup_entry workspacesDir) entries ([], 0)"

subsection \<open>Files and metadata\<close>

text \<open>A directory as \<open>filepath.WalkDir\<close> meets it, an unreadable one without entries.\<close>

datatype fs_node = FileNode | DirNode "(string \<times> fs_node) list"

definition hidden :: "string \<Rightarrow> bool" where
  "hidden base \<longleftrightarrow> has_prefix base ''.'' \<or> has_prefix base ''.zen-''"

fun walk_files :: "string \<Rightarrow> fs_node \<Rightarrow> string list" where
  "walk_files p FileNode = [p]"
| "walk_files p (DirNode es) = concat (map (\<lambda>(name, n). walk_files (path_join [p, name]) n) es)"

definition scanWorkspaceFiles :: "string \<Rightarrow> fs_node option \<Rightarrow> string list" where
  "scanWorkspaceFiles path tree =
     (case tree of
        None \<Rightarrow> []
      | Some n \<Rightarrow>
          sort (List.map_filter (\<lambda>f. if hidden (Base f) then None else Rel path f) (walk_files path n)))"

definition getGitInfo :: "(string list \<Rightarrow> string option) \<Rightarrow> string \<Rightarrow> string \<times> string" where
  "getGitInfo git path =
     (if path = [] then ([], [])
      else case git [''-C'', path, ''rev-parse'', ''--is-inside-work-tree''] of
             None \<Rightarrow> ([], [])
           | Some checkOut \<Rightarrow>
               if trim_space checkOut \<noteq> ''true'' then ([], [])
               else case git [''-C'', path, ''rev-parse'', ''--abbrev-ref'', ''HEAD''] of
                      None \<Rightarrow> ([], [])
                    | Some branchOut \<Rightarrow>
                        (trim_space branchOut,
                         case git [''-C'', path, ''rev-parse'', ''HEAD''] of
                           None \<Rightarrow> [] | Some commitOut \<Rightarrow> trim_space commitOut))"

definition blank_metadata :: "string \<Rightarrow> clock \<Rightarrow> WorkspaceMetadata" where
  "blank_metadata path clk =
     (new_metadata '''' '''' path (clk 0) (clk 1))\<lparr>wm_Initialized := False, wm_Clean := False\<rparr>"

definition GetWorkspaceMetadata ::
    "ws_view \<Rightarrow> clock \<Rightarrow> fs_node option \<Rightarrow> (string list \<Rightarrow> string option) \<Rightarrow> string \<Rightarrow> WorkspaceMetadata" where
  "GetWorkspaceMetadata v clk tree git path =
     (if wv_stat v path = StatNotExist then (blank_metadata path clk)\<lparr>wm_Clean := True\<rparr>
      else let files = scanWorkspaceFiles path tree
           in (blank_metadata path clk)
                \<lparr>wm_Initialized := True, wm_Locked := (wv_stat v (path_join [path, ''.zen-lock'']) = StatOk),
                 wm_DirtyFiles := files, wm_Clean := (files = []),
                 wm_Branch := fst (getGitInfo git path), wm_BaseCommit := snd (getGitInfo git path)\<rparr>)"

end
