(* ===== verification/Workspace_Properties.thy ===== *)
theory Workspace_Properties
  imports Workspace
begin

text \<open>
  What the workspace manager may touch: workspaces lie below the root and apart from each other, and
  nothing outside the root is deleted.
\<close>

named_theorems path_checks \<open>the checks of paths, unfolded\<close>

declare validatePathCanonical_def [path_checks] resolved_checks_def [path_checks] absolute_def [path_checks]

subsection \<open>Absolute paths\<close>

definition view_ok :: "ws_view \<Rightarrow> bool" where
  "view_ok v \<longleftrightarrow> (\<forall>d. wv_cwd v = Some d \<longrightarrow> IsAbs d)
                \<and> (\<forall>p q. wv_resolve v p = Some q \<longrightarrow> IsAbs p \<longrightarrow> IsAbs q \<and> Clean q = q)"

lemma absolute_rooted: "IsAbs p \<Longrightarrow> absolute cwd p = Some (Clean p)"
  by (simp add: absolute_def)

lemma join_at_rooted: "IsAbs d \<Longrightarrow> IsAbs (join_at slash (d # ps))"
  by (cases ps) (auto simp: IsAbs_def has_prefix_mono)

lemma path_join_rooted: "IsAbs d \<Longrightarrow> IsAbs (path_join (d # ps))"
  using join_at_rooted [of d ps] by (cases d) (auto simp: path_join_def IsAbs_Clean IsAbs_def [of "[]"])

lemma path_join_clean: "IsAbs d \<Longrightarrow> Clean (path_join (d # ps)) = path_join (d # ps)"
  using join_at_rooted [of d ps] by (cases d) (auto simp: path_join_def Clean_idem IsAbs_def [of "[]"])

lemma absolute_ok:
  assumes "view_ok v" "absolute (wv_cwd v) p = Some q"
  shows "IsAbs q \<and> Clean q = q"
  using assms unfolding view_ok_def absolute_def
  by (auto split: if_splits simp: IsAbs_Clean Clean_idem path_join_rooted path_join_clean)

lemma Clean_eq_components:
  "IsAbs p \<Longrightarrow> IsAbs q \<Longrightarrow> Clean p = p \<Longrightarrow> Clean q = q \<Longrightarrow> p = q \<longleftrightarrow> components p = components q"
  by (metis Clean_rooted)

subsection \<open>What a validated path is\<close>

text \<open>
  \<open>inside r p\<close>: the path lies below the root \<open>r\<close>. A validated path does, and when it exists so does what
  its symbolic links resolve to.
\<close>

definition inside :: "string \<Rightarrow> string \<Rightarrow> bool" where
  "inside r p \<longleftrightarrow> (\<exists>ts. ts \<noteq> [] \<and> components p = components r @ ts)"

lemma Rel_not_parent:
  assumes "IsAbs r" "IsAbs p" "Rel r p = Some rel" "\<not> has_prefix rel ''..''"
  shows "\<exists>ts. components p = components r @ ts \<and> (ts = [] \<or> \<not> has_prefix (hd ts) ''..'')"
  using Rel_inside [OF assms(1,2)] assms(3,4) by auto

lemma validated_inside:
  assumes "view_ok v" "IsAbs r" "validatePathCanonical v path r = None"
  shows "\<exists>p. absolute (wv_cwd v) (Clean path) = Some p \<and> (inside r p \<or> p = Clean r) \<and>
           (wv_stat v p = StatOk \<longrightarrow> (\<exists>q. wv_resolve v p = Some q \<and> inside r q))"
proof -
  from assms(3) obtain p where p: "absolute (wv_cwd v) (Clean path) = Some p"
    by (auto simp: validatePathCanonical_def split: option.splits)
  have ap: "IsAbs p" "Clean p = p" using absolute_ok [OF assms(1) p] by auto
  define a where "a = Clean r"
  have a: "IsAbs a" "Clean a = a" "components a = components r"
    using assms(2) by (simp_all add: a_def IsAbs_Clean Clean_idem components_Clean)
  have "absolute (wv_cwd v) (Clean r) = Some a"
    using assms(2) by (simp add: absolute_rooted IsAbs_Clean a_def Clean_idem)
  then have v: "validatePathCanonical v path r =
      (case Rel a p of None \<Rightarrow> Some OutsideRoot
       | Some relPath \<Rightarrow> if has_prefix relPath ''..'' then Some ParentTraversal
           else if wv_stat v p = StatOk then resolved_checks a p (wv_resolve v p)
           else if p = a then Some RootItself else None)"
    using p by (simp add: validatePathCanonical_def)
  from assms(3) v obtain rel where rel: "Rel a p = Some rel" "\<not> has_prefix rel ''..''"
    by (auto split: option.splits if_splits)
  then obtain ts where ts: "components p = components r @ ts"
    using Rel_not_parent [OF a(1) ap(1)] a(3) by auto
  show ?thesis
  proof (cases "wv_stat v p = StatOk")
    case True
    then have "resolved_checks a p (wv_resolve v p) = None" using assms(3) v rel by simp
    then obtain q rq where q: "wv_resolve v p = Some q" "Rel a q = Some rq" "\<not> has_prefix rq ''..''" "q \<noteq> a"
      by (auto simp: resolved_checks_def split: option.splits if_splits)
    have aq: "IsAbs q" "Clean q = q" using assms(1) q(1) ap(1) unfolding view_ok_def by blast+
    obtain us where us: "components q = components r @ us"
      using Rel_not_parent [OF a(1) aq(1) q(2,3)] a(3) by auto
    have "us \<noteq> []" using us q(4) Clean_eq_components [OF aq(1) a(1) aq(2) a(2)] a(3) by auto
    then have "inside r q" using us by (auto simp: inside_def)
    moreover have "inside r p \<or> p = Clean r"
      using ts Clean_eq_components [OF ap(1) a(1) ap(2) a(2)] a(3) by (auto simp: inside_def a_def)
    ultimately show ?thesis using p q(1) by auto
  next
    case False
    then have "p \<noteq> a" using assms(3) v rel by auto
    then have "inside r p"
      using ts Clean_eq_components [OF ap(1) a(1) ap(2) a(2)] a(3) by (auto simp: inside_def)
    then show ?thesis using p False by auto
  qed
qed

lemma DeleteWorkspace_effects:
  assumes "e \<in> set (fst (DeleteWorkspace v r path))"
  shows "e = RemoveAll path \<and> validatePathCanonical v path r = None
         \<and> absolute (wv_cwd v) (Clean path) \<noteq> absolute (wv_cwd v) (Clean r)"
  using assms unfolding DeleteWorkspace_def attempt_def
  by (auto split: option.splits if_splits prod.splits)

lemma deletion_within:
  assumes "view_ok v" "IsAbs r" "e \<in> set (fst (DeleteWorkspace v r path))"
  shows "e = RemoveAll path \<and>
         (\<exists>p. absolute (wv_cwd v) (Clean path) = Some p \<and> inside r p \<and>
              (wv_stat v p = StatOk \<longrightarrow> (\<exists>q. wv_resolve v p = Some q \<and> inside r q)))"
proof -
  note eff = DeleteWorkspace_effects [OF assms(3)]
  then obtain p where p: "absolute (wv_cwd v) (Clean path) = Some p" "inside r p \<or> p = Clean r"
      "wv_stat v p = StatOk \<longrightarrow> (\<exists>q. wv_resolve v p = Some q \<and> inside r q)"
    using validated_inside [OF assms(1,2)] by blast
  have "absolute (wv_cwd v) (Clean r) = Some (Clean r)"
    using assms(2) by (simp add: absolute_rooted IsAbs_Clean Clean_idem)
  then have "p \<noteq> Clean r" using eff p(1) by auto
  then show ?thesis using eff p by auto
qed

subsection \<open>Creation\<close>

lemma rooted_path_cases:
  assumes "IsAbs p" "Clean p = p"
  obtains "components p = []" "Base p = ''/''"
  | cs c where "components p = cs @ [c]" "list_all proper cs" "proper c" "Base p = c" "Dir p = path_of True cs"
proof (cases "components p" rule: rev_cases)
  case Nil
  then have "p = path_of True []" using assms by (metis Clean_rooted)
  then show ?thesis using that(1) Nil Base_root by simp
next
  case (snoc cs c)
  then have p: "p = path_of True (cs @ [c])" using assms by (metis Clean_rooted)
  have "list_all proper cs" "proper c" using components_proper [OF assms(1)] by (simp_all add: snoc)
  then show ?thesis using that(2) [of cs c] snoc p by (simp add: Base_snoc Dir_snoc)
qed

lemma components_path_join3:
  assumes "IsAbs r"
  shows "components (path_join [r, s, t]) =
           fold (push_component True) (split_at slash s @ split_at slash t) (components r)"
proof -
  have "r \<noteq> []" using assms by (auto simp: IsAbs_def)
  moreover have "IsAbs (join_at slash [r, s, t])" using join_at_rooted [OF assms] .
  ultimately have "components (path_join [r, s, t]) = components (join_at slash [r, s, t])"
    by (simp add: path_join_def components_Clean del: join_at.simps)
  also have "\<dots> = fold (push_component True) (split_at slash s @ split_at slash t) (components r)"
    using \<open>r \<noteq> []\<close> assms by (subst components_join3) (simp_all add: components_def)
  finally show ?thesis .
qed

lemma owned_parts:
  assumes "IsAbs r" "components r \<noteq> []"
    and "validateWorkspaceOwnership v (path_join [r, session, task]) task session = None"
  shows "proper session \<and> proper task"
proof -
  define p where "p = path_join [r, session, task]"
  have p: "IsAbs p" "Clean p = p" using assms(1) by (simp_all add: p_def path_join_rooted path_join_clean)
  then have own: "Base p \<noteq> ''/''" "Base p = task" "Base (Dir p) = session"
    using assms(3) p_def [symmetric]
    by (auto simp: validateWorkspaceOwnership_def absolute_rooted Let_def split: if_splits)
  then obtain cs where cs: "components p = cs @ [task]" "list_all proper cs" "proper task" "Dir p = path_of True cs"
    using rooted_path_cases [OF p] by metis
  show ?thesis
  proof (cases cs rule: rev_cases)
    case Nil
    then have "session = ''/''" using own(3) cs(4) Base_root by simp
    moreover have "components p = fold (push_component True) (split_at slash session @ [task]) (components r)"
      using components_path_join3 [OF assms(1)] cs(3) by (simp add: p_def split_at_single proper_def)
    ultimately have "components p = components r @ [task]"
      using cs(3) by (simp add: push_component_def proper_def)
    then show ?thesis using Nil cs(1) assms(2) by simp
  next
    case (snoc ds d)
    then have "proper d" "session = d" using own(3) cs by (simp_all add: Base_snoc)
    then show ?thesis using cs(3) by simp
  qed
qed

lemma attempt_Inr:
  "snd (attempt v e k) = Inr m \<longleftrightarrow> wv_ok v e \<and> snd k = Inr m"
  by (simp add: attempt_def split: prod.split)

lemma attempt_fst:
  "wv_ok v e \<Longrightarrow> fst (attempt v e k) = e # fst k"
  by (simp add: attempt_def split: prod.split)

lemma created_workspace:
  assumes "IsAbs r" "components r \<noteq> []" "snd (CreateWorkspace v clk r task session) = Inr m"
  shows "proper session \<and> proper task \<and> m = new_metadata task session
           (path_of True (components r @ [session, task])) (clk 1) (clk 2)"
proof -
  let ?p = "path_join [r, session, task]"
  from assms(3) have ne: "task \<noteq> []" "session \<noteq> []" "validatePathCanonical v ?p r = None"
    by (auto simp: CreateWorkspace_def Let_def split: if_splits option.splits)
  with assms(3) have own: "validateWorkspaceOwnership v ?p task session = None"
    and m: "m = new_metadata task session ?p (clk 1) (clk 2)"
    by (auto simp: CreateWorkspace_def Let_def attempt_Inr split: option.splits)
  have "proper session" "proper task" using owned_parts [OF assms(1,2) own] by auto
  then show ?thesis using m path_join3 [OF assms(1)] by simp
qed

lemma owned_path:
  assumes "IsAbs r" "proper session" "proper task"
  shows "validateWorkspaceOwnership v (path_join [r, session, task]) task session = None"
proof -
  have p: "path_join [r, session, task] = path_of True ((components r @ [session]) @ [task])"
    using assms by (simp add: path_join3)
  have pr: "list_all proper (components r @ [session])" "list_all proper (components r)"
    using assms components_proper by auto
  have "absolute (wv_cwd v) (Clean (path_join [r, session, task]))
      = Some (path_of True ((components r @ [session]) @ [task]))"
    using assms pr p by (simp add: absolute_rooted)
  moreover have "Base (path_of True ((components r @ [session]) @ [task])) = task"
    using assms(3) by (rule Base_snoc)
  moreover have "Dir (path_of True ((components r @ [session]) @ [task])) = path_of True (components r @ [session])"
    using pr(1) assms(3) by (rule Dir_snoc)
  moreover have "Base (path_of True (components r @ [session])) = session"
    using assms(2) by (rule Base_snoc)
  ultimately show ?thesis using assms(2,3) by (auto simp: validateWorkspaceOwnership_def proper_def)
qed

lemma fresh_path_valid:
  assumes "IsAbs r" "proper session" "proper task"
    and "wv_stat v (path_of True (components r @ [session, task])) \<noteq> StatOk"
  shows "validatePathCanonical v (path_join [r, session, task]) r = None \<longleftrightarrow> \<not> has_prefix session ''..''"
proof -
  let ?p = "path_of True (components r @ [session, task])"
  have pj: "path_join [r, session, task] = ?p" using assms by (simp add: path_join3)
  have pr: "list_all proper (components r @ [session, task])"
    using assms components_proper by auto
  have abs: "absolute (wv_cwd v) (Clean ?p) = Some ?p" "absolute (wv_cwd v) (Clean r) = Some (Clean r)"
    using assms(1) path_join_clean [OF assms(1), of "[session, task]"]
    by (simp_all add: absolute_rooted IsAbs_Clean Clean_idem pj)
  have cp: "components ?p = components r @ [session, task]" using pr by (rule components_path_of)
  have ne: "?p \<noteq> Clean r"
    using assms(1) components_Clean [OF assms(1)] cp by (metis append_self_conv list.distinct(1))
  have sl: "slash \<notin> set session" "slash \<notin> set task" using assms by (auto simp: proper_def)
  have "Rel (Clean r) ?p = Some (join_at slash [session, task])"
    using assms(1) cp by (simp add: Rel_def IsAbs_Clean components_Clean del: join_at.simps)
  then show ?thesis
    using assms(4) ne join_at_dots [OF sl(1), of "[task]"]
    by (simp add: validatePathCanonical_def pj abs del: join_at.simps)
qed

lemma CreateWorkspace_fresh:
  assumes "IsAbs r" "components r \<noteq> []"
    and "wv_stat v (path_of True (components r @ [session, task])) \<noteq> StatOk"
    and "\<And>e. wv_ok v e"
  shows "(\<exists>m. snd (CreateWorkspace v clk r task session) = Inr m)
         \<longleftrightarrow> proper session \<and> proper task \<and> \<not> has_prefix session ''..''"
proof
  assume "\<exists>m. snd (CreateWorkspace v clk r task session) = Inr m"
  then obtain m where m: "snd (CreateWorkspace v clk r task session) = Inr m" by blast
  have "proper session \<and> proper task" using created_workspace [OF assms(1,2) m] by simp
  moreover have "validatePathCanonical v (path_join [r, session, task]) r = None"
    using m by (auto simp: CreateWorkspace_def Let_def split: if_splits option.splits)
  ultimately show "proper session \<and> proper task \<and> \<not> has_prefix session ''..''"
    using fresh_path_valid [OF assms(1) _ _ assms(3)] by simp
next
  assume "proper session \<and> proper task \<and> \<not> has_prefix session ''..''"
  then have "proper session" "proper task" "\<not> has_prefix session ''..''" by auto
  then show "\<exists>m. snd (CreateWorkspace v clk r task session) = Inr m"
    using fresh_path_valid [OF assms(1) _ _ assms(3)] owned_path [OF assms(1)] assms(4)
    by (simp add: CreateWorkspace_def Let_def attempt_Inr proper_def)
qed

text \<open>
  C34. Workspaces are separate places below the root. Let the root be an absolute path other than the
  root directory. When CreateWorkspace succeeds for a task of a session, both IDs are proper file names (not
  empty, no slash, not \<open>.\<close> or \<open>..\<close>) and the workspace is the directory of the task in the directory of the
  session below the root; so two workspaces are the same directory only for the same task of the same
  session. Where nothing exists yet and every change of the file system succeeds, creation succeeds exactly
  for proper names, except for sessions whose name starts with two dots.
\<close>

theorem workspaces_separate:
  assumes "IsAbs r" "components r \<noteq> []"
    and "snd (CreateWorkspace v clk r task session) = Inr m"
    and "snd (CreateWorkspace v' clk' r task' session') = Inr m'"
  shows "components (wm_Path m) = components r @ [session, task] \<and> proper session \<and> proper task
         \<and> (wm_Path m = wm_Path m') = (session = session' \<and> task = task')
         \<and> (if wv_stat v'' (path_of True (components r @ [s, t])) \<noteq> StatOk \<and> (\<forall>e. wv_ok v'' e)
            then (\<exists>n. snd (CreateWorkspace v'' clk'' r t s) = Inr n)
                 = (proper s \<and> proper t \<and> \<not> has_prefix s ''..'') else True)"
proof -
  note m = created_workspace [OF assms(1,2,3)] created_workspace [OF assms(1,2,4)]
  have pr: "list_all proper (components r)" using assms(1) by (rule components_proper)
  have "components (wm_Path m) = components r @ [session, task]"
    using m pr by (simp add: new_metadata_def)
  moreover have "(wm_Path m = wm_Path m') = (session = session' \<and> task = task')"
    using m pr by (simp add: new_metadata_def path_of_inject)
  ultimately show ?thesis using m CreateWorkspace_fresh [OF assms(1,2), of v'' s t clk''] by simp
qed

definition empty_view :: ws_view where
  "empty_view =
     \<lparr>wv_cwd = None, wv_stat = (\<lambda>_. StatNotExist), wv_resolve = (\<lambda>_. None), wv_rfc3339 = (\<lambda>_. ''''),
      wv_ok = (\<lambda>_. True)\<rparr>"

lemma fresh_creation:
  assumes "IsAbs r" "components r \<noteq> []" "proper session" "proper task" "\<not> has_prefix session ''..''"
  shows "snd (CreateWorkspace empty_view clk r task session)
         = Inr (new_metadata task session (path_of True (components r @ [session, task])) (clk 1) (clk 2))"
proof -
  obtain m where "snd (CreateWorkspace empty_view clk r task session) = Inr m"
    using CreateWorkspace_fresh [OF assms(1,2), of empty_view session task clk] assms(3-5)
    by (auto simp: empty_view_def)
  then show ?thesis using created_workspace [OF assms(1,2)] by simp
qed

lemma example_root:
  "IsAbs ''/home/zen/workspaces''" "components ''/home/zen/workspaces'' = [''home'', ''zen'', ''workspaces'']"
  by (simp_all add: IsAbs_def components_def push_component_def)

theorem workspaces_separate_witness:
  "(path_of True [''home'', ''zen'', ''workspaces'', ''s1'', ''t1'']
    = path_of True [''home'', ''zen'', ''workspaces'', ''s1'', ''t2'']) = False"
proof -
  have p: "proper ''s1''" "proper ''t1''" "proper ''t2''" "\<not> has_prefix ''s1'' ''..''"
    by (simp_all add: proper_def)
  note c = fresh_creation [OF example_root(1), of "''s1''", unfolded example_root(2)]
  show ?thesis
    using workspaces_separate [OF example_root(1) _ c [of "''t1''" "\<lambda>_. 0"] c [of "''t2''" "\<lambda>_. 0"]] p
    by (simp add: example_root(2) new_metadata_def)
qed

subsection \<open>Deletion\<close>



subsection \<open>Cleanup\<close>

definition entry_stale :: "string \<Rightarrow> walk_entry \<Rightarrow> bool" where
  "entry_stale r e \<longleftrightarrow>
     we_dir e
     \<and> (case Rel r (we_path e) of None \<Rightarrow> False | Some rel \<Rightarrow> length (split_at slash rel) = 2)
     \<and> (case we_modified e of None \<Rightarrow> False | Some t \<Rightarrow> time_sub (we_now e) t > 24 * hour)
     \<and> (case we_lock e of None \<Rightarrow> True | Some t \<Rightarrow> time_sub (we_now e) t > hour)"

definition unlock_effects :: "walk_entry \<Rightarrow> fs_effect list" where
  "unlock_effects e =
     (case we_lock e of None \<Rightarrow> [] | Some _ \<Rightarrow> [RemoveFile (path_join [we_path e, ''.zen-lock''])])"

definition deleted :: "string \<Rightarrow> walk_entry \<Rightarrow> bool" where
  "deleted r e \<longleftrightarrow> entry_stale r e \<and> (case snd (DeleteWorkspace (we_view e) r (we_path e)) of Inl _ \<Rightarrow> False | Inr _ \<Rightarrow> True)"

lemma cleanup_entry_exact:
  "cleanup_entry r e (es, n) =
     (if entry_stale r e
      then (es @ unlock_effects e @ fst (DeleteWorkspace (we_view e) r (we_path e)), n + (if deleted r e then 1 else 0))
      else (es, n))"
  by (auto simp: cleanup_entry_def entry_stale_def unlock_effects_def deleted_def Let_def staleLockThreshold_def
      staleWorkspaceThreshold_def hour_def minute_def second_def split: option.splits prod.splits sum.splits)

lemma cleanup_fold:
  "fold (cleanup_entry r) entries (es, n) =
     (es @ concat (map (\<lambda>e. unlock_effects e @ fst (DeleteWorkspace (we_view e) r (we_path e)))
                     (filter (entry_stale r) entries)),
      n + length (filter (deleted r) entries))"
  by (induction entries arbitrary: es n) (simp_all add: cleanup_entry_exact deleted_def)

lemma two_parts:
  assumes "IsAbs r" "IsAbs p" "inside r p" "Rel r p = Some rel" "length (split_at slash rel) = 2"
  shows "\<exists>s t. components p = components r @ [s, t]"
proof -
  obtain ts where ts: "ts \<noteq> []" "components p = components r @ ts" using assms(3) by (auto simp: inside_def)
  then have "rel = join_at slash ts" using assms(1,2,4) by (simp add: Rel_def)
  moreover have "list_all proper ts" using components_proper [OF assms(2)] ts(2) by simp
  ultimately have "split_at slash rel = ts" using ts(1) by (simp add: split_join_at proper_no_slash)
  then show ?thesis using assms(5) ts(2) by (auto simp: length_Suc_conv numeral_2_eq_2)
qed

text \<open>
  What a cleanup removes. Every directory it removes was met by the walk, is the directory of a task in
  the directory of a session, has not changed for more than 24 hours, and either has no lock file or one that
  is more than an hour old, which is then removed before it; and the number it returns is the number of the
  stale directories that could be removed. (A task can hold its lock for longer than an hour, so the directory of a
  running task can be among them.)
\<close>

theorem cleanup_exact:
  assumes "IsAbs r" "\<And>e. e \<in> set entries \<Longrightarrow> view_ok (we_view e) \<and> IsAbs (we_path e)"
    and "RemoveAll p \<in> set (fst (CleanupStaleWorkspaces r entries))"
  shows "\<exists>e \<in> set entries. we_path e = p \<and> entry_stale r e \<and> (\<exists>s t. components p = components r @ [s, t])
           \<and> snd (CleanupStaleWorkspaces r entries) = length (filter (deleted r) entries)"
proof -
  have eff: "fst (CleanupStaleWorkspaces r entries) =
      concat (map (\<lambda>e. unlock_effects e @ fst (DeleteWorkspace (we_view e) r (we_path e)))
                (filter (entry_stale r) entries))"
    "snd (CleanupStaleWorkspaces r entries) = length (filter (deleted r) entries)"
    unfolding CleanupStaleWorkspaces_def cleanup_fold by simp_all
  obtain e where e: "e \<in> set entries" "entry_stale r e"
      "RemoveAll p \<in> set (fst (DeleteWorkspace (we_view e) r (we_path e)))"
    using assms(3) unfolding eff(1) by (auto simp: unlock_effects_def split: option.splits)
  have p: "we_path e = p" and abs: "IsAbs p"
    using DeleteWorkspace_effects [OF e(3)] assms(2) [OF e(1)] by auto
  obtain q where q: "absolute (wv_cwd (we_view e)) (Clean p) = Some q" "inside r q"
    using deletion_within [OF _ assms(1) e(3)] assms(2) [OF e(1)] p by auto
  then have "inside r p"
    using abs by (simp add: absolute_rooted IsAbs_Clean Clean_idem inside_def components_Clean) (metis components_Clean)
  moreover obtain rel where "Rel r p = Some rel" "length (split_at slash rel) = 2"
    using e(2) p by (auto simp: entry_stale_def split: option.splits)
  ultimately have "\<exists>s t. components p = components r @ [s, t]" using two_parts [OF assms(1) abs] by blast
  then show ?thesis using e p eff(2) by blast
qed

definition old_entry :: walk_entry where
  "old_entry =
     \<lparr>we_path = ''/home/zen/workspaces/s1/t1'', we_dir = True, we_modified = Some 0, we_lock = Some 0,
      we_view = empty_view, we_now = 25 * hour\<rparr>"

lemma old_entry_removed:
  "CleanupStaleWorkspaces ''/home/zen/workspaces'' [old_entry] =
     ([RemoveFile ''/home/zen/workspaces/s1/t1/.zen-lock'', RemoveAll ''/home/zen/workspaces/s1/t1''], 1)"
proof -
  have c: "Clean ''/home/zen/workspaces'' = ''/home/zen/workspaces''"
    "Clean ''/home/zen/workspaces/s1/t1'' = ''/home/zen/workspaces/s1/t1''"
    by (simp_all add: Clean_def path_of_def IsAbs_def components_def push_component_def)
  have d: "DeleteWorkspace empty_view ''/home/zen/workspaces'' ''/home/zen/workspaces/s1/t1''
      = ([RemoveAll ''/home/zen/workspaces/s1/t1''], Inr ())"
    by (simp add: DeleteWorkspace_def validatePathCanonical_def absolute_def c IsAbs_def Rel_def components_def
        push_component_def empty_view_def isPathWithinRoot_def attempt_def)
  have l: "path_join [''/home/zen/workspaces/s1/t1'', ''.zen-lock''] = ''/home/zen/workspaces/s1/t1/.zen-lock''"
    by (simp add: path_join_def Clean_def path_of_def IsAbs_def components_def push_component_def)
  have "entry_stale ''/home/zen/workspaces'' old_entry"
    by (simp add: entry_stale_def old_entry_def Rel_def IsAbs_def components_def push_component_def
        time_sub_def hour_def minute_def second_def)
  then show ?thesis
    unfolding CleanupStaleWorkspaces_def cleanup_fold
    by (simp add: deleted_def unlock_effects_def old_entry_def d l)
qed

theorem cleanup_exact_witness:
  "\<exists>s t. components ''/home/zen/workspaces/s1/t1'' = components ''/home/zen/workspaces'' @ [s, t]"
proof -
  have "RemoveAll ''/home/zen/workspaces/s1/t1'' \<in> set (fst (CleanupStaleWorkspaces ''/home/zen/workspaces'' [old_entry]))"
    by (simp add: old_entry_removed)
  from cleanup_exact [OF example_root(1) _ this] show ?thesis
    by (auto simp: old_entry_def view_ok_def empty_view_def IsAbs_def)
qed

end
