(* ===== verification/Workspace_Locks.thy ===== *)
theory Workspace_Locks
  imports Workspace_Properties
begin

text \<open>
  The locks of the workspace manager (\<open>LockWorkspace\<close>, \<open>UnlockWorkspace\<close> and the locking of
  \<open>DeleteWorkspace\<close> in \<open>internal/factory/workspace.go\<close>) as the threads of one process run them: a thread is
  at one point of an operation (\<open>lock_pc\<close>), and a step takes it past one call that other threads can
  observe. A blocking call whose lock is taken has no step.

  \<open>lockMapMutex\<close> is \<open>lk_writer\<close>, the thread that has it for writing; reading an entry of the map under
  its read lock is one step, possible while no thread has it for writing. The map of mutexes is \<open>lk_mutex\<close>:
  \<open>None\<close> for no entry, otherwise whether the mutex is locked. \<open>lk_file\<close> is the time of the lock file of a
  workspace, which other processes write too (action \<open>OtherProcess\<close>). The threads are callers as the
  factory is one: a workspace is unlocked by the thread that locked it, and anyone may delete.
\<close>

subsection \<open>Threads and steps\<close>

datatype lock_pc =
    Idle
  | LockMap string | LockMutex string | LockStat string | LockStale string | LockCreate string
  | LockWrite string | LockUndo string | LockRefused string | LockExit string bool
  | Holding string
  | UnlockMap string | UnlockMutex string | UnlockFile string
  | DeleteMap string | DeleteMutex string | DeleteRun string bool | DeleteDone string bool

record lock_state =
  lk_writer :: "nat option"
  lk_mutex :: "string \<Rightarrow> bool option"
  lk_file :: "string \<Rightarrow> time option"
  lk_pc :: "nat \<Rightarrow> lock_pc"
  lk_fatal :: bool

definition NewLocks :: "(string \<Rightarrow> time option) \<Rightarrow> lock_state" where
  "NewLocks files =
     \<lparr>lk_writer = None, lk_mutex = (\<lambda>_. None), lk_file = files, lk_pc = (\<lambda>_. Idle), lk_fatal = False\<rparr>"

definition goto :: "nat \<Rightarrow> lock_pc \<Rightarrow> lock_state \<Rightarrow> lock_state" where
  "goto t pc s = s\<lparr>lk_pc := (lk_pc s)(t := pc)\<rparr>"

definition set_mutex :: "string \<Rightarrow> bool \<Rightarrow> lock_state \<Rightarrow> lock_state" where
  "set_mutex p b s = s\<lparr>lk_mutex := (lk_mutex s)(p := Some b)\<rparr>"

definition set_file :: "string \<Rightarrow> time option \<Rightarrow> lock_state \<Rightarrow> lock_state" where
  "set_file p f s = s\<lparr>lk_file := (lk_file s)(p := f)\<rparr>"

text \<open>\<open>sync.Mutex.Unlock\<close>: unlocking a mutex that is not locked ends the process.\<close>

definition unlock_mutex :: "nat \<Rightarrow> string \<Rightarrow> lock_pc \<Rightarrow> lock_state \<Rightarrow> lock_state" where
  "unlock_mutex t p pc s =
     (if lk_mutex s p = Some True then goto t pc (set_mutex p False s) else s\<lparr>lk_fatal := True\<rparr>)"

text \<open>The steps of \<open>LockWorkspace\<close>; \<open>ok\<close> tells whether the call of the operating system succeeds.\<close>

fun lock_step :: "nat \<Rightarrow> time \<Rightarrow> bool \<Rightarrow> lock_pc \<Rightarrow> lock_state \<Rightarrow> lock_state option" where
  "lock_step t now ok (LockMap p) s =
     (if lk_writer s = None
      then Some (goto t (LockMutex p)
             ((if lk_mutex s p = None then set_mutex p False s else s)\<lparr>lk_writer := Some t\<rparr>))
      else None)"
| "lock_step t now ok (LockMutex p) s =
     (if lk_mutex s p = Some False then Some (goto t (LockStat p) (set_mutex p True s)) else None)"
| "lock_step t now ok (LockStat p) s =
     Some (goto t (case lk_file s p of
                     None \<Rightarrow> LockCreate p
                   | Some modTime \<Rightarrow>
                       if time_sub now modTime > staleLockThreshold then LockStale p else LockRefused p) s)"
| "lock_step t now ok (LockStale p) s =
     Some (if ok \<and> lk_file s p \<noteq> None then goto t (LockCreate p) (set_file p None s) else goto t (LockRefused p) s)"
| "lock_step t now ok (LockCreate p) s =
     Some (if ok \<and> lk_file s p = None then goto t (LockWrite p) (set_file p (Some now) s)
           else goto t (LockRefused p) s)"
| "lock_step t now ok (LockWrite p) s = Some (goto t (if ok then LockExit p True else LockUndo p) s)"
| "lock_step t now ok (LockUndo p) s = Some (goto t (LockRefused p) (if ok then set_file p None s else s))"
| "lock_step t now ok (LockRefused p) s = Some (unlock_mutex t p (LockExit p False) s)"
| "lock_step t now ok (LockExit p locked) s =
     Some (goto t (if locked then Holding p else Idle) (s\<lparr>lk_writer := None\<rparr>))"
| "lock_step t now ok _ s = None"

fun unlock_step :: "nat \<Rightarrow> time \<Rightarrow> bool \<Rightarrow> lock_pc \<Rightarrow> lock_state \<Rightarrow> lock_state option" where
  "unlock_step t now ok (UnlockMap p) s =
     (if lk_writer s \<noteq> None then None
      else Some (goto t (if lk_mutex s p = None then Idle else UnlockMutex p) s))"
| "unlock_step t now ok (UnlockMutex p) s = Some (unlock_mutex t p (UnlockFile p) s)"
| "unlock_step t now ok (UnlockFile p) s = Some (goto t Idle (if ok then set_file p None s else s))"
| "unlock_step t now ok _ s = None"

text \<open>\<open>DeleteWorkspace\<close> after its checks; it goes without a mutex when the map has none.\<close>

fun delete_step :: "nat \<Rightarrow> time \<Rightarrow> bool \<Rightarrow> lock_pc \<Rightarrow> lock_state \<Rightarrow> lock_state option" where
  "delete_step t now ok (DeleteMap p) s =
     (if lk_writer s \<noteq> None then None
      else Some (goto t (if lk_mutex s p = None then DeleteRun p False else DeleteMutex p) s))"
| "delete_step t now ok (DeleteMutex p) s =
     (if lk_mutex s p = Some False then Some (goto t (DeleteRun p True) (set_mutex p True s)) else None)"
| "delete_step t now ok (DeleteRun p locked) s =
     Some (goto t (DeleteDone p locked) (if ok then set_file p None s else s))"
| "delete_step t now ok (DeleteDone p locked) s =
     Some (if locked then unlock_mutex t p Idle s else goto t Idle s)"
| "delete_step t now ok _ s = None"

definition thread_step :: "nat \<Rightarrow> time \<Rightarrow> bool \<Rightarrow> lock_state \<Rightarrow> lock_state option" where
  "thread_step t now ok s =
     (case lock_step t now ok (lk_pc s t) s of
        Some s' \<Rightarrow> Some s'
      | None \<Rightarrow> (case unlock_step t now ok (lk_pc s t) s of
                   Some s' \<Rightarrow> Some s'
                 | None \<Rightarrow> delete_step t now ok (lk_pc s t) s))"

datatype lock_action =
    CallLock nat string | CallUnlock nat | CallDelete nat string | Step nat time bool
  | OtherProcess string "time option"

fun lock_act :: "lock_action \<Rightarrow> lock_state \<Rightarrow> lock_state option" where
  "lock_act (CallLock t p) s = (if lk_pc s t = Idle then Some (goto t (LockMap p) s) else None)"
| "lock_act (CallUnlock t) s = (case lk_pc s t of Holding p \<Rightarrow> Some (goto t (UnlockMap p) s) | _ \<Rightarrow> None)"
| "lock_act (CallDelete t p) s = (if lk_pc s t = Idle then Some (goto t (DeleteMap p) s) else None)"
| "lock_act (Step t now ok) s = thread_step t now ok s"
| "lock_act (OtherProcess p f) s = Some (set_file p f s)"

inductive lock_run :: "lock_state \<Rightarrow> lock_state \<Rightarrow> bool" where
  run_refl: "lock_run s s"
| run_step: "lock_run s s' \<Longrightarrow> lock_act a s' = Some s'' \<Longrightarrow> lock_run s s''"


fun lock_acts :: "lock_action list \<Rightarrow> lock_state \<Rightarrow> lock_state option" where
  "lock_acts [] s = Some s"
| "lock_acts (a # as) s = (case lock_act a s of None \<Rightarrow> None | Some s' \<Rightarrow> lock_acts as s')"

lemma lock_run_trans: "lock_run s s' \<Longrightarrow> lock_run s' s'' \<Longrightarrow> lock_run s s''"
  by (rotate_tac, induction rule: lock_run.induct) (auto intro: run_step)

lemma lock_acts_run: "lock_acts as s = Some s' \<Longrightarrow> lock_run s s'"
proof (induction as arbitrary: s)
  case Nil
  then show ?case by (simp add: run_refl)
next
  case (Cons a as)
  then obtain s1 where "lock_act a s = Some s1" "lock_acts as s1 = Some s'"
    by (auto split: option.splits)
  then show ?case using Cons.IH lock_run_trans run_step run_refl by blast
qed

subsection \<open>The invariant of the locks\<close>

text \<open>The workspace whose mutex a thread has, and whether it is between locking and unlocking the map.\<close>

fun owns :: "lock_pc \<Rightarrow> string option" where
  "owns (LockStat p) = Some p"
| "owns (LockStale p) = Some p"
| "owns (LockCreate p) = Some p"
| "owns (LockWrite p) = Some p"
| "owns (LockUndo p) = Some p"
| "owns (LockRefused p) = Some p"
| "owns (LockExit p locked) = (if locked then Some p else None)"
| "owns (Holding p) = Some p"
| "owns (UnlockMap p) = Some p"
| "owns (UnlockMutex p) = Some p"
| "owns (DeleteRun p locked) = (if locked then Some p else None)"
| "owns (DeleteDone p locked) = (if locked then Some p else None)"
| "owns _ = None"

fun writing :: "lock_pc \<Rightarrow> bool" where
  "writing (LockMutex p) = True"
| "writing (LockStat p) = True"
| "writing (LockStale p) = True"
| "writing (LockCreate p) = True"
| "writing (LockWrite p) = True"
| "writing (LockUndo p) = True"
| "writing (LockRefused p) = True"
| "writing (LockExit p locked) = True"
| "writing _ = False"

fun waits_for :: "lock_pc \<Rightarrow> string option" where
  "waits_for (LockMutex p) = Some p"
| "waits_for (DeleteMutex p) = Some p"
| "waits_for _ = None"

definition locks_inv :: "lock_state \<Rightarrow> bool" where
  "locks_inv s \<longleftrightarrow>
     (\<forall>t. writing (lk_pc s t) = (lk_writer s = Some t))
     \<and> (\<forall>p. (lk_mutex s p = Some True) = (\<exists>t. owns (lk_pc s t) = Some p))
     \<and> (\<forall>t u p. owns (lk_pc s t) = Some p \<longrightarrow> owns (lk_pc s u) = Some p \<longrightarrow> t = u)
     \<and> (\<forall>t p. waits_for (lk_pc s t) = Some p \<longrightarrow> lk_mutex s p \<noteq> None)
     \<and> \<not> lk_fatal s"

lemmas lock_defs = goto_def set_mutex_def set_file_def unlock_mutex_def

lemma locks_inv_init: "locks_inv (NewLocks files)"
  by (simp add: locks_inv_def NewLocks_def)

text \<open>The parts of the invariant, as they are used.\<close>

lemma locks_invD:
  assumes "locks_inv s"
  shows "writing (lk_pc s t) = (lk_writer s = Some t)"
    and "owns (lk_pc s t) = Some p \<Longrightarrow> lk_mutex s p = Some True"
    and "lk_mutex s p = Some True \<Longrightarrow> \<exists>t. owns (lk_pc s t) = Some p"
    and "owns (lk_pc s t) = Some p \<Longrightarrow> owns (lk_pc s u) = Some p \<Longrightarrow> t = u"
    and "waits_for (lk_pc s t) = Some p \<Longrightarrow> lk_mutex s p \<noteq> None"
    and "\<not> lk_fatal s"
  using assms unfolding locks_inv_def by blast+

text \<open>A move of one thread keeps the invariant when it changes the locks the way its points require.\<close>

lemma locks_inv_move:
  assumes inv: "locks_inv s"
    and pc: "lk_pc s' = (lk_pc s)(t := pc)" and fatal: "lk_fatal s' = lk_fatal s"
    and writer: "lk_writer s' = (if writing pc then Some t else if writing (lk_pc s t) then None else lk_writer s)"
    and free: "writing pc \<Longrightarrow> \<not> writing (lk_pc s t) \<Longrightarrow> lk_writer s = None"
    and mutex: "\<And>p. lk_mutex s' p =
        (if owns pc = Some p then Some True
         else if owns (lk_pc s t) = Some p then Some False
         else if waits_for pc = Some p \<and> lk_mutex s p = None then Some False
         else lk_mutex s p)"
    and own: "\<And>p. owns pc = Some p \<Longrightarrow> owns (lk_pc s t) \<noteq> Some p \<Longrightarrow> lk_mutex s p \<noteq> Some True"
  shows "locks_inv s'"
  unfolding locks_inv_def
proof (intro conjI allI impI)
  fix u
  show "writing (lk_pc s' u) = (lk_writer s' = Some u)"
    using locks_invD(1) [OF inv, of u] locks_invD(1) [OF inv, of t] free by (auto simp: pc writer)
next
  fix p
  show "(lk_mutex s' p = Some True) = (\<exists>u. owns (lk_pc s' u) = Some p)"
  proof (cases "owns pc = Some p")
    case True
    then show ?thesis by (auto simp: mutex pc intro: exI [of _ t])
  next
    case False
    show ?thesis
    proof (cases "owns (lk_pc s t) = Some p")
      case True
      then have "\<not> (\<exists>u. owns (lk_pc s' u) = Some p)"
        using False locks_invD(4) [OF inv] by (auto simp: pc split: if_splits)
      then show ?thesis using True False by (simp add: mutex)
    next
      case no: False
      have "(\<exists>u. owns (lk_pc s' u) = Some p) = (\<exists>u. owns (lk_pc s u) = Some p)"
        using no False by (auto simp: pc)
      also have "\<dots> = (lk_mutex s p = Some True)" using locks_invD(2,3) [OF inv] by blast
      finally show ?thesis using no False by (simp add: mutex)
    qed
  qed
next
  fix u v p
  assume "owns (lk_pc s' u) = Some p" "owns (lk_pc s' v) = Some p"
  moreover have "x = t" if "owns (lk_pc s x) = Some p" "owns pc = Some p" for x
    using that own [of p] locks_invD(2,4) [OF inv] by blast
  ultimately show "u = v" using locks_invD(4) [OF inv] by (auto simp: pc split: if_splits)
next
  fix u p
  assume "waits_for (lk_pc s' u) = Some p"
  then show "lk_mutex s' p \<noteq> None"
    using locks_invD(5) [OF inv, of u p] by (auto simp: pc mutex split: if_splits)
next
  show "\<not> lk_fatal s'" using locks_invD(6) [OF inv] by (simp add: fatal)
qed

lemma locks_inv_file: "locks_inv s \<Longrightarrow> locks_inv (set_file p f s)"
  by (simp add: locks_inv_def set_file_def)

lemma locks_inv_goto:
  assumes "locks_inv s" "writing pc = writing (lk_pc s t)" "owns pc = owns (lk_pc s t)" "waits_for pc = None"
  shows "locks_inv (goto t pc s)"
  by (rule locks_inv_move [OF assms(1), of _ t pc])
    (use assms locks_invD(1) [OF assms(1), of t] locks_invD(2) [OF assms(1), of t] in \<open>auto simp: goto_def\<close>)

lemma owner_unlocks: "locks_inv s \<Longrightarrow> owns (lk_pc s t) = Some p \<Longrightarrow>
    unlock_mutex t p pc s = goto t pc (set_mutex p False s)"
  using locks_invD(2) [of s t p] by (simp add: unlock_mutex_def)

lemma goto_file_comm: "goto t pc (set_file p f s) = set_file p f (goto t pc s)"
  by (simp add: goto_def set_file_def)

lemma locks_inv_unlock:
  assumes "locks_inv s" "owns (lk_pc s t) = Some p" "owns pc = None" "waits_for pc = None"
    "writing pc = writing (lk_pc s t)"
  shows "locks_inv (unlock_mutex t p pc s)"
  unfolding owner_unlocks [OF assms(1,2)]
  by (rule locks_inv_move [OF assms(1), of _ t pc])
    (use assms locks_invD(1) [OF assms(1), of t] in \<open>auto simp: goto_def set_mutex_def\<close>)

lemma locks_inv_lock_step:
  assumes inv: "locks_inv s" and st: "lock_step t now ok (lk_pc s t) s = Some s'"
  shows "locks_inv s'"
proof (cases "lk_pc s t")
  case (LockMap p)
  show ?thesis
    by (rule locks_inv_move [OF inv, of _ t "LockMutex p"])
      (use st LockMap in \<open>auto simp: goto_def set_mutex_def split: if_splits\<close>)
next
  case (LockMutex p)
  show ?thesis
    by (rule locks_inv_move [OF inv, of _ t "LockStat p"])
      (use st LockMutex locks_invD(1) [OF inv, of t] in \<open>auto simp: goto_def set_mutex_def split: if_splits\<close>)
next
  case (LockExit p locked)
  show ?thesis
    by (rule locks_inv_move [OF inv, of _ t "if locked then Holding p else Idle"])
      (use st LockExit locks_invD(2) [OF inv, of t] in \<open>auto simp: goto_def split: if_splits\<close>)
qed (use st inv in \<open>auto simp: goto_file_comm split: option.splits if_splits
       intro!: locks_inv_goto locks_inv_file locks_inv_unlock\<close>)

lemma locks_inv_unlock_step:
  assumes inv: "locks_inv s" and st: "unlock_step t now ok (lk_pc s t) s = Some s'"
  shows "locks_inv s'"
proof (cases "lk_pc s t")
  case (UnlockMap p)
  then have "lk_mutex s p \<noteq> None" using locks_invD(2) [OF inv, of t p] by simp
  then show ?thesis using st inv UnlockMap by (auto split: if_splits intro!: locks_inv_goto)
qed (use st inv in \<open>auto simp: goto_file_comm split: if_splits
       intro!: locks_inv_goto locks_inv_file locks_inv_unlock\<close>)

lemma locks_inv_delete_step:
  assumes inv: "locks_inv s" and st: "delete_step t now ok (lk_pc s t) s = Some s'"
  shows "locks_inv s'"
proof (cases "lk_pc s t")
  case (DeleteMap p)
  show ?thesis
    by (rule locks_inv_move [OF inv, of _ t "if lk_mutex s p = None then DeleteRun p False else DeleteMutex p"])
      (use st DeleteMap in \<open>auto simp: goto_def split: if_splits\<close>)
next
  case (DeleteMutex p)
  show ?thesis
    by (rule locks_inv_move [OF inv, of _ t "DeleteRun p True"])
      (use st DeleteMutex in \<open>auto simp: goto_def set_mutex_def split: if_splits\<close>)
qed (use st inv in \<open>auto simp: goto_file_comm split: if_splits
       intro!: locks_inv_goto locks_inv_file locks_inv_unlock\<close>)

lemma thread_stepE:
  assumes "thread_step t now ok s = Some s'"
  obtains "lock_step t now ok (lk_pc s t) s = Some s'"
  | "unlock_step t now ok (lk_pc s t) s = Some s'"
  | "delete_step t now ok (lk_pc s t) s = Some s'"
  using assms unfolding thread_step_def
  by (cases "lock_step t now ok (lk_pc s t) s"; cases "unlock_step t now ok (lk_pc s t) s") auto

lemma locks_inv_act:
  assumes inv: "locks_inv s" and st: "lock_act a s = Some s'"
  shows "locks_inv s'"
proof (cases a)
  case (CallLock t p)
  then show ?thesis using st inv by (auto split: if_splits intro!: locks_inv_goto)
next
  case (CallUnlock t)
  then show ?thesis using st inv by (auto split: lock_pc.splits intro!: locks_inv_goto)
next
  case (CallDelete t p)
  then show ?thesis using st inv by (auto split: if_splits intro!: locks_inv_goto)
next
  case (Step t now ok)
  with st have "thread_step t now ok s = Some s'" by simp
  then show ?thesis
    by (rule thread_stepE) (use inv in \<open>blast intro: locks_inv_lock_step locks_inv_unlock_step locks_inv_delete_step\<close>)+
next
  case (OtherProcess p f)
  then show ?thesis using st inv by (auto intro: locks_inv_file)
qed

lemma locks_inv_run: "lock_run s s' \<Longrightarrow> locks_inv s \<Longrightarrow> locks_inv s'"
  by (induction rule: lock_run.induct) (auto intro: locks_inv_act)

lemma locks_inv_reachable: "lock_run (NewLocks files) s \<Longrightarrow> locks_inv s"
  using locks_inv_run locks_inv_init by blast

end
