(* ===== verification/Lock_Properties.thy ===== *)
theory Lock_Properties
  imports Workspace_Locks
begin

text \<open>
  What the locks of workspaces guarantee between the threads of a process, and when they block for good.
\<close>

subsection \<open>Mutual exclusion\<close>

text \<open>
  C36. Workspaces are exclusive within a process. In every state the threads of a process can reach, in any
  interleaving and whatever other processes do to the lock files: at most one thread holds a workspace, no
  deletion that found the mutex of a workspace runs while a thread holds it, the mutex of a workspace is
  locked exactly while some thread is between taking and giving it up, and no mutex is unlocked that is not
  locked (which would end the process).
\<close>

theorem workspace_mutex:
  assumes "lock_run (NewLocks files) s"
  shows "(lk_pc s t = Holding p \<and> lk_pc s u = Holding p \<longrightarrow> t = u)
         \<and> (lk_pc s t = Holding p \<longrightarrow> lk_pc s u \<noteq> DeleteRun p True)
         \<and> (lk_mutex s p = Some True) = (\<exists>v. owns (lk_pc s v) = Some p)
         \<and> \<not> lk_fatal s"
proof -
  note inv = locks_inv_reachable [OF assms]
  have "t = u" if "lk_pc s t = Holding p" "lk_pc s u = Holding p"
    using locks_invD(4) [OF inv, of t p u] that by simp
  moreover have "lk_pc s u \<noteq> DeleteRun p True" if "lk_pc s t = Holding p"
    using locks_invD(4) [OF inv, of t p u] that by auto
  moreover have "(lk_mutex s p = Some True) = (\<exists>v. owns (lk_pc s v) = Some p)"
    using locks_invD(2,3) [OF inv] by blast
  ultimately show ?thesis using locks_invD(6) [OF inv] by simp
qed

text \<open>A thread that locks a workspace, undisturbed.\<close>

definition lock_alone :: "nat \<Rightarrow> string \<Rightarrow> time \<Rightarrow> lock_action list" where
  "lock_alone t p now = CallLock t p # replicate 6 (Step t now True)"

lemmas run_simps = lock_alone_def thread_step_def lock_defs NewLocks_def numeral_eq_Suc

definition one_holder :: lock_state where
  "one_holder = the (lock_acts (lock_alone 0 ''/w/s/t'' 0) (NewLocks (\<lambda>_. None)))"

lemma one_holder_run: "lock_acts (lock_alone 0 ''/w/s/t'' 0) (NewLocks (\<lambda>_. None)) = Some one_holder"
  by (simp add: one_holder_def run_simps)

lemma one_holder_pc: "lk_pc one_holder = (\<lambda>_. Idle)(0 := Holding ''/w/s/t'')" "lk_writer one_holder = None"
    "lk_mutex one_holder = [''/w/s/t'' \<mapsto> True]" "lk_file one_holder = [''/w/s/t'' \<mapsto> 0]"
  by (simp_all add: one_holder_def run_simps fun_eq_iff)

lemma one_holder_reachable: "lock_run (NewLocks (\<lambda>_. None)) one_holder"
  using lock_acts_run [OF one_holder_run] .

theorem workspace_mutex_witness:
  "lk_pc one_holder 0 = Holding ''/w/s/t'' \<and> lk_mutex one_holder ''/w/s/t'' = Some True \<and> \<not> lk_fatal one_holder"
  using workspace_mutex [OF one_holder_reachable, of 0 "''/w/s/t''"] by (auto simp: one_holder_pc)

subsection \<open>Deadlock\<close>

fun stays :: "lock_pc \<Rightarrow> lock_pc \<Rightarrow> bool" where
  "stays (LockMap q) pc = (pc = LockMap q)"
| "stays (Holding q) pc = (pc = Holding q \<or> pc = UnlockMap q)"
| "stays (UnlockMap q) pc = (pc = UnlockMap q)"
| "stays _ pc = True"

lemma stays_refl [simp]: "stays pc pc"
  by (cases pc) auto

lemma step_pc:
  assumes "thread_step v now ok s = Some s'"
  shows "\<exists>pc. lk_pc s' = (lk_pc s)(v := pc)"
  using assms
  by (rule thread_stepE; cases "lk_pc s v")
    (auto simp: lock_defs fun_upd_idem split: if_splits option.splits intro: exI [of _ "lk_pc s v"])

text \<open>While another thread has the map for writing, a thread only goes on outside the map.\<close>

lemma step_without_map:
  assumes inv: "locks_inv s" and w: "lk_writer s = Some u" "v \<noteq> u"
    and st: "thread_step v now ok s = Some s'"
  shows "\<exists>pc. lk_pc s' = (lk_pc s)(v := pc) \<and> lk_writer s' = Some u
           \<and> (\<forall>q. pc \<noteq> Holding q) \<and> stays (lk_pc s v) pc"
proof -
  have nw: "\<not> writing (lk_pc s v)" using locks_invD(1) [OF inv, of v] w by simp
  obtain pc where pc: "lk_pc s' = (lk_pc s)(v := pc)" using step_pc [OF st] by blast
  moreover have "lk_writer s' = Some u \<and> (\<forall>q. lk_pc s' v \<noteq> Holding q) \<and> stays (lk_pc s v) (lk_pc s' v)"
    using st
    by (rule thread_stepE; cases "lk_pc s v")
      (use nw w locks_invD(2) [OF inv, of v] in \<open>auto simp: lock_defs split: if_splits\<close>)
  ultimately show ?thesis by auto
qed

definition deadlocked :: "lock_state \<Rightarrow> nat \<Rightarrow> nat \<Rightarrow> string \<Rightarrow> bool" where
  "deadlocked s t u p \<longleftrightarrow>
     lk_pc s u = LockMutex p \<and> (lk_pc s t = Holding p \<or> lk_pc s t = UnlockMap p)"

lemma deadlocked_act:
  assumes inv: "locks_inv s" and dead: "deadlocked s t u p" and st: "lock_act a s = Some s'"
  shows "deadlocked s' t u p \<and> (\<forall>v. stays (lk_pc s v) (lk_pc s' v))
         \<and> (\<forall>v q. lk_pc s' v = Holding q \<longrightarrow> lk_pc s v = Holding q)"
proof -
  have w: "lk_writer s = Some u" using locks_invD(1) [OF inv, of u] dead by (simp add: deadlocked_def)
  have "owns (lk_pc s t) = Some p" using dead by (auto simp: deadlocked_def)
  then have full: "lk_mutex s p = Some True" by (rule locks_invD(2) [OF inv])
  show ?thesis
  proof (cases a)
    case (CallLock v q)
    then show ?thesis using st dead by (auto simp: deadlocked_def goto_def split: if_splits)
  next
    case (CallUnlock v)
    then show ?thesis using st dead by (auto simp: deadlocked_def goto_def split: lock_pc.splits if_splits)
  next
    case (CallDelete v q)
    then show ?thesis using st dead by (auto simp: deadlocked_def goto_def split: if_splits)
  next
    case (OtherProcess q f)
    then show ?thesis using st dead by (auto simp: deadlocked_def set_file_def)
  next
    case (Step v now ok)
    show ?thesis
    proof (cases "v = u")
      case True
      then show ?thesis using st Step dead full by (simp add: deadlocked_def thread_step_def)
    next
      case False
      from Step st have "thread_step v now ok s = Some s'" by simp
      from step_without_map [OF inv w False this]
      obtain pc where "lk_pc s' = (lk_pc s)(v := pc)" "\<forall>q. pc \<noteq> Holding q" "stays (lk_pc s v) pc" by blast
      then show ?thesis using dead False by (auto simp: deadlocked_def)
    qed
  qed
qed

lemma stays_trans: "stays a b \<Longrightarrow> stays b c \<Longrightarrow> stays a c"
  by (cases a) auto

lemma deadlocked_run:
  assumes "lock_run s s'" "locks_inv s" "deadlocked s t u p"
  shows "deadlocked s' t u p \<and> (\<forall>v. stays (lk_pc s v) (lk_pc s' v))
         \<and> (\<forall>v q. lk_pc s' v = Holding q \<longrightarrow> lk_pc s v = Holding q)"
  using assms
proof (induction rule: lock_run.induct)
  case (run_step s s' a s'')
  then have "locks_inv s'" using locks_inv_run by blast
  with run_step deadlocked_act show ?case by (meson stays_trans)
qed simp

text \<open>
  C37. The locks deadlock when a workspace is locked twice. LockWorkspace waits for the mutex of a workspace
  while it has the map of mutexes, which UnlockWorkspace needs to find that mutex. So when one thread
  holds a workspace and another one waits for the same workspace, then whatever happens afterwards the first one
  still has it and the second one still waits; no thread that waits for the map ever gets it, no
  workspace that is held is ever given back, and no thread ever gets another workspace.
\<close>

theorem lock_deadlock:
  assumes "lock_run (NewLocks files) s" "lk_pc s t = Holding p" "lk_pc s u = LockMutex p" "lock_run s s'"
  shows "(lk_pc s' t = Holding p \<or> lk_pc s' t = UnlockMap p) \<and> lk_pc s' u = LockMutex p
         \<and> (lk_pc s v = LockMap q \<longrightarrow> lk_pc s' v = LockMap q)
         \<and> (lk_pc s v = Holding q \<longrightarrow> lk_pc s' v = Holding q \<or> lk_pc s' v = UnlockMap q)
         \<and> (lk_pc s' v = Holding q \<longrightarrow> lk_pc s v = Holding q)"
proof -
  have "deadlocked s t u p" using assms by (simp add: deadlocked_def)
  from deadlocked_run [OF assms(4) locks_inv_reachable [OF assms(1)] this]
  have d: "deadlocked s' t u p" "stays (lk_pc s v) (lk_pc s' v)"
      "lk_pc s' v = Holding q \<longrightarrow> lk_pc s v = Holding q" by auto
  then show ?thesis by (auto simp: deadlocked_def)
qed

definition second_caller :: "lock_action list" where
  "second_caller = [CallLock 1 ''/w/s/t'', Step 1 0 True]"

theorem lock_deadlock_witness:
  "\<exists>s. lock_run one_holder s \<and> lk_pc s 0 = UnlockMap ''/w/s/t'' \<and> lk_pc s 1 = LockMutex ''/w/s/t''
       \<and> lk_writer s = Some 1"
proof -
  define s where "s = the (lock_acts second_caller one_holder)"
  have s: "lock_acts second_caller one_holder = Some s"
    and pcs: "lk_pc s 0 = Holding ''/w/s/t''" "lk_pc s 1 = LockMutex ''/w/s/t''" "lk_writer s = Some 1"
    by (simp_all add: s_def second_caller_def thread_step_def lock_defs one_holder_pc)
  note run = lock_acts_run [OF s]
  obtain s' where s': "lock_act (CallUnlock 0) s = Some s'" "lk_pc s' 0 = UnlockMap ''/w/s/t''" "lk_writer s' = Some 1"
    by (simp add: pcs goto_def)
  have "lk_pc s' 1 = LockMutex ''/w/s/t''"
    using lock_deadlock [OF lock_run_trans [OF one_holder_reachable run] pcs(1,2)
        run_step [OF run_refl s'(1)]] by blast
  moreover have "lock_run one_holder s'" using run s'(1) by (rule run_step)
  ultimately show ?thesis using s' by blast
qed

subsection \<open>Progress\<close>

text \<open>A thread inside an operation.\<close>

fun busy :: "lock_pc \<Rightarrow> bool" where
  "busy Idle = False"
| "busy (Holding p) = False"
| "busy _ = True"

text \<open>When a thread inside an operation has no step.\<close>

lemma blocked_iff:
  assumes "busy (lk_pc s t)" "thread_step t now ok s = None"
  shows "(\<exists>p. (lk_pc s t = LockMap p \<or> lk_pc s t = UnlockMap p \<or> lk_pc s t = DeleteMap p) \<and> lk_writer s \<noteq> None)
         \<or> (\<exists>p. waits_for (lk_pc s t) = Some p \<and> lk_mutex s p \<noteq> Some False)"
  using assms by (cases "lk_pc s t") (auto simp: thread_step_def split: if_splits)

text \<open>
  C38. The locks have no other deadlock. When no thread inside an operation can go on, in any state the
  threads of a process can reach, then either one thread waits in LockWorkspace for a workspace another one
  holds or is about to give back (the deadlock above), or every thread inside an operation is a deletion that
  waits for a workspace a thread holds, which that thread can still give back.
\<close>

theorem locks_progress:
  assumes "lock_run (NewLocks files) s" "\<And>t. busy (lk_pc s t) \<Longrightarrow> thread_step t now ok s = None"
    and "busy (lk_pc s v)"
  shows "(\<exists>t u p. lk_pc s u = LockMutex p \<and> (lk_pc s t = Holding p \<or> lk_pc s t = UnlockMap p))
         \<or> (\<exists>t p. lk_pc s v = DeleteMutex p \<and> lk_pc s t = Holding p)"
proof -
  note inv = locks_inv_reachable [OF assms(1)]
  have holder: "\<exists>t. lk_pc s t = Holding p \<or> lk_pc s t = UnlockMap p"
    if w: "waits_for (lk_pc s u) = Some p" "lk_mutex s p \<noteq> Some False"
      and wr: "lk_pc s u = LockMutex p \<or> lk_writer s = None" for u p
  proof -
    have "lk_mutex s p = Some True" using w locks_invD(5) [OF inv w(1)] by (cases "lk_mutex s p") auto
    then obtain t where t: "owns (lk_pc s t) = Some p" using locks_invD(3) [OF inv] by blast
    then have "\<not> writing (lk_pc s t)"
      using wr w locks_invD(1) [OF inv, of t] locks_invD(1) [OF inv, of u] by auto
    moreover have "busy (lk_pc s t) \<Longrightarrow> \<exists>p. lk_pc s t = UnlockMap p \<or> lk_pc s t = LockMap p \<or> lk_pc s t = DeleteMap p \<or> waits_for (lk_pc s t) = Some p"
      using blocked_iff [OF _ assms(2), of t] by blast
    ultimately show ?thesis using t by (cases "lk_pc s t") (auto split: if_splits)
  qed
  show ?thesis
  proof (cases "lk_writer s")
    case (Some u)
    then have "writing (lk_pc s u)" using locks_invD(1) [OF inv] by simp
    moreover from this have "busy (lk_pc s u)" by (cases "lk_pc s u") auto
    ultimately obtain p where "lk_pc s u = LockMutex p" "lk_mutex s p \<noteq> Some False"
      using blocked_iff [OF _ assms(2), of u] by (cases "lk_pc s u") auto
    then show ?thesis using holder [of u p] by auto
  next
    case None
    then obtain p where p: "waits_for (lk_pc s v) = Some p" "lk_mutex s p \<noteq> Some False"
      using blocked_iff [OF assms(3) assms(2) [OF assms(3)]] by auto
    then obtain t where t: "lk_pc s t = Holding p \<or> lk_pc s t = UnlockMap p" using holder None by blast
    moreover have "\<not> writing (lk_pc s v)" using locks_invD(1) [OF inv, of v] None by simp
    then have "lk_pc s v = DeleteMutex p" using p(1) by (cases "lk_pc s v") auto
    moreover have "lk_pc s t \<noteq> UnlockMap p"
    proof
      assume u: "lk_pc s t = UnlockMap p"
      then have "thread_step t now ok s = None" by (intro assms(2)) simp
      then show False using u None by (simp add: thread_step_def)
    qed
    ultimately show ?thesis by blast
  qed
qed

definition delete_waits :: lock_state where
  "delete_waits = the (lock_acts [CallDelete 1 ''/w/s/t'', Step 1 0 True] one_holder)"

theorem locks_progress_witness:
  "lk_pc delete_waits 1 = DeleteMutex ''/w/s/t'' \<and> (\<exists>t. lk_pc delete_waits t = Holding ''/w/s/t'')"
proof -
  have run: "lock_acts [CallDelete 1 ''/w/s/t'', Step 1 0 True] one_holder = Some delete_waits"
    and pcs: "lk_pc delete_waits = (\<lambda>_. Idle)(0 := Holding ''/w/s/t'', 1 := DeleteMutex ''/w/s/t'')"
      "lk_mutex delete_waits ''/w/s/t'' = Some True"
    by (simp_all add: delete_waits_def thread_step_def lock_defs one_holder_pc fun_eq_iff)
  note reach = lock_run_trans [OF one_holder_reachable lock_acts_run [OF run]]
  have "thread_step t 0 True delete_waits = None" if "busy (lk_pc delete_waits t)" for t
    using that by (simp add: pcs thread_step_def split: if_splits)
  from locks_progress [OF reach this, of 1] show ?thesis by (auto simp: pcs split: if_splits)
qed

subsection \<open>Lock files\<close>

text \<open>
  The lock file of a workspace that is held can be missing: a thread that gives a workspace back unlocks the
  mutex before it removes the file, so a second thread that finds the file stale replaces it in between, and
  loses its own to the first one. Another process then finds the workspace free.
\<close>

lemma lock_file_lost:
  "\<exists>s. lock_run one_holder s \<and> lk_pc s 1 = Holding ''/w/s/t'' \<and> lk_file s ''/w/s/t'' = None"
proof -
  define late where "late = 2 * hour"
  define acts where "acts = [CallUnlock 0, Step 0 late True, Step 0 late True, CallLock 1 ''/w/s/t'', Step 1 late True,
      Step 1 late True, Step 1 late True, Step 1 late True, Step 1 late True, Step 1 late True, Step 1 late True,
      Step 0 late True]"
  define s where "s = the (lock_acts acts one_holder)"
  have "lock_acts acts one_holder = Some s \<and> lk_pc s 1 = Holding ''/w/s/t'' \<and> lk_file s ''/w/s/t'' = None"
    by (simp add: s_def acts_def late_def thread_step_def lock_defs one_holder_pc staleLockThreshold_def
        time_sub_def hour_def minute_def second_def)
  then show ?thesis using lock_acts_run by blast
qed

text \<open>A deletion that looked before the workspace was locked for the first time does not wait for its holder.\<close>

lemma deletion_overtakes:
  "\<exists>s. lock_run (NewLocks (\<lambda>_. None)) s \<and> lk_pc s 0 = Holding ''/w/s/t'' \<and> lk_pc s 1 = DeleteRun ''/w/s/t'' False"
proof -
  define acts where "acts = CallDelete 1 ''/w/s/t'' # Step 1 0 True # lock_alone 0 ''/w/s/t'' 0"
  define s where "s = the (lock_acts acts (NewLocks (\<lambda>_. None)))"
  have "lock_acts acts (NewLocks (\<lambda>_. None)) = Some s \<and> lk_pc s 0 = Holding ''/w/s/t''
        \<and> lk_pc s 1 = DeleteRun ''/w/s/t'' False"
    by (simp add: s_def acts_def run_simps)
  then show ?thesis using lock_acts_run by blast
qed

end
