(* ===== verification/Worktree.thy ===== *)
theory Worktree
  imports Workspace_Properties
begin

text \<open>
  Git worktrees for tasks: the worktree manager (\<open>internal/worktree/git_manager.go\<close>), the workspace manager
  over it (\<open>GitWorkspaceManager\<close> of \<open>internal/factory/workspace.go\<close>) and the publisher of branches
  (\<open>internal/worktree/publisher.go\<close>).

  Commands of git and the file system act on a world \<open>'w\<close> and are the fields of \<open>git_env\<close>; a failed command
  gives its output as \<open>Inl\<close>; \<open>ge_git_with\<close> runs git with more variables in its environment. Contexts that end a command early are part of how it fails.
\<close>

subsection \<open>Names\<close>

text \<open>The number of bytes of the first rune of a text, 1 where the text is not valid UTF-8.\<close>

definition cont_byte :: "nat \<Rightarrow> nat \<Rightarrow> string \<Rightarrow> nat \<Rightarrow> bool" where
  "cont_byte lo hi s i \<longleftrightarrow> i < length s \<and> lo \<le> (of_char (s ! i) :: nat) \<and> (of_char (s ! i) :: nat) \<le> hi"

definition rune_len :: "string \<Rightarrow> nat" where
  "rune_len s =
     (case s of
        [] \<Rightarrow> 0
      | c # _ \<Rightarrow>
          let b = (of_char c :: nat); c2 = cont_byte 128 191 s in
          if 194 \<le> b \<and> b \<le> 223 \<and> c2 1 then 2
          else if (b = 224 \<and> cont_byte 160 191 s 1 \<or> b = 237 \<and> cont_byte 128 159 s 1
                   \<or> 225 \<le> b \<and> b \<le> 239 \<and> b \<noteq> 237 \<and> c2 1) \<and> c2 2 then 3
          else if (b = 240 \<and> cont_byte 144 191 s 1 \<or> b = 244 \<and> cont_byte 128 143 s 1
                   \<or> 241 \<le> b \<and> b \<le> 243 \<and> c2 1) \<and> c2 2 \<and> c2 3 then 4
          else 1)"

definition safe_char :: "char \<Rightarrow> bool" where
  "safe_char c \<longleftrightarrow>
     (let b = (of_char c :: nat)
      in (97 \<le> b \<and> b \<le> 122) \<or> (65 \<le> b \<and> b \<le> 90) \<or> (48 \<le> b \<and> b \<le> 57) \<or> c = CHR ''_'' \<or> c = CHR ''-'')"

function replace_unsafe :: "string \<Rightarrow> string" where
  "replace_unsafe [] = []"
| "replace_unsafe (c # s) =
     (if safe_char c then c # replace_unsafe s
      else CHR ''-'' # replace_unsafe (drop (rune_len (c # s) - 1) s))"
  by pat_completeness auto
termination
  by (relation "measure length") auto

definition trim_dashes :: "string \<Rightarrow> string" where
  "trim_dashes s =
     (let dash = (\<lambda>c. c = CHR ''-'') in rev (dropWhile dash (rev (dropWhile dash s))))"

definition sanitizeBranchPart :: "string \<Rightarrow> string" where
  "sanitizeBranchPart s0 =
     (let s = trim_space s0
      in if s = [] then []
         else let t = trim_dashes (replace_unsafe s) in if length t > 64 then take 64 t else t)"

subsection \<open>The worktree manager\<close>

record GitManagerConfig =
  gm_RepoPath :: string
  gm_BasePath :: string
  gm_DefaultRef :: string
  gm_BranchPrefix :: string
  gm_ReuseSessionWT :: bool

record 'w git_env =
  ge_git :: "string list \<Rightarrow> 'w \<Rightarrow> 'w \<times> (string + string)"
  ge_git_with :: "string list \<Rightarrow> string list \<Rightarrow> 'w \<Rightarrow> 'w \<times> (string + string)"
  ge_stat :: "string \<Rightarrow> 'w \<Rightarrow> stat_result"
  ge_isDir :: "string \<Rightarrow> 'w \<Rightarrow> bool"
  ge_mkdir :: "string \<Rightarrow> 'w \<Rightarrow> 'w \<times> bool"
  ge_write :: "string \<Rightarrow> string \<Rightarrow> 'w \<Rightarrow> 'w \<times> bool"
  ge_remove :: "string \<Rightarrow> 'w \<Rightarrow> 'w"
  ge_removeAll :: "string \<Rightarrow> 'w \<Rightarrow> 'w"
  ge_clock :: "'w \<Rightarrow> clock"
  ge_rfc3339 :: "time \<Rightarrow> string"

datatype worktree_error =
    RepoPathRequired | BasePathRequired | InvalidRepoPath | InvalidBasePath | NotARepo | NoBasePath
  | EscapesBasePath string | AddFailed string

definition NewGitManager :: "string option \<Rightarrow> GitManagerConfig \<Rightarrow> worktree_error + GitManagerConfig" where
  "NewGitManager cwd cfg =
     (if gm_RepoPath cfg = [] then Inl RepoPathRequired
      else if gm_BasePath cfg = [] then Inl BasePathRequired
      else case absolute cwd (Clean (gm_RepoPath cfg)) of
             None \<Rightarrow> Inl InvalidRepoPath
           | Some repoAbs \<Rightarrow>
               (case absolute cwd (Clean (gm_BasePath cfg)) of
                  None \<Rightarrow> Inl InvalidBasePath
                | Some baseAbs \<Rightarrow>
                    Inr \<lparr>gm_RepoPath = repoAbs, gm_BasePath = baseAbs,
                         gm_DefaultRef = (if gm_DefaultRef cfg = [] then ''HEAD'' else gm_DefaultRef cfg),
                         gm_BranchPrefix = (if gm_BranchPrefix cfg = [] then ''ai'' else gm_BranchPrefix cfg),
                         gm_ReuseSessionWT = gm_ReuseSessionWT cfg\<rparr>))"

definition isGitRepo :: "'w git_env \<Rightarrow> string \<Rightarrow> 'w \<Rightarrow> bool" where
  "isGitRepo env path w = ge_isDir env (path_join [path, ''.git'']) w"

text \<open>The path is absolute already, so \<open>filepath.Abs\<close> only cleans it.\<close>

definition worktreeExists :: "'w git_env \<Rightarrow> string \<Rightarrow> string \<Rightarrow> 'w \<Rightarrow> 'w \<times> bool" where
  "worktreeExists env repo path w =
     (case ge_git env [''-C'', repo, ''worktree'', ''list'', ''--porcelain''] w of
        (w', Inl _) \<Rightarrow> (w', False)
      | (w', Inr out) \<Rightarrow>
          (w', list_ex (\<lambda>line. has_prefix line ''worktree '' \<and> trim_space (trim_prefix line ''worktree '') = Clean path)
                 (split_at newline out)))"

definition removeStaleWorktree :: "'w git_env \<Rightarrow> string \<Rightarrow> string \<Rightarrow> 'w \<Rightarrow> 'w" where
  "removeStaleWorktree env repo path w =
     fst (ge_git env [''-C'', repo, ''worktree'', ''remove'', ''--force'', path] w)"

definition wt_isPathWithinRoot :: "string \<Rightarrow> string \<Rightarrow> bool" where
  "wt_isPathWithinRoot path rootDir =
     (case Rel rootDir path of None \<Rightarrow> False | Some rel \<Rightarrow> rel \<noteq> ''..'' \<and> \<not> has_prefix rel ''../'')"

definition worktree_path :: "GitManagerConfig \<Rightarrow> string \<Rightarrow> string \<Rightarrow> string" where
  "worktree_path cfg taskID sessionID =
     (let sanitizedSession = sanitizeBranchPart sessionID;
          sanitizedTask = sanitizeBranchPart taskID
      in path_join [gm_BasePath cfg, if sanitizedSession = [] then ''default'' else sanitizedSession,
                    if sanitizedTask = [] then ''task'' else sanitizedTask])"

definition clear_worktree_path :: "'w git_env \<Rightarrow> GitManagerConfig \<Rightarrow> string \<Rightarrow> 'w \<Rightarrow> 'w" where
  "clear_worktree_path env cfg absPath w =
     (if ge_isDir env absPath w
      then case worktreeExists env (gm_RepoPath cfg) absPath w of
             (w', True) \<Rightarrow> removeStaleWorktree env (gm_RepoPath cfg) absPath w'
           | (w', False) \<Rightarrow> ge_removeAll env absPath w'
      else w)"

definition cleanupFn :: "'w git_env \<Rightarrow> GitManagerConfig \<Rightarrow> string \<Rightarrow> 'w \<Rightarrow> 'w" where
  "cleanupFn env cfg absPath w =
     ge_removeAll env absPath
       (case worktreeExists env (gm_RepoPath cfg) absPath w of
          (w', True) \<Rightarrow> removeStaleWorktree env (gm_RepoPath cfg) absPath w'
        | (w', False) \<Rightarrow> w')"

definition Prepare ::
    "'w git_env \<Rightarrow> string option \<Rightarrow> GitManagerConfig \<Rightarrow> string \<Rightarrow> string \<Rightarrow> 'w
     \<Rightarrow> 'w \<times> (worktree_error + string \<times> ('w \<Rightarrow> 'w))" where
  "Prepare env cwd cfg taskID sessionID w =
     (if \<not> isGitRepo env (gm_RepoPath cfg) w then (w, Inl NotARepo)
      else case ge_mkdir env (gm_BasePath cfg) w of
             (w1, False) \<Rightarrow> (w1, Inl NoBasePath)
           | (w1, True) \<Rightarrow>
               (case absolute cwd (worktree_path cfg taskID sessionID) of
                  None \<Rightarrow> (w1, Inl NoBasePath)
                | Some absPath \<Rightarrow>
                    if \<not> wt_isPathWithinRoot absPath (gm_BasePath cfg) then (w1, Inl (EscapesBasePath absPath))
                    else (case ge_git env [''-C'', gm_RepoPath cfg, ''worktree'', ''add'', ''--detach'', absPath,
                                           gm_DefaultRef cfg] (clear_worktree_path env cfg absPath w1) of
                            (w2, Inl out) \<Rightarrow> (w2, Inl (AddFailed out))
                          | (w2, Inr _) \<Rightarrow> (w2, Inr (absPath, cleanupFn env cfg absPath)))))"

subsection \<open>Workspaces that are worktrees\<close>

type_synonym 'w cleanups = "string \<Rightarrow> ('w \<Rightarrow> 'w) option"

definition git_getGitInfo :: "'w git_env \<Rightarrow> string \<Rightarrow> 'w \<Rightarrow> 'w \<times> string \<times> string" where
  "git_getGitInfo env path w =
     (if path = [] then (w, [], [])
      else case ge_git env [''-C'', path, ''rev-parse'', ''--is-inside-work-tree''] w of
             (w1, Inl _) \<Rightarrow> (w1, [], [])
           | (w1, Inr out) \<Rightarrow>
               if trim_space out \<noteq> ''true'' then (w1, [], [])
               else let (w2, b) = ge_git env [''-C'', path, ''rev-parse'', ''--abbrev-ref'', ''HEAD''] w1;
                        (w3, c) = ge_git env [''-C'', path, ''rev-parse'', ''HEAD''] w2
                    in (w3, case b of Inl _ \<Rightarrow> [] | Inr o1 \<Rightarrow> trim_space o1,
                            case c of Inl _ \<Rightarrow> [] | Inr o2 \<Rightarrow> trim_space o2))"

definition git_CreateWorkspace ::
    "'w git_env \<Rightarrow> string option \<Rightarrow> GitManagerConfig \<Rightarrow> string \<Rightarrow> string \<Rightarrow> 'w cleanups \<Rightarrow> 'w
     \<Rightarrow> 'w cleanups \<times> 'w \<times> (worktree_error + WorkspaceMetadata)" where
  "git_CreateWorkspace env cwd cfg taskID sessionID cs w =
     (case Prepare env cwd cfg taskID sessionID w of
        (w1, Inl e) \<Rightarrow> (cs, w1, Inl e)
      | (w1, Inr (workDir, cleanup)) \<Rightarrow>
          (case git_getGitInfo env workDir w1 of
             (w2, branch, commit) \<Rightarrow>
               (cs(workDir \<mapsto> cleanup), w2,
                Inr ((new_metadata taskID sessionID workDir (ge_clock env w1 0) (ge_clock env w1 1))
                      \<lparr>wm_Branch := branch, wm_BaseCommit := commit\<rparr>))))"

definition git_ValidateWorkspace :: "'w git_env \<Rightarrow> string \<Rightarrow> 'w \<Rightarrow> bool" where
  "git_ValidateWorkspace env path w \<longleftrightarrow> ge_stat env path w \<noteq> StatNotExist"

definition git_LockWorkspace :: "'w git_env \<Rightarrow> string \<Rightarrow> 'w \<Rightarrow> 'w \<times> bool" where
  "git_LockWorkspace env path w = ge_write env (path_join [path, ''.zen-lock'']) (ge_rfc3339 env (ge_clock env w 0)) w"

definition git_UnlockWorkspace :: "'w git_env \<Rightarrow> string \<Rightarrow> 'w \<Rightarrow> 'w" where
  "git_UnlockWorkspace env path w = ge_remove env (path_join [path, ''.zen-lock'']) w"

definition git_GetWorkspaceMetadata :: "'w git_env \<Rightarrow> string \<Rightarrow> 'w \<Rightarrow> 'w \<times> WorkspaceMetadata" where
  "git_GetWorkspaceMetadata env path w =
     (let md = new_metadata '''' '''' path (ge_clock env w 0) (ge_clock env w 1)
      in if ge_stat env path w = StatNotExist then (w, md\<lparr>wm_Initialized := False\<rparr>)
         else case git_getGitInfo env path w of
                (w1, branch, commit) \<Rightarrow>
                  (w1, md\<lparr>wm_Branch := branch, wm_BaseCommit := commit,
                         wm_Locked := (ge_stat env (path_join [path, ''.zen-lock'']) w1 = StatOk)\<rparr>))"

text \<open>The walk leaves out directories named \<open>.git\<close>; a path that is not found relative to the root is the empty text.\<close>

fun git_walk_files :: "string \<Rightarrow> fs_node \<Rightarrow> string list" where
  "git_walk_files p FileNode = [p]"
| "git_walk_files p (DirNode es) =
     (if Base p = ''.git'' then []
      else concat (map (\<lambda>(name, n). git_walk_files (path_join [p, name]) n) es))"

definition git_ListWorkspaceFiles :: "string \<Rightarrow> fs_node option \<Rightarrow> string list" where
  "git_ListWorkspaceFiles path tree =
     (case tree of
        None \<Rightarrow> []
      | Some n \<Rightarrow>
          sort (map (\<lambda>f. case Rel path f of None \<Rightarrow> [] | Some rel \<Rightarrow> rel)
                  (filter (\<lambda>f. \<not> hidden (Base f)) (git_walk_files path n))))"

definition git_DeleteWorkspace :: "string \<Rightarrow> 'w cleanups \<Rightarrow> 'w \<Rightarrow> 'w cleanups \<times> 'w" where
  "git_DeleteWorkspace path cs w =
     (case cs path of None \<Rightarrow> (cs, w) | Some cleanup \<Rightarrow> (cs(path := None), cleanup w))"

subsection \<open>Publishing\<close>

record Publisher =
  pb_repoPath :: string
  pb_authorName :: string
  pb_authorEmail :: string
  pb_remoteName :: string
  pb_pushEnabled :: bool

definition NewPublisher ::
    "'w git_env \<Rightarrow> string \<Rightarrow> string \<Rightarrow> string \<Rightarrow> bool \<Rightarrow> string list \<Rightarrow> 'w \<Rightarrow> string + Publisher" where
  "NewPublisher env repoPath authorName authorEmail pushEnabled remoteName w =
     (if repoPath = [] then Inl ''worktree: repoPath is required''
      else if \<not> isGitRepo env repoPath w then Inl (''worktree: path is not a git repo: '' @ repoPath)
      else Inr \<lparr>pb_repoPath = repoPath,
                pb_authorName = (if authorName = [] then ''zen-brain1'' else authorName),
                pb_authorEmail = (if authorEmail = [] then ''zen-brain1@kube-zen.io'' else authorEmail),
                pb_remoteName = (case remoteName of [] \<Rightarrow> ''origin'' | r # _ \<Rightarrow> if r = [] then ''origin'' else r),
                pb_pushEnabled = pushEnabled\<rparr>)"

definition CreateBranch :: "'w git_env \<Rightarrow> Publisher \<Rightarrow> string \<Rightarrow> string \<Rightarrow> 'w \<Rightarrow> 'w \<times> string option" where
  "CreateBranch env p branchName baseRef w =
     (case ge_git env [''-C'', pb_repoPath p, ''checkout'', ''-b'', branchName,
                       if baseRef = [] then ''HEAD'' else baseRef] w of
        (w', Inl out) \<Rightarrow> (w', Some (''create branch '' @ branchName @ '': '' @ out))
      | (w', Inr _) \<Rightarrow> (w', None))"

fun stage_files :: "'w git_env \<Rightarrow> Publisher \<Rightarrow> string list \<Rightarrow> 'w \<Rightarrow> 'w \<times> string option" where
  "stage_files env p [] w = (w, None)"
| "stage_files env p (f # fs) w =
     (if ge_stat env (path_join [pb_repoPath p, f]) w = StatNotExist then (w, Some (''file not found: '' @ f))
      else case ge_git env [''-C'', pb_repoPath p, ''add'', ''--'', f] w of
             (w', Inl out) \<Rightarrow> (w', Some (''git add '' @ f @ '': '' @ out))
           | (w', Inr _) \<Rightarrow> stage_files env p fs w')"

definition author_env :: "Publisher \<Rightarrow> string list" where
  "author_env p =
     [''GIT_AUTHOR_NAME='' @ pb_authorName p, ''GIT_AUTHOR_EMAIL='' @ pb_authorEmail p,
      ''GIT_COMMITTER_NAME='' @ pb_authorName p, ''GIT_COMMITTER_EMAIL='' @ pb_authorEmail p]"

definition CommitChanges :: "'w git_env \<Rightarrow> Publisher \<Rightarrow> string list \<Rightarrow> string \<Rightarrow> 'w \<Rightarrow> 'w \<times> (string + string)" where
  "CommitChanges env p files message w =
     (case stage_files env p files w of
        (w1, Some e) \<Rightarrow> (w1, Inl e)
      | (w1, None) \<Rightarrow>
          (case ge_git_with env (author_env p) [''-C'', pb_repoPath p, ''commit'', ''--no-verify'', ''-m'', message] w1 of
             (w2, Inl out) \<Rightarrow> (w2, Inl (''git commit: '' @ out))
           | (w2, Inr _) \<Rightarrow>
               (case ge_git env [''-C'', pb_repoPath p, ''rev-parse'', ''HEAD''] w2 of
                  (w3, Inl _) \<Rightarrow> (w3, Inl ''get commit SHA'')
                | (w3, Inr out) \<Rightarrow> (w3, Inr (trim_space out)))))"

definition PushBranch :: "'w git_env \<Rightarrow> Publisher \<Rightarrow> string \<Rightarrow> 'w \<Rightarrow> 'w \<times> (string + string)" where
  "PushBranch env p branchName w =
     (if \<not> pb_pushEnabled p then (w, Inl ''git push disabled'')
      else case ge_git env [''-C'', pb_repoPath p, ''push'', ''-u'', pb_remoteName p, branchName] w of
             (w', Inl out) \<Rightarrow> (w', Inl (''git push '' @ branchName @ '': '' @ out))
           | (w', Inr _) \<Rightarrow> (w', Inr (pb_remoteName p @ ''/'' @ branchName)))"

definition GetChangedFiles :: "'w git_env \<Rightarrow> Publisher \<Rightarrow> string \<Rightarrow> 'w \<Rightarrow> 'w \<times> (string + string list)" where
  "GetChangedFiles env p baseRef w =
     (case ge_git env [''-C'', pb_repoPath p, ''diff'', ''--name-only'', baseRef] w of
        (w', Inl _) \<Rightarrow> (w', Inl ''git diff --name-only'')
      | (w', Inr out) \<Rightarrow> (w', Inr (filter (\<lambda>f. f \<noteq> []) (split_at newline (trim_space out)))))"

definition WriteDiffStat :: "'w git_env \<Rightarrow> Publisher \<Rightarrow> string \<Rightarrow> string \<Rightarrow> 'w \<Rightarrow> 'w \<times> bool" where
  "WriteDiffStat env p baseRef outputPath w =
     (case ge_git env [''-C'', pb_repoPath p, ''diff'', ''--stat'', baseRef] w of
        (w', Inl _) \<Rightarrow> (w', False)
      | (w', Inr out) \<Rightarrow> ge_write env outputPath out w')"

subsection \<open>Sanitised names\<close>

lemma replace_unsafe_safe: "list_all safe_char (replace_unsafe s)"
  by (induction s rule: replace_unsafe.induct) (auto simp: safe_char_def)

lemma replace_unsafe_id: "list_all safe_char s \<Longrightarrow> replace_unsafe s = s"
  by (induction s rule: replace_unsafe.induct) auto

lemma set_trim_dashes: "set (trim_dashes s) \<subseteq> set s"
  unfolding trim_dashes_def Let_def by (auto dest!: set_dropWhileD)

lemma sanitized_safe: "list_all safe_char (sanitizeBranchPart s)"
  using replace_unsafe_safe [of "trim_space s"] set_trim_dashes [of "replace_unsafe (trim_space s)"]
  by (auto simp: sanitizeBranchPart_def Let_def list_all_iff dest: in_set_takeD)

lemma sanitized_length: "length (sanitizeBranchPart s) \<le> 64"
  by (simp add: sanitizeBranchPart_def Let_def)

lemma safe_proper: "list_all safe_char s \<Longrightarrow> s \<noteq> [] \<Longrightarrow> proper s \<and> \<not> has_prefix s ''..''"
  by (cases s) (auto simp: proper_def list_all_iff safe_char_def Let_def)

definition worktree_names :: "string \<Rightarrow> string \<Rightarrow> string list" where
  "worktree_names taskID sessionID =
     [if sanitizeBranchPart sessionID = [] then ''default'' else sanitizeBranchPart sessionID,
      if sanitizeBranchPart taskID = [] then ''task'' else sanitizeBranchPart taskID]"

lemma worktree_names_proper:
  "list_all (\<lambda>n. proper n \<and> \<not> has_prefix n ''..'') (worktree_names t s)"
  using safe_proper [OF sanitized_safe [of s]] safe_proper [OF sanitized_safe [of t]]
  by (simp add: worktree_names_def proper_def)

lemma worktree_path_inside:
  assumes "IsAbs (gm_BasePath cfg)"
  shows "absolute cwd (worktree_path cfg t s) = Some (path_of True (components (gm_BasePath cfg) @ worktree_names t s))"
    and "wt_isPathWithinRoot (path_of True (components (gm_BasePath cfg) @ worktree_names t s)) (gm_BasePath cfg)"
proof -
  have pr: "list_all proper (components (gm_BasePath cfg) @ worktree_names t s)"
    using components_proper [OF assms] worktree_names_proper [of t s] by (auto simp: list_all_iff)
  have p: "worktree_path cfg t s = path_of True (components (gm_BasePath cfg) @ worktree_names t s)"
    using worktree_names_proper [of t s]
    by (simp add: worktree_path_def worktree_names_def Let_def path_join3 [OF assms] del: split_paired_All)
  then show "absolute cwd (worktree_path cfg t s) = Some (path_of True (components (gm_BasePath cfg) @ worktree_names t s))"
    using pr by (simp add: absolute_rooted)
  obtain a b where ab: "worktree_names t s = [a, b]" "proper a" "\<not> has_prefix a ''..''"
    using worktree_names_proper [of t s] by (simp add: worktree_names_def)
  have "Rel (gm_BasePath cfg) (path_of True (components (gm_BasePath cfg) @ worktree_names t s)) = Some (join_at slash [a, b])"
    using assms pr ab by (simp add: Rel_def del: join_at.simps)
  moreover have "\<not> has_prefix (join_at slash [a, b]) ''..''"
    using ab join_at_dots [of a "[b]"] by (simp add: proper_def del: join_at.simps)
  ultimately show "wt_isPathWithinRoot (path_of True (components (gm_BasePath cfg) @ worktree_names t s)) (gm_BasePath cfg)"
    by (auto simp: wt_isPathWithinRoot_def has_prefix_iff simp del: join_at.simps)
qed

text \<open>
  A worktree never escapes the base path. With a base path that is absolute (as NewGitManager makes it),
  whatever IDs a task and its session have: preparing their worktree never fails with the error that it would
  escape, and when it succeeds the worktree is the base path followed by two names of at most 64 letters,
  digits, dashes and underscores. The names are not unique to the task: two tasks have the same worktree
  exactly when their sanitised IDs agree.
\<close>

theorem worktree_contained:
  assumes "IsAbs (gm_BasePath cfg)" "snd (Prepare env cwd cfg task session w) = Inr (path, cleanup)"
  shows "components path = components (gm_BasePath cfg) @ worktree_names task session
         \<and> list_all (\<lambda>n. list_all safe_char n \<and> length n \<le> 64) (worktree_names task session)
         \<and> snd (Prepare env cwd cfg t s w') \<noteq> Inl (EscapesBasePath q)
         \<and> (worktree_path cfg task session = worktree_path cfg t s)
           = (worktree_names task session = worktree_names t s)"
proof -
  note wp = worktree_path_inside [OF assms(1)]
  have pr: "list_all proper (components (gm_BasePath cfg) @ worktree_names t s)" for t s
    using components_proper [OF assms(1)] worktree_names_proper [of t s] by (auto simp: list_all_iff)
  have "path = path_of True (components (gm_BasePath cfg) @ worktree_names task session)"
    using assms(2) wp(1) [of cwd task session]
    by (auto simp: Prepare_def split: if_splits prod.splits bool.splits sum.splits)
  then have "components path = components (gm_BasePath cfg) @ worktree_names task session"
    using pr by simp
  moreover have "list_all (\<lambda>n. list_all safe_char n \<and> length n \<le> 64) (worktree_names task session)"
    using sanitized_safe sanitized_length by (auto simp: worktree_names_def safe_char_def)
  moreover have "snd (Prepare env cwd cfg t s w') \<noteq> Inl (EscapesBasePath q)"
    using wp(1) [of cwd t s] wp(2) [of t s]
    by (auto simp: Prepare_def split: prod.splits bool.splits sum.splits)
  moreover have "worktree_path cfg task session = worktree_path cfg t s \<longleftrightarrow> worktree_names task session = worktree_names t s"
    using wp(1) [of "Some []" task session] wp(1) [of "Some []" t s] path_of_inject [OF pr pr, of task session t s]
    by (metis worktree_path_def worktree_names_def append_same_eq option.inject same_append_eq)
  ultimately show ?thesis by blast
qed

definition idle_git :: "unit git_env" where
  "idle_git =
     \<lparr>ge_git = (\<lambda>_ w. (w, Inr [])), ge_git_with = (\<lambda>_ _ w. (w, Inr [])), ge_stat = (\<lambda>_ _. StatOk), ge_isDir = (\<lambda>_ _. True), ge_mkdir = (\<lambda>_ w. (w, True)),
      ge_write = (\<lambda>_ _ w. (w, True)), ge_remove = (\<lambda>_ w. w), ge_removeAll = (\<lambda>_ w. w), ge_clock = (\<lambda>_ _. 0),
      ge_rfc3339 = (\<lambda>_. [])\<rparr>"

definition example_git :: GitManagerConfig where
  "example_git =
     \<lparr>gm_RepoPath = ''/repo'', gm_BasePath = ''/wt'', gm_DefaultRef = ''HEAD'', gm_BranchPrefix = ''ai'',
      gm_ReuseSessionWT = False\<rparr>"

theorem worktree_contained_witness:
  "(worktree_path example_git ''a.b'' ''s'' = worktree_path example_git ''a-b'' ''s'')
   = (worktree_names ''a.b'' ''s'' = worktree_names ''a-b'' ''s'')"
proof -
  have abs: "IsAbs (gm_BasePath example_git)" by (simp add: example_git_def IsAbs_def)
  note wp = worktree_path_inside [OF abs]
  have "snd (Prepare idle_git None example_git ''a.b'' ''s'' ())
      = Inr (path_of True (components (gm_BasePath example_git) @ worktree_names ''a.b'' ''s''),
             cleanupFn idle_git example_git
               (path_of True (components (gm_BasePath example_git) @ worktree_names ''a.b'' ''s'')))"
    using wp(1) [of None "''a.b''" "''s''"] wp(2) [of "''a.b''" "''s''"]
    by (simp add: Prepare_def idle_git_def isGitRepo_def)
  from worktree_contained [OF abs this] show ?thesis by blast
qed

text \<open>Two tasks whose IDs differ in a dot share a worktree.\<close>

lemma worktree_shared: "worktree_names ''a.b'' ''s'' = worktree_names ''a-b'' ''s''"
  by (simp add: worktree_names_def sanitizeBranchPart_def trim_space_def drop_runes.simps rune_at_def space_runes_def
      safe_char_def rune_len_def cont_byte_def trim_dashes_def)

text \<open>The lock of a workspace that is a worktree keeps nobody out: it is granted again while it is held.\<close>

lemma git_lock_granted_twice:
  assumes "\<And>path text w. snd (ge_write env path text w) = True"
  shows "case git_LockWorkspace env path w of (w1, ok1) \<Rightarrow> ok1 \<and> snd (git_LockWorkspace env path w1)"
  using assms by (simp add: git_LockWorkspace_def split: prod.split) (metis snd_conv)

end
