(* ===== verification/Memory_Tiers.thy ===== *)
theory Memory_Tiers
  imports Session_Manager OS_View
begin

text \<open>
  The memory of agents (\<open>pkg/context/interface.go\<close>): session contexts in three tiers, the hot tier on Redis
  (\<open>internal/context/tier1/redis.go\<close>), the warm one on a knowledge base (\<open>tier2/qmd_store.go\<close>), the cold one
  on S3 (\<open>tier3/s3.go\<close>), and their composition with the reconstruction of sessions
  (\<open>internal/context/composite.go\<close>, \<open>journal_adapter.go\<close>).

  The clients of Redis, S3 and the knowledge base, JSON, gzip and the formats of times are parameters; they
  act on a world \<open>'w\<close>. \<open>clk w i\<close> is the \<open>i\<close>-th reading of the clock in a call that starts in the world \<open>w\<close>.
  An error is its text. The entries of the journal are of any type \<open>'e\<close>.
\<close>

subsection \<open>Sessions and stores\<close>

record 'e memory_session = SessionContext +
  sc_JournalEntries :: "'e list"

record memory_query =
  mq_Query :: string
  mq_Scopes :: "string list"
  mq_Limit :: int
  mq_MinSimilarity :: float64
  mq_ClusterID :: string
  mq_ProjectID :: string

text \<open>
  The interface \<open>Store\<close> of a tier. A store may change the session it is given to store (it gets a
  pointer), so it returns it.
\<close>

record ('w, 'e) tier_store =
  ts_Get :: "string \<Rightarrow> string \<Rightarrow> 'w \<Rightarrow> 'w \<times> (string + 'e memory_session option)"
  ts_Store :: "string \<Rightarrow> 'e memory_session \<Rightarrow> 'w \<Rightarrow> 'w \<times> 'e memory_session \<times> string option"
  ts_Delete :: "string \<Rightarrow> string \<Rightarrow> 'w \<Rightarrow> 'w \<times> string option"
  ts_QueryKnowledge :: "memory_query \<Rightarrow> 'w \<Rightarrow> 'w \<times> (string + KnowledgeChunk list)"
  ts_StoreKnowledge :: "KnowledgeChunk list \<Rightarrow> 'w \<Rightarrow> 'w \<times> string option"

record 'e memory_codec =
  md_marshal :: "'e memory_session \<Rightarrow> string + string"
  md_unmarshal :: "string \<Rightarrow> string + 'e memory_session"
  md_rfc3339nano :: "time \<Rightarrow> string"
  md_rfc3339 :: "time \<Rightarrow> string"

subsection \<open>Tier 1\<close>

record 'w redis_ops =
  rd_Get :: "string \<Rightarrow> 'w \<Rightarrow> 'w \<times> (string + string)"
  rd_Set :: "string \<Rightarrow> string \<Rightarrow> duration \<Rightarrow> 'w \<Rightarrow> 'w \<times> string option"
  rd_Delete :: "string list \<Rightarrow> 'w \<Rightarrow> 'w \<times> string option"
  rd_HSet :: "string \<Rightarrow> (string \<times> string) list \<Rightarrow> 'w \<Rightarrow> 'w \<times> string option"

record redis_config =
  rc_KeyPrefix :: string
  rc_DefaultTTL :: duration
  rc_LockTimeout :: duration
  rc_ClusterID :: string

text \<open>\<open>NewStore\<close> after the connection has been tested.\<close>

definition tier1_config :: "redis_config \<Rightarrow> redis_config" where
  "tier1_config c =
     (let c1 = (if rc_KeyPrefix c = [] then c\<lparr>rc_KeyPrefix := ''zen:ctx''\<rparr> else c);
          c2 = (if rc_DefaultTTL c1 = 0 then c1\<lparr>rc_DefaultTTL := 30 * minute\<rparr> else c1)
      in if rc_LockTimeout c2 = 0 then c2\<lparr>rc_LockTimeout := 5 * second\<rparr> else c2)"

definition redis_key :: "redis_config \<Rightarrow> string \<Rightarrow> string \<Rightarrow> string \<Rightarrow> string" where
  "redis_key c cluster sessionID suffix =
     rc_KeyPrefix c @ '':'' @ cluster @ '':'' @ sessionID @ '':'' @ suffix"

definition sessionKey :: "redis_config \<Rightarrow> string \<Rightarrow> string \<Rightarrow> string" where
  "sessionKey c cluster sessionID = redis_key c cluster sessionID ''state''"

definition scratchpadKey :: "redis_config \<Rightarrow> string \<Rightarrow> string \<Rightarrow> string" where
  "scratchpadKey c cluster sessionID = redis_key c cluster sessionID ''scratchpad''"

definition metaKey :: "redis_config \<Rightarrow> string \<Rightarrow> string \<Rightarrow> string" where
  "metaKey c cluster sessionID = redis_key c cluster sessionID ''meta''"

definition tasksKey :: "redis_config \<Rightarrow> string \<Rightarrow> string \<Rightarrow> string" where
  "tasksKey c cluster sessionID = redis_key c cluster sessionID ''tasks''"

definition heartbeatKey :: "redis_config \<Rightarrow> string \<Rightarrow> string \<Rightarrow> string" where
  "heartbeatKey c cluster sessionID = redis_key c cluster sessionID ''heartbeat''"

definition lockKey :: "redis_config \<Rightarrow> string \<Rightarrow> string \<Rightarrow> string" where
  "lockKey c cluster sessionID = redis_key c cluster sessionID ''lock''"

definition containsMiddle :: "string \<Rightarrow> string \<Rightarrow> bool" where
  "containsMiddle s sub = list_ex (\<lambda>i. take (length sub) (drop i s) = sub) [0..<Suc (length s - length sub)]"

definition tier1_contains :: "string \<Rightarrow> string \<Rightarrow> bool" where
  "tier1_contains s sub \<longleftrightarrow>
     length sub \<le> length s
     \<and> (s = sub
        \<or> length sub < length s
          \<and> (take (length sub) s = sub \<or> drop (length s - length sub) s = sub \<or> containsMiddle s sub))"

definition isRedisNil :: "string \<Rightarrow> bool" where
  "isRedisNil errStr \<longleftrightarrow>
     errStr = ''redis: nil'' \<or> errStr = ''nil'' \<or> tier1_contains errStr ''key not found''
     \<or> tier1_contains errStr ''does not exist''"

text \<open>What the Redis library answers, and the client over it: a missing key is the empty text.\<close>

datatype redis_reply = RValue string | RNil | RError string

definition goRedis_Get :: "(string \<Rightarrow> 'w \<Rightarrow> 'w \<times> redis_reply) \<Rightarrow> string \<Rightarrow> 'w \<Rightarrow> 'w \<times> (string + string)" where
  "goRedis_Get lib key w =
     (case lib key w of
        (w', RNil) \<Rightarrow> (w', Inr '''')
      | (w', RError e) \<Rightarrow> (w', Inl e)
      | (w', RValue v) \<Rightarrow> (w', Inr v))"

definition tier1_Get ::
    "'w redis_ops \<Rightarrow> 'e memory_codec \<Rightarrow> ('w \<Rightarrow> clock) \<Rightarrow> redis_config \<Rightarrow> string \<Rightarrow> string \<Rightarrow> 'w
     \<Rightarrow> 'w \<times> (string + 'e memory_session option)" where
  "tier1_Get rd cd clk c cluster sessionID w =
     (if sessionID = [] then (w, Inl ''sessionID is required'')
      else case rd_Get rd (sessionKey c cluster sessionID) w of
             (w1, Inl e) \<Rightarrow>
               if isRedisNil e then (w1, Inr None) else (w1, Inl (''Redis Get failed: '' @ e))
           | (w1, Inr data) \<Rightarrow>
               (case md_unmarshal cd data of
                  Inl e \<Rightarrow> (w1, Inl (''failed to unmarshal session context: '' @ e))
                | Inr sessionCtx \<Rightarrow>
                    (fst (rd_HSet rd (metaKey c cluster sessionID)
                            [(''last_accessed'', md_rfc3339nano cd (clk w 1))] w1),
                     Inr (Some (sessionCtx\<lparr>sc_LastAccessedAt := clk w 0\<rparr>)))))"

definition tier1_Store ::
    "'w redis_ops \<Rightarrow> 'e memory_codec \<Rightarrow> ('w \<Rightarrow> clock) \<Rightarrow> redis_config \<Rightarrow> string \<Rightarrow> 'e memory_session \<Rightarrow> 'w
     \<Rightarrow> 'w \<times> 'e memory_session \<times> string option" where
  "tier1_Store rd cd clk c cluster session0 w =
     (if sc_SessionID session0 = [] then (w, session0, Some ''session.SessionID is required'')
      else
        let session = session0\<lparr>sc_LastAccessedAt := clk w 0\<rparr>
        in case md_marshal cd session of
             Inl e \<Rightarrow> (w, session, Some (''failed to marshal session context: '' @ e))
           | Inr data \<Rightarrow>
               (case rd_Set rd (sessionKey c cluster (sc_SessionID session)) data (rc_DefaultTTL c) w of
                  (w1, Some e) \<Rightarrow> (w1, session, Some (''Redis Set failed: '' @ e))
                | (w1, None) \<Rightarrow>
                    (fst (rd_HSet rd (metaKey c cluster (sc_SessionID session))
                            [(''created_at'', md_rfc3339nano cd (sc_CreatedAt session)),
                             (''last_accessed'', md_rfc3339nano cd (sc_LastAccessedAt session)),
                             (''task_id'', sc_TaskID session), (''project_id'', sc_ProjectID session)] w1),
                     session, None)))"

definition tier1_Delete ::
    "'w redis_ops \<Rightarrow> redis_config \<Rightarrow> string \<Rightarrow> string \<Rightarrow> 'w \<Rightarrow> 'w \<times> string option" where
  "tier1_Delete rd c cluster sessionID w =
     (if sessionID = [] then (w, Some ''sessionID is required'')
      else case rd_Delete rd
                  (map (\<lambda>k. k c cluster sessionID)
                     [sessionKey, scratchpadKey, metaKey, tasksKey, heartbeatKey, lockKey]) w of
             (w', Some e) \<Rightarrow> (w', Some (''Redis Delete failed: '' @ e))
           | (w', None) \<Rightarrow> (w', None))"

definition tier1 ::
    "'w redis_ops \<Rightarrow> 'e memory_codec \<Rightarrow> ('w \<Rightarrow> clock) \<Rightarrow> redis_config \<Rightarrow> ('w, 'e) tier_store" where
  "tier1 rd cd clk c =
     \<lparr>ts_Get = tier1_Get rd cd clk c, ts_Store = tier1_Store rd cd clk c, ts_Delete = tier1_Delete rd c,
      ts_QueryKnowledge = (\<lambda>_ w. (w, Inl ''architectural boundary: QueryKnowledge not supported in Tier 1 (Redis hot cache) - use Tier 2 (QMD knowledge store)'')),
      ts_StoreKnowledge = (\<lambda>_ w. (w, Some ''architectural boundary: StoreKnowledge not supported in Tier 1 (Redis hot cache) - use Tier 2 (QMD knowledge store)''))\<rparr>"

text \<open>The other keys of a session: scratchpad, tasks (a list in JSON) and heartbeat.\<close>

definition StoreScratchpad ::
    "'w redis_ops \<Rightarrow> redis_config \<Rightarrow> string \<Rightarrow> string \<Rightarrow> string \<Rightarrow> 'w \<Rightarrow> 'w \<times> string option" where
  "StoreScratchpad rd c cluster sessionID data w =
     (case rd_Set rd (scratchpadKey c cluster sessionID) data (rc_DefaultTTL c) w of
        (w', Some e) \<Rightarrow> (w', Some (''failed to store scratchpad: '' @ e))
      | (w', None) \<Rightarrow> (w', None))"

definition get_or_nil :: "'w redis_ops \<Rightarrow> string \<Rightarrow> string \<Rightarrow> 'w \<Rightarrow> 'w \<times> (string + string option)" where
  "get_or_nil rd what key w =
     (case rd_Get rd key w of
        (w', Inl e) \<Rightarrow> (w', if isRedisNil e then Inr None else Inl (''failed to retrieve '' @ what @ '': '' @ e))
      | (w', Inr data) \<Rightarrow> (w', Inr (Some data)))"

definition GetScratchpad ::
    "'w redis_ops \<Rightarrow> redis_config \<Rightarrow> string \<Rightarrow> string \<Rightarrow> 'w \<Rightarrow> 'w \<times> (string + string option)" where
  "GetScratchpad rd c cluster sessionID w = get_or_nil rd ''scratchpad'' (scratchpadKey c cluster sessionID) w"

definition StoreTasks ::
    "'w redis_ops \<Rightarrow> (string list \<Rightarrow> string + string) \<Rightarrow> redis_config \<Rightarrow> string \<Rightarrow> string \<Rightarrow> string list \<Rightarrow> 'w
     \<Rightarrow> 'w \<times> string option" where
  "StoreTasks rd marshal c cluster sessionID tasks w =
     (case marshal tasks of
        Inl e \<Rightarrow> (w, Some (''failed to marshal tasks: '' @ e))
      | Inr data \<Rightarrow>
          (case rd_Set rd (tasksKey c cluster sessionID) data (rc_DefaultTTL c) w of
             (w', Some e) \<Rightarrow> (w', Some (''failed to store tasks: '' @ e))
           | (w', None) \<Rightarrow> (w', None)))"

definition GetTasks ::
    "'w redis_ops \<Rightarrow> (string \<Rightarrow> string + string list) \<Rightarrow> redis_config \<Rightarrow> string \<Rightarrow> string \<Rightarrow> 'w
     \<Rightarrow> 'w \<times> (string + string list)" where
  "GetTasks rd unmarshal c cluster sessionID w =
     (case get_or_nil rd ''tasks'' (tasksKey c cluster sessionID) w of
        (w', Inl e) \<Rightarrow> (w', Inl e)
      | (w', Inr None) \<Rightarrow> (w', Inr [])
      | (w', Inr (Some data)) \<Rightarrow>
          (w', case unmarshal data of Inl e \<Rightarrow> Inl (''failed to unmarshal tasks: '' @ e) | Inr tasks \<Rightarrow> Inr tasks))"

definition redis_UpdateHeartbeat ::
    "'w redis_ops \<Rightarrow> (time \<Rightarrow> string) \<Rightarrow> ('w \<Rightarrow> clock) \<Rightarrow> redis_config \<Rightarrow> string \<Rightarrow> string \<Rightarrow> 'w
     \<Rightarrow> 'w \<times> string option" where
  "redis_UpdateHeartbeat rd rfc3339nano clk c cluster sessionID w =
     (case rd_Set rd (heartbeatKey c cluster sessionID) (rfc3339nano (clk w 0)) (1 * minute) w of
        (w', Some e) \<Rightarrow> (w', Some (''failed to update heartbeat: '' @ e))
      | (w', None) \<Rightarrow> (w', None))"

definition redis_GetHeartbeat ::
    "'w redis_ops \<Rightarrow> (string \<Rightarrow> string + time) \<Rightarrow> redis_config \<Rightarrow> string \<Rightarrow> string \<Rightarrow> 'w \<Rightarrow> 'w \<times> (string + time)" where
  "redis_GetHeartbeat rd parse c cluster sessionID w =
     (case get_or_nil rd ''heartbeat'' (heartbeatKey c cluster sessionID) w of
        (w', Inl e) \<Rightarrow> (w', Inl e)
      | (w', Inr None) \<Rightarrow> (w', Inr 0)
      | (w', Inr (Some data)) \<Rightarrow> (w', parse data))"

subsection \<open>Tier 2\<close>

record DocumentRef =
  dr_Path :: string
  dr_Title :: string
  dr_Domain :: string

record SearchResult =
  srch_Doc :: DocumentRef
  srch_Snippet :: string
  srch_Score :: float64

text \<open>The search of the knowledge base: query, limit and scopes.\<close>

type_synonym 'w kb_search = "string \<Rightarrow> int \<Rightarrow> string list \<Rightarrow> 'w \<Rightarrow> 'w \<times> (string + SearchResult list)"

definition similarity_of :: "float64 \<Rightarrow> float64" where
  "similarity_of score =
     (if fgt score (Fin 0) then (if fgt score (Fin 1) then Fin 1 else score) else round64 (7 / 10))"

definition convertToKnowledgeChunk :: "time \<Rightarrow> time \<Rightarrow> SearchResult \<Rightarrow> KnowledgeChunk" where
  "convertToKnowledgeChunk idTime now result =
     (let doc = srch_Doc result
      in \<lparr>kc_ID = ''kb-'' @ dr_Path doc @ ''-'' @ itoa (idTime - 62135596800 * second),
          kc_Scope = (if dr_Domain doc = [] then ''general'' else dr_Domain doc),
          kc_Content = srch_Snippet result, kc_SourcePath = dr_Path doc,
          kc_HeadingPath = (if dr_Title doc = [] then [] else [dr_Title doc]),
          kc_SimilarityScore = similarity_of (srch_Score result), kc_RetrievedAt = now\<rparr>)"

fun convert_results :: "clock \<Rightarrow> nat \<Rightarrow> SearchResult list \<Rightarrow> KnowledgeChunk list" where
  "convert_results clk i [] = []"
| "convert_results clk i (r # rs) =
     convertToKnowledgeChunk (clk (2 * i)) (clk (2 * i + 1)) r # convert_results clk (Suc i) rs"

definition tier2_QueryKnowledge ::
    "'w kb_search \<Rightarrow> ('w \<Rightarrow> clock) \<Rightarrow> memory_query \<Rightarrow> 'w \<Rightarrow> 'w \<times> (string + KnowledgeChunk list)" where
  "tier2_QueryKnowledge search clk q w =
     (case search (mq_Query q) (mq_Limit q) (mq_Scopes q) w of
        (w', Inl e) \<Rightarrow> (w', Inl (''knowledge search failed: '' @ e))
      | (w', Inr results) \<Rightarrow>
          (w', let chunks = convert_results (clk w') 0 results
               in Inr (if fgt (mq_MinSimilarity q) (Fin 0)
                       then filter (\<lambda>c. fge (kc_SimilarityScore c) (mq_MinSimilarity q)) chunks
                       else chunks)))"

definition tier2 :: "'w kb_search \<Rightarrow> ('w \<Rightarrow> clock) \<Rightarrow> ('w, 'e) tier_store" where
  "tier2 search clk =
     \<lparr>ts_Get = (\<lambda>_ _ w. (w, Inr None)),
      ts_Store = (\<lambda>_ session w. (w, session, Some ''StoreSessionContext not supported for Tier 2 (knowledge store)'')),
      ts_Delete = (\<lambda>_ _ w. (w, None)),
      ts_QueryKnowledge = tier2_QueryKnowledge search clk,
      ts_StoreKnowledge = (\<lambda>_ w. (w, None))\<rparr>"

subsection \<open>Tier 3\<close>

record 'w s3_ops =
  so3_Put :: "string \<Rightarrow> string \<Rightarrow> string \<Rightarrow> (string \<times> string) list \<Rightarrow> 'w \<Rightarrow> 'w \<times> string option"
  so3_Get :: "string \<Rightarrow> 'w \<Rightarrow> 'w \<times> (string + string)"
  so3_Delete :: "string \<Rightarrow> 'w \<Rightarrow> 'w \<times> string option"
  so3_Exists :: "string \<Rightarrow> 'w \<Rightarrow> 'w \<times> (string + bool)"

text \<open>
  The bucket is a matter of the client. Compression is always on, since the constructor sets it when it is
  off. \<open>s3_date\<close> is the year, month and day of a time in the time zone of the process.
\<close>

record s3_config =
  s3_KeyPrefix :: string
  s3_RetentionDays :: int
  s3_compress :: "string \<Rightarrow> string + string"
  s3_decompress :: "string \<Rightarrow> string + string"
  s3_date :: "time \<Rightarrow> nat \<times> nat \<times> nat"

definition pad_zeros :: "nat \<Rightarrow> nat \<Rightarrow> string" where
  "pad_zeros width n = replicate (width - length (digits_of n)) (CHR ''0'') @ digits_of n"

definition dated_key :: "s3_config \<Rightarrow> string \<Rightarrow> string \<Rightarrow> string \<Rightarrow> string \<Rightarrow> time \<Rightarrow> string" where
  "dated_key c kind cluster name ext now =
     (case s3_date c now of
        (year, month, day) \<Rightarrow>
          s3_KeyPrefix c @ kind @ cluster @ ''/'' @ pad_zeros 4 year @ ''/'' @ pad_zeros 2 month @ ''/''
          @ name @ ''-'' @ pad_zeros 4 year @ pad_zeros 2 month @ pad_zeros 2 day @ ext @ ''.gz'')"

definition tier3_sessionKey :: "s3_config \<Rightarrow> string \<Rightarrow> string \<Rightarrow> time \<Rightarrow> string" where
  "tier3_sessionKey c cluster sessionID now =
     dated_key c ''sessions/'' cluster (''session-'' @ sessionID) ''.json'' now"

definition tier3_scratchpadKey :: "s3_config \<Rightarrow> string \<Rightarrow> string \<Rightarrow> time \<Rightarrow> string" where
  "tier3_scratchpadKey c cluster sessionID now =
     dated_key c ''scratchpads/'' cluster (''scratchpad-'' @ sessionID) ''.bin'' now"

text \<open>Reads an object if it exists, decompressed.\<close>

definition get_object ::
    "'w s3_ops \<Rightarrow> s3_config \<Rightarrow> string \<Rightarrow> 'w \<Rightarrow> 'w \<times> (string + string option)" where
  "get_object s3 c key w =
     (case so3_Exists s3 key w of
        (w1, Inl e) \<Rightarrow> (w1, Inl (''failed to check object existence: '' @ e))
      | (w1, Inr False) \<Rightarrow> (w1, Inr None)
      | (w1, Inr True) \<Rightarrow>
          (case so3_Get s3 key w1 of
             (w2, Inl e) \<Rightarrow> (w2, Inl (''failed to get object: '' @ e))
           | (w2, Inr data) \<Rightarrow>
               (w2, case s3_decompress c data of
                      Inl e \<Rightarrow> Inl (''failed to decompress: '' @ e) | Inr raw \<Rightarrow> Inr (Some raw))))"

definition tier3_Get ::
    "'w s3_ops \<Rightarrow> 'e memory_codec \<Rightarrow> ('w \<Rightarrow> clock) \<Rightarrow> s3_config \<Rightarrow> string \<Rightarrow> string \<Rightarrow> 'w
     \<Rightarrow> 'w \<times> (string + 'e memory_session option)" where
  "tier3_Get s3 cd clk c cluster sessionID w =
     (if sessionID = [] then (w, Inl ''sessionID is required'')
      else case get_object s3 c (tier3_sessionKey c cluster sessionID (clk w 0)) w of
             (w', Inl e) \<Rightarrow> (w', Inl e)
           | (w', Inr None) \<Rightarrow> (w', Inr None)
           | (w', Inr (Some raw)) \<Rightarrow>
               (w', case md_unmarshal cd raw of
                      Inl e \<Rightarrow> Inl (''failed to unmarshal session context: '' @ e)
                    | Inr session \<Rightarrow> Inr (Some session)))"

definition tier3_Store ::
    "'w s3_ops \<Rightarrow> 'e memory_codec \<Rightarrow> ('w \<Rightarrow> clock) \<Rightarrow> s3_config \<Rightarrow> string \<Rightarrow> 'e memory_session \<Rightarrow> 'w
     \<Rightarrow> 'w \<times> 'e memory_session \<times> string option" where
  "tier3_Store s3 cd clk c cluster session w =
     (if sc_SessionID session = [] then (w, session, Some ''session.SessionID is required'')
      else case md_marshal cd session of
             Inl e \<Rightarrow> (w, session, Some (''failed to marshal session context: '' @ e))
           | Inr raw \<Rightarrow>
               (case s3_compress c raw of
                  Inl e \<Rightarrow> (w, session, Some (''failed to compress: '' @ e))
                | Inr data \<Rightarrow>
                    let metadata =
                      [(''session_id'', sc_SessionID session), (''cluster_id'', cluster),
                       (''task_id'', sc_TaskID session), (''project_id'', sc_ProjectID session),
                       (''created_at'', md_rfc3339 cd (sc_CreatedAt session)),
                       (''last_accessed'', md_rfc3339 cd (sc_LastAccessedAt session)),
                       (''agent_type'', sc_SessionID session), (''retention_days'', itoa (s3_RetentionDays c))]
                    in case so3_Put s3 (tier3_sessionKey c cluster (sc_SessionID session) (clk w 0)) data
                              ''application/gzip'' metadata w of
                         (w', Some e) \<Rightarrow> (w', session, Some (''failed to upload to S3: '' @ e))
                       | (w', None) \<Rightarrow> (w', session, None)))"

definition tier3_Delete ::
    "'w s3_ops \<Rightarrow> ('w \<Rightarrow> clock) \<Rightarrow> s3_config \<Rightarrow> string \<Rightarrow> string \<Rightarrow> 'w \<Rightarrow> 'w \<times> string option" where
  "tier3_Delete s3 clk c cluster sessionID w =
     (if sessionID = [] then (w, Some ''sessionID is required'')
      else case so3_Delete s3 (tier3_sessionKey c cluster sessionID (clk w 0)) w of
             (w', Some e) \<Rightarrow> (w', Some (''failed to delete object: '' @ e))
           | (w', None) \<Rightarrow> (w', None))"

definition tier3 ::
    "'w s3_ops \<Rightarrow> 'e memory_codec \<Rightarrow> ('w \<Rightarrow> clock) \<Rightarrow> s3_config \<Rightarrow> ('w, 'e) tier_store" where
  "tier3 s3 cd clk c =
     \<lparr>ts_Get = tier3_Get s3 cd clk c, ts_Store = tier3_Store s3 cd clk c, ts_Delete = tier3_Delete s3 clk c,
      ts_QueryKnowledge = (\<lambda>_ w. (w, Inl ''architectural boundary: QueryKnowledge not supported in Tier 3 (S3 cold storage) - use Tier 2 (QMD knowledge store)'')),
      ts_StoreKnowledge = (\<lambda>_ w. (w, Some ''architectural boundary: StoreKnowledge not supported in Tier 3 (S3 cold storage) - use Tier 2 (QMD knowledge store)''))\<rparr>"

definition tier3_StoreScratchpad ::
    "'w s3_ops \<Rightarrow> 'e memory_codec \<Rightarrow> ('w \<Rightarrow> clock) \<Rightarrow> s3_config \<Rightarrow> string \<Rightarrow> string \<Rightarrow> string \<Rightarrow> 'w
     \<Rightarrow> 'w \<times> string option" where
  "tier3_StoreScratchpad s3 cd clk c cluster sessionID raw w =
     (case s3_compress c raw of
        Inl e \<Rightarrow> (w, Some (''failed to compress: '' @ e))
      | Inr data \<Rightarrow>
          (case so3_Put s3 (tier3_scratchpadKey c cluster sessionID (clk w 0)) data ''application/gzip''
                  [(''session_id'', sessionID), (''cluster_id'', cluster), (''size'', itoa (int (length data))),
                   (''date'', md_rfc3339 cd (clk w 1))] w of
             (w', Some e) \<Rightarrow> (w', Some (''failed to upload scratchpad to S3: '' @ e))
           | (w', None) \<Rightarrow> (w', None)))"

definition tier3_GetScratchpad ::
    "'w s3_ops \<Rightarrow> ('w \<Rightarrow> clock) \<Rightarrow> s3_config \<Rightarrow> string \<Rightarrow> string \<Rightarrow> 'w \<Rightarrow> 'w \<times> (string + string option)" where
  "tier3_GetScratchpad s3 clk c cluster sessionID w =
     get_object s3 c (tier3_scratchpadKey c cluster sessionID (clk w 0)) w"

subsection \<open>The composite\<close>

datatype query_value =
    QString string | QInt int | QTime time | QEventType string | QSREDTag string | QOther

text \<open>The journal is asked with a map of options.\<close>

record ('w, 'e) composite =
  cm_hot :: "('w, 'e) tier_store"
  cm_warm :: "('w, 'e) tier_store option"
  cm_cold :: "('w, 'e) tier_store option"
  cm_journal :: "((string \<rightharpoonup> query_value) \<Rightarrow> 'w \<Rightarrow> 'w \<times> (string + 'e list)) option"

record ReMeRequest =
  rq_SessionID :: string
  rq_TaskID :: string
  rq_ClusterID :: string
  rq_ProjectID :: string

record 'e ReMeResponse =
  rp_SessionContext :: "'e memory_session"
  rp_JournalEntries :: "'e list"
  rp_ReconstructedAt :: time

definition cm_DeleteSessionContext ::
    "('w, 'e) composite \<Rightarrow> string \<Rightarrow> string \<Rightarrow> 'w \<Rightarrow> 'w \<times> string option" where
  "cm_DeleteSessionContext cm cluster sessionID w =
     (case ts_Delete (cm_hot cm) cluster sessionID w of
        (w1, e1) \<Rightarrow>
          (case (case cm_cold cm of None \<Rightarrow> (w1, None) | Some cold \<Rightarrow> ts_Delete cold cluster sessionID w1) of
             (w2, e2) \<Rightarrow>
               let errs = (case e1 of None \<Rightarrow> [] | Some e \<Rightarrow> [''Tier 1 delete failed: '' @ e])
                          @ (case e2 of
                               None \<Rightarrow> []
                             | Some e \<Rightarrow> if contains_str e ''not found'' then [] else [''Tier 3 delete failed: '' @ e])
               in (w2, if errs = [] then None else Some (''multiple delete errors: '' @ fmt_list errs))))"

definition cm_QueryKnowledge ::
    "('w, 'e) composite \<Rightarrow> memory_query \<Rightarrow> 'w \<Rightarrow> 'w \<times> (string + KnowledgeChunk list)" where
  "cm_QueryKnowledge cm q w =
     (case cm_warm cm of
        None \<Rightarrow> (w, Inl ''Tier 2 (Warm) store not configured'')
      | Some warm \<Rightarrow> ts_QueryKnowledge warm q w)"

definition cm_StoreKnowledge :: "('w, 'e) composite \<Rightarrow> KnowledgeChunk list \<Rightarrow> 'w \<Rightarrow> 'w \<times> string option" where
  "cm_StoreKnowledge cm chunks w =
     (case cm_warm cm of
        None \<Rightarrow> (w, Some ''Tier 2 (Warm) store not configured'')
      | Some warm \<Rightarrow> ts_StoreKnowledge warm chunks w)"

definition ArchiveSession ::
    "('w, 'e) composite \<Rightarrow> string \<Rightarrow> string \<Rightarrow> 'w \<Rightarrow> 'w \<times> string option" where
  "ArchiveSession cm cluster sessionID w =
     (case cm_cold cm of
        None \<Rightarrow> (w, Some ''Tier 3 (Cold) store not configured'')
      | Some cold \<Rightarrow>
          (case ts_Get (cm_hot cm) cluster sessionID w of
             (w1, Inl e) \<Rightarrow> (w1, Some (''failed to retrieve session from Tier 1: '' @ e))
           | (w1, Inr None) \<Rightarrow> (w1, Some (''session not found in Tier 1: '' @ sessionID))
           | (w1, Inr (Some session)) \<Rightarrow>
               (case ts_Store cold cluster session w1 of
                  (w2, _, Some e) \<Rightarrow> (w2, Some (''failed to archive to Tier 3: '' @ e))
                | (w2, _, None) \<Rightarrow> (fst (ts_Delete (cm_hot cm) cluster sessionID w2), None))))"

definition fresh_session :: "ReMeRequest \<Rightarrow> time \<Rightarrow> time \<Rightarrow> 'e memory_session" where
  "fresh_session req created accessed =
     \<lparr>sc_SessionID = rq_SessionID req, sc_TaskID = rq_TaskID req, sc_ClusterID = rq_ClusterID req,
      sc_ProjectID = rq_ProjectID req, sc_CreatedAt = created, sc_LastAccessedAt = accessed, sc_State = '''',
      sc_RelevantKnowledge = [], sc_Scratchpad = '''', sc_JournalEntries = []\<rparr>"

definition journal_entries :: "('w, 'e) composite \<Rightarrow> string \<Rightarrow> 'w \<Rightarrow> 'w \<times> 'e list" where
  "journal_entries cm taskID w =
     (case cm_journal cm of
        None \<Rightarrow> (w, [])
      | Some query \<Rightarrow>
          if taskID = [] then (w, [])
          else (case query [''task_id'' \<mapsto> QString taskID, ''limit'' \<mapsto> QInt 100] w of
                  (w', Inl _) \<Rightarrow> (w', []) | (w', Inr entries) \<Rightarrow> (w', entries)))"

definition relevant_knowledge :: "('w, 'e) composite \<Rightarrow> ReMeRequest \<Rightarrow> 'w \<Rightarrow> 'w \<times> KnowledgeChunk list" where
  "relevant_knowledge cm req w =
     (case cm_warm cm of
        None \<Rightarrow> (w, [])
      | Some warm \<Rightarrow>
          if rq_TaskID req = [] then (w, [])
          else (case ts_QueryKnowledge warm
                       \<lparr>mq_Query = ''task: '' @ rq_TaskID req, mq_Scopes = [], mq_Limit = 5,
                        mq_MinSimilarity = Fin 0, mq_ClusterID = rq_ClusterID req,
                        mq_ProjectID = rq_ProjectID req\<rparr> w of
                  (w', Inl _) \<Rightarrow> (w', []) | (w', Inr chunks) \<Rightarrow> (w', chunks)))"

text \<open>The session of one tier, if it is found there without an error.\<close>

definition found :: "string + 'e memory_session option \<Rightarrow> 'e memory_session option" where
  "found r = (case r of Inr (Some s) \<Rightarrow> Some s | _ \<Rightarrow> None)"

definition from_cold :: "('w, 'e) composite \<Rightarrow> ReMeRequest \<Rightarrow> 'w \<Rightarrow> 'w \<times> 'e memory_session option" where
  "from_cold cm req w =
     (case cm_cold cm of
        None \<Rightarrow> (w, None)
      | Some cold \<Rightarrow> (case ts_Get cold (rq_ClusterID req) (rq_SessionID req) w of (w', r) \<Rightarrow> (w', found r)))"

definition ReconstructSession ::
    "('w \<Rightarrow> clock) \<Rightarrow> ('w, 'e) composite \<Rightarrow> ReMeRequest \<Rightarrow> 'w \<Rightarrow> 'w \<times> 'e ReMeResponse" where
  "ReconstructSession clk cm req w =
     (case ts_Get (cm_hot cm) (rq_ClusterID req) (rq_SessionID req) w of
        (w1, r1) \<Rightarrow>
          (case found r1 of
             Some s \<Rightarrow> (w1, \<lparr>rp_SessionContext = s, rp_JournalEntries = [], rp_ReconstructedAt = clk w1 0\<rparr>)
           | None \<Rightarrow>
               (case from_cold cm req w1 of
                  (w2, Some s) \<Rightarrow>
                    (case ts_Store (cm_hot cm) (rq_ClusterID req) s w2 of
                       (w3, s', _) \<Rightarrow>
                         (w3, \<lparr>rp_SessionContext = s', rp_JournalEntries = [], rp_ReconstructedAt = clk w3 0\<rparr>))
                | (w2, None) \<Rightarrow>
                    (case journal_entries cm (rq_TaskID req) w2 of
                       (w3, entries) \<Rightarrow>
                         (case relevant_knowledge cm req w3 of
                            (w4, chunks) \<Rightarrow>
                              (case ts_Store (cm_hot cm) (rq_ClusterID req)
                                      ((fresh_session req (clk w2 0) (clk w2 1))
                                        \<lparr>sc_RelevantKnowledge := chunks, sc_JournalEntries := entries\<rparr>) w4 of
                                 (w5, s', _) \<Rightarrow>
                                   (w5, \<lparr>rp_SessionContext = s', rp_JournalEntries = entries,
                                        rp_ReconstructedAt = clk w5 0\<rparr>)))))))"

subsection \<open>The journal as the composite sees it\<close>

definition query_text :: "query_value option \<Rightarrow> string \<Rightarrow> string" where
  "query_text v old = (case v of Some (QString s) \<Rightarrow> if s = [] then old else s | _ \<Rightarrow> old)"

definition convertFromMap :: "(string \<rightharpoonup> query_value) \<Rightarrow> QueryOptions" where
  "convertFromMap m =
     \<lparr>qo_EventType = (case m ''event_type'' of Some (QEventType v) \<Rightarrow> v | v \<Rightarrow> query_text v []),
      qo_CorrelationID = query_text (m ''correlation_id'') [],
      qo_TaskID = query_text (m ''task_id'') [],
      qo_SessionID = query_text (m ''session_id'') [],
      qo_ClusterID = query_text (m ''cluster_id'') [],
      qo_ProjectID = query_text (m ''project_id'') [],
      qo_SREDTag = (case m ''sred_tag'' of Some (QSREDTag v) \<Rightarrow> v | v \<Rightarrow> query_text v []),
      qo_Start = (case m ''start'' of Some (QTime t) \<Rightarrow> t | _ \<Rightarrow> 0),
      qo_End = (case m ''end'' of Some (QTime t) \<Rightarrow> t | _ \<Rightarrow> 0),
      qo_Limit = (case m ''limit'' of Some (QInt n) \<Rightarrow> if n > 0 then n else 100 | _ \<Rightarrow> 100),
      qo_OrderBy = query_text (m ''order_by'') []\<rparr>"

definition JournalAdapter_Query ::
    "(QueryOptions \<Rightarrow> 'w \<Rightarrow> 'w \<times> (string + Receipt list)) \<Rightarrow> (string \<rightharpoonup> query_value) \<Rightarrow> 'w
     \<Rightarrow> 'w \<times> (string + Receipt list)" where
  "JournalAdapter_Query query opts w =
     (case query (convertFromMap opts) w of
        (w', Inl e) \<Rightarrow> (w', Inl (''journal query failed: '' @ e))
      | (w', Inr receipts) \<Rightarrow> (w', Inr receipts))"

end
