(* ===== verification/Memory_Properties.thy ===== *)
theory Memory_Properties
  imports Memory_Tiers
begin

text \<open>
  What the tiers remember: keys, the search for a substring, archiving and reconstruction of sessions.

  The services below are parameters; what is assumed of S3 is \<open>s3_contract\<close> over the objects it holds.
\<close>

subsection \<open>Keys of Redis\<close>

text \<open>\<open>contains\<close> is the search for a substring.\<close>

lemma containsMiddle_iff:
  assumes "length sub \<le> length s"
  shows "containsMiddle s sub \<longleftrightarrow> contains_str s sub"
proof
  assume "containsMiddle s sub"
  then have "\<exists>i \<in> {0..<Suc (length s - length sub)}. take (length sub) (drop i s) = sub"
    by (simp add: containsMiddle_def list_ex_iff del: upt_Suc)
  then obtain i where i: "take (length sub) (drop i s) = sub" ..
  then have "s = take i s @ sub @ drop (i + length sub) s"
    by (metis append_take_drop_id drop_drop add.commute)
  then show "contains_str s sub" unfolding contains_str_iff by blast
next
  assume "contains_str s sub"
  then obtain a b where "s = a @ sub @ b" by (auto simp: contains_str_iff)
  then have "length a < Suc (length s - length sub)" "take (length sub) (drop (length a) s) = sub" by simp_all
  then show "containsMiddle s sub" unfolding containsMiddle_def list_ex_iff by (intro bexI [of _ "length a"]) auto
qed

lemma tier1_contains_iff: "tier1_contains s sub \<longleftrightarrow> contains_str s sub"
proof
  assume c: "tier1_contains s sub"
  then have le: "length sub \<le> length s" by (simp add: tier1_contains_def)
  have "contains_str s sub" if "take (length sub) s = sub"
    using that unfolding contains_str_iff by (metis append_Nil append_take_drop_id)
  moreover have "contains_str s sub" if "drop (length s - length sub) s = sub"
    using that unfolding contains_str_iff by (metis append_Nil2 append_take_drop_id)
  moreover have "contains_str s s" unfolding contains_str_iff by (intro exI [of _ "[]"]) simp
  ultimately show "contains_str s sub"
    using c containsMiddle_iff [OF le] by (auto simp: tier1_contains_def)
next
  assume c: "contains_str s sub"
  then have le: "length sub \<le> length s" by (auto simp: contains_str_iff)
  have "s = sub" if "length sub = length s" using c that by (auto simp: contains_str_iff)
  then show "tier1_contains s sub"
    using c containsMiddle_iff [OF le] le by (auto simp: tier1_contains_def)
qed

text \<open>The keys keep sessions apart as long as no ID has a colon, and not otherwise.\<close>

lemma colon_split:
  assumes "d \<notin> set a" "d \<notin> set b" "a @ d # x = b @ d # y"
  shows "a = b \<and> x = y"
  using assms
proof (induction a arbitrary: b)
  case Nil
  then show ?case by (cases b) auto
next
  case (Cons c a)
  then show ?case by (cases b) auto
qed

lemma sessionKey_inject:
  assumes "CHR '':'' \<notin> set cl" "CHR '':'' \<notin> set cl'" "CHR '':'' \<notin> set s" "CHR '':'' \<notin> set s'"
  shows "sessionKey c cl s = sessionKey c cl' s' \<longleftrightarrow> cl = cl' \<and> s = s'"
proof
  assume "sessionKey c cl s = sessionKey c cl' s'"
  then have "cl @ CHR '':'' # s @ CHR '':'' # ''state'' = cl' @ CHR '':'' # s' @ CHR '':'' # ''state''"
    by (simp add: sessionKey_def redis_key_def)
  from colon_split [OF assms(1,2) this] show "cl = cl' \<and> s = s'" by simp
qed simp

lemma sessionKey_collision: "sessionKey c ''a'' ''b:c'' = sessionKey c ''a:b'' ''c''"
  by (simp add: sessionKey_def redis_key_def)

subsection \<open>Dated keys\<close>

lemma parse_digits_zeros: "parse_digits 0 (replicate n (CHR ''0'') @ s) = parse_digits 0 s"
  by (induction n) simp_all

lemma pad_zeros_inject: "pad_zeros k m = pad_zeros k n \<longleftrightarrow> m = n"
proof
  assume "pad_zeros k m = pad_zeros k n"
  then have "parse_digits 0 (pad_zeros k m) = parse_digits 0 (pad_zeros k n)" by simp
  then show "m = n" by (simp add: pad_zeros_def parse_digits_zeros parse_digits_of)
qed simp

lemma pad_zeros_no_slash: "CHR ''/'' \<notin> set (pad_zeros k n)"
  using digits_of_chars [of "CHR ''/''" n] by (auto simp: pad_zeros_def is_digit_char_def)

lemma dated_key_inject:
  "dated_key c kind cl name ext t = dated_key c kind cl name ext t' \<longleftrightarrow> s3_date c t = s3_date c t'"
proof -
  obtain y m d where t: "s3_date c t = (y, m, d)" by (cases "s3_date c t")
  obtain y' m' d' where t': "s3_date c t' = (y', m', d')" by (cases "s3_date c t'")
  have "y = y' \<and> m = m' \<and> d = d'" if "dated_key c kind cl name ext t = dated_key c kind cl name ext t'"
  proof -
    let ?rest = "\<lambda>y m d. name @ ''-'' @ pad_zeros 4 y @ pad_zeros 2 m @ pad_zeros 2 d @ ext @ ''.gz''"
    have e: "pad_zeros 4 y @ CHR ''/'' # (pad_zeros 2 m @ CHR ''/'' # ?rest y m d)
          = pad_zeros 4 y' @ CHR ''/'' # (pad_zeros 2 m' @ CHR ''/'' # ?rest y' m' d')"
      using that by (simp add: dated_key_def t t')
    note e2 = colon_split [OF pad_zeros_no_slash pad_zeros_no_slash e]
    then have y: "y = y'" by (simp only: pad_zeros_inject)
    note e3 = colon_split [OF pad_zeros_no_slash pad_zeros_no_slash conjunct2 [OF e2]]
    then have m: "m = m'" by (simp only: pad_zeros_inject)
    then have "pad_zeros 2 d = pad_zeros 2 d'" using conjunct2 [OF e3] y by simp
    then show ?thesis using y m by (simp only: pad_zeros_inject)
  qed
  then show ?thesis using t t' by (auto simp: dated_key_def)
qed

subsection \<open>What is assumed of the services\<close>

text \<open>
  \<open>objs w\<close> is what S3 holds in the world \<open>w\<close>. A request that succeeds tells the truth about it, and only
  uploads and deletions change it.
\<close>

definition s3_contract :: "'w s3_ops \<Rightarrow> ('w \<Rightarrow> string \<Rightarrow> string option) \<Rightarrow> bool" where
  "s3_contract s3 objs \<longleftrightarrow>
     (\<forall>k w w' r. so3_Exists s3 k w = (w', r) \<longrightarrow> objs w' = objs w \<and> (\<forall>b. r = Inr b \<longrightarrow> b = (objs w k \<noteq> None)))
     \<and> (\<forall>k w w' r. so3_Get s3 k w = (w', r) \<longrightarrow> objs w' = objs w \<and> (\<forall>d. r = Inr d \<longrightarrow> objs w k = Some d))
     \<and> (\<forall>k d ct md w w'. so3_Put s3 k d ct md w = (w', None) \<longrightarrow> objs w' = (objs w)(k \<mapsto> d))"

lemma s3_contractD:
  assumes "s3_contract s3 objs"
  shows "so3_Exists s3 k w = (w', r) \<Longrightarrow> objs w' = objs w"
    and "so3_Exists s3 k w = (w', Inr b) \<Longrightarrow> b = (objs w k \<noteq> None)"
    and "so3_Get s3 k w = (w', q) \<Longrightarrow> objs w' = objs w"
    and "so3_Get s3 k w = (w', Inr d) \<Longrightarrow> objs w k = Some d"
    and "so3_Put s3 k d ct md w = (w', None) \<Longrightarrow> objs w' = (objs w)(k \<mapsto> d)"
  using assms [unfolded s3_contract_def, THEN conjunct1, rule_format]
    assms [unfolded s3_contract_def, THEN conjunct2, THEN conjunct1, rule_format]
    assms [unfolded s3_contract_def, THEN conjunct2, THEN conjunct2, rule_format] by metis+

definition s3_answers :: "'w s3_ops \<Rightarrow> ('w \<Rightarrow> string \<Rightarrow> string option) \<Rightarrow> 'w \<Rightarrow> bool" where
  "s3_answers s3 objs w \<longleftrightarrow>
     (\<forall>k. \<exists>w' b. so3_Exists s3 k w = (w', Inr b) \<and> (objs w k \<noteq> None \<longrightarrow> (\<exists>w'' d. so3_Get s3 k w' = (w'', Inr d))))"

definition gzip_ok :: "s3_config \<Rightarrow> bool" where
  "gzip_ok c \<longleftrightarrow> (\<forall>x y. s3_compress c x = Inr y \<longrightarrow> s3_decompress c y = Inr x)"

text \<open>
  The hot store leaves the objects of S3 alone, and changes nothing of a session it stores but the time of
  its last access.
\<close>

definition hot_contract :: "('w, 'e) tier_store \<Rightarrow> ('w \<Rightarrow> string \<Rightarrow> string option) \<Rightarrow> bool" where
  "hot_contract hot objs \<longleftrightarrow>
     (\<forall>cl sid w. objs (fst (ts_Get hot cl sid w)) = objs w)
     \<and> (\<forall>cl sid w. objs (fst (ts_Delete hot cl sid w)) = objs w)
     \<and> (\<forall>cl s w. objs (fst (ts_Store hot cl s w)) = objs w
                  \<and> (\<exists>t. fst (snd (ts_Store hot cl s w)) = s\<lparr>sc_LastAccessedAt := t\<rparr>))"

lemma same_session: "\<exists>t. s = s\<lparr>sc_LastAccessedAt := t\<rparr>"
  by (rule exI [of _ "sc_LastAccessedAt s"]) simp

lemma tier1_hot_contract:
  assumes "\<And>k w. objs (fst (rd_Get rd k w)) = objs w" "\<And>k v d w. objs (fst (rd_Set rd k v d w)) = objs w"
    "\<And>ks w. objs (fst (rd_Delete rd ks w)) = objs w" "\<And>k fs w. objs (fst (rd_HSet rd k fs w)) = objs w"
  shows "hot_contract (tier1 rd cd clk c) objs"
proof -
  have g: "objs w' = objs w" if "rd_Get rd k w = (w', r)" for k w w' r using assms(1) [of k w] that by simp
  have s: "objs w' = objs w" if "rd_Set rd k v d w = (w', r)" for k v d w w' r using assms(2) [of k v d w] that by simp
  have d: "objs w' = objs w" if "rd_Delete rd ks w = (w', r)" for ks w w' r using assms(3) [of ks w] that by simp
  show ?thesis
    unfolding hot_contract_def tier1_def
    by (auto simp: tier1_Get_def tier1_Store_def tier1_Delete_def Let_def assms(4) dest!: g s d
        split: prod.splits sum.splits option.splits intro: same_session)
qed

subsection \<open>Archive and reconstruction\<close>

lemma tier3_Store_ok:
  assumes "s3_contract s3 objs" "tier3_Store s3 cd clk c cl s w = (w', s', None)"
  shows "\<exists>raw data. md_marshal cd s = Inr raw \<and> s3_compress c raw = Inr data \<and> sc_SessionID s \<noteq> []
           \<and> objs w' = (objs w)(tier3_sessionKey c cl (sc_SessionID s) (clk w 0) \<mapsto> data)"
  using assms(2) s3_contractD(5) [OF assms(1)]
  by (auto simp: tier3_Store_def Let_def split: if_splits sum.splits prod.splits option.splits)

lemma tier3_Get_object:
  assumes "s3_contract s3 objs" "s3_answers s3 objs w" "gzip_ok c" "sid \<noteq> []"
    and "objs w (tier3_sessionKey c cl sid (clk w 0)) = Some data" "s3_compress c raw = Inr data"
    and "md_unmarshal cd raw = Inr s"
  shows "snd (tier3_Get s3 cd clk c cl sid w) = Inr (Some s)"
proof -
  let ?k = "tier3_sessionKey c cl sid (clk w 0)"
  obtain w1 b where e: "so3_Exists s3 ?k w = (w1, Inr b)" "\<exists>w2 d. so3_Get s3 ?k w1 = (w2, Inr d)"
    using assms(2,5) unfolding s3_answers_def by blast
  then obtain w2 d where g: "so3_Get s3 ?k w1 = (w2, Inr d)" by blast
  have "objs w1 = objs w" using s3_contractD(1) [OF assms(1) e(1)] .
  moreover from this have "d = data" using s3_contractD(4) [OF assms(1) g] assms(5) by simp
  moreover have "b = True" using s3_contractD(2) [OF assms(1) e(1)] assms(5) by simp
  moreover have "s3_decompress c data = Inr raw" using assms(3,6) unfolding gzip_ok_def by blast
  ultimately show ?thesis using e(1) g assms(4,7) by (simp add: tier3_Get_def get_object_def)
qed

lemma tier3_Get_nothing:
  assumes "s3_contract s3 objs" "s3_answers s3 objs w" "sid \<noteq> []"
    and "objs w (tier3_sessionKey c cl sid (clk w 0)) = None"
  shows "snd (tier3_Get s3 cd clk c cl sid w) = Inr None"
proof -
  obtain w1 b where e: "so3_Exists s3 (tier3_sessionKey c cl sid (clk w 0)) w = (w1, Inr b)"
    using assms(2) unfolding s3_answers_def by blast
  then have "b = False" using s3_contractD(2) [OF assms(1)] assms(4) by blast
  then show ?thesis using e assms(3) by (simp add: tier3_Get_def get_object_def)
qed

text \<open>What the composite returns, by where it finds the session.\<close>

lemma reconstruct_from_cold:
  assumes "ts_Get (cm_hot cm) (rq_ClusterID req) (rq_SessionID req) w = (w1, r)" "found r = None"
    and "cm_cold cm = Some cold" "snd (ts_Get cold (rq_ClusterID req) (rq_SessionID req) w1) = Inr (Some s)"
    and "hot_contract (cm_hot cm) objs"
  shows "\<exists>t. rp_SessionContext (snd (ReconstructSession clk cm req w)) = s\<lparr>sc_LastAccessedAt := t\<rparr>"
proof -
  obtain w2 where c: "from_cold cm req w1 = (w2, Some s)"
    using assms(3,4) by (cases "ts_Get cold (rq_ClusterID req) (rq_SessionID req) w1")
      (simp add: from_cold_def found_def)
  obtain t where "fst (snd (ts_Store (cm_hot cm) (rq_ClusterID req) s w2)) = s\<lparr>sc_LastAccessedAt := t\<rparr>"
    using assms(5) unfolding hot_contract_def by blast
  then show ?thesis using assms(1,2) c
    by (auto simp: ReconstructSession_def split: prod.split)
qed

lemma reconstruct_fresh:
  assumes "ts_Get (cm_hot cm) (rq_ClusterID req) (rq_SessionID req) w = (w1, r)" "found r = None"
    and "from_cold cm req w1 = (w2, None)" "hot_contract (cm_hot cm) objs"
  shows "\<exists>t t' chunks entries. rp_SessionContext (snd (ReconstructSession clk cm req w))
           = (fresh_session req t t')\<lparr>sc_RelevantKnowledge := chunks, sc_JournalEntries := entries\<rparr>"
proof -
  obtain w3 entries where j: "journal_entries cm (rq_TaskID req) w2 = (w3, entries)" by fastforce
  obtain w4 chunks where k: "relevant_knowledge cm req w3 = (w4, chunks)" by fastforce
  let ?s = "(fresh_session req (clk w2 0) (clk w2 1))\<lparr>sc_RelevantKnowledge := chunks, sc_JournalEntries := entries\<rparr>"
  obtain t where "fst (snd (ts_Store (cm_hot cm) (rq_ClusterID req) ?s w4)) = ?s\<lparr>sc_LastAccessedAt := t\<rparr>"
    using assms(4) unfolding hot_contract_def by blast
  also have "\<dots> = (fresh_session req (clk w2 0) t)\<lparr>sc_RelevantKnowledge := chunks, sc_JournalEntries := entries\<rparr>"
    by (simp add: fresh_session_def)
  finally have "\<exists>t. fst (snd (ts_Store (cm_hot cm) (rq_ClusterID req) ?s w4))
      = (fresh_session req (clk w2 0) t)\<lparr>sc_RelevantKnowledge := chunks, sc_JournalEntries := entries\<rparr>" ..
  moreover have "rp_SessionContext (snd (ReconstructSession clk cm req w))
      = fst (snd (ts_Store (cm_hot cm) (rq_ClusterID req) ?s w4))"
    using assms(1-3) j k by (simp add: ReconstructSession_def split: prod.split)
  ultimately show ?thesis by metis
qed

text \<open>What an archived session has left in the world: its object, under the date of the archiving.\<close>

lemma archived_object:
  assumes "s3_contract s3 objs" "hot_contract (cm_hot cm) objs" "cm_cold cm = Some (tier3 s3 cd clk c)"
    and "ts_Get (cm_hot cm) cl sid w = (w1, Inr (Some s))" "sc_SessionID s = sid"
    and "ArchiveSession cm cl sid w = (w2, None)"
  shows "\<exists>raw data. md_marshal cd s = Inr raw \<and> s3_compress c raw = Inr data \<and> sid \<noteq> []
           \<and> objs w2 = (objs w)(tier3_sessionKey c cl sid (clk w1 0) \<mapsto> data)"
proof -
  obtain w3 s' r where st: "tier3_Store s3 cd clk c cl s w1 = (w3, s', r)" by (metis prod_cases3)
  have r: "r = None" "w2 = fst (ts_Delete (cm_hot cm) cl sid w3)"
    using assms(3,4,6) st by (auto simp: ArchiveSession_def tier3_def split: option.splits)
  have "objs w1 = objs w" "objs w2 = objs w3"
    using assms(2,4) r(2) unfolding hot_contract_def by (metis fst_conv)+
  then show ?thesis using tier3_Store_ok [OF assms(1) st [unfolded r(1)]] assms(5) by auto
qed

text \<open>
  C39. An archived session can be restored on the day of its archiving only. Take a session that is in the
  hot tier and archive it, successfully, with the cold tier on S3. Later, when the hot tier no longer has it and
  the objects in S3 are the same, reconstruct it, with S3 answering: if the date is still that of the
  archiving, the reconstructed session is the archived one (but for the time of the last access), and if the
  date is another one it is a new session with no state and an empty scratchpad, although the archived object
  is still there: the name of the object contains the date, and it is looked up under the current date.
\<close>

theorem archive_roundtrip:
  assumes s3: "s3_contract s3 objs" and hot: "hot_contract (cm_hot cm) objs"
    and cold: "cm_cold cm = Some (tier3 s3 cd clk c)" and gz: "gzip_ok c"
    and json: "\<And>raw. md_marshal cd s = Inr raw \<Longrightarrow> md_unmarshal cd raw = Inr s"
    and get: "ts_Get (cm_hot cm) cl sid w = (w1, Inr (Some s))" and sid: "sc_SessionID s = sid"
    and once: "\<And>t. objs w (tier3_sessionKey c cl sid t) = None"
    and arch: "ArchiveSession cm cl sid w = (w2, None)"
    and later: "objs v = objs w2" "ts_Get (cm_hot cm) cl sid v = (v1, r)" "found r = None" "s3_answers s3 objs v1"
    and req: "rq_ClusterID req = cl" "rq_SessionID req = sid"
  shows "if s3_date c (clk v1 0) = s3_date c (clk w1 0)
         then \<exists>t. rp_SessionContext (snd (ReconstructSession clk cm req v)) = s\<lparr>sc_LastAccessedAt := t\<rparr>
         else sc_State (rp_SessionContext (snd (ReconstructSession clk cm req v))) = []
              \<and> sc_Scratchpad (rp_SessionContext (snd (ReconstructSession clk cm req v))) = []"
proof -
  obtain raw data where o: "md_marshal cd s = Inr raw" "s3_compress c raw = Inr data" "sid \<noteq> []"
      "objs w2 = (objs w)(tier3_sessionKey c cl sid (clk w1 0) \<mapsto> data)"
    using archived_object [OF s3 hot cold get sid arch] by blast
  have v1: "objs v1 = objs w2"
    using hot later(1,2) unfolding hot_contract_def by (metis fst_conv)
  have key: "tier3_sessionKey c cl sid (clk v1 0) = tier3_sessionKey c cl sid (clk w1 0)
      \<longleftrightarrow> s3_date c (clk v1 0) = s3_date c (clk w1 0)"
    by (simp add: tier3_sessionKey_def dated_key_inject)
  have ts: "ts_Get (tier3 s3 cd clk c) cl sid v1 = tier3_Get s3 cd clk c cl sid v1" by (simp add: tier3_def)
  show ?thesis
  proof (cases "s3_date c (clk v1 0) = s3_date c (clk w1 0)")
    case True
    then have "objs v1 (tier3_sessionKey c cl sid (clk v1 0)) = Some data" using v1 o(4) key by simp
    then have "snd (ts_Get (tier3 s3 cd clk c) cl sid v1) = Inr (Some s)"
      unfolding ts by (rule tier3_Get_object [OF s3 later(4) gz o(3) _ o(2) json [OF o(1)]])
    then show ?thesis
      using True reconstruct_from_cold [of cm req v v1 r "tier3 s3 cd clk c" s objs clk] later(2,3) req cold hot
      by simp
  next
    case False
    then have "objs v1 (tier3_sessionKey c cl sid (clk v1 0)) = None" using v1 o(4) key once by simp
    then have none: "snd (ts_Get (tier3 s3 cd clk c) cl sid v1) = Inr None"
      unfolding ts by (rule tier3_Get_nothing [OF s3 later(4) o(3)])
    then obtain w3 where "from_cold cm req v1 = (w3, None)"
      using cold req by (cases "ts_Get (tier3 s3 cd clk c) cl sid v1") (simp add: from_cold_def found_def)
    then obtain t t' chunks entries where "rp_SessionContext (snd (ReconstructSession clk cm req v))
        = (fresh_session req t t')\<lparr>sc_RelevantKnowledge := chunks, sc_JournalEntries := entries\<rparr>"
      using reconstruct_fresh [of cm req v v1 r w3 objs clk] later(2,3) req hot by auto
    then show ?thesis using False by (simp add: fresh_session_def)
  qed
qed

text \<open>
  An instance: the world is the day and the objects, S3 answers from them, and the hot tier has the session
  on day 0 only.
\<close>

type_synonym demo_world = "nat \<times> (string \<Rightarrow> string option)"

definition demo_s3 :: "demo_world s3_ops" where
  "demo_s3 =
     \<lparr>so3_Put = (\<lambda>k d _ _ w. ((fst w, (snd w)(k \<mapsto> d)), None)),
      so3_Get = (\<lambda>k w. (w, case snd w k of None \<Rightarrow> Inl ''object not found'' | Some d \<Rightarrow> Inr d)),
      so3_Delete = (\<lambda>k w. ((fst w, (snd w)(k := None)), None)),
      so3_Exists = (\<lambda>k w. (w, Inr (snd w k \<noteq> None)))\<rparr>"

definition demo_session :: "unit memory_session" where
  "demo_session =
     \<lparr>sc_SessionID = ''s'', sc_TaskID = ''t'', sc_ClusterID = ''c'', sc_ProjectID = [], sc_CreatedAt = 0,
      sc_LastAccessedAt = 0, sc_State = ''work'', sc_RelevantKnowledge = [], sc_Scratchpad = ''notes'',
      sc_JournalEntries = []\<rparr>"

definition demo_codec :: "unit memory_codec" where
  "demo_codec =
     \<lparr>md_marshal = (\<lambda>_. Inr ''json''), md_unmarshal = (\<lambda>_. Inr demo_session), md_rfc3339nano = (\<lambda>_. []),
      md_rfc3339 = (\<lambda>_. [])\<rparr>"

definition demo_clk :: "demo_world \<Rightarrow> clock" where
  "demo_clk w = (\<lambda>_. int (fst w))"

definition demo_s3_config :: s3_config where
  "demo_s3_config =
     \<lparr>s3_KeyPrefix = [], s3_RetentionDays = 90, s3_compress = Inr, s3_decompress = Inr,
      s3_date = (\<lambda>t. (2026, 1, nat t))\<rparr>"

definition demo_hot :: "(demo_world, unit) tier_store" where
  "demo_hot =
     \<lparr>ts_Get = (\<lambda>_ _ w. (w, Inr (if fst w = 0 then Some demo_session else None))),
      ts_Store = (\<lambda>_ s w. (w, s, None)), ts_Delete = (\<lambda>_ _ w. (w, None)),
      ts_QueryKnowledge = (\<lambda>_ w. (w, Inr [])), ts_StoreKnowledge = (\<lambda>_ w. (w, None))\<rparr>"

definition demo_composite :: "(demo_world, unit) composite" where
  "demo_composite =
     \<lparr>cm_hot = demo_hot, cm_warm = None, cm_cold = Some (tier3 demo_s3 demo_codec demo_clk demo_s3_config),
      cm_journal = None\<rparr>"

definition demo_request :: ReMeRequest where
  "demo_request = \<lparr>rq_SessionID = ''s'', rq_TaskID = ''t'', rq_ClusterID = ''c'', rq_ProjectID = []\<rparr>"

lemma demo_contracts:
  "s3_contract demo_s3 snd" "s3_answers demo_s3 snd w" "hot_contract demo_hot snd" "gzip_ok demo_s3_config"
  by (auto simp: s3_contract_def s3_answers_def hot_contract_def gzip_ok_def demo_s3_def demo_hot_def
      demo_s3_config_def intro: same_session split: option.splits)

theorem archive_roundtrip_witness:
  "\<exists>w. ArchiveSession demo_composite ''c'' ''s'' (0, Map.empty) = (w, None)
       \<and> sc_State (rp_SessionContext (snd (ReconstructSession demo_clk demo_composite demo_request (1, snd w)))) = []
       \<and> snd w (tier3_sessionKey demo_s3_config ''c'' ''s'' 0) = Some ''json''"
proof -
  define w :: demo_world where
    "w = (0, [tier3_sessionKey demo_s3_config ''c'' ''s'' 0 \<mapsto> ''json''])"
  have arch: "ArchiveSession demo_composite ''c'' ''s'' (0, Map.empty) = (w, None)"
    by (simp add: ArchiveSession_def demo_composite_def demo_hot_def tier3_def tier3_Store_def demo_codec_def
        demo_session_def demo_s3_def demo_s3_config_def demo_clk_def w_def Let_def)
  have hot: "hot_contract (cm_hot demo_composite) snd"
    and cold: "cm_cold demo_composite = Some (tier3 demo_s3 demo_codec demo_clk demo_s3_config)"
    by (simp_all add: demo_composite_def demo_contracts)
  have get: "ts_Get (cm_hot demo_composite) ''c'' ''s'' (0, Map.empty) = ((0, Map.empty), Inr (Some demo_session))"
    "ts_Get (cm_hot demo_composite) ''c'' ''s'' (1, snd w) = ((1, snd w), Inr None)" "sc_SessionID demo_session = ''s''"
    by (simp_all add: demo_composite_def demo_hot_def demo_session_def)
  have json: "md_unmarshal demo_codec raw = Inr demo_session" for raw by (simp add: demo_codec_def)
  have rest: "found (Inr None) = (None :: unit memory_session option)" "rq_ClusterID demo_request = ''c''"
    "rq_SessionID demo_request = ''s''" "snd (1 :: nat, snd w) = snd w" "snd (0 :: nat, Map.empty) k = None" for k
    by (simp_all add: found_def demo_request_def)
  have "sc_State (rp_SessionContext (snd (ReconstructSession demo_clk demo_composite demo_request (1, snd w)))) = []"
    using archive_roundtrip [OF demo_contracts(1) hot cold demo_contracts(4) json get(1,3) rest(5) arch rest(4)
        get(2) rest(1) demo_contracts(2) rest(2,3)]
    by (simp add: demo_clk_def demo_s3_config_def)
  then show ?thesis using arch by (auto simp: w_def)
qed

text \<open>Reconstruction never fails, and what it gives has the ID that was asked for, wherever it comes from.\<close>

definition stores_own_id :: "('w, 'e) tier_store \<Rightarrow> bool" where
  "stores_own_id st \<longleftrightarrow> (\<forall>cl sid w w' s. ts_Get st cl sid w = (w', Inr (Some s)) \<longrightarrow> sc_SessionID s = sid)"

lemma reconstruct_id:
  assumes "stores_own_id (cm_hot cm)" "\<And>cold. cm_cold cm = Some cold \<Longrightarrow> stores_own_id cold"
    and "hot_contract (cm_hot cm) objs"
  shows "sc_SessionID (rp_SessionContext (snd (ReconstructSession clk cm req w))) = rq_SessionID req"
proof -
  obtain w1 r where g: "ts_Get (cm_hot cm) (rq_ClusterID req) (rq_SessionID req) w = (w1, r)" by fastforce
  show ?thesis
  proof (cases "found r")
    case (Some s)
    then have "r = Inr (Some s)" by (auto simp: found_def split: sum.splits option.splits)
    then show ?thesis using g assms(1) Some by (auto simp: ReconstructSession_def stores_own_id_def)
  next
    case None
    show ?thesis
    proof (cases "from_cold cm req w1")
      case (Pair w2 c)
      show ?thesis
      proof (cases c)
        case None2: None
        from reconstruct_fresh [OF g None Pair [unfolded None2] assms(3), of clk] show ?thesis
          by (auto simp: fresh_session_def)
      next
        case (Some s)
        then obtain cold where cold: "cm_cold cm = Some cold"
            "snd (ts_Get cold (rq_ClusterID req) (rq_SessionID req) w1) = Inr (Some s)"
          using Pair by (auto simp: from_cold_def found_def split: option.splits prod.splits sum.splits)
        then have "sc_SessionID s = rq_SessionID req"
          using assms(2) unfolding stores_own_id_def by (metis prod.collapse)
        then show ?thesis
          using reconstruct_from_cold [OF g None cold assms(3), of clk] by auto
      qed
    qed
  qed
qed

end
