(* ===== verification/Agent_State.thy ===== *)
theory Agent_State
  imports Memory_Properties
begin

text \<open>
  The state of an agent and its persistence in the memory (\<open>internal/agent/state.go\<close>), the binders the worker
  pool uses (\<open>internal/agent/binding.go\<close>), and the in-memory implementation of the memory that the program
  starts with when it has no Redis (\<open>mockZenContext\<close> of \<open>cmd/zen-brain/main.go\<close>).

  JSON is a parameter. The sessions of the in-memory implementation are values here: the code keeps the
  pointers, and the state manager changes the session it got before it stores the same one again.
\<close>

subsection \<open>The state of an agent\<close>

record AgentDecision =
  ad_ID :: string
  ad_Decision :: string
  ad_Reason :: string
  ad_Alternatives :: "string list"
  ad_Confidence :: float64
  ad_MadeAt :: time

record AgentObservation =
  ao_ID :: string
  ao_Observation :: string
  ao_Source :: string
  ao_Timestamp :: time
  ao_Significance :: float64

record AgentError =
  agerr_ID :: string
  agerr_Error :: string
  agerr_Step :: string
  agerr_Recovered :: bool
  agerr_RecoveryAction :: string
  agerr_OccurredAt :: time

record AgentState =
  as_AgentID :: string
  as_AgentRole :: string
  as_SessionID :: string
  as_TaskID :: string
  as_CurrentStep :: string
  as_StepStarted :: time
  as_StepProgress :: float64
  as_WorkingMemory :: "string list"
  as_Decisions :: "AgentDecision list"
  as_Observations :: "AgentObservation list"
  as_KnowledgeChunkIDs :: "string list"
  as_KnowledgeQueries :: "string list"
  as_ModelUsed :: string
  as_TokenCount :: int
  as_LastModelCall :: time
  as_StepsCompleted :: int
  as_ErrorsEncountered :: "AgentError list"
  as_RetryCount :: int
  as_CreatedAt :: time
  as_UpdatedAt :: time
  as_LastHeartbeat :: time
  as_IsComplete :: bool
  as_CompletedAt :: time
  as_Result :: string
  as_ResultReason :: string

definition NewAgentState :: "time \<Rightarrow> string \<Rightarrow> string \<Rightarrow> string \<Rightarrow> string \<Rightarrow> AgentState" where
  "NewAgentState now agentID role sessionID taskID =
     \<lparr>as_AgentID = agentID, as_AgentRole = role, as_SessionID = sessionID, as_TaskID = taskID,
      as_CurrentStep = [], as_StepStarted = 0, as_StepProgress = Fin 0, as_WorkingMemory = [],
      as_Decisions = [], as_Observations = [], as_KnowledgeChunkIDs = [], as_KnowledgeQueries = [],
      as_ModelUsed = [], as_TokenCount = 0, as_LastModelCall = 0, as_StepsCompleted = 0,
      as_ErrorsEncountered = [], as_RetryCount = 0, as_CreatedAt = now, as_UpdatedAt = now,
      as_LastHeartbeat = now, as_IsComplete = False, as_CompletedAt = 0, as_Result = [],
      as_ResultReason = []\<rparr>"

definition UpdateStep :: "clock \<Rightarrow> string \<Rightarrow> AgentState \<Rightarrow> AgentState" where
  "UpdateStep clk step s =
     s\<lparr>as_CurrentStep := step, as_StepStarted := clk 0, as_StepProgress := Fin 0, as_UpdatedAt := clk 1\<rparr>"

definition UpdateProgress :: "clock \<Rightarrow> float64 \<Rightarrow> AgentState \<Rightarrow> AgentState" where
  "UpdateProgress clk progress0 s =
     (let p1 = (if flt progress0 (Fin 0) then Fin 0 else progress0);
          p2 = (if fgt p1 (Fin 1) then Fin 1 else p1)
      in s\<lparr>as_StepProgress := p2, as_UpdatedAt := clk 0\<rparr>)"

definition CompleteStep :: "clock \<Rightarrow> AgentState \<Rightarrow> AgentState" where
  "CompleteStep clk s =
     s\<lparr>as_StepsCompleted := as_StepsCompleted s + 1, as_CurrentStep := [], as_StepProgress := Fin 1,
      as_StepStarted := 0, as_UpdatedAt := clk 0\<rparr>"

definition AddDecision ::
    "clock \<Rightarrow> string \<Rightarrow> string \<Rightarrow> float64 \<Rightarrow> string list \<Rightarrow> AgentState \<Rightarrow> AgentState" where
  "AddDecision clk decision reason confidence alternatives s =
     s\<lparr>as_Decisions := as_Decisions s @
        [\<lparr>ad_ID = ''decision-'' @ itoa (int (length (as_Decisions s)) + 1), ad_Decision = decision,
          ad_Reason = reason, ad_Alternatives = alternatives, ad_Confidence = confidence,
          ad_MadeAt = clk 0\<rparr>],
      as_UpdatedAt := clk 1\<rparr>"

definition AddObservation :: "clock \<Rightarrow> string \<Rightarrow> string \<Rightarrow> float64 \<Rightarrow> AgentState \<Rightarrow> AgentState" where
  "AddObservation clk observation source significance s =
     s\<lparr>as_Observations := as_Observations s @
        [\<lparr>ao_ID = ''observation-'' @ itoa (int (length (as_Observations s)) + 1), ao_Observation = observation,
          ao_Source = source, ao_Timestamp = clk 0, ao_Significance = significance\<rparr>],
      as_UpdatedAt := clk 1\<rparr>"

definition AddError :: "clock \<Rightarrow> string \<Rightarrow> string \<Rightarrow> bool \<Rightarrow> string \<Rightarrow> AgentState \<Rightarrow> AgentState" where
  "AddError clk errStr step recovered recoveryAction s =
     s\<lparr>as_ErrorsEncountered := as_ErrorsEncountered s @
        [\<lparr>agerr_ID = ''error-'' @ itoa (int (length (as_ErrorsEncountered s)) + 1), agerr_Error = errStr,
          agerr_Step = step, agerr_Recovered = recovered, agerr_RecoveryAction = recoveryAction,
          agerr_OccurredAt = clk 0\<rparr>],
      as_UpdatedAt := clk 1\<rparr>"

definition AddKnowledgeReference :: "time \<Rightarrow> string \<Rightarrow> AgentState \<Rightarrow> AgentState" where
  "AddKnowledgeReference now chunkID s =
     s\<lparr>as_KnowledgeChunkIDs := as_KnowledgeChunkIDs s @ [chunkID], as_UpdatedAt := now\<rparr>"

definition RecordKnowledgeQuery :: "time \<Rightarrow> string \<Rightarrow> AgentState \<Rightarrow> AgentState" where
  "RecordKnowledgeQuery now query s =
     s\<lparr>as_KnowledgeQueries := as_KnowledgeQueries s @ [query], as_UpdatedAt := now\<rparr>"

definition RecordModelCall :: "clock \<Rightarrow> string \<Rightarrow> int \<Rightarrow> AgentState \<Rightarrow> AgentState" where
  "RecordModelCall clk model tokens s =
     s\<lparr>as_ModelUsed := model, as_TokenCount := int64 (as_TokenCount s + tokens), as_LastModelCall := clk 0,
      as_UpdatedAt := clk 1\<rparr>"

definition agent_UpdateHeartbeat :: "clock \<Rightarrow> AgentState \<Rightarrow> AgentState" where
  "agent_UpdateHeartbeat clk s = s\<lparr>as_LastHeartbeat := clk 0, as_UpdatedAt := clk 1\<rparr>"

definition agent_Complete :: "clock \<Rightarrow> string \<Rightarrow> string \<Rightarrow> AgentState \<Rightarrow> AgentState" where
  "agent_Complete clk result reason s =
     s\<lparr>as_IsComplete := True, as_CompletedAt := clk 0, as_Result := result, as_ResultReason := reason,
      as_CurrentStep := [], as_StepProgress := Fin 1, as_UpdatedAt := clk 1\<rparr>"

subsection \<open>The interface of the memory\<close>

text \<open>
  The operations of \<open>ZenContext\<close> that clients use; a nil session is \<open>None\<close>. Storing gives the session back
  with what the store changed in it.
\<close>

record ('w, 'e) zen_memory_ops =
  zm_Get :: "string \<Rightarrow> string \<Rightarrow> 'w \<Rightarrow> 'w \<times> (string + 'e memory_session option)"
  zm_Store :: "string \<Rightarrow> 'e memory_session \<Rightarrow> 'w \<Rightarrow> 'w \<times> 'e memory_session \<times> string option"
  zm_Reconstruct :: "ReMeRequest \<Rightarrow> 'w \<Rightarrow> 'w \<times> (string + 'e memory_session option)"
  zm_QueryKnowledge :: "memory_query \<Rightarrow> 'w \<Rightarrow> 'w \<times> (string + KnowledgeChunk list)"

definition composite_memory :: "('w \<Rightarrow> clock) \<Rightarrow> ('w, 'e) composite \<Rightarrow> ('w, 'e) zen_memory_ops" where
  "composite_memory clk cm =
     \<lparr>zm_Get = ts_Get (cm_hot cm), zm_Store = ts_Store (cm_hot cm),
      zm_Reconstruct = (\<lambda>req w. case ReconstructSession clk cm req w of
                                  (w', resp) \<Rightarrow> (w', Inr (Some (rp_SessionContext resp)))),
      zm_QueryKnowledge = cm_QueryKnowledge cm\<rparr>"

subsection \<open>The state manager\<close>

record agent_codec =
  ac_marshal :: "AgentState \<Rightarrow> string + string"
  ac_unmarshal :: "string \<Rightarrow> string + AgentState"

datatype agent_error =
    MemoryNotConfigured
  | SerializeFailed string
  | ReconstructFailed "string option"
  | StoreContextFailed string
  | DeserializeFailed string
  | LoadStateFailed agent_error
  | KnowledgeQueryFailed string

definition state_cluster :: "string \<Rightarrow> string" where
  "state_cluster cluster = (if cluster = [] then ''default'' else cluster)"

definition Serialize :: "agent_codec \<Rightarrow> time \<Rightarrow> AgentState \<Rightarrow> AgentState \<times> (string + string)" where
  "Serialize ac now s = (let s' = s\<lparr>as_UpdatedAt := now\<rparr> in (s', ac_marshal ac s'))"

text \<open>The session of an ID, from the memory or reconstructed.\<close>

definition get_or_reconstruct ::
    "('w, 'e) zen_memory_ops \<Rightarrow> string \<Rightarrow> string \<Rightarrow> string \<Rightarrow> 'w \<Rightarrow> 'w \<times> (agent_error + 'e memory_session)" where
  "get_or_reconstruct zm cluster sessionID taskID w =
     (case zm_Get zm cluster sessionID w of
        (w1, r1) \<Rightarrow>
          (case found r1 of
             Some s \<Rightarrow> (w1, Inr s)
           | None \<Rightarrow>
               (case zm_Reconstruct zm
                       \<lparr>rq_SessionID = sessionID, rq_TaskID = taskID, rq_ClusterID = cluster, rq_ProjectID = []\<rparr> w1 of
                  (w2, Inl e) \<Rightarrow> (w2, Inl (ReconstructFailed (Some e)))
                | (w2, Inr None) \<Rightarrow> (w2, Inl (ReconstructFailed None))
                | (w2, Inr (Some s)) \<Rightarrow> (w2, Inr s))))"

definition StoreAgentState ::
    "agent_codec \<Rightarrow> ('w \<Rightarrow> clock) \<Rightarrow> ('w, 'e) zen_memory_ops option \<Rightarrow> string \<Rightarrow> AgentState \<Rightarrow> 'w
     \<Rightarrow> 'w \<times> AgentState \<times> agent_error option" where
  "StoreAgentState ac clk zctx cluster state w =
     (case zctx of
        None \<Rightarrow> (w, state, Some MemoryNotConfigured)
      | Some zm \<Rightarrow>
          (case Serialize ac (clk w 0) state of
             (state', Inl e) \<Rightarrow> (w, state', Some (SerializeFailed e))
           | (state', Inr stateBytes) \<Rightarrow>
               (case get_or_reconstruct zm cluster (as_SessionID state') (as_TaskID state') w of
                  (w1, Inl e) \<Rightarrow> (w1, state', Some e)
                | (w1, Inr sessionCtx) \<Rightarrow>
                    (case zm_Store zm cluster
                            (sessionCtx\<lparr>sc_State := stateBytes, sc_LastAccessedAt := clk w1 0\<rparr>) w1 of
                       (w2, _, Some e) \<Rightarrow> (w2, state', Some (StoreContextFailed e))
                     | (w2, _, None) \<Rightarrow> (w2, state', None)))))"

definition LoadAgentState ::
    "agent_codec \<Rightarrow> ('w, 'e) zen_memory_ops option \<Rightarrow> string \<Rightarrow> string \<Rightarrow> 'w
     \<Rightarrow> 'w \<times> (agent_error + AgentState option)" where
  "LoadAgentState ac zctx cluster sessionID w =
     (case zctx of
        None \<Rightarrow> (w, Inl MemoryNotConfigured)
      | Some zm \<Rightarrow>
          (case get_or_reconstruct zm cluster sessionID [] w of
             (w1, Inl e) \<Rightarrow> (w1, Inl e)
           | (w1, Inr sessionCtx) \<Rightarrow>
               (w1, if sc_State sessionCtx = [] then Inr None
                    else case ac_unmarshal ac (sc_State sessionCtx) of
                           Inl e \<Rightarrow> Inl (DeserializeFailed e) | Inr state \<Rightarrow> Inr (Some state))))"

fun add_references :: "clock \<Rightarrow> nat \<Rightarrow> KnowledgeChunk list \<Rightarrow> AgentState \<Rightarrow> AgentState" where
  "add_references clk i [] s = s"
| "add_references clk i (c # cs) s = add_references clk (Suc i) cs (AddKnowledgeReference (clk i) (kc_ID c) s)"

definition agent_QueryKnowledge ::
    "agent_codec \<Rightarrow> ('w \<Rightarrow> clock) \<Rightarrow> ('w, 'e) zen_memory_ops option \<Rightarrow> string \<Rightarrow> string \<Rightarrow> string \<Rightarrow> string list
     \<Rightarrow> int \<Rightarrow> 'w \<Rightarrow> 'w \<times> (agent_error + KnowledgeChunk list)" where
  "agent_QueryKnowledge ac clk zctx cluster sessionID query scopes limit w =
     (case zctx of
        None \<Rightarrow> (w, Inl MemoryNotConfigured)
      | Some zm \<Rightarrow>
          (case LoadAgentState ac zctx cluster sessionID w of
             (w1, Inl e) \<Rightarrow> (w1, Inl (LoadStateFailed e))
           | (w1, Inr agentState) \<Rightarrow>
               (case zm_QueryKnowledge zm
                       \<lparr>mq_Query = query, mq_Scopes = scopes, mq_Limit = limit, mq_MinSimilarity = Fin 0,
                        mq_ClusterID = [], mq_ProjectID = []\<rparr> w1 of
                  (w2, Inl e) \<Rightarrow> (w2, Inl (KnowledgeQueryFailed e))
                | (w2, Inr chunks) \<Rightarrow>
                    (case agentState of
                       None \<Rightarrow> (w2, Inr chunks)
                     | Some s \<Rightarrow>
                         (fst (StoreAgentState ac clk zctx cluster
                                 (add_references (clk w2) 1 chunks (RecordKnowledgeQuery (clk w2 0) query s)) w2),
                          Inr chunks)))))"

definition ReconstructAgent ::
    "agent_codec \<Rightarrow> ('w \<Rightarrow> clock) \<Rightarrow> ('w, 'e) zen_memory_ops option \<Rightarrow> string \<Rightarrow> string \<Rightarrow> string \<Rightarrow> 'w
     \<Rightarrow> 'w \<times> (agent_error + AgentState \<times> KnowledgeChunk list) go_result" where
  "ReconstructAgent ac clk zctx cluster sessionID taskID w =
     (case zctx of
        None \<Rightarrow> (w, Returns (Inl MemoryNotConfigured))
      | Some zm \<Rightarrow>
          (case zm_Reconstruct zm
                  \<lparr>rq_SessionID = sessionID, rq_TaskID = taskID, rq_ClusterID = cluster, rq_ProjectID = []\<rparr> w of
             (w1, Inl e) \<Rightarrow> (w1, Returns (Inl (ReconstructFailed (Some e))))
           | (w1, Inr None) \<Rightarrow> (w1, Panic)
           | (w1, Inr (Some ctx)) \<Rightarrow>
               let fresh = NewAgentState (clk w1 0) [] ''planner'' sessionID taskID;
                   state = (if sc_State ctx = [] then fresh
                            else case ac_unmarshal ac (sc_State ctx) of Inl _ \<Rightarrow> fresh | Inr s \<Rightarrow> s)
               in (w1, Returns (Inr (state, sc_RelevantKnowledge ctx)))))"

subsection \<open>Binders\<close>

definition binder_cluster :: "string \<Rightarrow> string \<Rightarrow> string" where
  "binder_cluster own cluster = (if cluster = [] then state_cluster own else cluster)"

definition zen_GetForContinuation ::
    "('w, 'e) zen_memory_ops \<Rightarrow> string \<Rightarrow> string \<Rightarrow> string \<Rightarrow> string \<Rightarrow> 'w \<Rightarrow> 'w \<times> (string + 'e memory_session option)" where
  "zen_GetForContinuation zm own cluster sessionID taskID w = zm_Get zm (binder_cluster own cluster) sessionID w"

definition reme_GetForContinuation ::
    "('w, 'e) zen_memory_ops \<Rightarrow> string \<Rightarrow> string \<Rightarrow> string \<Rightarrow> string \<Rightarrow> 'w \<Rightarrow> 'w \<times> (string + 'e memory_session option)" where
  "reme_GetForContinuation zm own cluster sessionID taskID w =
     zm_Reconstruct zm
       \<lparr>rq_SessionID = sessionID, rq_TaskID = taskID, rq_ClusterID = binder_cluster own cluster, rq_ProjectID = []\<rparr> w"

definition WriteIntermediate ::
    "('w, 'e) zen_memory_ops \<Rightarrow> string \<Rightarrow> string \<Rightarrow> 'e memory_session \<Rightarrow> 'w \<Rightarrow> 'w \<times> 'e memory_session \<times> string option" where
  "WriteIntermediate zm own cluster session w = zm_Store zm (binder_cluster own cluster) session w"

subsection \<open>The memory of a program without Redis\<close>

type_synonym 'e mock_sessions = "string \<rightharpoonup> 'e memory_session"

definition mock_key :: "string \<Rightarrow> string \<Rightarrow> string" where
  "mock_key cluster sessionID = cluster @ '':'' @ sessionID"

definition mock_Store ::
    "string \<Rightarrow> 'e memory_session \<Rightarrow> 'e mock_sessions \<Rightarrow> 'e mock_sessions \<times> 'e memory_session \<times> string option" where
  "mock_Store cluster session m = (m(mock_key cluster (sc_SessionID session) \<mapsto> session), session, None)"

definition mock_Delete :: "string \<Rightarrow> string \<Rightarrow> 'e mock_sessions \<Rightarrow> 'e mock_sessions" where
  "mock_Delete cluster sessionID m = m(mock_key cluster sessionID := None)"

definition mock_Reconstruct ::
    "clock \<Rightarrow> ReMeRequest \<Rightarrow> 'e mock_sessions \<Rightarrow> 'e mock_sessions \<times> (string + 'e memory_session option)" where
  "mock_Reconstruct clk req m =
     (let key = mock_key (rq_ClusterID req) (rq_SessionID req)
      in case m key of
           Some s \<Rightarrow> (m, Inr (Some s))
         | None \<Rightarrow> let s = fresh_session req (clk 0) (clk 1) in (m(key \<mapsto> s), Inr (Some s)))"

definition mock_memory :: "clock \<Rightarrow> ('e mock_sessions, 'e) zen_memory_ops" where
  "mock_memory clk =
     \<lparr>zm_Get = (\<lambda>cluster sessionID m. (m, Inr (m (mock_key cluster sessionID)))),
      zm_Store = mock_Store, zm_Reconstruct = mock_Reconstruct clk,
      zm_QueryKnowledge = (\<lambda>_ m. (m, Inr []))\<rparr>"

end
