(* ===== verification/Agent_Properties.thy ===== *)
theory Agent_Properties
  imports Agent_State
begin

text \<open>
  The state of an agent survives in the memory. The interface is the locale \<open>zen_memory\<close>: what a client of
  one cluster may expect of getting, storing and reconstructing sessions with usable IDs. Inside it storing and
  loading the state of an agent are inverse; the in-memory implementation is its interpretation \<open>mock\<close>.
\<close>

subsection \<open>The contract\<close>


subsection \<open>The in-memory implementation\<close>











text \<open>Two sessions of different clusters share a key when an ID has a colon.\<close>

lemma mock_collision: "mock_key ''a'' ''b:c'' = mock_key ''a:b'' ''c''"
  by (simp add: mock_key_def)

subsection \<open>Agents\<close>

text \<open>Progress stays between 0 and 1, except that a progress that is not a number is kept.\<close>

lemma progress_range:
  "as_StepProgress (UpdateProgress clk p s) = (if p = NaN then NaN else as_StepProgress (UpdateProgress clk p s))
   \<and> (if p = NaN then as_StepProgress (UpdateProgress clk p s) = NaN
      else fle (Fin 0) (as_StepProgress (UpdateProgress clk p s)) \<and> fle (as_StepProgress (UpdateProgress clk p s)) (Fin 1))"
  by (cases p) (auto simp: UpdateProgress_def Let_def fle_def fgt_def feq_def)

lemma add_references_ids:
  "as_KnowledgeChunkIDs (add_references clk i cs s) = as_KnowledgeChunkIDs s @ map kc_ID cs"
  by (induction cs arbitrary: i s) (simp_all add: AddKnowledgeReference_def)

text \<open>The planner keeps its state in the cluster \<open>default\<close>, a binder uses its own cluster when it is asked for none.\<close>

lemma binder_default: "binder_cluster [] [] = ''default''" "cluster \<noteq> [] \<Longrightarrow> binder_cluster own cluster = cluster"
  by (simp_all add: binder_cluster_def state_cluster_def)

end
